(* ===== verification/Prelude.thy ===== *)
theory Prelude
  imports Main "HOL-Library.Sublist" "HOL-Library.Char_ord" "HOL-Library.List_Lexorder"
begin

text \<open>
  The pieces of the Go language and standard library that the modelled code uses, and the
  lemma collections the component theories share.  A Go string is its list of bytes, so a
  \<^typ>\<open>string\<close> here is the byte content; \<open>len\<close> is \<^const>\<open>length\<close>.  Text built with
  \<open>fmt.Sprintf\<close> and \<open>fmt.Errorf\<close> is kept symbolically, as the format string and its arguments.
\<close>

named_theorems go_simps "characteristic equations of the Go library pieces"
named_theorems spec_simps "unfoldings used by component proofs"

section \<open>Texts and errors\<close>

text \<open>
  \<open>Lit s\<close> is a Go string known literally, \<open>Fmt f as\<close> the result of formatting the arguments
  with a format string; every format string of the source holds literal text, so a formatted
  text is never empty.
\<close>

datatype msg = Lit string | Fmt string "msg list"

fun empty_msg :: "msg \<Rightarrow> bool" where
  "empty_msg (Lit s) = (s = '''')"
| "empty_msg (Fmt f xs) = False"

text \<open>
  What the code asks of an error: the API error classes of apimachinery (\<open>errors.IsNotFound\<close>
  and its kin), and the sentinels the module declares itself.  Wrapping with \<open>%w\<close> keeps the class.
\<close>

datatype err_kind = KNotFound | KAlreadyExists | KForbidden | KGatewayNotFound | KConfig
  | KTerminal | KConnectionLost | KUpToDate | KCanceled | KUnsupportedSCM | KOther

datatype err = Err (kind_of: err_kind) (text_of: msg)

type_synonym 'a res = "err + 'a"

definition errorf :: "string \<Rightarrow> msg list \<Rightarrow> err" where
  "errorf f xs = Err KOther (Fmt f xs)"

definition wrapf :: "string \<Rightarrow> msg list \<Rightarrow> err \<Rightarrow> err" where
  "wrapf f xs e = Err (kind_of e) (Fmt f (xs @ [text_of e]))"

lemma kind_errorf [simp]: "kind_of (errorf f xs) = KOther"
  by (simp add: errorf_def)

lemma kind_wrapf [simp]: "kind_of (wrapf f xs e) = kind_of e"
  by (simp add: wrapf_def)

lemma empty_msg_iff: "empty_msg m \<longleftrightarrow> m = Lit ''''"
  by (cases m) auto

section \<open>Strings\<close>

definition has_prefix :: "string \<Rightarrow> string \<Rightarrow> bool" where
  "has_prefix s p \<longleftrightarrow> take (length p) s = p"

definition has_suffix :: "string \<Rightarrow> string \<Rightarrow> bool" where
  "has_suffix s p \<longleftrightarrow> has_prefix (rev s) (rev p)"

definition trim_prefix :: "string \<Rightarrow> string \<Rightarrow> string" where
  "trim_prefix s p = (if has_prefix s p then drop (length p) s else s)"

fun contains_sub :: "string \<Rightarrow> string \<Rightarrow> bool" where
  "contains_sub [] p = (p = [])"
| "contains_sub (c # cs) p = (has_prefix (c # cs) p \<or> contains_sub cs p)"

definition trim_left :: "(char \<Rightarrow> bool) \<Rightarrow> string \<Rightarrow> string" where
  "trim_left P s = dropWhile P s"

definition trim_right :: "(char \<Rightarrow> bool) \<Rightarrow> string \<Rightarrow> string" where
  "trim_right P s = rev (dropWhile P (rev s))"

definition trim_both :: "(char \<Rightarrow> bool) \<Rightarrow> string \<Rightarrow> string" where
  "trim_both P s = trim_right P (trim_left P s)"

text \<open>\<open>strings.Split(s, sep)\<close> for a one-byte separator: always at least one part.\<close>

fun split_on :: "char \<Rightarrow> string \<Rightarrow> string list" where
  "split_on c [] = [[]]"
| "split_on c (x # xs) =
     (if x = c then [] # split_on c xs
      else (case split_on c xs of [] \<Rightarrow> [[x]] | p # ps \<Rightarrow> (x # p) # ps))"

fun join :: "string \<Rightarrow> string list \<Rightarrow> string" where
  "join sep [] = []"
| "join sep [x] = x"
| "join sep (x # y # ys) = x @ sep @ join sep (y # ys)"

lemma has_prefix_iff: "has_prefix s p \<longleftrightarrow> (\<exists>t. s = p @ t)"
proof
  assume "has_prefix s p"
  then have "s = p @ drop (length p) s"
    unfolding has_prefix_def by (metis append_take_drop_id)
  then show "\<exists>t. s = p @ t" ..
next
  assume "\<exists>t. s = p @ t"
  then show "has_prefix s p" by (auto simp: has_prefix_def)
qed

lemma has_prefix_Nil [simp]: "has_prefix s []"
  by (simp add: has_prefix_def)

lemma has_prefix_append [simp]: "has_prefix (p @ s) p"
  by (simp add: has_prefix_def)

lemma has_prefix_trans: "has_prefix s p \<Longrightarrow> has_prefix p q \<Longrightarrow> has_prefix s q"
  by (auto simp: has_prefix_iff)

lemma has_suffix_iff: "has_suffix s p \<longleftrightarrow> (\<exists>t. s = t @ p)"
proof
  assume "has_suffix s p"
  then obtain t where "rev s = rev p @ t"
    by (auto simp: has_suffix_def has_prefix_iff)
  then have "s = rev t @ p"
    by (metis rev_append rev_rev_ident)
  then show "\<exists>t. s = t @ p" ..
next
  assume "\<exists>t. s = t @ p"
  then show "has_suffix s p" by (auto simp: has_suffix_def has_prefix_iff)
qed

lemma contains_sub_iff: "contains_sub s p \<longleftrightarrow> (\<exists>a b. s = a @ p @ b)"
proof (induction s)
  case Nil
  then show ?case by auto
next
  case (Cons c cs)
  have "(\<exists>a b. c # cs = a @ p @ b) \<longleftrightarrow> has_prefix (c # cs) p \<or> (\<exists>a b. cs = a @ p @ b)"
    by (auto simp: has_prefix_iff Cons_eq_append_conv)
  with Cons.IH show ?case by simp
qed

lemma split_on_not_Nil [simp]: "split_on c s \<noteq> []"
  by (induction s) (auto split: list.splits)

lemma join_split_on: "join [c] (split_on c s) = s"
proof (induction s)
  case Nil
  then show ?case by simp
next
  case (Cons x xs)
  obtain p ps where p: "split_on c xs = p # ps"
    by (cases "split_on c xs") auto
  show ?case
  proof (cases ps)
    case Nil
    with Cons p show ?thesis by auto
  next
    case (Cons q qs)
    with Cons.IH p show ?thesis by auto
  qed
qed

lemma split_on_no_sep: "\<forall>p \<in> set (split_on c s). c \<notin> set p"
  by (induction s) (auto split: list.splits)

lemma trim_right_set: "set (trim_right P s) \<subseteq> set s"
  by (auto simp: trim_right_def dest: set_dropWhileD)

lemma trim_both_set: "set (trim_both P s) \<subseteq> set s"
  by (auto simp: trim_both_def trim_left_def dest!: set_dropWhileD trim_right_set [THEN subsetD])

lemma length_trim_right: "length (trim_right P s) \<le> length s"
  using length_dropWhile_le [of P "rev s"] by (simp add: trim_right_def)

lemma last_trim_right: "trim_right P s \<noteq> [] \<Longrightarrow> \<not> P (last (trim_right P s))"
  by (simp add: trim_right_def last_rev hd_dropWhile)

lemma hd_trim_left: "trim_left P s \<noteq> [] \<Longrightarrow> \<not> P (hd (trim_left P s))"
  by (simp add: trim_left_def hd_dropWhile)

lemma trim_right_prefix: "\<exists>t. s = trim_right P s @ t \<and> (\<forall>c \<in> set t. P c)"
proof -
  have "s = rev (dropWhile P (rev s)) @ rev (takeWhile P (rev s))"
    by (metis rev_append rev_rev_ident takeWhile_dropWhile_id)
  moreover have "\<forall>c \<in> set (rev (takeWhile P (rev s))). P c"
    by (auto dest: set_takeWhileD)
  ultimately show ?thesis unfolding trim_right_def by blast
qed

lemma hd_trim_right: "trim_right P s \<noteq> [] \<Longrightarrow> hd (trim_right P s) = hd s"
  using trim_right_prefix [of s P] by (metis hd_append2)

lemma trim_both_ends:
  assumes "trim_both P s \<noteq> []"
  shows "\<not> P (hd (trim_both P s))" and "\<not> P (last (trim_both P s))"
proof -
  have "trim_left P s \<noteq> []"
    using assms by (auto simp: trim_both_def trim_right_def)
  then show "\<not> P (hd (trim_both P s))"
    using assms hd_trim_left [of P s] hd_trim_right [of P "trim_left P s"]
    by (simp add: trim_both_def)
  show "\<not> P (last (trim_both P s))"
    using assms last_trim_right by (simp add: trim_both_def)
qed

section \<open>Numbers as text\<close>

text \<open>\<open>strconv.FormatInt(n, 10)\<close> and the \<open>%d\<close> verb.\<close>

definition digit_char :: "nat \<Rightarrow> char" where
  "digit_char d = char_of (48 + d)"

fun nat_text :: "nat \<Rightarrow> string" where
  "nat_text n = (if n < 10 then [digit_char n] else nat_text (n div 10) @ [digit_char (n mod 10)])"

declare nat_text.simps [simp del]

definition int_text :: "int \<Rightarrow> string" where
  "int_text i = (if i < 0 then CHR ''-'' # nat_text (nat (- i)) else nat_text (nat i))"

definition is_digit :: "char \<Rightarrow> bool" where
  "is_digit c \<longleftrightarrow> CHR ''0'' \<le> c \<and> c \<le> CHR ''9''"

definition digit_val :: "char \<Rightarrow> nat" where
  "digit_val c = of_char c - 48"

definition digits_val :: "string \<Rightarrow> nat" where
  "digits_val s = foldl (\<lambda>n c. 10 * n + digit_val c) 0 s"

text \<open>
  \<open>strconv.ParseInt(s, 10, 64)\<close>: an optional sign, at least one digit, and a value that fits
  an \<open>int64\<close>; \<open>strconv.ParseUint(s, 10, 64)\<close> takes no sign.
\<close>

definition parse_uint :: "string \<Rightarrow> nat option" where
  "parse_uint s =
     (if s \<noteq> [] \<and> list_all is_digit s \<and> digits_val s < 2 ^ 64 then Some (digits_val s) else None)"

definition parse_int :: "string \<Rightarrow> int option" where
  "parse_int s =
     (let neg = (s \<noteq> [] \<and> hd s = CHR ''-'');
          body = (if s \<noteq> [] \<and> (hd s = CHR ''-'' \<or> hd s = CHR ''+'') then tl s else s)
      in if body = [] \<or> \<not> list_all is_digit body then None
         else let v = (if neg then - int (digits_val body) else int (digits_val body))
              in if - (2 ^ 63) \<le> v \<and> v < 2 ^ 63 then Some v else None)"

lemma is_digit_digit_char: "d < 10 \<Longrightarrow> is_digit (digit_char d)"
  by (simp add: is_digit_def digit_char_def less_eq_char_def)

lemma digit_val_digit_char: "d < 10 \<Longrightarrow> digit_val (digit_char d) = d"
  by (simp add: digit_val_def digit_char_def)

lemma nat_text_digits: "list_all is_digit (nat_text n)"
  by (induction n rule: nat_text.induct)
    (subst nat_text.simps, auto simp: is_digit_digit_char)

lemma nat_text_not_Nil [simp]: "nat_text n \<noteq> []"
  by (subst nat_text.simps) simp

lemma digits_val_nat_text: "digits_val (nat_text n) = n"
proof (induction n rule: nat_text.induct)
  case (1 n)
  then show ?case
    by (subst nat_text.simps) (auto simp: digits_val_def digit_val_digit_char)
qed

lemma nat_text_inject: "nat_text m = nat_text n \<longleftrightarrow> m = n"
  by (metis digits_val_nat_text)

lemma nat_text_hd: "is_digit (hd (nat_text n))"
  using nat_text_digits [of n] by (cases "nat_text n") auto

lemma not_digit_signs: "\<not> is_digit (CHR ''-'')" "\<not> is_digit (CHR ''+'')"
  by (simp_all add: is_digit_def less_eq_char_def)

lemma parse_int_int_text:
  assumes "- (2 ^ 63) \<le> i" and "i < 2 ^ 63"
  shows "parse_int (int_text i) = Some i"
proof (cases "i < 0")
  case True
  then show ?thesis
    using assms nat_text_digits [of "nat (- i)"]
    by (simp add: parse_int_def int_text_def digits_val_nat_text)
next
  case False
  have "hd (nat_text (nat i)) \<noteq> CHR ''-''" "hd (nat_text (nat i)) \<noteq> CHR ''+''"
    using nat_text_hd [of "nat i"] not_digit_signs by metis+
  with False show ?thesis
    using assms nat_text_digits [of "nat i"]
    by (simp add: parse_int_def int_text_def digits_val_nat_text)
qed

section \<open>Lists and association of errors\<close>

text \<open>The first failure of a list of checks, in order: the shape of a Go loop that returns early.\<close>

fun first_err :: "('a \<Rightarrow> err option) \<Rightarrow> 'a list \<Rightarrow> err option" where
  "first_err f [] = None"
| "first_err f (x # xs) = (case f x of Some e \<Rightarrow> Some e | None \<Rightarrow> first_err f xs)"

lemma first_err_None [go_simps]: "first_err f xs = None \<longleftrightarrow> (\<forall>x \<in> set xs. f x = None)"
  by (induction xs) (auto split: option.splits)

lemma first_err_Some: "first_err f xs = Some e \<Longrightarrow> \<exists>x \<in> set xs. f x = Some e"
  by (induction xs) (auto split: option.splits)

text \<open>\<open>slices.Sort\<close> then \<open>slices.Compact\<close>, and \<open>sort.Strings\<close>, on byte strings.\<close>

definition sort_compact :: "string list \<Rightarrow> string list" where
  "sort_compact xs = remdups_adj (sort xs)"

lemma set_sort_compact [simp]: "set (sort_compact xs) = set xs"
  by (simp add: sort_compact_def)

lemma distinct_remdups_adj_sorted:
  fixes xs :: "'a :: linorder list"
  shows "sorted xs \<Longrightarrow> distinct (remdups_adj xs)"
  by (induction xs rule: remdups_adj.induct) auto

lemma sort_compact_strict: "sorted_wrt (<) (sort_compact xs)"
  by (simp add: sort_compact_def strict_sorted_iff distinct_remdups_adj_sorted sorted_remdups_adj)

lemma sort_compact_Nil [simp]: "sort_compact xs = [] \<longleftrightarrow> xs = []"
  by (metis set_empty set_sort_compact)

end
