(* ===== verification/Kube.thy ===== *)
theory Kube
  imports Prelude
begin

text \<open>
  The Kubernetes objects the controllers read and build, reduced to the fields the code uses, and the
  third-party pure functions it calls (\<open>meta.SetStatusCondition\<close> and its kin, name validation,
  \<open>ctrl.SetControllerReference\<close>), which are fields of a record and stay parameters of the model.
  Times and durations are integers in nanoseconds, as \<open>time.Duration\<close> counts them.
\<close>

section \<open>Metadata and conditions\<close>

record owner_ref =
  or_api :: string
  or_kind :: string
  or_name :: string
  or_uid :: string
  or_controller :: "bool option"

record objmeta =
  om_name :: string
  om_namespace :: string
  om_uid :: string
  om_generation :: int
  om_labels :: "string \<Rightarrow> string option"
  om_owners :: "owner_ref list"
  om_created :: int

record nskey =
  nk_namespace :: string
  nk_name :: string

definition nskey_of :: "string \<Rightarrow> string \<Rightarrow> nskey" where
  "nskey_of ns n = \<lparr>nk_namespace = ns, nk_name = n\<rparr>"

definition key_of_meta :: "objmeta \<Rightarrow> nskey" where
  "key_of_meta m = nskey_of (om_namespace m) (om_name m)"

text \<open>The metadata of an object about to be created.\<close>

definition new_meta :: "string \<Rightarrow> string \<Rightarrow> (string \<Rightarrow> string option) \<Rightarrow> objmeta" where
  "new_meta ns n labels = \<lparr>om_name = n, om_namespace = ns, om_uid = [], om_generation = 0,
     om_labels = labels, om_owners = [], om_created = 0\<rparr>"

text \<open>A Go map index on labels: the zero value when the key is absent.\<close>

definition label :: "objmeta \<Rightarrow> string \<Rightarrow> string" where
  "label m k = (case om_labels m k of None \<Rightarrow> [] | Some v \<Rightarrow> v)"

datatype cond_status = CTrue | CFalse | CUnknown

record condition =
  cd_type :: string
  cd_status :: cond_status
  cd_generation :: int
  cd_reason :: string
  cd_message :: msg

section \<open>Third-party pure functions\<close>

record klib =
  set_condition :: "condition list \<Rightarrow> condition \<Rightarrow> condition list"
  find_condition :: "condition list \<Rightarrow> string \<Rightarrow> condition option"
  remove_condition :: "condition list \<Rightarrow> string \<Rightarrow> condition list"
  dns_subdomain_problems :: "string \<Rightarrow> string list"
  label_value_problems :: "string \<Rightarrow> string list"
  set_controller_ref :: "string \<Rightarrow> objmeta \<Rightarrow> objmeta \<Rightarrow> objmeta res"
  sandbox_api_version :: string

text \<open>
  The documented contract of the status-condition helpers: nothing is found in an empty list, a set condition is found under its type and
  leaves every other type alone; a removed one is absent and the others stay.
\<close>

definition conditions_ok :: "klib \<Rightarrow> bool" where
  "conditions_ok L \<longleftrightarrow>
     (\<forall>t. find_condition L [] t = None) \<and>
     (\<forall>cs c. find_condition L (set_condition L cs c) (cd_type c) = Some c) \<and>
     (\<forall>cs c t. t \<noteq> cd_type c \<longrightarrow> find_condition L (set_condition L cs c) t = find_condition L cs t) \<and>
     (\<forall>cs t. find_condition L (remove_condition L cs t) t = None) \<and>
     (\<forall>cs t u. u \<noteq> t \<longrightarrow> find_condition L (remove_condition L cs t) u = find_condition L cs u)"

lemma find_set_same [spec_simps]:
  "conditions_ok L \<Longrightarrow> find_condition L (set_condition L cs c) (cd_type c) = Some c"
  by (simp add: conditions_ok_def)

lemma find_set_type [spec_simps]:
  "conditions_ok L \<Longrightarrow> find_condition L (set_condition L cs c) t =
     (if t = cd_type c then Some c else find_condition L cs t)"
  by (simp add: conditions_ok_def)

lemma find_nothing [spec_simps]: "conditions_ok L \<Longrightarrow> find_condition L [] t = None"
  by (simp add: conditions_ok_def)

lemma find_remove [spec_simps]:
  "conditions_ok L \<Longrightarrow> find_condition L (remove_condition L cs t) u =
     (if u = t then None else find_condition L cs u)"
  by (simp add: conditions_ok_def)

text \<open>\<open>SetControllerReference\<close> touches only the owner list, and names the owner in it.\<close>

definition owners_ok :: "klib \<Rightarrow> bool" where
  "owners_ok L \<longleftrightarrow>
     (\<forall>kind owner m m'. set_controller_ref L kind owner m = Inr m' \<longrightarrow>
        (\<exists>rs. m' = m\<lparr>om_owners := rs\<rparr> \<and>
           (\<exists>r \<in> set rs. or_controller r = Some True \<and> or_kind r = kind \<and> or_name r = om_name owner
              \<and> or_uid r = om_uid owner)))"

section \<open>Pods and sandboxes\<close>

record key_to_path =
  kp_key :: string
  kp_path :: string
  kp_mode :: "int option"

datatype volume_source =
    VImage string
  | VConfigMap string "key_to_path list"
  | VSecret string "key_to_path list"
  | VEmptyDir nat

record volume =
  vol_name :: string
  vol_source :: volume_source

record volume_mount =
  vm_name :: string
  vm_path :: string
  vm_subpath :: string
  vm_readonly :: bool

datatype env_source = SecretKeyRef string string | OtherEnvSource string

record env_var =
  ev_name :: string
  ev_value :: string
  ev_from :: "env_source option"

datatype env_from = EnvFromSecret string string | EnvFromConfigMap string string

record container =
  ct_name :: string
  ct_image :: string
  ct_command :: "string list"
  ct_args :: "string list"
  ct_env :: "env_var list"
  ct_env_from :: "env_from list"
  ct_mounts :: "volume_mount list"
  ct_ports :: "(string \<times> int) list"
  ct_tcp_probe :: "(int \<times> int) option"
  ct_fallback_to_logs :: bool

record pod_spec =
  ps_restart :: string
  ps_init :: "container list"
  ps_containers :: "container list"
  ps_volumes :: "volume list"

record sandbox =
  sb_meta :: objmeta
  sb_pod_labels :: "string \<Rightarrow> string option"
  sb_pod :: pod_spec
  sb_service :: bool
  sb_conditions :: "condition list"

record waiting =
  wt_reason :: string
  wt_message :: string

record terminated =
  tm_exit :: int
  tm_message :: string

record container_status =
  cs_name :: string
  cs_waiting :: "waiting option"
  cs_running :: "int option"
  cs_terminated :: "terminated option"

record pod =
  pod_meta :: objmeta
  pod_phase :: string
  pod_start :: "int option"
  pod_conditions :: "condition list"
  pod_init_statuses :: "container_status list"
  pod_statuses :: "container_status list"

text \<open>The zero \<open>time.Time\<close>, in nanoseconds from the Unix epoch, and one second.\<close>

definition zero_time :: int where
  "zero_time = - 62135596800000000000"

definition second :: int where
  "second = 1000000000"

section \<open>Secrets and config maps\<close>

record secret =
  sec_meta :: objmeta
  sec_data :: "(string \<times> string) list"

record config_map =
  cm_meta :: objmeta
  cm_data :: "(string \<times> string) list"
  cm_binary :: "(string \<times> string) list"

section \<open>Labels and condition types\<close>

definition condition_ready :: string where "condition_ready = ''Ready''"
definition condition_gateway_configured :: string where
  "condition_gateway_configured = ''GatewayConfigured''"
definition condition_resolvable :: string where "condition_resolvable = ''Resolvable''"
definition label_managed_by :: string where "label_managed_by = ''app.kubernetes.io/managed-by''"
definition managed_by :: string where "managed_by = ''agentic-controller''"
definition label_agent_run :: string where "label_agent_run = ''konveyor.io/agentrun''"
definition label_agent :: string where "label_agent = ''konveyor.io/agent''"
definition label_component :: string where "label_component = ''app.kubernetes.io/component''"
definition label_gateway :: string where "label_gateway = ''konveyor.io/gateway''"
definition label_agent_workflow_run :: string where
  "label_agent_workflow_run = ''konveyor.io/agentworkflowrun''"
definition label_stage :: string where "label_stage = ''konveyor.io/stage''"

section \<open>Controller results\<close>

text \<open>\<open>ctrl.Result\<close> and the error of a reconcile: an error requeues with backoff.\<close>

record reconcile_result =
  rr_requeue :: bool
  rr_after :: int

definition no_requeue :: reconcile_result where
  "no_requeue = \<lparr>rr_requeue = False, rr_after = 0\<rparr>"

section \<open>A sample of the third-party functions\<close>

text \<open>
  An instance used by the witnesses: it shows that the contracts above can hold together.
\<close>

definition sample_lib :: klib where
  "sample_lib =
     \<lparr>set_condition = (\<lambda>cs c. c # filter (\<lambda>d. cd_type d \<noteq> cd_type c) cs),
      find_condition = (\<lambda>cs t. find (\<lambda>d. cd_type d = t) cs),
      remove_condition = (\<lambda>cs t. filter (\<lambda>d. cd_type d \<noteq> t) cs),
      dns_subdomain_problems = (\<lambda>s. if s = [] then [''empty''] else []),
      label_value_problems = (\<lambda>s. []),
      set_controller_ref = (\<lambda>kind owner m. Inr (m\<lparr>om_owners :=
        [\<lparr>or_api = ''konveyor.io/v1alpha1'', or_kind = kind, or_name = om_name owner,
          or_uid = om_uid owner, or_controller = Some True\<rparr>]\<rparr>)),
      sandbox_api_version = ''agents.x-k8s.io/v1beta1''\<rparr>"

lemma find_filter_same: "find (\<lambda>d. f d = t) (filter (\<lambda>d. f d \<noteq> t) cs) = None"
  by (auto simp: find_None_iff)

lemma find_filter_other: "u \<noteq> t \<Longrightarrow> find (\<lambda>d. f d = u) (filter (\<lambda>d. f d \<noteq> t) cs) = find (\<lambda>d. f d = u) cs"
  by (induction cs) auto

lemma sample_conditions_ok: "conditions_ok sample_lib"
  by (auto simp: conditions_ok_def sample_lib_def find_filter_same find_filter_other)

lemma sample_owners_ok: "owners_ok sample_lib"
  unfolding owners_ok_def sample_lib_def by auto

end
