(* ===== verification/ApiTypes.thy ===== *)
theory ApiTypes
  imports Kube
begin

text \<open>
  The custom resources of \<open>api/v1alpha1\<close>: one record per spec, status and object.  A pointer to an
  optional value is an option, a Go \<open>map\<close> a function to an option or an association list, an
  enumerated string a datatype.
\<close>

section \<open>Agents\<close>

text \<open>\<open>ParamType\<close>; the declared type may be left empty, which the code treats as a string.\<close>

datatype param_type = ParamTypeString | ParamTypeNumber | ParamTypeBoolean | ParamTypeUnset

record param =
  pa_name :: string
  pa_type :: param_type
  pa_default :: string
  pa_required :: bool

record git_config =
  gc_user_name :: string
  gc_user_email :: string

datatype execution_mode = ModeUnset | ModeAuto | ModeApprove

record execution_limits =
  el_max_turns :: "int option"
  el_max_cost :: string

record execution_spec =
  ex_mode :: execution_mode
  ex_ask_user :: bool
  ex_limits :: execution_limits

record agent_spec =
  as_image :: string
  as_prompt :: string
  as_gateways :: "string list"
  as_skill_cards :: "string list"
  as_skill_collections :: "string list"
  as_params :: "param list"
  as_git_config :: "git_config option"
  as_execution :: "execution_limits option"

record agent =
  ag_meta :: objmeta
  ag_spec :: agent_spec
  ag_observed_generation :: int
  ag_conditions :: "condition list"

section \<open>Agent runs\<close>

datatype phase = NoPhase | Pending | Running | Succeeded | Failed

definition cond_acp_ready :: string where "cond_acp_ready = ''ACPReady''"
definition cond_succeeded :: string where "cond_succeeded = ''Succeeded''"
definition reason_run_succeeded :: string where "reason_run_succeeded = ''Succeeded''"
definition reason_run_failed :: string where "reason_run_failed = ''Failed''"
definition reason_limit_reached :: string where "reason_limit_reached = ''LimitReached''"
definition reason_running :: string where "reason_running = ''Running''"
definition reason_startup_deadline :: string where
  "reason_startup_deadline = ''StartupDeadlineExceeded''"

record param_value =
  pv_name :: string
  pv_value :: string

record file_mount =
  fm_secret :: string
  fm_config_map :: string
  fm_path :: string
  fm_subpath :: string
  fm_items :: "key_to_path list"

record agent_run_spec =
  rs_agent_ref :: string
  rs_gateway :: string
  rs_params :: "param_value list"
  rs_instructions :: string
  rs_execution :: "execution_spec option"
  rs_workflow_params :: "string option"
  rs_env :: "env_var list"
  rs_env_from :: "env_from list"
  rs_file_mounts :: "file_mount list"
  rs_git_config :: "git_config option"
  rs_ttl :: "int option"
  rs_startup_deadline :: "int option"

record agent_run_status =
  st_phase :: phase
  st_observed_generation :: int
  st_sandbox_name :: string
  st_start_time :: "int option"
  st_completion_time :: "int option"
  st_duration :: "int option"
  st_secret_ref :: "string option"
  st_conditions :: "condition list"
  st_termination_data :: "string option"

record agent_run =
  ar_meta :: objmeta
  ar_spec :: agent_run_spec
  ar_status :: agent_run_status

definition ar_name :: "agent_run \<Rightarrow> string" where "ar_name r = om_name (ar_meta r)"
definition ar_namespace :: "agent_run \<Rightarrow> string" where "ar_namespace r = om_namespace (ar_meta r)"

section \<open>Workflows and their runs\<close>

record workflow_stage =
  ws_name :: string
  ws_agent_ref :: string
  ws_instructions :: string
  ws_execution :: "execution_spec option"

record agent_workflow =
  aw_meta :: objmeta
  aw_guide :: string
  aw_stages :: "workflow_stage list"
  aw_params :: "param list"
  aw_observed_generation :: int
  aw_conditions :: "condition list"

record stage_status =
  ss_name :: string
  ss_phase :: phase
  ss_run_name :: string
  ss_agent_ref :: string
  ss_instructions :: string
  ss_execution :: "execution_spec option"

record workflow_run_spec =
  wr_workflow_ref :: string
  wr_gateway :: string
  wr_params :: "param_value list"
  wr_env :: "env_var list"
  wr_env_from :: "env_from list"
  wr_file_mounts :: "file_mount list"
  wr_ttl :: "int option"

record workflow_run_status =
  wt_phase :: phase
  wt_observed_generation :: int
  wt_current_stage :: string
  wt_stages :: "stage_status list"
  wt_guide :: string
  wt_params :: "param list"
  wt_start_time :: "int option"
  wt_completion_time :: "int option"
  wt_conditions :: "condition list"

record workflow_run =
  wf_meta :: objmeta
  wf_spec :: workflow_run_spec
  wf_status :: workflow_run_status

section \<open>Skills\<close>

datatype skill_type = SkillTypeUnset | SkillTypeSkill | SkillTypeRule

record skill_card =
  sc_meta :: objmeta
  sc_image :: string
  sc_subpath :: string
  sc_source :: string
  sc_ref :: string
  sc_inline :: string
  sc_display_name :: string
  sc_version :: string
  sc_description :: string
  sc_type :: skill_type
  sc_tags :: "string list"
  sc_observed_generation :: int
  sc_resolved_image :: string
  sc_delivery_mode :: string
  sc_conditions :: "condition list"

record collection_entry =
  ce_name :: string
  ce_card_ref :: string
  ce_image :: string
  ce_source :: string
  ce_ref :: string
  ce_subpath :: string
  ce_type :: skill_type

record skill_collection =
  sl_meta :: objmeta
  sl_version :: string
  sl_image :: string
  sl_type :: skill_type
  sl_skills :: "collection_entry list"
  sl_observed_generation :: int
  sl_conditions :: "condition list"
  sl_resolved_skills :: "string list"

definition label_skill_collection :: string where
  "label_skill_collection = ''konveyor.io/skillcollection''"

section \<open>Gateways\<close>

record credential_ref =
  cr_secret :: string
  cr_key :: string

record gateway_model =
  gm_name :: string
  gm_context_window :: int
  gm_tier :: string

record gateway =
  gw_meta :: objmeta
  gw_provider :: string
  gw_endpoint :: string
  gw_credential :: credential_ref
  gw_model :: gateway_model
  gw_observed_generation :: int
  gw_connection_verified :: bool
  gw_verified_hash :: string
  gw_conditions :: "condition list"

end
