(* ===== verification/Sha256.thy ===== *)
theory Sha256
  imports Prelude "HOL-Library.Word"
begin

text \<open>
  \<open>crypto/sha256.Sum256\<close> (FIPS 180-4) and \<open>encoding/hex.EncodeToString\<close>: the digest that
  disambiguates truncated object names and fingerprints gateway credentials.
\<close>

unbundle bit_operations_syntax

type_synonym u32 = "32 word"
type_synonym u8 = "8 word"

text \<open>
  The constants are the first 32 bits of the fractional parts of roots of primes: \<open>root_bits k n\<close> is the
  largest \<open>r\<close> below \<open>2 ^ 37\<close> with \<open>r ^ k \<le> n * 2 ^ (32 * k)\<close>, found bit by bit.
\<close>

definition root_bits :: "nat \<Rightarrow> nat \<Rightarrow> nat" where
  "root_bits k n =
     fold (\<lambda>b r. if (r + 2 ^ b) ^ k \<le> n * 2 ^ (32 * k) then r + 2 ^ b else r) (rev [0..<37]) 0"

definition small_primes :: "nat list" where
  "small_primes = filter (\<lambda>p. list_all (\<lambda>d. p mod d \<noteq> 0) [2..<p]) [2..<312]"

definition sha_k :: "u32 list" where
  "sha_k = map (\<lambda>p. of_nat (root_bits 3 p)) small_primes"

type_synonym sha_state = "u32 \<times> u32 \<times> u32 \<times> u32 \<times> u32 \<times> u32 \<times> u32 \<times> u32"

definition sha_init :: sha_state where
  "sha_init =
     (let r = (\<lambda>p. of_nat (root_bits 2 p))
      in (r 2, r 3, r 5, r 7, r 11, r 13, r 17, r 19))"

definition be_word :: "u8 list \<Rightarrow> u32" where
  "be_word bs = foldl (\<lambda>w b. push_bit 8 w OR ucast b) 0 bs"

text \<open>The eight bytes of a 64-bit count, most significant first.\<close>

definition be_bytes :: "64 word \<Rightarrow> u8 list" where
  "be_bytes n = map (\<lambda>i. ucast (drop_bit (8 * i) n)) [7, 6, 5, 4, 3, 2, 1, 0]"

fun chunks_of :: "nat \<Rightarrow> 'a list \<Rightarrow> 'a list list" where
  "chunks_of k xs = (if k = 0 \<or> xs = [] then [] else take k xs # chunks_of k (drop k xs))"

declare chunks_of.simps [simp del]

text \<open>One more schedule word; the list holds the words so far, latest first.\<close>

definition sha_extend :: "u32 list \<Rightarrow> u32 list" where
  "sha_extend ws =
     (let s0 = (\<lambda>x. word_rotr 7 x XOR word_rotr 18 x XOR drop_bit 3 x);
          s1 = (\<lambda>x. word_rotr 17 x XOR word_rotr 19 x XOR drop_bit 10 x)
      in (s1 (ws ! 1) + ws ! 6 + s0 (ws ! 14) + ws ! 15) # ws)"

definition sha_schedule :: "u8 list \<Rightarrow> u32 list" where
  "sha_schedule block = rev ((sha_extend ^^ 48) (rev (map be_word (chunks_of 4 block))))"

fun sha_round :: "sha_state \<Rightarrow> u32 \<times> u32 \<Rightarrow> sha_state" where
  "sha_round (a, b, c, d, e, f, g, h) (k, w) =
     (let t1 = h + (word_rotr 6 e XOR word_rotr 11 e XOR word_rotr 25 e)
               + ((e AND f) XOR (NOT e AND g)) + k + w;
          t2 = (word_rotr 2 a XOR word_rotr 13 a XOR word_rotr 22 a)
               + ((a AND b) XOR (a AND c) XOR (b AND c))
      in (t1 + t2, a, b, c, d + t1, e, f, g))"

fun sha_add :: "sha_state \<Rightarrow> sha_state \<Rightarrow> sha_state" where
  "sha_add (a, b, c, d, e, f, g, h) (a', b', c', d', e', f', g', h') =
     (a + a', b + b', c + c', d + d', e + e', f + f', g + g', h + h')"

definition sha_block :: "sha_state \<Rightarrow> u8 list \<Rightarrow> sha_state" where
  "sha_block st block = sha_add st (foldl sha_round st (zip sha_k (sha_schedule block)))"

definition sha_pad :: "u8 list \<Rightarrow> u8 list" where
  "sha_pad bs =
     (let n = length bs
      in bs @ [0x80] @ replicate ((119 - n mod 64) mod 64) 0 @ be_bytes (8 * of_nat n))"

definition word_bytes :: "u32 \<Rightarrow> u8 list" where
  "word_bytes w = [ucast (drop_bit 24 w), ucast (drop_bit 16 w), ucast (drop_bit 8 w), ucast w]"

fun sha_output :: "sha_state \<Rightarrow> u8 list" where
  "sha_output (a, b, c, d, e, f, g, h) = concat (map word_bytes [a, b, c, d, e, f, g, h])"

definition bytes_of :: "string \<Rightarrow> u8 list" where
  "bytes_of s = map (\<lambda>c. of_nat (of_char c)) s"

definition sha256 :: "u8 list \<Rightarrow> u8 list" where
  "sha256 bs = sha_output (foldl sha_block sha_init (chunks_of 64 (sha_pad bs)))"

definition hex_digit :: "nat \<Rightarrow> char" where
  "hex_digit d = (if d < 10 then char_of (48 + d) else char_of (87 + d))"

definition hex_byte :: "u8 \<Rightarrow> string" where
  "hex_byte b = [hex_digit (unat b div 16), hex_digit (unat b mod 16)]"

definition hex_encode :: "u8 list \<Rightarrow> string" where
  "hex_encode bs = concat (map hex_byte bs)"

lemma length_sha_output [simp]: "length (sha_output st) = 32"
  by (cases st rule: sha_output.cases) (simp add: word_bytes_def)

lemma length_sha256 [simp]: "length (sha256 bs) = 32"
  by (simp add: sha256_def)

lemma length_hex_encode [simp]: "length (hex_encode bs) = 2 * length bs"
  by (induction bs) (simp_all add: hex_encode_def hex_byte_def)

definition is_hex :: "char \<Rightarrow> bool" where
  "is_hex c \<longleftrightarrow> (CHR ''0'' \<le> c \<and> c \<le> CHR ''9'') \<or> (CHR ''a'' \<le> c \<and> c \<le> CHR ''f'')"

lemma hex_digit_is_hex: "d < 16 \<Longrightarrow> is_hex (hex_digit d)"
  by (auto simp: is_hex_def hex_digit_def less_eq_char_def)

lemma unat_u8: "unat (b :: u8) < 256"
  using unsigned_less [of b, where 'a = nat] by simp

lemma nibbles [simp]: "unat (b :: u8) div 16 < 16" "unat b mod 16 < 16"
  using unat_u8 [of b] by auto

lemma hex_encode_is_hex: "list_all is_hex (hex_encode bs)"
  by (induction bs) (simp_all add: hex_encode_def hex_byte_def hex_digit_is_hex)

lemma hex_digit_code:
  "d < 16 \<Longrightarrow> (of_char (hex_digit d) :: nat) = (if d < 10 then 48 + d else 87 + d)"
  by (simp add: hex_digit_def)

lemma hex_digit_inject:
  assumes "d < 16" and "e < 16"
  shows "hex_digit d = hex_digit e \<longleftrightarrow> d = e"
proof
  assume "hex_digit d = hex_digit e"
  then have "(of_char (hex_digit d) :: nat) = of_char (hex_digit e)" by simp
  then show "d = e"
    unfolding hex_digit_code [OF assms(1)] hex_digit_code [OF assms(2)]
    by (simp split: if_splits)
qed simp

lemma hex_byte_inject: "hex_byte a = hex_byte b \<longleftrightarrow> a = b"
proof
  assume "hex_byte a = hex_byte b"
  then have "unat a div 16 = unat b div 16" "unat a mod 16 = unat b mod 16"
    by (simp_all add: hex_byte_def hex_digit_inject)
  then have "unat a = unat b" by (metis div_mult_mod_eq)
  then show "a = b" by (simp only: word_unat_eq_iff)
qed simp

lemma hex_encode_inject: "hex_encode xs = hex_encode ys \<longleftrightarrow> xs = ys"
proof (induction xs arbitrary: ys)
  case Nil
  show ?case by (cases ys) (simp_all add: hex_encode_def hex_byte_def)
next
  case (Cons x xs)
  show ?case
  proof (cases ys)
    case Nil
    then show ?thesis by (simp add: hex_encode_def hex_byte_def)
  next
    case (Cons y zs)
    have "hex_encode (x # xs) = hex_encode (y # zs) \<longleftrightarrow>
        hex_byte x = hex_byte y \<and> hex_encode xs = hex_encode zs"
      by (simp add: hex_encode_def) (simp add: hex_byte_def)
    then show ?thesis using Cons Cons.IH by (simp add: hex_byte_inject)
  qed
qed

end
