(* ===== verification/RunClient.thy ===== *)
theory RunClient
  imports ApiTypes Sha256
begin

text \<open>
  What the \<open>AgentRun\<close> reconciler asks of its environment: the API client (cached reads, the uncached
  \<open>apiReader\<close>, writes), the clock and the random source.  The state of the cluster is an abstract
  \<open>'w\<close> that every call may change; each call is a field of the record, so nothing is assumed of it.
\<close>

type_synonym ('w, 'a) call = "'w \<Rightarrow> 'a res \<times> 'w"
type_synonym 'w command = "'w \<Rightarrow> err option \<times> 'w"

type_synonym label_selector = "(string \<times> string) list"

record 'w run_client =
  rc_get_run :: "nskey \<Rightarrow> ('w, agent_run) call"
  rc_live_get_run :: "(nskey \<Rightarrow> ('w, agent_run) call) option"
  rc_get_agent :: "nskey \<Rightarrow> ('w, agent) call"
  rc_get_sandbox :: "nskey \<Rightarrow> ('w, sandbox) call"
  rc_live_get_sandbox :: "nskey \<Rightarrow> ('w, sandbox) call"
  rc_get_pod :: "nskey \<Rightarrow> ('w, pod) call"
  rc_get_gateway :: "nskey \<Rightarrow> ('w, gateway) call"
  rc_get_secret :: "nskey \<Rightarrow> ('w, secret) call"
  rc_get_config_map :: "nskey \<Rightarrow> ('w, config_map) call"
  rc_get_card :: "nskey \<Rightarrow> ('w, skill_card) call"
  rc_get_collection :: "nskey \<Rightarrow> ('w, skill_collection) call"
  rc_list_sandboxes :: "string \<Rightarrow> label_selector \<Rightarrow> ('w, objmeta list) call"
  rc_list_config_maps :: "string \<Rightarrow> label_selector \<Rightarrow> ('w, objmeta list) call"
  rc_list_secrets :: "string \<Rightarrow> label_selector \<Rightarrow> ('w, objmeta list) call"
  rc_list_pods :: "string \<Rightarrow> label_selector \<Rightarrow> ('w, objmeta list) call"
  rc_live_list_pods :: "string \<Rightarrow> label_selector \<Rightarrow> ('w, pod list) call"
  rc_create_secret :: "secret \<Rightarrow> 'w command"
  rc_create_or_update_config_map :: "config_map \<Rightarrow> (config_map \<Rightarrow> config_map res) \<Rightarrow> 'w command"
  rc_create_sandbox :: "sandbox \<Rightarrow> 'w command"
  rc_delete :: "string \<Rightarrow> objmeta \<Rightarrow> 'w command"
  rc_patch_status :: "agent_run \<Rightarrow> agent_run \<Rightarrow> 'w command"
  rc_now :: "'w \<Rightarrow> int \<times> 'w"
  rc_random :: "nat \<Rightarrow> ('w, u8 list) call"
  rc_list_runs_for_agent :: "string \<Rightarrow> string \<Rightarrow> ('w, agent_run list) call"

text \<open>The fields of the reconciler struct that configure it.\<close>

record run_config =
  rf_loader_image :: string
  rf_default_ttl :: "int option"
  rf_default_deadline :: "int option"

section \<open>An empty cluster\<close>

text \<open>
  A client over any world with a clock, for the witnesses: nothing exists, writes succeed and change
  nothing.
\<close>

definition not_found :: err where
  "not_found = Err KNotFound (Lit ''not found'')"

definition client_over :: "('w \<Rightarrow> int) \<Rightarrow> 'w run_client" where
  "client_over clock =
     \<lparr>rc_get_run = (\<lambda>k w. (Inl not_found, w)),
      rc_live_get_run = None,
      rc_get_agent = (\<lambda>k w. (Inl not_found, w)),
      rc_get_sandbox = (\<lambda>k w. (Inl not_found, w)),
      rc_live_get_sandbox = (\<lambda>k w. (Inl not_found, w)),
      rc_get_pod = (\<lambda>k w. (Inl not_found, w)),
      rc_get_gateway = (\<lambda>k w. (Inl not_found, w)),
      rc_get_secret = (\<lambda>k w. (Inl not_found, w)),
      rc_get_config_map = (\<lambda>k w. (Inl not_found, w)),
      rc_get_card = (\<lambda>k w. (Inl not_found, w)),
      rc_get_collection = (\<lambda>k w. (Inl not_found, w)),
      rc_list_sandboxes = (\<lambda>ns s w. (Inr [], w)),
      rc_list_config_maps = (\<lambda>ns s w. (Inr [], w)),
      rc_list_secrets = (\<lambda>ns s w. (Inr [], w)),
      rc_list_pods = (\<lambda>ns s w. (Inr [], w)),
      rc_live_list_pods = (\<lambda>ns s w. (Inr [], w)),
      rc_create_secret = (\<lambda>x w. (None, w)),
      rc_create_or_update_config_map = (\<lambda>x f w. (None, w)),
      rc_create_sandbox = (\<lambda>x w. (None, w)),
      rc_delete = (\<lambda>k m w. (None, w)),
      rc_patch_status = (\<lambda>a b w. (None, w)),
      rc_now = (\<lambda>w. (clock w, w)),
      rc_random = (\<lambda>n w. (Inr (replicate n 0), w)),
      rc_list_runs_for_agent = (\<lambda>ns n w. (Inr [], w))\<rparr>"

definition null_client :: "int run_client" where
  "null_client = client_over id"

lemmas null_client_def_full = null_client_def client_over_def

end
