(* ===== verification/Paths.thy ===== *)
theory Paths
  imports Prelude
begin

text \<open>
  The lexical functions of Go's \<open>path\<close> package (\<open>IsAbs\<close>, \<open>Clean\<close>, \<open>Base\<close>, \<open>Dir\<close>), the component view of a
  cleaned absolute path, and the containment order of mount points
  (\<open>isAncestorOrEqual\<close> and \<open>pathsCollide\<close> of \<open>internal/controller/agentrun_controller.go\<close>).
\<close>

definition slash :: char where "slash = CHR ''/''"

definition is_abs :: "string \<Rightarrow> bool" where
  "is_abs p \<longleftrightarrow> has_prefix p [slash]"

definition proper_comp :: "string \<Rightarrow> bool" where
  "proper_comp c \<longleftrightarrow> c \<noteq> [] \<and> c \<noteq> ''.'' \<and> c \<noteq> ''..'' \<and> slash \<notin> set c"

text \<open>One path element after another; the stack holds the cleaned elements, last first.\<close>

fun clean_step :: "bool \<Rightarrow> string list \<Rightarrow> string \<Rightarrow> string list" where
  "clean_step rooted stack c =
     (if c = [] \<or> c = ''.'' then stack
      else if c = ''..'' then
        (case stack of
           [] \<Rightarrow> if rooted then [] else [''..'']
         | t # ts \<Rightarrow> if t = ''..'' then ''..'' # stack else ts)
      else c # stack)"

definition clean_comps :: "string \<Rightarrow> string list" where
  "clean_comps p = rev (foldl (clean_step (is_abs p)) [] (split_on slash p))"

definition path_clean :: "string \<Rightarrow> string" where
  "path_clean p =
     (if p = [] then ''.''
      else if is_abs p then slash # join [slash] (clean_comps p)
      else if clean_comps p = [] then ''.''
      else join [slash] (clean_comps p))"

text \<open>\<open>path.Base\<close>: the last element after trailing slashes are removed.\<close>

definition path_base :: "string \<Rightarrow> string" where
  "path_base p =
     (if p = [] then ''.''
      else (let q = trim_right (\<lambda>c. c = slash) p
            in if q = [] then [slash] else last (split_on slash q)))"

text \<open>\<open>path.Dir\<close>: what comes before the last slash, cleaned.\<close>

definition path_dir :: "string \<Rightarrow> string" where
  "path_dir p = path_clean (trim_right (\<lambda>c. c \<noteq> slash) p)"

section \<open>Mount order\<close>

definition isAncestorOrEqual :: "string \<Rightarrow> string \<Rightarrow> bool" where
  "isAncestorOrEqual ancestor p \<longleftrightarrow>
     ancestor = p \<or> ancestor = [slash] \<or> has_prefix p (ancestor @ [slash])"

definition pathsCollide :: "string \<Rightarrow> string \<Rightarrow> bool" where
  "pathsCollide a b \<longleftrightarrow> isAncestorOrEqual a b \<or> isAncestorOrEqual b a"

section \<open>Components of a cleaned absolute path\<close>

definition comps :: "string \<Rightarrow> string list" where
  "comps p = filter (\<lambda>c. c \<noteq> []) (split_on slash p)"

definition abs_of :: "string list \<Rightarrow> string" where
  "abs_of cs = slash # join [slash] cs"

definition clean_abs :: "string \<Rightarrow> bool" where
  "clean_abs p \<longleftrightarrow> is_abs p \<and> path_clean p = p"

lemma split_on_append_sep: "slash \<notin> set c \<Longrightarrow> split_on slash (c @ slash # s) = c # split_on slash s"
  by (induction c) auto

lemma split_on_no_slash: "slash \<notin> set c \<Longrightarrow> split_on slash c = [c]"
  by (induction c) auto

lemma join_Cons: "cs \<noteq> [] \<Longrightarrow> join sep (c # cs) = c @ sep @ join sep cs"
  by (cases cs) auto

lemma join_append: "as \<noteq> [] \<Longrightarrow> bs \<noteq> [] \<Longrightarrow> join sep (as @ bs) = join sep as @ sep @ join sep bs"
proof (induction as)
  case Nil
  then show ?case by simp
next
  case (Cons a as)
  then show ?case by (cases "as = []") (simp_all add: join_Cons)
qed

lemma split_join_append:
  "as \<noteq> [] \<Longrightarrow> \<forall>c \<in> set as. slash \<notin> set c \<Longrightarrow>
     split_on slash (join [slash] as @ slash # t) = as @ split_on slash t"
proof (induction as)
  case Nil
  then show ?case by simp
next
  case (Cons a as)
  then show ?case by (cases "as = []") (simp_all add: join_Cons split_on_append_sep)
qed

lemma split_join:
  "as \<noteq> [] \<Longrightarrow> \<forall>c \<in> set as. slash \<notin> set c \<Longrightarrow> split_on slash (join [slash] as) = as"
proof (induction as)
  case Nil
  then show ?case by simp
next
  case (Cons a as)
  then show ?case
    by (cases "as = []") (simp_all add: join_Cons split_on_append_sep split_on_no_slash)
qed

lemma split_abs_of:
  "list_all proper_comp cs \<Longrightarrow> split_on slash (abs_of cs) = [] # (if cs = [] then [[]] else cs)"
  by (cases "cs = []") (auto simp: abs_of_def split_join list_all_iff proper_comp_def)

lemma comps_abs_of: "list_all proper_comp cs \<Longrightarrow> comps (abs_of cs) = cs"
  by (auto simp: comps_def split_abs_of list_all_iff proper_comp_def filter_id_conv)

lemma is_abs_abs_of [simp]: "is_abs (abs_of cs)"
  by (simp add: is_abs_def abs_of_def has_prefix_def)

lemma clean_step_proper:
  "list_all proper_comp stack \<Longrightarrow> slash \<notin> set c \<Longrightarrow> list_all proper_comp (clean_step True stack c)"
  by (cases stack) (auto simp: proper_comp_def)

lemma clean_fold_proper:
  "list_all proper_comp stack \<Longrightarrow> \<forall>c \<in> set cs. slash \<notin> set c \<Longrightarrow>
     list_all proper_comp (foldl (clean_step True) stack cs)"
proof (induction cs arbitrary: stack)
  case Nil
  then show ?case by simp
next
  case (Cons c cs)
  have "list_all proper_comp (clean_step True stack c)"
    using Cons.prems by (intro clean_step_proper) auto
  then show ?case using Cons by simp
qed

lemma clean_comps_proper: "is_abs p \<Longrightarrow> list_all proper_comp (clean_comps p)"
  using clean_fold_proper [of "[]" "split_on slash p"] split_on_no_sep [of slash p]
  by (simp add: clean_comps_def)

lemma clean_fold_id:
  "list_all proper_comp cs \<Longrightarrow> foldl (clean_step True) stack cs = rev cs @ stack"
  by (induction cs arbitrary: stack) (auto simp: proper_comp_def)

lemma clean_comps_abs_of: "list_all proper_comp cs \<Longrightarrow> clean_comps (abs_of cs) = cs"
  by (simp add: clean_comps_def split_abs_of clean_fold_id)

lemma path_clean_abs: "is_abs p \<Longrightarrow> path_clean p = abs_of (clean_comps p)"
  by (cases p) (auto simp: path_clean_def abs_of_def is_abs_def has_prefix_def)

text \<open>Cleaning an absolute path yields a cleaned absolute path.\<close>

lemma clean_abs_clean: "is_abs p \<Longrightarrow> clean_abs (path_clean p)"
  by (simp add: clean_abs_def path_clean_abs clean_comps_abs_of clean_comps_proper)

lemma clean_absE:
  assumes "clean_abs p"
  obtains "p = abs_of (comps p)" and "list_all proper_comp (comps p)"
proof -
  have p: "is_abs p" "path_clean p = p" using assms by (auto simp: clean_abs_def)
  then have "p = abs_of (clean_comps p)" using path_clean_abs by metis
  moreover have "comps (abs_of (clean_comps p)) = clean_comps p"
    using clean_comps_proper [OF p(1)] by (rule comps_abs_of)
  ultimately have "comps p = clean_comps p" by simp
  then show ?thesis using that p path_clean_abs [OF p(1)] clean_comps_proper [OF p(1)] by simp
qed

text \<open>The containment test of the code is the prefix order on components.\<close>

lemma ancestor_abs_of:
  assumes as: "list_all proper_comp as" and ps: "list_all proper_comp ps"
  shows "isAncestorOrEqual (abs_of as) (abs_of ps) \<longleftrightarrow> prefix as ps"
proof (cases "as = []")
  case True
  then show ?thesis by (simp add: isAncestorOrEqual_def abs_of_def)
next
  case False
  have no_sl: "\<forall>c \<in> set as. slash \<notin> set c" "\<forall>c \<in> set ps. slash \<notin> set c"
    using as ps by (auto simp: list_all_iff proper_comp_def)
  have root: "abs_of as \<noteq> [slash]"
  proof
    assume "abs_of as = [slash]"
    then have "split_on slash (abs_of as) = [[], []]" by simp
    with False as have "as = [[]]" by (simp add: split_abs_of)
    with as show False by (simp add: proper_comp_def)
  qed
  have eq: "abs_of as = abs_of ps \<longleftrightarrow> as = ps"
    using comps_abs_of [OF as] comps_abs_of [OF ps] by metis
  have pre: "has_prefix (abs_of ps) (abs_of as @ [slash]) \<longleftrightarrow> (\<exists>q. q \<noteq> [] \<and> ps = as @ q)"
  proof
    assume "has_prefix (abs_of ps) (abs_of as @ [slash])"
    then obtain t where "join [slash] ps = join [slash] as @ slash # t"
      by (auto simp: has_prefix_iff abs_of_def)
    then have "split_on slash (join [slash] ps) = as @ split_on slash t"
      using split_join_append [OF False no_sl(1)] by simp
    moreover have "ps \<noteq> []"
    proof
      assume "ps = []"
      with calculation False as show False by (cases as) (auto simp: proper_comp_def)
    qed
    ultimately have "ps = as @ split_on slash t" using split_join no_sl(2) by metis
    then show "\<exists>q. q \<noteq> [] \<and> ps = as @ q" using split_on_not_Nil by blast
  next
    assume "\<exists>q. q \<noteq> [] \<and> ps = as @ q"
    then obtain q where "q \<noteq> []" "ps = as @ q" by blast
    then show "has_prefix (abs_of ps) (abs_of as @ [slash])"
      using False by (auto simp: has_prefix_iff abs_of_def join_append)
  qed
  show ?thesis
    unfolding isAncestorOrEqual_def eq pre using root by (auto simp: prefix_def)
qed

lemma ancestor_iff_prefix:
  assumes "clean_abs a" and "clean_abs p"
  shows "isAncestorOrEqual a p \<longleftrightarrow> prefix (comps a) (comps p)"
  by (rule clean_absE [OF assms(1)], rule clean_absE [OF assms(2)]) (metis ancestor_abs_of)

section \<open>Mount trees\<close>

text \<open>
  What the clients of the containment test rely on: on cleaned paths it is a partial order in which the
  ancestors of a path form a chain.  Then mounts that do not collide never contain one path together.
\<close>

locale mount_tree =
  fixes ok :: "'a \<Rightarrow> bool" and anc :: "'a \<Rightarrow> 'a \<Rightarrow> bool"
  assumes anc_refl: "ok a \<Longrightarrow> anc a a"
    and anc_trans: "ok a \<Longrightarrow> ok b \<Longrightarrow> ok c \<Longrightarrow> anc a b \<Longrightarrow> anc b c \<Longrightarrow> anc a c"
    and anc_antisym: "ok a \<Longrightarrow> ok b \<Longrightarrow> anc a b \<Longrightarrow> anc b a \<Longrightarrow> a = b"
    and anc_chain: "ok a \<Longrightarrow> ok b \<Longrightarrow> ok p \<Longrightarrow> anc a p \<Longrightarrow> anc b p \<Longrightarrow> anc a b \<or> anc b a"
begin

lemma one_mount_per_path:
  assumes "\<forall>a \<in> set ms. ok a" and "ok p"
    and "pairwise (\<lambda>a b. \<not> anc a b \<and> \<not> anc b a) (set ms)"
    and "a \<in> set ms" and "b \<in> set ms" and "anc a p" and "anc b p"
  shows "a = b"
proof (rule ccontr)
  assume "a \<noteq> b"
  with assms(3,4,5) have "\<not> anc a b" "\<not> anc b a" by (auto simp: pairwise_def)
  with assms anc_chain show False by blast
qed

end

interpretation mount_path: mount_tree clean_abs isAncestorOrEqual
proof
  fix a b p
  show "clean_abs a \<Longrightarrow> isAncestorOrEqual a a"
    by (simp add: isAncestorOrEqual_def)
  show "clean_abs a \<Longrightarrow> clean_abs b \<Longrightarrow> clean_abs p \<Longrightarrow>
      isAncestorOrEqual a b \<Longrightarrow> isAncestorOrEqual b p \<Longrightarrow> isAncestorOrEqual a p"
    by (simp add: ancestor_iff_prefix)
  show "clean_abs a \<Longrightarrow> clean_abs b \<Longrightarrow> isAncestorOrEqual a b \<Longrightarrow> isAncestorOrEqual b a \<Longrightarrow> a = b"
    by (metis ancestor_iff_prefix clean_absE prefix_order.antisym)
  show "clean_abs a \<Longrightarrow> clean_abs b \<Longrightarrow> clean_abs p \<Longrightarrow>
      isAncestorOrEqual a p \<Longrightarrow> isAncestorOrEqual b p \<Longrightarrow> isAncestorOrEqual a b \<or> isAncestorOrEqual b a"
    by (metis ancestor_iff_prefix prefix_same_cases)
qed

end
