(* ===== verification/Float64.thy ===== *)
theory Float64
  imports Prelude "HOL-Library.Word"
begin

text \<open>
  IEEE 754 binary64 values by their bits, and \<open>strconv.ParseFloat(s, 64)\<close> and \<open>strconv.FormatFloat\<close>
  with precision \<open>-1\<close> on them: exact rational arithmetic, rounding half to even, and the shortest
  digits that read back as the same value.
\<close>

type_synonym f64 = "64 word"

definition f64_exponent :: "f64 \<Rightarrow> nat" where
  "f64_exponent b = unat b div 2 ^ 52 mod 2048"

definition f64_fraction :: "f64 \<Rightarrow> nat" where
  "f64_fraction b = unat b mod 2 ^ 52"

definition f64_neg :: "f64 \<Rightarrow> bool" where
  "f64_neg b \<longleftrightarrow> 2 ^ 63 \<le> unat b"

definition f64_finite :: "f64 \<Rightarrow> bool" where
  "f64_finite b \<longleftrightarrow> f64_exponent b \<noteq> 2047"

definition f64_nan :: f64 where
  "f64_nan = 0x7ff8000000000001"

definition f64_inf :: f64 where
  "f64_inf = 0x7ff0000000000000"

definition f64_sign :: "bool \<Rightarrow> f64 \<Rightarrow> f64" where
  "f64_sign neg b = (if neg then b + 0x8000000000000000 else b)"

fun bitlen :: "nat \<Rightarrow> nat" where
  "bitlen n = (if n = 0 then 0 else Suc (bitlen (n div 2)))"

declare bitlen.simps [simp del]

text \<open>\<open>n / d\<close> scaled by \<open>2 ^ - e\<close>, as a numerator and a denominator.\<close>

definition scale2 :: "nat \<Rightarrow> nat \<Rightarrow> int \<Rightarrow> nat \<times> nat" where
  "scale2 n d e = (if e \<ge> 0 then (n, d * 2 ^ nat e) else (n * 2 ^ nat (- e), d))"

definition round_div :: "nat \<Rightarrow> nat \<Rightarrow> nat" where
  "round_div n d =
     (let q = n div d; r = n mod d
      in if 2 * r < d \<or> (2 * r = d \<and> even q) then q else q + 1)"

text \<open>The magnitude bits nearest to \<open>n / d\<close>, or \<^const>\<open>None\<close> when it overflows.\<close>

definition round_f64 :: "nat \<Rightarrow> nat \<Rightarrow> nat option" where
  "round_f64 n d =
     (if n = 0 then Some 0
      else let e0 = int (bitlen n) - int (bitlen d) - 53;
               e1 = (case scale2 n d e0 of (a, b) \<Rightarrow> if a < b * 2 ^ 53 then e0 else e0 + 1);
               e = max e1 (- 1074);
               q = (case scale2 n d e of (a, b) \<Rightarrow> round_div a b);
               bits = nat (e + 1074) * 2 ^ 52 + q
           in if bits < 2047 * 2 ^ 52 then Some bits else None)"

section \<open>Reading\<close>

definition lower_byte :: "char \<Rightarrow> char" where
  "lower_byte c = (if CHR ''A'' \<le> c \<and> c \<le> CHR ''Z'' then char_of ((of_char c :: nat) + 32) else c)"

definition is_hex_digit :: "char \<Rightarrow> bool" where
  "is_hex_digit c \<longleftrightarrow> is_digit c \<or> (CHR ''a'' \<le> lower_byte c \<and> lower_byte c \<le> CHR ''f'')"

definition hex_val :: "char \<Rightarrow> nat" where
  "hex_val c = (if is_digit c then digit_val c else of_char (lower_byte c) - 87)"

text \<open>The class of the last character seen by the underscore check.\<close>

datatype seen = SeenStart | SeenDigit | SeenUnderscore | SeenOther

fun underscores_ok :: "bool \<Rightarrow> seen \<Rightarrow> string \<Rightarrow> bool" where
  "underscores_ok hex saw [] = (saw \<noteq> SeenUnderscore)"
| "underscores_ok hex saw (c # cs) =
     (if is_digit c \<or> (hex \<and> is_hex_digit c) then underscores_ok hex SeenDigit cs
      else if c = CHR ''_'' then saw = SeenDigit \<and> underscores_ok hex SeenUnderscore cs
      else saw \<noteq> SeenUnderscore \<and> underscores_ok hex SeenOther cs)"

text \<open>Mantissa scan: value, digits seen, digits after the point (if one was seen), rest.\<close>

fun scan_mantissa :: "bool \<Rightarrow> nat \<Rightarrow> bool \<Rightarrow> nat option \<Rightarrow> string \<Rightarrow> nat \<times> bool \<times> nat option \<times> string" where
  "scan_mantissa hex m any dot [] = (m, any, dot, [])"
| "scan_mantissa hex m any dot (c # cs) =
     (if c = CHR ''_'' then scan_mantissa hex m any dot cs
      else if c = CHR ''.'' \<and> dot = None then scan_mantissa hex m any (Some 0) cs
      else if is_digit c \<or> (hex \<and> is_hex_digit c)
      then scan_mantissa hex ((if hex then 16 else 10) * m + hex_val c) True (map_option Suc dot) cs
      else (m, any, dot, c # cs))"

fun scan_exponent :: "nat \<Rightarrow> string \<Rightarrow> nat \<times> string" where
  "scan_exponent e [] = (e, [])"
| "scan_exponent e (c # cs) =
     (if c = CHR ''_'' then scan_exponent e cs
      else if is_digit c then scan_exponent (if e < 10000 then 10 * e + digit_val c else e) cs
      else (e, c # cs))"

definition parse_special :: "string \<Rightarrow> f64 option" where
  "parse_special s =
     (let t = map lower_byte s;
          neg = has_prefix t ''-'';
          u = (if has_prefix t ''-'' \<or> has_prefix t ''+'' then tl t else t)
      in if t = ''nan'' then Some f64_nan
         else if u = ''inf'' \<or> u = ''infinity'' then Some (f64_sign neg f64_inf)
         else None)"

definition strip_sign :: "string \<Rightarrow> string" where
  "strip_sign s = (if has_prefix s ''-'' \<or> has_prefix s ''+'' then tl s else s)"

definition finish_float :: "bool \<Rightarrow> bool \<Rightarrow> nat \<Rightarrow> int \<Rightarrow> f64 option" where
  "finish_float hex neg m e =
     (let b = (if hex then 2 else 10 :: nat);
          nd = (if e \<ge> 0 then (m * b ^ nat e, 1) else (m, b ^ nat (- e)))
      in map_option (\<lambda>bits. f64_sign neg (of_nat bits)) (round_f64 (fst nd) (snd nd)))"

definition parse_float :: "string \<Rightarrow> f64 option" where
  "parse_float s =
     (case parse_special s of
        Some b \<Rightarrow> Some b
      | None \<Rightarrow>
         (let neg = has_prefix s ''-'';
              body = strip_sign s;
              hex = (2 < length body \<and> has_prefix (map lower_byte body) ''0x'')
          in case scan_mantissa hex 0 False None (if hex then drop 2 body else body) of
               (m, any, dot, rest) \<Rightarrow>
                 (let frac = (case dot of None \<Rightarrow> 0 | Some k \<Rightarrow> int k) * (if hex then 4 else 1);
                      uok = (CHR ''_'' \<notin> set s
                             \<or> (if has_prefix (map lower_byte body) ''0x''
                                   \<or> has_prefix (map lower_byte body) ''0b''
                                   \<or> has_prefix (map lower_byte body) ''0o''
                                then underscores_ok (has_prefix (map lower_byte body) ''0x'')
                                       SeenDigit (drop 2 body)
                                else underscores_ok False SeenStart body))
                  in if \<not> any \<or> \<not> uok then None
                     else (case rest of
                             [] \<Rightarrow> if hex then None else finish_float hex neg m (- frac)
                           | c # cs \<Rightarrow>
                               if lower_byte c \<noteq> (if hex then CHR ''p'' else CHR ''e'') then None
                               else (let ds = strip_sign cs in
                                     if ds = [] \<or> \<not> is_digit (hd ds) then None
                                     else (case scan_exponent 0 ds of
                                             (e, []) \<Rightarrow> finish_float hex neg m
                                               ((if has_prefix cs ''-'' then - int e else int e) - frac)
                                           | (e, _ # _) \<Rightarrow> None))))))"

section \<open>Writing\<close>

text \<open>A positive finite magnitude as a rational.\<close>

definition f64_rat :: "f64 \<Rightarrow> nat \<times> nat" where
  "f64_rat b =
     (let x = f64_exponent b; f = f64_fraction b;
          m = (if x = 0 then f else 2 ^ 52 + f);
          e = (if x = 0 then - 1074 else int x - 1075)
      in if e \<ge> 0 then (m * 2 ^ nat e, 1) else (m, 2 ^ nat (- e)))"

definition scale10 :: "nat \<Rightarrow> nat \<Rightarrow> int \<Rightarrow> nat \<times> nat" where
  "scale10 n d k = (if k \<ge> 0 then (n, d * 10 ^ nat k) else (n * 10 ^ nat (- k), d))"

text \<open>The number of decimal digits before the point, as an exponent: \<open>10 ^ (p - 1) \<le> n / d < 10 ^ p\<close>.\<close>

definition dec_point :: "nat \<Rightarrow> nat \<Rightarrow> int" where
  "dec_point n d =
     (if d \<le> n then int (length (nat_text (n div d)))
      else (let k = length (nat_text (d div n))
            in if d \<le> n * 10 ^ (k - 1) then 2 - int k else 1 - int k))"

text \<open>The shortest digits that read back as the same bits: tried with one digit first.\<close>

definition try_digits :: "nat \<Rightarrow> nat \<Rightarrow> nat \<Rightarrow> int \<Rightarrow> nat option" where
  "try_digits bits n d k =
     (case scale10 n d k of
        (a, b) \<Rightarrow>
          (let lo = a div b;
               back = (\<lambda>q. if k \<ge> 0 then round_f64 (q * 10 ^ nat k) 1
                           else round_f64 q (10 ^ nat (- k)));
               ok_lo = (back lo = Some bits \<and> lo \<noteq> 0);
               ok_hi = (back (lo + 1) = Some bits)
           in if ok_lo \<and> ok_hi then Some (round_div a b)
              else if ok_lo then Some lo
              else if ok_hi then Some (lo + 1) else None))"

fun shortest_from :: "nat \<Rightarrow> nat \<Rightarrow> nat \<Rightarrow> nat \<Rightarrow> int \<Rightarrow> nat \<times> int" where
  "shortest_from 0 bits n d k = (case scale10 n d k of (a, b) \<Rightarrow> (round_div a b, k))"
| "shortest_from (Suc left) bits n d k =
     (case try_digits bits n d k of
        Some q \<Rightarrow> (q, k)
      | None \<Rightarrow> shortest_from left bits n d (k - 1))"

definition strip_zeros :: "string \<Rightarrow> string" where
  "strip_zeros s = trim_right (\<lambda>c. c = CHR ''0'') s"

text \<open>Digits without trailing zeros and the position of the point relative to the first one.\<close>

definition shortest_digits :: "f64 \<Rightarrow> string \<times> int" where
  "shortest_digits b =
     (let bits = unat b mod 2 ^ 63; nd = f64_rat b in
      if bits = 0 then (''0'', 1)
      else (case shortest_from 17 bits (fst nd) (snd nd) (dec_point (fst nd) (snd nd) - 1) of
              (q, k) \<Rightarrow> (strip_zeros (nat_text q), int (length (nat_text q)) + k)))"

definition format_f :: "f64 \<Rightarrow> string" where
  "format_f b =
     (if \<not> f64_finite b
      then (if f64_fraction b \<noteq> 0 then ''NaN'' else if f64_neg b then ''-Inf'' else ''+Inf'')
      else (case shortest_digits b of
              (ds, p) \<Rightarrow>
                (if f64_neg b then ''-'' else []) @
                (if p \<le> 0 then ''0.'' @ replicate (nat (- p)) CHR ''0'' @ ds
                 else if int (length ds) \<le> p then ds @ replicate (nat p - length ds) CHR ''0''
                 else take (nat p) ds @ ''.'' @ drop (nat p) ds)))"

text \<open>The \<open>'e'\<close> format as \<open>encoding/json\<close> trims it: one leading zero of the exponent is dropped
  after a minus sign.\<close>

definition format_e_json :: "f64 \<Rightarrow> string" where
  "format_e_json b =
     (case shortest_digits b of
        (ds, p) \<Rightarrow>
          (let x = p - 1; t = nat_text (nat \<bar>x\<bar>)
           in (if f64_neg b then ''-'' else []) @ take 1 ds @
              (if length ds > 1 then ''.'' @ drop 1 ds else []) @ ''e'' @
              (if x < 0 then ''-'' @ t else ''+'' @ (if length t = 1 then ''0'' @ t else t))))"

text \<open>\<open>1e-6\<close> and \<open>1e21\<close> as bits: positive floats are ordered like their bits.\<close>

definition json_uses_e :: "f64 \<Rightarrow> bool" where
  "json_uses_e b =
     (let m = unat b mod 2 ^ 63 in m \<noteq> 0 \<and> (m < 0x3eb0c6f7a0b5ed8d \<or> 0x444b1ae4d6e2ef50 \<le> m))"

definition json_float :: "f64 \<Rightarrow> string option" where
  "json_float b =
     (if \<not> f64_finite b then None
      else Some (if json_uses_e b then format_e_json b else format_f b))"

section \<open>Evaluation on numerals\<close>

named_theorems float_eval "unfoldings that compute on concrete floats"

lemma bitlen_numeral [float_eval]:
  "bitlen (numeral k) = Suc (bitlen (numeral k div 2))" "bitlen 0 = 0" "bitlen (Suc 0) = 1"
  by (subst bitlen.simps, simp)+

lemma digit_char_digits [float_eval]:
  "digit_char 0 = CHR ''0''" "digit_char (Suc 0) = CHR ''1''" "digit_char 1 = CHR ''1''"
  "digit_char 2 = CHR ''2''" "digit_char 3 = CHR ''3''" "digit_char 4 = CHR ''4''"
  "digit_char 5 = CHR ''5''" "digit_char 6 = CHR ''6''" "digit_char 7 = CHR ''7''"
  "digit_char 8 = CHR ''8''" "digit_char 9 = CHR ''9''"
  by (simp_all add: digit_char_def char_of_def bit_iff_odd)

lemma nat_text_numeral [float_eval]:
  "nat_text (numeral k) =
     (if numeral k < (10 :: nat) then [digit_char (numeral k)]
      else nat_text (numeral k div 10) @ [digit_char (numeral k mod 10)])"
  by (rule nat_text.simps)

lemma nat_text_small [float_eval]:
  "nat_text 0 = ''0''" "nat_text (Suc 0) = ''1''" "nat_text 1 = ''1''"
  by (subst nat_text.simps, simp add: digit_char_digits)+

lemma replicate_numeral_Cons [float_eval]: "replicate (numeral k) x = x # replicate (pred_numeral k) x"
  by (simp add: numeral_eq_Suc)

lemma shortest_from_numeral [float_eval]:
  "shortest_from (numeral k) bits n d e =
     (case try_digits bits n d e of
        Some q \<Rightarrow> (q, e)
      | None \<Rightarrow> shortest_from (pred_numeral k) bits n d (e - 1))"
  by (simp add: numeral_eq_Suc)

lemmas round_eval [float_eval] =
  round_f64_def scale2_def round_div_def scale10_def try_digits_def dec_point_def

lemmas parse_eval =
  parse_float_def parse_special_def Let_def has_prefix_def strip_sign_def lower_byte_def
  less_eq_char_def is_digit_def digit_val_def hex_val_def

lemmas write_eval =
  format_f_def json_float_def json_uses_e_def format_e_json_def f64_finite_def f64_exponent_def
  f64_fraction_def f64_neg_def shortest_digits_def f64_rat_def strip_zeros_def trim_right_def Let_def

end
