(* ===== verification/Utf8.thy ===== *)
theory Utf8
  imports Prelude
begin

text \<open>
  Runes of a Go string: \<open>for _, r := range s\<close>, \<open>utf8.RuneCountInString\<close>, \<open>utf8.RuneStart\<close> and the
  rune-at-a-time matching of \<open>regexp\<close>.  Decoding follows the table of the Go specification: an
  ill-formed byte decodes to \<open>U+FFFD\<close> and has width one.
\<close>

definition byte :: "char \<Rightarrow> nat" where
  "byte c = of_char c"

definition cont_byte :: "char \<Rightarrow> bool" where
  "cont_byte c \<longleftrightarrow> 128 \<le> byte c \<and> byte c < 192"

text \<open>\<open>utf8.RuneStart(b)\<close>: the byte is not a continuation byte.\<close>

definition rune_start :: "char \<Rightarrow> bool" where
  "rune_start c \<longleftrightarrow> \<not> cont_byte c"

definition rune_error :: nat where
  "rune_error = 65533"

text \<open>The legal range of the second byte, by the first one.\<close>

definition second_ok :: "nat \<Rightarrow> nat \<Rightarrow> bool" where
  "second_ok a b \<longleftrightarrow>
     (if a = 224 then 160 \<le> b \<and> b < 192
      else if a = 237 then 128 \<le> b \<and> b < 160
      else if a = 240 then 144 \<le> b \<and> b < 192
      else if a = 244 then 128 \<le> b \<and> b < 144
      else 128 \<le> b \<and> b < 192)"

text \<open>The first rune of a non-empty string and its width in bytes.\<close>

fun decode_rune :: "string \<Rightarrow> nat \<times> nat" where
  "decode_rune [] = (rune_error, 0)"
| "decode_rune (c # cs) =
     (let a = byte c in
      if a < 128 then (a, 1)
      else if a < 194 \<or> 244 < a then (rune_error, 1)
      else if a < 224 then
        (case cs of
           b1 # _ \<Rightarrow> if second_ok a (byte b1) then ((a - 192) * 64 + (byte b1 - 128), 2)
                     else (rune_error, 1)
         | [] \<Rightarrow> (rune_error, 1))
      else if a < 240 then
        (case cs of
           b1 # b2 # _ \<Rightarrow>
             if second_ok a (byte b1) \<and> cont_byte b2
             then ((a - 224) * 4096 + (byte b1 - 128) * 64 + (byte b2 - 128), 3)
             else (rune_error, 1)
         | _ \<Rightarrow> (rune_error, 1))
      else
        (case cs of
           b1 # b2 # b3 # _ \<Rightarrow>
             if second_ok a (byte b1) \<and> cont_byte b2 \<and> cont_byte b3
             then ((a - 240) * 262144 + (byte b1 - 128) * 4096 + (byte b2 - 128) * 64
                   + (byte b3 - 128), 4)
             else (rune_error, 1)
         | _ \<Rightarrow> (rune_error, 1)))"

declare decode_rune.simps [simp del]

lemma decode_width_pos: "1 \<le> snd (decode_rune (c # cs))"
  by (auto simp: decode_rune.simps Let_def split: list.splits)

lemma decode_width_le: "snd (decode_rune s) \<le> length s"
  by (cases s) (auto simp: decode_rune.simps Let_def split: list.splits)

text \<open>The runes of a string, each with the bytes it came from.\<close>

function rune_chunks :: "string \<Rightarrow> (nat \<times> string) list" where
  "rune_chunks [] = []"
| "rune_chunks (c # cs) =
     (let (r, n) = decode_rune (c # cs)
      in (r, take n (c # cs)) # rune_chunks (drop n (c # cs)))"
  by pat_completeness auto
termination
proof (relation "measure length")
  fix c cs x r n
  assume "x = decode_rune (c # cs)" and "(r, n) = x"
  then have "1 \<le> n" using decode_width_pos [of c cs] by (metis snd_conv)
  then show "(drop n (c # cs), c # cs) \<in> measure length" by simp
qed simp

declare rune_chunks.simps(2) [simp del]

definition runes :: "string \<Rightarrow> nat list" where
  "runes s = map fst (rune_chunks s)"

definition rune_count :: "string \<Rightarrow> nat" where
  "rune_count s = length (rune_chunks s)"

text \<open>\<open>string([]rune(s)[:n])\<close> for \<open>n\<close> within the rune count, on well-formed text: the bytes of the
  first \<open>n\<close> runes.\<close>

definition take_runes :: "nat \<Rightarrow> string \<Rightarrow> string" where
  "take_runes n s = concat (map snd (take n (rune_chunks s)))"

lemma concat_rune_chunks: "concat (map snd (rune_chunks s)) = s"
proof (induction s rule: rune_chunks.induct)
  case 1
  then show ?case by simp
next
  case (2 c cs)
  obtain r n where d: "decode_rune (c # cs) = (r, n)" by fastforce
  have "concat (map snd (rune_chunks (drop n (c # cs)))) = drop n (c # cs)"
    using "2" [OF d [symmetric] refl] .
  then show ?case by (simp add: rune_chunks.simps(2) d)
qed

definition ascii :: "string \<Rightarrow> bool" where
  "ascii s \<longleftrightarrow> list_all (\<lambda>c. byte c < 128) s"

lemma rune_chunks_ascii: "ascii s \<Longrightarrow> rune_chunks s = map (\<lambda>c. (byte c, [c])) s"
proof (induction s)
  case Nil
  then show ?case by simp
next
  case (Cons c cs)
  then have "byte c < 128" "ascii cs" by (auto simp: ascii_def)
  then have "decode_rune (c # cs) = (byte c, 1)"
    by (simp add: decode_rune.simps)
  then show ?case
    using Cons.IH [OF \<open>ascii cs\<close>] by (simp add: rune_chunks.simps(2))
qed

lemma rune_count_ascii: "ascii s \<Longrightarrow> rune_count s = length s"
  by (simp add: rune_count_def rune_chunks_ascii)

lemma rune_chunk_nonempty: "(r, b) \<in> set (rune_chunks s) \<Longrightarrow> b \<noteq> []"
proof (induction s rule: rune_chunks.induct)
  case 1
  then show ?case by simp
next
  case (2 c cs)
  obtain k n where d: "decode_rune (c # cs) = (k, n)" by fastforce
  have "1 \<le> n" using decode_width_pos [of c cs] d by simp
  with "2.prems" have "b = take n (c # cs) \<or> (r, b) \<in> set (rune_chunks (drop n (c # cs)))"
    by (auto simp: rune_chunks.simps(2) d)
  then show ?case
    using "2.IH" [OF d [symmetric] refl] \<open>1 \<le> n\<close> by auto
qed

lemma rune_count_le: "rune_count s \<le> length s"
proof -
  have "length xs \<le> length (concat (map snd xs))"
    if "\<And>r b. (r, b) \<in> set xs \<Longrightarrow> b \<noteq> []" for xs :: "(nat \<times> string) list"
    using that
  proof (induction xs)
    case Nil
    then show ?case by simp
  next
    case (Cons x xs)
    have "snd x \<noteq> []" using Cons.prems [of "fst x" "snd x"] by simp
    moreover have "length xs \<le> length (concat (map snd xs))"
      using Cons.prems by (intro Cons.IH) auto
    ultimately show ?case by (cases "snd x") auto
  qed
  from this [of "rune_chunks s"] show ?thesis
    using rune_chunk_nonempty by (simp add: rune_count_def concat_rune_chunks)
qed

end
