(* ===== verification/Json.thy ===== *)
theory Json
  imports Float64 Utf8 Sha256 "HOL-Library.AList"
begin

text \<open>
  The part of \<open>encoding/json\<close> the program uses: values of type \<open>any\<close>, \<open>json.Marshal\<close> of maps with
  string keys and of fixed structs, \<open>json.MarshalIndent\<close> with two spaces, and decoding with
  \<open>UseNumber\<close>, where a number keeps its text.
\<close>

text \<open>A Go \<open>any\<close> as the program produces or decodes it, or a text as the decoder reads it.  An object is
  an association list; as an \<open>any\<close> it has no key twice (\<open>json_any\<close>).\<close>

datatype json =
    JNull
  | JBool bool
  | JNumber string
  | JInt int
  | JFloat f64
  | JStr string
  | JArr "json list"
  | JObj "(string \<times> json) list"

section \<open>Encoding\<close>

definition json_escape_byte :: "char \<Rightarrow> string" where
  "json_escape_byte c =
     (if c = CHR 0x22 then [CHR 0x5C, CHR 0x22]
      else if c = CHR 0x5C then [CHR 0x5C, CHR 0x5C]
      else if c = CHR 0x08 then [CHR 0x5C, CHR ''b'']
      else if c = CHR 0x0C then [CHR 0x5C, CHR ''f'']
      else if c = CHR 0x0A then [CHR 0x5C, CHR ''n'']
      else if c = CHR 0x0D then [CHR 0x5C, CHR ''r'']
      else if c = CHR 0x09 then [CHR 0x5C, CHR ''t'']
      else if byte c < 32 \<or> c \<in> {CHR ''<'', CHR ''>'', CHR ''&''}
      then CHR 0x5C # ''u00'' @ [hex_digit (byte c div 16), hex_digit (byte c mod 16)]
      else [c])"

text \<open>One rune with its bytes: ASCII is escaped by byte, an ill-formed byte becomes the
  replacement rune, \<open>U+2028\<close> and \<open>U+2029\<close> are escaped, the rest is copied.\<close>

definition json_escape_rune :: "nat \<times> string \<Rightarrow> string" where
  "json_escape_rune rb =
     (case rb of (r, bs) \<Rightarrow>
        if r < 128 then concat (map json_escape_byte bs)
        else if r = rune_error \<and> length bs = 1 then CHR 0x5C # ''ufffd''
        else if r = 8232 then CHR 0x5C # ''u2028''
        else if r = 8233 then CHR 0x5C # ''u2029''
        else bs)"

definition json_string :: "string \<Rightarrow> string" where
  "json_string s = [CHR 0x22] @ concat (map json_escape_rune (rune_chunks s)) @ [CHR 0x22]"

text \<open>All or nothing over a list, in order.\<close>

fun opt_all :: "('a \<Rightarrow> 'b option) \<Rightarrow> 'a list \<Rightarrow> 'b list option" where
  "opt_all f [] = Some []"
| "opt_all f (x # xs) =
     (case f x of None \<Rightarrow> None
      | Some y \<Rightarrow> (case opt_all f xs of None \<Rightarrow> None | Some ys \<Rightarrow> Some (y # ys)))"

lemma opt_all_cong [fundef_cong]:
  "xs = ys \<Longrightarrow> (\<And>x. x \<in> set ys \<Longrightarrow> f x = g x) \<Longrightarrow> opt_all f xs = opt_all g ys"
  by (induction xs arbitrary: ys) (auto split: option.splits)

definition sort_keys :: "(string \<times> 'a) list \<Rightarrow> (string \<times> 'a) list" where
  "sort_keys kvs = sort_key fst kvs"

lemma set_sort_keys [simp]: "set (sort_keys kvs) = set kvs"
  by (simp add: sort_keys_def)

lemma json_size_member: "kv \<in> set kvs \<Longrightarrow> size (snd kv) < Suc (size_list (size_prod (\<lambda>_. 0) size) kvs)"
  by (induction kvs) auto

text \<open>\<open>json.Marshal\<close>; the keys of a map come out sorted, and \<open>NaN\<close> and the infinities are refused.\<close>

function json_encode :: "json \<Rightarrow> string option" where
  "json_encode JNull = Some ''null''"
| "json_encode (JBool b) = Some (if b then ''true'' else ''false'')"
| "json_encode (JNumber s) = Some s"
| "json_encode (JInt i) = Some (int_text i)"
| "json_encode (JFloat f) = json_float f"
| "json_encode (JStr s) = Some (json_string s)"
| "json_encode (JArr xs) =
     map_option (\<lambda>ys. ''['' @ join '','' ys @ '']'') (opt_all json_encode xs)"
| "json_encode (JObj kvs) =
     map_option (\<lambda>ys. ''{'' @ join '','' ys @ ''}'')
       (opt_all (\<lambda>kv. map_option (\<lambda>t. json_string (fst kv) @ '':'' @ t) (json_encode (snd kv)))
          (sort_keys kvs))"
  by pat_completeness auto

termination
  by (relation "measure size") (auto simp: size_list_estimation' dest: json_size_member
      intro: le_imp_less_Suc)

definition nl :: char where "nl = CHR 0x0A"

definition json_newline :: "nat \<Rightarrow> string" where
  "json_newline depth = nl # replicate (2 * depth) CHR '' ''"

text \<open>\<open>json.MarshalIndent(v, "", "  ")\<close>.\<close>

function json_indent :: "nat \<Rightarrow> json \<Rightarrow> string option" where
  "json_indent depth JNull = Some ''null''"
| "json_indent depth (JBool b) = Some (if b then ''true'' else ''false'')"
| "json_indent depth (JNumber s) = Some s"
| "json_indent depth (JInt i) = Some (int_text i)"
| "json_indent depth (JFloat f) = json_float f"
| "json_indent depth (JStr s) = Some (json_string s)"
| "json_indent depth (JArr xs) =
     (if xs = [] then Some ''[]''
      else map_option
             (\<lambda>ys. ''['' @ json_newline (depth + 1) @
                join ('','' @ json_newline (depth + 1)) ys @ json_newline depth @ '']'')
             (opt_all (json_indent (depth + 1)) xs))"
| "json_indent depth (JObj kvs) =
     (if kvs = [] then Some ''{}''
      else map_option
             (\<lambda>ys. ''{'' @ json_newline (depth + 1) @
                join ('','' @ json_newline (depth + 1)) ys @ json_newline depth @ ''}'')
             (opt_all (\<lambda>kv. map_option (\<lambda>t. json_string (fst kv) @ '': '' @ t)
                               (json_indent (depth + 1) (snd kv)))
                (sort_keys kvs)))"
  by pat_completeness auto

termination
  by (relation "measure (size \<circ> snd)") (auto simp: size_list_estimation' dest: json_size_member
      intro: le_imp_less_Suc)

section \<open>Decoding\<close>

definition json_ws :: "char \<Rightarrow> bool" where
  "json_ws c \<longleftrightarrow> c \<in> {CHR '' '', CHR 0x09, CHR 0x0A, CHR 0x0D}"

definition skip_ws :: "string \<Rightarrow> string" where
  "skip_ws s = dropWhile json_ws s"

text \<open>\<open>utf8.EncodeRune\<close>.\<close>

definition encode_rune :: "nat \<Rightarrow> string" where
  "encode_rune r =
     (let r' = (if 1114111 < r \<or> (55296 \<le> r \<and> r < 57344) then rune_error else r)
      in map char_of
        (if r' < 128 then [r']
         else if r' < 2048 then [192 + r' div 64, 128 + r' mod 64]
         else if r' < 65536 then [224 + r' div 4096, 128 + r' div 64 mod 64, 128 + r' mod 64]
         else [240 + r' div 262144, 128 + r' div 4096 mod 64, 128 + r' div 64 mod 64,
               128 + r' mod 64]))"

definition hex4 :: "string \<Rightarrow> (nat \<times> string) option" where
  "hex4 s =
     (if 4 \<le> length s \<and> list_all is_hex_digit (take 4 s)
      then Some (foldl (\<lambda>n c. 16 * n + hex_val c) 0 (take 4 s), drop 4 s) else None)"

text \<open>
  A string body after its opening quote: the decoded bytes and the rest.  Control bytes are
  refused, an ill-formed byte and a lone surrogate become the replacement rune.  The first
  argument bounds the recursion; the length of the text is enough.
\<close>

fun json_unquote :: "nat \<Rightarrow> string \<Rightarrow> (string \<times> string) option" where
  "json_unquote 0 s = None"
| "json_unquote (Suc n) [] = None"
| "json_unquote (Suc n) (c # cs) =
     (if c = CHR 0x22 then Some ([], cs)
      else if c = CHR 0x5C then
        (case cs of
           [] \<Rightarrow> None
         | e # es \<Rightarrow>
             if e = CHR ''u'' then
               (case hex4 es of
                  None \<Rightarrow> None
                | Some (r, rest) \<Rightarrow>
                    (case (if 55296 \<le> r \<and> r < 56320 \<and> has_prefix rest (CHR 0x5C # ''u'')
                           then hex4 (drop 2 rest) else None) of
                       Some (r2, rest2) \<Rightarrow>
                         if 56320 \<le> r2 \<and> r2 < 57344
                         then map_option (apfst ((@)
                                (encode_rune ((r - 55296) * 1024 + (r2 - 56320) + 65536))))
                                (json_unquote n rest2)
                         else map_option (apfst ((@) (encode_rune rune_error))) (json_unquote n rest)
                     | None \<Rightarrow> map_option (apfst ((@) (encode_rune r))) (json_unquote n rest)))
             else
               (let plain = (if e \<in> {CHR 0x22, CHR 0x5C, CHR ''/''} then Some e
                             else if e = CHR ''b'' then Some (CHR 0x08)
                             else if e = CHR ''f'' then Some (CHR 0x0C)
                             else if e = CHR ''n'' then Some (CHR 0x0A)
                             else if e = CHR ''r'' then Some (CHR 0x0D)
                             else if e = CHR ''t'' then Some (CHR 0x09) else None)
                in case plain of
                     None \<Rightarrow> None
                   | Some b \<Rightarrow> map_option (apfst ((#) b)) (json_unquote n es)))
      else if byte c < 32 then None
      else (case decode_rune (c # cs) of
              (r, w) \<Rightarrow>
                map_option (apfst ((@) (if r = rune_error \<and> w = 1 then encode_rune rune_error
                                        else take w (c # cs))))
                  (json_unquote n (drop w (c # cs)))))"

definition take_digits :: "string \<Rightarrow> (string \<times> string) option" where
  "take_digits s =
     (let ds = takeWhile is_digit s in if ds = [] then None else Some (ds, drop (length ds) s))"

text \<open>The number grammar: the text of the number and the rest.\<close>

definition json_number :: "string \<Rightarrow> (string \<times> string) option" where
  "json_number s =
     (let sign = (if has_prefix s ''-'' then ''-'' else []);
          s1 = drop (length sign) s
      in case take_digits s1 of
           None \<Rightarrow> None
         | Some (ds, s2) \<Rightarrow>
             (let int_part = (if hd ds = CHR ''0'' then ''0'' else ds);
                  s3 = drop (length int_part) s1;
                  frac = (if has_prefix s3 ''.''
                          then map_option (\<lambda>(f, r). (CHR ''.'' # f, r)) (take_digits (tl s3))
                          else Some ([], s3))
              in case frac of
                   None \<Rightarrow> None
                 | Some (f, s4) \<Rightarrow>
                     if has_prefix s4 ''e'' \<or> has_prefix s4 ''E'' then
                       (let sg = (if has_prefix (tl s4) ''+'' \<or> has_prefix (tl s4) ''-''
                                  then take 1 (tl s4) else [])
                        in case take_digits (drop (length sg) (tl s4)) of
                             None \<Rightarrow> None
                           | Some (e, s5) \<Rightarrow>
                               Some (sign @ int_part @ f @ take 1 s4 @ sg @ e, s5))
                     else Some (sign @ int_part @ f, s4)))"

definition max_nesting :: nat where
  "max_nesting = 10000"

text \<open>
  Values, object members and array elements; the first argument bounds the recursion (every call
  consumes a byte or stands before one, so twice the length of the text and two more is enough), the
  second is the nesting depth, which the decoder limits.
\<close>

fun json_value :: "nat \<Rightarrow> nat \<Rightarrow> string \<Rightarrow> (json \<times> string) option"
  and json_members :: "nat \<Rightarrow> nat \<Rightarrow> string \<Rightarrow> ((string \<times> json) list \<times> string) option"
  and json_elems :: "nat \<Rightarrow> nat \<Rightarrow> string \<Rightarrow> (json list \<times> string) option" where
  "json_value 0 d s = None"
| "json_value (Suc n) d s =
     (let t = skip_ws s in
      if has_prefix t ''null'' then Some (JNull, drop 4 t)
      else if has_prefix t ''true'' then Some (JBool True, drop 4 t)
      else if has_prefix t ''false'' then Some (JBool False, drop 5 t)
      else if has_prefix t [CHR 0x22]
      then map_option (apfst JStr) (json_unquote (length t) (tl t))
      else if has_prefix t ''{'' then
        (if max_nesting \<le> d then None
         else if has_prefix (skip_ws (tl t)) ''}'' then Some (JObj [], tl (skip_ws (tl t)))
         else map_option (apfst JObj) (json_members n (d + 1) (tl t)))
      else if has_prefix t ''['' then
        (if max_nesting \<le> d then None
         else if has_prefix (skip_ws (tl t)) '']'' then Some (JArr [], tl (skip_ws (tl t)))
         else map_option (apfst JArr) (json_elems n (d + 1) (tl t)))
      else map_option (apfst JNumber) (json_number t))"
| "json_members 0 d s = None"
| "json_members (Suc n) d s =
     (let t = skip_ws s in
      if \<not> has_prefix t [CHR 0x22] then None
      else case json_unquote (length t) (tl t) of
             None \<Rightarrow> None
           | Some (k, s1) \<Rightarrow>
               (let t1 = skip_ws s1 in
                if \<not> has_prefix t1 '':'' then None
                else case json_value n d (tl t1) of
                       None \<Rightarrow> None
                     | Some (v, s2) \<Rightarrow>
                         (let t2 = skip_ws s2 in
                          if has_prefix t2 ''}'' then Some ([(k, v)], tl t2)
                          else if has_prefix t2 '','' then
                            (case json_members n d (tl t2) of
                               None \<Rightarrow> None
                             | Some (kvs, s3) \<Rightarrow>
                                 Some ((k, v) # kvs, s3))
                          else None)))"
| "json_elems 0 d s = None"
| "json_elems (Suc n) d s =
     (case json_value n d s of
        None \<Rightarrow> None
      | Some (v, s2) \<Rightarrow>
          (let t2 = skip_ws s2 in
           if has_prefix t2 '']'' then Some ([v], tl t2)
           else if has_prefix t2 '','' then map_option (apfst ((#) v)) (json_elems n d (tl t2))
           else None))"

declare json_value.simps [simp del] json_members.simps [simp del] json_elems.simps [simp del]

text \<open>The members as written become those of an \<open>any\<close>: the last one of a key stays.\<close>

fun last_members :: "(string \<times> 'a) list \<Rightarrow> (string \<times> 'a) list" where
  "last_members [] = []"
| "last_members (kv # kvs) =
     (if fst kv \<in> fst ` set kvs then last_members kvs else kv # last_members kvs)"

function json_any :: "json \<Rightarrow> json" where
  "json_any (JArr xs) = JArr (map json_any xs)"
| "json_any (JObj kvs) = JObj (last_members (map (\<lambda>kv. (fst kv, json_any (snd kv))) kvs))"
| "json_any JNull = JNull"
| "json_any (JBool b) = JBool b"
| "json_any (JNumber s) = JNumber s"
| "json_any (JInt i) = JInt i"
| "json_any (JFloat f) = JFloat f"
| "json_any (JStr s) = JStr s"
  by pat_completeness auto

termination
  by (relation "measure size") (auto simp: size_list_estimation' dest: json_size_member
      intro: le_imp_less_Suc)

text \<open>The first value of a text, as a \<open>json.Decoder\<close> reads it: what follows is left unread.\<close>

definition json_decode_first :: "string \<Rightarrow> json option" where
  "json_decode_first s = map_option (json_any \<circ> fst) (json_value (2 * length s + 2) 0 s)"

text \<open>
  \<open>json.Unmarshal\<close>: nothing but white space may follow the value.  The members stay as written, twice the
  same key included; what the target makes of them is its own matter.
\<close>

definition json_unmarshal :: "string \<Rightarrow> json option" where
  "json_unmarshal s =
     (case json_value (2 * length s + 2) 0 s of
        Some (v, rest) \<Rightarrow> if skip_ws rest = [] then Some v else None
      | None \<Rightarrow> None)"

text \<open>Decoding into a \<open>map[string]any\<close>: an object, or \<open>null\<close> for the nil map.\<close>

fun json_as_map :: "json \<Rightarrow> (string \<times> json) list option" where
  "json_as_map (JObj kvs) = Some kvs"
| "json_as_map JNull = Some []"
| "json_as_map _ = None"

text \<open>Without \<open>UseNumber\<close> a number of an \<open>any\<close> must be in the range of a \<open>float64\<close>.\<close>

function json_floats_ok :: "json \<Rightarrow> bool" where
  "json_floats_ok (JNumber s) = (parse_float s \<noteq> None)"
| "json_floats_ok (JArr xs) = list_all json_floats_ok xs"
| "json_floats_ok (JObj kvs) = list_all (\<lambda>kv. json_floats_ok (snd kv)) kvs"
| "json_floats_ok JNull = True"
| "json_floats_ok (JBool b) = True"
| "json_floats_ok (JInt i) = True"
| "json_floats_ok (JFloat f) = True"
| "json_floats_ok (JStr s) = True"
  by pat_completeness auto

termination
  by (relation "measure size") (auto simp: size_list_estimation' dest: json_size_member
      intro: le_imp_less_Suc)

end
