(* ===== verification/Execution.thy ===== *)
theory Execution
  imports ApiTypes Json
begin

text \<open>
  \<open>internal/controller/execution.go\<close>: which supervision mode and budget limits a run executes with,
  from the run's or the stage's override and the agent's defaults, and the \<open>execution\<close> section of
  \<open>params.json\<close> that delivers them.
\<close>

definition default_execution_mode :: execution_mode where
  "default_execution_mode = ModeAuto"

definition empty_limits :: execution_limits where
  "empty_limits = \<lparr>el_max_turns = None, el_max_cost = []\<rparr>"

definition empty_execution :: execution_spec where
  "empty_execution = \<lparr>ex_mode = ModeUnset, ex_ask_user = False, ex_limits = empty_limits\<rparr>"

definition resolveExecution ::
  "execution_spec option \<Rightarrow> execution_limits option \<Rightarrow> execution_spec option" where
  "resolveExecution override base =
     (if override = None \<and> base = None then None
      else
        (let ov = (case override of None \<Rightarrow> empty_execution | Some x \<Rightarrow> x);
             bs = (case base of None \<Rightarrow> empty_limits | Some x \<Rightarrow> x);
             turns = (if el_max_turns (ex_limits ov) = None then el_max_turns bs
                      else el_max_turns (ex_limits ov));
             cost = (if el_max_cost (ex_limits ov) = [] then el_max_cost bs
                     else el_max_cost (ex_limits ov));
             resolved = \<lparr>ex_mode = ex_mode ov, ex_ask_user = ex_ask_user ov,
                         ex_limits = \<lparr>el_max_turns = turns, el_max_cost = cost\<rparr>\<rparr>
         in if ex_mode resolved = ModeUnset \<and> \<not> ex_ask_user resolved
               \<and> el_max_turns (ex_limits resolved) = None \<and> el_max_cost (ex_limits resolved) = []
            then None else Some resolved))"

definition effectiveMode :: "execution_spec option \<Rightarrow> execution_mode" where
  "effectiveMode exec =
     (case exec of
        None \<Rightarrow> default_execution_mode
      | Some x \<Rightarrow> if ex_mode x = ModeUnset then default_execution_mode else ex_mode x)"

text \<open>The values of the enumeration as they are written to \<open>params.json\<close>.\<close>

fun mode_text :: "execution_mode \<Rightarrow> string" where
  "mode_text ModeUnset = ''''"
| "mode_text ModeAuto = ''auto''"
| "mode_text ModeApprove = ''approve''"

definition executionSection :: "execution_spec option \<Rightarrow> (string \<times> json) list" where
  "executionSection exec =
     [(''mode'', JStr (mode_text (effectiveMode exec)))] @
     (case exec of
        None \<Rightarrow> []
      | Some x \<Rightarrow>
          (if ex_ask_user x then [(''askUser'', JBool True)] else []) @
          (case el_max_turns (ex_limits x) of None \<Rightarrow> [] | Some n \<Rightarrow> [(''maxTurns'', JInt n)]) @
          (if el_max_cost (ex_limits x) \<noteq> [] then [(''maxCost'', JStr (el_max_cost (ex_limits x)))]
           else []))"

section \<open>What each consumer sees\<close>

text \<open>
  The facts a consumer of a resolved execution reads, field by field: an absent specification and an
  all-unset one are the same to it.
\<close>

definition x_ask :: "execution_spec option \<Rightarrow> bool" where
  "x_ask e = (case e of None \<Rightarrow> False | Some x \<Rightarrow> ex_ask_user x)"

definition x_turns :: "execution_spec option \<Rightarrow> int option" where
  "x_turns e = (case e of None \<Rightarrow> None | Some x \<Rightarrow> el_max_turns (ex_limits x))"

definition x_cost :: "execution_spec option \<Rightarrow> string" where
  "x_cost e = (case e of None \<Rightarrow> [] | Some x \<Rightarrow> el_max_cost (ex_limits x))"

definition l_turns :: "execution_limits option \<Rightarrow> int option" where
  "l_turns b = (case b of None \<Rightarrow> None | Some x \<Rightarrow> el_max_turns x)"

definition l_cost :: "execution_limits option \<Rightarrow> string" where
  "l_cost b = (case b of None \<Rightarrow> [] | Some x \<Rightarrow> el_max_cost x)"

lemmas exec_view_defs = x_ask_def x_turns_def x_cost_def l_turns_def l_cost_def effectiveMode_def
  default_execution_mode_def

lemma effectiveMode_set: "effectiveMode e \<noteq> ModeUnset"
  by (auto simp: effectiveMode_def default_execution_mode_def split: option.splits)

text \<open>Per-field resolution: what the override sets wins, the mode never comes from the agent.\<close>

lemma resolved_mode [spec_simps]: "effectiveMode (resolveExecution ov base) = effectiveMode ov"
  by (cases ov; cases base)
    (simp_all add: resolveExecution_def exec_view_defs empty_execution_def empty_limits_def Let_def)

lemma resolved_ask [spec_simps]: "x_ask (resolveExecution ov base) = x_ask ov"
  by (cases ov; cases base)
    (simp_all add: resolveExecution_def exec_view_defs empty_execution_def empty_limits_def Let_def)

lemma resolved_turns [spec_simps]: "x_turns (resolveExecution ov base) =
    (case x_turns ov of Some n \<Rightarrow> Some n | None \<Rightarrow> l_turns base)"
  by (cases ov; cases base)
    (simp_all add: resolveExecution_def exec_view_defs empty_execution_def empty_limits_def Let_def
      split: option.splits)

lemma resolved_cost [spec_simps]: "x_cost (resolveExecution ov base) =
    (if x_cost ov \<noteq> [] then x_cost ov else l_cost base)"
  by (cases ov; cases base)
    (simp_all add: resolveExecution_def exec_view_defs empty_execution_def empty_limits_def Let_def)

lemma executionSection_fields: "executionSection e =
    [(''mode'', JStr (mode_text (effectiveMode e)))] @
    (if x_ask e then [(''askUser'', JBool True)] else []) @
    (case x_turns e of None \<Rightarrow> [] | Some n \<Rightarrow> [(''maxTurns'', JInt n)]) @
    (if x_cost e \<noteq> [] then [(''maxCost'', JStr (x_cost e))] else [])"
  by (cases e) (simp_all add: executionSection_def x_ask_def x_turns_def x_cost_def)

text \<open>
  Resolving twice is resolving once: the workflow controller stamps the resolved value on the stage's
  run, and the run controller resolves that value against the same agent again.
\<close>

lemma resolve_twice_section:
  "executionSection (resolveExecution (resolveExecution ov base) base) =
   executionSection (resolveExecution ov base)"
  by (simp add: executionSection_fields spec_simps split: option.splits)

lemma resolveExecution_Some_set:
  "resolveExecution ov base = Some x \<Longrightarrow>
     ex_mode x \<noteq> ModeUnset \<or> ex_ask_user x \<or> el_max_turns (ex_limits x) \<noteq> None
     \<or> el_max_cost (ex_limits x) \<noteq> []"
  by (auto simp: resolveExecution_def Let_def split: if_splits)

end
