(* ===== verification/Params.thy ===== *)
theory Params
  imports Execution
begin

text \<open>
  \<open>internal/controller/params.go\<close>: coercion of declared parameters, substitution of
  \<open>$(agent.<name>)\<close> and \<open>$(workflow.<name>)\<close> references, and the content of \<open>params.json\<close>.
\<close>

definition params_file_path :: string where
  "params_file_path = ''/run/konveyor/params.json''"

definition scope_agent :: string where "scope_agent = ''agent''"
definition scope_workflow :: string where "scope_workflow = ''workflow''"

section \<open>Values\<close>

text \<open>\<open>strconv.ParseBool\<close>.\<close>

definition parse_bool :: "string \<Rightarrow> bool option" where
  "parse_bool s =
     (if s \<in> {''1'', ''t'', ''T'', ''TRUE'', ''true'', ''True''} then Some True
      else if s \<in> {''0'', ''f'', ''F'', ''FALSE'', ''false'', ''False''} then Some False
      else None)"

text \<open>The \<open>%v\<close> verb on a decoded value; the decoder keeps numbers as text, so the two numeric
  constructors do not occur below an array or an object.\<close>

function fmt_v :: "json \<Rightarrow> string" where
  "fmt_v JNull = ''<nil>''"
| "fmt_v (JBool b) = (if b then ''true'' else ''false'')"
| "fmt_v (JNumber s) = s"
| "fmt_v (JInt i) = int_text i"
| "fmt_v (JFloat f) = format_f f"
| "fmt_v (JStr s) = s"
| "fmt_v (JArr xs) = ''['' @ join '' '' (map fmt_v xs) @ '']''"
| "fmt_v (JObj kvs) =
     ''map['' @ join '' '' (map (\<lambda>kv. fst kv @ '':'' @ fmt_v (snd kv)) (sort_keys kvs)) @ '']''"
  by pat_completeness auto

termination
  by (relation "measure size") (auto simp: size_list_estimation' dest: json_size_member
      intro: le_imp_less_Suc)

fun stringifyJSON :: "json \<Rightarrow> string" where
  "stringifyJSON (JNumber s) = s"
| "stringifyJSON (JBool b) = (if b then ''true'' else ''false'')"
| "stringifyJSON (JStr s) = s"
| "stringifyJSON (JInt i) = int_text i"
| "stringifyJSON (JFloat f) = format_f f"
| "stringifyJSON v = fmt_v v"

section \<open>Coercion\<close>

text \<open>A non-empty value read at the declared type.\<close>

definition coerce_value :: "param \<Rightarrow> string \<Rightarrow> json res" where
  "coerce_value p value =
     (case pa_type p of
        ParamTypeNumber \<Rightarrow>
          (case parse_int value of
             Some i \<Rightarrow> Inr (JInt i)
           | None \<Rightarrow>
               (case parse_float value of
                  Some f \<Rightarrow> Inr (JFloat f)
                | None \<Rightarrow> Inl (errorf ''parameter %q declared number but value %q is not numeric''
                                 [Lit (pa_name p), Lit value])))
      | ParamTypeBoolean \<Rightarrow>
          (case parse_bool value of
             Some b \<Rightarrow> Inr (JBool b)
           | None \<Rightarrow> Inl (errorf ''parameter %q declared boolean but value %q is not a boolean''
                            [Lit (pa_name p), Lit value]))
      | _ \<Rightarrow> Inr (JStr value))"

definition effective_value :: "(string \<Rightarrow> string option) \<Rightarrow> param \<Rightarrow> string" where
  "effective_value supplied p =
     (case supplied (pa_name p) of Some v \<Rightarrow> v | None \<Rightarrow> pa_default p)"

text \<open>The loop of \<open>coerceParams\<close>, with the two maps it fills as accumulators.\<close>

fun coerce_loop ::
  "(string \<Rightarrow> string option) \<Rightarrow> param list \<Rightarrow> (string \<times> json) list \<Rightarrow> (string \<times> string) list \<Rightarrow>
   ((string \<times> json) list \<times> (string \<times> string) list) res" where
  "coerce_loop supplied [] coerced strs = Inr (coerced, strs)"
| "coerce_loop supplied (p # ps) coerced strs =
     (let value = effective_value supplied p in
      if value = [] then coerce_loop supplied ps coerced (AList.update (pa_name p) [] strs)
      else case coerce_value p value of
             Inl e \<Rightarrow> Inl e
           | Inr cv \<Rightarrow> coerce_loop supplied ps (AList.update (pa_name p) cv coerced)
                         (AList.update (pa_name p) (stringifyJSON cv) strs))"

definition coerceParams ::
  "param list \<Rightarrow> (string \<Rightarrow> string option) \<Rightarrow> ((string \<times> json) list \<times> (string \<times> string) list) res" where
  "coerceParams decls supplied = coerce_loop supplied decls [] []"

definition suppliedValues :: "param_value list \<Rightarrow> string \<Rightarrow> string option" where
  "suppliedValues values = foldl (\<lambda>m v. m(pv_name v \<mapsto> pv_value v)) Map.empty values"

section \<open>Substitution\<close>

definition ident_start :: "char \<Rightarrow> bool" where
  "ident_start c \<longleftrightarrow> (CHR ''a'' \<le> c \<and> c \<le> CHR ''z'') \<or> (CHR ''A'' \<le> c \<and> c \<le> CHR ''Z'') \<or> c = CHR ''_''"

definition ident_char :: "char \<Rightarrow> bool" where
  "ident_char c \<longleftrightarrow> ident_start c \<or> is_digit c"

text \<open>A match of the reference pattern at the front of a text: scope, name and the text after it.\<close>

definition match_name :: "string \<Rightarrow> string \<Rightarrow> (string \<times> string \<times> string) option" where
  "match_name scope s =
     (let name = takeWhile ident_char s; rest = dropWhile ident_char s
      in if name \<noteq> [] \<and> ident_start (hd name) \<and> has_prefix rest '')''
         then Some (scope, name, tl rest) else None)"

definition match_ref :: "string \<Rightarrow> (string \<times> string \<times> string) option" where
  "match_ref s =
     (if has_prefix s ''$(agent.'' then match_name scope_agent (drop 8 s)
      else if has_prefix s ''$(workflow.'' then match_name scope_workflow (drop 11 s)
      else None)"

lemma match_name_length: "match_name sc s = Some (a, n, r) \<Longrightarrow> length r < length s"
proof -
  assume "match_name sc s = Some (a, n, r)"
  then have "r = tl (dropWhile ident_char s)" "takeWhile ident_char s \<noteq> []"
    by (auto simp: match_name_def Let_def split: if_splits)
  moreover have "length s = length (takeWhile ident_char s) + length (dropWhile ident_char s)"
    by (metis length_append takeWhile_dropWhile_id)
  ultimately show ?thesis by (cases "takeWhile ident_char s") auto
qed

lemma match_ref_length: "match_ref s = Some (a, n, r) \<Longrightarrow> length r < length s"
  by (auto simp: match_ref_def split: if_splits dest!: match_name_length)

text \<open>A text as the leftmost non-overlapping matches cut it.\<close>

datatype piece = PChar char | PRef string string

function pieces :: "string \<Rightarrow> piece list" where
  "pieces [] = []"
| "pieces (c # cs) =
     (case match_ref (c # cs) of
        None \<Rightarrow> PChar c # pieces cs
      | Some (scope, name, rest) \<Rightarrow> PRef scope name # pieces rest)"
  by pat_completeness auto

termination
  by (relation "measure length") (auto dest: match_ref_length)

declare pieces.simps(2) [simp del]

definition ref_text :: "string \<Rightarrow> string \<Rightarrow> string" where
  "ref_text scope name = ''$('' @ scope @ ''.'' @ name @ '')''"

definition lookup_ref ::
  "(string \<Rightarrow> (string \<Rightarrow> string option) option) \<Rightarrow> string \<Rightarrow> string \<Rightarrow> string option" where
  "lookup_ref scopes scope name =
     (case scopes scope of None \<Rightarrow> None | Some vals \<Rightarrow> vals name)"

fun render_piece :: "(string \<Rightarrow> (string \<Rightarrow> string option) option) \<Rightarrow> piece \<Rightarrow> string" where
  "render_piece scopes (PChar c) = [c]"
| "render_piece scopes (PRef scope name) =
     (case lookup_ref scopes scope name of Some v \<Rightarrow> v | None \<Rightarrow> ref_text scope name)"

fun unresolved_piece :: "(string \<Rightarrow> (string \<Rightarrow> string option) option) \<Rightarrow> piece \<Rightarrow> string list" where
  "unresolved_piece scopes (PChar c) = []"
| "unresolved_piece scopes (PRef scope name) =
     (case lookup_ref scopes scope name of Some v \<Rightarrow> [] | None \<Rightarrow> [ref_text scope name])"

definition substitute :: "string \<Rightarrow> (string \<Rightarrow> (string \<Rightarrow> string option) option) \<Rightarrow> string res" where
  "substitute text scopes =
     (if text = [] \<or> \<not> contains_sub text ''$('' then Inr text
      else
        (let rendered = concat (map (render_piece scopes) (pieces text));
             unresolved = concat (map (unresolved_piece scopes) (pieces text))
         in if unresolved \<noteq> []
            then Inl (errorf ''unresolved parameter references: %s''
                        [Lit (join '', '' (sort_compact unresolved))])
            else Inr rendered))"

section \<open>The parameter file\<close>

record params_file =
  pf_workflow :: "(string \<times> json) list"
  pf_agent :: "(string \<times> json) list"
  pf_execution :: "(string \<times> json) list"

type_synonym scopes = "string \<Rightarrow> (string \<Rightarrow> string option) option"

text \<open>The error of a decoder; its text is the library's.\<close>

definition decode_error :: err where
  "decode_error = errorf ''invalid JSON'' []"

definition workflow_section :: "agent_run \<Rightarrow> (string \<times> json) list res" where
  "workflow_section run =
     (case rs_workflow_params (ar_spec run) of
        None \<Rightarrow> Inr []
      | Some raw \<Rightarrow>
          if raw = [] then Inr []
          else (case Option.bind (json_decode_first raw) json_as_map of
                  Some kvs \<Rightarrow> Inr kvs
                | None \<Rightarrow> Inl (wrapf ''workflow params: %w'' [] decode_error)))"

definition buildParams :: "agent_run \<Rightarrow> agent \<Rightarrow> (params_file \<times> scopes) res" where
  "buildParams run ag =
     (case coerceParams (as_params (ag_spec ag)) (suppliedValues (rs_params (ar_spec run))) of
        Inl e \<Rightarrow> Inl (wrapf ''agent params: %w'' [] e)
      | Inr (agentCoerced, agentStrs) \<Rightarrow>
          (case workflow_section run of
             Inl e \<Rightarrow> Inl e
           | Inr workflowCoerced \<Rightarrow>
               (let workflowStrs = map (map_prod id stringifyJSON) workflowCoerced;
                    exec = resolveExecution (rs_execution (ar_spec run)) (as_execution (ag_spec ag))
                in Inr (\<lparr>pf_workflow = workflowCoerced, pf_agent = agentCoerced,
                         pf_execution = executionSection exec\<rparr>,
                        [scope_agent \<mapsto> map_of agentStrs, scope_workflow \<mapsto> map_of workflowStrs]))))"

definition marshal_error :: err where
  "marshal_error = errorf ''json: unsupported value'' []"

definition coerceWorkflowParams ::
  "param list \<Rightarrow> (string \<Rightarrow> string option) \<Rightarrow> (string option \<times> (string \<times> string) list) res" where
  "coerceWorkflowParams decls supplied =
     (case coerceParams decls supplied of
        Inl e \<Rightarrow> Inl e
      | Inr (coerced, strs) \<Rightarrow>
          if coerced = [] then Inr (None, strs)
          else (case json_encode (JObj coerced) of
                  None \<Rightarrow> Inl marshal_error
                | Some raw \<Rightarrow> Inr (Some raw, strs)))"

text \<open>The three sections in the order of the struct; an empty one is left out.\<close>

definition params_sections :: "params_file \<Rightarrow> (string \<times> json) list" where
  "params_sections f =
     (if pf_workflow f = [] then [] else [(''workflow'', JObj (pf_workflow f))]) @
     (if pf_agent f = [] then [] else [(''agent'', JObj (pf_agent f))]) @
     (if pf_execution f = [] then [] else [(''execution'', JObj (pf_execution f))])"

definition renderParamsFile :: "params_file \<Rightarrow> string res" where
  "renderParamsFile f =
     (if params_sections f = [] then Inr ''{}''
      else case opt_all (\<lambda>kv. map_option (\<lambda>t. json_string (fst kv) @ '': '' @ t)
                                (json_indent 1 (snd kv))) (params_sections f) of
             None \<Rightarrow> Inl marshal_error
           | Some ys \<Rightarrow> Inr (''{'' @ json_newline 1 @ join ('','' @ json_newline 1) ys
                              @ json_newline 0 @ ''}''))"

section \<open>Facts about coercion\<close>

definition coercible :: "(string \<Rightarrow> string option) \<Rightarrow> param \<Rightarrow> bool" where
  "coercible supplied p \<longleftrightarrow>
     effective_value supplied p = [] \<or> \<not> isl (coerce_value p (effective_value supplied p))"

lemma coerce_loop_succeeds:
  "\<not> isl (coerce_loop supplied ps co st) \<longleftrightarrow> list_all (coercible supplied) ps"
  by (induction ps arbitrary: co st) (auto simp: coercible_def Let_def split: sum.splits)

lemma coerce_loop_first_error:
  "coerce_loop supplied ps co st = Inl e \<Longrightarrow>
     \<exists>us p vs. ps = us @ p # vs \<and> list_all (coercible supplied) us \<and>
       effective_value supplied p \<noteq> [] \<and> coerce_value p (effective_value supplied p) = Inl e"
proof (induction ps arbitrary: co st)
  case Nil
  then show ?case by simp
next
  case (Cons p ps)
  show ?case
  proof (cases "coercible supplied p")
    case True
    with Cons.prems obtain co' st' where "coerce_loop supplied ps co' st' = Inl e"
      by (auto simp: coercible_def Let_def split: sum.splits if_splits)
    from Cons.IH [OF this] obtain us q vs where
      "ps = us @ q # vs" "list_all (coercible supplied) us" "effective_value supplied q \<noteq> []"
      "coerce_value q (effective_value supplied q) = Inl e" by blast
    with True show ?thesis by (intro exI [of _ "p # us"]) auto
  next
    case False
    with Cons.prems show ?thesis
      by (intro exI [of _ "[]"]) (auto simp: coercible_def Let_def split: sum.splits)
  qed
qed

text \<open>What the two maps hold for a parameter.\<close>

definition coerced_entry :: "(string \<Rightarrow> string option) \<Rightarrow> param \<Rightarrow> json option" where
  "coerced_entry supplied p =
     (if effective_value supplied p = [] then None
      else case coerce_value p (effective_value supplied p) of Inl e \<Rightarrow> None | Inr v \<Rightarrow> Some v)"

definition string_entry :: "(string \<Rightarrow> string option) \<Rightarrow> param \<Rightarrow> string" where
  "string_entry supplied p =
     (case coerced_entry supplied p of None \<Rightarrow> [] | Some v \<Rightarrow> stringifyJSON v)"

lemma coerce_loop_other:
  "coerce_loop supplied ps co st = Inr (co', st') \<Longrightarrow> n \<notin> pa_name ` set ps \<Longrightarrow>
     map_of co' n = map_of co n \<and> map_of st' n = map_of st n"
  by (induction ps arbitrary: co st)
    (auto simp: Let_def update_conv' split: if_splits sum.splits)

lemma coerce_loop_maps:
  assumes "coerce_loop supplied ps co st = Inr (co', st')" and "distinct (map pa_name ps)"
    and "p \<in> set ps" and "map_of co (pa_name p) = None"
  shows "map_of co' (pa_name p) = coerced_entry supplied p \<and>
         map_of st' (pa_name p) = Some (string_entry supplied p)"
  using assms
proof (induction ps arbitrary: co st)
  case Nil
  then show ?case by simp
next
  case (Cons q qs)
  show ?case
  proof (cases "p = q")
    case True
    with Cons.prems have "pa_name p \<notin> pa_name ` set qs" by auto
    with True Cons.prems(1,4) show ?thesis
      by (auto simp: Let_def coerced_entry_def string_entry_def update_conv' split: if_splits sum.splits
          dest!: coerce_loop_other)
  next
    case False
    with Cons.prems(2,3) have p: "p \<in> set qs" "pa_name q \<noteq> pa_name p" "distinct (map pa_name qs)"
      by auto
    from Cons.prems(1) obtain co1 st1 where "coerce_loop supplied qs co1 st1 = Inr (co', st')"
      and "map_of co1 (pa_name p) = map_of co (pa_name p)"
      using p(2) by (auto simp: Let_def update_conv' split: if_splits sum.splits)
    then show ?thesis using Cons.IH p Cons.prems(4) by auto
  qed
qed

lemma coerce_loop_step:
  assumes "coerce_loop supplied (p # ps) co st = Inr r"
  shows "\<exists>co1 st1. coerce_loop supplied ps co1 st1 = Inr r \<and>
      fst ` set co1 \<subseteq> insert (pa_name p) (fst ` set co) \<and>
      fst ` set st1 = insert (pa_name p) (fst ` set st)"
proof (cases "effective_value supplied p = []")
  case True
  then have "coerce_loop supplied ps co (AList.update (pa_name p) [] st) = Inr r"
    using assms by simp
  then show ?thesis
    by (intro exI [of _ co] exI [of _ "AList.update (pa_name p) [] st"])
      (simp add: dom_update subset_insertI)
next
  case False
  with assms obtain v where v: "coerce_loop supplied ps (AList.update (pa_name p) v co)
      (AList.update (pa_name p) (stringifyJSON v) st) = Inr r"
    by (auto split: sum.splits)
  show ?thesis
    by (intro exI conjI) (rule v, simp_all add: dom_update)
qed

lemma coerce_loop_keys:
  "coerce_loop supplied ps co st = Inr (co', st') \<Longrightarrow>
     fst ` set co' \<subseteq> fst ` set co \<union> pa_name ` set ps \<and>
     fst ` set st' = fst ` set st \<union> pa_name ` set ps"
proof (induction ps arbitrary: co st)
  case Nil
  then show ?case by simp
next
  case (Cons p ps)
  from coerce_loop_step [OF Cons.prems] obtain co1 st1
    where c: "coerce_loop supplied ps co1 st1 = Inr (co', st')"
      and k: "fst ` set co1 \<subseteq> insert (pa_name p) (fst ` set co)"
        "fst ` set st1 = insert (pa_name p) (fst ` set st)" by blast
  have sets: "A' \<subseteq> A \<union> insert n P \<and> B' = B \<union> insert n P"
    if "A' \<subseteq> A1 \<union> P \<and> B' = B1 \<union> P" "A1 \<subseteq> insert n A" "B1 = insert n B" for n and A A' A1 B B' B1 P :: "string set"
    using that by blast
  show ?case using sets [OF Cons.IH [OF c] k] by simp
qed

text \<open>
  Coercion of declared parameters with distinct names succeeds exactly when every non-empty value
  reads at its type; then the typed map holds exactly the parameters with a non-empty value and the
  substitution map holds every declared name, an unset one as the empty text.
\<close>

theorem coerceParams_spec:
  assumes "distinct (map pa_name decls)"
  shows "case coerceParams decls supplied of
      Inl e \<Rightarrow> (\<exists>us p vs. decls = us @ p # vs \<and> list_all (coercible supplied) us \<and>
                 \<not> coercible supplied p \<and> coerce_value p (effective_value supplied p) = Inl e)
    | Inr (co, st) \<Rightarrow>
        list_all (coercible supplied) decls \<and>
        fst ` set st = pa_name ` set decls \<and> fst ` set co \<subseteq> pa_name ` set decls \<and>
        (\<forall>p \<in> set decls. map_of co (pa_name p) = coerced_entry supplied p \<and>
                         map_of st (pa_name p) = Some (string_entry supplied p))"
proof (cases "coerceParams decls supplied")
  case (Inl e)
  then have "coerce_loop supplied decls [] [] = Inl e" by (simp add: coerceParams_def)
  from coerce_loop_first_error [OF this] show ?thesis
    unfolding Inl by (fastforce simp: coercible_def)
next
  case (Inr r)
  obtain co st where r: "r = (co, st)" by (cases r)
  have l: "coerce_loop supplied decls [] [] = Inr (co, st)"
    using Inr r by (simp add: coerceParams_def)
  then have "list_all (coercible supplied) decls"
    using coerce_loop_succeeds [of supplied decls "[]" "[]"] by simp
  with coerce_loop_keys [OF l] coerce_loop_maps [OF l assms] show ?thesis
    unfolding Inr r by simp
qed

definition sample_decls :: "param list" where
  "sample_decls = [\<lparr>pa_name = ''n'', pa_type = ParamTypeBoolean, pa_default = ''true'', pa_required = False\<rparr>,
     \<lparr>pa_name = ''s'', pa_type = ParamTypeString, pa_default = [], pa_required = False\<rparr>]"

lemma coerceParams_spec_witness:
  "case coerceParams sample_decls Map.empty of
     Inl e \<Rightarrow> False
   | Inr (co, st) \<Rightarrow> fst ` set st = {''n'', ''s''}"
proof -
  have d: "distinct (map pa_name sample_decls)" by (simp add: sample_decls_def)
  have "list_all (coercible Map.empty) sample_decls"
    by (simp add: sample_decls_def coercible_def effective_value_def coerce_value_def parse_bool_def)
  then have "\<not> isl (coerceParams sample_decls Map.empty)"
    by (simp add: coerceParams_def coerce_loop_succeeds)
  with coerceParams_spec [OF d, of Map.empty] show ?thesis
    by (auto simp: sample_decls_def split: sum.splits)
qed

section \<open>Facts about substitution\<close>

fun piece_text :: "piece \<Rightarrow> string" where
  "piece_text (PChar c) = [c]"
| "piece_text (PRef scope name) = ref_text scope name"

definition valid_name :: "string \<Rightarrow> bool" where
  "valid_name n \<longleftrightarrow> n \<noteq> [] \<and> ident_start (hd n) \<and> list_all ident_char n"

definition known_scope :: "string \<Rightarrow> bool" where
  "known_scope sc \<longleftrightarrow> sc = scope_agent \<or> sc = scope_workflow"

lemma ident_char_close: "\<not> ident_char CHR '')''"
  by (simp add: ident_char_def ident_start_def is_digit_def less_eq_char_def)

lemma match_name_iff:
  "match_name sc s = Some (a, n, r) \<longleftrightarrow> a = sc \<and> valid_name n \<and> s = n @ '')'' @ r"
proof
  assume m: "match_name sc s = Some (a, n, r)"
  then have n: "n = takeWhile ident_char s" "n \<noteq> []" "ident_start (hd n)" "a = sc"
    and r: "has_prefix (dropWhile ident_char s) '')''" "r = tl (dropWhile ident_char s)"
    by (auto simp: match_name_def Let_def split: if_splits)
  have "dropWhile ident_char s = '')'' @ r"
    using r by (auto simp: has_prefix_iff)
  then have "s = n @ '')'' @ r"
    using n(1) by (metis takeWhile_dropWhile_id)
  moreover have "list_all ident_char n"
    using n(1) by (auto simp: list_all_iff dest: set_takeWhileD)
  ultimately show "a = sc \<and> valid_name n \<and> s = n @ '')'' @ r"
    using n by (simp add: valid_name_def)
next
  assume "a = sc \<and> valid_name n \<and> s = n @ '')'' @ r"
  then have "a = sc" "s = n @ '')'' @ r" "n \<noteq> []" "ident_start (hd n)" "\<forall>c \<in> set n. ident_char c"
    by (auto simp: valid_name_def list_all_iff)
  then show "match_name sc s = Some (a, n, r)"
    by (simp add: match_name_def takeWhile_append2 dropWhile_append2 ident_char_close has_prefix_def)
qed

lemma match_ref_iff:
  "match_ref s = Some (sc, n, r) \<longleftrightarrow> known_scope sc \<and> valid_name n \<and> s = ref_text sc n @ r"
proof
  assume m: "match_ref s = Some (sc, n, r)"
  show "known_scope sc \<and> valid_name n \<and> s = ref_text sc n @ r"
  proof (cases "has_prefix s ''$(agent.''")
    case True
    then obtain t where s: "s = ''$(agent.'' @ t" by (auto simp: has_prefix_iff)
    from m True have "match_name scope_agent t = Some (sc, n, r)"
      by (simp add: match_ref_def s)
    then show ?thesis
      by (auto simp: match_name_iff known_scope_def ref_text_def s scope_agent_def)
  next
    case False
    with m have p: "has_prefix s ''$(workflow.''" by (auto simp: match_ref_def split: if_splits)
    then obtain t where s: "s = ''$(workflow.'' @ t" by (auto simp: has_prefix_iff)
    from m False have "match_name scope_workflow t = Some (sc, n, r)"
      by (simp add: match_ref_def s has_prefix_def)
    then show ?thesis
      by (auto simp: match_name_iff known_scope_def ref_text_def s scope_workflow_def)
  qed
next
  assume a: "known_scope sc \<and> valid_name n \<and> s = ref_text sc n @ r"
  then have "match_name sc (n @ '')'' @ r) = Some (sc, n, r)"
    by (simp add: match_name_iff)
  with a show "match_ref s = Some (sc, n, r)"
    by (auto simp: known_scope_def scope_agent_def scope_workflow_def ref_text_def match_ref_def
        has_prefix_def)
qed

text \<open>The pieces concatenate back to the text, and every reference among them is a well-formed one.\<close>

lemma pieces_text: "concat (map piece_text (pieces s)) = s"
proof (induction s rule: pieces.induct)
  case 1
  then show ?case by simp
next
  case (2 c cs)
  show ?case
  proof (cases "match_ref (c # cs)")
    case None
    then show ?thesis using "2.IH"(1) by (simp add: pieces.simps(2))
  next
    case (Some x)
    obtain sc n r where x: "x = (sc, n, r)" by (cases x)
    then have t: "c # cs = ref_text sc n @ r" using Some match_ref_iff by blast
    have "pieces (c # cs) = PRef sc n # pieces r" using Some x by (simp add: pieces.simps(2))
    moreover have "concat (map piece_text (pieces r)) = r" using "2.IH"(2) [OF Some] x by simp
    ultimately show ?thesis unfolding t by simp
  qed
qed

lemma pieces_refs: "PRef sc n \<in> set (pieces s) \<Longrightarrow> known_scope sc \<and> valid_name n"
proof (induction s rule: pieces.induct)
  case 1
  then show ?case by simp
next
  case (2 c cs)
  show ?case
  proof (cases "match_ref (c # cs)")
    case None
    with "2.prems" have "PRef sc n \<in> set (pieces cs)" by (simp add: pieces.simps(2))
    with None "2.IH"(1) show ?thesis by simp
  next
    case (Some x)
    obtain a b r where x: "x = (a, b, r)" by (cases x)
    with Some have "known_scope a \<and> valid_name b" using match_ref_iff by blast
    with Some x "2.prems" "2.IH"(2) show ?thesis by (auto simp: pieces.simps(2))
  qed
qed

text \<open>A reference is recognised wherever it stands.\<close>

lemma pieces_ref:
  assumes "known_scope sc" and "valid_name n"
  shows "pieces (ref_text sc n @ rest) = PRef sc n # pieces rest"
proof -
  have m: "match_ref (ref_text sc n @ rest) = Some (sc, n, rest)"
    using assms match_ref_iff by blast
  then show ?thesis
    by (cases "ref_text sc n @ rest") (simp_all add: pieces.simps(2) ref_text_def)
qed

lemma no_dollar_pieces: "\<not> contains_sub s ''$('' \<Longrightarrow> pieces s = map PChar s"
proof (induction s rule: pieces.induct)
  case 1
  then show ?case by simp
next
  case (2 c cs)
  have "match_ref (c # cs) = None"
  proof (rule ccontr)
    assume "match_ref (c # cs) \<noteq> None"
    then obtain sc n r where "match_ref (c # cs) = Some (sc, n, r)" by auto
    then have "c # cs = ref_text sc n @ r" using match_ref_iff by blast
    then have "contains_sub (c # cs) ''$(''"
      unfolding contains_sub_iff ref_text_def by (metis append_Nil append.assoc)
    with "2.prems" show False by blast
  qed
  with "2" show ?case by (simp add: pieces.simps(2))
qed

lemma concat_unresolved_Nil:
  "concat (map (unresolved_piece scopes) ps) = [] \<longleftrightarrow>
     (\<forall>sc n. PRef sc n \<in> set ps \<longrightarrow> lookup_ref scopes sc n \<noteq> None)"
proof (induction ps)
  case Nil
  then show ?case by simp
next
  case (Cons p ps)
  then show ?case by (cases p) (auto split: option.splits)
qed

lemma set_unresolved:
  "set (concat (map (unresolved_piece scopes) ps)) =
     {ref_text sc n |sc n. PRef sc n \<in> set ps \<and> lookup_ref scopes sc n = None}"
proof (induction ps)
  case Nil
  then show ?case by simp
next
  case (Cons p ps)
  show ?case
  proof (cases p)
    case (PChar c)
    with Cons show ?thesis by simp
  next
    case (PRef sc n)
    with Cons show ?thesis by (cases "lookup_ref scopes sc n") auto
  qed
qed

lemma map_PChar_render: "concat (map (render_piece scopes) (map PChar s)) = s"
  by (induction s) auto

text \<open>The early return on a text without an opening changes nothing.\<close>

lemma substitute_pieces:
  "substitute text scopes =
     (let unresolved = concat (map (unresolved_piece scopes) (pieces text))
      in if unresolved \<noteq> []
         then Inl (errorf ''unresolved parameter references: %s''
                     [Lit (join '', '' (sort_compact unresolved))])
         else Inr (concat (map (render_piece scopes) (pieces text))))"
proof (cases "text = [] \<or> \<not> contains_sub text ''$(''")
  case True
  then have p: "pieces text = map PChar text" using no_dollar_pieces by auto
  have "concat (map (unresolved_piece scopes) (map PChar text)) = []"
    unfolding concat_unresolved_Nil by auto
  with True p map_PChar_render show ?thesis by (simp add: substitute_def)
next
  case False
  then show ?thesis by (simp add: substitute_def Let_def)
qed

lemma substitute_ok_iff:
  "(\<exists>t. substitute text scopes = Inr t) \<longleftrightarrow>
     (\<forall>sc n. PRef sc n \<in> set (pieces text) \<longrightarrow> lookup_ref scopes sc n \<noteq> None)"
  unfolding substitute_pieces Let_def concat_unresolved_Nil [symmetric] by simp

text \<open>Text without a dollar sign is copied as it is before whatever follows.\<close>

lemma match_ref_dollar: "match_ref (c # cs) \<noteq> None \<Longrightarrow> c = CHR ''$''"
  by (auto simp: match_ref_def has_prefix_def split: if_splits)

lemma pieces_plain_prefix: "CHR ''$'' \<notin> set pre \<Longrightarrow> pieces (pre @ s) = map PChar pre @ pieces s"
proof (induction pre)
  case Nil
  then show ?case by simp
next
  case (Cons c cs)
  then have "match_ref ((c # cs) @ s) = None" using match_ref_dollar by fastforce
  with Cons show ?case by (simp add: pieces.simps(2))
qed

lemma render_map_PChar: "concat (map (render_piece scopes \<circ> PChar) s) = s"
  by (induction s) auto

lemma unresolved_map_PChar: "concat (map (unresolved_piece scopes \<circ> PChar) s) = []"
  by (induction s) auto

text \<open>
  What substitution means, apart from how it is computed: a text is read from the left; where a reference begins
  it is taken whole, everywhere else one character is copied.  A reference is \<open>$(agent.NAME)\<close> or
  \<open>$(workflow.NAME)\<close> with an identifier of ASCII letters, digits and underscores that begins with no digit.
  The last argument lists the references nothing provides, in the order of the text.
\<close>

definition ident_letters :: string where
  "ident_letters = ''abcdefghijklmnopqrstuvwxyzABCDEFGHIJKLMNOPQRSTUVWXYZ_''"

definition param_reference :: "string \<Rightarrow> string \<Rightarrow> string \<Rightarrow> bool" where
  "param_reference scope name text \<longleftrightarrow>
     scope \<in> {''agent'', ''workflow''} \<and> name \<noteq> [] \<and> hd name \<in> set ident_letters \<and>
     set name \<subseteq> set ident_letters \<union> set ''0123456789'' \<and> text = ''$('' @ scope @ ''.'' @ name @ '')''"

inductive expands :: "(string \<Rightarrow> (string \<Rightarrow> string option) option) \<Rightarrow> string \<Rightarrow> string \<Rightarrow> string list \<Rightarrow> bool" for scopes
where
  Finished: "expands scopes [] [] []"
| Replaced: "param_reference scope name ref \<Longrightarrow> scopes scope = Some values \<Longrightarrow> values name = Some v \<Longrightarrow>
    expands scopes rest out missing \<Longrightarrow> expands scopes (ref @ rest) (v @ out) missing"
| Missing: "param_reference scope name ref \<Longrightarrow> \<forall>values. scopes scope = Some values \<longrightarrow> values name = None \<Longrightarrow>
    expands scopes rest out missing \<Longrightarrow> expands scopes (ref @ rest) (ref @ out) (ref # missing)"
| Copied: "\<forall>scope name ref rest. param_reference scope name ref \<longrightarrow> c # cs \<noteq> ref @ rest \<Longrightarrow>
    expands scopes cs out missing \<Longrightarrow> expands scopes (c # cs) (c # out) missing"

lemma letters_codes: "map of_char ident_letters = [97::nat..<123] @ [65..<91] @ [95]"
  by (simp add: ident_letters_def upt_conv_Cons)

lemma digits_codes: "map of_char ''0123456789'' = [48::nat..<58]"
  by (simp add: upt_conv_Cons)

lemma char_codes: "c \<in> set cs \<longleftrightarrow> (of_char c :: nat) \<in> set (map of_char cs)"
  by (induction cs) auto

lemma ident_start_letters: "ident_start c \<longleftrightarrow> c \<in> set ident_letters"
  unfolding char_codes [of c ident_letters] letters_codes set_append set_upt Un_iff atLeastLessThan_iff
    ident_start_def less_eq_char_def of_char_eq_iff [of c "CHR ''_''", where 'a = nat, symmetric]
  by auto

lemma ident_char_letters: "ident_char c \<longleftrightarrow> c \<in> set ident_letters \<union> set ''0123456789''"
  unfolding ident_char_def ident_start_letters Un_iff char_codes [of c "''0123456789''"] digits_codes set_upt
    atLeastLessThan_iff is_digit_def less_eq_char_def
  by auto

lemma reference_iff: "param_reference sc n t \<longleftrightarrow> known_scope sc \<and> valid_name n \<and> t = ref_text sc n"
  by (auto simp: param_reference_def known_scope_def valid_name_def ref_text_def scope_agent_def scope_workflow_def
      ident_start_letters ident_char_letters list_all_iff)

text \<open>The reference at the front of a text is the one the pattern matches, so the reading is unique.\<close>

lemma match_reference: "match_ref s = Some (sc, n, r) \<longleftrightarrow> param_reference sc n (ref_text sc n) \<and> s = ref_text sc n @ r"
  by (auto simp: match_ref_iff reference_iff)

lemma no_reference:
  "match_ref s = None \<longleftrightarrow> (\<forall>sc n t r. param_reference sc n t \<longrightarrow> s \<noteq> t @ r)"
proof
  assume none: "match_ref s = None"
  show "\<forall>sc n t r. param_reference sc n t \<longrightarrow> s \<noteq> t @ r"
  proof (intro allI impI notI)
    fix sc n t r
    assume "param_reference sc n t" and "s = t @ r"
    then have "match_ref s = Some (sc, n, r)" by (simp add: match_ref_iff reference_iff)
    with none show False by simp
  qed
next
  assume none: "\<forall>sc n t r. param_reference sc n t \<longrightarrow> s \<noteq> t @ r"
  show "match_ref s = None"
  proof (rule ccontr)
    assume "match_ref s \<noteq> None"
    then obtain sc n r where "match_ref s = Some (sc, n, r)" by auto
    with none show False using match_reference by blast
  qed
qed

lemma pieces_reference:
  assumes "param_reference sc n t"
  shows "pieces (t @ rest) = PRef sc n # pieces rest" and "t = ref_text sc n"
  using assms pieces_ref by (auto simp: reference_iff)

lemma expands_pieces:
  "expands scopes text (concat (map (render_piece scopes) (pieces text)))
     (concat (map (unresolved_piece scopes) (pieces text)))"
proof (induction "text" rule: pieces.induct)
  case 1
  then show ?case by (simp add: Finished)
next
  case (2 c cs)
  show ?case
  proof (cases "match_ref (c # cs)")
    case None
    with "2.IH"(1) show ?thesis
      using Copied [OF iffD1 [OF no_reference None]] by (simp add: pieces.simps(2))
  next
    case (Some x)
    obtain sc n r where x: "x = (sc, n, r)" by (cases x)
    with Some have t: "param_reference sc n (ref_text sc n)" "c # cs = ref_text sc n @ r"
      by (simp_all add: match_reference)
    have ih: "expands scopes r (concat (map (render_piece scopes) (pieces r)))
        (concat (map (unresolved_piece scopes) (pieces r)))"
      using "2.IH"(2) [OF Some] x by simp
    show ?thesis
    proof (cases "lookup_ref scopes sc n")
      case None
      then have "\<forall>values. scopes sc = Some values \<longrightarrow> values n = None" by (simp add: lookup_ref_def split: option.splits)
      from Missing [OF t(1) this ih] None show ?thesis unfolding t(2) pieces_reference(1) [OF t(1)] by simp
    next
      case (Some v)
      then obtain m where "scopes sc = Some m" "m n = Some v" by (auto simp: lookup_ref_def split: option.splits)
      from Replaced [OF t(1) this ih] Some show ?thesis unfolding t(2) pieces_reference(1) [OF t(1)] by simp
    qed
  qed
qed

lemma expands_unique:
  "expands scopes text out missing \<Longrightarrow>
     out = concat (map (render_piece scopes) (pieces text)) \<and>
     missing = concat (map (unresolved_piece scopes) (pieces text))"
proof (induction rule: expands.induct)
  case (Missing scope name ref rest out missing)
  then have "lookup_ref scopes scope name = None" by (auto simp: lookup_ref_def split: option.splits)
  with Missing pieces_reference [OF Missing.hyps(1)] show ?case by simp
next
  case (Replaced scope name ref "values" v rest out missing)
  then have "lookup_ref scopes scope name = Some v" by (simp add: lookup_ref_def)
  with Replaced pieces_reference [OF Replaced.hyps(1)] show ?case by simp
next
  case (Copied c cs out missing)
  then have "match_ref (c # cs) = None" unfolding no_reference by blast
  with Copied show ?case by (simp add: pieces.simps(2))
qed simp

text \<open>
  C11: every text expands in exactly one way, and substitution computes it: without a missing reference the result
  is the expansion, in which every reference is replaced by the value of its scope, values are not scanned again
  and all other text is kept; otherwise the error lists each missing reference once, in sorted order.
\<close>

theorem substitute_correct:
  "\<exists>out missing. {(o', m). expands scopes text o' m} = {(out, missing)} \<and>
     (\<exists>bad. sorted_wrt (<) bad \<and> set bad = set missing \<and>
        substitute text scopes =
          (if missing = [] then Inr out
           else Inl (errorf ''unresolved parameter references: %s'' [Lit (join '', '' bad)])))"
proof -
  define out where "out = concat (map (render_piece scopes) (pieces text))"
  define un where "un = concat (map (unresolved_piece scopes) (pieces text))"
  define bad where "bad = sort_compact un"
  have "sorted_wrt (<) bad" unfolding bad_def by (rule sort_compact_strict)
  moreover have "set bad = set un" unfolding bad_def by (rule set_sort_compact)
  moreover have "substitute text scopes = (if un = [] then Inr out
      else Inl (errorf ''unresolved parameter references: %s'' [Lit (join '', '' bad)]))"
    by (simp add: substitute_pieces Let_def un_def out_def bad_def)
  ultimately have result: "\<exists>bad. sorted_wrt (<) bad \<and> set bad = set un \<and> substitute text scopes =
      (if un = [] then Inr out
       else Inl (errorf ''unresolved parameter references: %s'' [Lit (join '', '' bad)]))" by blast
  have spelt: "expands scopes text out un" unfolding out_def un_def by (rule expands_pieces)
  have unique: "expands scopes text o' m \<Longrightarrow> o' = out \<and> m = un" for o' m
    unfolding out_def un_def by (rule expands_unique)
  have "{(o', m). expands scopes text o' m} = {(out, un)}" by (auto dest: unique intro: spelt)
  from conjI [OF this result] show ?thesis by (intro exI)
qed

text \<open>
  A reference is replaced by its value as it is: the value is not scanned again, so a parameter
  cannot smuggle in a reference to another one.
\<close>

theorem substitute_verbatim:
  assumes "known_scope sc" and "valid_name n" and "lookup_ref scopes sc n = Some v"
    and "CHR ''$'' \<notin> set pre" and "substitute rest scopes = Inr out"
  shows "substitute (pre @ ref_text sc n @ rest) scopes = Inr (pre @ v @ out)"
proof -
  have p: "pieces (pre @ ref_text sc n @ rest) = map PChar pre @ PRef sc n # pieces rest"
    using assms(1,2,4) by (simp add: pieces_plain_prefix pieces_ref)
  show ?thesis
    using assms(3,5) unfolding substitute_pieces p
    by (simp add: Let_def render_map_PChar unresolved_map_PChar split: if_splits)
qed

lemma substitute_verbatim_witness:
  "substitute (''go '' @ ref_text ''agent'' ''x'' @ ''.'')
     [''agent'' \<mapsto> [''x'' \<mapsto> ''$(agent.x)'']] = Inr (''go '' @ ''$(agent.x)'' @ ''.'')"
  by (rule substitute_verbatim)
    (simp_all add: known_scope_def scope_agent_def valid_name_def ident_start_def ident_char_def
      less_eq_char_def lookup_ref_def substitute_def has_prefix_def)

text \<open>A number parameter at an exponent spelling, as both scopes see it.\<close>

definition number_param :: "string \<Rightarrow> param" where
  "number_param n = \<lparr>pa_name = n, pa_type = ParamTypeNumber, pa_default = [], pa_required = False\<rparr>"

lemma parse_float_1e21: "parse_float ''1e21'' = Some 0x444b1ae4d6e2ef50"
proof -
  have "parse_float ''1e21'' = finish_float False False 1 21"
    by (simp add: parse_eval)
  also have "finish_float False False 1 21 = Some 0x444b1ae4d6e2ef50"
    by (simp add: finish_float_def float_eval Let_def f64_sign_def)
  finally show ?thesis .
qed

lemma coerce_1e21:
  "coerceParams [number_param ''x''] [''x'' \<mapsto> ''1e21''] =
     Inr ([(''x'', JFloat 0x444b1ae4d6e2ef50)], [(''x'', ''1000000000000000000000'')])"
proof -
  have "parse_int ''1e21'' = None"
    by (simp add: parse_int_def is_digit_def less_eq_char_def)
  moreover have "format_f 0x444b1ae4d6e2ef50 = ''1000000000000000000000''"
    by (simp add: write_eval float_eval)
  ultimately show ?thesis
    by (simp add: coerceParams_def number_param_def effective_value_def coerce_value_def
        parse_float_1e21)
qed

lemma json_text_1e21: "json_float 0x444b1ae4d6e2ef50 = Some ''1e+21''"
  by (simp add: write_eval float_eval)

text \<open>\<open>NaN\<close> is read as a number.\<close>

lemma coerce_NaN:
  "coerceParams [number_param ''x''] [''x'' \<mapsto> ''NaN''] =
     Inr ([(''x'', JFloat f64_nan)], [(''x'', ''NaN'')])"
proof -
  have "parse_float ''NaN'' = Some f64_nan"
    by (simp add: parse_eval char_of_def bit_iff_odd)
  moreover have "parse_int ''NaN'' = None"
    by (simp add: parse_int_def is_digit_def less_eq_char_def)
  ultimately show ?thesis
    by (simp add: coerceParams_def number_param_def effective_value_def coerce_value_def
        write_eval f64_nan_def)
qed

lemma json_float_NaN: "json_float f64_nan = None"
  by (simp add: write_eval f64_nan_def)

text \<open>The text \<open>{"x":1e+21}\<close>.\<close>

definition stamped_1e21 :: string where
  "stamped_1e21 = ''{'' @ [CHR 0x22] @ ''x'' @ [CHR 0x22] @ '':1e+21}''"

lemma encode_1e21: "json_encode (JObj [(''x'', JFloat 0x444b1ae4d6e2ef50)]) = Some stamped_1e21"
  by (simp add: stamped_1e21_def json_text_1e21 sort_keys_def json_string_def rune_chunks_ascii
      ascii_def byte_def json_escape_rune_def json_escape_byte_def)

lemma decode_1e21: "json_decode_first stamped_1e21 = Some (JObj [(''x'', JNumber ''1e+21'')])"
proof -
  have "json_value (Suc (Suc (Suc n))) 0 stamped_1e21 = Some (JObj [(''x'', JNumber ''1e+21'')], [])" for n
    by (simp add: stamped_1e21_def json_value.simps json_members.simps Let_def skip_ws_def json_ws_def
        has_prefix_def max_nesting_def decode_rune.simps byte_def rune_error_def json_number_def
        take_digits_def is_digit_def less_eq_char_def)
  moreover have "2 * length stamped_1e21 + 2 = Suc (Suc (Suc 21))"
    by (simp add: stamped_1e21_def)
  moreover have "json_any (JObj [(''x'', JNumber ''1e+21'')]) = JObj [(''x'', JNumber ''1e+21'')]"
    by simp
  ultimately show ?thesis unfolding json_decode_first_def by (simp only: option.map o_apply fst_conv)
qed

text \<open>
  One value, two renderings: for a workflow parameter whose value is \<open>1e21\<close> the workflow controller
  substitutes the digits of the number in the guide, but stamps JSON from which the run controller reads
  \<open>1e+21\<close>, so a stage's prompt sees another text for the same reference.
\<close>

theorem scopes_render_floats_differently:
  "coerceWorkflowParams [number_param ''x''] [''x'' \<mapsto> ''1e21''] =
     Inr (Some stamped_1e21, [(''x'', ''1000000000000000000000'')]) \<and>
   substitute ''$(workflow.x)'' [scope_workflow \<mapsto> map_of [(''x'', ''1000000000000000000000'')]] =
     Inr ''1000000000000000000000'' \<and>
   map_option (map (map_prod id stringifyJSON))
     (case workflow_section (run\<lparr>ar_spec := (ar_spec run)\<lparr>rs_workflow_params := Some stamped_1e21\<rparr>\<rparr>)
      of Inl e \<Rightarrow> None | Inr kvs \<Rightarrow> Some kvs) = Some [(''x'', ''1e+21'')]"
proof (intro conjI)
  show "coerceWorkflowParams [number_param ''x''] [''x'' \<mapsto> ''1e21''] =
      Inr (Some stamped_1e21, [(''x'', ''1000000000000000000000'')])"
    by (simp add: coerceWorkflowParams_def coerce_1e21 encode_1e21 del: json_encode.simps)
  show "substitute ''$(workflow.x)'' [scope_workflow \<mapsto> map_of [(''x'', ''1000000000000000000000'')]] =
      Inr ''1000000000000000000000''"
  proof -
    have t: "''$(workflow.x)'' = ref_text scope_workflow ''x'' @ []"
      by (simp add: ref_text_def scope_workflow_def)
    have "pieces ''$(workflow.x)'' = [PRef scope_workflow ''x'']"
      unfolding t by (subst pieces_ref)
        (simp_all add: known_scope_def valid_name_def ident_start_def ident_char_def less_eq_char_def)
    then show ?thesis by (simp add: substitute_pieces lookup_ref_def)
  qed
  have "stamped_1e21 \<noteq> []" by (simp add: stamped_1e21_def)
  then show "map_option (map (map_prod id stringifyJSON))
      (case workflow_section (run\<lparr>ar_spec := (ar_spec run)\<lparr>rs_workflow_params := Some stamped_1e21\<rparr>\<rparr>)
       of Inl e \<Rightarrow> None | Inr kvs \<Rightarrow> Some kvs) = Some [(''x'', ''1e+21'')]"
    by (simp add: workflow_section_def decode_1e21)
qed

text \<open>
  A number parameter spelled \<open>NaN\<close> passes coercion and substitution, but no parameter file can be
  rendered with it: the failure comes after validation, where it is retried instead of ending the run.
\<close>

theorem NaN_cannot_be_rendered:
  "coerceParams [number_param ''x''] [''x'' \<mapsto> ''NaN''] =
     Inr ([(''x'', JFloat f64_nan)], [(''x'', ''NaN'')]) \<and>
   renderParamsFile \<lparr>pf_workflow = w, pf_agent = [(''x'', JFloat f64_nan)], pf_execution = x\<rparr> =
     Inl marshal_error"
proof
  show "coerceParams [number_param ''x''] [''x'' \<mapsto> ''NaN''] =
      Inr ([(''x'', JFloat f64_nan)], [(''x'', ''NaN'')])" by (rule coerce_NaN)
  have none: "json_indent 1 (JObj [(''x'', JFloat f64_nan)]) = None"
    by (simp add: sort_keys_def json_float_NaN)
  have split_None: "opt_all f (us @ x # vs) = None" if "f x = None" for f :: "'a \<Rightarrow> 'b option" and us x vs
    using that by (induction us) (auto split: option.splits)
  show "renderParamsFile \<lparr>pf_workflow = w, pf_agent = [(''x'', JFloat f64_nan)], pf_execution = x\<rparr> =
      Inl marshal_error"
    by (simp add: renderParamsFile_def params_sections_def none [unfolded One_nat_def] split_None
        del: json_indent.simps split: option.splits)
qed

end
