(* ===== verification/FileMounts.thy ===== *)
theory FileMounts
  imports RunClient Paths Params
begin

text \<open>
  File mounts of a run (\<open>internal/controller/agentrun_controller.go\<close>): the checks on their paths, the
  lookup of their sources, the projection the kubelet will perform, and the volumes and mounts they
  become.
\<close>

definition workspace_volume :: string where "workspace_volume = ''workspace''"
definition workspace_dir :: string where "workspace_dir = ''/workspace''"
definition tmp_volume :: string where "tmp_volume = ''tmp''"
definition tmp_dir :: string where "tmp_dir = ''/tmp''"
definition skills_volume :: string where "skills_volume = ''skills''"
definition skills_dir :: string where "skills_dir = ''/opt/skills''"
definition skills_src_dir :: string where "skills_src_dir = ''/opt/skills-src''"
definition params_volume :: string where "params_volume = ''konveyor-params''"

definition reservedMountPaths :: "string list" where
  "reservedMountPaths =
     [skills_dir, skills_src_dir, path_dir params_file_path, workspace_dir, tmp_dir,
      ''/var/run/secrets/kubernetes.io/serviceaccount'']"

section \<open>Checks\<close>

definition validateFileMountRelativePath :: "string \<Rightarrow> err option" where
  "validateFileMountRelativePath p =
     (if is_abs p then Some (errorf ''must be relative'' [])
      else if ''..'' \<in> set (split_on slash p) 
      then Some (errorf (''must not contain '' @ [CHR 0x27] @ ''..'' @ [CHR 0x27]) [])
      else None)"

definition check_item :: "file_mount \<Rightarrow> key_to_path \<Rightarrow> err option" where
  "check_item m item =
     (if kp_path item = []
      then Some (errorf ''file mount at %q: items path must not be empty'' [Lit (fm_path m)])
      else case validateFileMountRelativePath (kp_path item) of
             Some e \<Rightarrow> Some (wrapf ''file mount at %q: items path %q %w''
                               [Lit (fm_path m), Lit (kp_path item)] e)
           | None \<Rightarrow> None)"

definition check_previous :: "file_mount \<Rightarrow> string \<Rightarrow> string \<Rightarrow> err option" where
  "check_previous m clean previous =
     (if pathsCollide clean previous
      then Some (errorf ''file mount path %q collides with file mount %q''
                   [Lit (fm_path m), Lit previous]) else None)"

definition check_reserved :: "file_mount \<Rightarrow> string \<Rightarrow> string \<Rightarrow> err option" where
  "check_reserved m clean reserved =
     (if pathsCollide clean reserved
      then Some (errorf ''file mount path %q collides with reserved mount %q''
                   [Lit (fm_path m), Lit reserved]) else None)"

text \<open>One round of the loop, with the cleaned paths seen so far.\<close>

definition check_mount :: "string list \<Rightarrow> file_mount \<Rightarrow> err option" where
  "check_mount seen m =
     (if (fm_secret m = []) = (fm_config_map m = [])
      then Some (errorf ''file mount at %q must set exactly one of secretName or configMapName''
                   [Lit (fm_path m)])
      else if \<not> is_abs (fm_path m)
      then Some (errorf ''file mount path %q must be absolute'' [Lit (fm_path m)])
      else
        (let clean = path_clean (fm_path m) in
         case first_err (check_previous m clean) seen of
           Some e \<Rightarrow> Some e
         | None \<Rightarrow>
             (case first_err (check_item m) (fm_items m) of
                Some e \<Rightarrow> Some e
              | None \<Rightarrow> first_err (check_reserved m clean) reservedMountPaths)))"

fun validate_mounts_from :: "string list \<Rightarrow> file_mount list \<Rightarrow> err option" where
  "validate_mounts_from seen [] = None"
| "validate_mounts_from seen (m # ms) =
     (case check_mount seen m of
        Some e \<Rightarrow> Some e
      | None \<Rightarrow> validate_mounts_from (seen @ [path_clean (fm_path m)]) ms)"

definition validateFileMounts :: "file_mount list \<Rightarrow> err option" where
  "validateFileMounts mounts = validate_mounts_from [] mounts"

text \<open>The keys are a Go set: only membership is used, so a list stands for it.\<close>

fun project_items :: "string list \<Rightarrow> key_to_path list \<Rightarrow> string list res" where
  "project_items keys [] = Inr []"
| "project_items keys (item # items) =
     (if kp_key item \<notin> set keys
      then Inl (errorf ''items key %q not found'' [Lit (kp_key item)])
      else case project_items keys items of
             Inl e \<Rightarrow> Inl e
           | Inr ps \<Rightarrow> Inr (path_clean (kp_path item) # ps))"

definition validateFileMountProjection :: "file_mount \<Rightarrow> string list \<Rightarrow> err option" where
  "validateFileMountProjection m keys =
     (case (if fm_items m \<noteq> [] then project_items keys (fm_items m) else Inr keys) of
        Inl e \<Rightarrow> Some e
      | Inr projected \<Rightarrow>
          if fm_subpath m = [] then None
          else case validateFileMountRelativePath (fm_subpath m) of
                 Some e \<Rightarrow> Some (wrapf ''subPath %q %w'' [Lit (fm_subpath m)] e)
               | None \<Rightarrow>
                   (let subPath = path_clean (fm_subpath m) in
                    if subPath = ''.'' then None
                    else if list_ex (isAncestorOrEqual subPath) projected then None
                    else Some (errorf ''subPath %q not found in projected files''
                                 [Lit (fm_subpath m)])))"

definition source_kind :: "file_mount \<Rightarrow> string" where
  "source_kind m = (if fm_secret m \<noteq> [] then ''Secret'' else ''ConfigMap'')"

definition source_name :: "file_mount \<Rightarrow> string" where
  "source_name m = (if fm_secret m \<noteq> [] then fm_secret m else fm_config_map m)"

definition source_keys ::
  "'w run_client \<Rightarrow> string \<Rightarrow> file_mount \<Rightarrow> ('w, string list) call" where
  "source_keys C ns m w =
     (if fm_secret m \<noteq> []
      then (case rc_get_secret C (nskey_of ns (fm_secret m)) w of
              (Inl e, w') \<Rightarrow> (Inl e, w')
            | (Inr s, w') \<Rightarrow> (Inr (map fst (sec_data s)), w'))
      else (case rc_get_config_map C (nskey_of ns (fm_config_map m)) w of
              (Inl e, w') \<Rightarrow> (Inl e, w')
            | (Inr c, w') \<Rightarrow> (Inr (map fst (cm_data c) @ map fst (cm_binary c)), w')))"

text \<open>A message is a terminal failure, an error one to retry.\<close>

fun validate_sources_from ::
  "'w run_client \<Rightarrow> string \<Rightarrow> file_mount list \<Rightarrow> ('w, msg) call" where
  "validate_sources_from C ns [] w = (Inr (Lit []), w)"
| "validate_sources_from C ns (m # ms) w =
     (case source_keys C ns m w of
        (Inl e, w') \<Rightarrow>
          (Inl (wrapf ''file mount at %q from %s %q in namespace %q: %w''
                  [Lit (fm_path m), Lit (source_kind m), Lit (source_name m), Lit ns] e), w')
      | (Inr keys, w') \<Rightarrow>
          (case validateFileMountProjection m keys of
             Some e \<Rightarrow> (Inr (Fmt ''file mount at %q from %s %q: %v''
                          [Lit (fm_path m), Lit (source_kind m), Lit (source_name m), text_of e]), w')
           | None \<Rightarrow> validate_sources_from C ns ms w'))"

definition validateFileMountSources :: "'w run_client \<Rightarrow> agent_run \<Rightarrow> ('w, msg) call" where
  "validateFileMountSources C run w =
     validate_sources_from C (ar_namespace run) (rs_file_mounts (ar_spec run)) w"

section \<open>Volumes\<close>

definition file_mount_volume :: "nat \<Rightarrow> file_mount \<Rightarrow> volume" where
  "file_mount_volume i m =
     \<lparr>vol_name = ''filemount-'' @ nat_text i,
      vol_source = (if fm_secret m \<noteq> [] then VSecret (fm_secret m) (fm_items m)
                    else VConfigMap (fm_config_map m) (fm_items m))\<rparr>"

definition file_mount_mount :: "nat \<Rightarrow> file_mount \<Rightarrow> volume_mount" where
  "file_mount_mount i m =
     \<lparr>vm_name = ''filemount-'' @ nat_text i, vm_path = path_clean (fm_path m),
      vm_subpath = fm_subpath m, vm_readonly = True\<rparr>"

definition fileMountVolumes :: "agent_run \<Rightarrow> volume list \<times> volume_mount list" where
  "fileMountVolumes run =
     (let ms = rs_file_mounts (ar_spec run); is = [0..<length ms]
      in (map2 file_mount_volume is ms, map2 file_mount_mount is ms))"

section \<open>What the checks mean\<close>

definition relative_ok :: "string \<Rightarrow> bool" where
  "relative_ok p \<longleftrightarrow> \<not> is_abs p \<and> ''..'' \<notin> set (split_on slash p)"

definition mount_ok :: "file_mount \<Rightarrow> bool" where
  "mount_ok m \<longleftrightarrow> (fm_secret m = []) \<noteq> (fm_config_map m = []) \<and> is_abs (fm_path m) \<and>
     (\<forall>item \<in> set (fm_items m). kp_path item \<noteq> [] \<and> relative_ok (kp_path item)) \<and>
     (\<forall>r \<in> set reservedMountPaths. \<not> pathsCollide (path_clean (fm_path m)) r)"

definition no_collisions :: "string list \<Rightarrow> bool" where
  "no_collisions ps \<longleftrightarrow> sorted_wrt (\<lambda>a b. \<not> pathsCollide a b) ps"

lemma pathsCollide_sym: "pathsCollide a b = pathsCollide b a"
  by (auto simp: pathsCollide_def)

lemma relative_path_None: "validateFileMountRelativePath p = None \<longleftrightarrow> relative_ok p"
  by (simp add: validateFileMountRelativePath_def relative_ok_def)

lemma check_item_None:
  "check_item m item = None \<longleftrightarrow> kp_path item \<noteq> [] \<and> relative_ok (kp_path item)"
  by (simp add: check_item_def relative_path_None [symmetric] split: option.splits)

lemma check_previous_None: "check_previous m c p = None \<longleftrightarrow> \<not> pathsCollide c p"
  by (simp add: check_previous_def)

lemma check_reserved_None: "check_reserved m c p = None \<longleftrightarrow> \<not> pathsCollide c p"
  by (simp add: check_reserved_def)

lemma check_mount_None:
  "check_mount seen m = None \<longleftrightarrow>
     mount_ok m \<and> (\<forall>p \<in> set seen. \<not> pathsCollide (path_clean (fm_path m)) p)"
proof -
  have "check_mount seen m = None \<longleftrightarrow>
      (fm_secret m = []) \<noteq> (fm_config_map m = []) \<and> is_abs (fm_path m) \<and>
      first_err (check_previous m (path_clean (fm_path m))) seen = None \<and>
      first_err (check_item m) (fm_items m) = None \<and>
      first_err (check_reserved m (path_clean (fm_path m))) reservedMountPaths = None"
    by (simp add: check_mount_def Let_def split: option.splits)
  then show ?thesis
    unfolding first_err_None check_item_None check_previous_None check_reserved_None mount_ok_def
    by blast
qed

lemma validate_mounts_from_None:
  "validate_mounts_from seen ms = None \<longleftrightarrow>
     list_all mount_ok ms \<and> no_collisions (map (\<lambda>m. path_clean (fm_path m)) ms) \<and>
     (\<forall>m \<in> set ms. \<forall>p \<in> set seen. \<not> pathsCollide (path_clean (fm_path m)) p)"
proof (induction ms arbitrary: seen)
  case Nil
  then show ?case by (simp add: no_collisions_def)
next
  case (Cons m ms)
  have "validate_mounts_from seen (m # ms) = None \<longleftrightarrow>
      check_mount seen m = None \<and> validate_mounts_from (seen @ [path_clean (fm_path m)]) ms = None"
    by (simp split: option.splits)
  then show ?case
    unfolding Cons.IH check_mount_None by (auto simp: no_collisions_def pathsCollide_sym)
qed

text \<open>
  The checks accept a list of file mounts exactly when each names one source, has an absolute path
  that collides with no reserved mount and relative item paths without traversal, and no two cleaned
  mount paths collide.
\<close>

theorem validateFileMounts_iff:
  "validateFileMounts ms = None \<longleftrightarrow>
     list_all mount_ok ms \<and> no_collisions (map (\<lambda>m. path_clean (fm_path m)) ms)"
  by (simp add: validateFileMounts_def validate_mounts_from_None)

definition projected_paths :: "file_mount \<Rightarrow> string list \<Rightarrow> string list" where
  "projected_paths m keys =
     (if fm_items m = [] then keys else map (\<lambda>i. path_clean (kp_path i)) (fm_items m))"

lemma project_items_eq:
  "(case project_items keys items of
      Inr ps \<Rightarrow> kp_key ` set items \<subseteq> set keys \<and> ps = map (\<lambda>i. path_clean (kp_path i)) items
    | Inl e \<Rightarrow> \<not> kp_key ` set items \<subseteq> set keys)"
  by (induction items) (auto split: sum.splits)

text \<open>
  The projection check accepts a mount exactly when every item key exists in the source and the
  sub-path, if any, is relative, free of traversal, and the root or an ancestor of a projected path.
\<close>

theorem validateFileMountProjection_iff:
  "validateFileMountProjection m keys = None \<longleftrightarrow>
     kp_key ` set (fm_items m) \<subseteq> set keys \<and>
     (fm_subpath m = [] \<or>
      relative_ok (fm_subpath m) \<and>
      (path_clean (fm_subpath m) = ''.'' \<or>
       (\<exists>p. p \<in> set (projected_paths m keys) \<and> isAncestorOrEqual (path_clean (fm_subpath m)) p)))"
proof (cases "project_items keys (fm_items m)")
  case (Inl e)
  then have "fm_items m \<noteq> []" "\<not> kp_key ` set (fm_items m) \<subseteq> set keys"
    using project_items_eq [where keys = keys and items = "fm_items m"] by auto
  with Inl show ?thesis by (simp add: validateFileMountProjection_def)
next
  case (Inr ps)
  then have k: "kp_key ` set (fm_items m) \<subseteq> set keys"
    and ps: "ps = map (\<lambda>i. path_clean (kp_path i)) (fm_items m)"
    using project_items_eq [where keys = keys and items = "fm_items m"] by auto
  have "(if fm_items m \<noteq> [] then project_items keys (fm_items m) else Inr keys) =
      Inr (projected_paths m keys)"
    using Inr ps by (simp add: projected_paths_def)
  then show ?thesis
    using k by (auto simp: validateFileMountProjection_def Let_def relative_path_None [symmetric]
        list_ex_iff split: option.splits)
qed

section \<open>The mounts of the agent container\<close>

definition reserved_and_user :: "file_mount list \<Rightarrow> string list" where
  "reserved_and_user ms = reservedMountPaths @ map (\<lambda>m. path_clean (fm_path m)) ms"

lemma path_dir_params: "path_dir params_file_path = ''/run/konveyor''"
  by (simp add: path_dir_def params_file_path_def slash_def trim_right_def path_clean_def is_abs_def
      has_prefix_def clean_comps_def)

lemmas reserved_simps = reservedMountPaths_def skills_dir_def skills_src_dir_def path_dir_params
  workspace_dir_def tmp_dir_def

lemma reserved_clean: "\<forall>r \<in> set reservedMountPaths. clean_abs r"
  by (simp add: reserved_simps clean_abs_def path_clean_def is_abs_def has_prefix_def clean_comps_def
      slash_def)

lemma reserved_no_collisions: "no_collisions reservedMountPaths"
  by (simp add: reserved_simps no_collisions_def pathsCollide_def isAncestorOrEqual_def has_prefix_def
      slash_def)

lemma reserved_and_user_ok:
  assumes "validateFileMounts ms = None"
  shows "\<forall>a \<in> set (reserved_and_user ms). clean_abs a" and "no_collisions (reserved_and_user ms)"
proof -
  have v: "list_all mount_ok ms" "no_collisions (map (\<lambda>m. path_clean (fm_path m)) ms)"
    using assms by (simp_all add: validateFileMounts_def validate_mounts_from_None)
  from v(1) have "\<forall>m \<in> set ms. clean_abs (path_clean (fm_path m))"
    by (auto simp: list_all_iff mount_ok_def clean_abs_clean)
  then show "\<forall>a \<in> set (reserved_and_user ms). clean_abs a"
    using reserved_clean by (auto simp: reserved_and_user_def)
  from v(1) have "\<forall>m \<in> set ms. \<forall>r \<in> set reservedMountPaths. \<not> pathsCollide r (path_clean (fm_path m))"
    by (auto simp: list_all_iff mount_ok_def pathsCollide_sym)
  with v(2) reserved_no_collisions show "no_collisions (reserved_and_user ms)"
    by (auto simp: reserved_and_user_def no_collisions_def sorted_wrt_append)
qed

lemma no_collisions_pairwise:
  "no_collisions ps \<Longrightarrow> pairwise (\<lambda>a b. \<not> isAncestorOrEqual a b \<and> \<not> isAncestorOrEqual b a) (set ps)"
proof (induction ps)
  case Nil
  then show ?case by (simp add: no_collisions_def)
next
  case (Cons p ps)
  then show ?case
    by (auto simp: no_collisions_def pathsCollide_def pairwise_insert)
qed

lemma no_collisions_distinct: "no_collisions ps \<Longrightarrow> distinct ps"
  by (induction ps) (auto simp: no_collisions_def pathsCollide_def isAncestorOrEqual_def)

text \<open>
  C10: once the checks pass, every path of the container lies, component by component, under at most one of
  the reserved mount points and the user's mount points, and these are all different: no file mount shadows
  another mount.  Whether a path lies under a mount point is read off the lists of their components, not off
  the test the checks use.
\<close>

theorem file_mounts_do_not_shadow:
  assumes "validateFileMounts ms = None" and "clean_abs p"
    and "a \<in> set (reserved_and_user ms)" and "b \<in> set (reserved_and_user ms)"
    and "prefix (comps a) (comps p)" and "prefix (comps b) (comps p)"
  shows "a = b \<and> distinct (reserved_and_user ms)"
proof -
  note clean = reserved_and_user_ok(1) [OF assms(1)]
  have "isAncestorOrEqual a p" and "isAncestorOrEqual b p"
    using assms(2-) clean by (simp_all add: ancestor_iff_prefix)
  then show ?thesis
    using mount_path.one_mount_per_path [OF clean assms(2) no_collisions_pairwise]
      no_collisions_distinct reserved_and_user_ok assms(1,3,4) by blast
qed

definition sample_mount :: file_mount where
  "sample_mount = \<lparr>fm_secret = ''creds'', fm_config_map = [], fm_path = ''/etc//app/'', fm_subpath = [],
     fm_items = []\<rparr>"

lemma file_mounts_do_not_shadow_witness:
  "''/etc/app'' = ''/etc/app'' \<and> distinct (reserved_and_user [sample_mount])"
proof -
  have c: "path_clean (fm_path sample_mount) = ''/etc/app''"
    by (simp add: sample_mount_def path_clean_def is_abs_def has_prefix_def clean_comps_def slash_def)
  have v: "validateFileMounts [sample_mount] = None"
    unfolding validateFileMounts_def validate_mounts_from_None by (simp add: mount_ok_def no_collisions_def c)
      (simp add: sample_mount_def is_abs_def has_prefix_def slash_def reserved_simps pathsCollide_def
        isAncestorOrEqual_def)
  have p: "clean_abs ''/etc/app/key''" and i: "prefix (comps ''/etc/app'') (comps ''/etc/app/key'')"
    by (simp_all add: clean_abs_def path_clean_def is_abs_def has_prefix_def clean_comps_def slash_def comps_def)
  show ?thesis
    by (rule file_mounts_do_not_shadow [OF v p _ _ i i]) (simp_all add: reserved_and_user_def c)
qed

end
