(* ===== verification/Names.thy ===== *)
theory Names
  imports Sha256 Utf8
begin

text \<open>
  Object names the controllers derive (\<open>sanitizeVolumeName\<close> of
  \<open>internal/controller/agentrun_controller.go\<close> and the functions that build on it): the rewriting,
  the names it yields, and the interface the callers rely on.
\<close>

section \<open>The rewriting\<close>

text \<open>
  One rune after \<open>strings.ToLower\<close> and \<open>[^a-z0-9-]\<close> replacement.  Besides the ASCII capitals two runes
  have an ASCII lower case: the Kelvin sign and the capital \<open>I\<close> with a dot.
\<close>

definition name_char :: "char \<Rightarrow> bool" where
  "name_char c \<longleftrightarrow> (CHR ''a'' \<le> c \<and> c \<le> CHR ''z'') \<or> (CHR ''0'' \<le> c \<and> c \<le> CHR ''9'') \<or> c = CHR ''-''"

definition sanitize_rune :: "nat \<Rightarrow> char" where
  "sanitize_rune r =
     (if 65 \<le> r \<and> r \<le> 90 then char_of (r + 32)
      else if r = 8490 then CHR ''k''
      else if r = 304 then CHR ''i''
      else if r < 128 \<and> name_char (char_of r) then char_of r
      else CHR ''-'')"

definition is_dash :: "char \<Rightarrow> bool" where
  "is_dash c \<longleftrightarrow> c = CHR ''-''"

definition sanitize_base :: "string \<Rightarrow> string" where
  "sanitize_base name = trim_both is_dash (map sanitize_rune (runes name))"

definition sha256Prefix :: "string \<Rightarrow> u8 list" where
  "sha256Prefix s = take 4 (sha256 (bytes_of s))"

definition hash_suffix :: "string \<Rightarrow> string" where
  "hash_suffix name = ''-'' @ hex_encode (sha256Prefix name)"

definition sanitizeVolumeName :: "string \<Rightarrow> string" where
  "sanitizeVolumeName name =
     (let sanitized = sanitize_base name in
      if sanitized = name \<and> length name \<le> 63 then name
      else
        (let suffix = hash_suffix name;
             s1 = (if sanitized = [] then ''x'' else sanitized);
             s2 = (if length s1 + length suffix > 63
                   then trim_right is_dash (take (63 - length suffix) s1) else s1)
         in s2 @ suffix))"

section \<open>RFC 1123 labels\<close>

definition dns_label :: "string \<Rightarrow> bool" where
  "dns_label s \<longleftrightarrow> s \<noteq> [] \<and> length s \<le> 63 \<and> list_all name_char s \<and>
     hd s \<noteq> CHR ''-'' \<and> last s \<noteq> CHR ''-''"

text \<open>What the callers rely on: a usable name for every input, and no change to a usable one.\<close>

locale object_names =
  fixes san :: "string \<Rightarrow> string"
  assumes san_valid: "s \<noteq> [] \<Longrightarrow> dns_label (san s)"
    and san_fixed: "dns_label s \<Longrightarrow> san s = s"
begin

lemma san_idem: "s \<noteq> [] \<Longrightarrow> san (san s) = san s"
  by (simp add: san_valid san_fixed)

lemma san_inj_on: "inj_on san {s. dns_label s}"
  by (simp add: inj_on_def san_fixed)

lemma child_valid: "dns_label (san (parent @ ''-'' @ child))"
  by (rule san_valid) simp

lemma child_plain:
  assumes "dns_label parent" and "dns_label child" and "length parent + length child \<le> 62"
  shows "san (parent @ ''-'' @ child) = parent @ ''-'' @ child"
proof (rule san_fixed)
  have "name_char CHR ''-''" by (simp add: name_char_def)
  with assms show "dns_label (parent @ ''-'' @ child)"
    by (auto simp: dns_label_def)
qed

lemma child_distinct:
  assumes "dns_label parent" and "dns_label a" and "dns_label b"
    and "length parent + length a \<le> 62" and "length parent + length b \<le> 62" and "a \<noteq> b"
  shows "san (parent @ ''-'' @ a) \<noteq> san (parent @ ''-'' @ b)"
  unfolding child_plain [OF assms(1,2,4)] child_plain [OF assms(1,3,5)]
  using assms(6) by simp

end

section \<open>The rewriting meets the interface\<close>

lemma byte_char_of: "r < 256 \<Longrightarrow> byte (char_of r) = r"
  by (simp add: byte_def)

lemma sanitize_rune_name_char: "name_char (sanitize_rune r)"
proof (cases "65 \<le> r \<and> r \<le> 90")
  case True
  then have "CHR ''a'' \<le> (char_of (r + 32) :: char) \<and> (char_of (r + 32) :: char) \<le> CHR ''z''"
    by (simp add: less_eq_char_def)
  with True show ?thesis by (simp add: sanitize_rune_def name_char_def)
next
  case False
  then show ?thesis by (auto simp: sanitize_rune_def name_char_def less_eq_char_def)
qed

lemma sanitize_base_chars: "list_all name_char (sanitize_base name)"
proof -
  have "set (sanitize_base name) \<subseteq> set (map sanitize_rune (runes name))"
    unfolding sanitize_base_def by (rule trim_both_set)
  then show ?thesis using sanitize_rune_name_char by (auto simp: list_all_iff)
qed

lemma sanitize_base_ends:
  assumes "sanitize_base name \<noteq> []"
  shows "hd (sanitize_base name) \<noteq> CHR ''-''" and "last (sanitize_base name) \<noteq> CHR ''-''"
  using trim_both_ends [of is_dash "map sanitize_rune (runes name)"] assms
  by (simp_all add: sanitize_base_def is_dash_def)

lemma name_char_ascii: "name_char c \<Longrightarrow> byte c < 128"
  by (auto simp: name_char_def byte_def less_eq_char_def)

lemma sanitize_rune_fixed:
  assumes "name_char c"
  shows "sanitize_rune (byte c) = c"
proof -
  have "(of_char c :: nat) \<noteq> 8490" "(of_char c :: nat) \<noteq> 304" "\<not> (65 \<le> (of_char c :: nat) \<and> (of_char c :: nat) \<le> 90)"
    using assms by (auto simp: name_char_def less_eq_char_def)
  with assms name_char_ascii [OF assms] show ?thesis
    by (auto simp: sanitize_rune_def byte_def)
qed

lemma trim_both_id: "s = [] \<or> (\<not> P (hd s) \<and> \<not> P (last s)) \<Longrightarrow> trim_both P s = s"
proof (cases s rule: rev_cases)
  case Nil
  then show ?thesis by (simp add: trim_both_def trim_left_def trim_right_def)
next
  case (snoc ys y)
  assume "s = [] \<or> (\<not> P (hd s) \<and> \<not> P (last s))"
  with snoc have "\<not> P (hd s)" "\<not> P y" by auto
  moreover have "s \<noteq> []" using snoc by simp
  ultimately have "trim_left P s = s" by (cases s) (simp_all add: trim_left_def)
  with snoc \<open>\<not> P y\<close> show ?thesis by (simp add: trim_both_def trim_right_def)
qed

lemma map_sanitize_fixed: "list_all name_char s \<Longrightarrow> map sanitize_rune (runes s) = s"
proof -
  assume a: "list_all name_char s"
  then have "ascii s" by (auto simp: ascii_def list_all_iff name_char_ascii)
  then have "map sanitize_rune (runes s) = map (\<lambda>c. sanitize_rune (byte c)) s"
    by (simp add: runes_def rune_chunks_ascii)
  also have "\<dots> = map (\<lambda>c. c) s"
    using a by (intro map_cong) (auto simp: list_all_iff sanitize_rune_fixed)
  finally show ?thesis by simp
qed

lemma sanitize_fixed: "dns_label s \<Longrightarrow> sanitizeVolumeName s = s"
  by (simp add: sanitizeVolumeName_def sanitize_base_def map_sanitize_fixed trim_both_id
      dns_label_def is_dash_def)

lemma length_hash_suffix [simp]: "length (hash_suffix name) = 9"
  by (simp add: hash_suffix_def sha256Prefix_def)

lemma is_hex_name_char: "is_hex c \<Longrightarrow> name_char c"
  by (auto simp: is_hex_def name_char_def less_eq_char_def)

lemma hash_suffix_chars: "list_all name_char (hash_suffix name)"
proof -
  have "list_all name_char (hex_encode (sha256Prefix name))"
    using hex_encode_is_hex by (auto simp: list_all_iff is_hex_name_char)
  then show ?thesis by (simp add: hash_suffix_def name_char_def)
qed

lemma hash_suffix_last: "last (hash_suffix name) \<noteq> CHR ''-''"
proof -
  have "length (hex_encode (sha256Prefix name)) = 8" by (simp add: sha256Prefix_def)
  then have "hex_encode (sha256Prefix name) \<noteq> []" by force
  then have "is_hex (last (hash_suffix name))"
    using hex_encode_is_hex [of "sha256Prefix name"] by (auto simp: hash_suffix_def list_all_iff)
  then show ?thesis by (auto simp: is_hex_def less_eq_char_def)
qed

text \<open>The stem that goes before the hash: never empty, at most 54 bytes, no leading dash.\<close>

definition stem_ok :: "string \<Rightarrow> bool" where
  "stem_ok s \<longleftrightarrow> s \<noteq> [] \<and> length s \<le> 54 \<and> list_all name_char s \<and> hd s \<noteq> CHR ''-''"

lemma stem_trim:
  assumes "s \<noteq> []" and "list_all name_char s" and "hd s \<noteq> CHR ''-''" and "54 < length s"
  shows "stem_ok (trim_right is_dash (take 54 s))"
proof -
  obtain c cs where s: "take 54 s = c # cs" "c \<noteq> CHR ''-''"
    using assms(1,3) by (cases s) auto
  obtain t where t: "take 54 s = trim_right is_dash (take 54 s) @ t" "\<forall>d \<in> set t. is_dash d"
    using trim_right_prefix [of "take 54 s" is_dash] by blast
  have "trim_right is_dash (take 54 s) \<noteq> []"
  proof
    assume "trim_right is_dash (take 54 s) = []"
    then have "take 54 s = t" using t(1) by (metis append_Nil)
    with t(2) s show False by (simp add: is_dash_def)
  qed
  moreover have "hd (trim_right is_dash (take 54 s)) = c"
    using hd_trim_right [OF calculation] s by simp
  moreover have "list_all name_char (trim_right is_dash (take 54 s))"
    using trim_right_set [of is_dash "take 54 s"] assms(2) by (auto simp: list_all_iff dest: in_set_takeD)
  moreover have "length (trim_right is_dash (take 54 s)) \<le> 54"
    using length_trim_right [of is_dash "take 54 s"] by simp
  ultimately show ?thesis using s by (simp add: stem_ok_def)
qed

lemma sanitize_rewritten:
  assumes "\<not> (sanitize_base name = name \<and> length name \<le> 63)"
  shows "\<exists>stem. stem_ok stem \<and> sanitizeVolumeName name = stem @ hash_suffix name"
proof -
  define s1 where "s1 = (if sanitize_base name = [] then ''x'' else sanitize_base name)"
  have s1: "s1 \<noteq> []" "list_all name_char s1" "hd s1 \<noteq> CHR ''-''"
    using sanitize_base_chars [of name] sanitize_base_ends [of name]
    by (auto simp: s1_def name_char_def less_eq_char_def)
  have r: "sanitizeVolumeName name =
      (if length s1 > 54 then trim_right is_dash (take 54 s1) else s1) @ hash_suffix name"
    using assms by (auto simp: sanitizeVolumeName_def Let_def s1_def)
  show ?thesis
  proof (cases "length s1 > 54")
    case True
    then show ?thesis using r stem_trim [OF s1] by auto
  next
    case False
    then show ?thesis using r s1 by (auto simp: stem_ok_def)
  qed
qed

lemma sanitize_valid:
  assumes "name \<noteq> []"
  shows "dns_label (sanitizeVolumeName name)"
proof (cases "sanitize_base name = name \<and> length name \<le> 63")
  case True
  then have "sanitizeVolumeName name = name" by (simp add: sanitizeVolumeName_def)
  with True assms sanitize_base_chars [of name] sanitize_base_ends [of name] show ?thesis
    by (simp add: dns_label_def)
next
  case False
  from sanitize_rewritten [OF this] obtain stem where
    st: "stem_ok stem" "sanitizeVolumeName name = stem @ hash_suffix name" by blast
  have "hash_suffix name \<noteq> []" by (simp add: hash_suffix_def)
  with st hash_suffix_chars [of name] hash_suffix_last [of name] show ?thesis
    by (simp add: dns_label_def stem_ok_def)
qed

interpretation volume_name: object_names sanitizeVolumeName
  by unfold_locales (simp_all add: sanitize_valid sanitize_fixed)

section \<open>The derived names\<close>

definition stageAgentRunName :: "string \<Rightarrow> string \<Rightarrow> string" where
  "stageAgentRunName pbRunName stageName = sanitizeVolumeName (pbRunName @ ''-'' @ stageName)"

definition inlineSkillConfigMapName :: "string \<Rightarrow> string \<Rightarrow> string" where
  "inlineSkillConfigMapName runName skillCardName =
     sanitizeVolumeName (runName @ ''-skill-'' @ skillCardName)"

text \<open>
  C16: every derived name is a valid RFC 1123 label of at most 63 bytes, whatever the input, and an input
  that already is one is returned as it is.
\<close>

theorem sanitizeVolumeName_label:
  "(sanitizeVolumeName name = [] \<longleftrightarrow> name = []) \<and>
   (name = [] \<or> dns_label (sanitizeVolumeName name)) \<and>
   (sanitizeVolumeName name = name \<longleftrightarrow> name = [] \<or> dns_label name)"
proof (cases "name = []")
  case True
  then show ?thesis
    by (simp add: sanitizeVolumeName_def sanitize_base_def runes_def trim_both_id)
next
  case False
  then have v: "dns_label (sanitizeVolumeName name)" by (rule volume_name.san_valid)
  with False show ?thesis
    using volume_name.san_fixed by (auto simp: dns_label_def)
qed

lemma hash_suffix_inject: "hash_suffix a = hash_suffix b \<longleftrightarrow> sha256Prefix a = sha256Prefix b"
  by (simp add: hash_suffix_def hex_encode_inject)

lemma sanitize_cases:
  obtains (kept) "sanitizeVolumeName name = name"
  | (rewritten) stem where "sanitizeVolumeName name = stem @ hash_suffix name"
proof (cases "sanitize_base name = name \<and> length name \<le> 63")
  case True
  then show ?thesis using kept by (simp add: sanitizeVolumeName_def)
next
  case False
  then show ?thesis using rewritten sanitize_rewritten by blast
qed

text \<open>
  Two inputs share a derived name only if they are equal, the first four bytes of their SHA-256
  digests agree, or one of them is itself the rewritten form of the other.
\<close>

theorem sanitizeVolumeName_collision:
  assumes e: "sanitizeVolumeName a = sanitizeVolumeName b"
  shows "a = b \<or> sha256Prefix a = sha256Prefix b \<or> a = sanitizeVolumeName b \<or> b = sanitizeVolumeName a"
proof (cases a rule: sanitize_cases)
  case kept
  with e show ?thesis by metis
next
  case ra: (rewritten s)
  show ?thesis
  proof (cases b rule: sanitize_cases)
    case kept
    with e show ?thesis by metis
  next
    case (rewritten t)
    with e ra have "s @ hash_suffix a = t @ hash_suffix b" by metis
    then have "hash_suffix a = hash_suffix b"
      by (metis append_eq_append_conv length_hash_suffix)
    then show ?thesis by (simp add: hash_suffix_inject)
  qed
qed

lemma sanitizeVolumeName_collision_witness:
  "''a.b'' = sanitizeVolumeName ''a.b'' \<or>
   sha256Prefix ''a.b'' = sha256Prefix (sanitizeVolumeName ''a.b'') \<or>
   ''a.b'' = sanitizeVolumeName (sanitizeVolumeName ''a.b'') \<or>
   sanitizeVolumeName ''a.b'' = sanitizeVolumeName ''a.b''"
  by (rule sanitizeVolumeName_collision) (rule volume_name.san_idem [symmetric], simp)

text \<open>
  The rewriting is not injective: a name it changes shares its result with that result, which the
  function returns untouched.
\<close>

theorem sanitizeVolumeName_not_injective:
  assumes "name \<noteq> []" and "\<not> dns_label name"
  shows "sanitizeVolumeName name \<noteq> name \<and>
    sanitizeVolumeName (sanitizeVolumeName name) = sanitizeVolumeName name"
  using assms volume_name.san_idem volume_name.san_valid by metis

lemma sanitizeVolumeName_not_injective_witness:
  "sanitizeVolumeName ''a.b'' \<noteq> ''a.b'' \<and>
   sanitizeVolumeName (sanitizeVolumeName ''a.b'') = sanitizeVolumeName ''a.b''"
  by (rule sanitizeVolumeName_not_injective) (simp_all add: dns_label_def name_char_def less_eq_char_def)

text \<open>
  Stages of one workflow run whose names are labels get different agent run names, each of the form
  run, dash, stage, when they fit in 63 bytes.
\<close>

theorem stage_run_names_distinct:
  assumes "dns_label run" and "dns_label s" and "dns_label t"
    and "length run + length s \<le> 62" and "length run + length t \<le> 62" and "s \<noteq> t"
  shows "stageAgentRunName run s \<noteq> stageAgentRunName run t \<and>
    stageAgentRunName run s = run @ ''-'' @ s"
  unfolding stageAgentRunName_def
  using volume_name.child_distinct [OF assms] volume_name.child_plain [OF assms(1,2,4)] by simp

lemma stage_run_names_distinct_witness:
  "stageAgentRunName ''wf'' ''plan'' \<noteq> stageAgentRunName ''wf'' ''build'' \<and>
   stageAgentRunName ''wf'' ''plan'' = ''wf-plan''"
proof -
  have "dns_label ''wf''" "dns_label ''plan''" "dns_label ''build''"
    by (simp_all add: dns_label_def name_char_def less_eq_char_def)
  from stage_run_names_distinct [OF this] show ?thesis by auto
qed

end
