(* ===== verification/Skills.thy ===== *)
theory Skills
  imports RunClient FileMounts Names
begin

text \<open>
  Skill sources of a run (\<open>internal/controller/agentrun_controller.go\<close>, with the wire format of
  \<open>api/skill/source.go\<close>): the cards and collections an agent names become staged read-only volumes and
  the list of sources declared to the loader.
\<close>

section \<open>Sources\<close>

record git_source =
  gs_url :: string
  gs_ref :: string

record skill_source =
  ks_name :: string
  ks_subpath :: string
  ks_type :: string
  ks_git :: "git_source option"

fun skill_type_text :: "skill_type \<Rightarrow> string" where
  "skill_type_text SkillTypeUnset = ''''"
| "skill_type_text SkillTypeSkill = ''skill''"
| "skill_type_text SkillTypeRule = ''rule''"

definition defaultedSkillType :: "string \<Rightarrow> string" where
  "defaultedSkillType t = (if t = [] then ''skill'' else t)"

text \<open>
  The result under construction with the local maps of \<open>resolveSkillVolumes\<close>: what each source name
  delivers, and which source took each pod volume.
\<close>

record skill_acc =
  sa_volumes :: "volume list"
  sa_mounts :: "volume_mount list"
  sa_inline :: "(string \<times> string) list"
  sa_declared :: "skill_source list"
  sa_errs :: "msg list"
  sa_seen :: "(string \<times> string) list"
  sa_taken :: "(string \<times> string) list"

definition empty_acc :: skill_acc where
  "empty_acc = \<lparr>sa_volumes = [], sa_mounts = [], sa_inline = [], sa_declared = [], sa_errs = [],
     sa_seen = [], sa_taken = []\<rparr>"

definition add_err :: "msg \<Rightarrow> skill_acc \<Rightarrow> skill_acc" where
  "add_err m acc = acc\<lparr>sa_errs := sa_errs acc @ [m]\<rparr>"

definition claim ::
  "klib \<Rightarrow> string \<Rightarrow> string \<Rightarrow> string \<Rightarrow> string \<Rightarrow> git_source option \<Rightarrow> skill_acc \<Rightarrow> bool \<times> skill_acc" where
  "claim L name delivery subPath skillType git acc =
     (if name = [] \<or> name \<noteq> path_base name \<or> name = ''.'' \<or> name = ''..''
      then (False, add_err (Fmt ''skill source %q is not a usable directory name; it must be a single path segment''
                             [Lit name]) acc)
      else if dns_subdomain_problems L name \<noteq> []
      then (False, add_err (Fmt ''skill source %q is not a usable directory name: %s''
                             [Lit name, Lit (join ''; '' (dns_subdomain_problems L name))]) acc)
      else case map_of (sa_seen acc) name of
             Some prev \<Rightarrow>
               (False, if prev \<noteq> delivery
                       then add_err (Fmt ''skill source %q is claimed by two different sources'' [Lit name]) acc
                       else acc)
           | None \<Rightarrow>
               (True, acc\<lparr>sa_seen := (name, delivery) # sa_seen acc,
                          sa_declared := sa_declared acc @
                            [\<lparr>ks_name = name, ks_subpath = subPath, ks_type = skillType, ks_git = git\<rparr>]\<rparr>))"

definition skill_volume_name :: "string \<Rightarrow> string" where
  "skill_volume_name name = sanitizeVolumeName (''skill-'' @ name)"

definition staging_path :: "string \<Rightarrow> string" where
  "staging_path name = skills_src_dir @ ''/'' @ name"

definition stage :: "string \<Rightarrow> skill_acc \<Rightarrow> string \<times> skill_acc" where
  "stage name acc =
     (let volName = skill_volume_name name in
      case map_of (sa_taken acc) volName of
        Some prev \<Rightarrow>
          (volName, add_err (Fmt ''skill sources %q and %q both need the pod volume %q; rename one''
                               [Lit prev, Lit name, Lit volName]) acc)
      | None \<Rightarrow>
          (volName, acc\<lparr>sa_taken := (volName, name) # sa_taken acc,
                        sa_mounts := sa_mounts acc @
                          [\<lparr>vm_name = volName, vm_path = staging_path name, vm_subpath = [],
                            vm_readonly = True\<rparr>]\<rparr>))"

definition add_volume :: "string \<Rightarrow> volume_source \<Rightarrow> skill_acc \<Rightarrow> skill_acc" where
  "add_volume name src acc =
     (case stage name acc of
        (volName, acc') \<Rightarrow>
          acc'\<lparr>sa_volumes := sa_volumes acc' @ [\<lparr>vol_name = volName, vol_source = src\<rparr>]\<rparr>)"

definition image_delivery :: "string \<Rightarrow> string \<Rightarrow> string \<Rightarrow> string" where
  "image_delivery img subPath skillType =
     ''image:'' @ img @ '':'' @ subPath @ '':'' @ defaultedSkillType skillType"

definition addImage ::
  "klib \<Rightarrow> string \<Rightarrow> string \<Rightarrow> string \<Rightarrow> string \<Rightarrow> skill_acc \<Rightarrow> skill_acc" where
  "addImage L name subPath skillType img acc =
     (if img = [] then add_err (Fmt ''skill %q has no resolved image'' [Lit name]) acc
      else case claim L name (image_delivery img subPath skillType) subPath skillType None acc of
             (False, acc') \<Rightarrow> acc'
           | (True, acc') \<Rightarrow> add_volume name (VImage img) acc')"

definition addInline ::
  "klib \<Rightarrow> string \<Rightarrow> string \<Rightarrow> string \<Rightarrow> string \<Rightarrow> skill_acc \<Rightarrow> skill_acc" where
  "addInline L runName name skillType content acc =
     (case claim L name (''inline:'' @ defaultedSkillType skillType @ '':'' @ content) [] skillType None acc of
        (False, acc') \<Rightarrow> acc'
      | (True, acc') \<Rightarrow>
          add_volume name (VConfigMap (inlineSkillConfigMapName runName name) [])
            (acc'\<lparr>sa_inline := AList.update name content (sa_inline acc')\<rparr>))"

definition addGit ::
  "klib \<Rightarrow> string \<Rightarrow> string \<Rightarrow> string \<Rightarrow> git_source \<Rightarrow> skill_acc \<Rightarrow> skill_acc" where
  "addGit L name subPath skillType git acc =
     snd (claim L name (''git:'' @ gs_url git @ '':'' @ gs_ref git @ '':'' @ subPath @ '':'' @
            defaultedSkillType skillType) subPath skillType (Some git) acc)"

definition addCard :: "klib \<Rightarrow> string \<Rightarrow> string \<Rightarrow> skill_card \<Rightarrow> skill_acc \<Rightarrow> skill_acc" where
  "addCard L runName name sc acc =
     (let skillType = skill_type_text (sc_type sc) in
      if sc_inline sc \<noteq> [] then addInline L runName name skillType (sc_inline sc) acc
      else if sc_source sc \<noteq> []
      then addGit L name (sc_subpath sc) skillType \<lparr>gs_url = sc_source sc, gs_ref = sc_ref sc\<rparr> acc
      else addImage L name (sc_subpath sc) skillType (sc_resolved_image sc) acc)"

section \<open>Resolution\<close>

text \<open>Look one card up; the format of the message tells through what it was reached.\<close>

definition resolve_card ::
  "'w run_client \<Rightarrow> klib \<Rightarrow> agent_run \<Rightarrow> (err \<Rightarrow> msg) \<Rightarrow> string \<Rightarrow> skill_acc \<times> 'w \<Rightarrow> skill_acc \<times> 'w" where
  "resolve_card C L run report ref st =
     (case st of
        (acc, w) \<Rightarrow>
          (case rc_get_card C (nskey_of (ar_namespace run) ref) w of
             (Inl e, w') \<Rightarrow> (add_err (report e) acc, w')
           | (Inr sc, w') \<Rightarrow> (addCard L (ar_name run) (om_name (sc_meta sc)) sc acc, w')))"

definition resolve_direct ::
  "'w run_client \<Rightarrow> klib \<Rightarrow> agent_run \<Rightarrow> string \<Rightarrow> skill_acc \<times> 'w \<Rightarrow> skill_acc \<times> 'w" where
  "resolve_direct C L run ref =
     resolve_card C L run (\<lambda>e. Fmt ''SkillCard %q: %v'' [Lit ref, text_of e]) ref"

definition resolve_enumerated ::
  "'w run_client \<Rightarrow> klib \<Rightarrow> agent_run \<Rightarrow> string \<Rightarrow> string \<Rightarrow> skill_acc \<times> 'w \<Rightarrow> skill_acc \<times> 'w" where
  "resolve_enumerated C L run collection cname =
     resolve_card C L run
       (\<lambda>e. Fmt ''SkillCard %q (enumerated from collection %q): %v''
              [Lit cname, Lit collection, text_of e]) cname"

definition resolve_entry ::
  "'w run_client \<Rightarrow> klib \<Rightarrow> agent_run \<Rightarrow> string \<Rightarrow> collection_entry \<Rightarrow> skill_acc \<times> 'w \<Rightarrow> skill_acc \<times> 'w" where
  "resolve_entry C L run collection en st =
     (if ce_card_ref en \<noteq> []
      then resolve_card C L run
             (\<lambda>e. Fmt ''SkillCard %q (from collection %q): %v''
                    [Lit (ce_card_ref en), Lit collection, text_of e]) (ce_card_ref en) st
      else if ce_image en \<noteq> []
      then apfst (addImage L (ce_name en) (ce_subpath en) (skill_type_text (ce_type en)) (ce_image en)) st
      else if ce_source en \<noteq> []
      then apfst (addGit L (ce_name en) (ce_subpath en) (skill_type_text (ce_type en))
                    \<lparr>gs_url = ce_source en, gs_ref = ce_ref en\<rparr>) st
      else apfst (add_err (Fmt ''skill %q in collection %q has no source configured''
                             [Lit (ce_name en), Lit collection])) st)"

definition resolve_collection ::
  "'w run_client \<Rightarrow> klib \<Rightarrow> agent_run \<Rightarrow> string \<Rightarrow> skill_acc \<times> 'w \<Rightarrow> skill_acc \<times> 'w" where
  "resolve_collection C L run ref st =
     (case st of
        (acc, w) \<Rightarrow>
          (case rc_get_collection C (nskey_of (ar_namespace run) ref) w of
             (Inl e, w') \<Rightarrow> (add_err (Fmt ''SkillCollection %q: %v'' [Lit ref, text_of e]) acc, w')
           | (Inr scol, w') \<Rightarrow>
               if sl_image scol \<noteq> [] then
                 fold (resolve_enumerated C L run ref) (sl_resolved_skills scol)
                   (if sl_resolved_skills scol = []
                    then add_err (Fmt ''SkillCollection %q has not finished enumerating %s''
                                    [Lit ref, Lit (sl_image scol)]) acc
                    else acc, w')
               else fold (resolve_entry C L run ref) (sl_skills scol) (acc, w')))"

fun join_msgs :: "msg list \<Rightarrow> msg" where
  "join_msgs ms = Fmt ''; '' ms"

definition resolveSkillVolumes ::
  "'w run_client \<Rightarrow> klib \<Rightarrow> agent_run \<Rightarrow> agent \<Rightarrow> ('w, skill_acc) call" where
  "resolveSkillVolumes C L run ag w =
     (case fold (resolve_collection C L run) (as_skill_collections (ag_spec ag))
             (fold (resolve_direct C L run) (as_skill_cards (ag_spec ag)) (empty_acc, w)) of
        (acc, w') \<Rightarrow>
          (if sa_errs acc \<noteq> []
           then Inl (errorf ''skill resolution failed: %s'' [join_msgs (sa_errs acc)])
           else Inr acc, w'))"

section \<open>What a resolution without errors holds\<close>

definition mounted_names :: "skill_acc \<Rightarrow> string list" where
  "mounted_names acc = map ks_name (filter (\<lambda>s. ks_git s = None) (sa_declared acc))"

definition usable_name :: "klib \<Rightarrow> string \<Rightarrow> bool" where
  "usable_name L n \<longleftrightarrow> n \<noteq> [] \<and> n = path_base n \<and> n \<noteq> ''.'' \<and> n \<noteq> ''..'' \<and>
     dns_subdomain_problems L n = []"

text \<open>
  The part about what is declared, and the part about what is mounted: a mount and a volume per mounted
  name, in order, under one name.
\<close>

definition declared_good :: "klib \<Rightarrow> skill_acc \<Rightarrow> bool" where
  "declared_good L acc \<longleftrightarrow>
     distinct (map ks_name (sa_declared acc)) \<and>
     fst ` set (sa_seen acc) = ks_name ` set (sa_declared acc) \<and>
     (\<forall>s \<in> set (sa_declared acc). usable_name L (ks_name s))"

definition mounted_good :: "skill_acc \<Rightarrow> string list \<Rightarrow> bool" where
  "mounted_good acc names \<longleftrightarrow>
     map vol_name (sa_volumes acc) = map skill_volume_name names \<and>
     map vm_name (sa_mounts acc) = map skill_volume_name names \<and>
     map vm_path (sa_mounts acc) = map staging_path names \<and>
     list_all vm_readonly (sa_mounts acc) \<and>
     distinct (map skill_volume_name names) \<and>
     fst ` set (sa_taken acc) = skill_volume_name ` set names"

definition skills_inv :: "klib \<Rightarrow> skill_acc \<Rightarrow> bool" where
  "skills_inv L acc \<longleftrightarrow>
     (sa_errs acc = [] \<longrightarrow> declared_good L acc \<and> mounted_good acc (mounted_names acc))"

lemma skills_inv_empty: "skills_inv L empty_acc"
  by (simp add: skills_inv_def empty_acc_def declared_good_def mounted_good_def mounted_names_def)

lemma skills_inv_err [simp]: "skills_inv L (add_err m acc)"
  by (simp add: skills_inv_def add_err_def)

text \<open>A refused claim keeps the invariant, an accepted one adds one fresh usable name.\<close>

lemma claim_refused:
  "claim L name d sp t g acc = (False, acc') \<Longrightarrow> skills_inv L acc \<Longrightarrow> skills_inv L acc'"
  by (auto simp: claim_def split: if_splits option.splits)

lemma claim_accepted:
  assumes "claim L name d sp t g acc = (True, acc')"
  shows "usable_name L name \<and> name \<notin> fst ` set (sa_seen acc) \<and>
    acc' = acc\<lparr>sa_seen := (name, d) # sa_seen acc,
               sa_declared := sa_declared acc @ [\<lparr>ks_name = name, ks_subpath = sp, ks_type = t, ks_git = g\<rparr>]\<rparr>"
  using assms by (auto simp: claim_def usable_name_def map_of_eq_None_iff split: if_splits option.splits)

lemma declared_good_claim:
  assumes "claim L name d sp t g acc = (True, acc')" and "declared_good L acc"
  shows "declared_good L acc'"
proof -
  from claim_accepted [OF assms(1)] have c: "usable_name L name" "name \<notin> fst ` set (sa_seen acc)"
    "acc' = acc\<lparr>sa_seen := (name, d) # sa_seen acc,
       sa_declared := sa_declared acc @ [\<lparr>ks_name = name, ks_subpath = sp, ks_type = t, ks_git = g\<rparr>]\<rparr>"
    by auto
  from assms(2) have g: "distinct (map ks_name (sa_declared acc))"
    "fst ` set (sa_seen acc) = ks_name ` set (sa_declared acc)"
    "\<forall>s \<in> set (sa_declared acc). usable_name L (ks_name s)"
    by (simp_all add: declared_good_def)
  from c(2) have "name \<notin> ks_name ` set (sa_declared acc)" unfolding g(2) .
  with c(1) g show ?thesis unfolding c(3) declared_good_def by simp
qed

lemma add_volume_fresh:
  assumes "skill_volume_name name \<notin> fst ` set (sa_taken acc)"
  shows "add_volume name src acc =
    acc\<lparr>sa_taken := (skill_volume_name name, name) # sa_taken acc,
        sa_mounts := sa_mounts acc @
          [\<lparr>vm_name = skill_volume_name name, vm_path = staging_path name, vm_subpath = [],
            vm_readonly = True\<rparr>],
        sa_volumes := sa_volumes acc @ [\<lparr>vol_name = skill_volume_name name, vol_source = src\<rparr>]\<rparr>"
proof -
  have "map_of (sa_taken acc) (skill_volume_name name) = None"
    using assms by (simp add: map_of_eq_None_iff)
  then show ?thesis by (simp add: add_volume_def stage_def Let_def)
qed

lemma add_volume_taken:
  "skill_volume_name name \<in> fst ` set (sa_taken acc) \<Longrightarrow> sa_errs (add_volume name src acc) \<noteq> []"
  by (auto simp: add_volume_def stage_def Let_def add_err_def map_of_eq_None_iff split: option.splits)

lemma add_volume_errs: "sa_errs (add_volume name src acc) = [] \<Longrightarrow> sa_errs acc = []"
  by (auto simp: add_volume_def stage_def Let_def add_err_def split: option.splits)

lemma mounted_good_add:
  assumes "mounted_good acc names" and "skill_volume_name name \<notin> fst ` set (sa_taken acc)"
  shows "mounted_good (add_volume name src acc) (names @ [name])"
proof -
  from assms(1) have "fst ` set (sa_taken acc) = skill_volume_name ` set names"
    by (simp add: mounted_good_def)
  with assms show ?thesis by (simp add: mounted_good_def add_volume_fresh)
qed

lemma add_volume_declared [simp]:
  "sa_declared (add_volume name src acc) = sa_declared acc"
  "sa_seen (add_volume name src acc) = sa_seen acc"
  by (auto simp: add_volume_def stage_def Let_def add_err_def split: option.splits)

lemma mounted_good_cong:
  "sa_volumes a = sa_volumes b \<Longrightarrow> sa_mounts a = sa_mounts b \<Longrightarrow> sa_taken a = sa_taken b \<Longrightarrow>
     mounted_good a names = mounted_good b names"
  by (simp add: mounted_good_def)

text \<open>A mounted delivery: an accepted claim without a repository, then its volume.\<close>

lemma skills_inv_mounted:
  assumes "skills_inv L acc" and c: "claim L name d sp t None acc = (True, acc')"
  shows "skills_inv L (add_volume name src (acc'\<lparr>sa_inline := inl\<rparr>))"
  unfolding skills_inv_def
proof
  let ?b = "acc'\<lparr>sa_inline := inl\<rparr>"
  let ?r = "add_volume name src ?b"
  assume e: "sa_errs ?r = []"
  then have "sa_errs ?b = []" by (rule add_volume_errs)
  moreover have acc': "acc' = acc\<lparr>sa_seen := (name, d) # sa_seen acc,
     sa_declared := sa_declared acc @ [\<lparr>ks_name = name, ks_subpath = sp, ks_type = t, ks_git = None\<rparr>]\<rparr>"
    using claim_accepted [OF c] by simp
  ultimately have g: "declared_good L acc" "mounted_good acc (mounted_names acc)"
    using assms(1) by (simp_all add: skills_inv_def)
  have "mounted_good ?b (mounted_names acc)"
    using g(2) mounted_good_cong [of ?b acc] by (simp add: acc')
  moreover have "skill_volume_name name \<notin> fst ` set (sa_taken ?b)"
    using e add_volume_taken by blast
  ultimately have m: "mounted_good ?r (mounted_names acc @ [name])" by (rule mounted_good_add)
  have "mounted_names ?r = mounted_names acc @ [name]"
    by (simp add: mounted_names_def acc')
  moreover have "declared_good L ?r"
    using declared_good_claim [OF c g(1)] by (simp add: declared_good_def)
  ultimately show "declared_good L ?r \<and> mounted_good ?r (mounted_names ?r)" using m by simp
qed

lemma skills_inv_git:
  assumes "skills_inv L acc" and c: "claim L name d sp t (Some g) acc = (True, acc')"
  shows "skills_inv L acc'"
  unfolding skills_inv_def
proof
  assume "sa_errs acc' = []"
  have acc': "acc' = acc\<lparr>sa_seen := (name, d) # sa_seen acc,
     sa_declared := sa_declared acc @ [\<lparr>ks_name = name, ks_subpath = sp, ks_type = t, ks_git = Some g\<rparr>]\<rparr>"
    using claim_accepted [OF c] by simp
  with \<open>sa_errs acc' = []\<close> have gd: "declared_good L acc" "mounted_good acc (mounted_names acc)"
    using assms(1) by (simp_all add: skills_inv_def)
  have "mounted_names acc' = mounted_names acc" by (simp add: mounted_names_def acc')
  moreover have "mounted_good acc' (mounted_names acc)"
    using gd(2) mounted_good_cong [of acc' acc] by (simp add: acc')
  ultimately show "declared_good L acc' \<and> mounted_good acc' (mounted_names acc')"
    using declared_good_claim [OF c gd(1)] by simp
qed

lemma skills_inv_addImage: "skills_inv L acc \<Longrightarrow> skills_inv L (addImage L name sp t img acc)"
proof (cases "claim L name (image_delivery img sp t) sp t None acc")
  case (Pair ok acc')
  assume i: "skills_inv L acc"
  show ?thesis
  proof (cases ok)
    case True
    then have c: "claim L name (image_delivery img sp t) sp t None acc = (True, acc')"
      using Pair by simp
    have "acc'\<lparr>sa_inline := sa_inline acc'\<rparr> = acc'" by (cases acc') simp
    then have "skills_inv L (add_volume name (VImage img) acc')"
      using skills_inv_mounted [OF i c, where inl = "sa_inline acc'"] by metis
    then show ?thesis using i by (simp add: addImage_def c)
  next
    case False
    with Pair claim_refused [OF _ i] show ?thesis by (simp add: addImage_def)
  qed
qed

lemma skills_inv_addInline: "skills_inv L acc \<Longrightarrow> skills_inv L (addInline L rn name t content acc)"
proof (cases "claim L name (''inline:'' @ defaultedSkillType t @ '':'' @ content) [] t None acc")
  case (Pair ok acc')
  assume i: "skills_inv L acc"
  show ?thesis
  proof (cases ok)
    case True
    with Pair skills_inv_mounted [OF i] show ?thesis by (simp add: addInline_def)
  next
    case False
    with Pair claim_refused [OF _ i] show ?thesis by (simp add: addInline_def)
  qed
qed

lemma skills_inv_addGit: "skills_inv L acc \<Longrightarrow> skills_inv L (addGit L name sp t g acc)"
  unfolding addGit_def using claim_refused skills_inv_git by (metis (full_types) prod.collapse)

lemma skills_inv_addCard: "skills_inv L acc \<Longrightarrow> skills_inv L (addCard L rn name sc acc)"
  by (simp add: addCard_def Let_def skills_inv_addImage skills_inv_addInline skills_inv_addGit)

lemma skills_inv_resolve_card:
  "skills_inv L (fst st) \<Longrightarrow> skills_inv L (fst (resolve_card C L run f ref st))"
  by (auto simp: resolve_card_def skills_inv_addCard split: prod.splits sum.splits)

lemma skills_inv_fold:
  assumes "\<And>x st. skills_inv L (fst st) \<Longrightarrow> skills_inv L (fst (f x st))"
  shows "skills_inv L (fst st) \<Longrightarrow> skills_inv L (fst (fold f xs st))"
  by (induction xs arbitrary: st) (simp_all add: assms)

lemma skills_inv_entry:
  "skills_inv L (fst st) \<Longrightarrow> skills_inv L (fst (resolve_entry C L run c en st))"
  by (simp add: resolve_entry_def skills_inv_resolve_card skills_inv_addImage skills_inv_addGit)

lemma skills_inv_collection:
  "skills_inv L (fst st) \<Longrightarrow> skills_inv L (fst (resolve_collection C L run ref st))"
  by (auto simp: resolve_collection_def resolve_enumerated_def
      intro!: skills_inv_fold skills_inv_entry skills_inv_resolve_card
      split: prod.splits sum.splits)

lemma resolveSkillVolumes_inv:
  assumes "resolveSkillVolumes C L run ag w = (Inr out, w')"
  shows "declared_good L out \<and> mounted_good out (mounted_names out)"
proof -
  let ?st = "fold (resolve_collection C L run) (as_skill_collections (ag_spec ag))
      (fold (resolve_direct C L run) (as_skill_cards (ag_spec ag)) (empty_acc, w))"
  have "skills_inv L (fst ?st)"
    by (intro skills_inv_fold) (simp_all add: skills_inv_collection resolve_direct_def
        skills_inv_resolve_card skills_inv_empty)
  moreover have "sa_errs out = [] \<and> fst ?st = out"
    using assms by (auto simp: resolveSkillVolumes_def split: prod.splits if_splits)
  ultimately show ?thesis by (simp add: skills_inv_def)
qed

section \<open>What an agent asks for\<close>

text \<open>
  The sources an agent names, read off its lists without staging anything: every card, then every collection,
  in order.  There is no answer when a lookup fails, a collection is not enumerated, or an entry or a card
  delivers nothing.
\<close>

datatype delivery = FromImage string string | FromText string | FromGit git_source string

record wanted =
  wa_name :: string
  wa_type :: string
  wa_delivery :: delivery

definition card_source :: "skill_card \<Rightarrow> wanted list option" where
  "card_source sc =
     map_option (\<lambda>d. [\<lparr>wa_name = om_name (sc_meta sc), wa_type = skill_type_text (sc_type sc), wa_delivery = d\<rparr>])
       (if sc_inline sc \<noteq> [] then Some (FromText (sc_inline sc))
        else if sc_source sc \<noteq> []
        then Some (FromGit \<lparr>gs_url = sc_source sc, gs_ref = sc_ref sc\<rparr> (sc_subpath sc))
        else if sc_resolved_image sc \<noteq> [] then Some (FromImage (sc_resolved_image sc) (sc_subpath sc))
        else None)"

definition wanted_card :: "'w run_client \<Rightarrow> string \<Rightarrow> string \<Rightarrow> 'w \<Rightarrow> wanted list option \<times> 'w" where
  "wanted_card C ns ref w =
     apfst (\<lambda>r. case r of Inl e \<Rightarrow> None | Inr sc \<Rightarrow> card_source sc) (rc_get_card C (nskey_of ns ref) w)"

definition wanted_entry :: "'w run_client \<Rightarrow> string \<Rightarrow> collection_entry \<Rightarrow> 'w \<Rightarrow> wanted list option \<times> 'w" where
  "wanted_entry C ns en w =
     (if ce_card_ref en \<noteq> [] then wanted_card C ns (ce_card_ref en) w
      else (map_option (\<lambda>d. [\<lparr>wa_name = ce_name en, wa_type = skill_type_text (ce_type en), wa_delivery = d\<rparr>])
              (if ce_image en \<noteq> [] then Some (FromImage (ce_image en) (ce_subpath en))
               else if ce_source en \<noteq> []
               then Some (FromGit \<lparr>gs_url = ce_source en, gs_ref = ce_ref en\<rparr> (ce_subpath en))
               else None), w))"

definition both_lists :: "'a list option \<Rightarrow> 'a list option \<Rightarrow> 'a list option" where
  "both_lists a b = (case (a, b) of (Some u, Some v) \<Rightarrow> Some (u @ v) | _ \<Rightarrow> None)"

fun gather :: "('x \<Rightarrow> 'w \<Rightarrow> 'a list option \<times> 'w) \<Rightarrow> 'x list \<Rightarrow> 'w \<Rightarrow> 'a list option \<times> 'w" where
  "gather f [] w = (Some [], w)"
| "gather f (x # xs) w = (case f x w of (a, w1) \<Rightarrow> apfst (both_lists a) (gather f xs w1))"

definition wanted_collection :: "'w run_client \<Rightarrow> string \<Rightarrow> string \<Rightarrow> 'w \<Rightarrow> wanted list option \<times> 'w" where
  "wanted_collection C ns ref w =
     (case rc_get_collection C (nskey_of ns ref) w of
        (Inl e, w1) \<Rightarrow> (None, w1)
      | (Inr scol, w1) \<Rightarrow>
          if sl_image scol \<noteq> []
          then if sl_resolved_skills scol = [] then (None, w1)
               else gather (wanted_card C ns) (sl_resolved_skills scol) w1
          else gather (wanted_entry C ns) (sl_skills scol) w1)"

definition wanted_sources :: "'w run_client \<Rightarrow> string \<Rightarrow> agent \<Rightarrow> 'w \<Rightarrow> wanted list option \<times> 'w" where
  "wanted_sources C ns ag w =
     (case gather (wanted_card C ns) (as_skill_cards (ag_spec ag)) w of
        (a, w1) \<Rightarrow> apfst (both_lists a) (gather (wanted_collection C ns) (as_skill_collections (ag_spec ag)) w1))"

text \<open>
  What a wanted source becomes: the declaration the loader reads, the volume, and the text of the config map.
  \<open>spelling\<close> is what two sources of one name are compared by.
\<close>

definition source_of :: "wanted \<Rightarrow> skill_source" where
  "source_of x =
     \<lparr>ks_name = wa_name x,
      ks_subpath = (case wa_delivery x of FromImage i sp \<Rightarrow> sp | FromText t \<Rightarrow> [] | FromGit g sp \<Rightarrow> sp),
      ks_type = wa_type x,
      ks_git = (case wa_delivery x of FromGit g sp \<Rightarrow> Some g | _ \<Rightarrow> None)\<rparr>"

definition volume_of :: "string \<Rightarrow> wanted \<Rightarrow> volume list" where
  "volume_of runName x =
     map (\<lambda>src. \<lparr>vol_name = skill_volume_name (wa_name x), vol_source = src\<rparr>)
       (case wa_delivery x of
          FromImage i sp \<Rightarrow> [VImage i]
        | FromText t \<Rightarrow> [VConfigMap (inlineSkillConfigMapName runName (wa_name x)) []]
        | FromGit g sp \<Rightarrow> [])"

definition content_of :: "wanted \<Rightarrow> (string \<times> string) list" where
  "content_of x = (case wa_delivery x of FromText t \<Rightarrow> [(wa_name x, t)] | _ \<Rightarrow> [])"

definition spelling :: "wanted \<Rightarrow> string" where
  "spelling x =
     (let t = (if wa_type x = [] then ''skill'' else wa_type x) in
      case wa_delivery x of
        FromImage i sp \<Rightarrow> ''image:'' @ i @ '':'' @ sp @ '':'' @ t
      | FromText c \<Rightarrow> ''inline:'' @ t @ '':'' @ c
      | FromGit g sp \<Rightarrow> ''git:'' @ gs_url g @ '':'' @ gs_ref g @ '':'' @ sp @ '':'' @ t)"

fun firsts :: "wanted list \<Rightarrow> wanted list" where
  "firsts [] = []"
| "firsts (x # xs) = x # filter (\<lambda>y. wa_name y \<noteq> wa_name x) (firsts xs)"

lemma set_firsts: "wa_name ` set (firsts ws) = wa_name ` set ws"
proof (induction ws)
  case (Cons x ws)
  have "wa_name ` set (firsts (x # ws)) = insert (wa_name x) (wa_name ` set (firsts ws))" by auto
  with Cons show ?case by simp
qed simp

lemma firsts_snoc:
  "firsts (ws @ [x]) = (if wa_name x \<in> wa_name ` set ws then firsts ws else firsts ws @ [x])"
  by (induction ws) auto

text \<open>
  What holds of the result under construction once the sources \<open>ws\<close> are staged, and of a resolution
  that follows a reading of the agent's lists.
\<close>

definition holds_sources :: "string \<Rightarrow> wanted list \<Rightarrow> skill_acc \<Rightarrow> bool" where
  "holds_sources rn ws acc \<longleftrightarrow>
     sa_declared acc = map source_of (firsts ws) \<and>
     sa_volumes acc = concat (map (volume_of rn) (firsts ws)) \<and>
     sa_inline acc = concat (map content_of (firsts ws)) \<and>
     sa_seen acc = rev (map (\<lambda>x. (wa_name x, spelling x)) (firsts ws)) \<and>
     (\<forall>x \<in> set ws. map_of (sa_seen acc) (wa_name x) = Some (spelling x))"

definition follows_wanted :: "string \<Rightarrow> wanted list option \<Rightarrow> skill_acc \<Rightarrow> bool" where
  "follows_wanted rn wo acc \<longleftrightarrow> (sa_errs acc = [] \<longrightarrow> (\<exists>ws. wo = Some ws \<and> holds_sources rn ws acc))"

lemma follows_err [simp]: "follows_wanted rn wo (add_err m acc)"
  by (simp add: follows_wanted_def add_err_def)

lemma both_lists_simps [simp]:
  "both_lists None b = None" "both_lists a None = None" "both_lists (Some u) (Some v) = Some (u @ v)"
  by (simp_all add: both_lists_def split: option.splits)

lemma both_lists_assoc: "both_lists (both_lists a b) c = both_lists a (both_lists b c)"
  by (cases a; cases b; cases c) simp_all

lemma both_lists_Nil: "both_lists a (Some []) = a"
  by (cases a) simp_all

lemma claim_repeated:
  assumes "claim L name d sp t g acc = (False, acc')" and "sa_errs acc' = []"
  shows "acc' = acc \<and> map_of (sa_seen acc) name = Some d"
  using assms by (auto simp: claim_def add_err_def split: if_splits option.splits)

lemma holds_repeated:
  "holds_sources rn ws acc \<Longrightarrow> map_of (sa_seen acc) (wa_name x) = Some (spelling x) \<Longrightarrow>
     holds_sources rn (ws @ [x]) acc"
proof -
  assume h: "holds_sources rn ws acc" and m: "map_of (sa_seen acc) (wa_name x) = Some (spelling x)"
  then have "(wa_name x, spelling x) \<in> set (sa_seen acc)" using map_of_SomeD by fast
  with h have "wa_name x \<in> wa_name ` set (firsts ws)" by (auto simp: holds_sources_def)
  then have "wa_name x \<in> wa_name ` set ws" by (simp only: set_firsts)
  then have "firsts (ws @ [x]) = firsts ws" by (simp add: firsts_snoc)
  with h m show ?thesis unfolding holds_sources_def by (elim conjE, intro conjI) auto
qed

lemma holds_fresh:
  assumes "holds_sources rn ws acc" and "wa_name x \<notin> fst ` set (sa_seen acc)"
    and "sa_declared acc' = sa_declared acc @ [source_of x]" and "sa_volumes acc' = sa_volumes acc @ volume_of rn x"
    and "sa_inline acc' = sa_inline acc @ content_of x" and "sa_seen acc' = (wa_name x, spelling x) # sa_seen acc"
  shows "holds_sources rn (ws @ [x]) acc'"
proof -
  have "wa_name x \<notin> wa_name ` set (firsts ws)"
    using assms(1,2) by (force simp: holds_sources_def)
  then have "wa_name x \<notin> wa_name ` set ws" unfolding set_firsts .
  then have f: "firsts (ws @ [x]) = firsts ws @ [x]" by (simp add: firsts_snoc)
  have n: "\<forall>y \<in> set ws. wa_name y \<noteq> wa_name x"
    using \<open>wa_name x \<notin> wa_name ` set ws\<close> by (metis imageI)
  show ?thesis using assms(1,3-6) n unfolding holds_sources_def f by (elim conjE, intro conjI) auto
qed

text \<open>The three deliveries; \<open>follows_claim\<close> is what they share.\<close>

lemma claim_errs: "claim L name d sp t g acc = (ok, acc') \<Longrightarrow> sa_errs acc' = [] \<Longrightarrow> sa_errs acc = []"
  by (auto simp: claim_def add_err_def split: if_splits option.splits)

lemma add_volume_effect:
  assumes "sa_errs (add_volume name src acc) = []"
  shows "sa_volumes (add_volume name src acc) =
      sa_volumes acc @ [\<lparr>vol_name = skill_volume_name name, vol_source = src\<rparr>] \<and>
    sa_inline (add_volume name src acc) = sa_inline acc"
proof -
  have "skill_volume_name name \<notin> fst ` set (sa_taken acc)" using assms add_volume_taken by blast
  then show ?thesis by (simp add: add_volume_fresh)
qed

lemma follows_claim:
  assumes f: "follows_wanted rn wo acc"
    and c: "claim L (wa_name x) (spelling x) (ks_subpath (source_of x)) (wa_type x) (ks_git (source_of x)) acc =
      (ok, acc')"
    and n: "ok \<Longrightarrow> sa_errs r = [] \<Longrightarrow> sa_errs acc' = [] \<and> sa_declared r = sa_declared acc' \<and>
        sa_seen r = sa_seen acc' \<and> sa_volumes r = sa_volumes acc' @ volume_of rn x \<and>
        (wa_name x \<notin> fst ` set (sa_inline acc') \<longrightarrow> sa_inline r = sa_inline acc' @ content_of x)"
  shows "follows_wanted rn (both_lists wo (Some [x])) (if ok then r else acc')"
proof (cases ok)
  case False
  show ?thesis unfolding follows_wanted_def if_not_P [OF False]
  proof
    assume e: "sa_errs acc' = []"
    from c False have "claim L (wa_name x) (spelling x) (ks_subpath (source_of x)) (wa_type x)
        (ks_git (source_of x)) acc = (False, acc')" by simp
    from claim_repeated [OF this e]
    have r: "acc' = acc" "map_of (sa_seen acc) (wa_name x) = Some (spelling x)" by auto
    from f e r(1) obtain ws where "wo = Some ws" "holds_sources rn ws acc" by (auto simp: follows_wanted_def)
    with holds_repeated r show "\<exists>ws. both_lists wo (Some [x]) = Some ws \<and> holds_sources rn ws acc'" by auto
  qed
next
  case True
  show ?thesis unfolding follows_wanted_def if_P [OF True]
  proof
    assume e: "sa_errs r = []"
    note n = n [OF True e]
    from c True have "claim L (wa_name x) (spelling x) (ks_subpath (source_of x)) (wa_type x)
        (ks_git (source_of x)) acc = (True, acc')" by simp
    from claim_accepted [OF this]
    have fresh: "wa_name x \<notin> fst ` set (sa_seen acc)"
      and acc': "sa_declared acc' = sa_declared acc @ [source_of x]" "sa_seen acc' = (wa_name x, spelling x) # sa_seen acc"
        "sa_volumes acc' = sa_volumes acc" "sa_inline acc' = sa_inline acc"
      by (simp_all add: source_of_def)
    from n claim_errs [OF c] have "sa_errs acc = []" by simp
    with f obtain ws where ws: "wo = Some ws" "holds_sources rn ws acc" by (auto simp: follows_wanted_def)
    from ws(2) have "fst ` set (sa_inline acc) \<subseteq> fst ` set (sa_seen acc)"
      by (auto simp: holds_sources_def content_of_def image_iff split: delivery.splits)
    with fresh n acc'(4) have "sa_inline r = sa_inline acc @ content_of x" by auto
    with holds_fresh [OF ws(2) fresh, of r] n acc' ws(1)
    show "\<exists>ws. both_lists wo (Some [x]) = Some ws \<and> holds_sources rn ws r" by simp
  qed
qed

lemma spelling_simps:
  "spelling \<lparr>wa_name = name, wa_type = t, wa_delivery = FromImage img sp\<rparr> = image_delivery img sp t"
  "spelling \<lparr>wa_name = name, wa_type = t, wa_delivery = FromText content\<rparr> =
     ''inline:'' @ defaultedSkillType t @ '':'' @ content"
  "spelling \<lparr>wa_name = name, wa_type = t, wa_delivery = FromGit g sp\<rparr> =
     ''git:'' @ gs_url g @ '':'' @ gs_ref g @ '':'' @ sp @ '':'' @ defaultedSkillType t"
  by (simp_all add: spelling_def image_delivery_def defaultedSkillType_def)

lemmas source_simps = source_of_def volume_of_def content_of_def skill_source.simps wanted.simps delivery.case

lemma follows_addImage:
  assumes "follows_wanted rn wo acc" and "img \<noteq> []"
  shows "follows_wanted rn (both_lists wo (Some [\<lparr>wa_name = name, wa_type = t, wa_delivery = FromImage img sp\<rparr>]))
    (addImage L name sp t img acc)"
proof -
  obtain ok acc' where c: "claim L name (image_delivery img sp t) sp t None acc = (ok, acc')" by force
  let ?r = "add_volume name (VImage img) acc'"
  have "sa_errs acc' = [] \<and>
      sa_volumes ?r = sa_volumes acc' @ [\<lparr>vol_name = skill_volume_name name, vol_source = VImage img\<rparr>] \<and>
      sa_inline ?r = sa_inline acc'" if "sa_errs ?r = []"
    using add_volume_errs [OF that] add_volume_effect [OF that] by simp
  then have "follows_wanted rn (both_lists wo (Some [\<lparr>wa_name = name, wa_type = t, wa_delivery = FromImage img sp\<rparr>]))
      (if ok then ?r else acc')"
    by (intro follows_claim [OF assms(1), where L = L]) (use c in \<open>simp_all add: spelling_simps source_simps\<close>)
  then show ?thesis using assms(2) c by (cases ok) (simp_all add: addImage_def)
qed

lemma follows_addGit:
  assumes "follows_wanted rn wo acc"
  shows "follows_wanted rn (both_lists wo (Some [\<lparr>wa_name = name, wa_type = t, wa_delivery = FromGit g sp\<rparr>]))
    (addGit L name sp t g acc)"
proof -
  let ?d = "''git:'' @ gs_url g @ '':'' @ gs_ref g @ '':'' @ sp @ '':'' @ defaultedSkillType t"
  obtain ok acc' where c: "claim L name ?d sp t (Some g) acc = (ok, acc')" by force
  have "follows_wanted rn (both_lists wo (Some [\<lparr>wa_name = name, wa_type = t, wa_delivery = FromGit g sp\<rparr>]))
      (if ok then acc' else acc')"
    by (rule follows_claim [OF assms, where L = L]) (use c in \<open>simp_all add: spelling_simps source_simps\<close>)
  then show ?thesis using c by (simp add: addGit_def)
qed

lemma update_new: "n \<notin> fst ` set al \<Longrightarrow> AList.update n v al = al @ [(n, v)]"
  by (induction al) auto

lemma follows_addInline:
  assumes "follows_wanted rn wo acc"
  shows "follows_wanted rn (both_lists wo (Some [\<lparr>wa_name = name, wa_type = t, wa_delivery = FromText content\<rparr>]))
    (addInline L rn name t content acc)"
proof -
  let ?d = "''inline:'' @ defaultedSkillType t @ '':'' @ content"
  let ?v = "VConfigMap (inlineSkillConfigMapName rn name) []"
  obtain ok acc' where c: "claim L name ?d [] t None acc = (ok, acc')" by force
  define b where "b = acc'\<lparr>sa_inline := AList.update name content (sa_inline acc')\<rparr>"
  then have b: "sa_errs b = sa_errs acc'" "sa_volumes b = sa_volumes acc'" "sa_declared b = sa_declared acc'"
    "sa_seen b = sa_seen acc'" "sa_inline b = AList.update name content (sa_inline acc')" by simp_all
  let ?r = "add_volume name ?v b"
  have "sa_errs acc' = [] \<and>
      sa_volumes ?r = sa_volumes acc' @ [\<lparr>vol_name = skill_volume_name name, vol_source = ?v\<rparr>] \<and>
      (name \<notin> fst ` set (sa_inline acc') \<longrightarrow> sa_inline ?r = sa_inline acc' @ [(name, content)])"
    if "sa_errs ?r = []"
    using add_volume_errs [OF that] add_volume_effect [OF that] update_new [of name "sa_inline acc'" content]
    unfolding b by simp
  then have "follows_wanted rn (both_lists wo (Some [\<lparr>wa_name = name, wa_type = t, wa_delivery = FromText content\<rparr>]))
      (if ok then ?r else acc')"
    by (intro follows_claim [OF assms, where L = L])
      (use c in \<open>simp_all add: spelling_simps source_simps b\<close>)
  then show ?thesis using c by (cases ok) (simp_all add: addInline_def b_def)
qed

lemma follows_addCard:
  "follows_wanted rn wo acc \<Longrightarrow> follows_wanted rn (both_lists wo (card_source sc)) (addCard L rn (om_name (sc_meta sc)) sc acc)"
  by (auto simp: addCard_def card_source_def Let_def addImage_def [where img = "[]"]
      intro: follows_addImage follows_addGit follows_addInline)

text \<open>The lists are walked by the resolution as they are read.\<close>

definition in_step ::
  "string \<Rightarrow> ('x \<Rightarrow> 'w \<Rightarrow> wanted list option \<times> 'w) \<Rightarrow> ('x \<Rightarrow> skill_acc \<times> 'w \<Rightarrow> skill_acc \<times> 'w) \<Rightarrow> bool" where
  "in_step rn f F \<longleftrightarrow> (\<forall>x wo acc w. follows_wanted rn wo acc \<longrightarrow>
     follows_wanted rn (both_lists wo (fst (f x w))) (fst (F x (acc, w))) \<and> snd (F x (acc, w)) = snd (f x w))"

lemma in_step_fold:
  assumes s: "in_step rn f F"
  shows "follows_wanted rn wo acc \<Longrightarrow> follows_wanted rn (both_lists wo (fst (gather f xs w))) (fst (fold F xs (acc, w))) \<and>
    snd (fold F xs (acc, w)) = snd (gather f xs w)"
proof (induction xs arbitrary: wo acc w)
  case Nil
  then show ?case by (simp add: both_lists_Nil)
next
  case (Cons x xs)
  obtain a w1 where f: "f x w = (a, w1)" by force
  obtain acc1 where F: "F x (acc, w) = (acc1, w1)" and n: "follows_wanted rn (both_lists wo a) acc1"
    using s Cons.prems f unfolding in_step_def by (metis fst_conv snd_conv prod.collapse)
  from Cons.IH [OF n, of w1] show ?case by (simp add: f F both_lists_assoc)
qed

lemma in_step_card: "in_step (ar_name run) (wanted_card C (ar_namespace run)) (resolve_card C L run report)"
  by (auto simp: in_step_def wanted_card_def resolve_card_def follows_addCard split: prod.splits sum.splits)

lemma in_step_entry: "in_step (ar_name run) (wanted_entry C (ar_namespace run)) (resolve_entry C L run c)"
proof -
  have "follows_wanted rn wo acc \<Longrightarrow> ce_card_ref en \<noteq> [] \<Longrightarrow>
      follows_wanted (ar_name run) (both_lists wo (fst (wanted_entry C (ar_namespace run) en w)))
        (fst (resolve_entry C L run c en (acc, w))) \<and>
      snd (resolve_entry C L run c en (acc, w)) = snd (wanted_entry C (ar_namespace run) en w)"
    if "rn = ar_name run" for rn wo acc en w
    using in_step_card [of run C L] that by (simp add: in_step_def resolve_entry_def wanted_entry_def)
  then show ?thesis
    by (auto simp: in_step_def resolve_entry_def wanted_entry_def intro: follows_addImage follows_addGit)
qed

lemma in_step_collection:
  "in_step (ar_name run) (wanted_collection C (ar_namespace run)) (resolve_collection C L run)"
  unfolding in_step_def
proof (intro allI impI)
  fix ref wo acc w
  assume f: "follows_wanted (ar_name run) wo acc"
  let ?goal = "\<lambda>r st. follows_wanted (ar_name run) (both_lists wo (fst r)) (fst st) \<and> snd st = snd r"
  obtain a w1 where g: "rc_get_collection C (nskey_of (ar_namespace run) ref) w = (a, w1)" by force
  have "?goal (gather (wanted_card C (ar_namespace run)) xs w1)
      (fold (resolve_enumerated C L run ref) xs (acc, w1))" for xs
    unfolding resolve_enumerated_def by (rule in_step_fold [OF _ f]) (simp add: in_step_def in_step_card [unfolded in_step_def])
  moreover have "?goal (gather (wanted_entry C (ar_namespace run)) xs w1)
      (fold (resolve_entry C L run ref) xs (acc, w1))" for xs
    by (rule in_step_fold [OF in_step_entry f])
  ultimately show "?goal (wanted_collection C (ar_namespace run) ref w) (resolve_collection C L run ref (acc, w))"
    by (cases a) (simp_all add: wanted_collection_def resolve_collection_def g)
qed

lemma resolveSkillVolumes_wanted:
  assumes "resolveSkillVolumes C L run ag w = (Inr out, w')"
  shows "\<exists>ws. wanted_sources C (ar_namespace run) ag w = (Some ws, w') \<and>
    sa_declared out = map source_of (firsts ws) \<and>
    sa_volumes out = concat (map (volume_of (ar_name run)) (firsts ws)) \<and>
    sa_inline out = concat (map content_of (firsts ws)) \<and>
    (\<forall>x \<in> set ws. \<forall>y \<in> set ws. wa_name x = wa_name y \<longrightarrow> spelling x = spelling y)"
proof -
  let ?ns = "ar_namespace run" and ?rn = "ar_name run"
  have "in_step ?rn (wanted_card C ?ns) (resolve_direct C L run)"
    unfolding resolve_direct_def by (simp add: in_step_def in_step_card [unfolded in_step_def])
  moreover have "follows_wanted ?rn (Some []) empty_acc" by (simp add: follows_wanted_def empty_acc_def holds_sources_def)
  moreover obtain a w1 where a: "gather (wanted_card C ?ns) (as_skill_cards (ag_spec ag)) w = (a, w1)" by force
  ultimately obtain acc where acc: "fold (resolve_direct C L run) (as_skill_cards (ag_spec ag)) (empty_acc, w) = (acc, w1)"
    and f: "follows_wanted ?rn a acc"
    using in_step_fold [of ?rn "wanted_card C ?ns" "resolve_direct C L run" "Some []" empty_acc
        "as_skill_cards (ag_spec ag)" w]
    by (cases a) (auto simp: prod_eq_iff both_lists_def)
  from in_step_fold [OF in_step_collection [of run C L] f, of "as_skill_collections (ag_spec ag)" w1] assms
  have "follows_wanted ?rn (fst (wanted_sources C ?ns ag w)) out" "sa_errs out = []" "snd (wanted_sources C ?ns ag w) = w'"
    by (auto simp: resolveSkillVolumes_def wanted_sources_def a acc split: prod.splits if_splits)
  then obtain ws where "wanted_sources C ?ns ag w = (Some ws, w')" "holds_sources ?rn ws out"
    by (auto simp: follows_wanted_def prod_eq_iff)
  moreover from this(2) have "\<forall>x \<in> set ws. \<forall>y \<in> set ws. wa_name x = wa_name y \<longrightarrow> spelling x = spelling y"
    unfolding holds_sources_def by (metis option.inject)
  ultimately show ?thesis unfolding holds_sources_def by blast
qed

text \<open>
  C14: a successful resolution stages exactly what the agent asks for: read off its cards and then its
  collections, in order, all lookups answered, every name is declared once, under a name that is a single path
  segment, with the subpath, the type and the repository of the first source of that name; a later source of a name
  is left out only when its delivery is spelled as the first one's.  Each source that is not cloned has exactly one
  volume, its image or the config map of its text, and one read-only mount of that volume, at its own directory
  below the staging root; the texts of the config maps are those of the cards, and the volume names are distinct.
\<close>

theorem resolveSkillVolumes_staging:
  assumes "resolveSkillVolumes C L run ag w = (Inr out, w')"
  shows "(\<exists>ws. wanted_sources C (ar_namespace run) ag w = (Some ws, w') \<and>
       sa_declared out = map source_of (firsts ws) \<and>
       sa_volumes out = concat (map (volume_of (ar_name run)) (firsts ws)) \<and>
       sa_inline out = concat (map content_of (firsts ws)) \<and>
       (\<forall>x \<in> set ws. \<forall>y \<in> set ws. wa_name x = wa_name y \<longrightarrow> spelling x = spelling y)) \<and>
    distinct (map ks_name (sa_declared out)) \<and>
    (\<forall>s \<in> set (sa_declared out). usable_name L (ks_name s)) \<and>
    map vol_name (sa_volumes out) = map skill_volume_name (mounted_names out) \<and>
    map vm_name (sa_mounts out) = map vol_name (sa_volumes out) \<and>
    map vm_path (sa_mounts out) = map staging_path (mounted_names out) \<and>
    list_all vm_readonly (sa_mounts out) \<and>
    distinct (map vol_name (sa_volumes out))"
  using resolveSkillVolumes_inv [OF assms] resolveSkillVolumes_wanted [OF assms]
  by (simp add: declared_good_def mounted_good_def)

text \<open>An agent with one card, whose image is resolved, in a cluster that has the card.\<close>

definition sample_card :: skill_card where
  "sample_card = \<lparr>sc_meta = new_meta ''ns'' ''lint'' Map.empty, sc_image = ''reg/lint:1'', sc_subpath = [],
     sc_source = [], sc_ref = [], sc_inline = [], sc_display_name = [], sc_version = [],
     sc_description = [], sc_type = SkillTypeSkill, sc_tags = [], sc_observed_generation = 1,
     sc_resolved_image = ''reg/lint:1'', sc_delivery_mode = ''ImageVolume'', sc_conditions = []\<rparr>"

definition card_client :: "int run_client" where
  "card_client = null_client\<lparr>rc_get_card := (\<lambda>k w. (Inr sample_card, w))\<rparr>"

definition card_run :: agent_run where
  "card_run = \<lparr>ar_meta = new_meta ''ns'' ''run'' Map.empty, ar_spec = undefined, ar_status = undefined\<rparr>"

definition card_agent :: agent where
  "card_agent = \<lparr>ag_meta = new_meta ''ns'' ''coder'' Map.empty,
     ag_spec = \<lparr>as_image = ''img'', as_prompt = [], as_gateways = [], as_skill_cards = [''lint'', ''lint''],
       as_skill_collections = [], as_params = [], as_git_config = None, as_execution = None\<rparr>,
     ag_observed_generation = 1, ag_conditions = []\<rparr>"

definition card_acc :: skill_acc where
  "card_acc = \<lparr>sa_volumes = [\<lparr>vol_name = ''skill-lint'', vol_source = VImage ''reg/lint:1''\<rparr>],
     sa_mounts = [\<lparr>vm_name = ''skill-lint'', vm_path = ''/opt/skills-src/lint'', vm_subpath = [],
       vm_readonly = True\<rparr>],
     sa_inline = [],
     sa_declared = [\<lparr>ks_name = ''lint'', ks_subpath = [], ks_type = ''skill'', ks_git = None\<rparr>],
     sa_errs = [],
     sa_seen = [(''lint'', ''image:reg/lint:1::skill'')],
     sa_taken = [(''skill-lint'', ''lint'')]\<rparr>"

lemma sample_volume_name: "skill_volume_name ''lint'' = ''skill-lint''"
  by (simp add: skill_volume_name_def volume_name.san_fixed dns_label_def name_char_def less_eq_char_def)

lemma sample_base: "path_base ''lint'' = ''lint''"
  by (simp add: path_base_def trim_right_def slash_def)

lemma sample_add_card:
  "addCard sample_lib ''run'' ''lint'' sample_card empty_acc = card_acc"
  "addCard sample_lib ''run'' ''lint'' sample_card card_acc = card_acc"
  by (simp_all add: addCard_def sample_card_def addImage_def claim_def sample_base sample_lib_def
      empty_acc_def add_volume_def stage_def sample_volume_name image_delivery_def
      defaultedSkillType_def card_acc_def staging_path_def skills_src_dir_def Let_def)

lemma sample_resolve: "resolveSkillVolumes card_client sample_lib card_run card_agent 0 = (Inr card_acc, 0)"
proof -
  have n: "om_name (sc_meta sample_card) = ''lint''" "ar_name card_run = ''run''"
    by (simp_all add: sample_card_def new_meta_def card_run_def ar_name_def)
  show ?thesis
    by (simp add: resolveSkillVolumes_def card_agent_def resolve_direct_def resolve_card_def
        card_client_def n sample_add_card) (simp add: card_acc_def)
qed

lemma sample_wanted:
  "wanted_sources card_client (ar_namespace card_run) card_agent 0 =
     (Some (replicate 2 \<lparr>wa_name = ''lint'', wa_type = ''skill'', wa_delivery = FromImage ''reg/lint:1'' []\<rparr>), 0)"
  by (simp add: wanted_sources_def wanted_card_def card_source_def card_client_def card_agent_def sample_card_def
      new_meta_def numeral_2_eq_2)

lemma resolveSkillVolumes_staging_witness:
  "sa_declared card_acc = map source_of (firsts
       (replicate 2 \<lparr>wa_name = ''lint'', wa_type = ''skill'', wa_delivery = FromImage ''reg/lint:1'' []\<rparr>)) \<and>
   map vm_name (sa_mounts card_acc) = map vol_name (sa_volumes card_acc) \<and>
   mounted_names card_acc = [''lint''] \<and> distinct (map vol_name (sa_volumes card_acc))"
proof -
  have "mounted_names card_acc = [''lint'']" by (simp add: mounted_names_def card_acc_def)
  moreover obtain ws where "wanted_sources card_client (ar_namespace card_run) card_agent 0 = (Some ws, 0)"
    "sa_declared card_acc = map source_of (firsts ws)" "map vm_name (sa_mounts card_acc) = map vol_name (sa_volumes card_acc)"
    "distinct (map vol_name (sa_volumes card_acc))"
    using resolveSkillVolumes_staging [OF sample_resolve] by blast
  ultimately show ?thesis unfolding sample_wanted prod.inject option.inject by simp
qed

text \<open>
  The deliveries of two different images can have one spelling, since the image and the sub-path are
  joined with a colon that both may contain: then the second source is dropped without an error.
\<close>

theorem image_delivery_ambiguous:
  assumes "usable_name L n" and "n \<notin> fst ` set (sa_seen acc)"
  shows "addImage L n ''1:b'' t ''reg/a'' (addImage L n ''b'' t ''reg/a:1'' acc) =
    addImage L n ''b'' t ''reg/a:1'' acc"
proof -
  have d: "image_delivery ''reg/a:1'' ''b'' t = image_delivery ''reg/a'' ''1:b'' t"
    by (simp add: image_delivery_def)
  have "map_of (sa_seen acc) n = None" using assms(2) by (simp add: map_of_eq_None_iff)
  with assms(1) show ?thesis
    by (simp add: addImage_def claim_def usable_name_def d)
qed

lemma image_delivery_ambiguous_witness:
  "addImage sample_lib ''lint'' ''1:b'' [] ''reg/a'' (addImage sample_lib ''lint'' ''b'' [] ''reg/a:1'' empty_acc)
   = addImage sample_lib ''lint'' ''b'' [] ''reg/a:1'' empty_acc"
  by (rule image_delivery_ambiguous) (simp_all add: usable_name_def sample_base sample_lib_def empty_acc_def)

end
