(* ===== verification/RunValidation.thy ===== *)
theory RunValidation
  imports Params RunClient
begin

text \<open>
  The checks of a run against its agent before a sandbox exists
  (\<open>internal/controller/agentrun_controller.go\<close>): parameters, prompt and instruction references, and
  the choice of the gateway.
\<close>

definition renderPromptAndInstructions ::
  "agent \<Rightarrow> agent_run \<Rightarrow> scopes \<Rightarrow> (string \<times> string) res" where
  "renderPromptAndInstructions ag run scopes =
     (case substitute (as_prompt (ag_spec ag)) scopes of
        Inl e \<Rightarrow> Inl (wrapf ''prompt: %w'' [] e)
      | Inr prompt \<Rightarrow>
          (case substitute (rs_instructions (ar_spec run)) scopes of
             Inl e \<Rightarrow> Inl (wrapf ''instructions: %w'' [] e)
           | Inr instructions \<Rightarrow> Inr (prompt, instructions)))"

definition ag_name :: "agent \<Rightarrow> string" where "ag_name a = om_name (ag_meta a)"

definition check_declared :: "agent \<Rightarrow> param_value \<Rightarrow> err option" where
  "check_declared ag p =
     (if pv_name p \<in> pa_name ` set (as_params (ag_spec ag)) then None
      else Some (errorf ''param %q is not declared by Agent %q'' [Lit (pv_name p), Lit (ag_name ag)]))"

definition check_required :: "agent_run \<Rightarrow> param \<Rightarrow> err option" where
  "check_required run p =
     (if pa_required p \<and> pa_default p = [] \<and> pa_name p \<notin> pv_name ` set (rs_params (ar_spec run))
      then Some (errorf ''required param %q not supplied'' [Lit (pa_name p)]) else None)"

definition validateParams :: "agent_run \<Rightarrow> agent \<Rightarrow> (params_file \<times> scopes) res" where
  "validateParams run ag =
     (case first_err (check_declared ag) (rs_params (ar_spec run)) of
        Some e \<Rightarrow> Inl e
      | None \<Rightarrow>
          (case first_err (check_required run) (as_params (ag_spec ag)) of
             Some e \<Rightarrow> Inl e
           | None \<Rightarrow>
               (case buildParams run ag of
                  Inl e \<Rightarrow> Inl e
                | Inr (params, scopes) \<Rightarrow>
                    (case renderPromptAndInstructions ag run scopes of
                       Inl e \<Rightarrow> Inl e
                     | Inr _ \<Rightarrow> Inr (params, scopes)))))"

text \<open>The run with its gateway resolved, or the error.\<close>

definition set_gateway :: "string \<Rightarrow> agent_run \<Rightarrow> agent_run" where
  "set_gateway g run = run\<lparr>ar_spec := (ar_spec run)\<lparr>rs_gateway := g\<rparr>\<rparr>"

definition validateGateway :: "agent_run \<Rightarrow> agent \<Rightarrow> agent_run res" where
  "validateGateway run ag =
     (if rs_gateway (ar_spec run) = [] then
        (case as_gateways (ag_spec ag) of
           [g] \<Rightarrow> Inr (set_gateway g run)
         | [] \<Rightarrow> Inl (errorf ''agent %q declares no gateways; select one via spec.gateway''
                    [Lit (ag_name ag)])
         | _ \<Rightarrow> Inl (errorf ''agent %q declares %d gateways; select one via spec.gateway''
                   [Lit (ag_name ag), Lit (nat_text (length (as_gateways (ag_spec ag))))]))
      else if as_gateways (ag_spec ag) = [] then Inr run
      else if list_ex (\<lambda>g. g = rs_gateway (ar_spec run)) (as_gateways (ag_spec ag)) then Inr run
      else Inl (errorf ''gateway %q is not in Agent %q gateways''
                  [Lit (rs_gateway (ar_spec run)), Lit (ag_name ag)]))"

section \<open>What the checks mean\<close>

text \<open>
  The gateway a validated run uses is the one it names, or the only one its agent declares; it is
  one of the agent's gateways whenever the agent declares any, and validation fails only for a choice
  that is missing while the agent declares none or several, or lies outside a non-empty declaration.
\<close>

theorem validateGateway_spec:
  "case validateGateway run ag of
     Inr run' \<Rightarrow>
       run' = set_gateway (rs_gateway (ar_spec run')) run \<and>
       (as_gateways (ag_spec ag) = [] \<or> rs_gateway (ar_spec run') \<in> set (as_gateways (ag_spec ag))) \<and>
       rs_gateway (ar_spec run') =
         (if rs_gateway (ar_spec run) = [] then hd (as_gateways (ag_spec ag))
          else rs_gateway (ar_spec run))
   | Inl e \<Rightarrow>
       (if rs_gateway (ar_spec run) = [] then length (as_gateways (ag_spec ag)) \<noteq> 1
        else as_gateways (ag_spec ag) \<noteq> [] \<and>
             rs_gateway (ar_spec run) \<notin> set (as_gateways (ag_spec ag)))"
  by (auto simp: validateGateway_def set_gateway_def list_ex_iff split: list.splits)

lemma buildParams_parts:
  "buildParams run ag = Inr (params, scopes) \<Longrightarrow>
     \<exists>co st wf. coerceParams (as_params (ag_spec ag)) (suppliedValues (rs_params (ar_spec run))) = Inr (co, st)
       \<and> workflow_section run = Inr wf
       \<and> pf_agent params = co \<and> pf_workflow params = wf
       \<and> pf_execution params =
           executionSection (resolveExecution (rs_execution (ar_spec run)) (as_execution (ag_spec ag)))
       \<and> scopes = [scope_agent \<mapsto> map_of st, scope_workflow \<mapsto> map_of (map (map_prod id stringifyJSON) wf)]"
  by (auto simp: buildParams_def Let_def split: sum.splits prod.splits)

text \<open>
  C13: a run that passes parameter validation supplies only declared parameters and every required one,
  all its values read at their types, and its prompt and instructions render with the scopes returned:
  sandbox creation, which renders them again, cannot fail on them.
\<close>

theorem validateParams_sound:
  assumes "validateParams run ag = Inr (params, scopes)"
  shows "pv_name ` set (rs_params (ar_spec run)) \<subseteq> pa_name ` set (as_params (ag_spec ag)) \<and>
    (\<forall>p \<in> set (as_params (ag_spec ag)).
       pa_required p \<and> pa_default p = [] \<longrightarrow> pa_name p \<in> pv_name ` set (rs_params (ar_spec run))) \<and>
    list_all (coercible (suppliedValues (rs_params (ar_spec run)))) (as_params (ag_spec ag)) \<and>
    buildParams run ag = Inr (params, scopes) \<and>
    (\<exists>p i. renderPromptAndInstructions ag run scopes = Inr (p, i))"
proof -
  have d: "first_err (check_declared ag) (rs_params (ar_spec run)) = None"
    and r: "first_err (check_required run) (as_params (ag_spec ag)) = None"
    and b: "buildParams run ag = Inr (params, scopes)"
    and rend: "\<exists>p i. renderPromptAndInstructions ag run scopes = Inr (p, i)"
    using assms by (auto simp: validateParams_def split: option.splits sum.splits prod.splits)
  from buildParams_parts [OF b] obtain co st where
    "coerceParams (as_params (ag_spec ag)) (suppliedValues (rs_params (ar_spec run))) = Inr (co, st)"
    by blast
  then have "\<not> isl (coerce_loop (suppliedValues (rs_params (ar_spec run))) (as_params (ag_spec ag)) [] [])"
    by (simp add: coerceParams_def)
  then have c: "list_all (coercible (suppliedValues (rs_params (ar_spec run)))) (as_params (ag_spec ag))"
    by (simp only: coerce_loop_succeeds)
  have d': "pv_name ` set (rs_params (ar_spec run)) \<subseteq> pa_name ` set (as_params (ag_spec ag))"
    using d unfolding first_err_None check_declared_def by (auto split: if_splits)
  have r': "\<forall>p \<in> set (as_params (ag_spec ag)).
       pa_required p \<and> pa_default p = [] \<longrightarrow> pa_name p \<in> pv_name ` set (rs_params (ar_spec run))"
    using r unfolding first_err_None check_required_def by (auto split: if_splits)
  from b c d' r' rend show ?thesis by (intro conjI)
qed

text \<open>A sample run and agent for the witnesses.\<close>

definition sample_meta :: "string \<Rightarrow> objmeta" where
  "sample_meta n = (new_meta ''ns'' n Map.empty)\<lparr>om_uid := ''u-'' @ n, om_generation := 1\<rparr>"

definition sample_agent :: agent where
  "sample_agent =
     \<lparr>ag_meta = sample_meta ''coder'',
      ag_spec = \<lparr>as_image = ''img'', as_prompt = ''fix $(agent.x)'', as_gateways = [''gw''],
        as_skill_cards = [], as_skill_collections = [],
        as_params = [\<lparr>pa_name = ''x'', pa_type = ParamTypeString, pa_default = [], pa_required = True\<rparr>],
        as_git_config = None, as_execution = None\<rparr>,
      ag_observed_generation = 1,
      ag_conditions = [\<lparr>cd_type = condition_ready, cd_status = CTrue, cd_generation = 1,
        cd_reason = ''Ready'', cd_message = Lit ''ok''\<rparr>]\<rparr>"

definition empty_status :: agent_run_status where
  "empty_status = \<lparr>st_phase = NoPhase, st_observed_generation = 0, st_sandbox_name = [],
     st_start_time = None, st_completion_time = None, st_duration = None, st_secret_ref = None,
     st_conditions = [], st_termination_data = None\<rparr>"

definition sample_run :: agent_run where
  "sample_run =
     \<lparr>ar_meta = sample_meta ''run'',
      ar_spec = \<lparr>rs_agent_ref = ''coder'', rs_gateway = [], rs_params = [\<lparr>pv_name = ''x'', pv_value = ''bug''\<rparr>],
        rs_instructions = ''now'', rs_execution = None, rs_workflow_params = None, rs_env = [],
        rs_env_from = [], rs_file_mounts = [], rs_git_config = None, rs_ttl = None,
        rs_startup_deadline = None\<rparr>,
      ar_status = empty_status\<rparr>"

definition sample_scopes :: scopes where
  "sample_scopes = [scope_agent \<mapsto> map_of [(''x'', ''bug'')], scope_workflow \<mapsto> map_of []]"

definition sample_params :: params_file where
  "sample_params = \<lparr>pf_workflow = [], pf_agent = [(''x'', JStr ''bug'')],
     pf_execution = [(''mode'', JStr ''auto'')]\<rparr>"

lemma sample_pieces: "pieces ''fix $(agent.x)'' = map PChar ''fix '' @ [PRef scope_agent ''x'']"
proof -
  have t: "''fix $(agent.x)'' = ''fix '' @ (ref_text scope_agent ''x'' @ [])"
    by (simp add: ref_text_def scope_agent_def)
  have r: "pieces (ref_text scope_agent ''x'' @ []) = PRef scope_agent ''x'' # pieces []"
    by (rule pieces_ref)
      (simp_all add: known_scope_def valid_name_def ident_start_def ident_char_def less_eq_char_def)
  show ?thesis unfolding t by (subst pieces_plain_prefix) (simp, unfold r, simp)
qed

lemma sample_build: "buildParams sample_run sample_agent = Inr (sample_params, sample_scopes)"
  by (simp add: buildParams_def sample_run_def sample_agent_def coerceParams_def suppliedValues_def
      effective_value_def coerce_value_def workflow_section_def sample_params_def sample_scopes_def
      resolveExecution_def executionSection_def effectiveMode_def default_execution_mode_def Let_def)

lemma sample_render:
  "renderPromptAndInstructions sample_agent sample_run sample_scopes = Inr (''fix bug'', ''now'')"
proof -
  have "substitute ''fix $(agent.x)'' sample_scopes = Inr ''fix bug''"
    by (simp add: substitute_pieces sample_pieces lookup_ref_def sample_scopes_def scope_agent_def
        scope_workflow_def)
  moreover have "substitute ''now'' sample_scopes = Inr ''now''"
    by (simp add: substitute_def has_prefix_def)
  ultimately show ?thesis
    by (simp add: renderPromptAndInstructions_def sample_agent_def sample_run_def)
qed

lemma sample_validate: "validateParams sample_run sample_agent = Inr (sample_params, sample_scopes)"
proof -
  have "first_err (check_declared sample_agent) (rs_params (ar_spec sample_run)) = None"
    by (simp add: check_declared_def sample_agent_def sample_run_def)
  moreover have "first_err (check_required sample_run) (as_params (ag_spec sample_agent)) = None"
    by (simp add: check_required_def sample_agent_def sample_run_def)
  ultimately show ?thesis by (simp add: validateParams_def sample_build sample_render)
qed

lemma validateParams_sound_witness:
  "list_all (coercible (suppliedValues (rs_params (ar_spec sample_run)))) (as_params (ag_spec sample_agent))
   \<and> buildParams sample_run sample_agent = Inr (sample_params, sample_scopes)"
  using validateParams_sound [OF sample_validate] by blast

end
