(* ===== verification/Sandbox.thy ===== *)
theory Sandbox
  imports Skills RunValidation
begin

text \<open>
  Sandbox creation (\<open>internal/controller/agentrun_controller.go\<close>): the environment of the agent
  container, the parameter and inline-skill config maps, the skill loader, and the \<open>Sandbox\<close> object.
\<close>

definition acp_port :: int where "acp_port = 4000"
definition acp_port_name :: string where "acp_port_name = ''acp''"
definition acp_probe_period :: int where "acp_probe_period = 2"
definition secret_key_length :: nat where "secret_key_length = 32"
definition agent_container :: string where "agent_container = ''agent''"
definition loader_container :: string where "loader_container = ''skill-loader''"
definition loader_binary :: string where "loader_binary = ''/skill-loader''"
definition skill_file_key :: string where "skill_file_key = ''SKILL.md''"
definition skill_sources_env :: string where "skill_sources_env = ''KONVEYOR_SKILL_SOURCES''"
definition git_author_name_env :: string where "git_author_name_env = ''KONVEYOR_GIT_AUTHOR_NAME''"
definition git_author_email_env :: string where "git_author_email_env = ''KONVEYOR_GIT_AUTHOR_EMAIL''"
definition agent_run_kind :: string where "agent_run_kind = ''AgentRun''"

section \<open>Environment\<close>

definition plain_env :: "string \<Rightarrow> string \<Rightarrow> env_var" where
  "plain_env n v = \<lparr>ev_name = n, ev_value = v, ev_from = None\<rparr>"

definition secret_env :: "string \<Rightarrow> string \<Rightarrow> string \<Rightarrow> env_var" where
  "secret_env n secret_name key = \<lparr>ev_name = n, ev_value = [], ev_from = Some (SecretKeyRef secret_name key)\<rparr>"

definition resolveGitIdentity :: "agent \<Rightarrow> agent_run \<Rightarrow> string \<times> string" where
  "resolveGitIdentity ag run =
     (case rs_git_config (ar_spec run) of
        Some gc \<Rightarrow> (gc_user_name gc, gc_user_email gc)
      | None \<Rightarrow>
          (case as_git_config (ag_spec ag) of
             Some gc \<Rightarrow> (gc_user_name gc, gc_user_email gc)
           | None \<Rightarrow> ([], [])))"

definition is_ready :: "klib \<Rightarrow> condition list \<Rightarrow> bool" where
  "is_ready L cs =
     (case find_condition L cs condition_ready of None \<Rightarrow> False | Some c \<Rightarrow> cd_status c = CTrue)"

text \<open>The variables and sources a Ready gateway contributes.\<close>

definition gateway_env :: "gateway \<Rightarrow> env_var list \<times> env_from list" where
  "gateway_env gw =
     (let base = [plain_env ''KONVEYOR_LLM_PROVIDER'' (gw_provider gw),
                  plain_env ''KONVEYOR_LLM_ENDPOINT'' (gw_endpoint gw),
                  plain_env ''KONVEYOR_LLM_MODEL'' (gm_name (gw_model gw))];
          cred = gw_credential gw
      in if cr_key cred \<noteq> []
         then (base @ [secret_env ''KONVEYOR_LLM_API_KEY'' (cr_secret cred) (cr_key cred)], [])
         else (base, [EnvFromSecret [] (cr_secret cred)]))"

definition lookup_gateway_env ::
  "'w run_client \<Rightarrow> klib \<Rightarrow> agent_run \<Rightarrow> ('w, env_var list \<times> env_from list) call" where
  "lookup_gateway_env C L run w =
     (let g = rs_gateway (ar_spec run) in
      if g = [] then (Inr ([], []), w)
      else case rc_get_gateway C (nskey_of (ar_namespace run) g) w of
             (Inl e, w') \<Rightarrow>
               (if kind_of e = KNotFound
                then (Inl (Err KGatewayNotFound (Fmt ''%w: %q'' [Lit ''selected gateway does not exist'', Lit g])), w')
                else (Inl (wrapf ''looking up Gateway %q: %w'' [Lit g] e), w'))
           | (Inr gw, w') \<Rightarrow>
               if is_ready L (gw_conditions gw) then (Inr (gateway_env gw), w')
               else (Inl (errorf ''gateway %q is not Ready'' [Lit g]), w'))"

definition managed_git_env :: "string \<Rightarrow> bool" where
  "managed_git_env n \<longleftrightarrow> n = git_author_name_env \<or> n = git_author_email_env"

text \<open>The variables before the gateway's, and all of them.\<close>

definition base_env :: "agent \<Rightarrow> agent_run \<Rightarrow> string \<Rightarrow> string \<Rightarrow> string \<Rightarrow> env_var list" where
  "base_env ag run acpSecretName prompt instructions =
     [secret_env ''KONVEYOR_ACP_SECRET_KEY'' acpSecretName ''secret-key''] @
     (if rs_instructions (ar_spec run) \<noteq> [] then [plain_env ''KONVEYOR_INSTRUCTIONS'' instructions] else []) @
     (if as_prompt (ag_spec ag) \<noteq> [] then [plain_env ''KONVEYOR_PROMPT'' prompt] else []) @
     [plain_env git_author_name_env (fst (resolveGitIdentity ag run)),
      plain_env git_author_email_env (snd (resolveGitIdentity ag run))]"

definition user_env :: "agent_run \<Rightarrow> env_var list" where
  "user_env run = filter (\<lambda>e. \<not> managed_git_env (ev_name e)) (rs_env (ar_spec run))"

definition buildEnvVars ::
  "'w run_client \<Rightarrow> klib \<Rightarrow> agent_run \<Rightarrow> agent \<Rightarrow> string \<Rightarrow> scopes \<Rightarrow> ('w, env_var list \<times> env_from list) call" where
  "buildEnvVars C L run ag acpSecretName scopes w =
     (case renderPromptAndInstructions ag run scopes of
        Inl e \<Rightarrow> (Inl e, w)
      | Inr (prompt, instructions) \<Rightarrow>
          (case lookup_gateway_env C L run w of
             (Inl e, w') \<Rightarrow> (Inl e, w')
           | (Inr (gwEnv, gwFrom), w') \<Rightarrow>
               (Inr (base_env ag run acpSecretName prompt instructions @ gwEnv @ user_env run, gwFrom), w')))"

section \<open>Config maps and the secret\<close>

definition run_labels :: "agent_run \<Rightarrow> string \<Rightarrow> string option" where
  "run_labels run = [label_managed_by \<mapsto> managed_by, label_agent_run \<mapsto> ar_name run]"

definition generateSecretKey :: "'w run_client \<Rightarrow> ('w, string) call" where
  "generateSecretKey C w =
     (case rc_random C secret_key_length w of
        (Inl e, w') \<Rightarrow> (Inl e, w')
      | (Inr b, w') \<Rightarrow> (Inr (hex_encode b), w'))"

definition acp_secret_name :: "agent_run \<Rightarrow> string" where
  "acp_secret_name run = ar_name run @ ''-acp-key''"

text \<open>An \<open>AlreadyExists\<close> answer to a create counts as success.\<close>

definition ignore_exists :: "err option \<Rightarrow> err option" where
  "ignore_exists r =
     (case r of Some e \<Rightarrow> (if kind_of e = KAlreadyExists then None else Some e) | None \<Rightarrow> None)"

definition create_acp_secret :: "'w run_client \<Rightarrow> klib \<Rightarrow> agent_run \<Rightarrow> 'w \<Rightarrow> err option \<times> 'w" where
  "create_acp_secret C L run w =
     (case generateSecretKey C w of
        (Inl e, w') \<Rightarrow> (Some (wrapf ''generating secret key: %w'' [] e), w')
      | (Inr key, w') \<Rightarrow>
          (case set_controller_ref L agent_run_kind (ar_meta run)
                  (new_meta (ar_namespace run) (acp_secret_name run) (run_labels run)) of
             Inl e \<Rightarrow> (Some (wrapf ''setting Secret owner reference: %w'' [] e), w')
           | Inr m \<Rightarrow>
               (case rc_create_secret C \<lparr>sec_meta = m, sec_data = [(''secret-key'', key)]\<rparr> w' of
                  (r, w'') \<Rightarrow> (map_option (wrapf ''creating ACP Secret: %w'' []) (ignore_exists r), w''))))"

text \<open>The mutation of a create-or-update: labels, content and owner.\<close>

definition owned_config_map ::
  "klib \<Rightarrow> agent_run \<Rightarrow> (string \<times> string) list \<Rightarrow> config_map \<Rightarrow> config_map res" where
  "owned_config_map L run content cm =
     (case set_controller_ref L agent_run_kind (ar_meta run)
             ((cm_meta cm)\<lparr>om_labels := run_labels run\<rparr>) of
        Inl e \<Rightarrow> Inl e
      | Inr m \<Rightarrow> Inr (cm\<lparr>cm_meta := m, cm_data := content\<rparr>))"

definition new_config_map :: "string \<Rightarrow> string \<Rightarrow> config_map" where
  "new_config_map ns n = \<lparr>cm_meta = new_meta ns n Map.empty, cm_data = [], cm_binary = []\<rparr>"

definition params_config_map_name :: "agent_run \<Rightarrow> string" where
  "params_config_map_name run = ar_name run @ ''-params''"

definition params_volume_of :: "agent_run \<Rightarrow> volume" where
  "params_volume_of run =
     \<lparr>vol_name = params_volume,
      vol_source = VConfigMap (params_config_map_name run)
        [\<lparr>kp_key = path_base params_file_path, kp_path = path_base params_file_path, kp_mode = None\<rparr>]\<rparr>"

definition params_mount :: volume_mount where
  "params_mount = \<lparr>vm_name = params_volume, vm_path = path_dir params_file_path, vm_subpath = [],
     vm_readonly = True\<rparr>"

definition createParamsConfigMap ::
  "'w run_client \<Rightarrow> klib \<Rightarrow> agent_run \<Rightarrow> params_file \<Rightarrow> ('w, volume \<times> volume_mount) call" where
  "createParamsConfigMap C L run params w =
     (case renderParamsFile params of
        Inl e \<Rightarrow> (Inl (wrapf ''rendering params.json: %w'' [] e), w)
      | Inr content \<Rightarrow>
          (case rc_create_or_update_config_map C
                  (new_config_map (ar_namespace run) (params_config_map_name run))
                  (owned_config_map L run [(path_base params_file_path, content)]) w of
             (Some e, w') \<Rightarrow> (Inl (wrapf ''creating params ConfigMap: %w'' [] e), w')
           | (None, w') \<Rightarrow> (Inr (params_volume_of run, params_mount), w')))"

text \<open>The range over the inline map; its order is not specified by Go, the list stands for one order.\<close>

fun createInlineSkillConfigMaps ::
  "'w run_client \<Rightarrow> klib \<Rightarrow> agent_run \<Rightarrow> (string \<times> string) list \<Rightarrow> 'w \<Rightarrow> err option \<times> 'w" where
  "createInlineSkillConfigMaps C L run [] w = (None, w)"
| "createInlineSkillConfigMaps C L run ((n, content) # rest) w =
     (case rc_create_or_update_config_map C
             (new_config_map (ar_namespace run) (inlineSkillConfigMapName (ar_name run) n))
             (owned_config_map L run [(skill_file_key, content)]) w of
        (Some e, w') \<Rightarrow> (Some (wrapf ''writing ConfigMap for inline skill %q: %w'' [Lit n] e), w')
      | (None, w') \<Rightarrow> createInlineSkillConfigMaps C L run rest w')"

section \<open>The loader\<close>

text \<open>\<open>json.Marshal\<close> of the declared sources: the fields in struct order, empty ones left out.\<close>

definition struct_json :: "(string \<times> string) list \<Rightarrow> string" where
  "struct_json kvs =
     ''{'' @ join '','' (map (\<lambda>kv. json_string (fst kv) @ '':'' @ snd kv) kvs) @ ''}''"

definition source_json :: "skill_source \<Rightarrow> string" where
  "source_json s =
     struct_json
       ([(''name'', json_string (ks_name s))] @
        (if ks_subpath s = [] then [] else [(''subPath'', json_string (ks_subpath s))]) @
        (if ks_type s = [] then [] else [(''type'', json_string (ks_type s))]) @
        (case ks_git s of
           None \<Rightarrow> []
         | Some g \<Rightarrow>
             [(''git'', struct_json ([(''url'', json_string (gs_url g))] @
                 (if gs_ref g = [] then [] else [(''ref'', json_string (gs_ref g))])))]))"

definition sources_json :: "skill_source list \<Rightarrow> string" where
  "sources_json ss = ''['' @ join '','' (map source_json ss) @ '']''"

definition skillLoaderContainer :: "string \<Rightarrow> skill_acc \<Rightarrow> volume_mount list \<Rightarrow> container" where
  "skillLoaderContainer img sources mounts =
     \<lparr>ct_name = loader_container, ct_image = img, ct_command = [loader_binary],
      ct_args = [''load'', ''--src-dir'', skills_src_dir, ''--dest-dir'', skills_dir],
      ct_env = (if sa_declared sources \<noteq> []
                then [plain_env skill_sources_env (sources_json (sa_declared sources))] else []),
      ct_env_from = [], ct_mounts = mounts, ct_ports = [], ct_tcp_probe = None,
      ct_fallback_to_logs = True\<rparr>"

section \<open>The sandbox object\<close>

definition gibibyte :: nat where "gibibyte = 1024 * 1024 * 1024"

definition empty_dir :: "string \<Rightarrow> nat \<Rightarrow> volume" where
  "empty_dir n limit = \<lparr>vol_name = n, vol_source = VEmptyDir limit\<rparr>"

definition mount_at :: "string \<Rightarrow> string \<Rightarrow> bool \<Rightarrow> volume_mount" where
  "mount_at n p ro = \<lparr>vm_name = n, vm_path = p, vm_subpath = [], vm_readonly = ro\<rparr>"

definition loader_mounts :: "skill_acc \<Rightarrow> volume_mount list" where
  "loader_mounts skills = sa_mounts skills @ [mount_at skills_volume skills_dir False]"

definition agent_mounts :: "agent_run \<Rightarrow> volume_mount \<Rightarrow> volume_mount list" where
  "agent_mounts run paramsMount =
     [mount_at skills_volume skills_dir True, paramsMount,
      mount_at workspace_volume workspace_dir False, mount_at tmp_volume tmp_dir False] @
     snd (fileMountVolumes run)"

definition sandbox_volumes :: "agent_run \<Rightarrow> skill_acc \<Rightarrow> volume \<Rightarrow> volume list" where
  "sandbox_volumes run skills paramsVolume =
     sa_volumes skills @
     [empty_dir skills_volume gibibyte, paramsVolume, empty_dir workspace_volume (10 * gibibyte),
      empty_dir tmp_volume gibibyte] @
     fst (fileMountVolumes run)"

definition agent_container_of ::
  "agent_run \<Rightarrow> agent \<Rightarrow> env_var list \<Rightarrow> env_from list \<Rightarrow> volume_mount \<Rightarrow> container" where
  "agent_container_of run ag env envFrom paramsMount =
     \<lparr>ct_name = agent_container, ct_image = as_image (ag_spec ag), ct_command = [], ct_args = [],
      ct_env = env, ct_env_from = envFrom @ rs_env_from (ar_spec run),
      ct_mounts = agent_mounts run paramsMount, ct_ports = [(acp_port_name, acp_port)],
      ct_tcp_probe = Some (acp_port, acp_probe_period), ct_fallback_to_logs = True\<rparr>"

definition sandbox_object ::
  "run_config \<Rightarrow> agent_run \<Rightarrow> agent \<Rightarrow> env_var list \<Rightarrow> env_from list \<Rightarrow> volume \<Rightarrow> volume_mount \<Rightarrow> skill_acc \<Rightarrow> sandbox" where
  "sandbox_object cfg run ag env envFrom paramsVolume paramsMount skills =
     \<lparr>sb_meta = new_meta (ar_namespace run) (ar_name run)
        [label_managed_by \<mapsto> managed_by, label_component \<mapsto> ''agent-sandbox'',
         label_agent_run \<mapsto> ar_name run, label_agent \<mapsto> ag_name ag],
      sb_pod_labels = [label_managed_by \<mapsto> managed_by, label_agent_run \<mapsto> ar_name run,
                       label_agent \<mapsto> ag_name ag],
      sb_pod = \<lparr>ps_restart = ''Never'',
        ps_init = [skillLoaderContainer (rf_loader_image cfg) skills (loader_mounts skills)],
        ps_containers = [agent_container_of run ag env envFrom paramsMount],
        ps_volumes = sandbox_volumes run skills paramsVolume\<rparr>,
      sb_service = True, sb_conditions = []\<rparr>"

text \<open>The result, and the run with the reference to its secret, which is recorded even when a later
  step fails.\<close>

definition set_secret_ref :: "agent_run \<Rightarrow> agent_run" where
  "set_secret_ref run = run\<lparr>ar_status := (ar_status run)\<lparr>st_secret_ref := Some (acp_secret_name run)\<rparr>\<rparr>"

definition build_sandbox ::
  "run_config \<Rightarrow> 'w run_client \<Rightarrow> klib \<Rightarrow> agent_run \<Rightarrow> agent \<Rightarrow> params_file \<Rightarrow> scopes \<Rightarrow> ('w, sandbox) call" where
  "build_sandbox cfg C L run ag params scopes w =
     (case buildEnvVars C L run ag (acp_secret_name run) scopes w of
        (Inl e, w1) \<Rightarrow> (Inl (wrapf ''building env vars: %w'' [] e), w1)
      | (Inr (env, envFrom), w1) \<Rightarrow>
          (case createParamsConfigMap C L run params w1 of
             (Inl e, w2) \<Rightarrow> (Inl (wrapf ''creating params ConfigMap: %w'' [] e), w2)
           | (Inr (paramsVolume, paramsMount), w2) \<Rightarrow>
               (case resolveSkillVolumes C L run ag w2 of
                  (Inl e, w3) \<Rightarrow> (Inl (wrapf ''resolving skill volumes: %w'' [] e), w3)
                | (Inr skills, w3) \<Rightarrow>
                    (case createInlineSkillConfigMaps C L run (sa_inline skills) w3 of
                       (Some e, w4) \<Rightarrow> (Inl e, w4)
                     | (None, w4) \<Rightarrow>
                         (Inr (sandbox_object cfg run ag env envFrom paramsVolume paramsMount skills), w4)))))"

definition createSandbox ::
  "run_config \<Rightarrow> 'w run_client \<Rightarrow> klib \<Rightarrow> agent_run \<Rightarrow> agent \<Rightarrow> params_file \<Rightarrow> scopes \<Rightarrow> 'w
    \<Rightarrow> string res \<times> agent_run \<times> 'w" where
  "createSandbox cfg C L run ag params scopes w =
     (case create_acp_secret C L run w of
        (Some e, w1) \<Rightarrow> (Inl e, run, w1)
      | (None, w1) \<Rightarrow>
          (let run' = set_secret_ref run in
           case build_sandbox cfg C L run' ag params scopes w1 of
             (Inl e, w2) \<Rightarrow> (Inl e, run', w2)
           | (Inr sb, w2) \<Rightarrow>
               (case set_controller_ref L agent_run_kind (ar_meta run') (sb_meta sb) of
                  Inl e \<Rightarrow> (Inl (wrapf ''setting Sandbox owner reference: %w'' [] e), run', w2)
                | Inr m \<Rightarrow>
                    (case rc_create_sandbox C (sb\<lparr>sb_meta := m\<rparr>) w2 of
                       (r, w3) \<Rightarrow>
                         (case ignore_exists r of
                            Some e \<Rightarrow> (Inl (wrapf ''creating Sandbox: %w'' [] e), run', w3)
                          | None \<Rightarrow> (Inr (ar_name run), run', w3))))))"

section \<open>Environment: what wins\<close>

text \<open>The kubelet takes the last entry of a name.\<close>

definition env_lookup :: "env_var list \<Rightarrow> string \<Rightarrow> env_var option" where
  "env_lookup env n = map_of (map (\<lambda>e. (ev_name e, e)) (rev env)) n"

lemma env_lookup_append: "env_lookup (a @ b) n = (case env_lookup b n of Some e \<Rightarrow> Some e | None \<Rightarrow> env_lookup a n)"
  by (simp add: env_lookup_def map_add_def split: option.split)

lemma env_lookup_Nil [simp]: "env_lookup [] n = None"
  by (simp add: env_lookup_def)

lemma env_lookup_single: "env_lookup [e] n = (if ev_name e = n then Some e else None)"
  by (simp add: env_lookup_def)

lemma env_lookup_None: "env_lookup env n = None \<longleftrightarrow> n \<notin> ev_name ` set env"
  by (auto simp: env_lookup_def map_of_eq_None_iff image_image)

lemma env_lookup_snoc: "env_lookup (env @ [e]) n = (if ev_name e = n then Some e else env_lookup env n)"
  by (simp add: env_lookup_append env_lookup_single)

lemma env_lookup_filter:
  "env_lookup (filter (\<lambda>e. \<not> P (ev_name e)) env) n = (if P n then None else env_lookup env n)"
  by (induction env rule: rev_induct) (auto simp: env_lookup_snoc)

lemma gateway_env_names:
  "ev_name ` set (fst (gateway_env gw)) \<subseteq>
     {''KONVEYOR_LLM_PROVIDER'', ''KONVEYOR_LLM_ENDPOINT'', ''KONVEYOR_LLM_MODEL'', ''KONVEYOR_LLM_API_KEY''}"
  by (auto simp: gateway_env_def plain_env_def secret_env_def Let_def)

lemma lookup_gateway_env_names:
  assumes "lookup_gateway_env C L run w = (Inr (env, efrom), w')"
  shows "env_lookup env git_author_name_env = None \<and> env_lookup env git_author_email_env = None"
proof -
  have "env = [] \<or> (\<exists>gw. env = fst (gateway_env gw))"
    using assms by (auto simp: lookup_gateway_env_def Let_def split: if_splits prod.splits sum.splits)
      (metis fst_conv)+
  then show ?thesis
  proof
    assume "\<exists>gw. env = fst (gateway_env gw)"
    then obtain gw where "env = fst (gateway_env gw)" ..
    then show ?thesis using gateway_env_names [of gw]
      by (auto simp: env_lookup_None git_author_name_env_def git_author_email_env_def)
  qed simp
qed

lemma base_env_git:
  "env_lookup (base_env ag run s p i) git_author_name_env =
     Some (plain_env git_author_name_env (fst (resolveGitIdentity ag run)))"
  "env_lookup (base_env ag run s p i) git_author_email_env =
     Some (plain_env git_author_email_env (snd (resolveGitIdentity ag run)))"
  by (simp_all add: base_env_def env_lookup_append env_lookup_def plain_env_def git_author_name_env_def
      git_author_email_env_def)

text \<open>
  C15: the commit identity of the agent container is the resolved one whatever variables the run brings;
  every other variable the run sets takes effect as the run's last entry for it, over the controller's.
\<close>

theorem buildEnvVars_precedence:
  assumes "buildEnvVars C L run ag secretName scopes w = (Inr (env, envFrom), w')"
  shows "env_lookup env git_author_name_env =
      Some (plain_env git_author_name_env (fst (resolveGitIdentity ag run))) \<and>
    env_lookup env git_author_email_env =
      Some (plain_env git_author_email_env (snd (resolveGitIdentity ag run))) \<and>
    (\<forall>n e. \<not> managed_git_env n \<and> env_lookup (rs_env (ar_spec run)) n = Some e \<longrightarrow>
       env_lookup env n = Some e)"
proof -
  obtain p i gwEnv w1 where
    env: "env = base_env ag run secretName p i @ gwEnv @ user_env run"
    and gw: "lookup_gateway_env C L run w = (Inr (gwEnv, envFrom), w1)"
    using assms by (auto simp: buildEnvVars_def split: sum.splits prod.splits)
  have u: "env_lookup (user_env run) n =
      (if managed_git_env n then None else env_lookup (rs_env (ar_spec run)) n)" for n
    unfolding user_env_def by (rule env_lookup_filter)
  have m: "managed_git_env git_author_name_env" "managed_git_env git_author_email_env"
    by (simp_all add: managed_git_env_def)
  show ?thesis
    using lookup_gateway_env_names [OF gw] m
    by (simp add: env env_lookup_append u base_env_git)
qed

text \<open>
  An environment is only built against a gateway that exists and is Ready; a missing gateway, and
  nothing else of the lookup, is reported as the retriable gateway error.
\<close>

theorem gateway_checked_before_use:
  assumes "rs_gateway (ar_spec run) \<noteq> []"
  shows "case rc_get_gateway C (nskey_of (ar_namespace run) (rs_gateway (ar_spec run))) w of
      (Inr gw, w1) \<Rightarrow>
        (if is_ready L (gw_conditions gw) then lookup_gateway_env C L run w = (Inr (gateway_env gw), w1)
         else \<exists>e. lookup_gateway_env C L run w = (Inl e, w1) \<and> kind_of e = KOther)
    | (Inl e, w1) \<Rightarrow>
        (\<exists>e'. lookup_gateway_env C L run w = (Inl e', w1) \<and>
           kind_of e' = (if kind_of e = KNotFound then KGatewayNotFound else kind_of e))"
  using assms by (auto simp: lookup_gateway_env_def Let_def split: prod.splits sum.splits)

section \<open>Volumes and mounts of the pod\<close>

text \<open>Every staging volume is called \<open>skill-\<dots>\<close>, whatever the rewriting did to the name.\<close>

definition skillish :: "string \<Rightarrow> bool" where
  "skillish s \<longleftrightarrow> s = ''skill'' \<or> has_prefix s ''skill-''"

lemma skillish_append_dash: "skillish s \<Longrightarrow> has_prefix (s @ CHR ''-'' # t) ''skill-''"
  by (auto simp: skillish_def has_prefix_iff)

lemma trim_right_append:
  "trim_right P (a @ t) = (if \<forall>c \<in> set t. P c then trim_right P a else a @ trim_right P t)"
  by (simp add: trim_right_def dropWhile_append)

lemma skillish_trim: "has_prefix s ''skill-'' \<Longrightarrow> skillish (trim_right is_dash s)"
proof -
  assume "has_prefix s ''skill-''"
  then obtain t where s: "s = ''skill-'' @ t" by (auto simp: has_prefix_iff)
  have "trim_right is_dash ''skill-'' = ''skill''"
    by (simp add: trim_right_def is_dash_def)
  then show ?thesis
    unfolding s trim_right_append by (simp add: skillish_def has_prefix_def)
qed

lemma skillish_trim2: "skillish s \<Longrightarrow> skillish (trim_right is_dash s)"
  using skillish_trim by (auto simp: skillish_def trim_right_def is_dash_def)

lemma skillish_take: "skillish s \<Longrightarrow> skillish (take 54 s)"
  by (auto simp: skillish_def has_prefix_iff)

lemma sanitize_rune_skill: "map sanitize_rune (runes (''skill-'' @ n)) = ''skill-'' @ map sanitize_rune (runes n)"
proof -
  have step: "rune_chunks (c # s) = (byte c, [c]) # rune_chunks s" if "byte c < 128" for c s
    using that by (simp add: rune_chunks.simps(2) decode_rune.simps)
  show ?thesis
    by (simp add: runes_def step byte_def sanitize_rune_def name_char_def less_eq_char_def
        char_of_def bit_iff_odd)
qed

lemma skillish_base: "skillish (sanitize_base (''skill-'' @ n))"
proof -
  have "trim_left is_dash (''skill-'' @ map sanitize_rune (runes n)) = ''skill-'' @ map sanitize_rune (runes n)"
    by (simp add: trim_left_def is_dash_def)
  then show ?thesis
    unfolding sanitize_base_def sanitize_rune_skill trim_both_def
    by (simp only:) (rule skillish_trim, simp add: has_prefix_def)
qed

lemma sanitize_skillish:
  assumes "skillish (sanitize_base x)" and "has_prefix x ''skill-''"
  shows "has_prefix (sanitizeVolumeName x) ''skill-''"
proof (cases "sanitize_base x = x \<and> length x \<le> 63")
  case True
  then show ?thesis using assms(2) by (simp add: sanitizeVolumeName_def)
next
  case False
  define stem where "stem = (if length (sanitize_base x) + 9 > 63
      then trim_right is_dash (take 54 (sanitize_base x)) else sanitize_base x)"
  have "sanitize_base x \<noteq> []" using assms(1) by (auto simp: skillish_def has_prefix_def)
  then have "sanitizeVolumeName x = stem @ hash_suffix x"
    using False by (auto simp: sanitizeVolumeName_def Let_def stem_def)
  moreover have "skillish stem"
    using assms(1) skillish_take skillish_trim2 by (simp add: stem_def)
  ultimately show ?thesis using skillish_append_dash by (simp add: hash_suffix_def)
qed

lemma skill_volume_prefix: "has_prefix (skill_volume_name n) ''skill-''"
  unfolding skill_volume_name_def by (rule sanitize_skillish [OF skillish_base]) (simp add: has_prefix_def)

definition fixed_volume_names :: "agent_run \<Rightarrow> string list" where
  "fixed_volume_names run =
     [skills_volume, params_volume, workspace_volume, tmp_volume] @
     map (\<lambda>i. ''filemount-'' @ nat_text i) [0..<length (rs_file_mounts (ar_spec run))]"

lemma fixed_names_distinct: "distinct (fixed_volume_names run)"
  by (auto simp: fixed_volume_names_def distinct_map inj_on_def nat_text_inject skills_volume_def
      params_volume_def workspace_volume_def tmp_volume_def)

lemma fixed_not_skill: "x \<in> set (fixed_volume_names run) \<Longrightarrow> \<not> has_prefix x ''skill-''"
  by (auto simp: fixed_volume_names_def skills_volume_def params_volume_def workspace_volume_def
      tmp_volume_def has_prefix_def)

lemma file_mount_names:
  "map vol_name (fst (fileMountVolumes run)) =
     map (\<lambda>i. ''filemount-'' @ nat_text i) [0..<length (rs_file_mounts (ar_spec run))]"
  "map vm_name (snd (fileMountVolumes run)) =
     map (\<lambda>i. ''filemount-'' @ nat_text i) [0..<length (rs_file_mounts (ar_spec run))]"
  "map vm_path (snd (fileMountVolumes run)) =
     map (\<lambda>m. path_clean (fm_path m)) (rs_file_mounts (ar_spec run))"
  by (rule nth_equalityI; simp add: fileMountVolumes_def Let_def file_mount_volume_def
      file_mount_mount_def)+

lemma sandbox_volume_names:
  "map vol_name (sandbox_volumes run skills (params_volume_of run)) =
     map vol_name (sa_volumes skills) @ fixed_volume_names run"
  by (simp add: sandbox_volumes_def fixed_volume_names_def file_mount_names empty_dir_def params_volume_of_def)

lemma agent_mount_names: "map vm_name (agent_mounts run params_mount) = fixed_volume_names run"
  by (simp add: agent_mounts_def fixed_volume_names_def file_mount_names mount_at_def params_mount_def)

lemma agent_mount_paths:
  "map vm_path (agent_mounts run params_mount) =
     [skills_dir, path_dir params_file_path, workspace_dir, tmp_dir] @
     map (\<lambda>m. path_clean (fm_path m)) (rs_file_mounts (ar_spec run))"
  by (simp add: agent_mounts_def file_mount_names mount_at_def params_mount_def)

lemma build_sandbox_parts:
  assumes "build_sandbox cfg C L run ag params scopes w = (Inr sb, w')"
  shows "\<exists>env efrom skills w1 w2 w3.
    buildEnvVars C L run ag (acp_secret_name run) scopes w = (Inr (env, efrom), w1) \<and>
    resolveSkillVolumes C L run ag w2 = (Inr skills, w3) \<and>
    sb = sandbox_object cfg run ag env efrom (params_volume_of run) params_mount skills"
  using assms
  by (auto simp: build_sandbox_def createParamsConfigMap_def
      split: prod.splits sum.splits option.splits)

text \<open>
  C7: the pod of a sandbox built for a run with valid file mounts is well formed: volume names are
  distinct, every mount of the loader and of the agent names one of them, the agent's mount paths do not
  collide, and a file mount never lands in a controller-managed directory.
\<close>

theorem sandbox_pod_well_formed:
  assumes "build_sandbox cfg C L run ag params scopes w = (Inr sb, w')"
    and "validateFileMounts (rs_file_mounts (ar_spec run)) = None"
  shows "distinct (map vol_name (ps_volumes (sb_pod sb))) \<and>
    (\<forall>c \<in> set (ps_init (sb_pod sb) @ ps_containers (sb_pod sb)).
       vm_name ` set (ct_mounts c) \<subseteq> vol_name ` set (ps_volumes (sb_pod sb))) \<and>
    (\<forall>c \<in> set (ps_containers (sb_pod sb)). no_collisions (map vm_path (ct_mounts c))) \<and>
    (\<forall>c \<in> set (ps_init (sb_pod sb)). distinct (map vm_name (ct_mounts c)))"
proof -
  from build_sandbox_parts [OF assms(1)] obtain env efrom skills w2 w3 where
    res: "resolveSkillVolumes C L run ag w2 = (Inr skills, w3)"
    and sb: "sb = sandbox_object cfg run ag env efrom (params_volume_of run) params_mount skills"
    by blast
  have vols: "map vol_name (ps_volumes (sb_pod sb)) = map vol_name (sa_volumes skills) @ fixed_volume_names run"
    by (simp add: sb sandbox_object_def sandbox_volume_names)
  have sk: "map vol_name (sa_volumes skills) = map skill_volume_name (mounted_names skills)"
    "map vm_name (sa_mounts skills) = map vol_name (sa_volumes skills)"
    "distinct (map vol_name (sa_volumes skills))"
    using resolveSkillVolumes_inv [OF res] by (simp_all add: mounted_good_def)
  have skp: "x \<in> set (map vol_name (sa_volumes skills)) \<Longrightarrow> has_prefix x ''skill-''" for x
    unfolding sk(1) using skill_volume_prefix by auto
  have "distinct (map vol_name (ps_volumes (sb_pod sb)))"
    unfolding vols using sk(3) fixed_names_distinct [of run] skp fixed_not_skill
    by (auto simp only: distinct_append)
  moreover have "set (map vm_name (loader_mounts skills)) \<subseteq> set (map vol_name (ps_volumes (sb_pod sb)))"
    unfolding vols loader_mounts_def map_append sk(2)
    by (auto simp: mount_at_def fixed_volume_names_def)
  moreover have "set (map vm_name (agent_mounts run params_mount)) \<subseteq> set (map vol_name (ps_volumes (sb_pod sb)))"
    unfolding vols agent_mount_names by simp
  moreover have "no_collisions (map vm_path (agent_mounts run params_mount))"
    unfolding agent_mount_paths
    using reserved_and_user_ok(2) [OF assms(2)]
    by (auto simp: no_collisions_def reserved_and_user_def reservedMountPaths_def sorted_wrt_append)
  moreover have "distinct (map vm_name (loader_mounts skills))"
    unfolding loader_mounts_def map_append sk(2) using sk(3) skp fixed_not_skill [of skills_volume run]
    by (auto simp: mount_at_def fixed_volume_names_def)
  ultimately show ?thesis
    by (simp add: sb sandbox_object_def agent_container_of_def skillLoaderContainer_def)
qed

section \<open>A sample sandbox\<close>

definition sample_gateway :: gateway where
  "sample_gateway = \<lparr>gw_meta = new_meta ''ns'' ''gw'' Map.empty, gw_provider = ''openai'',
     gw_endpoint = ''https://llm'', gw_credential = \<lparr>cr_secret = ''llm'', cr_key = ''token''\<rparr>,
     gw_model = \<lparr>gm_name = ''m'', gm_context_window = 1, gm_tier = []\<rparr>,
     gw_observed_generation = 1, gw_connection_verified = True, gw_verified_hash = [],
     gw_conditions = [\<lparr>cd_type = condition_ready, cd_status = CTrue, cd_generation = 1,
        cd_reason = ''Ready'', cd_message = Lit ''ok''\<rparr>]\<rparr>"

definition gateway_client :: "int run_client" where
  "gateway_client = null_client\<lparr>rc_get_gateway := (\<lambda>k w. (Inr sample_gateway, w)),
     rc_get_agent := (\<lambda>k w. (Inr sample_agent, w))\<rparr>"

text \<open>A run that tries to forge the commit identity.\<close>

definition forging_run :: agent_run where
  "forging_run = sample_run\<lparr>ar_spec := (ar_spec sample_run)\<lparr>rs_gateway := ''gw'',
     rs_env := [plain_env git_author_name_env ''mallory'', plain_env ''DEBUG'' ''1''],
     rs_file_mounts := [sample_mount]\<rparr>\<rparr>"

lemma sample_ready: "is_ready sample_lib (gw_conditions sample_gateway)"
  by (simp add: is_ready_def sample_gateway_def sample_lib_def)

lemma forging_render: "renderPromptAndInstructions sample_agent forging_run sample_scopes = Inr (''fix bug'', ''now'')"
proof -
  have "rs_instructions (ar_spec forging_run) = rs_instructions (ar_spec sample_run)"
    by (simp add: forging_run_def)
  then have "renderPromptAndInstructions sample_agent forging_run sample_scopes =
      renderPromptAndInstructions sample_agent sample_run sample_scopes"
    by (simp only: renderPromptAndInstructions_def)
  then show ?thesis by (simp only: sample_render)
qed

lemma forging_gateway:
  "lookup_gateway_env gateway_client sample_lib forging_run 0 = (Inr (gateway_env sample_gateway), 0)"
  by (simp add: lookup_gateway_env_def forging_run_def gateway_client_def sample_ready)

definition forging_env :: "env_var list" where
  "forging_env = base_env sample_agent forging_run ''key'' ''fix bug'' ''now'' @
     fst (gateway_env sample_gateway) @ user_env forging_run"

lemma forging_build:
  "buildEnvVars gateway_client sample_lib forging_run sample_agent ''key'' sample_scopes 0 =
     (Inr (forging_env, []), 0)"
proof -
  have "gateway_env sample_gateway = (fst (gateway_env sample_gateway), [])"
    by (simp add: gateway_env_def sample_gateway_def)
  then show ?thesis
    by (cases "gateway_env sample_gateway")
      (simp add: buildEnvVars_def forging_render forging_gateway forging_env_def)
qed

lemma buildEnvVars_precedence_witness:
  "env_lookup forging_env git_author_name_env = Some (plain_env git_author_name_env [])"
proof -
  have "resolveGitIdentity sample_agent forging_run = ([], [])"
    by (simp add: resolveGitIdentity_def forging_run_def sample_run_def sample_agent_def)
  then show ?thesis using buildEnvVars_precedence [OF forging_build] by simp
qed

lemma gateway_checked_before_use_witness:
  "lookup_gateway_env gateway_client sample_lib forging_run 0 = (Inr (gateway_env sample_gateway), 0)"
proof -
  have g: "rs_gateway (ar_spec forging_run) \<noteq> []" by (simp add: forging_run_def)
  from gateway_checked_before_use [OF g, where C = gateway_client and w = 0 and L = sample_lib] sample_ready show ?thesis
    by (simp add: gateway_client_def)
qed

definition sample_config :: run_config where
  "sample_config = \<lparr>rf_loader_image = ''controller'', rf_default_ttl = None, rf_default_deadline = None\<rparr>"

lemma sample_render_file: "\<not> isl (renderParamsFile sample_params)"
  by (simp add: renderParamsFile_def params_sections_def sample_params_def sort_keys_def)

definition sample_sandbox :: sandbox where
  "sample_sandbox = sandbox_object sample_config forging_run sample_agent
     (base_env sample_agent forging_run (acp_secret_name forging_run) ''fix bug'' ''now'' @
        fst (gateway_env sample_gateway) @ user_env forging_run) []
     (params_volume_of forging_run) params_mount empty_acc"

lemma sample_build_sandbox:
  "build_sandbox sample_config gateway_client sample_lib forging_run sample_agent sample_params sample_scopes 0
     = (Inr sample_sandbox, 0)"
proof -
  have g: "gateway_env sample_gateway = (fst (gateway_env sample_gateway), [])"
    by (simp add: gateway_env_def sample_gateway_def)
  have e: "buildEnvVars gateway_client sample_lib forging_run sample_agent (acp_secret_name forging_run)
      sample_scopes 0 = (Inr (base_env sample_agent forging_run (acp_secret_name forging_run) ''fix bug'' ''now'' @
        fst (gateway_env sample_gateway) @ user_env forging_run, []), 0)"
    using g by (cases "gateway_env sample_gateway")
      (simp add: buildEnvVars_def forging_render forging_gateway)
  obtain c where c: "renderParamsFile sample_params = Inr c"
    using sample_render_file by (cases "renderParamsFile sample_params") auto
  have p: "createParamsConfigMap gateway_client sample_lib forging_run sample_params 0 =
      (Inr (params_volume_of forging_run, params_mount), 0)"
    by (simp add: createParamsConfigMap_def c gateway_client_def null_client_def_full)
  have s: "resolveSkillVolumes gateway_client sample_lib forging_run sample_agent 0 = (Inr empty_acc, 0)"
    by (simp add: resolveSkillVolumes_def sample_agent_def empty_acc_def)
  show ?thesis
    by (simp add: build_sandbox_def e p s sample_sandbox_def) (simp add: empty_acc_def)
qed

lemma forging_mounts_ok: "validateFileMounts (rs_file_mounts (ar_spec forging_run)) = None"
proof -
  have c: "path_clean (fm_path sample_mount) = ''/etc/app''"
    by (simp add: sample_mount_def path_clean_def is_abs_def has_prefix_def clean_comps_def slash_def)
  have "mount_ok sample_mount"
    by (simp add: mount_ok_def c)
      (simp add: sample_mount_def is_abs_def has_prefix_def slash_def reserved_simps pathsCollide_def
        isAncestorOrEqual_def)
  then show ?thesis
    unfolding validateFileMounts_def validate_mounts_from_None by (simp add: forging_run_def no_collisions_def)
qed

lemma sandbox_pod_well_formed_witness:
  "distinct (map vol_name (ps_volumes (sb_pod sample_sandbox))) \<and>
   ps_volumes (sb_pod sample_sandbox) \<noteq> []"
  using sandbox_pod_well_formed [OF sample_build_sandbox forging_mounts_ok]
  by (simp add: sample_sandbox_def sandbox_object_def sandbox_volumes_def)

end
