(* ===== verification/RunStatus.thy ===== *)
theory RunStatus
  imports Sandbox
begin

text \<open>
  The status of a run from its sandbox and pod (\<open>internal/controller/agentrun_controller.go\<close>): phase,
  \<open>ACPReady\<close> and \<open>Succeeded\<close> conditions, start-up failures and the deadline, timing, and the terminal
  outcome from the harness exit code.
\<close>

definition sandbox_finished :: string where "sandbox_finished = ''Finished''"
definition sandbox_reason_succeeded :: string where "sandbox_reason_succeeded = ''PodSucceeded''"
definition sandbox_condition_ready :: string where "sandbox_condition_ready = ''Ready''"
definition pod_running :: string where "pod_running = ''Running''"

section \<open>Conditions of a run\<close>

definition ar_generation :: "agent_run \<Rightarrow> int" where "ar_generation r = om_generation (ar_meta r)"

definition update_status :: "(agent_run_status \<Rightarrow> agent_run_status) \<Rightarrow> agent_run \<Rightarrow> agent_run" where
  "update_status f run = run\<lparr>ar_status := f (ar_status run)\<rparr>"

definition set_phase :: "phase \<Rightarrow> agent_run \<Rightarrow> agent_run" where
  "set_phase p = update_status (\<lambda>s. s\<lparr>st_phase := p\<rparr>)"

definition set_run_condition :: "klib \<Rightarrow> condition \<Rightarrow> agent_run \<Rightarrow> agent_run" where
  "set_run_condition L c = update_status (\<lambda>s. s\<lparr>st_conditions := set_condition L (st_conditions s) c\<rparr>)"

definition setRunSucceeded :: "klib \<Rightarrow> agent_run \<Rightarrow> cond_status \<Rightarrow> string \<Rightarrow> msg \<Rightarrow> agent_run" where
  "setRunSucceeded L run status reason message =
     set_run_condition L \<lparr>cd_type = cond_succeeded, cd_status = status, cd_generation = ar_generation run,
       cd_reason = reason, cd_message = message\<rparr> run"

definition acp_condition :: "agent_run \<Rightarrow> cond_status \<Rightarrow> string \<Rightarrow> msg \<Rightarrow> condition" where
  "acp_condition run status reason message =
     \<lparr>cd_type = cond_acp_ready, cd_status = status, cd_generation = ar_generation run,
      cd_reason = reason, cd_message = message\<rparr>"

section \<open>Reading the pod\<close>

fun first_terminated :: "container_status list \<Rightarrow> terminated option" where
  "first_terminated [] = None"
| "first_terminated (cs # rest) =
     (if cs_name cs = agent_container \<and> cs_terminated cs \<noteq> None then cs_terminated cs
      else first_terminated rest)"

definition agentContainerTermination :: "pod option \<Rightarrow> terminated option" where
  "agentContainerTermination p = (case p of None \<Rightarrow> None | Some q \<Rightarrow> first_terminated (pod_statuses q))"

definition agentExitCode :: "pod option \<Rightarrow> int option" where
  "agentExitCode p = map_option tm_exit (agentContainerTermination p)"

text \<open>The message must decode into a \<open>map[string]any\<close>.\<close>

definition decodes_to_map :: "string \<Rightarrow> bool" where
  "decodes_to_map s =
     (case json_unmarshal s of
        None \<Rightarrow> False
      | Some v \<Rightarrow> json_as_map v \<noteq> None \<and> json_floats_ok v)"

definition terminationDataFromPod :: "pod option \<Rightarrow> string option" where
  "terminationDataFromPod p =
     (case agentContainerTermination p of
        None \<Rightarrow> None
      | Some term \<Rightarrow>
          if tm_message term = [] then None
          else if decodes_to_map (tm_message term) then Some (tm_message term) else None)"

fun first_running :: "container_status list \<Rightarrow> int option" where
  "first_running [] = None"
| "first_running (cs # rest) =
     (case cs_running cs of
        Some t \<Rightarrow> (if t \<noteq> zero_time then Some t else first_running rest)
      | None \<Rightarrow> first_running rest)"

definition podStartTime :: "pod option \<Rightarrow> int \<Rightarrow> int" where
  "podStartTime p fallback =
     (case p of
        None \<Rightarrow> fallback
      | Some q \<Rightarrow>
          (case first_running (pod_statuses q) of
             Some t \<Rightarrow> t
           | None \<Rightarrow> (case pod_start q of Some t \<Rightarrow> t | None \<Rightarrow> fallback)))"

definition fatalWaitingReasons :: "string list" where
  "fatalWaitingReasons =
     [''ImagePullBackOff'', ''InvalidImageName'', ''CreateContainerConfigError'', ''CrashLoopBackOff'']"

definition all_statuses :: "pod \<Rightarrow> container_status list" where
  "all_statuses p = pod_init_statuses p @ pod_statuses p"

fun first_fatal :: "container_status list \<Rightarrow> (string \<times> msg) option" where
  "first_fatal [] = None"
| "first_fatal (cs # rest) =
     (case cs_waiting cs of
        None \<Rightarrow> first_fatal rest
      | Some w \<Rightarrow>
          if wt_reason w \<notin> set fatalWaitingReasons then first_fatal rest
          else (let m = Fmt ''container %q is stuck on %s'' [Lit (cs_name cs), Lit (wt_reason w)]
                in Some (wt_reason w, if wt_message w \<noteq> [] then Fmt ''%s: %s'' [m, Lit (wt_message w)] else m)))"

definition podStartupProblem :: "pod option \<Rightarrow> (string \<times> msg) option" where
  "podStartupProblem p = (case p of None \<Rightarrow> None | Some q \<Rightarrow> first_fatal (all_statuses q))"

fun first_unschedulable :: "condition list \<Rightarrow> msg option" where
  "first_unschedulable [] = None"
| "first_unschedulable (c # cs) =
     (if cd_type c = ''PodScheduled'' \<and> cd_status c = CFalse \<and> cd_reason c = ''Unschedulable''
      then Some (if empty_msg (cd_message c) then Lit ''unschedulable''
                 else Fmt ''unschedulable: %s'' [cd_message c])
      else first_unschedulable cs)"

fun first_waiting :: "container_status list \<Rightarrow> msg option" where
  "first_waiting [] = None"
| "first_waiting (cs # rest) =
     (case cs_waiting cs of
        None \<Rightarrow> first_waiting rest
      | Some w \<Rightarrow>
          if wt_reason w \<noteq> [] then Some (Fmt ''container %q: %s'' [Lit (cs_name cs), Lit (wt_reason w)])
          else first_waiting rest)"

definition podStartupDetail :: "pod option \<Rightarrow> msg" where
  "podStartupDetail p =
     (case p of
        None \<Rightarrow> Lit ''pod not created yet''
      | Some q \<Rightarrow>
          (case first_unschedulable (pod_conditions q) of
             Some m \<Rightarrow> m
           | None \<Rightarrow>
               (case first_waiting (all_statuses q) of
                  Some m \<Rightarrow> m
                | None \<Rightarrow> Fmt ''pod phase %s'' [Lit (pod_phase q)])))"

fun first_message :: "container_status list \<Rightarrow> string" where
  "first_message [] = []"
| "first_message (cs # rest) =
     (if cs_name cs \<noteq> agent_container then first_message rest
      else case cs_terminated cs of
             Some t \<Rightarrow> (if tm_message t \<noteq> [] then tm_message t else first_message rest)
           | None \<Rightarrow> first_message rest)"

fun podTerminationMessage :: "pod list \<Rightarrow> string" where
  "podTerminationMessage [] = []"
| "podTerminationMessage (p # ps) =
     (if first_message (pod_statuses p) \<noteq> [] then first_message (pod_statuses p)
      else podTerminationMessage ps)"

definition lookupTerminationMessage :: "'w run_client \<Rightarrow> agent_run \<Rightarrow> 'w \<Rightarrow> string \<times> 'w" where
  "lookupTerminationMessage C run w =
     (case rc_live_list_pods C (ar_namespace run) [(label_agent_run, ar_name run)] w of
        (Inl e, w') \<Rightarrow> ([], w')
      | (Inr pods, w') \<Rightarrow> (podTerminationMessage pods, w'))"

section \<open>Timing\<close>

text \<open>\<open>int64(d.Seconds())\<close>: whole seconds, toward zero.\<close>

definition whole_seconds :: "int \<Rightarrow> int" where
  "whole_seconds d = (if d \<ge> 0 then d div second else - ((- d) div second))"

definition stampCompletion ::
  "'w run_client \<Rightarrow> agent_run \<Rightarrow> pod option \<Rightarrow> sandbox \<Rightarrow> 'w \<Rightarrow> agent_run \<times> 'w" where
  "stampCompletion C run p sb w =
     (case rc_now C w of
        (now, w') \<Rightarrow>
          (let start = (case st_start_time (ar_status run) of
                          Some t \<Rightarrow> t
                        | None \<Rightarrow> podStartTime p (om_created (sb_meta sb)))
           in (update_status (\<lambda>s. s\<lparr>st_completion_time := Some now, st_start_time := Some start,
                                  st_duration := Some (whole_seconds (now - start))\<rparr>) run, w')))"

definition effectiveStartupDeadline :: "run_config \<Rightarrow> agent_run \<Rightarrow> int option" where
  "effectiveStartupDeadline cfg run =
     (case rs_startup_deadline (ar_spec run) of
        Some d \<Rightarrow> if d > 0 then Some (d * second)
                  else (case rf_default_deadline cfg of Some x \<Rightarrow> (if x > 0 then Some x else None) | None \<Rightarrow> None)
      | None \<Rightarrow> (case rf_default_deadline cfg of Some x \<Rightarrow> (if x > 0 then Some x else None) | None \<Rightarrow> None))"

section \<open>The terminal outcome\<close>

definition harness_exit_succeeded :: int where "harness_exit_succeeded = 0"
definition harness_exit_limit_reached :: int where "harness_exit_limit_reached = 2"

definition setTerminalOutcome ::
  "klib \<Rightarrow> agent_run \<Rightarrow> pod option \<Rightarrow> string \<Rightarrow> string \<Rightarrow> agent_run" where
  "setTerminalOutcome L run p sandboxReason failureMessage =
     (let exit = agentExitCode p in
      if exit = Some harness_exit_limit_reached
      then setRunSucceeded L (set_phase Failed run) CFalse reason_limit_reached
             (Lit ''Execution limit reached; the agent committed a handoff'')
      else if exit = Some harness_exit_succeeded
              \<or> (exit = None \<and> sandboxReason = sandbox_reason_succeeded)
      then setRunSucceeded L (set_phase Succeeded run) CTrue reason_run_succeeded
             (Lit ''Agent run completed successfully'')
      else
        (let m0 = Fmt ''Sandbox finished with reason: %s'' [Lit sandboxReason];
             m1 = (case exit of Some c \<Rightarrow> Fmt ''Agent exited with code %d'' [Lit (int_text c)] | None \<Rightarrow> m0);
             m2 = (if failureMessage \<noteq> [] then Lit failureMessage else m1)
         in setRunSucceeded L (set_phase Failed run) CFalse reason_run_failed m2))"

section \<open>Phase from the sandbox\<close>

fun find_finished :: "condition list \<Rightarrow> condition option" where
  "find_finished [] = None"
| "find_finished (c # cs) =
     (if cd_type c = sandbox_finished \<and> cd_status c = CTrue then Some c else find_finished cs)"

text \<open>The endpoint is gone, and the harness's report is kept as it is.\<close>

definition record_finish :: "klib \<Rightarrow> agent_run \<Rightarrow> pod option \<Rightarrow> agent_run" where
  "record_finish L run p =
     (let r = set_run_condition L (acp_condition run CFalse ''Finished''
                (Lit ''The run has finished; its ACP endpoint is gone'')) run
      in case terminationDataFromPod p of
           None \<Rightarrow> r
         | Some td \<Rightarrow> update_status (\<lambda>s. s\<lparr>st_termination_data := Some td\<rparr>) r)"

definition finish_run ::
  "'w run_client \<Rightarrow> klib \<Rightarrow> agent_run \<Rightarrow> sandbox \<Rightarrow> pod option \<Rightarrow> condition \<Rightarrow> 'w \<Rightarrow> agent_run \<times> 'w" where
  "finish_run C L run sb p cond w =
     (case stampCompletion C run p sb w of
        (r1, w1) \<Rightarrow>
          (case lookupTerminationMessage C (record_finish L r1 p) w1 of
             (failureMessage, w2) \<Rightarrow>
               (setTerminalOutcome L (record_finish L r1 p) p (cd_reason cond) failureMessage, w2)))"

definition acp_ready_of :: "klib \<Rightarrow> agent_run \<Rightarrow> sandbox \<Rightarrow> condition" where
  "acp_ready_of L run sb =
     (let name = om_name (sb_meta sb);
          waitMsg = Fmt ''Waiting for Sandbox %q to become Ready'' [Lit name]
      in case find_condition L (sb_conditions sb) sandbox_condition_ready of
           None \<Rightarrow> acp_condition run CFalse ''NotListening'' waitMsg
         | Some ready \<Rightarrow>
             if cd_status ready = CTrue
             then acp_condition run CTrue ''Listening''
                    (Fmt ''ACP endpoint %s.%s.svc:%d accepts connections''
                       [Lit name, Lit (om_namespace (sb_meta sb)), Lit (int_text acp_port)])
             else if \<not> empty_msg (cd_message ready)
             then acp_condition run CFalse ''NotListening'' (Fmt ''%s: %s'' [waitMsg, cd_message ready])
             else acp_condition run CFalse ''NotListening'' waitMsg)"

definition duration_text :: "int \<Rightarrow> msg" where
  "duration_text d = Fmt ''%dns'' [Lit (int_text d)]"

definition pod_not_running :: "klib \<Rightarrow> agent_run \<Rightarrow> sandbox \<Rightarrow> pod option \<Rightarrow> agent_run" where
  "pod_not_running L run sb p =
     setRunSucceeded L (set_phase Pending run) CUnknown ''PodNotRunning''
       (Fmt ''Waiting for sandbox pod %q to run (%s)'' [Lit (om_name (sb_meta sb)), podStartupDetail p])"

text \<open>The pod is not running: fail once the deadline has elapsed, otherwise stay pending.\<close>

definition wait_for_pod ::
  "run_config \<Rightarrow> 'w run_client \<Rightarrow> klib \<Rightarrow> agent_run \<Rightarrow> sandbox \<Rightarrow> pod option \<Rightarrow> 'w
    \<Rightarrow> int \<times> agent_run \<times> 'w" where
  "wait_for_pod cfg C L run sb p w =
     (case effectiveStartupDeadline cfg run of
        None \<Rightarrow> (0, pod_not_running L run sb p, w)
      | Some deadline \<Rightarrow>
          (case rc_now C w of
             (now, w1) \<Rightarrow>
               (let remaining = deadline - (now - om_created (sb_meta sb)) in
                if remaining \<le> 0 then
                  (case stampCompletion C (set_phase Failed run) p sb w1 of
                     (r, w2) \<Rightarrow>
                       (0, setRunSucceeded L r CFalse reason_startup_deadline
                             (Fmt ''Pod %q did not reach a running state within %s: %s''
                                [Lit (om_name (sb_meta sb)), duration_text deadline, podStartupDetail p]), w2))
                else (remaining, pod_not_running L run sb p, w1))))"

definition start_running :: "klib \<Rightarrow> agent_run \<Rightarrow> sandbox \<Rightarrow> pod option \<Rightarrow> agent_run" where
  "start_running L run sb p =
     setRunSucceeded L
       (update_status (\<lambda>s. s\<lparr>st_phase := Running,
                           st_start_time := Some (podStartTime p (om_created (sb_meta sb)))\<rparr>) run)
       CUnknown reason_running (Lit ''Agent is running'')"

definition updatePhaseFromSandbox ::
  "run_config \<Rightarrow> 'w run_client \<Rightarrow> klib \<Rightarrow> agent_run \<Rightarrow> sandbox \<Rightarrow> pod option \<Rightarrow> 'w
    \<Rightarrow> int \<times> agent_run \<times> 'w" where
  "updatePhaseFromSandbox cfg C L run sb p w =
     (case find_finished (sb_conditions sb) of
        Some cond \<Rightarrow> (case finish_run C L run sb p cond w of (r, w') \<Rightarrow> (0, r, w'))
      | None \<Rightarrow>
          (let r1 = set_run_condition L (acp_ready_of L run sb) run in
           if st_phase (ar_status r1) = Running then (0, r1, w)
           else case podStartupProblem p of
                  Some (reason, message) \<Rightarrow>
                    (case stampCompletion C (set_phase Failed r1) p sb w of
                       (r2, w') \<Rightarrow> (0, setRunSucceeded L r2 CFalse reason message, w'))
                | None \<Rightarrow>
                    if (case p of None \<Rightarrow> True | Some q \<Rightarrow> pod_phase q \<noteq> pod_running)
                    then wait_for_pod cfg C L r1 sb p w
                    else (0, start_running L r1 sb p, w)))"

definition isTerminalPhase :: "phase \<Rightarrow> bool" where
  "isTerminalPhase p \<longleftrightarrow> p = Succeeded \<or> p = Failed"

end
