(* ===== verification/RunCleanup.thy ===== *)
theory RunCleanup
  imports Sandbox
begin

text \<open>
  \<open>internal/controller/run_cleanup.go\<close>: the sweep of labelled children whose run no longer exists, behind
  the garbage collection by owner references.
\<close>

definition agent_workflow_run_kind :: string where "agent_workflow_run_kind = ''AgentWorkflowRun''"
definition sandbox_kind :: string where "sandbox_kind = ''Sandbox''"
definition konveyor_api_version :: string where "konveyor_api_version = ''konveyor.io/v1alpha1''"

definition is_controller_ref :: "owner_ref \<Rightarrow> bool" where
  "is_controller_ref r \<longleftrightarrow> or_controller r = Some True"

definition hasControllerOwner :: "objmeta \<Rightarrow> bool" where
  "hasControllerOwner m \<longleftrightarrow> list_ex is_controller_ref (om_owners m)"

definition isOwnerlessManagedRunResource :: "objmeta \<Rightarrow> bool" where
  "isOwnerlessManagedRunResource m \<longleftrightarrow>
     label m label_managed_by = managed_by \<and> label m label_agent_run \<noteq> [] \<and> \<not> hasControllerOwner m"

definition isOwnerlessManagedWorkflowRunResource :: "objmeta \<Rightarrow> bool" where
  "isOwnerlessManagedWorkflowRunResource m \<longleftrightarrow>
     label m label_managed_by = managed_by \<and> label m label_agent_workflow_run \<noteq> [] \<and>
     \<not> hasControllerOwner m"

text \<open>The requests a watch event enqueues.\<close>

definition workflowRunForLabeledResource :: "objmeta \<Rightarrow> nskey list" where
  "workflowRunForLabeledResource m =
     (let name = label m label_agent_workflow_run in
      if name = [] then [] else [nskey_of (om_namespace m) name])"

definition runForLabeledResource :: "objmeta \<Rightarrow> nskey list" where
  "runForLabeledResource m =
     (case om_labels m label_agent_run of
        None \<Rightarrow> []
      | Some name \<Rightarrow> [nskey_of (om_namespace m) name])"

definition isSandboxPod :: "objmeta \<Rightarrow> bool" where
  "isSandboxPod m \<longleftrightarrow> om_labels m label_agent_run \<noteq> None"

text \<open>The first controller reference decides; an ownerless object may go.\<close>

definition mayDeleteForMissingOwner :: "objmeta \<Rightarrow> string \<Rightarrow> string \<Rightarrow> string \<Rightarrow> bool" where
  "mayDeleteForMissingOwner m apiVersion kind name =
     (case find is_controller_ref (om_owners m) of
        Some r \<Rightarrow> or_api r = apiVersion \<and> or_kind r = kind \<and> or_name r = name
      | None \<Rightarrow> True)"

text \<open>Deletion goes through a function of the kind, so that both reconcilers share it.\<close>

definition deleteOrphanedObject ::
  "(objmeta \<Rightarrow> 'w \<Rightarrow> err option \<times> 'w) \<Rightarrow> string \<Rightarrow> string \<Rightarrow> string \<Rightarrow> string \<Rightarrow> objmeta \<Rightarrow> 'w \<Rightarrow> err option \<times> 'w" where
  "deleteOrphanedObject del resourceKind ownerAPI ownerKind ownerName m w =
     (if \<not> mayDeleteForMissingOwner m ownerAPI ownerKind ownerName then (None, w)
      else case del m w of
             (None, w') \<Rightarrow> (None, w')
           | (Some e, w') \<Rightarrow>
               if kind_of e = KNotFound then (None, w')
               else (Some (wrapf ''deleting orphaned %s %s/%s: %w''
                       [Lit resourceKind, Lit (om_namespace m), Lit (om_name m)] e), w'))"

text \<open>A loop that stops at the first error.\<close>

fun each_until_err :: "('a \<Rightarrow> 'w \<Rightarrow> err option \<times> 'w) \<Rightarrow> 'a list \<Rightarrow> 'w \<Rightarrow> err option \<times> 'w" where
  "each_until_err f [] w = (None, w)"
| "each_until_err f (x # xs) w =
     (case f x w of
        (Some e, w') \<Rightarrow> (Some e, w')
      | (None, w') \<Rightarrow> each_until_err f xs w')"

text \<open>List one kind and sweep it.\<close>

definition sweep ::
  "('w, objmeta list) call \<Rightarrow> string \<Rightarrow> nskey \<Rightarrow> (objmeta \<Rightarrow> 'w \<Rightarrow> err option \<times> 'w) \<Rightarrow> 'w \<Rightarrow> err option \<times> 'w" where
  "sweep lst what key f w =
     (case lst w of
        (Inl e, w') \<Rightarrow> (Some (wrapf (''listing '' @ what @ '' %s: %w'')
                          [Lit (nk_namespace key), Lit (nk_name key)] e), w')
      | (Inr ms, w') \<Rightarrow> each_until_err f ms w')"

fun in_turn :: "('w \<Rightarrow> err option \<times> 'w) list \<Rightarrow> 'w \<Rightarrow> err option \<times> 'w" where
  "in_turn [] w = (None, w)"
| "in_turn (f # fs) w = (case f w of (Some e, w') \<Rightarrow> (Some e, w') | (None, w') \<Rightarrow> in_turn fs w')"

definition run_selector :: "nskey \<Rightarrow> label_selector" where
  "run_selector key = [(label_managed_by, managed_by), (label_agent_run, nk_name key)]"

text \<open>A pod is followed to the sandbox that controls it, read past the cache when that is possible.\<close>

definition mayDeletePodForMissingRun ::
  "'w run_client \<Rightarrow> klib \<Rightarrow> objmeta \<Rightarrow> string \<Rightarrow> ('w, bool) call" where
  "mayDeletePodForMissingRun C L p runName w =
     (case find is_controller_ref (om_owners p) of
        None \<Rightarrow> (Inr True, w)
      | Some r \<Rightarrow>
          if or_api r \<noteq> sandbox_api_version L \<or> or_kind r \<noteq> sandbox_kind \<or> or_name r \<noteq> runName
          then (Inr False, w)
          else case (if rc_live_get_run C \<noteq> None then rc_live_get_sandbox C else rc_get_sandbox C)
                    (nskey_of (om_namespace p) (or_name r)) w of
                 (Inl e, w') \<Rightarrow>
                   (if kind_of e = KNotFound then (Inr True, w')
                    else (Inl (wrapf ''getting Sandbox owner for Pod %s/%s: %w''
                            [Lit (om_namespace p), Lit (om_name p)] e), w'))
               | (Inr sb, w') \<Rightarrow>
                   (Inr (or_uid r \<noteq> [] \<and> om_uid (sb_meta sb) \<noteq> [] \<and> or_uid r \<noteq> om_uid (sb_meta sb)), w'))"

definition sweep_pod :: "'w run_client \<Rightarrow> klib \<Rightarrow> nskey \<Rightarrow> objmeta \<Rightarrow> 'w \<Rightarrow> err option \<times> 'w" where
  "sweep_pod C L key p w =
     (case mayDeletePodForMissingRun C L p (nk_name key) w of
        (Inl e, w') \<Rightarrow> (Some e, w')
      | (Inr False, w') \<Rightarrow> (None, w')
      | (Inr True, w') \<Rightarrow>
          deleteOrphanedObject (rc_delete C ''Pod'') ''Pod'' (sandbox_api_version L) sandbox_kind
            (nk_name key) p w')"

definition cleanupOrphanedRunResources ::
  "'w run_client \<Rightarrow> klib \<Rightarrow> nskey \<Rightarrow> 'w \<Rightarrow> err option \<times> 'w" where
  "cleanupOrphanedRunResources C L key =
     in_turn
       [sweep (rc_list_sandboxes C (nk_namespace key) (run_selector key)) ''Sandboxes for missing AgentRun'' key
          (deleteOrphanedObject (rc_delete C sandbox_kind) sandbox_kind konveyor_api_version
             agent_run_kind (nk_name key)),
        sweep (rc_list_config_maps C (nk_namespace key) (run_selector key)) ''ConfigMaps for missing AgentRun'' key
          (deleteOrphanedObject (rc_delete C ''ConfigMap'') ''ConfigMap'' konveyor_api_version
             agent_run_kind (nk_name key)),
        sweep (rc_list_secrets C (nk_namespace key) (run_selector key)) ''Secrets for missing AgentRun'' key
          (deleteOrphanedObject (rc_delete C ''Secret'') ''Secret'' konveyor_api_version
             agent_run_kind (nk_name key)),
        sweep (rc_list_pods C (nk_namespace key) (run_selector key)) ''Pods for missing AgentRun'' key
          (sweep_pod C L key)]"

section \<open>Nothing of another controller is deleted\<close>

text \<open>
  A client whose world records every deletion it is asked for; the properties below hold for every such
  client, whatever its reads and answers are.
\<close>

record deletion =
  dl_kind :: string
  dl_meta :: objmeta

definition records_deletions :: "('w \<Rightarrow> deletion list) \<Rightarrow> 'w run_client \<Rightarrow> bool" where
  "records_deletions log C \<longleftrightarrow>
     (\<forall>k m w. log (snd (rc_delete C k m w)) = \<lparr>dl_kind = k, dl_meta = m\<rparr> # log w) \<and>
     (\<forall>ns s w. log (snd (rc_list_sandboxes C ns s w)) = log w) \<and>
     (\<forall>ns s w. log (snd (rc_list_config_maps C ns s w)) = log w) \<and>
     (\<forall>ns s w. log (snd (rc_list_secrets C ns s w)) = log w) \<and>
     (\<forall>ns s w. log (snd (rc_list_pods C ns s w)) = log w) \<and>
     (\<forall>k w. log (snd (rc_get_sandbox C k w)) = log w) \<and>
     (\<forall>k w. log (snd (rc_live_get_sandbox C k w)) = log w)"

text \<open>The deletions that are allowed: no controller, or the missing run, or for a pod its sandbox.\<close>

definition allowed :: "klib \<Rightarrow> nskey \<Rightarrow> deletion \<Rightarrow> bool" where
  "allowed L key d \<longleftrightarrow>
     (case find is_controller_ref (om_owners (dl_meta d)) of
        None \<Rightarrow> True
      | Some r \<Rightarrow> or_name r = nk_name key \<and>
          (if dl_kind d = ''Pod'' then or_api r = sandbox_api_version L \<and> or_kind r = sandbox_kind
           else or_api r = konveyor_api_version \<and> or_kind r = agent_run_kind))"

definition log_ok :: "klib \<Rightarrow> nskey \<Rightarrow> ('w \<Rightarrow> deletion list) \<Rightarrow> 'w \<Rightarrow> 'w \<Rightarrow> bool" where
  "log_ok L key log w w' \<longleftrightarrow> (\<exists>new. log w' = new @ log w \<and> list_all (allowed L key) new)"

lemma log_ok_refl: "log w' = log w \<Longrightarrow> log_ok L key log w w'"
  by (simp add: log_ok_def)

lemma log_ok_trans: "log_ok L key log a b \<Longrightarrow> log_ok L key log b c \<Longrightarrow> log_ok L key log a c"
  by (force simp: log_ok_def)

lemma each_until_err_log:
  assumes "\<And>x w. log_ok L key log w (snd (f x w))"
  shows "log_ok L key log w (snd (each_until_err f xs w))"
proof (induction xs arbitrary: w)
  case Nil
  then show ?case by (simp add: log_ok_refl)
next
  case (Cons x xs)
  obtain r w1 where f: "f x w = (r, w1)" by fastforce
  have a: "log_ok L key log w w1" using assms [of w x] f by simp
  have b: "log_ok L key log w1 (snd (each_until_err f xs w1))" by (rule Cons.IH)
  show ?case using a log_ok_trans [OF a b] by (cases r) (simp_all add: f)
qed

lemma sweep_log:
  assumes "\<And>w. log (snd (lst w)) = log w" and "\<And>x w. log_ok L key log w (snd (f x w))"
  shows "log_ok L key log w (snd (sweep lst what k f w))"
proof (cases "lst w")
  case (Pair r w1)
  then have "log w1 = log w" using assms(1) [of w] by simp
  then have "log_ok L key log w w1" by (rule log_ok_refl)
  moreover have "log_ok L key log w1 (snd (each_until_err f xs w1))" for xs
    by (rule each_until_err_log [OF assms(2)])
  ultimately show ?thesis
    using log_ok_trans [of L key log w w1] by (cases r) (simp_all add: sweep_def Pair)
qed

lemma in_turn_log:
  "\<forall>f \<in> set fs. \<forall>w. log_ok L key log w (snd (f w)) \<Longrightarrow> log_ok L key log w (snd (in_turn fs w))"
proof (induction fs arbitrary: w)
  case Nil
  then show ?case by (simp add: log_ok_refl)
next
  case (Cons f fs)
  obtain r w1 where f: "f w = (r, w1)" by fastforce
  have a: "log_ok L key log w w1" using Cons.prems f by (metis list.set_intros(1) snd_conv)
  have b: "log_ok L key log w1 (snd (in_turn fs w1))" using Cons by simp
  show ?case using a log_ok_trans [OF a b] by (cases r) (simp_all add: f)
qed

lemma delete_log:
  assumes "records_deletions log C"
    and "mayDeleteForMissingOwner m api kind name \<Longrightarrow> allowed L key \<lparr>dl_kind = k, dl_meta = m\<rparr>"
  shows "log_ok L key log w (snd (deleteOrphanedObject (rc_delete C k) rk api kind name m w))"
proof -
  have "log (snd (rc_delete C k m w)) = \<lparr>dl_kind = k, dl_meta = m\<rparr> # log w"
    using assms(1) by (simp add: records_deletions_def)
  then show ?thesis
    using assms(2)
    by (auto simp: deleteOrphanedObject_def log_ok_def split: prod.splits option.splits)
qed

text \<open>
  C9: the sweep for a missing run asks for the deletion of an object only when no controller owns it, or
  its controller is the missing run itself (for a pod: the run's sandbox); an object of another
  controller is never touched, whatever labels it carries.
\<close>

theorem cleanup_spares_foreign_objects:
  assumes "records_deletions log C"
  shows "\<exists>new. log (snd (cleanupOrphanedRunResources C L key w)) = new @ log w \<and>
    list_all (allowed L key) new"
proof -
  have run_child: "log_ok L key log w (snd (deleteOrphanedObject (rc_delete C k) k konveyor_api_version
      agent_run_kind (nk_name key) m w))" if "k \<noteq> ''Pod''" for k m w
    using that by (intro delete_log [OF assms])
      (auto simp: mayDeleteForMissingOwner_def allowed_def split: option.splits)
  have pod: "log_ok L key log w (snd (sweep_pod C L key m w))" for m w
  proof -
    obtain r w1 where r: "mayDeletePodForMissingRun C L m (nk_name key) w = (r, w1)" by fastforce
    have "log w1 = log w"
      using r assms by (auto simp: mayDeletePodForMissingRun_def records_deletions_def
          split: option.splits if_splits prod.splits sum.splits) (metis snd_conv)+
    then have "log_ok L key log w w1" by (rule log_ok_refl)
    moreover have "log_ok L key log w1 (snd (deleteOrphanedObject (rc_delete C ''Pod'') ''Pod''
        (sandbox_api_version L) sandbox_kind (nk_name key) m w1))"
      by (rule delete_log [OF assms]) (auto simp: mayDeleteForMissingOwner_def allowed_def split: option.splits)
    ultimately show ?thesis
      using log_ok_trans [of L key log w w1] by (auto simp: sweep_pod_def r split: sum.splits bool.splits)
  qed
  have lists: "\<And>ns s w. log (snd (rc_list_sandboxes C ns s w)) = log w"
    "\<And>ns s w. log (snd (rc_list_config_maps C ns s w)) = log w"
    "\<And>ns s w. log (snd (rc_list_secrets C ns s w)) = log w"
    "\<And>ns s w. log (snd (rc_list_pods C ns s w)) = log w"
    using assms by (simp_all add: records_deletions_def)
  have "log_ok L key log w (snd (cleanupOrphanedRunResources C L key w))"
    unfolding cleanupOrphanedRunResources_def
    by (intro in_turn_log ballI allI)
      (auto intro!: sweep_log run_child pod simp: lists sandbox_kind_def)
  then show ?thesis by (simp add: log_ok_def)
qed

text \<open>A cluster with a secret of the missing run and a labelled secret of another controller.\<close>

definition owned_by :: "string \<Rightarrow> string \<Rightarrow> string \<Rightarrow> objmeta" where
  "owned_by n kind owner = (new_meta ''ns'' n Map.empty)\<lparr>om_owners :=
     [\<lparr>or_api = konveyor_api_version, or_kind = kind, or_name = owner, or_uid = ''u'',
       or_controller = Some True\<rparr>]\<rparr>"

definition log_client :: "deletion list run_client" where
  "log_client = (client_over (\<lambda>w. 0))
     \<lparr>rc_delete := (\<lambda>k m w. (None, \<lparr>dl_kind = k, dl_meta = m\<rparr> # w)),
      rc_list_secrets := (\<lambda>ns s w. (Inr [owned_by ''mine'' agent_run_kind ''run'',
        owned_by ''theirs'' agent_run_kind ''other''], w))\<rparr>"

lemma log_client_records: "records_deletions id log_client"
  by (simp add: records_deletions_def log_client_def client_over_def)

lemma cleanup_spares_foreign_objects_witness:
  "snd (cleanupOrphanedRunResources log_client sample_lib (nskey_of ''ns'' ''run'') []) =
     [\<lparr>dl_kind = ''Secret'', dl_meta = owned_by ''mine'' agent_run_kind ''run''\<rparr>] \<and>
   (\<exists>new. snd (cleanupOrphanedRunResources log_client sample_lib (nskey_of ''ns'' ''run'') []) = new @ [] \<and>
      list_all (allowed sample_lib (nskey_of ''ns'' ''run'')) new)"
proof
  show "snd (cleanupOrphanedRunResources log_client sample_lib (nskey_of ''ns'' ''run'') []) =
      [\<lparr>dl_kind = ''Secret'', dl_meta = owned_by ''mine'' agent_run_kind ''run''\<rparr>]"
    by (simp add: cleanupOrphanedRunResources_def sweep_def log_client_def client_over_def
        deleteOrphanedObject_def mayDeleteForMissingOwner_def owned_by_def is_controller_ref_def
        nskey_of_def)
  show "\<exists>new. snd (cleanupOrphanedRunResources log_client sample_lib (nskey_of ''ns'' ''run'') []) = new @ [] \<and>
      list_all (allowed sample_lib (nskey_of ''ns'' ''run'')) new"
    using cleanup_spares_foreign_objects [OF log_client_records, of sample_lib "nskey_of ''ns'' ''run''" "[]"]
    by simp
qed

end
