(* ===== verification/Ttl.thy ===== *)
theory Ttl
  imports Kube
begin

text \<open>
  What the two run controllers share: the outcome of a decision and how it is carried out, the check past
  the cache before a sweep, and the contract of \<open>reconcileTTL\<close>: what garbage collection may do with a
  terminal run at a given time.
\<close>

section \<open>Decisions\<close>

text \<open>
  A reconcile decides, on the run it read, to return, to patch the status (with the result to return
  after the patch), or to delete the run.
\<close>

datatype 'r outcome =
    Finish reconcile_result "err option"
  | PatchRun 'r reconcile_result "err option"
  | RemoveRun

text \<open>\<open>patchRunStatus\<close> for a patch, \<open>Delete\<close> with \<open>IgnoreNotFound\<close> for a removal.\<close>

definition perform ::
  "('r \<Rightarrow> 'w \<Rightarrow> err option \<times> 'w) \<Rightarrow> ('w \<Rightarrow> err option \<times> 'w) \<Rightarrow> 'r outcome \<Rightarrow> 'w
    \<Rightarrow> (reconcile_result \<times> err option) \<times> 'w" where
  "perform patch del out w =
     (case out of
        Finish r e \<Rightarrow> ((r, e), w)
      | PatchRun run r e \<Rightarrow>
          (case patch run w of
             (Some pe, w') \<Rightarrow> ((no_requeue, Some pe), w')
           | (None, w') \<Rightarrow> ((r, e), w'))
      | RemoveRun \<Rightarrow>
          (case del w of
             (Some e, w') \<Rightarrow> ((no_requeue, if kind_of e = KNotFound then None else Some e), w')
           | (None, w') \<Rightarrow> ((no_requeue, None), w')))"

text \<open>The run is gone: confirm it past the cache, when there is a live reader, before the sweep.\<close>

definition confirm_missing ::
  "(nskey \<Rightarrow> 'w \<Rightarrow> 'r res \<times> 'w) option \<Rightarrow> (nskey \<Rightarrow> 'w \<Rightarrow> err option \<times> 'w) \<Rightarrow> nskey \<Rightarrow> 'w
    \<Rightarrow> (reconcile_result \<times> err option) \<times> 'w" where
  "confirm_missing reader sweep_now key w =
     (let go = (\<lambda>w. case sweep_now key w of (r, w') \<Rightarrow> ((no_requeue, r), w'))
      in case reader of
           None \<Rightarrow> go w
         | Some live \<Rightarrow>
             (case live key w of
                (Inr run, w') \<Rightarrow> ((\<lparr>rr_requeue = True, rr_after = 0\<rparr>, None), w')
              | (Inl e, w') \<Rightarrow>
                  if kind_of e \<noteq> KNotFound then ((no_requeue, Some e), w') else go w'))"

text \<open>What the invariants ask of an outcome.\<close>

fun patch_all :: "('r \<Rightarrow> bool) \<Rightarrow> 'r outcome \<Rightarrow> bool" where
  "patch_all P (PatchRun r' res e) = P r'"
| "patch_all P _ = True"

fun never_removes :: "'r outcome \<Rightarrow> bool" where
  "never_removes RemoveRun = False"
| "never_removes _ = True"

section \<open>Garbage collection\<close>

datatype 'r gc_action = KeepRun | StampRun 'r | WaitFor int | DeleteRun

locale ttl_gc =
  fixes ttl :: "'r \<Rightarrow> int option" and completed :: "'r \<Rightarrow> int option"
    and gc :: "'r \<Rightarrow> int \<Rightarrow> 'r gc_action"
  assumes gc_keep: "ttl r = None \<Longrightarrow> gc r now = KeepRun"
    and gc_stamp: "ttl r \<noteq> None \<Longrightarrow> completed r = None \<Longrightarrow>
      \<exists>r'. gc r now = StampRun r' \<and> completed r' = Some now \<and> ttl r' = ttl r"
    and gc_due: "ttl r = Some d \<Longrightarrow> completed r = Some t \<Longrightarrow>
      gc r now = (if t + d - now > 0 then WaitFor (t + d - now) else DeleteRun)"
begin

lemma delete_iff:
  "gc r now = DeleteRun \<longleftrightarrow> (\<exists>d t. ttl r = Some d \<and> completed r = Some t \<and> t + d \<le> now)"
proof (cases "ttl r")
  case None
  then show ?thesis by (simp add: gc_keep)
next
  case (Some d)
  show ?thesis
  proof (cases "completed r")
    case None
    with Some gc_stamp [of r now] show ?thesis by auto
  next
    case (Some t)
    with \<open>ttl r = Some d\<close> show ?thesis by (auto simp: gc_due)
  qed
qed

lemma wait_exact:
  assumes "gc r now = WaitFor n"
  shows "0 < n \<and> (\<forall>later. gc r later = DeleteRun \<longleftrightarrow> now + n \<le> later)"
proof -
  obtain d where d: "ttl r = Some d"
    using assms gc_keep by (cases "ttl r") auto
  obtain t where t: "completed r = Some t"
    using assms d gc_stamp [of r now] by (cases "completed r") auto
  have "n = t + d - now \<and> t + d - now > 0"
    using assms gc_due [OF d t, of now] by (auto split: if_splits)
  then show ?thesis by (auto simp: delete_iff d t)
qed

lemma stamped_lifetime:
  assumes "gc r now = StampRun r'"
  shows "\<exists>d. ttl r = Some d \<and> (\<forall>later. gc r' later = DeleteRun \<longleftrightarrow> now + d \<le> later)"
proof -
  obtain d where d: "ttl r = Some d"
    using assms gc_keep by (cases "ttl r") auto
  have c: "completed r = None"
  proof (cases "completed r")
    case (Some t)
    with assms gc_due [OF d] show ?thesis by (auto split: if_splits)
  qed
  have "completed r' = Some now \<and> ttl r' = Some d"
    using assms d c gc_stamp [of r now] by auto
  then show ?thesis using d by (auto simp: delete_iff)
qed

end

end
