(* ===== verification/AgentRun.thy ===== *)
theory AgentRun
  imports RunStatus RunCleanup Ttl
begin

text \<open>
  The \<open>AgentRun\<close> reconciler (\<open>internal/controller/agentrun_controller.go\<close>): \<open>Reconcile\<close> from the reads to
  the status patch, garbage collection of finished runs, and the watch maps.

  A reconcile first decides, on the run it read, what to do; the decision is then carried out.  The
  decision of a status patch holds the patched run, the result to return and the error to return after a
  successful patch.
\<close>

type_synonym run_outcome = "agent_run outcome"

section \<open>Garbage collection\<close>

definition effectiveTTL :: "run_config \<Rightarrow> agent_run \<Rightarrow> int option" where
  "effectiveTTL cfg run =
     (case rs_ttl (ar_spec run) of Some t \<Rightarrow> Some (t * second) | None \<Rightarrow> rf_default_ttl cfg)"

definition run_gc :: "run_config \<Rightarrow> agent_run \<Rightarrow> int \<Rightarrow> agent_run gc_action" where
  "run_gc cfg run now =
     (case effectiveTTL cfg run of
        None \<Rightarrow> KeepRun
      | Some ttl \<Rightarrow>
          (case st_completion_time (ar_status run) of
             None \<Rightarrow> StampRun (update_status (\<lambda>s. s\<lparr>st_completion_time := Some now\<rparr>) run)
           | Some t \<Rightarrow> (let remaining = t + ttl - now in
                        if remaining > 0 then WaitFor remaining else DeleteRun)))"

definition reconcileTTL :: "run_config \<Rightarrow> 'w run_client \<Rightarrow> agent_run \<Rightarrow> 'w \<Rightarrow> run_outcome \<times> 'w" where
  "reconcileTTL cfg C run w =
     (if effectiveTTL cfg run = None then (Finish no_requeue None, w)
      else case rc_now C w of
             (now, w') \<Rightarrow>
               (case run_gc cfg run now of
                  KeepRun \<Rightarrow> (Finish no_requeue None, w')
                | StampRun run' \<Rightarrow> (PatchRun run' no_requeue None, w')
                | WaitFor d \<Rightarrow> (Finish \<lparr>rr_requeue = False, rr_after = d\<rparr> None, w')
                | DeleteRun \<Rightarrow> (RemoveRun, w')))"

interpretation run_ttl: ttl_gc "effectiveTTL cfg" "st_completion_time \<circ> ar_status" "run_gc cfg" for cfg
  by unfold_locales
    (auto simp: run_gc_def effectiveTTL_def update_status_def Let_def split: option.splits)

section \<open>Reconcile\<close>

definition fail_run :: "klib \<Rightarrow> agent_run \<Rightarrow> string \<Rightarrow> msg \<Rightarrow> run_outcome" where
  "fail_run L run reason message =
     PatchRun (setRunSucceeded L (set_phase Failed run) CFalse reason message) no_requeue None"

definition wait_run :: "klib \<Rightarrow> agent_run \<Rightarrow> string \<Rightarrow> msg \<Rightarrow> err option \<Rightarrow> run_outcome" where
  "wait_run L run reason message e =
     PatchRun (setRunSucceeded L run CUnknown reason message) no_requeue e"

text \<open>The sandbox is created, or its failure recorded and returned for a retry.\<close>

definition create_phase ::
  "run_config \<Rightarrow> 'w run_client \<Rightarrow> klib \<Rightarrow> agent_run \<Rightarrow> agent \<Rightarrow> params_file \<Rightarrow> scopes \<Rightarrow> 'w
    \<Rightarrow> run_outcome \<times> 'w" where
  "create_phase cfg C L run ag params scopes w =
     (case createSandbox cfg C L run ag params scopes w of
        (Inl e, run', w') \<Rightarrow>
          (if kind_of e = KGatewayNotFound
           then wait_run L run' ''GatewayNotFound''
                  (Fmt ''Gateway %q not found; waiting for it to be created'' [Lit (rs_gateway (ar_spec run'))])
                  (Some e)
           else wait_run L run' ''SandboxCreationFailed''
                  (Fmt ''Failed to create Sandbox for Agent %q: %v'' [Lit (ag_name ag), text_of e]) (Some e), w')
      | (Inr sandboxName, run', w') \<Rightarrow>
          (PatchRun
             (setRunSucceeded L
                (update_status (\<lambda>s. s\<lparr>st_sandbox_name := sandboxName, st_phase := Pending\<rparr>) run')
                CUnknown ''SandboxCreated'' (Fmt ''Sandbox %q created'' [Lit sandboxName]))
             no_requeue None, w'))"

definition mounts_phase ::
  "run_config \<Rightarrow> 'w run_client \<Rightarrow> klib \<Rightarrow> agent_run \<Rightarrow> agent \<Rightarrow> params_file \<Rightarrow> scopes \<Rightarrow> 'w
    \<Rightarrow> run_outcome \<times> 'w" where
  "mounts_phase cfg C L run ag params scopes w =
     (case validateFileMounts (rs_file_mounts (ar_spec run)) of
        Some e \<Rightarrow> (fail_run L run ''InvalidFileMounts'' (text_of e), w)
      | None \<Rightarrow>
          (case validateFileMountSources C run w of
             (Inl e, w') \<Rightarrow>
               (wait_run L run
                  (if kind_of e = KNotFound then ''FileMountSourceNotFound'' else ''FileMountSourceUnavailable'')
                  (text_of e) (Some e), w')
           | (Inr message, w') \<Rightarrow>
               if \<not> empty_msg message then (fail_run L run ''InvalidFileMounts'' message, w')
               else create_phase cfg C L run ag params scopes w'))"

definition validate_phase ::
  "run_config \<Rightarrow> 'w run_client \<Rightarrow> klib \<Rightarrow> agent_run \<Rightarrow> agent \<Rightarrow> 'w \<Rightarrow> run_outcome \<times> 'w" where
  "validate_phase cfg C L run ag w =
     (case validateParams run ag of
        Inl e \<Rightarrow> (fail_run L run ''InvalidParams'' (text_of e), w)
      | Inr (params, scopes) \<Rightarrow>
          (case validateGateway run ag of
             Inl e \<Rightarrow> (fail_run L run ''InvalidGateway'' (text_of e), w)
           | Inr run' \<Rightarrow> mounts_phase cfg C L run' ag params scopes w))"

definition sandbox_key :: "agent_run \<Rightarrow> nskey" where
  "sandbox_key run = nskey_of (ar_namespace run) (st_sandbox_name (ar_status run))"

text \<open>The pod, whose absence only means that it does not exist yet.\<close>

definition read_pod :: "'w run_client \<Rightarrow> agent_run \<Rightarrow> ('w, pod option) call" where
  "read_pod C run w =
     (case rc_get_pod C (sandbox_key run) w of
        (Inr p, w') \<Rightarrow> (Inr (Some p), w')
      | (Inl e, w') \<Rightarrow> (if kind_of e = KNotFound then (Inr None, w') else (Inl e, w')))"

definition watch_phase ::
  "run_config \<Rightarrow> 'w run_client \<Rightarrow> klib \<Rightarrow> agent_run \<Rightarrow> 'w \<Rightarrow> run_outcome \<times> 'w" where
  "watch_phase cfg C L run w =
     (case rc_get_sandbox C (sandbox_key run) w of
        (Inl e, w1) \<Rightarrow>
          (if kind_of e = KNotFound
           then (fail_run L run ''SandboxNotFound''
                   (Fmt ''Sandbox %q was deleted'' [Lit (st_sandbox_name (ar_status run))]), w1)
           else (Finish no_requeue (Some e), w1))
      | (Inr sb, w1) \<Rightarrow>
          (case read_pod C run w1 of
             (Inl e, w2) \<Rightarrow> (Finish no_requeue (Some e), w2)
           | (Inr p, w2) \<Rightarrow>
               (case updatePhaseFromSandbox cfg C L run sb p w2 of
                  (requeueAfter, run', w3) \<Rightarrow>
                    (PatchRun run' \<lparr>rr_requeue = False, rr_after = requeueAfter\<rparr> None, w3))))"

definition agent_phase ::
  "run_config \<Rightarrow> 'w run_client \<Rightarrow> klib \<Rightarrow> agent_run \<Rightarrow> 'w \<Rightarrow> run_outcome \<times> 'w" where
  "agent_phase cfg C L run w =
     (case rc_get_agent C (nskey_of (ar_namespace run) (rs_agent_ref (ar_spec run))) w of
        (Inl e, w1) \<Rightarrow>
          (if kind_of e = KNotFound
           then (fail_run L run ''AgentNotFound''
                   (Fmt ''Agent %q not found'' [Lit (rs_agent_ref (ar_spec run))]), w1)
           else (Finish no_requeue (Some e), w1))
      | (Inr ag, w1) \<Rightarrow>
          if \<not> is_ready L (ag_conditions ag)
          then (wait_run L run ''AgentNotReady''
                  (Fmt ''Agent %q is not Ready'' [Lit (rs_agent_ref (ar_spec run))]) None, w1)
          else if st_sandbox_name (ar_status run) = []
          then validate_phase cfg C L run ag w1
          else watch_phase cfg C L run w1)"

text \<open>The decision on a run that was read.\<close>

definition observe :: "agent_run \<Rightarrow> agent_run" where
  "observe run = update_status (\<lambda>s. s\<lparr>st_observed_generation := ar_generation run\<rparr>) run"

definition shed_ready :: "klib \<Rightarrow> agent_run \<Rightarrow> agent_run" where
  "shed_ready L = update_status (\<lambda>s. s\<lparr>st_conditions := remove_condition L (st_conditions s) condition_ready\<rparr>)"

definition decide_run ::
  "run_config \<Rightarrow> 'w run_client \<Rightarrow> klib \<Rightarrow> agent_run \<Rightarrow> 'w \<Rightarrow> run_outcome \<times> 'w" where
  "decide_run cfg C L run w =
     (let run1 = observe run in
      if isTerminalPhase (st_phase (ar_status run1)) then reconcileTTL cfg C run1 w
      else agent_phase cfg C L (shed_ready L run1) w)"

text \<open>Carry a decision out.\<close>

definition perform_run ::
  "'w run_client \<Rightarrow> agent_run \<Rightarrow> run_outcome \<Rightarrow> 'w \<Rightarrow> (reconcile_result \<times> err option) \<times> 'w" where
  "perform_run C original =
     perform (rc_patch_status C original) (rc_delete C agent_run_kind (ar_meta original))"

definition missing_run ::
  "'w run_client \<Rightarrow> klib \<Rightarrow> nskey \<Rightarrow> 'w \<Rightarrow> (reconcile_result \<times> err option) \<times> 'w" where
  "missing_run C L = confirm_missing (rc_live_get_run C) (cleanupOrphanedRunResources C L)"

definition Reconcile ::
  "run_config \<Rightarrow> 'w run_client \<Rightarrow> klib \<Rightarrow> nskey \<Rightarrow> 'w \<Rightarrow> (reconcile_result \<times> err option) \<times> 'w" where
  "Reconcile cfg C L key w =
     (case rc_get_run C key w of
        (Inl e, w1) \<Rightarrow>
          (if kind_of e \<noteq> KNotFound then ((no_requeue, Some e), w1) else missing_run C L key w1)
      | (Inr run, w1) \<Rightarrow>
          (case decide_run cfg C L run w1 of
             (out, w2) \<Rightarrow> perform_run C run out w2))"

section \<open>Watches\<close>

definition findRunsForAgent :: "'w run_client \<Rightarrow> agent \<Rightarrow> 'w \<Rightarrow> nskey list \<times> 'w" where
  "findRunsForAgent C ag w =
     (case rc_list_runs_for_agent C (om_namespace (ag_meta ag)) (ag_name ag) w of
        (Inl e, w') \<Rightarrow> ([], w')
      | (Inr runs, w') \<Rightarrow>
          (map (\<lambda>r. nskey_of (ar_namespace r) (ar_name r))
             (filter (\<lambda>r. \<not> isTerminalPhase (st_phase (ar_status r))) runs), w'))"

end
