(* ===== verification/RunInvariant.thy ===== *)
theory RunInvariant
  imports AgentRun
begin

text \<open>
  The invariant of a run's status and its life cycle: every status the reconciler patches, from any
  answers of its environment, keeps the phase, the \<open>Succeeded\<close> condition and the timing consistent, and
  moves the run forward.
\<close>

section \<open>The invariant\<close>

definition succeeded_status :: "klib \<Rightarrow> agent_run \<Rightarrow> cond_status option" where
  "succeeded_status L r =
     map_option cd_status (find_condition L (st_conditions (ar_status r)) cond_succeeded)"

abbreviation phase_of :: "agent_run \<Rightarrow> phase" where
  "phase_of r \<equiv> st_phase (ar_status r)"

definition outcome_consistent :: "klib \<Rightarrow> agent_run \<Rightarrow> bool" where
  "outcome_consistent L r \<longleftrightarrow>
     (phase_of r = Succeeded \<longleftrightarrow> succeeded_status L r = Some CTrue) \<and>
     (phase_of r = Failed \<longleftrightarrow> succeeded_status L r = Some CFalse)"

definition duration_ok :: "int option \<Rightarrow> int option \<Rightarrow> int option \<Rightarrow> bool" where
  "duration_ok start completion duration \<longleftrightarrow>
     (\<forall>d. duration = Some d \<longrightarrow>
        (\<exists>s c. start = Some s \<and> completion = Some c \<and> d = whole_seconds (c - s)))"

definition timing_consistent :: "agent_run \<Rightarrow> bool" where
  "timing_consistent r \<longleftrightarrow>
     (st_start_time (ar_status r) \<noteq> None \<longrightarrow> phase_of r \<in> {Running, Succeeded, Failed}) \<and>
     (phase_of r = Running \<longrightarrow> st_start_time (ar_status r) \<noteq> None) \<and>
     (st_completion_time (ar_status r) \<noteq> None \<longrightarrow> isTerminalPhase (phase_of r)) \<and>
     duration_ok (st_start_time (ar_status r)) (st_completion_time (ar_status r))
       (st_duration (ar_status r))"

definition run_inv :: "klib \<Rightarrow> agent_run \<Rightarrow> bool" where
  "run_inv L r \<longleftrightarrow> outcome_consistent L r \<and> timing_consistent r \<and>
     (phase_of r = Running \<longrightarrow> st_sandbox_name (ar_status r) \<noteq> [])"

fun phase_rank :: "phase \<Rightarrow> nat" where
  "phase_rank NoPhase = 0"
| "phase_rank Pending = 1"
| "phase_rank Running = 2"
| "phase_rank Succeeded = 3"
| "phase_rank Failed = 3"

text \<open>What a patch of a run that is not finished may do.\<close>

definition progress :: "klib \<Rightarrow> agent_run \<Rightarrow> agent_run \<Rightarrow> bool" where
  "progress L r r' \<longleftrightarrow> run_inv L r' \<and> phase_rank (phase_of r) \<le> phase_rank (phase_of r') \<and>
     ar_meta r' = ar_meta r \<and>
     (st_sandbox_name (ar_status r) \<noteq> [] \<longrightarrow> st_sandbox_name (ar_status r') = st_sandbox_name (ar_status r)) \<and>
     (st_start_time (ar_status r) \<noteq> None \<longrightarrow> st_start_time (ar_status r') = st_start_time (ar_status r))"

section \<open>The pieces\<close>

named_theorems run_simps "selectors after the status updates of a run"

lemma status_update_simps [run_simps]:
  "ar_status (update_status f r) = f (ar_status r)"
  "ar_meta (update_status f r) = ar_meta r"
  "ar_spec (update_status f r) = ar_spec r"
  by (simp_all add: update_status_def)

lemma set_phase_simps [run_simps]:
  "phase_of (set_phase p r) = p"
  "st_sandbox_name (ar_status (set_phase p r)) = st_sandbox_name (ar_status r)"
  "st_start_time (ar_status (set_phase p r)) = st_start_time (ar_status r)"
  "st_completion_time (ar_status (set_phase p r)) = st_completion_time (ar_status r)"
  "st_duration (ar_status (set_phase p r)) = st_duration (ar_status r)"
  "st_conditions (ar_status (set_phase p r)) = st_conditions (ar_status r)"
  "ar_meta (set_phase p r) = ar_meta r"
  by (simp_all add: set_phase_def run_simps)

lemma set_run_condition_simps [run_simps]:
  "phase_of (set_run_condition L c r) = phase_of r"
  "st_sandbox_name (ar_status (set_run_condition L c r)) = st_sandbox_name (ar_status r)"
  "st_start_time (ar_status (set_run_condition L c r)) = st_start_time (ar_status r)"
  "st_completion_time (ar_status (set_run_condition L c r)) = st_completion_time (ar_status r)"
  "st_duration (ar_status (set_run_condition L c r)) = st_duration (ar_status r)"
  "ar_meta (set_run_condition L c r) = ar_meta r"
  by (simp_all add: set_run_condition_def run_simps)

lemma setRunSucceeded_simps [run_simps]:
  "phase_of (setRunSucceeded L r s rs m) = phase_of r"
  "st_sandbox_name (ar_status (setRunSucceeded L r s rs m)) = st_sandbox_name (ar_status r)"
  "st_start_time (ar_status (setRunSucceeded L r s rs m)) = st_start_time (ar_status r)"
  "st_completion_time (ar_status (setRunSucceeded L r s rs m)) = st_completion_time (ar_status r)"
  "st_duration (ar_status (setRunSucceeded L r s rs m)) = st_duration (ar_status r)"
  "ar_meta (setRunSucceeded L r s rs m) = ar_meta r"
  by (simp_all add: setRunSucceeded_def run_simps)

lemma cond_types_differ [run_simps]:
  "cond_acp_ready \<noteq> cond_succeeded" "condition_ready \<noteq> cond_succeeded"
  "cond_succeeded \<noteq> cond_acp_ready" "cond_succeeded \<noteq> condition_ready"
  by (simp_all add: cond_acp_ready_def cond_succeeded_def condition_ready_def)

lemma succeeded_set [run_simps]:
  "conditions_ok L \<Longrightarrow> succeeded_status L (setRunSucceeded L r s rs m) = Some s"
  by (simp add: succeeded_status_def setRunSucceeded_def set_run_condition_def run_simps find_set_type)

lemma succeeded_acp [run_simps]:
  "conditions_ok L \<Longrightarrow> cd_type c = cond_acp_ready \<Longrightarrow>
     succeeded_status L (set_run_condition L c r) = succeeded_status L r"
  using cond_types_differ by (simp add: succeeded_status_def set_run_condition_def run_simps find_set_type)

lemma run_inv_cong:
  "ar_status r = ar_status r' \<Longrightarrow> run_inv L r = run_inv L r'"
  by (simp only: run_inv_def outcome_consistent_def timing_consistent_def succeeded_status_def)

lemma terminal_simps [simp]:
  "isTerminalPhase Succeeded" "isTerminalPhase Failed" "\<not> isTerminalPhase Pending"
  "\<not> isTerminalPhase Running" "\<not> isTerminalPhase NoPhase"
  by (simp_all add: isTerminalPhase_def)

text \<open>A finished run: its condition and its timing together.\<close>

lemma inv_terminal:
  assumes "conditions_ok L" and "timing_consistent r"
    and "p = Failed \<and> s = CFalse \<or> p = Succeeded \<and> s = CTrue"
  shows "run_inv L (setRunSucceeded L (set_phase p r) s rs m)"
  using assms
  by (auto simp: run_inv_def outcome_consistent_def timing_consistent_def run_simps split: option.splits)

lemma timing_stamped:
  assumes "stampCompletion C r p sb w = (r', w')" and "isTerminalPhase (phase_of r)"
  shows "timing_consistent r' \<and> phase_of r' = phase_of r \<and> ar_meta r' = ar_meta r \<and>
    st_conditions (ar_status r') = st_conditions (ar_status r) \<and>
    st_sandbox_name (ar_status r') = st_sandbox_name (ar_status r) \<and>
    (st_start_time (ar_status r) \<noteq> None \<longrightarrow> st_start_time (ar_status r') = st_start_time (ar_status r))"
  using assms
  by (auto simp: stampCompletion_def timing_consistent_def duration_ok_def isTerminalPhase_def Let_def
      run_simps split: prod.splits option.splits)

text \<open>A run that is not finished has neither completion time nor duration.\<close>

lemma unfinished_timing:
  assumes "timing_consistent r" and "\<not> isTerminalPhase (phase_of r)"
  shows "st_completion_time (ar_status r) = None \<and> st_duration (ar_status r) = None"
  using assms by (auto simp: timing_consistent_def duration_ok_def)

lemma timing_set_phase:
  assumes "timing_consistent r" and "isTerminalPhase p"
  shows "timing_consistent (set_phase p r)"
  using assms by (auto simp: timing_consistent_def run_simps isTerminalPhase_def split: option.splits)

lemma fail_progress:
  assumes "conditions_ok L" and "run_inv L r" and "\<not> isTerminalPhase (phase_of r)"
  shows "patch_all (progress L r) (fail_run L r rs m)"
proof -
  have "run_inv L (setRunSucceeded L (set_phase Failed r) CFalse rs m)"
    using assms by (intro inv_terminal) (auto simp: run_inv_def)
  moreover have "phase_rank (phase_of r) \<le> 3" by (cases "phase_of r") auto
  ultimately show ?thesis by (simp add: fail_run_def progress_def run_simps)
qed

lemma wait_progress:
  assumes "conditions_ok L" and "run_inv L r" and "\<not> isTerminalPhase (phase_of r)"
  shows "patch_all (progress L r) (wait_run L r rs m e)"
  using assms
  by (auto simp: wait_run_def progress_def run_simps run_inv_def outcome_consistent_def
      timing_consistent_def isTerminalPhase_def)

lemma createSandbox_run:
  "createSandbox cfg C L run ag params scopes w = (res, run', w') \<Longrightarrow>
     run' = run \<or> run' = set_secret_ref run"
  by (auto simp: createSandbox_def Let_def split: prod.splits option.splits sum.splits)

lemma createSandbox_name:
  "createSandbox cfg C L run ag params scopes w = (Inr n, run', w') \<Longrightarrow> n = ar_name run"
  by (auto simp: createSandbox_def Let_def split: prod.splits option.splits sum.splits)

lemma secret_ref_simps [run_simps]:
  "phase_of (set_secret_ref r) = phase_of r"
  "st_sandbox_name (ar_status (set_secret_ref r)) = st_sandbox_name (ar_status r)"
  "st_start_time (ar_status (set_secret_ref r)) = st_start_time (ar_status r)"
  "ar_meta (set_secret_ref r) = ar_meta r"
  "run_inv L (set_secret_ref r) = run_inv L r"
  by (simp_all add: set_secret_ref_def run_inv_def outcome_consistent_def timing_consistent_def
      succeeded_status_def)

lemma progress_same:
  assumes "progress L r1 r2" and "phase_of r1 = phase_of r" and "ar_meta r1 = ar_meta r"
    and "st_sandbox_name (ar_status r1) = st_sandbox_name (ar_status r)"
    and "st_start_time (ar_status r1) = st_start_time (ar_status r)"
  shows "progress L r r2"
  using assms by (simp add: progress_def)

lemma patch_all_same:
  assumes "patch_all (progress L r1) out" and "phase_of r1 = phase_of r" and "ar_meta r1 = ar_meta r"
    and "st_sandbox_name (ar_status r1) = st_sandbox_name (ar_status r)"
    and "st_start_time (ar_status r1) = st_start_time (ar_status r)"
  shows "patch_all (progress L r) out"
  using assms progress_same by (cases out) auto

lemma create_progress:
  assumes ok: "conditions_ok L" and inv: "run_inv L r" and nt: "\<not> isTerminalPhase (phase_of r)"
    and sb: "st_sandbox_name (ar_status r) = []"
  shows "patch_all (progress L r) (fst (create_phase cfg C L r ag params scopes w))"
proof -
  obtain res r' w' where c: "createSandbox cfg C L r ag params scopes w = (res, r', w')"
    by (metis prod.exhaust)
  have r': "phase_of r' = phase_of r" "ar_meta r' = ar_meta r"
    "st_sandbox_name (ar_status r') = st_sandbox_name (ar_status r)"
    "st_start_time (ar_status r') = st_start_time (ar_status r)" "run_inv L r'"
    using createSandbox_run [OF c] inv by (auto simp: run_simps)
  show ?thesis
  proof (cases res)
    case (Inl e)
    have "patch_all (progress L r') (wait_run L r' rs m (Some e))" for rs m
      using ok r' nt by (intro wait_progress) simp_all
    then have "patch_all (progress L r) (wait_run L r' rs m (Some e))" for rs m
      using patch_all_same r' by metis
    then show ?thesis by (simp add: create_phase_def c Inl)
  next
    case (Inr n)
    have np: "phase_of r \<noteq> Running" using inv sb by (auto simp: run_inv_def)
    with nt have "phase_of r = NoPhase \<or> phase_of r = Pending"
      by (cases "phase_of r") auto
    then have "st_start_time (ar_status r) = None" using inv
      by (auto simp: run_inv_def timing_consistent_def)
    moreover have "st_completion_time (ar_status r') = None \<and> st_duration (ar_status r') = None"
      using r' nt unfinished_timing [of r'] by (simp add: run_inv_def)
    ultimately show ?thesis
      using ok r' sb \<open>phase_of r = NoPhase \<or> phase_of r = Pending\<close>
      by (auto simp: create_phase_def c Inr progress_def run_simps run_inv_def outcome_consistent_def
          timing_consistent_def duration_ok_def)
  qed
qed

section \<open>The phases of a reconcile\<close>

lemma mounts_progress:
  assumes "conditions_ok L" and "run_inv L r" and "\<not> isTerminalPhase (phase_of r)"
    and "st_sandbox_name (ar_status r) = []"
  shows "patch_all (progress L r) (fst (mounts_phase cfg C L r ag params scopes w))"
  by (simp add: mounts_phase_def fail_progress [OF assms(1,2,3)] wait_progress [OF assms(1,2,3)]
      create_progress [OF assms] split: option.splits prod.splits sum.splits)

lemma set_gateway_simps [run_simps]:
  "ar_status (set_gateway g r) = ar_status r" "ar_meta (set_gateway g r) = ar_meta r"
  "run_inv L (set_gateway g r) = run_inv L r"
  by (simp_all add: set_gateway_def run_inv_def outcome_consistent_def timing_consistent_def
      succeeded_status_def)

lemma set_gateway_same: "set_gateway (rs_gateway (ar_spec r)) r = r"
  by (simp add: set_gateway_def)

lemma validateGateway_run: "validateGateway r ag = Inr r' \<Longrightarrow> \<exists>g. r' = set_gateway g r"
  by (auto simp: validateGateway_def intro: set_gateway_same [symmetric] split: if_splits list.splits)

lemma validate_progress:
  assumes "conditions_ok L" and "run_inv L r" and "\<not> isTerminalPhase (phase_of r)"
    and "st_sandbox_name (ar_status r) = []"
  shows "patch_all (progress L r) (fst (validate_phase cfg C L r ag w))"
proof (cases "validateParams r ag")
  case (Inl e)
  then show ?thesis using fail_progress [OF assms(1,2,3)] by (simp add: validate_phase_def)
next
  case (Inr ps)
  obtain params scopes where ps: "ps = (params, scopes)" by (cases ps)
  show ?thesis
  proof (cases "validateGateway r ag")
    case (Inl e)
    with Inr ps show ?thesis using fail_progress [OF assms(1,2,3)] by (simp add: validate_phase_def)
  next
    case g: (Inr r')
    from validateGateway_run [OF g] obtain x where r': "r' = set_gateway x r" by blast
    have "patch_all (progress L r') (fst (mounts_phase cfg C L r' ag params scopes w))"
      using assms by (intro mounts_progress) (simp_all add: r' run_simps)
    then have "patch_all (progress L r) (fst (mounts_phase cfg C L r' ag params scopes w))"
      by (rule patch_all_same) (simp_all add: r' run_simps)
    with Inr ps g show ?thesis by (simp add: validate_phase_def)
  qed
qed

lemma rank_terminal: "isTerminalPhase p \<Longrightarrow> phase_rank q \<le> phase_rank p"
  by (cases q) (auto simp: isTerminalPhase_def)

text \<open>Finishing with a condition set on a stamped run.\<close>

lemma stamped_progress:
  assumes "conditions_ok L" and st: "stampCompletion C (set_phase Failed r0) p sb w = (r1, w1)"
    and "phase_of r0 = phase_of r" and "ar_meta r0 = ar_meta r"
    and "st_sandbox_name (ar_status r0) = st_sandbox_name (ar_status r)"
    and "st_start_time (ar_status r0) = st_start_time (ar_status r)"
  shows "progress L r (setRunSucceeded L r1 CFalse rs m)"
proof -
  have t: "timing_consistent r1 \<and> phase_of r1 = Failed \<and> ar_meta r1 = ar_meta r \<and>
      st_sandbox_name (ar_status r1) = st_sandbox_name (ar_status r) \<and>
      (st_start_time (ar_status r) \<noteq> None \<longrightarrow> st_start_time (ar_status r1) = st_start_time (ar_status r))"
    using timing_stamped [OF st] assms by (simp add: run_simps)
  have "set_phase Failed r1 = r1"
    using t by (cases r1) (simp add: set_phase_def update_status_def)
  then have "run_inv L (setRunSucceeded L r1 CFalse rs m)"
    using inv_terminal [OF assms(1), of r1 Failed CFalse rs m] t by simp
  then show ?thesis using t rank_terminal [of Failed "phase_of r"] by (simp add: progress_def run_simps)
qed

lemma acp_simps [run_simps]:
  "cd_type (acp_condition r s rs m) = cond_acp_ready"
  "cd_type (acp_ready_of L r sb) = cond_acp_ready"
  by (simp_all add: acp_condition_def acp_ready_of_def Let_def split: option.splits)

lemma acp_inv:
  assumes "conditions_ok L" and "cd_type c = cond_acp_ready"
  shows "run_inv L (set_run_condition L c r) = run_inv L r"
  using succeeded_acp [OF assms] set_run_condition_simps
  by (simp add: run_inv_def outcome_consistent_def timing_consistent_def run_simps)

lemma pod_not_running_progress:
  assumes "conditions_ok L" and "run_inv L r" and "phase_of r = NoPhase \<or> phase_of r = Pending"
  shows "progress L r (pod_not_running L r sb p)"
proof -
  have "\<not> isTerminalPhase (phase_of r)" using assms(3) by auto
  with assms(2) have u: "st_completion_time (ar_status r) = None" "st_duration (ar_status r) = None"
    using unfinished_timing by (auto simp: run_inv_def)
  have "st_start_time (ar_status r) = None"
    using assms(2,3) by (auto simp: run_inv_def timing_consistent_def)
  with assms u show ?thesis
    by (auto simp: pod_not_running_def progress_def run_inv_def outcome_consistent_def
        timing_consistent_def duration_ok_def run_simps)
qed

lemma wait_for_pod_progress:
  assumes "conditions_ok L" and "run_inv L r" and "phase_of r = NoPhase \<or> phase_of r = Pending"
  shows "progress L r (fst (snd (wait_for_pod cfg C L r sb p w)))"
  by (auto simp: wait_for_pod_def Let_def pod_not_running_progress [OF assms]
      intro: stamped_progress [OF assms(1)] split: option.splits prod.splits)

lemma start_running_progress:
  assumes "conditions_ok L" and "run_inv L r" and "phase_of r = NoPhase \<or> phase_of r = Pending"
    and "st_sandbox_name (ar_status r) \<noteq> []"
  shows "progress L r (start_running L r sb p)"
proof -
  have "\<not> isTerminalPhase (phase_of r)" using assms(3) by auto
  with assms(2) have u: "st_completion_time (ar_status r) = None" "st_duration (ar_status r) = None"
    using unfinished_timing by (auto simp: run_inv_def)
  have "st_start_time (ar_status r) = None"
    using assms(2,3) by (auto simp: run_inv_def timing_consistent_def)
  with assms u show ?thesis
    by (auto simp: start_running_def progress_def run_inv_def outcome_consistent_def
        timing_consistent_def duration_ok_def run_simps)
qed

text \<open>The outcome is set on a run whose timing is that of a finished one.\<close>

lemma setTerminalOutcome_inv:
  assumes "conditions_ok L"
    and "timing_consistent (set_phase Succeeded r)"
  shows "run_inv L (setTerminalOutcome L r p reason msg) \<and>
    isTerminalPhase (phase_of (setTerminalOutcome L r p reason msg))"
proof -
  have t: "timing_consistent (set_phase Failed r)"
    using assms(2) by (simp add: timing_consistent_def run_simps)
  have "run_inv L (setRunSucceeded L (set_phase Failed r) CFalse rs m)"
    "run_inv L (setRunSucceeded L (set_phase Succeeded r) CTrue rs m)" for rs m
    using assms t by (auto simp: run_inv_def outcome_consistent_def timing_consistent_def run_simps)
  then show ?thesis
    by (simp add: setTerminalOutcome_def Let_def run_simps)
qed

lemma setTerminalOutcome_simps [run_simps]:
  "ar_meta (setTerminalOutcome L r p reason msg) = ar_meta r"
  "st_sandbox_name (ar_status (setTerminalOutcome L r p reason msg)) = st_sandbox_name (ar_status r)"
  "st_start_time (ar_status (setTerminalOutcome L r p reason msg)) = st_start_time (ar_status r)"
  by (simp_all add: setTerminalOutcome_def Let_def run_simps)

lemma finish_progress:
  assumes "conditions_ok L" and f: "finish_run C L r sb p cond w = (r', w')"
  shows "progress L r r'"
proof -
  obtain r1 w1 where st: "stampCompletion C r p sb w = (r1, w1)" by fastforce
  define r3 where "r3 = record_finish L r1 p"
  obtain m w2 where l: "lookupTerminationMessage C r3 w1 = (m, w2)" by fastforce
  have r': "r' = setTerminalOutcome L r3 p (cd_reason cond) m"
    using f by (simp add: finish_run_def st r3_def [symmetric] l)
  have s1: "st_start_time (ar_status r1) \<noteq> None"
    "st_completion_time (ar_status r1) \<noteq> None"
    "duration_ok (st_start_time (ar_status r1)) (st_completion_time (ar_status r1)) (st_duration (ar_status r1))"
    "ar_meta r1 = ar_meta r" "st_sandbox_name (ar_status r1) = st_sandbox_name (ar_status r)"
    "st_start_time (ar_status r) \<noteq> None \<longrightarrow> st_start_time (ar_status r1) = st_start_time (ar_status r)"
    using st by (auto simp: stampCompletion_def Let_def run_simps duration_ok_def split: prod.splits option.splits)
  have s3: "st_start_time (ar_status r3) = st_start_time (ar_status r1)"
    "st_completion_time (ar_status r3) = st_completion_time (ar_status r1)"
    "st_duration (ar_status r3) = st_duration (ar_status r1)" "ar_meta r3 = ar_meta r1"
    "st_sandbox_name (ar_status r3) = st_sandbox_name (ar_status r1)"
    by (simp_all add: r3_def record_finish_def Let_def run_simps split: option.splits)
  have "timing_consistent (set_phase Succeeded r3)"
    using s1 by (simp add: timing_consistent_def run_simps s3)
  from setTerminalOutcome_inv [OF assms(1) this, of p "cd_reason cond" m]
  have "run_inv L r'" "isTerminalPhase (phase_of r')" by (simp_all add: r')
  then show ?thesis
    using s1 s3 rank_terminal [of "phase_of r'" "phase_of r"] by (auto simp: progress_def r' run_simps)
qed

lemma update_progress:
  assumes ok: "conditions_ok L" and inv: "run_inv L r" and nt: "\<not> isTerminalPhase (phase_of r)"
    and sn: "st_sandbox_name (ar_status r) \<noteq> []"
  shows "progress L r (fst (snd (updatePhaseFromSandbox cfg C L r sb p w)))"
proof (cases "find_finished (sb_conditions sb)")
  case (Some cond)
  obtain r' w' where "finish_run C L r sb p cond w = (r', w')" by fastforce
  with finish_progress [OF ok] Some show ?thesis by (simp add: updatePhaseFromSandbox_def)
next
  case None
  define r1 where "r1 = set_run_condition L (acp_ready_of L r sb) r"
  have r1: "phase_of r1 = phase_of r" "ar_meta r1 = ar_meta r"
    "st_sandbox_name (ar_status r1) = st_sandbox_name (ar_status r)"
    "st_start_time (ar_status r1) = st_start_time (ar_status r)"
    by (simp_all add: r1_def run_simps)
  have i1: "run_inv L r1"
    using inv acp_inv [OF ok] by (simp add: r1_def run_simps)
  note u = updatePhaseFromSandbox_def [of cfg C L r sb p w]
  show ?thesis
  proof (cases "phase_of r = Running")
    case True
    then show ?thesis using None i1 r1 by (simp add: u r1_def [symmetric] progress_def)
  next
    case False
    with nt have ph: "phase_of r1 = NoPhase \<or> phase_of r1 = Pending"
      using r1 by (cases "phase_of r") auto
    have "progress L r1 (fst (snd (wait_for_pod cfg C L r1 sb p w)))"
      by (rule wait_for_pod_progress [OF ok i1 ph])
    moreover have "progress L r1 (start_running L r1 sb p)"
      using sn r1 by (intro start_running_progress [OF ok i1 ph]) simp
    moreover have "progress L r (setRunSucceeded L r2 CFalse rs m)"
      if "stampCompletion C (set_phase Failed r1) p sb w = (r2, w')" for r2 w' rs m
      using stamped_progress [OF ok that] r1 by simp
    ultimately show ?thesis
      using None False progress_same [OF _ r1]
      by (auto simp: u r1_def [symmetric] r1(1) split: option.splits prod.splits)
  qed
qed

lemma watch_progress:
  assumes "conditions_ok L" and "run_inv L r" and "\<not> isTerminalPhase (phase_of r)"
    and "st_sandbox_name (ar_status r) \<noteq> []"
  shows "patch_all (progress L r) (fst (watch_phase cfg C L r w))"
proof -
  have "patch_all (progress L r)
      (fst (case updatePhaseFromSandbox cfg C L r sb p w2 of
        (requeueAfter, run', w3) \<Rightarrow>
          (PatchRun run' \<lparr>rr_requeue = False, rr_after = requeueAfter\<rparr> None, w3)))" for sb p w2
    using update_progress [OF assms, of cfg C sb p w2]
    by (cases "updatePhaseFromSandbox cfg C L r sb p w2") simp
  then show ?thesis
    using fail_progress [OF assms(1,2,3)]
    by (simp add: watch_phase_def split: prod.splits sum.splits)
qed

lemma agent_progress:
  assumes "conditions_ok L" and "run_inv L r" and "\<not> isTerminalPhase (phase_of r)"
  shows "patch_all (progress L r) (fst (agent_phase cfg C L r w))"
  by (simp add: agent_phase_def fail_progress [OF assms] wait_progress [OF assms]
      validate_progress [OF assms] watch_progress [OF assms] split: prod.splits sum.splits)

section \<open>Steps and reachable runs\<close>

text \<open>
  One reconcile that patches: the status subresource takes the status of the patched object, whatever
  the environment answered.
\<close>

definition with_status :: "agent_run \<Rightarrow> agent_run \<Rightarrow> agent_run" where
  "with_status r r' = r\<lparr>ar_status := ar_status r'\<rparr>"

inductive run_step :: "run_config \<Rightarrow> 'w run_client \<Rightarrow> klib \<Rightarrow> agent_run \<Rightarrow> agent_run \<Rightarrow> bool"
  for cfg C L where
  patch: "decide_run cfg C L r w = (PatchRun r' res e, w') \<Longrightarrow> run_step cfg C L r (with_status r r')"

inductive_cases run_stepE: "run_step cfg C L r r'"

definition fresh_run :: "agent_run \<Rightarrow> bool" where
  "fresh_run r \<longleftrightarrow> ar_status r = empty_status \<or> ar_status r = empty_status\<lparr>st_phase := Pending\<rparr>"

inductive run_reachable :: "run_config \<Rightarrow> 'w run_client \<Rightarrow> klib \<Rightarrow> agent_run \<Rightarrow> bool"
  for cfg C L where
  fresh: "fresh_run r \<Longrightarrow> run_reachable cfg C L r"
| step: "run_reachable cfg C L r \<Longrightarrow> run_step cfg C L r r' \<Longrightarrow> run_reachable cfg C L r'"

lemma observe_simps [run_simps]:
  "phase_of (observe r) = phase_of r" "ar_meta (observe r) = ar_meta r"
  "st_sandbox_name (ar_status (observe r)) = st_sandbox_name (ar_status r)"
  "st_start_time (ar_status (observe r)) = st_start_time (ar_status r)"
  "st_completion_time (ar_status (observe r)) = st_completion_time (ar_status r)"
  "st_duration (ar_status (observe r)) = st_duration (ar_status r)"
  "st_conditions (ar_status (observe r)) = st_conditions (ar_status r)"
  "ar_spec (observe r) = ar_spec r"
  by (simp_all add: observe_def run_simps)

lemma shed_simps [run_simps]:
  "phase_of (shed_ready L r) = phase_of r" "ar_meta (shed_ready L r) = ar_meta r"
  "st_sandbox_name (ar_status (shed_ready L r)) = st_sandbox_name (ar_status r)"
  "st_start_time (ar_status (shed_ready L r)) = st_start_time (ar_status r)"
  "st_completion_time (ar_status (shed_ready L r)) = st_completion_time (ar_status r)"
  "st_duration (ar_status (shed_ready L r)) = st_duration (ar_status r)"
  by (simp_all add: shed_ready_def run_simps)

lemma shed_succeeded [run_simps]:
  "conditions_ok L \<Longrightarrow> succeeded_status L (shed_ready L r) = succeeded_status L r"
  using cond_types_differ by (simp add: succeeded_status_def shed_ready_def run_simps find_remove)

lemma observe_inv: "run_inv L (observe r) = run_inv L r"
  by (simp add: run_inv_def outcome_consistent_def timing_consistent_def succeeded_status_def run_simps)

lemma shed_inv: "conditions_ok L \<Longrightarrow> run_inv L (shed_ready L r) = run_inv L r"
  by (simp add: run_inv_def outcome_consistent_def timing_consistent_def run_simps)

text \<open>What a step does to a finished run: only the completion time may appear.\<close>

lemma terminal_decide:
  assumes "decide_run cfg C L r w = (PatchRun r' res e, w')" and "isTerminalPhase (phase_of r)"
  shows "\<exists>now. st_completion_time (ar_status r) = None \<and>
    r' = update_status (\<lambda>s. s\<lparr>st_completion_time := Some now\<rparr>) (observe r)"
  using assms
  by (auto simp: decide_run_def reconcileTTL_def run_gc_def run_simps Let_def
      split: if_splits prod.splits option.splits gc_action.splits)

lemma step_live:
  assumes ok: "conditions_ok L" and d: "decide_run cfg C L r w = (PatchRun r' res e, w')"
    and inv: "run_inv L r" and nt: "\<not> isTerminalPhase (phase_of r)"
  shows "progress L r r'"
proof -
  let ?r1 = "shed_ready L (observe r)"
  have d': "fst (agent_phase cfg C L ?r1 w) = PatchRun r' res e"
    using d nt by (simp add: decide_run_def Let_def run_simps)
  have "patch_all (progress L ?r1) (fst (agent_phase cfg C L ?r1 w))"
    using ok inv nt by (intro agent_progress) (simp_all add: shed_inv observe_inv run_simps)
  then have "progress L ?r1 r'" by (simp add: d')
  then show ?thesis by (rule progress_same) (simp_all add: run_simps)
qed

lemma with_status_inv: "run_inv L (with_status r r') = run_inv L r'"
  by (rule run_inv_cong) (simp add: with_status_def)

lemma terminal_stamp_inv:
  assumes "run_inv L r" and "isTerminalPhase (phase_of r)" and "st_completion_time (ar_status r) = None"
  shows "run_inv L (update_status (\<lambda>s. s\<lparr>st_completion_time := Some now\<rparr>) (observe r))"
proof -
  have "st_duration (ar_status r) = None"
    using assms by (auto simp: run_inv_def timing_consistent_def duration_ok_def)
  with assms show ?thesis
    by (simp add: run_inv_def outcome_consistent_def timing_consistent_def duration_ok_def
        succeeded_status_def run_simps isTerminalPhase_def)
qed

lemma step_inv:
  assumes "conditions_ok L" and "run_inv L r" and "run_step cfg C L r r2"
  shows "run_inv L r2"
proof -
  from assms(3) obtain w r' res e w' where
    d: "decide_run cfg C L r w = (PatchRun r' res e, w')" and r2: "r2 = with_status r r'"
    by (auto elim: run_stepE)
  show ?thesis
  proof (cases "isTerminalPhase (phase_of r)")
    case True
    with terminal_decide [OF d] terminal_stamp_inv [OF assms(2)] show ?thesis
      by (auto simp: r2 with_status_inv)
  next
    case False
    with step_live [OF assms(1) d assms(2)] show ?thesis
      by (simp add: r2 with_status_inv progress_def)
  qed
qed

lemma fresh_inv: "conditions_ok L \<Longrightarrow> fresh_run r \<Longrightarrow> run_inv L r"
  by (auto simp: fresh_run_def run_inv_def outcome_consistent_def timing_consistent_def duration_ok_def
      succeeded_status_def empty_status_def find_nothing)

lemma reachable_inv:
  assumes "conditions_ok L"
  shows "run_reachable cfg C L r \<Longrightarrow> run_inv L r"
  by (induction rule: run_reachable.induct) (auto intro: fresh_inv step_inv assms)

end
