(* ===== verification/RunProperties.thy ===== *)
theory RunProperties
  imports RunInvariant
begin

text \<open>
  What the life cycle of a run guarantees: consistency of every reachable status, forward movement, the
  exit-code contract, the end of a run when its sandbox ends, the start-up deadline, and garbage
  collection.
\<close>

section \<open>Reachable statuses\<close>

text \<open>
  C1: in every status a run can reach, under any behaviour of the cluster, the phase is Succeeded exactly
  when the \<open>Succeeded\<close> condition is True and Failed exactly when it is False; a start time exists only
  from Running on, a completion time only at the end, and the duration is the whole seconds between them.
\<close>

theorem reachable_runs_consistent:
  assumes "conditions_ok L" and "run_reachable cfg C L r"
  shows "(phase_of r = Succeeded \<longleftrightarrow> succeeded_status L r = Some CTrue) \<and>
    (phase_of r = Failed \<longleftrightarrow> succeeded_status L r = Some CFalse) \<and>
    timing_consistent r"
  using reachable_inv [OF assms] by (simp add: run_inv_def outcome_consistent_def)

definition sample_failed :: agent_run where
  "sample_failed = setRunSucceeded sample_lib
     (set_phase Failed (shed_ready sample_lib (observe sample_run))) CFalse ''AgentNotFound''
     (Fmt ''Agent %q not found'' [Lit ''coder''])"

lemma sample_step: "run_step sample_config null_client sample_lib sample_run (with_status sample_run sample_failed)"
proof (rule run_step.patch)
  have s: "ar_spec (shed_ready sample_lib (observe sample_run)) = ar_spec sample_run"
    by (simp add: shed_ready_def observe_def run_simps)
  have a: "agent_phase sample_config null_client sample_lib (shed_ready sample_lib (observe sample_run)) 0 =
      (PatchRun sample_failed no_requeue None, 0)"
    by (simp add: agent_phase_def null_client_def_full not_found_def fail_run_def sample_failed_def s)
      (simp add: sample_run_def)
  show "decide_run sample_config null_client sample_lib sample_run 0 =
      (PatchRun sample_failed no_requeue None, 0)"
    by (simp add: decide_run_def Let_def a run_simps) (simp add: sample_run_def empty_status_def)
qed

lemma sample_reachable:
  "run_reachable sample_config null_client sample_lib (with_status sample_run sample_failed)"
  by (rule run_reachable.step [OF run_reachable.fresh sample_step]) (simp add: fresh_run_def sample_run_def)

lemma reachable_runs_consistent_witness:
  "succeeded_status sample_lib (with_status sample_run sample_failed) = Some CFalse"
proof -
  have "phase_of (with_status sample_run sample_failed) = Failed"
    by (simp add: with_status_def sample_failed_def run_simps)
  then show ?thesis using reachable_runs_consistent [OF sample_conditions_ok sample_reachable] by blast
qed

text \<open>
  C3: a reconcile moves a run forward only: the phase never goes back, the sandbox name and the start
  time are written once, identity and spec stay, and on a finished run nothing but the observed
  generation and a missing completion time changes.
\<close>

theorem run_step_forward:
  assumes "conditions_ok L" and "run_inv L r" and "run_step cfg C L r r2"
  shows "phase_rank (phase_of r) \<le> phase_rank (phase_of r2) \<and>
    ar_meta r2 = ar_meta r \<and> ar_spec r2 = ar_spec r \<and>
    (st_sandbox_name (ar_status r) \<noteq> [] \<longrightarrow> st_sandbox_name (ar_status r2) = st_sandbox_name (ar_status r)) \<and>
    (st_start_time (ar_status r) \<noteq> None \<longrightarrow> st_start_time (ar_status r2) = st_start_time (ar_status r)) \<and>
    (isTerminalPhase (phase_of r) \<longrightarrow>
       st_completion_time (ar_status r) = None \<and>
       (\<exists>now. ar_status r2 = (ar_status r)\<lparr>st_observed_generation := ar_generation r,
                                         st_completion_time := Some now\<rparr>))"
proof -
  from assms(3) obtain w r' res e w' where
    d: "decide_run cfg C L r w = (PatchRun r' res e, w')" and r2: "r2 = with_status r r'"
    by (auto elim: run_stepE)
  show ?thesis
  proof (cases "isTerminalPhase (phase_of r)")
    case True
    with terminal_decide [OF d] show ?thesis
      by (auto simp: r2 with_status_def run_simps observe_def)
  next
    case False
    with step_live [OF assms(1) d assms(2)] show ?thesis
      by (simp add: r2 with_status_def progress_def)
  qed
qed

lemma run_step_forward_witness:
  "phase_rank (phase_of sample_run) \<le> phase_rank (phase_of (with_status sample_run sample_failed))"
  using run_step_forward [OF sample_conditions_ok _ sample_step]
    fresh_inv [OF sample_conditions_ok, of sample_run] by (simp add: fresh_run_def sample_run_def)

section \<open>The exit-code contract\<close>

text \<open>
  C5: the outcome of a finished run is decided by the exit code of its agent container: 0 succeeds, 2 is
  a reached limit, any other code fails, and without a code the reason of the sandbox decides; the
  harness's own message, when there is one, is the message of a failure.
\<close>

theorem terminal_outcome_contract:
  assumes "conditions_ok L"
  shows "let r' = setTerminalOutcome L r p reason failure; code = agentExitCode p;
             ok = (code = Some 0 \<or> code = None \<and> reason = sandbox_reason_succeeded)
         in phase_of r' = (if ok then Succeeded else Failed) \<and>
            (\<exists>c. find_condition L (st_conditions (ar_status r')) cond_succeeded = Some c \<and>
               cd_status c = (if ok then CTrue else CFalse) \<and>
               cd_generation c = ar_generation r \<and>
               cd_reason c = (if ok then reason_run_succeeded
                              else if code = Some 2 then reason_limit_reached else reason_run_failed) \<and>
               (\<not> ok \<and> code \<noteq> Some 2 \<and> failure \<noteq> [] \<longrightarrow> cd_message c = Lit failure))"
  using assms
  by (auto simp: setTerminalOutcome_def Let_def setRunSucceeded_def set_run_condition_def run_simps
      find_set_type ar_generation_def harness_exit_limit_reached_def harness_exit_succeeded_def)

definition exited_pod :: "int \<Rightarrow> pod" where
  "exited_pod c = \<lparr>pod_meta = new_meta ''ns'' ''run'' Map.empty, pod_phase = ''Failed'', pod_start = Some 0,
     pod_conditions = [], pod_init_statuses = [],
     pod_statuses = [\<lparr>cs_name = ''agent'', cs_waiting = None, cs_running = None,
       cs_terminated = Some \<lparr>tm_exit = c, tm_message = ''null''\<rparr>\<rparr>]\<rparr>"

lemma terminal_outcome_contract_witness:
  "phase_of (setTerminalOutcome sample_lib sample_run (Some (exited_pod 2)) ''PodFailed'' []) = Failed \<and>
   (\<exists>c. find_condition sample_lib (st_conditions (ar_status
        (setTerminalOutcome sample_lib sample_run (Some (exited_pod 2)) ''PodFailed'' []))) cond_succeeded = Some c \<and>
      cd_reason c = reason_limit_reached)"
proof -
  have "agentExitCode (Some (exited_pod 2)) = Some 2"
    by (simp add: agentExitCode_def agentContainerTermination_def exited_pod_def agent_container_def)
  then show ?thesis
    using terminal_outcome_contract [OF sample_conditions_ok, of sample_run "Some (exited_pod 2)" "''PodFailed''" "[]"]
    by (auto simp: Let_def)
qed

text \<open>
  C6: once the sandbox of a live run reports that it finished, the next reconcile that can read the agent,
  the sandbox and the pod ends the run: a terminal phase from the exit code, a completion time, and an
  endpoint that is no longer ready.
\<close>

theorem finished_sandbox_ends_run:
  assumes "conditions_ok L" and "\<not> isTerminalPhase (phase_of r)" and "st_sandbox_name (ar_status r) \<noteq> []"
    and "rc_get_agent C (nskey_of (ar_namespace r) (rs_agent_ref (ar_spec r))) w = (Inr ag, w1)"
    and "is_ready L (ag_conditions ag)"
    and "rc_get_sandbox C (sandbox_key r) w1 = (Inr sb, w2)" and "read_pod C r w2 = (Inr p, w3)"
    and "find_finished (sb_conditions sb) = Some cond"
  shows "\<exists>r' w'. decide_run cfg C L r w = (PatchRun r' no_requeue None, w') \<and>
    isTerminalPhase (phase_of r') \<and> st_completion_time (ar_status r') \<noteq> None \<and>
    (agentExitCode p = Some 0 \<longrightarrow> phase_of r' = Succeeded) \<and>
    (\<forall>c. agentExitCode p = Some c \<and> c \<noteq> 0 \<longrightarrow> phase_of r' = Failed) \<and>
    (\<exists>c. find_condition L (st_conditions (ar_status r')) cond_acp_ready = Some c \<and> cd_status c = CFalse)"
proof -
  let ?r1 = "shed_ready L (observe r)"
  have same: "ar_meta ?r1 = ar_meta r" "ar_spec ?r1 = ar_spec r"
    "st_sandbox_name (ar_status ?r1) = st_sandbox_name (ar_status r)" "phase_of ?r1 = phase_of r"
    by (simp_all add: run_simps) (simp add: shed_ready_def run_simps)
  have keys: "ar_namespace ?r1 = ar_namespace r" "sandbox_key ?r1 = sandbox_key r"
    by (simp_all add: ar_namespace_def sandbox_key_def same)
  have pod: "read_pod C ?r1 w2 = (Inr p, w3)"
    using assms(7) by (simp add: read_pod_def keys)
  obtain r0 w4 where st: "stampCompletion C ?r1 p sb w3 = (r0, w4)" by fastforce
  obtain m w5 where l: "lookupTerminationMessage C (record_finish L r0 p) w4 = (m, w5)" by fastforce
  define r' where "r' = setTerminalOutcome L (record_finish L r0 p) p (cd_reason cond) m"
  have d: "decide_run cfg C L r w = (PatchRun r' no_requeue None, w5)"
    using assms(2-6,8) pod st l
    by (simp add: decide_run_def Let_def same agent_phase_def keys watch_phase_def no_requeue_def
        updatePhaseFromSandbox_def finish_run_def r'_def observe_simps)
  have "st_completion_time (ar_status r0) \<noteq> None"
    using st by (auto simp: stampCompletion_def Let_def run_simps split: prod.splits)
  then have c: "st_completion_time (ar_status r') \<noteq> None"
    by (simp add: r'_def setTerminalOutcome_def record_finish_def Let_def run_simps split: option.splits)
  have a: "find_condition L (st_conditions (ar_status (record_finish L r0 p))) cond_acp_ready =
      Some (acp_condition r0 CFalse ''Finished'' (Lit ''The run has finished; its ACP endpoint is gone''))"
    using assms(1) by (simp add: record_finish_def Let_def set_run_condition_def run_simps find_set_type
        split: option.splits)
  have "find_condition L (st_conditions (ar_status r')) cond_acp_ready =
      find_condition L (st_conditions (ar_status (record_finish L r0 p))) cond_acp_ready"
    using assms(1) by (simp add: r'_def setTerminalOutcome_def Let_def setRunSucceeded_def
        set_run_condition_def run_simps find_set_type)
  with a have acp: "\<exists>c. find_condition L (st_conditions (ar_status r')) cond_acp_ready = Some c \<and> cd_status c = CFalse"
    by (simp add: acp_condition_def)
  have ph: "isTerminalPhase (phase_of r')" "agentExitCode p = Some 0 \<longrightarrow> phase_of r' = Succeeded"
    "\<forall>c. agentExitCode p = Some c \<and> c \<noteq> 0 \<longrightarrow> phase_of r' = Failed"
    by (auto simp: r'_def setTerminalOutcome_def Let_def run_simps harness_exit_limit_reached_def
        harness_exit_succeeded_def)
  from d c acp ph show ?thesis by blast
qed

definition launched_run :: "phase \<Rightarrow> agent_run" where
  "launched_run ph = update_status (\<lambda>s. s\<lparr>st_phase := ph, st_sandbox_name := ''run''\<rparr>) sample_run"

definition finished_sandbox :: sandbox where
  "finished_sandbox = sample_sandbox\<lparr>sb_conditions := [\<lparr>cd_type = sandbox_finished, cd_status = CTrue,
     cd_generation = 1, cd_reason = ''PodFailed'', cd_message = Lit ''pod failed''\<rparr>]\<rparr>"

definition sample_world :: "sandbox res \<Rightarrow> pod res \<Rightarrow> int run_client" where
  "sample_world sb p = null_client\<lparr>rc_get_agent := (\<lambda>k w. (Inr sample_agent, w)),
     rc_get_sandbox := (\<lambda>k w. (sb, w)), rc_get_pod := (\<lambda>k w. (p, w))\<rparr>"

lemma sample_world_simps:
  "rc_get_agent (sample_world sb p) k w = (Inr sample_agent, w)"
  "rc_get_sandbox (sample_world sb p) k w = (sb, w)"
  "rc_get_pod (sample_world sb p) k w = (p, w)"
  "rc_now (sample_world sb p) w = (w, w)"
  by (simp_all add: sample_world_def null_client_def_full)

lemma sample_agent_ready: "is_ready sample_lib (ag_conditions sample_agent)"
  by (simp add: is_ready_def sample_lib_def sample_agent_def)

lemma launched_simps:
  "phase_of (launched_run ph) = ph" "st_sandbox_name (ar_status (launched_run ph)) = ''run''"
  "ar_spec (launched_run ph) = ar_spec sample_run" "ar_meta (launched_run ph) = ar_meta sample_run"
  "st_conditions (ar_status (launched_run ph)) = []"
  "st_completion_time (ar_status (launched_run ph)) = None" "rs_ttl (ar_spec sample_run) = None"
  by (simp_all add: launched_run_def update_status_def) (simp_all add: sample_run_def empty_status_def)

lemma finished_sandbox_ends_run_witness:
  "\<exists>r' w'. decide_run sample_config (sample_world (Inr finished_sandbox) (Inr (exited_pod 1))) sample_lib
      (launched_run Running) 0 = (PatchRun r' no_requeue None, w') \<and> phase_of r' = Failed"
proof -
  have e: "agentExitCode (Some (exited_pod 1)) = Some 1"
    by (simp add: agentExitCode_def agentContainerTermination_def exited_pod_def agent_container_def)
  have p: "read_pod (sample_world (Inr finished_sandbox) (Inr (exited_pod 1))) (launched_run Running) 0 =
      (Inr (Some (exited_pod 1)), 0)"
    by (simp add: read_pod_def sample_world_simps)
  have f: "\<exists>c. find_finished (sb_conditions finished_sandbox) = Some c"
    by (simp add: finished_sandbox_def)
  then obtain c where f: "find_finished (sb_conditions finished_sandbox) = Some c" ..
  show ?thesis
    using finished_sandbox_ends_run [where cfg = sample_config, OF sample_conditions_ok _ _ sample_world_simps(1) sample_agent_ready
        sample_world_simps(2) p f] e by (auto simp: launched_simps)
qed

section \<open>Start-up\<close>

lemma spec_simps_run [run_simps]:
  "ar_spec (set_phase ph r) = ar_spec r" "ar_spec (set_run_condition L c r) = ar_spec r"
  "ar_spec (setRunSucceeded L r s rs m) = ar_spec r"
  by (simp_all add: set_phase_def set_run_condition_def setRunSucceeded_def run_simps)

lemma deadline_cong: "ar_spec r = ar_spec r' \<Longrightarrow> effectiveStartupDeadline cfg r = effectiveStartupDeadline cfg r'"
  by (simp add: effectiveStartupDeadline_def)

lemma stamped_simps:
  assumes "stampCompletion C r p sb w = (r', w')"
  shows "st_completion_time (ar_status r') = Some (fst (rc_now C w))" "phase_of r' = phase_of r"
    "ar_meta r' = ar_meta r" "ar_spec r' = ar_spec r"
    "st_conditions (ar_status r') = st_conditions (ar_status r)"
  using assms by (auto simp: stampCompletion_def Let_def run_simps split: prod.splits)

lemma succeeded_reason:
  "conditions_ok L \<Longrightarrow> find_condition L (st_conditions (ar_status (setRunSucceeded L r s rs m))) cond_succeeded =
     Some \<lparr>cd_type = cond_succeeded, cd_status = s, cd_generation = ar_generation r, cd_reason = rs, cd_message = m\<rparr>"
  by (simp add: setRunSucceeded_def set_run_condition_def run_simps find_set_type)

text \<open>
  A pod that is not running is held to the start-up deadline, counted from the creation of the
  sandbox: before it the run is Pending and is looked at again exactly when the deadline falls due, from
  it on the run fails with \<open>StartupDeadlineExceeded\<close> and a completion time.
\<close>

theorem startup_deadline_enforced:
  assumes "conditions_ok L" and "find_finished (sb_conditions sb) = None"
    and "phase_of r \<noteq> Running" and "podStartupProblem p = None"
    and "p = None \<or> (\<exists>q. p = Some q \<and> pod_phase q \<noteq> pod_running)"
    and "effectiveStartupDeadline cfg r = Some d"
  shows "\<exists>after r' w'. updatePhaseFromSandbox cfg C L r sb p w = (after, r', w') \<and>
    (let now = fst (rc_now C w); due = om_created (sb_meta sb) + d in
       if now < due
       then after = due - now \<and> phase_of r' = Pending \<and> succeeded_status L r' = Some CUnknown
       else after = 0 \<and> phase_of r' = Failed \<and> st_completion_time (ar_status r') \<noteq> None \<and>
         map_option cd_reason (find_condition L (st_conditions (ar_status r')) cond_succeeded) =
           Some reason_startup_deadline)"
proof -
  let ?r1 = "set_run_condition L (acp_ready_of L r sb) r"
  have d: "effectiveStartupDeadline cfg ?r1 = Some d"
    using assms(6) deadline_cong [of ?r1 r] by (simp add: run_simps)
  obtain now w1 where n: "rc_now C w = (now, w1)" by fastforce
  obtain r2 w2 where s: "stampCompletion C (set_phase Failed ?r1) p sb w1 = (r2, w2)" by fastforce
  have "updatePhaseFromSandbox cfg C L r sb p w = wait_for_pod cfg C L ?r1 sb p w"
    using assms(2-5) by (auto simp: updatePhaseFromSandbox_def Let_def run_simps)
  then show ?thesis
    using assms(1) stamped_simps(1,2) [OF s]
    by (cases "now < om_created (sb_meta sb) + d")
      (simp_all add: wait_for_pod_def d n s Let_def pod_not_running_def run_simps succeeded_reason)
qed

lemma startup_deadline_enforced_witness:
  "\<exists>r' w'. updatePhaseFromSandbox (sample_config\<lparr>rf_default_deadline := Some 60\<rparr>) null_client sample_lib
      (launched_run Pending) sample_sandbox None 10 = (50, r', w') \<and> phase_of r' = Pending"
proof -
  have c: "om_created (sb_meta sample_sandbox) = 0" "find_finished (sb_conditions sample_sandbox) = None"
    by (simp_all add: sample_sandbox_def sandbox_object_def new_meta_def)
  have d: "effectiveStartupDeadline (sample_config\<lparr>rf_default_deadline := Some 60\<rparr>) (launched_run Pending) = Some 60"
    by (simp add: effectiveStartupDeadline_def launched_simps) (simp add: sample_run_def)
  show ?thesis
    using startup_deadline_enforced [OF sample_conditions_ok c(2) _ _ _ d, of None null_client 10] c(1)
    by (auto simp: launched_simps podStartupProblem_def null_client_def_full Let_def)
qed

text \<open>
  A container stuck on a fatal reason (image pull, container configuration, crash loop) fails a run
  that has not started at once, whatever the phase of its pod: with the reason of the first such
  container, init containers first, and a completion time.
\<close>

theorem fatal_startup_fails_run:
  assumes "conditions_ok L" and "find_finished (sb_conditions sb) = None"
    and "phase_of r \<noteq> Running"
    and "find (\<lambda>cs. \<exists>wt. cs_waiting cs = Some wt \<and> wt_reason wt \<in> set fatalWaitingReasons)
           (pod_init_statuses q @ pod_statuses q) = Some cs"
    and "cs_waiting cs = Some wt"
  shows "\<exists>r' w'. updatePhaseFromSandbox cfg C L r sb (Some q) w = (0, r', w') \<and>
    phase_of r' = Failed \<and> st_completion_time (ar_status r') \<noteq> None \<and>
    (\<exists>c. find_condition L (st_conditions (ar_status r')) cond_succeeded = Some c \<and>
       cd_status c = CFalse \<and> cd_reason c = wt_reason wt)"
proof -
  have "find (\<lambda>cs. \<exists>wt. cs_waiting cs = Some wt \<and> wt_reason wt \<in> set fatalWaitingReasons) css = Some cs \<Longrightarrow>
      \<exists>m. first_fatal css = Some (wt_reason wt, m)" for css
    using assms(5) by (induction css) (auto simp: Let_def split: if_splits option.splits)
  then obtain m where m: "podStartupProblem (Some q) = Some (wt_reason wt, m)"
    using assms(4) by (auto simp: podStartupProblem_def all_statuses_def)
  obtain r2 w2 where s: "stampCompletion C (set_phase Failed
      (set_run_condition L (acp_ready_of L r sb) r)) (Some q) sb w = (r2, w2)" by fastforce
  show ?thesis
    using assms(1-3) stamped_simps(1,2) [OF s]
    by (simp add: updatePhaseFromSandbox_def Let_def run_simps m s succeeded_reason)
qed

definition crashing_pod :: pod where
  "crashing_pod = (exited_pod 0)\<lparr>pod_phase := ''Running'', pod_statuses := [\<lparr>cs_name = ''agent'',
     cs_waiting = Some \<lparr>wt_reason = ''CrashLoopBackOff'', wt_message = []\<rparr>, cs_running = None,
     cs_terminated = None\<rparr>]\<rparr>"

lemma fatal_startup_fails_run_witness:
  "\<exists>r' w'. updatePhaseFromSandbox sample_config null_client sample_lib (launched_run Pending) sample_sandbox
      (Some crashing_pod) 10 = (0, r', w') \<and> phase_of r' = Failed"
proof -
  have c: "find_finished (sb_conditions sample_sandbox) = None"
    by (simp add: sample_sandbox_def sandbox_object_def)
  have "find (\<lambda>cs. \<exists>wt. cs_waiting cs = Some wt \<and> wt_reason wt \<in> set fatalWaitingReasons)
      (pod_init_statuses crashing_pod @ pod_statuses crashing_pod) = Some (hd (pod_statuses crashing_pod))"
    by (simp add: crashing_pod_def exited_pod_def fatalWaitingReasons_def)
  moreover have "cs_waiting (hd (pod_statuses crashing_pod)) =
      Some \<lparr>wt_reason = ''CrashLoopBackOff'', wt_message = []\<rparr>"
    by (simp add: crashing_pod_def)
  ultimately show ?thesis
    using fatal_startup_fails_run [OF sample_conditions_ok c, of "launched_run Pending" crashing_pod _ _
        sample_config null_client 10] by (fastforce simp: launched_simps)
qed

section \<open>Garbage collection\<close>

lemma agent_never_removes: "never_removes (fst (agent_phase cfg C L r w))"
  by (simp add: agent_phase_def validate_phase_def mounts_phase_def create_phase_def watch_phase_def
      fail_run_def wait_run_def split: prod.splits sum.splits option.splits)

text \<open>
  A reconcile deletes a run exactly when the run is finished, has a time to live, and its completion
  time plus that time to live has passed.
\<close>

theorem run_deleted_iff_due:
  "fst (decide_run cfg C L r w) = RemoveRun \<longleftrightarrow>
     isTerminalPhase (phase_of r) \<and>
     (\<exists>ttl t. effectiveTTL cfg r = Some ttl \<and> st_completion_time (ar_status r) = Some t \<and>
        t + ttl \<le> fst (rc_now C w))"
proof (cases "isTerminalPhase (phase_of r)")
  case False
  have "fst (agent_phase cfg C L r' w) \<noteq> RemoveRun" for r'
    using agent_never_removes [of cfg C L r' w] by (cases "fst (agent_phase cfg C L r' w)") auto
  with False show ?thesis by (simp add: decide_run_def Let_def run_simps)
next
  case True
  obtain now w' where n: "rc_now C w = (now, w')" by fastforce
  have e: "effectiveTTL cfg (observe r) = effectiveTTL cfg r"
    by (simp add: effectiveTTL_def run_simps)
  have "fst (decide_run cfg C L r w) = RemoveRun \<longleftrightarrow>
      effectiveTTL cfg r \<noteq> None \<and> run_gc cfg (observe r) now = DeleteRun"
    using True by (simp add: decide_run_def Let_def run_simps reconcileTTL_def e n split: gc_action.split)
  then show ?thesis
    using True by (auto simp: run_ttl.delete_iff e run_simps n)
qed


text \<open>
  For a finished run with a time to live, one reconcile decides when it goes: the wait it asks for
  ends exactly when the run is due, and a run whose completion time was never written gets it now and
  lives for the whole time to live from now.
\<close>

theorem finished_run_lifetime:
  assumes "isTerminalPhase (phase_of r)"
  shows "(\<forall>n w'. decide_run cfg C L r w = (Finish \<lparr>rr_requeue = False, rr_after = n\<rparr> None, w') \<and> 0 < n \<longrightarrow>
       (\<forall>later. run_gc cfg r later = DeleteRun \<longleftrightarrow> fst (rc_now C w) + n \<le> later)) \<and>
    (\<forall>r' res e w'. decide_run cfg C L r w = (PatchRun r' res e, w') \<longrightarrow>
       (\<exists>ttl. effectiveTTL cfg r = Some ttl \<and>
          (\<forall>later. run_gc cfg r' later = DeleteRun \<longleftrightarrow> fst (rc_now C w) + ttl \<le> later)))"
proof -
  obtain now w1 where n: "rc_now C w = (now, w1)" by fastforce
  have e: "effectiveTTL cfg (observe r) = effectiveTTL cfg r"
    by (simp add: effectiveTTL_def run_simps)
  have g: "run_gc cfg (observe r) later = DeleteRun \<longleftrightarrow> run_gc cfg r later = DeleteRun" for later
    by (simp add: run_ttl.delete_iff e run_simps)
  have d: "decide_run cfg C L r w = reconcileTTL cfg C (observe r) w"
    using assms by (simp add: decide_run_def Let_def run_simps)
  have "\<forall>later. run_gc cfg r later = DeleteRun \<longleftrightarrow> now + m \<le> later"
    if "decide_run cfg C L r w = (Finish \<lparr>rr_requeue = False, rr_after = m\<rparr> None, w')" "0 < m" for m w'
  proof -
    have "run_gc cfg (observe r) now = WaitFor m"
      using that by (auto simp: d reconcileTTL_def n no_requeue_def split: if_splits gc_action.splits)
    from run_ttl.wait_exact [OF this] show ?thesis by (simp add: g)
  qed
  moreover have "\<exists>ttl. effectiveTTL cfg r = Some ttl \<and>
      (\<forall>later. run_gc cfg r' later = DeleteRun \<longleftrightarrow> now + ttl \<le> later)"
    if "decide_run cfg C L r w = (PatchRun r' res err, w')" for r' res err w'
  proof -
    have "run_gc cfg (observe r) now = StampRun r'"
      using that by (auto simp: d reconcileTTL_def n split: if_splits gc_action.splits)
    from run_ttl.stamped_lifetime [OF this] show ?thesis by (simp add: e)
  qed
  ultimately show ?thesis by (simp add: n)
qed

lemma finished_run_lifetime_witness:
  "run_gc (sample_config\<lparr>rf_default_ttl := Some 100\<rparr>)
     (update_status (\<lambda>s. s\<lparr>st_completion_time := Some 7\<rparr>) (observe (launched_run Failed))) 107 = DeleteRun"
proof -
  have "decide_run (sample_config\<lparr>rf_default_ttl := Some 100\<rparr>) null_client sample_lib (launched_run Failed) 7 =
     (PatchRun (update_status (\<lambda>s. s\<lparr>st_completion_time := Some 7\<rparr>) (observe (launched_run Failed)))
        no_requeue None, 7)"
    by (simp add: decide_run_def Let_def run_simps launched_simps reconcileTTL_def effectiveTTL_def
        run_gc_def null_client_def_full)
  moreover have "effectiveTTL (sample_config\<lparr>rf_default_ttl := Some 100\<rparr>) (launched_run Failed) = Some 100"
    by (simp add: effectiveTTL_def launched_simps)
  ultimately show ?thesis
    using finished_run_lifetime [of "launched_run Failed" "sample_config\<lparr>rf_default_ttl := Some 100\<rparr>"
      null_client sample_lib 7] by (simp add: launched_simps null_client_def_full)
qed

section \<open>Where the status and its documentation part\<close>

text \<open>
  When the sandbox of a running run has been deleted the run fails with \<open>SandboxNotFound\<close>, but its
  \<open>ACPReady\<close> condition stays as it was: a client that waits for it is still told to dial an endpoint that
  is gone.
\<close>

theorem deleted_sandbox_leaves_endpoint_ready:
  assumes "conditions_ok L" and "phase_of r = Running" and "st_sandbox_name (ar_status r) \<noteq> []"
    and "rc_get_agent C (nskey_of (ar_namespace r) (rs_agent_ref (ar_spec r))) w = (Inr ag, w1)"
    and "is_ready L (ag_conditions ag)"
    and "rc_get_sandbox C (sandbox_key r) w1 = (Inl e, w2)" and "kind_of e = KNotFound"
  shows "\<exists>r'. decide_run cfg C L r w = (PatchRun r' no_requeue None, w2) \<and> phase_of r' = Failed \<and>
    find_condition L (st_conditions (ar_status r')) cond_acp_ready =
      find_condition L (st_conditions (ar_status r)) cond_acp_ready"
proof -
  let ?r1 = "shed_ready L (observe r)"
  have same: "ar_meta ?r1 = ar_meta r" "ar_spec ?r1 = ar_spec r"
    "st_sandbox_name (ar_status ?r1) = st_sandbox_name (ar_status r)" "phase_of ?r1 = phase_of r"
    by (simp_all add: run_simps) (simp add: shed_ready_def run_simps)
  have keys: "ar_namespace ?r1 = ar_namespace r" "sandbox_key ?r1 = sandbox_key r"
    by (simp_all add: ar_namespace_def sandbox_key_def same)
  have "find_condition L (st_conditions (ar_status ?r1)) cond_acp_ready =
      find_condition L (st_conditions (ar_status r)) cond_acp_ready"
    using assms(1) by (simp add: shed_ready_def run_simps find_remove)
      (simp add: cond_acp_ready_def condition_ready_def)
  then show ?thesis
    using assms
    by (simp add: decide_run_def Let_def same agent_phase_def keys watch_phase_def fail_run_def run_simps
        setRunSucceeded_def set_run_condition_def find_set_type)
qed

definition listening_run :: agent_run where
  "listening_run = update_status (\<lambda>s. s\<lparr>st_conditions := [acp_condition sample_run CTrue ''Listening'' (Lit ''up'')]\<rparr>)
     (launched_run Running)"

lemma deleted_sandbox_leaves_endpoint_ready_witness:
  "\<exists>r' c. decide_run sample_config (sample_world (Inl not_found) (Inl not_found)) sample_lib listening_run 0 =
      (PatchRun r' no_requeue None, 0) \<and> phase_of r' = Failed \<and>
    find_condition sample_lib (st_conditions (ar_status r')) cond_acp_ready = Some c \<and> cd_status c = CTrue"
proof -
  have k: "kind_of not_found = KNotFound" by (simp add: not_found_def)
  have l: "phase_of listening_run = Running" "st_sandbox_name (ar_status listening_run) \<noteq> []"
    by (simp_all add: listening_run_def run_simps launched_simps)
  have "find_condition sample_lib (st_conditions (ar_status listening_run)) cond_acp_ready =
      Some (acp_condition sample_run CTrue ''Listening'' (Lit ''up''))"
    by (simp add: listening_run_def run_simps sample_lib_def acp_condition_def)
  moreover have "cd_status (acp_condition sample_run CTrue ''Listening'' (Lit ''up'')) = CTrue"
    by (simp add: acp_condition_def)
  ultimately show ?thesis
    using deleted_sandbox_leaves_endpoint_ready [where cfg = sample_config, OF sample_conditions_ok l
        sample_world_simps(1) sample_agent_ready sample_world_simps(2) k] by fastforce
qed

text \<open>
  The termination message \<open>null\<close> is recorded as termination data, although it is not the JSON object
  the field promises.
\<close>

theorem null_termination_data_recorded:
  "terminationDataFromPod (Some (exited_pod c)) = Some ''null''"
proof -
  have "json_value (Suc 9) 0 ''null'' = Some (JNull, [])"
    by (subst json_value.simps) (simp add: Let_def skip_ws_def has_prefix_def json_ws_def)
  then have "json_unmarshal ''null'' = Some JNull"
    by (simp add: json_unmarshal_def skip_ws_def)
  then show ?thesis
    by (simp add: terminationDataFromPod_def agentContainerTermination_def exited_pod_def agent_container_def
        decodes_to_map_def)
qed

end
