(* ===== verification/WorkflowClient.thy ===== *)
theory WorkflowClient
  imports RunClient
begin

text \<open>
  What the \<open>AgentWorkflowRun\<close> reconciler (\<open>internal/controller/agentworkflowrun_controller.go\<close>) asks of
  its environment, and the fields of its struct that configure it.
\<close>

record 'w workflow_client =
  wc_get_workflow_run :: "nskey \<Rightarrow> ('w, workflow_run) call"
  wc_live_get_workflow_run :: "(nskey \<Rightarrow> ('w, workflow_run) call) option"
  wc_get_workflow :: "nskey \<Rightarrow> ('w, agent_workflow) call"
  wc_get_agent :: "nskey \<Rightarrow> ('w, agent) call"
  wc_get_run :: "nskey \<Rightarrow> ('w, agent_run) call"
  wc_create_run :: "agent_run \<Rightarrow> 'w command"
  wc_list_runs :: "string \<Rightarrow> label_selector \<Rightarrow> ('w, objmeta list) call"
  wc_delete :: "string \<Rightarrow> objmeta \<Rightarrow> 'w command"
  wc_event :: "workflow_run \<Rightarrow> string \<Rightarrow> msg \<Rightarrow> 'w \<Rightarrow> 'w"
  wc_patch_status :: "workflow_run \<Rightarrow> workflow_run \<Rightarrow> 'w command"
  wc_now :: "'w \<Rightarrow> int \<times> 'w"
  wc_list_runs_for_workflow :: "string \<Rightarrow> string \<Rightarrow> ('w, workflow_run list) call"

record workflow_config =
  wg_default_ttl :: "int option"

text \<open>For the witnesses: a cluster where nothing exists and writes change nothing.\<close>

definition workflow_client_over :: "('w \<Rightarrow> int) \<Rightarrow> 'w workflow_client" where
  "workflow_client_over clock =
     \<lparr>wc_get_workflow_run = (\<lambda>k w. (Inl not_found, w)),
      wc_live_get_workflow_run = None,
      wc_get_workflow = (\<lambda>k w. (Inl not_found, w)),
      wc_get_agent = (\<lambda>k w. (Inl not_found, w)),
      wc_get_run = (\<lambda>k w. (Inl not_found, w)),
      wc_create_run = (\<lambda>r w. (None, w)),
      wc_list_runs = (\<lambda>ns s w. (Inr [], w)),
      wc_delete = (\<lambda>k m w. (None, w)),
      wc_event = (\<lambda>r n m w. w),
      wc_patch_status = (\<lambda>a b w. (None, w)),
      wc_now = (\<lambda>w. (clock w, w)),
      wc_list_runs_for_workflow = (\<lambda>ns n w. (Inr [], w))\<rparr>"

end
