(* ===== verification/WorkflowRun.thy ===== *)
theory WorkflowRun
  imports WorkflowClient RunStatus RunCleanup Ttl
begin

text \<open>
  The \<open>AgentWorkflowRun\<close> reconciler (\<open>internal/controller/agentworkflowrun_controller.go\<close>): it runs the
  stages of a workflow one after the other, each as an \<open>AgentRun\<close> of its own, from a snapshot of the
  workflow taken at the first reconcile.
\<close>

definition reason_succeeded :: string where "reason_succeeded = ''Succeeded''"

definition wf_name :: "workflow_run \<Rightarrow> string" where "wf_name r = om_name (wf_meta r)"
definition wf_namespace :: "workflow_run \<Rightarrow> string" where "wf_namespace r = om_namespace (wf_meta r)"

definition update_wf :: "(workflow_run_status \<Rightarrow> workflow_run_status) \<Rightarrow> workflow_run \<Rightarrow> workflow_run" where
  "update_wf f run = run\<lparr>wf_status := f (wf_status run)\<rparr>"

definition set_wf_ready :: "klib \<Rightarrow> workflow_run \<Rightarrow> cond_status \<Rightarrow> string \<Rightarrow> msg \<Rightarrow> workflow_run" where
  "set_wf_ready L run status reason message =
     update_wf (\<lambda>s. s\<lparr>wt_conditions := set_condition L (wt_conditions s)
       \<lparr>cd_type = condition_ready, cd_status = status, cd_generation = om_generation (wf_meta run),
        cd_reason = reason, cd_message = message\<rparr>\<rparr>) run"

section \<open>Garbage collection\<close>

definition effectiveTTL_workflow :: "workflow_config \<Rightarrow> workflow_run \<Rightarrow> int option" where
  "effectiveTTL_workflow cfg run =
     (case wr_ttl (wf_spec run) of Some t \<Rightarrow> Some (t * second) | None \<Rightarrow> wg_default_ttl cfg)"

definition workflow_gc :: "workflow_config \<Rightarrow> workflow_run \<Rightarrow> int \<Rightarrow> workflow_run gc_action" where
  "workflow_gc cfg run now =
     (case effectiveTTL_workflow cfg run of
        None \<Rightarrow> KeepRun
      | Some ttl \<Rightarrow>
          (case wt_completion_time (wf_status run) of
             None \<Rightarrow> StampRun (update_wf (\<lambda>s. s\<lparr>wt_completion_time := Some now\<rparr>) run)
           | Some t \<Rightarrow> (let remaining = t + ttl - now in
                        if remaining > 0 then WaitFor remaining else DeleteRun)))"

definition reconcileTTL_workflow ::
  "workflow_config \<Rightarrow> 'w workflow_client \<Rightarrow> workflow_run \<Rightarrow> 'w \<Rightarrow> workflow_run outcome \<times> 'w" where
  "reconcileTTL_workflow cfg C run w =
     (if effectiveTTL_workflow cfg run = None then (Finish no_requeue None, w)
      else case wc_now C w of
             (now, w') \<Rightarrow>
               (case workflow_gc cfg run now of
                  KeepRun \<Rightarrow> (Finish no_requeue None, w')
                | StampRun run' \<Rightarrow> (PatchRun run' no_requeue None, w')
                | WaitFor d \<Rightarrow> (Finish \<lparr>rr_requeue = False, rr_after = d\<rparr> None, w')
                | DeleteRun \<Rightarrow> (RemoveRun, w')))"

interpretation workflow_ttl:
  ttl_gc "effectiveTTL_workflow cfg" "wt_completion_time \<circ> wf_status" "workflow_gc cfg" for cfg
  by unfold_locales
    (auto simp: workflow_gc_def effectiveTTL_workflow_def update_wf_def Let_def split: option.splits)

section \<open>The run of a stage\<close>

text \<open>
  A \<open>configError\<close> is an error of kind \<open>KConfig\<close>; wrapping keeps the kind, as \<open>errors.As\<close> sees through
  wrapped errors.
\<close>

definition config_error :: "err \<Rightarrow> err" where
  "config_error e = Err KConfig (text_of e)"

definition stage_params :: "workflow_run \<Rightarrow> agent \<Rightarrow> param_value list" where
  "stage_params run ag =
     filter (\<lambda>p. pv_name p \<in> pa_name ` set (as_params (ag_spec ag))) (wr_params (wf_spec run))"

definition skipped_params :: "workflow_run \<Rightarrow> agent \<Rightarrow> string list" where
  "skipped_params run ag =
     map pv_name (filter (\<lambda>p. pv_name p \<notin> pa_name ` set (as_params (ag_spec ag)) \<and>
                              pv_name p \<notin> pa_name ` set (wt_params (wf_status run)))
                   (wr_params (wf_spec run)))"

definition workflow_guide_env :: "workflow_run \<Rightarrow> (string \<times> string) list \<Rightarrow> env_var list res" where
  "workflow_guide_env run workflowStrs =
     (if wt_guide (wf_status run) = [] then Inr []
      else case substitute (wt_guide (wf_status run)) [scope_workflow \<mapsto> map_of workflowStrs] of
             Inl e \<Rightarrow> Inl (config_error (wrapf ''workflow guide: %w'' [] e))
           | Inr guide \<Rightarrow> Inr [plain_env ''KONVEYOR_WORKFLOW_GUIDE'' guide])"

definition stage_env :: "nat \<Rightarrow> nat \<Rightarrow> env_var list" where
  "stage_env stageIndex stageCount =
     [plain_env ''KONVEYOR_WORKFLOW_STAGE'' (nat_text (stageIndex + 1)),
      plain_env ''KONVEYOR_WORKFLOW_STAGE_COUNT'' (nat_text stageCount)]"

definition stage_labels :: "workflow_run \<Rightarrow> workflow_stage \<Rightarrow> string \<Rightarrow> string option" where
  "stage_labels run stg =
     (om_labels (wf_meta run))
       (label_managed_by \<mapsto> managed_by, label_agent_workflow_run \<mapsto> wf_name run,
        label_stage \<mapsto> ws_name stg)"

text \<open>The object that is created, with the fields the composite literal leaves at their zero values.\<close>

definition stage_run_object ::
  "workflow_run \<Rightarrow> workflow_stage \<Rightarrow> agent \<Rightarrow> env_var list \<Rightarrow> string option \<Rightarrow> agent_run" where
  "stage_run_object run stg ag env workflowRaw =
     \<lparr>ar_meta = new_meta (wf_namespace run) (stageAgentRunName (wf_name run) (ws_name stg))
        (stage_labels run stg),
      ar_spec = \<lparr>rs_agent_ref = ws_agent_ref stg, rs_gateway = wr_gateway (wf_spec run),
        rs_params = stage_params run ag, rs_instructions = ws_instructions stg,
        rs_execution = resolveExecution (ws_execution stg) (as_execution (ag_spec ag)),
        rs_workflow_params = workflowRaw, rs_env = env, rs_env_from = wr_env_from (wf_spec run),
        rs_file_mounts = wr_file_mounts (wf_spec run), rs_git_config = None, rs_ttl = None,
        rs_startup_deadline = None\<rparr>,
      ar_status = empty_status\<rparr>"

definition build_stage_run ::
  "workflow_run \<Rightarrow> workflow_stage \<Rightarrow> nat \<Rightarrow> nat \<Rightarrow> agent \<Rightarrow> agent_run res" where
  "build_stage_run run stg stageIndex stageCount ag =
     (case coerceWorkflowParams (wt_params (wf_status run)) (suppliedValues (wr_params (wf_spec run))) of
        Inl e \<Rightarrow> Inl (config_error (wrapf ''resolving workflow params: %w'' [] e))
      | Inr (workflowRaw, workflowStrs) \<Rightarrow>
          (case workflow_guide_env run workflowStrs of
             Inl e \<Rightarrow> Inl e
           | Inr guide \<Rightarrow>
               Inr (stage_run_object run stg ag
                      (wr_env (wf_spec run) @ guide @ stage_env stageIndex stageCount) workflowRaw)))"

definition isOwnedBy :: "objmeta \<Rightarrow> objmeta \<Rightarrow> bool" where
  "isOwnedBy child parent =
     list_ex (\<lambda>ref. is_controller_ref ref \<and> or_uid ref = om_uid parent) (om_owners child)"

text \<open>An existing run of the name is adopted when it belongs to this workflow run.\<close>

definition adopt_existing ::
  "'w workflow_client \<Rightarrow> workflow_run \<Rightarrow> string \<Rightarrow> ('w, string) call" where
  "adopt_existing C run name w =
     (case wc_get_run C (nskey_of (wf_namespace run) name) w of
        (Inl e, w') \<Rightarrow> (Inl (wrapf ''fetching existing AgentRun %q: %w'' [Lit name] e), w')
      | (Inr existing, w') \<Rightarrow>
          (if isOwnedBy (ar_meta existing) (wf_meta run) then Inr name
           else Inl (errorf ''AgentRun %q already exists but is not owned by this workflow run'' [Lit name]),
           w'))"

definition create_stage_run ::
  "'w workflow_client \<Rightarrow> klib \<Rightarrow> workflow_run \<Rightarrow> workflow_stage \<Rightarrow> agent_run \<Rightarrow> ('w, string) call" where
  "create_stage_run C L run stg obj w =
     (case set_controller_ref L agent_workflow_run_kind (wf_meta run) (ar_meta obj) of
        Inl e \<Rightarrow> (Inl (wrapf ''setting AgentRun owner reference: %w'' [] e), w)
      | Inr m \<Rightarrow>
          (case wc_create_run C (obj\<lparr>ar_meta := m\<rparr>) w of
             (None, w') \<Rightarrow> (Inr (ar_name obj), w')
           | (Some e, w') \<Rightarrow>
               if kind_of e = KAlreadyExists then adopt_existing C run (ar_name obj) w'
               else (Inl (wrapf ''creating AgentRun for stage %q: %w'' [Lit (ws_name stg)] e), w')))"

definition createAgentRunForStage ::
  "'w workflow_client \<Rightarrow> klib \<Rightarrow> workflow_run \<Rightarrow> workflow_stage \<Rightarrow> nat \<Rightarrow> nat \<Rightarrow> ('w, string) call" where
  "createAgentRunForStage C L run stg stageIndex stageCount w =
     (case wc_get_agent C (nskey_of (wf_namespace run) (ws_agent_ref stg)) w of
        (Inl e, w1) \<Rightarrow>
          (Inl (wrapf ''looking up Agent %q for stage %q: %w'' [Lit (ws_agent_ref stg), Lit (ws_name stg)] e), w1)
      | (Inr ag, w1) \<Rightarrow>
          (let skipped = skipped_params run ag;
               w2 = (if skipped = [] then w1
                     else wc_event C run ''ParamsFiltered''
                            (Fmt ''Stage %q (Agent %q): skipped undeclared params: %s''
                               [Lit (ws_name stg), Lit (ws_agent_ref stg), Lit (join '', '' skipped)]) w1)
           in case build_stage_run run stg stageIndex stageCount ag of
                Inl e \<Rightarrow> (Inl e, w2)
              | Inr obj \<Rightarrow> create_stage_run C L run stg obj w2))"

section \<open>The snapshot and the current stg\<close>

definition plan_stage :: "workflow_stage \<Rightarrow> stage_status" where
  "plan_stage stg = \<lparr>ss_name = ws_name stg, ss_phase = Pending, ss_run_name = [],
     ss_agent_ref = ws_agent_ref stg, ss_instructions = ws_instructions stg,
     ss_execution = ws_execution stg\<rparr>"

definition take_snapshot :: "agent_workflow \<Rightarrow> workflow_run \<Rightarrow> workflow_run" where
  "take_snapshot aw run =
     (if wt_stages (wf_status run) = []
      then update_wf (\<lambda>s. s\<lparr>wt_guide := aw_guide aw, wt_params := aw_params aw,
                          wt_stages := map plan_stage (aw_stages aw)\<rparr>) run
      else run)"

fun first_unfinished :: "nat \<Rightarrow> stage_status list \<Rightarrow> nat" where
  "first_unfinished i [] = i"
| "first_unfinished i (s # ss) = (if ss_phase s \<noteq> Succeeded then i else first_unfinished (Suc i) ss)"

definition findCurrentStageIndex :: "workflow_run \<Rightarrow> nat" where
  "findCurrentStageIndex run = first_unfinished 0 (wt_stages (wf_status run))"

definition stage_of :: "stage_status \<Rightarrow> workflow_stage" where
  "stage_of s = \<lparr>ws_name = ss_name s, ws_agent_ref = ss_agent_ref s, ws_instructions = ss_instructions s,
     ws_execution = ss_execution s\<rparr>"

definition update_stage :: "nat \<Rightarrow> (stage_status \<Rightarrow> stage_status) \<Rightarrow> workflow_run \<Rightarrow> workflow_run" where
  "update_stage i f = update_wf (\<lambda>s. s\<lparr>wt_stages := (wt_stages s)[i := f (wt_stages s ! i)]\<rparr>)"

definition set_stage_phase :: "nat \<Rightarrow> phase \<Rightarrow> workflow_run \<Rightarrow> workflow_run" where
  "set_stage_phase i p = update_stage i (\<lambda>s. s\<lparr>ss_phase := p\<rparr>)"

section \<open>Reconcile\<close>

definition patch_ready ::
  "klib \<Rightarrow> workflow_run \<Rightarrow> cond_status \<Rightarrow> string \<Rightarrow> msg \<Rightarrow> workflow_run outcome" where
  "patch_ready L run status reason message =
     PatchRun (set_wf_ready L run status reason message) no_requeue None"

text \<open>The run ends: phase, completion time and the reason.\<close>

definition end_workflow ::
  "'w workflow_client \<Rightarrow> klib \<Rightarrow> workflow_run \<Rightarrow> phase \<Rightarrow> string \<Rightarrow> msg \<Rightarrow> 'w
    \<Rightarrow> workflow_run outcome \<times> 'w" where
  "end_workflow C L run p reason message w =
     (case wc_now C w of
        (now, w') \<Rightarrow>
          (patch_ready L (update_wf (\<lambda>s. s\<lparr>wt_phase := p, wt_completion_time := Some now\<rparr>) run)
             (if p = Succeeded then CTrue else CFalse) reason message, w'))"

definition launch_stage ::
  "'w workflow_client \<Rightarrow> klib \<Rightarrow> workflow_run \<Rightarrow> nat \<Rightarrow> 'w \<Rightarrow> workflow_run outcome \<times> 'w" where
  "launch_stage C L run i w =
     (let stages = wt_stages (wf_status run); stg = stage_of (stages ! i)
      in case createAgentRunForStage C L run stg i (length stages) w of
           (Inl e, w') \<Rightarrow>
             (if kind_of e = KConfig
              then end_workflow C L (set_stage_phase i Failed run) Failed ''InvalidParams''
                     (Fmt ''Stage %q: %v'' [Lit (ws_name stg), text_of e]) w'
              else (PatchRun
                      (set_wf_ready L run CFalse ''AgentRunCreationFailed''
                         (Fmt ''Failed to create AgentRun for stage %q: %v'' [Lit (ws_name stg), text_of e]))
                      no_requeue (Some e), w'))
         | (Inr runName, w') \<Rightarrow>
             (patch_ready L (update_stage i (\<lambda>s. s\<lparr>ss_run_name := runName, ss_phase := Pending\<rparr>) run)
                CFalse ''StageRunning''
                (Fmt ''Stage %q: AgentRun %q created'' [Lit (ws_name stg), Lit runName]), w'))"

text \<open>The text of a phase, for the message of a stage that runs.\<close>

fun phase_text :: "phase \<Rightarrow> string" where
  "phase_text NoPhase = ''''"
| "phase_text Pending = ''Pending''"
| "phase_text Running = ''Running''"
| "phase_text Succeeded = ''Succeeded''"
| "phase_text Failed = ''Failed''"

definition watch_stage ::
  "'w workflow_client \<Rightarrow> klib \<Rightarrow> workflow_run \<Rightarrow> nat \<Rightarrow> 'w \<Rightarrow> workflow_run outcome \<times> 'w" where
  "watch_stage C L run i w =
     (let s = wt_stages (wf_status run) ! i
      in case wc_get_run C (nskey_of (wf_namespace run) (ss_run_name s)) w of
           (Inl e, w') \<Rightarrow>
             (if kind_of e = KNotFound
              then end_workflow C L (set_stage_phase i Failed run) Failed ''AgentRunDeleted''
                     (Fmt ''Stage %q: AgentRun %q was deleted'' [Lit (ss_name s), Lit (ss_run_name s)]) w'
              else (Finish no_requeue (Some e), w'))
         | (Inr child, w') \<Rightarrow>
             (let run' = set_stage_phase i (st_phase (ar_status child)) run;
                  succeeded = find_condition L (st_conditions (ar_status child)) cond_succeeded
              in case map_option cd_status succeeded of
                   Some CTrue \<Rightarrow>
                     (patch_ready L run' CFalse ''StageSucceeded''
                        (Fmt ''Stage %q completed successfully'' [Lit (ss_name s)]), w')
                 | Some CFalse \<Rightarrow>
                     (let c = the succeeded;
                          detail = (if empty_msg (cd_message c) then Lit (cd_reason c) else cd_message c)
                      in end_workflow C L run' Failed ''StageFailed''
                           (Fmt ''Stage %q did not succeed: %s'' [Lit (ss_name s), detail]) w')
                 | _ \<Rightarrow>
                     (patch_ready L run' CFalse ''StageRunning''
                        (Fmt ''Stage %q is %s''
                           [Lit (ss_name s), Lit (phase_text (st_phase (ar_status child)))]), w')))"

definition stage_step ::
  "'w workflow_client \<Rightarrow> klib \<Rightarrow> workflow_run \<Rightarrow> 'w \<Rightarrow> workflow_run outcome \<times> 'w" where
  "stage_step C L run w =
     (let i = findCurrentStageIndex run; stages = wt_stages (wf_status run)
      in if i \<ge> length stages
         then end_workflow C L (update_wf (\<lambda>s. s\<lparr>wt_current_stage := []\<rparr>) run) Succeeded reason_succeeded
                (Lit ''All stages completed successfully'') w
         else
           (let run' = update_wf (\<lambda>s. s\<lparr>wt_current_stage := ss_name (stages ! i), wt_phase := Running\<rparr>) run
            in if ss_run_name (stages ! i) = [] then launch_stage C L run' i w
               else watch_stage C L run' i w))"

definition start_workflow :: "'w workflow_client \<Rightarrow> workflow_run \<Rightarrow> 'w \<Rightarrow> workflow_run \<times> 'w" where
  "start_workflow C run w =
     (if wt_start_time (wf_status run) = None
      then (case wc_now C w of
              (now, w') \<Rightarrow> (update_wf (\<lambda>s. s\<lparr>wt_start_time := Some now, wt_phase := Pending\<rparr>) run, w'))
      else (run, w))"

definition workflow_phase ::
  "'w workflow_client \<Rightarrow> klib \<Rightarrow> workflow_run \<Rightarrow> 'w \<Rightarrow> workflow_run outcome \<times> 'w" where
  "workflow_phase C L run w =
     (let ref = wr_workflow_ref (wf_spec run)
      in case wc_get_workflow C (nskey_of (wf_namespace run) ref) w of
           (Inl e, w1) \<Rightarrow>
             (if kind_of e = KNotFound
              then end_workflow C L run Failed ''WorkflowNotFound''
                     (Fmt ''AgentWorkflow %q not found'' [Lit ref]) w1
              else (Finish no_requeue (Some e), w1))
         | (Inr aw, w1) \<Rightarrow>
             if \<not> is_ready L (aw_conditions aw)
             then (patch_ready L run CFalse ''WorkflowNotReady''
                     (Fmt ''AgentWorkflow %q is not Ready'' [Lit ref]), w1)
             else (case start_workflow C run w1 of
                     (run1, w2) \<Rightarrow> stage_step C L (take_snapshot aw run1) w2))"

definition observe_workflow :: "workflow_run \<Rightarrow> workflow_run" where
  "observe_workflow run = update_wf (\<lambda>s. s\<lparr>wt_observed_generation := om_generation (wf_meta run)\<rparr>) run"

definition decide_workflow ::
  "workflow_config \<Rightarrow> 'w workflow_client \<Rightarrow> klib \<Rightarrow> workflow_run \<Rightarrow> 'w \<Rightarrow> workflow_run outcome \<times> 'w" where
  "decide_workflow cfg C L run w =
     (let run1 = observe_workflow run in
      if isTerminalPhase (wt_phase (wf_status run1)) then reconcileTTL_workflow cfg C run1 w
      else workflow_phase C L run1 w)"

section \<open>The sweep and the watches\<close>

definition cleanupOrphanedWorkflowRunResources ::
  "'w workflow_client \<Rightarrow> nskey \<Rightarrow> 'w \<Rightarrow> err option \<times> 'w" where
  "cleanupOrphanedWorkflowRunResources C key =
     sweep (wc_list_runs C (nk_namespace key)
              [(label_managed_by, managed_by), (label_agent_workflow_run, nk_name key)])
       ''AgentRuns for missing AgentWorkflowRun'' key
       (deleteOrphanedObject (wc_delete C agent_run_kind) agent_run_kind konveyor_api_version
          agent_workflow_run_kind (nk_name key))"

definition Reconcile_workflow_run ::
  "workflow_config \<Rightarrow> 'w workflow_client \<Rightarrow> klib \<Rightarrow> nskey \<Rightarrow> 'w
    \<Rightarrow> (reconcile_result \<times> err option) \<times> 'w" where
  "Reconcile_workflow_run cfg C L key w =
     (case wc_get_workflow_run C key w of
        (Inl e, w1) \<Rightarrow>
          (if kind_of e \<noteq> KNotFound then ((no_requeue, Some e), w1)
           else confirm_missing (wc_live_get_workflow_run C) (cleanupOrphanedWorkflowRunResources C) key w1)
      | (Inr run, w1) \<Rightarrow>
          (case decide_workflow cfg C L run w1 of
             (out, w2) \<Rightarrow>
               perform (wc_patch_status C run) (wc_delete C agent_workflow_run_kind (wf_meta run)) out w2))"

definition findRunsForWorkflow :: "'w workflow_client \<Rightarrow> agent_workflow \<Rightarrow> 'w \<Rightarrow> nskey list \<times> 'w" where
  "findRunsForWorkflow C aw w =
     (case wc_list_runs_for_workflow C (om_namespace (aw_meta aw)) (om_name (aw_meta aw)) w of
        (Inl e, w') \<Rightarrow> ([], w')
      | (Inr runs, w') \<Rightarrow>
          (map (\<lambda>r. nskey_of (wf_namespace r) (wf_name r))
             (filter (\<lambda>r. \<not> isTerminalPhase (wt_phase (wf_status r))) runs), w'))"

end
