(* ===== verification/WorkflowInvariant.thy ===== *)
theory WorkflowInvariant
  imports WorkflowRun RunInvariant
begin

text \<open>
  The sequencing of stages: an abstract sequencer, the invariant of a workflow run's status, and the
  refinement of the sequencer by every patch of the reconciler.  The runs of the stages are assumed to be
  consistent, which is what the invariant of agent runs guarantees.
\<close>

section \<open>The abstract sequencer\<close>

datatype slot = Waiting | Active | Done | Dead
datatype verdict = Going | Won | Lost

text \<open>
  Stages run in order, one at a time: a stage is launched, finishes or breaks only when all stages before
  it are done; a broken stage loses the run, and only a run with every stage done is won.
\<close>

inductive seq_step :: "slot list \<times> verdict \<Rightarrow> slot list \<times> verdict \<Rightarrow> bool" where
  plan: "seq_step ([], Going) (replicate n Waiting, Going)"
| launch: "seq_step (replicate k Done @ Waiting # ss, Going) (replicate k Done @ Active # ss, Going)"
| finish: "seq_step (replicate k Done @ Active # ss, Going) (replicate k Done @ Done # ss, Going)"
| break_off: "s = Waiting \<or> s = Active \<Longrightarrow>
    seq_step (replicate k Done @ s # ss, Going) (replicate k Done @ Dead # ss, Lost)"
| win: "seq_step (replicate k Done, Going) (replicate k Done, Won)"
| abandon: "seq_step (ss, Going) (ss, Lost)"

definition slot_of :: "stage_status \<Rightarrow> slot" where
  "slot_of s =
     (if ss_phase s = Succeeded then Done else if ss_phase s = Failed then Dead
      else if ss_run_name s = [] then Waiting else Active)"

fun verdict_of :: "phase \<Rightarrow> verdict" where
  "verdict_of Succeeded = Won"
| "verdict_of Failed = Lost"
| "verdict_of _ = Going"

abbreviation stages_of :: "workflow_run \<Rightarrow> stage_status list" where
  "stages_of r \<equiv> wt_stages (wf_status r)"

abbreviation wf_phase :: "workflow_run \<Rightarrow> phase" where
  "wf_phase r \<equiv> wt_phase (wf_status r)"

definition seq_of :: "workflow_run \<Rightarrow> slot list \<times> verdict" where
  "seq_of r = (map slot_of (stages_of r), verdict_of (wf_phase r))"

section \<open>The invariant\<close>

definition launched :: "string \<Rightarrow> stage_status \<Rightarrow> bool" where
  "launched n s \<longleftrightarrow> ss_run_name s = stageAgentRunName n (ss_name s)"

definition untouched :: "stage_status \<Rightarrow> bool" where
  "untouched s \<longleftrightarrow> ss_phase s = Pending \<and> ss_run_name s = []"

fun sequenced :: "string \<Rightarrow> stage_status list \<Rightarrow> bool" where
  "sequenced n [] = True"
| "sequenced n (s # ss) =
     (if ss_phase s = Succeeded then launched n s \<and> sequenced n ss
      else (ss_run_name s = [] \<and> (ss_phase s = Pending \<or> ss_phase s = Failed) \<or> launched n s) \<and>
        list_all untouched ss)"

definition ready_status :: "klib \<Rightarrow> workflow_run \<Rightarrow> cond_status option" where
  "ready_status L r =
     map_option cd_status (find_condition L (wt_conditions (wf_status r)) condition_ready)"

definition wf_outcome_ok :: "klib \<Rightarrow> workflow_run \<Rightarrow> bool" where
  "wf_outcome_ok L r \<longleftrightarrow>
     (wf_phase r = Succeeded \<longleftrightarrow> ready_status L r = Some CTrue) \<and>
     (wf_phase r = Failed \<longrightarrow> ready_status L r = Some CFalse) \<and>
     (isTerminalPhase (wf_phase r) \<longleftrightarrow> wt_completion_time (wf_status r) \<noteq> None)"

definition wf_inv :: "klib \<Rightarrow> workflow_run \<Rightarrow> bool" where
  "wf_inv L r \<longleftrightarrow> sequenced (wf_name r) (stages_of r) \<and> wf_outcome_ok L r \<and>
     (wf_phase r \<noteq> Failed \<longrightarrow> (\<forall>s \<in> set (stages_of r). ss_phase s \<noteq> Failed)) \<and>
     (wf_phase r = Succeeded \<longrightarrow> (\<forall>s \<in> set (stages_of r). ss_phase s = Succeeded))"

text \<open>What a stage executes, as captured at the first reconcile.\<close>

definition snapshot_of ::
  "workflow_run \<Rightarrow> string \<times> param list \<times> (string \<times> string \<times> string \<times> execution_spec option) list" where
  "snapshot_of r = (wt_guide (wf_status r), wt_params (wf_status r),
     map (\<lambda>s. (ss_name s, ss_agent_ref s, ss_instructions s, ss_execution s)) (stages_of r))"

text \<open>The runs the reconciler can read are consistent.\<close>

definition children_consistent :: "'w workflow_client \<Rightarrow> klib \<Rightarrow> bool" where
  "children_consistent C L \<longleftrightarrow>
     (\<forall>k w r w'. wc_get_run C k w = (Inr r, w') \<longrightarrow> outcome_consistent L r)"

section \<open>Stage lists\<close>

lemma first_unfinished_eq:
  "first_unfinished i ss = i + length (takeWhile (\<lambda>s. ss_phase s = Succeeded) ss)"
  by (induction ss arbitrary: i) auto

lemma current_eq: "findCurrentStageIndex r = length (takeWhile (\<lambda>s. ss_phase s = Succeeded) (stages_of r))"
  by (simp add: findCurrentStageIndex_def first_unfinished_eq)

lemma current_le: "findCurrentStageIndex r \<le> length (stages_of r)"
  unfolding current_eq by (rule length_takeWhile_le)

lemma before_current: "s \<in> set (take (findCurrentStageIndex r) (stages_of r)) \<Longrightarrow> ss_phase s = Succeeded"
  unfolding current_eq takeWhile_eq_take [symmetric] by (rule set_takeWhileD [THEN conjunct2])

lemma at_current:
  "findCurrentStageIndex r < length (stages_of r) \<Longrightarrow> ss_phase (stages_of r ! findCurrentStageIndex r) \<noteq> Succeeded"
  unfolding current_eq by (rule nth_length_takeWhile)

lemma all_done:
  assumes "\<not> findCurrentStageIndex r < length (stages_of r)"
  shows "\<forall>s \<in> set (stages_of r). ss_phase s = Succeeded"
  using assms before_current [of _ r] by simp

lemma done_slots: "\<forall>s \<in> set ss. ss_phase s = Succeeded \<Longrightarrow> map slot_of ss = replicate (length ss) Done"
  by (induction ss) (auto simp: slot_of_def)

lemma update_slots:
  assumes "i = findCurrentStageIndex r" and "i < length (stages_of r)"
  shows "map slot_of ((stages_of r)[i := s']) =
    replicate i Done @ slot_of s' # map slot_of (drop (Suc i) (stages_of r))"
proof -
  have "map slot_of (take i (stages_of r)) = replicate i Done"
    using done_slots [of "take i (stages_of r)"] before_current [of _ r] assms by simp
  then show ?thesis
    using assms(2) by (simp add: upd_conv_take_nth_drop)
qed

lemma current_slots:
  assumes "i = findCurrentStageIndex r" and "i < length (stages_of r)"
  shows "map slot_of (stages_of r) =
    replicate i Done @ slot_of (stages_of r ! i) # map slot_of (drop (Suc i) (stages_of r))"
  using update_slots [OF assms, of "stages_of r ! i"] by simp

lemma untouched_sequenced: "list_all untouched ss \<Longrightarrow> sequenced n ss"
  by (induction ss) (auto simp: untouched_def)

lemma sequenced_plan: "sequenced n (map plan_stage ss)"
  by (rule untouched_sequenced) (simp add: list_all_iff untouched_def plan_stage_def)

lemma sequenced_update:
  assumes "sequenced n ss" and "i = length (takeWhile (\<lambda>s. ss_phase s = Succeeded) ss)" and "i < length ss"
    and "launched n s' \<or> ss_run_name s' = [] \<and> (ss_phase s' = Pending \<or> ss_phase s' = Failed)"
  shows "sequenced n (ss[i := s'])"
  using assms
proof (induction ss arbitrary: i)
  case Nil
  then show ?case by simp
next
  case (Cons s ss)
  then show ?case by (cases "ss_phase s = Succeeded") (auto intro: untouched_sequenced)
qed

lemma sequenced_nth:
  assumes "sequenced n ss" and "i = length (takeWhile (\<lambda>s. ss_phase s = Succeeded) ss)" and "i < length ss"
  shows "ss_run_name (ss ! i) = [] \<or> launched n (ss ! i)"
  using assms
  by (induction ss arbitrary: i) (auto split: if_splits)

lemma stage_name_not_Nil: "stageAgentRunName n m \<noteq> []"
proof -
  have "dns_label (stageAgentRunName n m)"
    unfolding stageAgentRunName_def by (rule volume_name.san_valid) simp
  then show ?thesis by (auto simp: dns_label_def)
qed

section \<open>Updates\<close>

named_theorems wf_simps "selectors after the status updates of a workflow run"

lemma update_wf_simps [wf_simps]:
  "wf_status (update_wf f r) = f (wf_status r)" "wf_meta (update_wf f r) = wf_meta r"
  "wf_spec (update_wf f r) = wf_spec r" "wf_name (update_wf f r) = wf_name r"
  "wf_namespace (update_wf f r) = wf_namespace r"
  by (simp_all add: update_wf_def wf_name_def wf_namespace_def)

lemma set_wf_ready_simps [wf_simps]:
  "stages_of (set_wf_ready L r st rs m) = stages_of r" "wf_phase (set_wf_ready L r st rs m) = wf_phase r"
  "wt_completion_time (wf_status (set_wf_ready L r st rs m)) = wt_completion_time (wf_status r)"
  "wf_meta (set_wf_ready L r st rs m) = wf_meta r" "wf_name (set_wf_ready L r st rs m) = wf_name r"
  "wt_guide (wf_status (set_wf_ready L r st rs m)) = wt_guide (wf_status r)"
  "wt_params (wf_status (set_wf_ready L r st rs m)) = wt_params (wf_status r)"
  "snapshot_of (set_wf_ready L r st rs m) = snapshot_of r"
  "seq_of (set_wf_ready L r st rs m) = seq_of r"
  by (simp_all add: set_wf_ready_def wf_simps snapshot_of_def seq_of_def)

lemma ready_set [wf_simps]:
  "conditions_ok L \<Longrightarrow> ready_status L (set_wf_ready L r st rs m) = Some st"
  by (simp add: ready_status_def set_wf_ready_def wf_simps find_set_type)

lemma update_stage_simps [wf_simps]:
  "stages_of (update_stage i f r) = (stages_of r)[i := f (stages_of r ! i)]"
  "wf_phase (update_stage i f r) = wf_phase r"
  "wt_completion_time (wf_status (update_stage i f r)) = wt_completion_time (wf_status r)"
  "wf_meta (update_stage i f r) = wf_meta r" "wf_name (update_stage i f r) = wf_name r"
  "wt_guide (wf_status (update_stage i f r)) = wt_guide (wf_status r)"
  "wt_params (wf_status (update_stage i f r)) = wt_params (wf_status r)"
  "wf_namespace (update_stage i f r) = wf_namespace r" "wf_spec (update_stage i f r) = wf_spec r"
  by (simp_all add: update_stage_def wf_simps)

lemma map_update_same: "f y = f (xs ! i) \<Longrightarrow> map f (xs[i := y]) = map f xs"
  by (simp add: map_update list_update_same_conv) (metis list_update_beyond list_update_id map_update not_le nth_map)

section \<open>What a patch may do\<close>

definition wf_progress :: "klib \<Rightarrow> workflow_run \<Rightarrow> workflow_run \<Rightarrow> bool" where
  "wf_progress L r r' \<longleftrightarrow> wf_inv L r' \<and> seq_step\<^sup>*\<^sup>* (seq_of r) (seq_of r') \<and> wf_meta r' = wf_meta r \<and>
     (stages_of r \<noteq> [] \<longrightarrow> snapshot_of r' = snapshot_of r)"

text \<open>The run goes on: a patch with a \<open>Ready\<close> condition that is not True.\<close>

lemma going_progress:
  assumes "conditions_ok L" and "\<not> isTerminalPhase (wf_phase r1)"
    and "wt_completion_time (wf_status r1) = None" and "sequenced (wf_name r) (stages_of r1)"
    and "\<forall>s \<in> set (stages_of r1). ss_phase s \<noteq> Failed" and "wf_meta r1 = wf_meta r"
    and "stages_of r \<noteq> [] \<longrightarrow> snapshot_of r1 = snapshot_of r"
    and "seq_step\<^sup>*\<^sup>* (seq_of r) (map slot_of (stages_of r1), Going)"
  shows "wf_progress L r (set_wf_ready L r1 CFalse rs m)"
proof -
  have "verdict_of (wf_phase r1) = Going" "wf_phase r1 \<noteq> Succeeded" "wf_phase r1 \<noteq> Failed"
    using assms(2) by (cases "wf_phase r1"; simp)+
  moreover have "wf_name r1 = wf_name r" using assms(6) by (simp add: wf_name_def)
  ultimately show ?thesis
    using assms by (simp add: wf_progress_def wf_inv_def wf_outcome_ok_def wf_simps seq_of_def)
qed

text \<open>The run is lost.\<close>

lemma lost_progress:
  assumes "conditions_ok L" and "sequenced (wf_name r) (stages_of r1)" and "wf_meta r1 = wf_meta r"
    and "stages_of r \<noteq> [] \<longrightarrow> snapshot_of r1 = snapshot_of r"
    and "seq_step\<^sup>*\<^sup>* (seq_of r) (map slot_of (stages_of r1), Lost)"
  shows "patch_all (wf_progress L r) (fst (end_workflow C L r1 Failed rs m w))"
proof -
  have "wf_name r1 = wf_name r" using assms(3) by (simp add: wf_name_def)
  then show ?thesis
    using assms
    by (auto simp: end_workflow_def patch_ready_def wf_progress_def wf_inv_def wf_outcome_ok_def wf_simps
        seq_of_def snapshot_of_def split: prod.splits)
qed

lemma wf_progress_trans:
  assumes "seq_step\<^sup>*\<^sup>* (seq_of r) (seq_of r2)" and "wf_meta r2 = wf_meta r"
    and "stages_of r \<noteq> [] \<longrightarrow> stages_of r2 = stages_of r \<and> snapshot_of r2 = snapshot_of r"
    and "wf_progress L r2 r'"
  shows "wf_progress L r r'"
  using assms by (auto simp: wf_progress_def intro: rtranclp_trans)

lemma wf_progress_trans_all:
  assumes "seq_step\<^sup>*\<^sup>* (seq_of r) (seq_of r2)" and "wf_meta r2 = wf_meta r"
    and "stages_of r \<noteq> [] \<longrightarrow> stages_of r2 = stages_of r \<and> snapshot_of r2 = snapshot_of r"
    and "patch_all (wf_progress L r2) out"
  shows "patch_all (wf_progress L r) out"
  using assms wf_progress_trans [OF assms(1-3)] by (cases out) auto

section \<open>The current stage\<close>

text \<open>A change of the current stage alone, which keeps what the stage is.\<close>

lemma stage_kept:
  assumes "\<And>s. (ss_name (f s), ss_agent_ref (f s), ss_instructions (f s), ss_execution (f s)) =
      (ss_name s, ss_agent_ref s, ss_instructions s, ss_execution s)"
  shows "snapshot_of (update_stage i f r) = snapshot_of r"
  using assms by (auto simp: snapshot_of_def wf_simps intro!: map_update_same)

lemma slot_going:
  assumes "wf_inv L r" and "\<not> isTerminalPhase (wf_phase r)" and "i = findCurrentStageIndex r"
    and "i < length (stages_of r)"
  shows "slot_of (stages_of r ! i) = (if ss_run_name (stages_of r ! i) = [] then Waiting else Active)"
proof -
  have "ss_phase (stages_of r ! i) \<noteq> Failed"
    using assms nth_mem [of i "stages_of r"] by (auto simp: wf_inv_def)
  moreover have "ss_phase (stages_of r ! i) \<noteq> Succeeded" using at_current assms(3,4) by simp
  ultimately show ?thesis by (simp add: slot_of_def)
qed

lemma seq_of_going:
  assumes "\<not> isTerminalPhase (wf_phase r)"
  shows "seq_of r = (map slot_of (stages_of r), Going)"
  using assms by (cases "wf_phase r") (simp_all add: seq_of_def)

lemma stage_moves:
  assumes "wf_inv L r" and "\<not> isTerminalPhase (wf_phase r)" and "i = findCurrentStageIndex r"
    and "i < length (stages_of r)"
  shows "slot_of s' = Dead \<Longrightarrow> seq_step\<^sup>*\<^sup>* (seq_of r) (map slot_of ((stages_of r)[i := s']), Lost)"
    and "slot_of s' = slot_of (stages_of r ! i) \<Longrightarrow>
      seq_step\<^sup>*\<^sup>* (seq_of r) (map slot_of ((stages_of r)[i := s']), Going)"
    and "ss_run_name (stages_of r ! i) = [] \<Longrightarrow> slot_of s' = Active \<Longrightarrow>
      seq_step\<^sup>*\<^sup>* (seq_of r) (map slot_of ((stages_of r)[i := s']), Going)"
    and "ss_run_name (stages_of r ! i) \<noteq> [] \<Longrightarrow> slot_of s' = Done \<Longrightarrow>
      seq_step\<^sup>*\<^sup>* (seq_of r) (map slot_of ((stages_of r)[i := s']), Going)"
proof -
  note e = seq_of_going [OF assms(2)] current_slots [OF assms(3,4)] update_slots [OF assms(3,4)]
  note g = slot_going [OF assms]
  show "slot_of s' = Dead \<Longrightarrow> seq_step\<^sup>*\<^sup>* (seq_of r) (map slot_of ((stages_of r)[i := s']), Lost)"
    unfolding e by (rule r_into_rtranclp) (simp add: g seq_step.break_off)
  show "slot_of s' = slot_of (stages_of r ! i) \<Longrightarrow>
      seq_step\<^sup>*\<^sup>* (seq_of r) (map slot_of ((stages_of r)[i := s']), Going)"
    unfolding e by simp
  show "ss_run_name (stages_of r ! i) = [] \<Longrightarrow> slot_of s' = Active \<Longrightarrow>
      seq_step\<^sup>*\<^sup>* (seq_of r) (map slot_of ((stages_of r)[i := s']), Going)"
    unfolding e by (rule r_into_rtranclp) (simp add: g seq_step.launch)
  show "ss_run_name (stages_of r ! i) \<noteq> [] \<Longrightarrow> slot_of s' = Done \<Longrightarrow>
      seq_step\<^sup>*\<^sup>* (seq_of r) (map slot_of ((stages_of r)[i := s']), Going)"
    unfolding e by (rule r_into_rtranclp) (simp add: g seq_step.finish)
qed

lemma update_stages_ok:
  assumes "wf_inv L r" and "i = findCurrentStageIndex r" and "i < length (stages_of r)"
    and "launched (wf_name r) s' \<or> ss_run_name s' = [] \<and> (ss_phase s' = Pending \<or> ss_phase s' = Failed)"
  shows "sequenced (wf_name r) ((stages_of r)[i := s'])"
  using sequenced_update [of "wf_name r" "stages_of r" i s'] assms by (simp add: wf_inv_def current_eq)

lemma no_failed_update:
  assumes "wf_inv L r" and "\<not> isTerminalPhase (wf_phase r)" and "ss_phase s' \<noteq> Failed"
  shows "\<forall>s \<in> set ((stages_of r)[i := s']). ss_phase s \<noteq> Failed"
  using assms set_update_subset_insert [of "stages_of r" i s'] by (auto simp: wf_inv_def)

lemma unfinished_wf: "wf_inv L r \<Longrightarrow> \<not> isTerminalPhase (wf_phase r) \<Longrightarrow> wt_completion_time (wf_status r) = None"
  by (simp add: wf_inv_def wf_outcome_ok_def)

section \<open>Every patch refines the sequencer\<close>

lemma createAgentRunForStage_name:
  assumes "createAgentRunForStage C L run stg i n w = (Inr name, w')"
  shows "name = stageAgentRunName (wf_name run) (ws_name stg)"
  using assms
  by (auto simp: createAgentRunForStage_def create_stage_run_def adopt_existing_def build_stage_run_def Let_def
      ar_name_def stage_run_object_def new_meta_def split: sum.splits prod.splits option.splits if_splits)

lemma launch_progress:
  assumes ok: "conditions_ok L" and inv: "wf_inv L r" and nt: "\<not> isTerminalPhase (wf_phase r)"
    and i: "i = findCurrentStageIndex r" "i < length (stages_of r)"
    and none: "ss_run_name (stages_of r ! i) = []"
  shows "patch_all (wf_progress L r) (fst (launch_stage C L r i w))"
proof -
  let ?s = "stages_of r ! i"
  note st = update_stages_ok [OF inv i] and mv = stage_moves [OF inv nt i]
  define dead where "dead = ?s\<lparr>ss_phase := Failed\<rparr>"
  have "patch_all (wf_progress L r) (fst (end_workflow C L (set_stage_phase i Failed r) Failed rs m w'))" for rs m w'
    using st [of dead] mv(1) [of dead] none
    by (intro lost_progress [OF ok])
      (simp_all add: set_stage_phase_def wf_simps stage_kept dead_def slot_of_def)
  moreover have "wf_progress L r (set_wf_ready L r CFalse rs m)" for rs m
    using inv nt by (intro going_progress [OF ok])
      (auto simp: wf_inv_def wf_outcome_ok_def seq_of_going [OF nt])
  moreover have "wf_progress L r (set_wf_ready L (update_stage i (\<lambda>s. s\<lparr>ss_run_name := name, ss_phase := Pending\<rparr>) r)
      CFalse rs m)" if "name = stageAgentRunName (wf_name r) (ss_name ?s)" for name rs m
  proof -
    define up where "up = ?s\<lparr>ss_run_name := name, ss_phase := Pending\<rparr>"
    have "launched (wf_name r) up" "slot_of up = Active" "ss_phase up \<noteq> Failed"
      using that stage_name_not_Nil by (simp_all add: up_def launched_def slot_of_def)
    then show ?thesis
      using st [of up] mv(3) [OF none, of up] no_failed_update [OF inv nt, of up i] nt unfinished_wf [OF inv nt]
      by (intro going_progress [OF ok]) (simp_all add: wf_simps stage_kept up_def)
  qed
  ultimately show ?thesis
    using createAgentRunForStage_name [of C L r "stage_of ?s" i "length (stages_of r)" w]
    by (auto simp: launch_stage_def Let_def patch_ready_def stage_of_def split: prod.splits sum.splits)
qed

lemma watch_progress_stage:
  assumes ok: "conditions_ok L" and inv: "wf_inv L r" and nt: "\<not> isTerminalPhase (wf_phase r)"
    and i: "i = findCurrentStageIndex r" "i < length (stages_of r)"
    and some: "ss_run_name (stages_of r ! i) \<noteq> []" and cons: "children_consistent C L"
  shows "patch_all (wf_progress L r) (fst (watch_stage C L r i w))"
proof -
  let ?s = "stages_of r ! i"
  note st = update_stages_ok [OF inv i] and mv = stage_moves [OF inv nt i]
  have l: "launched (wf_name r) ?s"
    using sequenced_nth [of "wf_name r" "stages_of r" i] inv i some by (auto simp: wf_inv_def current_eq)
  have lost: "patch_all (wf_progress L r) (fst (end_workflow C L (set_stage_phase i Failed r) Failed rs m w'))"
    for rs m w'
    using st [of "?s\<lparr>ss_phase := Failed\<rparr>"] mv(1) [of "?s\<lparr>ss_phase := Failed\<rparr>"] l
    by (intro lost_progress [OF ok])
      (simp_all add: set_stage_phase_def wf_simps stage_kept slot_of_def launched_def)
  have going: "wf_progress L r (set_wf_ready L (set_stage_phase i p r) CFalse rs m)" if "p \<noteq> Failed" for p rs m
  proof -
    define up where "up = ?s\<lparr>ss_phase := p\<rparr>"
    have u: "launched (wf_name r) up" "ss_phase up \<noteq> Failed"
      using l that by (simp_all add: up_def launched_def)
    have "seq_step\<^sup>*\<^sup>* (seq_of r) (map slot_of ((stages_of r)[i := up]), Going)"
    proof (cases "p = Succeeded")
      case True
      then show ?thesis by (intro mv(4) [OF some]) (simp add: up_def slot_of_def)
    next
      case False
      then show ?thesis using that some slot_going [OF inv nt i]
        by (intro mv(2)) (simp add: up_def slot_of_def)
    qed
    then show ?thesis
      using st [of up] u no_failed_update [OF inv nt, of up i] nt unfinished_wf [OF inv nt]
      by (intro going_progress [OF ok]) (simp_all add: set_stage_phase_def wf_simps stage_kept up_def)
  qed
  show ?thesis
  proof (cases "wc_get_run C (nskey_of (wf_namespace r) (ss_run_name ?s)) w")
    case (Pair a w')
    show ?thesis
    proof (cases a)
      case (Inl e)
      then show ?thesis using Pair lost by (simp add: watch_stage_def Let_def)
    next
      case (Inr child)
      then have "outcome_consistent L child" using cons Pair by (auto simp: children_consistent_def)
      then have c: "st_phase (ar_status child) = Failed \<longleftrightarrow>
          map_option cd_status (find_condition L (st_conditions (ar_status child)) cond_succeeded) = Some CFalse"
        by (simp add: outcome_consistent_def succeeded_status_def)
      let ?f = "find_condition L (st_conditions (ar_status child)) cond_succeeded"
      show ?thesis
      proof (cases ?f)
        case None
        then show ?thesis using Pair Inr c going by (simp add: watch_stage_def Let_def patch_ready_def)
      next
        case (Some cd)
        then show ?thesis using Pair Inr c going lost
          by (cases "cd_status cd") (simp_all add: watch_stage_def Let_def patch_ready_def)
      qed
    qed
  qed
qed

lemma inv_set_current:
  assumes "wf_inv L r" and "\<not> isTerminalPhase (wf_phase r)"
  shows "wf_inv L (update_wf (\<lambda>s. s\<lparr>wt_current_stage := c, wt_phase := Running\<rparr>) r)"
  using assms unfinished_wf [OF assms]
  by (auto simp: wf_inv_def wf_outcome_ok_def wf_simps ready_status_def)

lemma stage_step_progress:
  assumes ok: "conditions_ok L" and inv: "wf_inv L r" and nt: "\<not> isTerminalPhase (wf_phase r)"
    and cons: "children_consistent C L"
  shows "patch_all (wf_progress L r) (fst (stage_step C L r w))"
proof (cases "findCurrentStageIndex r < length (stages_of r)")
  case True
  define r2 where "r2 = update_wf (\<lambda>s. s\<lparr>wt_current_stage := ss_name (stages_of r ! findCurrentStageIndex r),
      wt_phase := Running\<rparr>) r"
  have s: "stages_of r2 = stages_of r" "wf_meta r2 = wf_meta r" "snapshot_of r2 = snapshot_of r"
    by (simp_all add: r2_def wf_simps snapshot_of_def)
  have q: "seq_of r2 = seq_of r"
    unfolding seq_of_going [OF nt] by (simp add: seq_of_def r2_def wf_simps)
  have i: "findCurrentStageIndex r = findCurrentStageIndex r2" by (simp add: current_eq s)
  have r2: "wf_inv L r2" "\<not> isTerminalPhase (wf_phase r2)"
    using inv_set_current [OF inv nt] by (simp_all add: r2_def wf_simps)
  have i2: "findCurrentStageIndex r < length (stages_of r2)" using True by (simp add: s)
  have "patch_all (wf_progress L r2) (fst (stage_step C L r w))"
    using True launch_progress [where C = C, OF ok r2 i i2] watch_progress_stage [OF ok r2 i i2 _ cons]
    by (simp add: stage_step_def Let_def r2_def [symmetric] s)
  then show ?thesis by (rule wf_progress_trans_all [rotated 3]) (simp_all add: q s)
next
  case False
  have "seq_step (map slot_of (stages_of r), Going) (map slot_of (stages_of r), Won)"
    unfolding done_slots [OF all_done [OF False]] by (rule seq_step.win)
  then have "seq_step\<^sup>*\<^sup>* (map slot_of (stages_of r), verdict_of (wf_phase r)) (map slot_of (stages_of r), Won)"
    using seq_of_going [OF nt] by (simp add: seq_of_def)
  then show ?thesis
    using False ok inv all_done [OF False]
    by (simp add: stage_step_def Let_def end_workflow_def patch_ready_def wf_progress_def wf_inv_def
        wf_outcome_ok_def wf_simps snapshot_of_def wf_name_def seq_of_def split: prod.splits)
qed

lemma snapshot_progress:
  assumes "\<not> isTerminalPhase (wf_phase r)" and "wf_inv L r"
  shows "seq_step\<^sup>*\<^sup>* (seq_of r) (seq_of (take_snapshot aw r))" and "wf_inv L (take_snapshot aw r)"
    and "wf_meta (take_snapshot aw r) = wf_meta r" and "wf_phase (take_snapshot aw r) = wf_phase r"
    and "stages_of r \<noteq> [] \<Longrightarrow> take_snapshot aw r = r"
proof -
  have "map slot_of (map plan_stage ss) = replicate (length ss) Waiting" for ss
    by (induction ss) (simp_all add: slot_of_def plan_stage_def)
  then show "seq_step\<^sup>*\<^sup>* (seq_of r) (seq_of (take_snapshot aw r))"
    using seq_step.plan [of "length (aw_stages aw)"] seq_of_going [OF assms(1)]
    by (auto simp: take_snapshot_def seq_of_def wf_simps)
  show "wf_inv L (take_snapshot aw r)"
    using assms sequenced_plan [of "wf_name r" "aw_stages aw"]
    by (auto simp: take_snapshot_def wf_inv_def wf_simps wf_outcome_ok_def ready_status_def plan_stage_def)
  show "wf_meta (take_snapshot aw r) = wf_meta r" "wf_phase (take_snapshot aw r) = wf_phase r"
    "stages_of r \<noteq> [] \<Longrightarrow> take_snapshot aw r = r"
    by (simp_all add: take_snapshot_def wf_simps)
qed

lemma start_progress:
  assumes "\<not> isTerminalPhase (wf_phase r)" and "wf_inv L r" and "start_workflow C r w = (r1, w1)"
  shows "seq_of r1 = seq_of r \<and> wf_inv L r1 \<and> wf_meta r1 = wf_meta r \<and> \<not> isTerminalPhase (wf_phase r1) \<and>
    stages_of r1 = stages_of r \<and> snapshot_of r1 = snapshot_of r"
proof -
  have "verdict_of (wf_phase r) = Going" using seq_of_going [OF assms(1)] by (simp add: seq_of_def)
  then show ?thesis
    using assms unfinished_wf [OF assms(2,1)]
    by (auto simp: start_workflow_def wf_inv_def wf_outcome_ok_def wf_simps ready_status_def seq_of_def
        snapshot_of_def split: if_splits prod.splits)
qed

lemma workflow_progress:
  assumes ok: "conditions_ok L" and inv: "wf_inv L r" and nt: "\<not> isTerminalPhase (wf_phase r)"
    and cons: "children_consistent C L"
  shows "patch_all (wf_progress L r) (fst (workflow_phase C L r w))"
proof -
  have "patch_all (wf_progress L r) (fst (end_workflow C L r Failed rs m w'))" for rs m w'
    using inv seq_of_going [OF nt] seq_step.abandon [of "map slot_of (stages_of r)"]
    by (intro lost_progress [OF ok]) (auto simp: wf_inv_def)
  moreover have "wf_progress L r (set_wf_ready L r CFalse rs m)" for rs m
    using inv nt by (intro going_progress [OF ok])
      (auto simp: wf_inv_def wf_outcome_ok_def seq_of_going [OF nt])
  moreover have "patch_all (wf_progress L r) (fst (stage_step C L (take_snapshot aw r1) w2))"
    if "start_workflow C r w1 = (r1, w2)" for aw r1 w1 w2
  proof -
    from start_progress [OF nt inv that] have r1: "seq_of r1 = seq_of r" "wf_inv L r1" "wf_meta r1 = wf_meta r"
      "\<not> isTerminalPhase (wf_phase r1)" "stages_of r1 = stages_of r" "snapshot_of r1 = snapshot_of r" by auto
    note sn = snapshot_progress [OF r1(4,2), of aw]
    have "patch_all (wf_progress L (take_snapshot aw r1)) (fst (stage_step C L (take_snapshot aw r1) w2))"
      using sn r1 by (intro stage_step_progress [OF ok _ _ cons]) simp_all
    then show ?thesis
      by (rule wf_progress_trans_all [where ?r2.0 = "take_snapshot aw r1", rotated 3])
        (use sn r1 in \<open>auto simp only: simp_thms\<close>)
  qed
  ultimately show ?thesis
    by (simp add: workflow_phase_def Let_def patch_ready_def split: prod.split sum.split)
qed

section \<open>Steps and reachable workflow runs\<close>

definition with_wf_status :: "workflow_run \<Rightarrow> workflow_run \<Rightarrow> workflow_run" where
  "with_wf_status r r' = r\<lparr>wf_status := wf_status r'\<rparr>"

inductive wf_step :: "workflow_config \<Rightarrow> 'w workflow_client \<Rightarrow> klib \<Rightarrow> workflow_run \<Rightarrow> workflow_run \<Rightarrow> bool"
  for cfg C L where
  patch: "decide_workflow cfg C L r w = (PatchRun r' res e, w') \<Longrightarrow> wf_step cfg C L r (with_wf_status r r')"

inductive_cases wf_stepE: "wf_step cfg C L r r'"

definition empty_wf_status :: workflow_run_status where
  "empty_wf_status = \<lparr>wt_phase = NoPhase, wt_observed_generation = 0, wt_current_stage = [], wt_stages = [],
     wt_guide = [], wt_params = [], wt_start_time = None, wt_completion_time = None, wt_conditions = []\<rparr>"

inductive wf_reachable :: "workflow_config \<Rightarrow> 'w workflow_client \<Rightarrow> klib \<Rightarrow> workflow_run \<Rightarrow> bool"
  for cfg C L where
  fresh: "wf_status r = empty_wf_status \<Longrightarrow> wf_reachable cfg C L r"
| step: "wf_reachable cfg C L r \<Longrightarrow> wf_step cfg C L r r' \<Longrightarrow> wf_reachable cfg C L r'"

lemma observe_workflow_simps [wf_simps]:
  "wf_phase (observe_workflow r) = wf_phase r" "stages_of (observe_workflow r) = stages_of r"
  "wf_meta (observe_workflow r) = wf_meta r" "seq_of (observe_workflow r) = seq_of r"
  "snapshot_of (observe_workflow r) = snapshot_of r"
  "wt_completion_time (wf_status (observe_workflow r)) = wt_completion_time (wf_status r)"
  "wf_inv L (observe_workflow r) = wf_inv L r"
  by (simp_all add: observe_workflow_def wf_simps seq_of_def snapshot_of_def wf_inv_def wf_outcome_ok_def
      ready_status_def)

lemma with_wf_status_simps [wf_simps]:
  "wf_inv L (with_wf_status r r') = wf_inv L (r'\<lparr>wf_meta := wf_meta r\<rparr>)"
  "seq_of (with_wf_status r r') = seq_of r'" "snapshot_of (with_wf_status r r') = snapshot_of r'"
  "wf_meta (with_wf_status r r') = wf_meta r" "wf_spec (with_wf_status r r') = wf_spec r"
  "stages_of (with_wf_status r r') = stages_of r'" "wf_phase (with_wf_status r r') = wf_phase r'"
  by (simp_all add: with_wf_status_def wf_inv_def seq_of_def snapshot_of_def wf_outcome_ok_def ready_status_def
      wf_name_def)

text \<open>A finished run always has its completion time, so a reconcile never patches it again.\<close>

lemma finished_wf_not_patched:
  assumes "wf_inv L r" and "isTerminalPhase (wf_phase r)"
  shows "decide_workflow cfg C L r w \<noteq> (PatchRun r' res e, w')"
  using assms
  by (auto simp: decide_workflow_def Let_def wf_simps reconcileTTL_workflow_def workflow_gc_def wf_inv_def
      wf_outcome_ok_def split: prod.splits option.splits gc_action.splits if_splits)

lemma wf_step_progress:
  assumes "conditions_ok L" and "children_consistent C L" and "wf_inv L r" and "wf_step cfg C L r r2"
  shows "wf_progress L r r2"
proof -
  from assms(4) obtain w r' res e w' where
    d: "decide_workflow cfg C L r w = (PatchRun r' res e, w')" and r2: "r2 = with_wf_status r r'"
    by (auto elim: wf_stepE)
  have nt: "\<not> isTerminalPhase (wf_phase r)" using finished_wf_not_patched [OF assms(3), of cfg C w r' res e w'] d by blast
  have "patch_all (wf_progress L (observe_workflow r)) (fst (workflow_phase C L (observe_workflow r) w))"
    using assms nt by (intro workflow_progress) (simp_all add: wf_simps)
  moreover have "workflow_phase C L (observe_workflow r) w = (PatchRun r' res e, w')"
    using d nt by (simp add: decide_workflow_def Let_def wf_simps)
  ultimately have "wf_progress L (observe_workflow r) r'" by simp
  then have p: "wf_inv L r'" "seq_step\<^sup>*\<^sup>* (seq_of r) (seq_of r')" "wf_meta r' = wf_meta r"
    "stages_of r \<noteq> [] \<longrightarrow> snapshot_of r' = snapshot_of r"
    by (simp_all add: wf_progress_def wf_simps)
  have "r'\<lparr>wf_meta := wf_meta r\<rparr> = r'" using p(3) by (cases r') simp
  then have "wf_inv L r2" using p(1) by (simp only: r2 wf_simps)
  then show ?thesis using p by (simp add: wf_progress_def r2 wf_simps)
qed

lemma fresh_wf_inv: "conditions_ok L \<Longrightarrow> wf_status r = empty_wf_status \<Longrightarrow> wf_inv L r"
  by (simp add: wf_inv_def wf_outcome_ok_def ready_status_def empty_wf_status_def find_nothing)

lemma wf_reachable_inv:
  assumes "conditions_ok L" and "children_consistent C L"
  shows "wf_reachable cfg C L r \<Longrightarrow> wf_inv L r \<and> seq_step\<^sup>*\<^sup>* ([], Going) (seq_of r)"
proof (induction rule: wf_reachable.induct)
  case (fresh r)
  then show ?case using fresh_wf_inv [OF assms(1)] by (simp add: seq_of_def empty_wf_status_def)
next
  case (step r r')
  then show ?case
    using wf_step_progress [OF assms _ step.hyps(2)] by (auto simp: wf_progress_def intro: rtranclp_trans)
qed

end
