(* ===== verification/WorkflowProperties.thy ===== *)
theory WorkflowProperties
  imports WorkflowInvariant RunProperties
begin

text \<open>
  What the life cycle of a workflow run guarantees: order of the stages, the frozen snapshot, the runs
  that are created and what they carry.
\<close>

section \<open>Sequencing\<close>

text \<open>
  C2: every status a workflow run can reach, and every patch of it, is a run of the abstract sequencer:
  stages are launched in order, one at a time, each only after all before it are done, and the run is won
  only when all are done; this holds whenever the stage runs that can be read are themselves reachable
  agent runs.
\<close>

theorem workflow_refines_sequencer:
  assumes "conditions_ok L"
    and "\<forall>k w c w'. wc_get_run C k w = (Inr c, w') \<longrightarrow> run_reachable rcfg RC L c"
    and "wf_reachable cfg C L r"
  shows "seq_step\<^sup>*\<^sup>* ([], Going) (seq_of r) \<and>
    (\<forall>r2. wf_step cfg C L r r2 \<longrightarrow> seq_step\<^sup>*\<^sup>* (seq_of r) (seq_of r2))"
proof -
  have "children_consistent C L"
    using reachable_inv [OF assms(1), of rcfg RC] assms(2) by (simp add: children_consistent_def run_inv_def)
  from wf_reachable_inv [OF assms(1) this assms(3)] wf_step_progress [OF assms(1) this, of r cfg] show ?thesis
    by (simp add: wf_progress_def)
qed

lemma sequenced_split:
  assumes "sequenced n ss"
  shows "\<exists>ds rest. ss = ds @ rest \<and> list_all (\<lambda>s. ss_phase s = Succeeded \<and> launched n s) ds \<and>
      list_all untouched (tl rest) \<and> ((\<forall>s \<in> set ss. ss_phase s = Succeeded) \<longrightarrow> rest = [])"
  using assms
proof (induction ss)
  case Nil
  then show ?case by simp
next
  case (Cons s ss)
  show ?case
  proof (cases "ss_phase s = Succeeded")
    case True
    with Cons.prems have "sequenced n ss" and l: "launched n s" by simp_all
    from Cons.IH [OF this(1)] obtain ds rest where ih: "ss = ds @ rest"
      "list_all (\<lambda>s. ss_phase s = Succeeded \<and> launched n s) ds" "list_all untouched (tl rest)"
      "(\<forall>s \<in> set ss. ss_phase s = Succeeded) \<longrightarrow> rest = []" by blast
    show ?thesis
    proof (intro exI conjI)
      show "s # ss = (s # ds) @ rest" using ih(1) by simp
      show "list_all (\<lambda>s. ss_phase s = Succeeded \<and> launched n s) (s # ds)" using ih(2) True l by simp
      show "list_all untouched (tl rest)" by (rule ih(3))
      show "(\<forall>x \<in> set (s # ss). ss_phase x = Succeeded) \<longrightarrow> rest = []" using ih(4) by simp
    qed
  next
    case False
    with Cons.prems show ?thesis by (intro exI [of _ "[]"] exI [of _ "s # ss"]) simp
  qed
qed

text \<open>
  C8: in every reachable workflow run the stages split into finished ones, each executed by the run of its
  own name, and the rest, of which only the first may have been touched; the run is Succeeded exactly when
  it is Ready, then all stages are finished, and it has a completion time exactly when it is over.
\<close>

theorem stages_run_in_order:
  assumes "conditions_ok L" and "children_consistent C L" and "wf_reachable cfg C L r"
  shows "wf_outcome_ok L r \<and>
    (\<exists>ds rest. stages_of r = ds @ rest \<and>
      list_all (\<lambda>s. ss_phase s = Succeeded \<and> launched (wf_name r) s) ds \<and>
      list_all untouched (tl rest) \<and> (wf_phase r = Succeeded \<longrightarrow> rest = []))"
proof -
  from wf_reachable_inv [OF assms] have inv: "wf_inv L r" ..
  then have "sequenced (wf_name r) (stages_of r)" and o: "wf_outcome_ok L r"
    and d: "wf_phase r = Succeeded \<longrightarrow> (\<forall>s \<in> set (stages_of r). ss_phase s = Succeeded)"
    by (simp_all add: wf_inv_def)
  from sequenced_split [OF this(1)] obtain ds rest where "stages_of r = ds @ rest"
    "list_all (\<lambda>s. ss_phase s = Succeeded \<and> launched (wf_name r) s) ds" "list_all untouched (tl rest)"
    "(\<forall>s \<in> set (stages_of r). ss_phase s = Succeeded) \<longrightarrow> rest = []" by blast
  with o d show ?thesis by blast
qed

text \<open>
  Once the stages are planned, no reconcile changes the guide, the parameter declarations or what a
  stage executes, however the workflow is edited meanwhile.
\<close>

theorem snapshot_frozen:
  assumes "conditions_ok L" and "children_consistent C L" and "wf_reachable cfg C L r"
    and "stages_of r \<noteq> []" and "(wf_step cfg C L)\<^sup>*\<^sup>* r r2"
  shows "snapshot_of r2 = snapshot_of r"
proof -
  have "wf_reachable cfg C L r2 \<and> stages_of r2 \<noteq> [] \<and> snapshot_of r2 = snapshot_of r"
    using assms(5)
  proof (induction rule: rtranclp_induct)
    case base
    then show ?case using assms(3,4) by simp
  next
    case (step y z)
    then have "wf_progress L y z"
      using wf_step_progress [OF assms(1,2)] wf_reachable_inv [OF assms(1,2)] by blast
    with step have s: "snapshot_of z = snapshot_of r" by (simp add: wf_progress_def)
    moreover have "stages_of z \<noteq> []" using s assms(4) by (auto simp: snapshot_of_def)
    ultimately show ?case using step wf_reachable.step by blast
  qed
  then show ?thesis by simp
qed

section \<open>What is created\<close>

text \<open>A client whose world records every agent run that is created.\<close>

definition records_creations :: "('w \<Rightarrow> agent_run list) \<Rightarrow> 'w workflow_client \<Rightarrow> bool" where
  "records_creations log C \<longleftrightarrow>
     (\<forall>r w. log (snd (wc_create_run C r w)) = r # log w) \<and>
     (\<forall>k w. log (snd (wc_get_workflow C k w)) = log w) \<and>
     (\<forall>k w. log (snd (wc_get_agent C k w)) = log w) \<and>
     (\<forall>k w. log (snd (wc_get_run C k w)) = log w) \<and>
     (\<forall>w. log (snd (wc_now C w)) = log w) \<and>
     (\<forall>r n m w. log (wc_event C r n m w) = log w)"

definition owned_run :: "agent_run \<Rightarrow> workflow_run \<Rightarrow> bool" where
  "owned_run c r \<longleftrightarrow>
     (\<exists>ref \<in> set (om_owners (ar_meta c)). or_controller ref = Some True \<and>
        or_kind ref = agent_workflow_run_kind \<and> or_uid ref = om_uid (wf_meta r))"

text \<open>The run that is created for a stage: its name, its labels, its owner.\<close>

definition run_of_stage :: "workflow_run \<Rightarrow> stage_status \<Rightarrow> agent_run \<Rightarrow> bool" where
  "run_of_stage r s c \<longleftrightarrow> ar_name c = stageAgentRunName (wf_name r) (ss_name s) \<and>
     om_labels (ar_meta c) label_stage = Some (ss_name s) \<and>
     om_labels (ar_meta c) label_agent_workflow_run = Some (wf_name r) \<and>
     om_labels (ar_meta c) label_managed_by = Some managed_by \<and>
     rs_agent_ref (ar_spec c) = ss_agent_ref s \<and> owned_run c r"

lemma log_steps:
  assumes "records_creations log C"
  shows "wc_create_run C c w = (a, w') \<Longrightarrow> log w' = c # log w"
    and "wc_get_workflow C k w = (b, w') \<Longrightarrow> log w' = log w"
    and "wc_get_agent C k w = (d, w') \<Longrightarrow> log w' = log w"
    and "wc_get_run C k w = (g, w') \<Longrightarrow> log w' = log w"
    and "wc_now C w = (n, w') \<Longrightarrow> log w' = log w"
    and "log (wc_event C r rs m w) = log w"
  using assms unfolding records_creations_def by (metis snd_conv)+

lemma create_stage_run_log:
  assumes "records_creations log C" and "owners_ok L"
    and c: "create_stage_run C L r (stage_of s) (stage_run_object r (stage_of s) ag env raw) w = (a, w')"
  shows "log w' = log w \<and> isl a \<or> (\<exists>c. log w' = c # log w \<and> run_of_stage r s c)"
proof (cases "set_controller_ref L agent_workflow_run_kind (wf_meta r)
    (ar_meta (stage_run_object r (stage_of s) ag env raw))")
  case (Inl e)
  with c show ?thesis by (auto simp: create_stage_run_def)
next
  case (Inr m)
  let ?o = "stage_run_object r (stage_of s) ag env raw"
  obtain res w1 where cr: "wc_create_run C (?o\<lparr>ar_meta := m\<rparr>) w = (res, w1)" by fastforce
  obtain rs where m: "m = (ar_meta ?o)\<lparr>om_owners := rs\<rparr>"
    and own: "\<exists>ref \<in> set rs. or_controller ref = Some True \<and> or_kind ref = agent_workflow_run_kind \<and>
        or_uid ref = om_uid (wf_meta r)"
    using assms(2) Inr unfolding owners_ok_def by blast
  have "run_of_stage r s (?o\<lparr>ar_meta := m\<rparr>)"
    using own by (simp add: run_of_stage_def owned_run_def m stage_run_object_def new_meta_def ar_name_def
        stage_labels_def stage_of_def label_stage_def label_agent_workflow_run_def label_managed_by_def)
  moreover have "log w' = log w1"
    using c Inr cr log_steps(4) [OF assms(1)]
    by (auto simp: create_stage_run_def adopt_existing_def split: option.splits if_splits prod.splits sum.splits)
  ultimately show ?thesis using log_steps(1) [OF assms(1) cr] by auto
qed

lemma create_for_stage_log:
  assumes "records_creations log C" and "owners_ok L"
    and c: "createAgentRunForStage C L r (stage_of s) i n w = (a, w')"
  shows "log w' = log w \<and> isl a \<or> (\<exists>c. log w' = c # log w \<and> run_of_stage r s c)"
proof -
  obtain b w1 where g: "wc_get_agent C (nskey_of (wf_namespace r) (ws_agent_ref (stage_of s))) w = (b, w1)" by fastforce
  have l: "log w1 = log w" by (rule log_steps(3) [OF assms(1) g])
  show ?thesis
  proof (cases b)
    case (Inl e)
    then show ?thesis using c g l by (auto simp: createAgentRunForStage_def)
  next
    case (Inr ag)
    define w2 where "w2 = (if skipped_params r ag = [] then w1
        else wc_event C r ''ParamsFiltered'' (Fmt ''Stage %q (Agent %q): skipped undeclared params: %s''
          [Lit (ws_name (stage_of s)), Lit (ws_agent_ref (stage_of s)), Lit (join '', '' (skipped_params r ag))]) w1)"
    have l2: "log w2 = log w" using l log_steps(6) [OF assms(1)] by (simp add: w2_def)
    have c2: "(case build_stage_run r (stage_of s) i n ag of Inl e \<Rightarrow> (Inl e, w2)
        | Inr obj \<Rightarrow> create_stage_run C L r (stage_of s) obj w2) = (a, w')"
      using c unfolding createAgentRunForStage_def g Inr w2_def Let_def by simp
    show ?thesis
    proof (cases "build_stage_run r (stage_of s) i n ag")
      case (Inl e)
      then show ?thesis using c2 l2 by auto
    next
      case (Inr obj)
      then obtain env raw where "obj = stage_run_object r (stage_of s) ag env raw"
        by (auto simp: build_stage_run_def split: sum.splits)
      then show ?thesis
        using create_stage_run_log [OF assms(1,2), of r s ag env raw w2 a w'] c2 Inr l2 by simp
    qed
  qed
qed

lemma isl_launch:
  assumes "createAgentRunForStage C L r (stage_of (stages_of r ! i)) i (length (stages_of r)) w = (Inl e, w1)"
  shows "snd (launch_stage C L r i w) = (if kind_of e = KConfig then snd (wc_now C w1) else w1)"
  using assms by (simp add: launch_stage_def Let_def end_workflow_def split: prod.splits)

lemma launch_patches:
  assumes "i < length (stages_of r)" and "launch_stage C L r i w = (out, w')"
  shows "\<exists>r' res e f. out = PatchRun r' res e \<and> stages_of r' = (stages_of r)[i := f (stages_of r ! i)] \<and>
    ss_name (f (stages_of r ! i)) = ss_name (stages_of r ! i) \<and>
    ss_agent_ref (f (stages_of r ! i)) = ss_agent_ref (stages_of r ! i)"
proof -
  obtain a w1 where c: "createAgentRunForStage C L r (stage_of (stages_of r ! i)) i (length (stages_of r)) w = (a, w1)"
    by fastforce
  show ?thesis
  proof (cases a)
    case (Inl e)
    then show ?thesis
      using assms(2) c
      by (cases "kind_of e = KConfig")
        (force simp: launch_stage_def Let_def end_workflow_def patch_ready_def wf_simps set_stage_phase_def
          intro: exI [of _ "\<lambda>s. s\<lparr>ss_phase := Failed\<rparr>"] exI [of _ id] split: prod.splits)+
  next
    case (Inr name)
    then show ?thesis
      using assms(2) c
      by (force simp: launch_stage_def Let_def patch_ready_def wf_simps
          intro: exI [of _ "\<lambda>s. s\<lparr>ss_run_name := name, ss_phase := Pending\<rparr>"])
  qed
qed

lemma launch_log:
  assumes "records_creations log C" and "owners_ok L" and "i < length (stages_of r)"
    and l: "launch_stage C L r i w = (out, w')"
  shows "log w' = log w \<or> (\<exists>c r' res e. log w' = c # log w \<and> out = PatchRun r' res e \<and>
      i < length (stages_of r') \<and> take i (stages_of r') = take i (stages_of r) \<and>
      run_of_stage r (stages_of r' ! i) c)"
proof -
  let ?s = "stages_of r ! i"
  obtain a w1 where c: "createAgentRunForStage C L r (stage_of ?s) i (length (stages_of r)) w = (a, w1)" by fastforce
  obtain r' res e f where out: "out = PatchRun r' res e" "stages_of r' = (stages_of r)[i := f ?s]"
    "ss_name (f ?s) = ss_name ?s" "ss_agent_ref (f ?s) = ss_agent_ref ?s"
    using launch_patches [OF assms(3) l] by blast
  have "log w' = log w1"
  proof (cases a)
    case (Inl e)
    have "log (snd (wc_now C w1)) = log w1"
      using log_steps(5) [OF assms(1)] by (cases "wc_now C w1") simp
    then show ?thesis using isl_launch [of C L r i w e w1] c Inl l by simp
  next
    case (Inr name)
    then show ?thesis using l c by (simp add: launch_stage_def Let_def)
  qed
  then consider "log w' = log w" | cr where "log w' = cr # log w" "run_of_stage r ?s cr"
    using create_for_stage_log [OF assms(1,2) c] by auto
  then show ?thesis
  proof cases
    case 2
    then have "run_of_stage r (stages_of r' ! i) cr"
      using out assms(3) by (simp add: run_of_stage_def)
    then show ?thesis using 2 out assms(3) by auto
  qed simp
qed

lemma watch_log:
  assumes "records_creations log C" and "watch_stage C L r i w = (out, w')"
  shows "log w' = log w"
proof -
  obtain a w1 where g: "wc_get_run C (nskey_of (wf_namespace r) (ss_run_name (stages_of r ! i))) w = (a, w1)" by fastforce
  have "log w1 = log w" by (rule log_steps(4) [OF assms(1) g])
  moreover have "log (snd (end_workflow C L x p rs m w1)) = log w1" for x p rs m
    using log_steps(5) [OF assms(1)] by (auto simp: end_workflow_def split: prod.splits)
  ultimately show ?thesis
    using assms(2) g
    by (auto simp: watch_stage_def Let_def patch_ready_def split: sum.splits if_splits option.splits
        cond_status.splits) (metis snd_conv)+
qed

lemma run_of_stage_cong: "wf_meta r = wf_meta r2 \<Longrightarrow> run_of_stage r s c = run_of_stage r2 s c"
  by (simp add: run_of_stage_def owned_run_def wf_name_def)

lemma end_log:
  "records_creations log C \<Longrightarrow> end_workflow C L r p rs m w = (out, w') \<Longrightarrow> log w' = log w"
  using log_steps(5) by (fastforce simp: end_workflow_def split: prod.splits)

lemma stage_step_log:
  assumes "records_creations log C" and "owners_ok L" and s: "stage_step C L r w = (out, w')"
  shows "log w' = log w \<or> (\<exists>c r' res e i. log w' = c # log w \<and> out = PatchRun r' res e \<and>
      i < length (stages_of r') \<and> (\<forall>s \<in> set (take i (stages_of r')). ss_phase s = Succeeded) \<and>
      run_of_stage r (stages_of r' ! i) c)"
proof (cases "findCurrentStageIndex r < length (stages_of r)")
  case False
  then show ?thesis using s end_log [OF assms(1)] by (auto simp: stage_step_def Let_def)
next
  case True
  let ?i = "findCurrentStageIndex r"
  define r2 where "r2 = update_wf (\<lambda>s. s\<lparr>wt_current_stage := ss_name (stages_of r ! ?i), wt_phase := Running\<rparr>) r"
  have r2: "stages_of r2 = stages_of r" "wf_meta r2 = wf_meta r" by (simp_all add: r2_def wf_simps)
  show ?thesis
  proof (cases "ss_run_name (stages_of r ! ?i) = []")
    case True
    with \<open>?i < length (stages_of r)\<close> s have l: "launch_stage C L r2 ?i w = (out, w')"
      by (simp add: stage_step_def Let_def r2_def)
    have "?i < length (stages_of r2)" using \<open>?i < length (stages_of r)\<close> r2 by simp
    from launch_log [OF assms(1,2) this l] show ?thesis
      using run_of_stage_cong [OF r2(2)] before_current [of _ r] by (fastforce simp: r2)
  next
    case False
    with True s have "watch_stage C L r2 ?i w = (out, w')" by (simp add: stage_step_def Let_def r2_def)
    from watch_log [OF assms(1) this] show ?thesis ..
  qed
qed

text \<open>
  C4: one reconcile asks for at most one agent run, and only for a stage all of whose predecessors have
  succeeded: under the name and labels of that stage, for its agent, and owned by the workflow run.
\<close>

theorem stages_created_in_turn:
  assumes "records_creations log C" and "owners_ok L"
    and d: "decide_workflow cfg C L r w = (out, w')"
  shows "log w' = log w \<or> (\<exists>c r' res e i. log w' = c # log w \<and> out = PatchRun r' res e \<and>
      i < length (stages_of r') \<and> (\<forall>s \<in> set (take i (stages_of r')). ss_phase s = Succeeded) \<and>
      run_of_stage r (stages_of r' ! i) c)"
proof (cases "isTerminalPhase (wf_phase r)")
  case True
  then show ?thesis
    using d log_steps(5) [OF assms(1)]
    by (auto simp: decide_workflow_def Let_def wf_simps reconcileTTL_workflow_def
        split: if_splits prod.splits gc_action.splits)
next
  case False
  let ?r1 = "observe_workflow r"
  have w: "workflow_phase C L ?r1 w = (out, w')" using d False by (simp add: decide_workflow_def Let_def wf_simps)
  obtain a w1 where g: "wc_get_workflow C (nskey_of (wf_namespace ?r1) (wr_workflow_ref (wf_spec ?r1))) w = (a, w1)"
    by fastforce
  have l1: "log w1 = log w" by (rule log_steps(2) [OF assms(1) g])
  obtain r2 w2 where st: "start_workflow C ?r1 w1 = (r2, w2)" by fastforce
  have l2: "log w2 = log w1" and m2: "wf_meta r2 = wf_meta r"
    using st log_steps(5) [OF assms(1)] by (auto simp: start_workflow_def wf_simps split: if_splits prod.splits)
  show ?thesis
  proof (cases "\<exists>aw. a = Inr aw \<and> is_ready L (aw_conditions aw)")
    case False
    then show ?thesis
      using w g l1 end_log [OF assms(1)]
      by (auto simp: workflow_phase_def Let_def patch_ready_def split: sum.splits if_splits)
  next
    case True
    then obtain aw where "a = Inr aw" "is_ready L (aw_conditions aw)" by blast
    then have s: "stage_step C L (take_snapshot aw r2) w2 = (out, w')"
      using w g st by (simp add: workflow_phase_def Let_def)
    have "wf_meta (take_snapshot aw r2) = wf_meta r" by (simp add: take_snapshot_def wf_simps m2)
    with stage_step_log [OF assms(1,2) s] l1 l2 show ?thesis
      using run_of_stage_cong [of "take_snapshot aw r2" r] by simp
  qed
qed

section \<open>What a stage's run is given\<close>

text \<open>
  C12: the run built for a stage carries the position of the stage and the substituted guide under names
  that no variable of the user can override, passes only parameters its agent declares, so that the run
  controller accepts them as declared, and hands on exactly the execution that resolving the stage
  against its agent gives.
\<close>

theorem stage_run_contract:
  assumes "build_stage_run r stg i n ag = Inr c"
  shows "env_lookup (rs_env (ar_spec c)) ''KONVEYOR_WORKFLOW_STAGE'' =
      Some (plain_env ''KONVEYOR_WORKFLOW_STAGE'' (nat_text (i + 1))) \<and>
    env_lookup (rs_env (ar_spec c)) ''KONVEYOR_WORKFLOW_STAGE_COUNT'' =
      Some (plain_env ''KONVEYOR_WORKFLOW_STAGE_COUNT'' (nat_text n)) \<and>
    (wt_guide (wf_status r) \<noteq> [] \<longrightarrow> (\<exists>raw strs g.
       coerceWorkflowParams (wt_params (wf_status r)) (suppliedValues (wr_params (wf_spec r))) = Inr (raw, strs) \<and>
       substitute (wt_guide (wf_status r)) [scope_workflow \<mapsto> map_of strs] = Inr g \<and>
       rs_workflow_params (ar_spec c) = raw \<and>
       env_lookup (rs_env (ar_spec c)) ''KONVEYOR_WORKFLOW_GUIDE'' =
         Some (plain_env ''KONVEYOR_WORKFLOW_GUIDE'' g))) \<and>
    first_err (check_declared ag) (rs_params (ar_spec c)) = None \<and>
    executionSection (resolveExecution (rs_execution (ar_spec c)) (as_execution (ag_spec ag))) =
      executionSection (resolveExecution (ws_execution stg) (as_execution (ag_spec ag)))"
proof -
  obtain raw strs guide where
    co: "coerceWorkflowParams (wt_params (wf_status r)) (suppliedValues (wr_params (wf_spec r))) = Inr (raw, strs)"
    and gd: "workflow_guide_env r strs = Inr guide"
    and c: "c = stage_run_object r stg ag (wr_env (wf_spec r) @ guide @ stage_env i n) raw"
    using assms by (auto simp: build_stage_run_def split: sum.splits)
  have "first_err (check_declared ag) (rs_params (ar_spec c)) = None"
    unfolding first_err_None
    by (simp add: c stage_run_object_def stage_params_def check_declared_def)
  moreover have "wt_guide (wf_status r) \<noteq> [] \<Longrightarrow> \<exists>g. substitute (wt_guide (wf_status r)) [scope_workflow \<mapsto> map_of strs] = Inr g \<and>
      guide = [plain_env ''KONVEYOR_WORKFLOW_GUIDE'' g]"
    using gd by (auto simp: workflow_guide_env_def split: sum.splits)
  ultimately show ?thesis
    using co
    by (auto simp: c stage_run_object_def env_lookup_append stage_env_def env_lookup_def plain_env_def
        resolve_twice_section)
qed

section \<open>A sample workflow\<close>

definition flow_stage :: workflow_stage where
  "flow_stage = \<lparr>ws_name = ''plan'', ws_agent_ref = ''coder'', ws_instructions = ''now'', ws_execution = None\<rparr>"

definition flow :: agent_workflow where
  "flow = \<lparr>aw_meta = sample_meta ''flow'', aw_guide = ''guide'', aw_stages = [flow_stage], aw_params = [],
     aw_observed_generation = 1, aw_conditions = [\<lparr>cd_type = condition_ready, cd_status = CTrue,
       cd_generation = 1, cd_reason = ''Ready'', cd_message = Lit ''ok''\<rparr>]\<rparr>"

definition flow_run :: workflow_run where
  "flow_run = \<lparr>wf_meta = sample_meta ''run'',
     wf_spec = \<lparr>wr_workflow_ref = ''flow'', wr_gateway = [], wr_params = [], wr_env = [], wr_env_from = [],
       wr_file_mounts = [], wr_ttl = None\<rparr>,
     wf_status = empty_wf_status\<rparr>"

definition flow_client :: "agent_run list workflow_client" where
  "flow_client = (workflow_client_over (\<lambda>w. 5))
     \<lparr>wc_get_workflow := (\<lambda>k w. (Inr flow, w)), wc_get_agent := (\<lambda>k w. (Inr sample_agent, w)),
      wc_get_run := (\<lambda>k w. (Inr sample_run, w)), wc_create_run := (\<lambda>r w. (None, r # w))\<rparr>"

definition flow_config :: workflow_config where
  "flow_config = \<lparr>wg_default_ttl = None\<rparr>"

lemma flow_client_simps:
  "wc_get_workflow flow_client k w = (Inr flow, w)" "wc_get_agent flow_client k w = (Inr sample_agent, w)"
  "wc_get_run flow_client k w = (Inr sample_run, w)" "wc_create_run flow_client r w = (None, r # w)"
  "wc_now flow_client w = (5, w)" "wc_event flow_client r2 n m w = w"
  by (simp_all add: flow_client_def workflow_client_over_def)

lemma flow_records: "records_creations id flow_client"
  by (simp add: records_creations_def flow_client_simps)

lemma flow_build:
  "wt_params (wf_status r) = [] \<Longrightarrow> wr_params (wf_spec r) = [] \<Longrightarrow> wt_guide (wf_status r) = ''guide'' \<Longrightarrow>
   build_stage_run r stg i n ag = Inr (stage_run_object r stg ag
     (wr_env (wf_spec r) @ [plain_env ''KONVEYOR_WORKFLOW_GUIDE'' ''guide''] @ stage_env i n) None)"
  by (simp add: build_stage_run_def coerceWorkflowParams_def coerceParams_def workflow_guide_env_def
      substitute_def has_prefix_def)

definition flow_planned :: workflow_run where
  "flow_planned = update_wf (\<lambda>s. s\<lparr>wt_current_stage := ''plan'', wt_phase := Running\<rparr>)
     (take_snapshot flow (update_wf (\<lambda>s. s\<lparr>wt_start_time := Some 5, wt_phase := Pending\<rparr>)
       (observe_workflow flow_run)))"

definition flow_launched :: workflow_run where
  "flow_launched = set_wf_ready sample_lib
     (update_stage 0 (\<lambda>s. s\<lparr>ss_run_name := stageAgentRunName ''run'' ''plan'', ss_phase := Pending\<rparr>) flow_planned)
     CFalse ''StageRunning'' (Fmt ''Stage %q: AgentRun %q created'' [Lit ''plan'', Lit (stageAgentRunName ''run'' ''plan'')])"

lemma flow_planned_simps:
  "stages_of flow_planned = [plan_stage flow_stage]" "wf_name flow_planned = ''run''"
  "wf_namespace flow_planned = ''ns''" "wt_params (wf_status flow_planned) = []"
  "wr_params (wf_spec flow_planned) = []" "wt_guide (wf_status flow_planned) = ''guide''"
  by (simp_all add: flow_planned_def wf_simps take_snapshot_def observe_workflow_def)
    (simp_all add: flow_run_def empty_wf_status_def flow_def wf_name_def wf_namespace_def sample_meta_def
      new_meta_def)

lemma flow_create: "\<exists>c. createAgentRunForStage flow_client sample_lib flow_planned flow_stage i n w =
    (Inr (stageAgentRunName ''run'' ''plan''), c # w)"
  by (simp add: createAgentRunForStage_def flow_client_simps Let_def flow_build flow_planned_simps
      create_stage_run_def ar_name_def)
    (simp add: sample_lib_def stage_run_object_def new_meta_def flow_planned_simps flow_stage_def flow_client_simps
      ar_name_def)

lemma flow_decide:
  "\<exists>c. decide_workflow flow_config flow_client sample_lib flow_run [] = (PatchRun flow_launched no_requeue None, [c])"
proof -
  have s: "stage_of (plan_stage flow_stage) = flow_stage" by (simp add: stage_of_def plan_stage_def flow_stage_def)
  have r: "is_ready sample_lib (aw_conditions flow)" by (simp add: is_ready_def sample_lib_def flow_def)
  have f: "wf_phase flow_run = NoPhase" "stages_of flow_run = []" "wt_start_time (wf_status flow_run) = None"
    by (simp_all add: flow_run_def empty_wf_status_def)
  let ?r1 = "take_snapshot flow (update_wf (\<lambda>s. s\<lparr>wt_start_time := Some 5, wt_phase := Pending\<rparr>)
       (observe_workflow flow_run))"
  have st: "stages_of ?r1 = [plan_stage flow_stage]"
    using flow_planned_simps(1) by (simp add: flow_planned_def wf_simps)
  have n: "ss_run_name (plan_stage flow_stage) = []" "ss_name (plan_stage flow_stage) = ''plan''"
    "ss_phase (plan_stage flow_stage) = Pending"
    by (simp_all add: plan_stage_def flow_stage_def)
  obtain c where c: "createAgentRunForStage flow_client sample_lib flow_planned flow_stage 0 1 [] =
      (Inr (stageAgentRunName ''run'' ''plan''), [c])" using flow_create by blast
  have p: "update_wf (\<lambda>s. s\<lparr>wt_current_stage := ''plan'', wt_phase := Running\<rparr>) ?r1 = flow_planned"
    by (simp add: flow_planned_def)
  have "stage_step flow_client sample_lib ?r1 [] = (PatchRun flow_launched no_requeue None, [c])"
    using c s by (simp add: stage_step_def Let_def findCurrentStageIndex_def st n p launch_stage_def
        flow_planned_simps patch_ready_def flow_launched_def) (simp add: flow_stage_def)
  moreover have "workflow_phase flow_client sample_lib (observe_workflow flow_run) [] = stage_step flow_client sample_lib ?r1 []"
    using r f by (simp add: workflow_phase_def Let_def flow_client_simps start_workflow_def)
      (simp add: observe_workflow_def wf_simps)
  ultimately show ?thesis using f by (simp add: decide_workflow_def Let_def wf_simps)
qed

definition flow_after :: workflow_run where
  "flow_after = with_wf_status flow_run flow_launched"

lemma flow_step: "wf_step flow_config flow_client sample_lib flow_run flow_after"
  using flow_decide by (auto simp: flow_after_def intro: wf_step.patch)

lemma flow_fresh: "wf_reachable flow_config flow_client sample_lib flow_run"
  by (rule wf_reachable.fresh) (simp add: flow_run_def)

lemma flow_reachable: "wf_reachable flow_config flow_client sample_lib flow_after"
  by (rule wf_reachable.step [OF flow_fresh flow_step])

lemma flow_children: "\<forall>k w c w'. wc_get_run flow_client k w = (Inr c, w') \<longrightarrow>
    run_reachable sample_config null_client sample_lib c"
  by (simp add: flow_client_simps) (auto intro!: run_reachable.fresh simp: fresh_run_def sample_run_def)

lemma flow_consistent: "children_consistent flow_client sample_lib"
  using reachable_inv [OF sample_conditions_ok, of sample_config null_client] flow_children
  by (simp add: children_consistent_def run_inv_def)

lemma flow_after_stages: "stages_of flow_after = [(plan_stage flow_stage)\<lparr>ss_run_name := stageAgentRunName ''run'' ''plan''\<rparr>]"
  by (simp add: flow_after_def wf_simps flow_launched_def flow_planned_simps) (simp add: plan_stage_def)

lemma workflow_refines_sequencer_witness:
  "seq_step\<^sup>*\<^sup>* ([], Going) (seq_of flow_run) \<and> seq_step\<^sup>*\<^sup>* (seq_of flow_run) (seq_of flow_after)"
  using workflow_refines_sequencer [OF sample_conditions_ok flow_children flow_fresh] flow_step by blast

lemma stages_run_in_order_witness:
  "wf_outcome_ok sample_lib flow_after \<and> stages_of flow_after \<noteq> []"
  using stages_run_in_order [OF sample_conditions_ok flow_consistent flow_reachable] flow_after_stages by simp

lemma flow_second:
  "\<exists>r'. decide_workflow flow_config flow_client sample_lib flow_after w = (PatchRun r' no_requeue None, w)"
proof -
  have r: "is_ready sample_lib (aw_conditions flow)" by (simp add: is_ready_def sample_lib_def flow_def)
  have n: "ss_phase (plan_stage flow_stage) = Pending" by (simp add: plan_stage_def)
  have p: "wf_phase flow_after = Running" "wt_start_time (wf_status flow_after) = Some 5"
    by (simp_all add: flow_after_def wf_simps flow_launched_def)
      (simp_all add: flow_planned_def wf_simps take_snapshot_def observe_workflow_def with_wf_status_def set_wf_ready_def
        update_stage_def)
  have f: "find_condition sample_lib (st_conditions (ar_status sample_run)) cond_succeeded = None"
    by (simp add: sample_lib_def sample_run_def empty_status_def)
  have o: "take_snapshot flow (observe_workflow flow_after) = observe_workflow flow_after"
    by (simp add: take_snapshot_def wf_simps flow_after_stages)
  have "start_workflow flow_client (observe_workflow flow_after) w = (observe_workflow flow_after, w)"
    using p(2) by (simp add: start_workflow_def) (simp add: observe_workflow_def wf_simps)
  then show ?thesis
    using r p(1) by (simp add: decide_workflow_def Let_def wf_simps workflow_phase_def flow_client_simps o stage_step_def
        findCurrentStageIndex_def flow_after_stages n watch_stage_def f patch_ready_def stage_name_not_Nil)
qed

lemma snapshot_frozen_witness:
  "\<exists>r2. wf_step flow_config flow_client sample_lib flow_after r2 \<and> snapshot_of r2 = snapshot_of flow_after"
proof -
  obtain r' where "decide_workflow flow_config flow_client sample_lib flow_after [] = (PatchRun r' no_requeue None, [])"
    using flow_second by blast
  then have s: "wf_step flow_config flow_client sample_lib flow_after (with_wf_status flow_after r')"
    by (rule wf_step.patch)
  have "stages_of flow_after \<noteq> []" by (simp add: flow_after_stages)
  moreover have "(wf_step flow_config flow_client sample_lib)\<^sup>*\<^sup>* flow_after (with_wf_status flow_after r')"
    using s by (rule r_into_rtranclp)
  ultimately have "snapshot_of (with_wf_status flow_after r') = snapshot_of flow_after"
    by (rule snapshot_frozen [OF sample_conditions_ok flow_consistent flow_reachable])
  with s
  show ?thesis by blast
qed

lemma stages_created_in_turn_witness:
  "\<exists>c i. fst (decide_workflow flow_config flow_client sample_lib flow_run []) =
       PatchRun flow_launched no_requeue None \<and> i < length (stages_of flow_launched) \<and>
     run_of_stage flow_run (stages_of flow_launched ! i) c"
proof -
  obtain c where d: "decide_workflow flow_config flow_client sample_lib flow_run [] =
      (PatchRun flow_launched no_requeue None, [c])" using flow_decide by blast
  from stages_created_in_turn [OF flow_records sample_owners_ok d] d show ?thesis by auto
qed

lemma stage_run_contract_witness:
  "\<exists>c. build_stage_run flow_planned flow_stage 0 1 sample_agent = Inr c \<and>
     env_lookup (rs_env (ar_spec c)) ''KONVEYOR_WORKFLOW_STAGE'' =
       Some (plain_env ''KONVEYOR_WORKFLOW_STAGE'' (nat_text (0 + 1)))"
proof -
  note b = flow_build [OF flow_planned_simps(4,5,6), of flow_stage 0 1 sample_agent]
  from stage_run_contract [OF b] b show ?thesis by blast
qed

end
