(* ===== verification/Jobs.thy ===== *)
theory Jobs
  imports ApiTypes
begin

text \<open>
  The Kubernetes Jobs two controllers run: the verification Job of a Gateway and the enumeration Job of a
  SkillCollection.  Each has one container in a pod admissible under the restricted Pod Security
  Standards; its answer is read from the Job's conditions.
\<close>

record container_security =
  cx_escalation :: bool
  cx_read_only_root :: bool
  cx_drop :: "string list"

record job =
  jb_meta :: objmeta
  jb_backoff :: int
  jb_deadline :: int
  jb_pod_labels :: "string \<Rightarrow> string option"
  jb_service_account :: string
  jb_run_as_non_root :: bool
  jb_seccomp :: string
  jb_security :: container_security
  jb_pull_policy :: string
  jb_pod :: pod_spec
  jb_conditions :: "condition list"

definition jb_name :: "job \<Rightarrow> string" where
  "jb_name j = om_name (jb_meta j)"

definition isJobComplete :: "job \<Rightarrow> bool" where
  "isJobComplete j \<longleftrightarrow>
     list_ex (\<lambda>c. (cd_type c = ''Complete'' \<or> cd_type c = ''Failed'') \<and> cd_status c = CTrue) (jb_conditions j)"

definition isJobSucceeded :: "job \<Rightarrow> bool" where
  "isJobSucceeded j \<longleftrightarrow>
     list_ex (\<lambda>c. cd_type c = ''Complete'' \<and> cd_status c = CTrue) (jb_conditions j)"

lemma succeeded_complete: "isJobSucceeded j \<Longrightarrow> isJobComplete j"
  by (auto simp: isJobSucceeded_def isJobComplete_def list_ex_iff)

text \<open>What the restricted Pod Security Standards ask of such a pod.\<close>

definition hardened :: "container_security" where
  "hardened = \<lparr>cx_escalation = False, cx_read_only_root = True, cx_drop = [''ALL'']\<rparr>"

definition restricted_pod :: "job \<Rightarrow> bool" where
  "restricted_pod j \<longleftrightarrow>
     jb_run_as_non_root j \<and> jb_seccomp j = ''RuntimeDefault'' \<and> \<not> cx_escalation (jb_security j) \<and>
     ''ALL'' \<in> set (cx_drop (jb_security j))"

datatype propagation = Background | Foreground

end
