(* ===== verification/Text.thy ===== *)
theory Text
  imports Utf8
begin

text \<open>
  The functions of \<open>strings\<close> that work on runes: \<open>TrimSpace\<close>, \<open>Fields\<close>, \<open>ToLower\<close> as far as
  comparisons with ASCII constants can tell, and \<open>CutPrefix\<close>.
\<close>

section \<open>White space\<close>

text \<open>\<open>unicode.IsSpace\<close>.\<close>

definition space_rune :: "nat \<Rightarrow> bool" where
  "space_rune r \<longleftrightarrow> (9 \<le> r \<and> r \<le> 13) \<or> r = 32 \<or> r = 133 \<or> r = 160 \<or> r = 5760 \<or>
     (8192 \<le> r \<and> r \<le> 8202) \<or> r = 8232 \<or> r = 8233 \<or> r = 8239 \<or> r = 8287 \<or> r = 12288"

definition unchunk :: "(nat \<times> string) list \<Rightarrow> string" where
  "unchunk cs = concat (map snd cs)"

definition trim_space :: "string \<Rightarrow> string" where
  "trim_space s =
     unchunk (rev (dropWhile (space_rune \<circ> fst) (rev (dropWhile (space_rune \<circ> fst) (rune_chunks s)))))"

text \<open>The maximal runs between elements that satisfy a predicate, empty ones included.\<close>

fun split_by :: "('a \<Rightarrow> bool) \<Rightarrow> 'a list \<Rightarrow> 'a list list" where
  "split_by P [] = [[]]"
| "split_by P (x # xs) =
     (if P x then [] # split_by P xs
      else (case split_by P xs of [] \<Rightarrow> [[x]] | p # ps \<Rightarrow> (x # p) # ps))"

definition split_fields :: "string \<Rightarrow> string list" where
  "split_fields s =
     map unchunk (filter (\<lambda>p. p \<noteq> []) (split_by (space_rune \<circ> fst) (rune_chunks s)))"

lemma split_by_none: "\<forall>x \<in> set xs. \<not> P x \<Longrightarrow> split_by P xs = [xs]"
  by (induction xs) auto

lemma split_by_append:
  "\<forall>x \<in> set xs. \<not> P x \<Longrightarrow> P y \<Longrightarrow> split_by P (xs @ y # ys) = xs # split_by P ys"
  by (induction xs) auto

text \<open>A word: not empty, ASCII, no white space.\<close>

definition plain_word :: "string \<Rightarrow> bool" where
  "plain_word s \<longleftrightarrow> s \<noteq> [] \<and> list_all (\<lambda>c. byte c < 128 \<and> \<not> space_rune (byte c)) s"

lemma plain_word_ascii: "plain_word s \<Longrightarrow> ascii s"
  by (auto simp: plain_word_def ascii_def list_all_iff)

lemma unchunk_ascii [simp]: "unchunk (map (\<lambda>c. (byte c, [c])) s) = s"
  by (induction s) (simp_all add: unchunk_def)

lemma plain_word_no_space:
  "plain_word s \<Longrightarrow> \<forall>x \<in> set (map (\<lambda>c. (byte c, [c])) s). \<not> (space_rune \<circ> fst) x"
  by (auto simp: plain_word_def list_all_iff)

lemma split_fields_word: "plain_word s \<Longrightarrow> split_fields s = [s]"
  using plain_word_no_space [of s]
  by (simp add: split_fields_def rune_chunks_ascii plain_word_ascii split_by_none)
    (simp add: plain_word_def)

lemma split_fields_two:
  assumes "plain_word a" and "plain_word b"
  shows "split_fields (a @ '' '' @ b) = [a, b]"
proof -
  let ?m = "map (\<lambda>c. (byte c, [c]))"
  have sp: "(space_rune \<circ> fst) (byte CHR '' '', '' '')"
    by (simp add: space_rune_def byte_def)
  have "ascii (a @ '' '' @ b)"
    using assms [THEN plain_word_ascii] by (simp add: ascii_def byte_def)
  then have c: "rune_chunks (a @ '' '' @ b) = ?m a @ (byte CHR '' '', '' '') # ?m b"
    by (simp add: rune_chunks_ascii)
  have "split_by (space_rune \<circ> fst) (rune_chunks (a @ '' '' @ b)) = [?m a, ?m b]"
    unfolding c split_by_append [OF plain_word_no_space [OF assms(1)] sp]
      split_by_none [OF plain_word_no_space [OF assms(2)]] ..
  then show ?thesis
    using assms by (simp add: split_fields_def plain_word_def)
qed

lemma dropWhile_all_not: "\<forall>x \<in> set xs. \<not> P x \<Longrightarrow> dropWhile P xs = xs"
  by (cases xs) auto

lemma trim_space_word: "plain_word s \<Longrightarrow> trim_space s = s"
  using plain_word_no_space [of s]
  by (simp add: trim_space_def rune_chunks_ascii plain_word_ascii dropWhile_all_not)

lemma plain_word_append: "plain_word a \<Longrightarrow> plain_word b \<Longrightarrow> plain_word (a @ b)"
  by (simp add: plain_word_def)

section \<open>Lower case\<close>

text \<open>
  \<open>strings.ToLower\<close> on the runes whose lower case is ASCII: the capitals, the Kelvin sign and the capital
  \<open>I\<close> with a dot.  Every other rune is kept, where Go may map it to another rune outside ASCII: the two
  agree on every comparison with an ASCII text, which is all the code does with the result.
\<close>

definition lower_chunk :: "nat \<times> string \<Rightarrow> string" where
  "lower_chunk c =
     (let r = fst c in
      if 65 \<le> r \<and> r \<le> 90 then [char_of (r + 32)]
      else if r = 8490 then ''k''
      else if r = 304 then ''i''
      else snd c)"

definition to_lower :: "string \<Rightarrow> string" where
  "to_lower s = concat (map lower_chunk (rune_chunks s))"

section \<open>Prefixes\<close>

definition cut_prefix :: "string \<Rightarrow> string \<Rightarrow> string option" where
  "cut_prefix s p = (if has_prefix s p then Some (drop (length p) s) else None)"

lemma cut_prefix_append [simp]: "cut_prefix (p @ s) p = Some s"
  by (simp add: cut_prefix_def)

lemma cut_prefix_Some: "cut_prefix s p = Some t \<longleftrightarrow> s = p @ t"
  by (auto simp: cut_prefix_def has_prefix_iff)

end
