(* ===== verification/GatewayProbe.thy ===== *)
theory GatewayProbe
  imports Jobs Names Text RunClient
begin

text \<open>
  The pure half of the Gateway controller (\<open>internal/controller/gateway_controller.go\<close>): providers, the
  probe command, the credential digest and the names derived from it, and the reading of the probe's
  diagnostic line.
\<close>

section \<open>Providers\<close>

definition provider_anthropic :: string where "provider_anthropic = ''anthropic''"
definition provider_openai :: string where "provider_openai = ''openai''"
definition provider_xai :: string where "provider_xai = ''xai''"
definition provider_gcp_vertex :: string where "provider_gcp_vertex = ''gcp_vertex_ai''"
definition provider_aws_bedrock :: string where "provider_aws_bedrock = ''aws_bedrock''"

definition normalizeProvider :: "string \<Rightarrow> string" where
  "normalizeProvider p = map (\<lambda>c. if c = CHR ''-'' then CHR ''_'' else c) (to_lower p)"

definition knownProviders :: "string list" where
  "knownProviders =
     [provider_anthropic, provider_openai, provider_xai, provider_gcp_vertex, provider_aws_bedrock]"

definition providersWithoutModelsProbe :: "string list" where
  "providersWithoutModelsProbe = [provider_aws_bedrock, provider_gcp_vertex]"

definition hasModelsProbe :: "string \<Rightarrow> bool" where
  "hasModelsProbe p \<longleftrightarrow> normalizeProvider p \<notin> set providersWithoutModelsProbe"

section \<open>The probe command\<close>

definition script_nl :: string where
  "script_nl = [CHR 0x0A]"

definition anthropicAPIVersion :: string where "anthropicAPIVersion = ''2023-06-01''"
definition verificationHTTPCodePattern :: string where "verificationHTTPCodePattern = ''^2''"
definition endpointModelsProbe :: string where "endpointModelsProbe = ''$LLM_ENDPOINT/v1/models''"

definition gatewayVerificationAuthHeader :: "string \<Rightarrow> string" where
  \<open>gatewayVerificationAuthHeader provider =
     (if normalizeProvider provider = provider_anthropic
      then '' -H "x-api-key: $LLM_API_KEY" -H "anthropic-version: '' @ anthropicAPIVersion @ ''"''
      else '' -H "Authorization: Bearer $LLM_API_KEY"'')\<close>

definition gatewayVerificationCurlCommand :: "string \<Rightarrow> bool \<Rightarrow> string" where
  \<open>gatewayVerificationCurlCommand provider includeAuth =
     (let curl = ''curl -sk --max-time 10 -o /dev/null -w '' @ [CHR 0x27] @ ''%{http_code}'' @ [CHR 0x27]
            @ (if includeAuth then gatewayVerificationAuthHeader provider else '''')
            @ '' "'' @ endpointModelsProbe @ ''"'';
          authArm = (if includeAuth
            then script_nl @ ''401|403) echo "auth code=$code" > /dev/termination-log ;;'' else '''')
      in ''code=$('' @ curl @ ''); rc=$?'' @ script_nl
         @ ''if [ "$rc" -ne 0 ]; then echo "unreachable rc=$rc" > /dev/termination-log; exit 1; fi'' @ script_nl
         @ ''if echo "$code" | grep -qE '' @ [CHR 0x27] @ verificationHTTPCodePattern @ [CHR 0x27]
         @ ''; then echo "ok code=$code" > /dev/termination-log; exit 0; fi'' @ script_nl
         @ ''case "$code" in'' @ authArm @ script_nl
         @ ''*) echo "http code=$code" > /dev/termination-log ;;'' @ script_nl
         @ ''esac'' @ script_nl
         @ ''exit 1'')\<close>

section \<open>The credential digest\<close>

text \<open>\<open>hashCredentialField\<close>: what it writes into the hash, the length first.\<close>

definition hashCredentialField :: "u8 list \<Rightarrow> u8 list" where
  "hashCredentialField b = be_bytes (of_nat (length b)) @ b"

text \<open>A Go map index on the data of a Secret: no bytes when the key is absent.\<close>

definition secret_value :: "secret \<Rightarrow> string \<Rightarrow> string" where
  "secret_value s k = (case map_of (sec_data s) k of None \<Rightarrow> [] | Some v \<Rightarrow> v)"

text \<open>The keys and values a credential reference selects, in the order they are hashed.\<close>

definition credential_pairs :: "credential_ref \<Rightarrow> secret \<Rightarrow> (string \<times> string) list" where
  "credential_pairs r s =
     (if cr_key r \<noteq> [] then [(cr_key r, secret_value s (cr_key r))]
      else map (\<lambda>k. (k, secret_value s k)) (sort_compact (map fst (sec_data s))))"

definition hash_pair :: "string \<times> string \<Rightarrow> u8 list" where
  "hash_pair p = hashCredentialField (bytes_of (fst p)) @ hashCredentialField (bytes_of (snd p))"

definition credential_material :: "credential_ref \<Rightarrow> secret \<Rightarrow> u8 list" where
  "credential_material r s = concat (map hash_pair (credential_pairs r s))"

definition credentialHash :: "credential_ref \<Rightarrow> secret \<Rightarrow> string" where
  "credentialHash r s = hex_encode (sha256 (credential_material r s))"

definition shortCredentialHash :: "string \<Rightarrow> string" where
  "shortCredentialHash h = (if length h \<le> 8 then h else take 8 h)"

definition verificationJobPrefix :: string where
  "verificationJobPrefix = ''gw-verify-''"

definition verificationJobName :: "gateway \<Rightarrow> string \<Rightarrow> string" where
  "verificationJobName g h =
     sanitizeVolumeName (verificationJobPrefix @ om_name (gw_meta g) @ ''-gen''
       @ int_text (om_generation (gw_meta g)) @ ''-'' @ shortCredentialHash h)"

definition gatewayLabelValue :: "gateway \<Rightarrow> string" where
  "gatewayLabelValue g = sanitizeVolumeName (om_name (gw_meta g))"

section \<open>The diagnostic line\<close>

definition reasonConnectionVerified :: string where
  "reasonConnectionVerified = ''ConnectionVerified''"
definition reasonConnectionFailed :: string where
  "reasonConnectionFailed = ''ConnectionFailed''"
definition reasonAuthenticationFailed :: string where
  "reasonAuthenticationFailed = ''AuthenticationFailed''"
definition reasonEndpointUnreachable :: string where
  "reasonEndpointUnreachable = ''EndpointUnreachable''"
definition reasonVerificationSkipped :: string where
  "reasonVerificationSkipped = ''VerificationSkipped''"

lemmas reason_defs = reasonConnectionVerified_def reasonConnectionFailed_def
  reasonAuthenticationFailed_def reasonEndpointUnreachable_def reasonVerificationSkipped_def

definition isTerminalReadyReason :: "string \<Rightarrow> bool" where
  "isTerminalReadyReason r \<longleftrightarrow>
     r \<in> {reasonConnectionVerified, reasonConnectionFailed, reasonAuthenticationFailed,
          reasonEndpointUnreachable, reasonVerificationSkipped}"

fun diagValue :: "string list \<Rightarrow> string \<Rightarrow> string" where
  "diagValue [] key = []"
| "diagValue (f # fs) key =
     (case cut_prefix f (key @ ''='') of Some v \<Rightarrow> v | None \<Rightarrow> diagValue fs key)"

definition curlErrorPhrase :: "string \<Rightarrow> string" where
  "curlErrorPhrase rc =
     (if rc = ''6'' then ''curl exit 6: could not resolve host''
      else if rc = ''7'' then ''curl exit 7: connection refused''
      else if rc = ''28'' then ''curl exit 28: timed out''
      else if rc = '''' then ''connection error''
      else ''curl exit '' @ rc @ '': transport error'')"

definition gatewayVerifyReason :: "string \<Rightarrow> string \<Rightarrow> string \<Rightarrow> bool \<Rightarrow> string \<times> msg" where
  "gatewayVerifyReason diag endpoint jobName succeeded =
     (let words = split_fields diag; code = diagValue words ''code'';
          kind = (case words of [] \<Rightarrow> None | f # _ \<Rightarrow> Some f)
      in if succeeded then
           (reasonConnectionVerified,
            if kind = Some ''ok'' \<and> code \<noteq> []
            then Fmt ''Endpoint %s is reachable (HTTP %s)'' [Lit endpoint, Lit code]
            else Fmt ''Endpoint %s is reachable'' [Lit endpoint])
         else if kind = Some ''auth'' \<and> code \<noteq> [] then
           (reasonAuthenticationFailed,
            Fmt ''Endpoint %s/v1/models returned HTTP %s - check the credential secret's API key''
              [Lit endpoint, Lit code])
         else if kind = Some ''http'' \<and> code \<noteq> [] then
           (reasonConnectionFailed, Fmt ''Endpoint %s/v1/models returned HTTP %s'' [Lit endpoint, Lit code])
         else if kind = Some ''unreachable'' then
           (reasonEndpointUnreachable,
            Fmt ''Endpoint %s is unreachable (%s)'' [Lit endpoint, Lit (curlErrorPhrase (diagValue words ''rc''))])
         else (reasonConnectionFailed, Fmt ''Verification Job %q failed'' [Lit jobName]))"

text \<open>The message of the \<open>verify\<close> container wins; the last other message is the fallback.\<close>

definition verifyContainerName :: string where
  "verifyContainerName = ''verify''"

fun diagnostic_of :: "container_status list \<Rightarrow> string \<Rightarrow> string" where
  "diagnostic_of [] fallback = fallback"
| "diagnostic_of (c # cs) fallback =
     (case cs_terminated c of
        None \<Rightarrow> diagnostic_of cs fallback
      | Some t \<Rightarrow>
          (let m = trim_space (tm_message t) in
           if m = [] then diagnostic_of cs fallback
           else if cs_name c = verifyContainerName then m
           else diagnostic_of cs m))"

end
