(* ===== verification/Gateway.thy ===== *)
theory Gateway
  imports GatewayProbe Sandbox Ttl
begin

text \<open>
  The Gateway reconciler (\<open>internal/controller/gateway_controller.go\<close>): it checks the credential, runs one
  verification Job per generation and credential, and settles the Ready condition from the Job's answer.
\<close>

section \<open>The environment\<close>

record 'w gateway_client =
  gc_get_gateway :: "nskey \<Rightarrow> ('w, gateway) call"
  gc_get_secret :: "nskey \<Rightarrow> ('w, secret) call"
  gc_get_job :: "nskey \<Rightarrow> ('w, job) call"
  gc_list_jobs :: "string \<Rightarrow> label_selector \<Rightarrow> ('w, job list) call"
  gc_create_job :: "job \<Rightarrow> 'w command"
  gc_delete_job :: "propagation \<Rightarrow> job \<Rightarrow> 'w command"
  gc_live_list_pods :: "string \<Rightarrow> label_selector \<Rightarrow> ('w, pod list) call"
  gc_patch_status :: "gateway \<Rightarrow> gateway \<Rightarrow> 'w command"
  gc_list_gateways :: "string \<Rightarrow> string \<Rightarrow> ('w, gateway list) call"

record gateway_config =
  gf_verification_image :: string

definition default_verification_image :: string where
  "default_verification_image = ''quay.io/konveyor/agentic-controller-agent:latest''"

definition verificationDeadline :: int where
  "verificationDeadline = 120"

definition componentGatewayVerification :: string where
  "componentGatewayVerification = ''gateway-verification''"

definition gateway_kind :: string where
  "gateway_kind = ''Gateway''"

definition gw_namespace :: "gateway \<Rightarrow> string" where
  "gw_namespace g = om_namespace (gw_meta g)"

definition gw_generation :: "gateway \<Rightarrow> int" where
  "gw_generation g = om_generation (gw_meta g)"

section \<open>The verification Job\<close>

definition verification_labels :: "gateway \<Rightarrow> (string \<times> string) list" where
  "verification_labels g =
     [(label_managed_by, managed_by), (label_component, componentGatewayVerification),
      (label_gateway, gatewayLabelValue g)]"

fun delete_jobs_except ::
  "'w gateway_client \<Rightarrow> string \<Rightarrow> job list \<Rightarrow> 'w \<Rightarrow> 'w" where
  "delete_jobs_except C keep [] w = w"
| "delete_jobs_except C keep (j # js) w =
     (if jb_name j = keep then delete_jobs_except C keep js w
      else delete_jobs_except C keep js (snd (gc_delete_job C Background j w)))"

definition deleteVerificationJobs ::
  "'w gateway_client \<Rightarrow> gateway \<Rightarrow> string \<Rightarrow> 'w \<Rightarrow> err option \<times> 'w" where
  "deleteVerificationJobs C g keep w =
     (case gc_list_jobs C (gw_namespace g) (verification_labels g) w of
        (Inl e, w') \<Rightarrow> (Some e, w')
      | (Inr jobs, w') \<Rightarrow> (None, delete_jobs_except C keep jobs w'))"

definition verification_env :: "gateway \<Rightarrow> env_var list" where
  "verification_env g =
     \<lparr>ev_name = ''LLM_ENDPOINT'', ev_value = gw_endpoint g, ev_from = None\<rparr> #
     (if cr_key (gw_credential g) \<noteq> []
      then [\<lparr>ev_name = ''LLM_API_KEY'', ev_value = [],
             ev_from = Some (SecretKeyRef (cr_secret (gw_credential g)) (cr_key (gw_credential g)))\<rparr>]
      else [])"

definition verification_container :: "gateway_config \<Rightarrow> gateway \<Rightarrow> container" where
  "verification_container cfg g =
     \<lparr>ct_name = verifyContainerName,
      ct_image = (if gf_verification_image cfg = [] then default_verification_image
                  else gf_verification_image cfg),
      ct_command = [''sh'', ''-c'',
        gatewayVerificationCurlCommand (gw_provider g) (cr_key (gw_credential g) \<noteq> [])],
      ct_args = [], ct_env = verification_env g, ct_env_from = [], ct_mounts = [], ct_ports = [],
      ct_tcp_probe = None, ct_fallback_to_logs = False\<rparr>"

definition verification_job :: "gateway_config \<Rightarrow> gateway \<Rightarrow> string \<Rightarrow> job" where
  "verification_job cfg g name =
     \<lparr>jb_meta = new_meta (gw_namespace g) name (map_of (verification_labels g)),
      jb_backoff = 0, jb_deadline = verificationDeadline,
      jb_pod_labels = Map.empty, jb_service_account = [],
      jb_run_as_non_root = True, jb_seccomp = ''RuntimeDefault'', jb_security = hardened,
      jb_pull_policy = ''IfNotPresent'',
      jb_pod = \<lparr>ps_restart = ''Never'', ps_init = [], ps_containers = [verification_container cfg g],
        ps_volumes = []\<rparr>,
      jb_conditions = []\<rparr>"

definition createVerificationJob ::
  "gateway_config \<Rightarrow> 'w gateway_client \<Rightarrow> klib \<Rightarrow> gateway \<Rightarrow> string \<Rightarrow> 'w \<Rightarrow> err option \<times> 'w" where
  "createVerificationJob cfg C L g name w =
     (let j = verification_job cfg g name
      in case set_controller_ref L gateway_kind (gw_meta g) (jb_meta j) of
           Inl e \<Rightarrow> (Some (wrapf ''setting owner reference: %w'' [] e), w)
         | Inr m \<Rightarrow> gc_create_job C (j\<lparr>jb_meta := m\<rparr>) w)"

definition verificationDiagnostic ::
  "'w gateway_client \<Rightarrow> string \<Rightarrow> string \<Rightarrow> string \<Rightarrow> 'w \<Rightarrow> string \<times> 'w" where
  "verificationDiagnostic C ns jobName uid w =
     (case gc_live_list_pods C ns
            [(''batch.kubernetes.io/job-name'', jobName), (''batch.kubernetes.io/controller-uid'', uid)] w of
        (Inl e, w') \<Rightarrow> ([], w')
      | (Inr pods, w') \<Rightarrow> (diagnostic_of (concat (map pod_statuses pods)) [], w'))"

section \<open>Reconcile\<close>

definition gw_set_ready :: "klib \<Rightarrow> gateway \<Rightarrow> cond_status \<Rightarrow> string \<Rightarrow> msg \<Rightarrow> gateway" where
  "gw_set_ready L g status reason message =
     g\<lparr>gw_conditions := set_condition L (gw_conditions g)
         \<lparr>cd_type = condition_ready, cd_status = status, cd_generation = gw_generation g,
          cd_reason = reason, cd_message = message\<rparr>\<rparr>"

definition patch_gateway ::
  "klib \<Rightarrow> gateway \<Rightarrow> bool \<Rightarrow> cond_status \<Rightarrow> string \<Rightarrow> msg \<Rightarrow> gateway outcome" where
  "patch_gateway L g verified status reason message =
     PatchRun (gw_set_ready L (g\<lparr>gw_connection_verified := verified\<rparr>) status reason message) no_requeue None"

text \<open>What is wrong with the data of the credential Secret, if anything.\<close>

definition credential_problem :: "credential_ref \<Rightarrow> secret \<Rightarrow> (string \<times> msg) option" where
  "credential_problem r s =
     (if cr_key r \<noteq> [] then
        (if map_of (sec_data s) (cr_key r) = None
         then Some (''CredentialKeyNotFound'',
                Fmt ''Key %q not found in Secret %q'' [Lit (cr_key r), Lit (cr_secret r)])
         else None)
      else if sec_data s = []
      then Some (''CredentialSecretEmpty'', Fmt ''Secret %q has no data keys'' [Lit (cr_secret r)])
      else None)"

text \<open>The Ready condition speaks for this generation and the credential now in the Secret.\<close>

definition settled :: "klib \<Rightarrow> gateway \<Rightarrow> string \<Rightarrow> bool" where
  "settled L g h =
     (case find_condition L (gw_conditions g) condition_ready of
        None \<Rightarrow> False
      | Some c \<Rightarrow> cd_generation c = gw_generation g \<and> gw_verified_hash g = h)"

definition ready_reason :: "klib \<Rightarrow> gateway \<Rightarrow> string" where
  "ready_reason L g =
     (case find_condition L (gw_conditions g) condition_ready of None \<Rightarrow> [] | Some c \<Rightarrow> cd_reason c)"

definition verifying :: "klib \<Rightarrow> gateway \<Rightarrow> gateway outcome" where
  "verifying L g =
     patch_gateway L g False CFalse ''Verifying'' (Lit ''Connectivity verification in progress'')"

definition skip_probe ::
  "'w gateway_client \<Rightarrow> klib \<Rightarrow> gateway \<Rightarrow> string \<Rightarrow> 'w \<Rightarrow> gateway outcome \<times> 'w" where
  "skip_probe C L g h w =
     (case deleteVerificationJobs C g [] w of
        (Some e, w') \<Rightarrow> (Finish no_requeue (Some e), w')
      | (None, w') \<Rightarrow>
          (patch_gateway L (g\<lparr>gw_verified_hash := h\<rparr>) False CTrue reasonVerificationSkipped
             (Fmt ''Provider %q has no OpenAI-compatible /v1/models to probe; endpoint and credentials are unverified''
                [Lit (gw_provider g)]), w'))"

text \<open>The Job has finished: its answer is stamped with the credential it describes, then it is deleted.\<close>

definition record_answer ::
  "'w gateway_client \<Rightarrow> klib \<Rightarrow> gateway \<Rightarrow> string \<Rightarrow> job \<Rightarrow> 'w \<Rightarrow> gateway outcome \<times> 'w" where
  "record_answer C L g h j w =
     (let name = verificationJobName g h
      in case verificationDiagnostic C (gw_namespace g) name (om_uid (jb_meta j)) w of
           (diag, w1) \<Rightarrow>
             (case gatewayVerifyReason diag (gw_endpoint g) name (isJobSucceeded j) of
                (reason, message) \<Rightarrow>
                  (patch_gateway L (g\<lparr>gw_verified_hash := h\<rparr>) (isJobSucceeded j)
                     (if isJobSucceeded j then CTrue else CFalse) reason message,
                   snd (gc_delete_job C Background j w1))))"

definition probe_gateway ::
  "gateway_config \<Rightarrow> 'w gateway_client \<Rightarrow> klib \<Rightarrow> gateway \<Rightarrow> string \<Rightarrow> 'w \<Rightarrow> gateway outcome \<times> 'w" where
  "probe_gateway cfg C L g h w =
     (let name = verificationJobName g h
      in case deleteVerificationJobs C g name w of
           (Some e, w1) \<Rightarrow> (Finish no_requeue (Some e), w1)
         | (None, w1) \<Rightarrow>
             (case gc_get_job C (nskey_of (gw_namespace g) name) w1 of
                (Inl e, w2) \<Rightarrow>
                  (if kind_of e = KNotFound then
                     (case createVerificationJob cfg C L g name w2 of
                        (Some ce, w3) \<Rightarrow> (Finish no_requeue (Some ce), w3)
                      | (None, w3) \<Rightarrow> (verifying L g, w3))
                   else (Finish no_requeue (Some e), w2))
              | (Inr j, w2) \<Rightarrow>
                  (if isJobComplete j then record_answer C L g h j w2 else (verifying L g, w2))))"

definition verify_gateway ::
  "gateway_config \<Rightarrow> 'w gateway_client \<Rightarrow> klib \<Rightarrow> gateway \<Rightarrow> string \<Rightarrow> 'w \<Rightarrow> gateway outcome \<times> 'w" where
  "verify_gateway cfg C L g h w =
     (if \<not> hasModelsProbe (gw_provider g) then
        (if settled L g h \<and> ready_reason L g = reasonVerificationSkipped then (Finish no_requeue None, w)
         else skip_probe C L g h w)
      else if settled L g h \<and> isTerminalReadyReason (ready_reason L g) then (Finish no_requeue None, w)
      else probe_gateway cfg C L g h w)"

definition observe_gateway :: "gateway \<Rightarrow> gateway" where
  "observe_gateway g = g\<lparr>gw_observed_generation := gw_generation g\<rparr>"

definition secret_key_of :: "gateway \<Rightarrow> nskey" where
  "secret_key_of g = nskey_of (gw_namespace g) (cr_secret (gw_credential g))"

definition decide_gateway ::
  "gateway_config \<Rightarrow> 'w gateway_client \<Rightarrow> klib \<Rightarrow> gateway \<Rightarrow> 'w \<Rightarrow> gateway outcome \<times> 'w" where
  "decide_gateway cfg C L gw w =
     (let g = observe_gateway gw; r = gw_credential g
      in case gc_get_secret C (secret_key_of g) w of
           (Inl e, w1) \<Rightarrow>
             (if kind_of e = KNotFound
              then (patch_gateway L g False CFalse ''CredentialSecretNotFound''
                      (Fmt ''Secret %q not found'' [Lit (cr_secret r)]), w1)
              else (Finish no_requeue (Some e), w1))
         | (Inr s, w1) \<Rightarrow>
             (case credential_problem r s of
                Some (reason, message) \<Rightarrow> (patch_gateway L g False CFalse reason message, w1)
              | None \<Rightarrow> verify_gateway cfg C L g (credentialHash r s) w1))"

definition Reconcile_gateway ::
  "gateway_config \<Rightarrow> 'w gateway_client \<Rightarrow> klib \<Rightarrow> nskey \<Rightarrow> 'w
    \<Rightarrow> (reconcile_result \<times> err option) \<times> 'w" where
  "Reconcile_gateway cfg C L key w =
     (case gc_get_gateway C key w of
        (Inl e, w1) \<Rightarrow> ((no_requeue, if kind_of e = KNotFound then None else Some e), w1)
      | (Inr g, w1) \<Rightarrow>
          (case decide_gateway cfg C L g w1 of
             (out, w2) \<Rightarrow> perform (gc_patch_status C g) (\<lambda>w. (None, w)) out w2))"

section \<open>The watch on Secrets\<close>

definition gateway_index :: "gateway \<Rightarrow> string list" where
  "gateway_index g = (if cr_secret (gw_credential g) = [] then [] else [cr_secret (gw_credential g)])"

definition findGatewaysForSecret :: "'w gateway_client \<Rightarrow> objmeta \<Rightarrow> 'w \<Rightarrow> nskey list \<times> 'w" where
  "findGatewaysForSecret C m w =
     (case gc_list_gateways C (om_namespace m) (om_name m) w of
        (Inl e, w') \<Rightarrow> ([], w')
      | (Inr gs, w') \<Rightarrow> (map (\<lambda>g. key_of_meta (gw_meta g)) gs, w'))"

end
