(* ===== verification/GatewayProperties.thy ===== *)
theory GatewayProperties
  imports Gateway
begin

text \<open>
  What the Gateway controller guarantees: the digest tells credentials apart, a verified Gateway was
  verified for this generation and this credential, a settled one is left alone until one of the two
  changes, and the probe's diagnostic line decides the reason.
\<close>

section \<open>The digest tells credentials apart\<close>

definition be_val :: "u8 list \<Rightarrow> nat" where
  "be_val bs = foldl (\<lambda>n b. 256 * n + unat b) 0 bs"

text \<open>Reading the hashed bytes back: eight bytes of length, then that many bytes, to the end.\<close>

function read_fields :: "u8 list \<Rightarrow> u8 list list option" where
  "read_fields bs =
     (if bs = [] then Some []
      else if length bs < 8 \<or> length (drop 8 bs) < be_val (take 8 bs) then None
      else map_option ((#) (take (be_val (take 8 bs)) (drop 8 bs)))
             (read_fields (drop (be_val (take 8 bs)) (drop 8 bs))))"
  by pat_completeness auto
termination
  by (relation "measure length") auto

declare read_fields.simps [simp del]

lemma unat_shift: "unat (drop_bit k (w :: 64 word)) = unat w div 2 ^ k"
  unfolding unat_drop_bit_eq by (rule drop_bit_eq_div)

lemma unat_low_byte: "unat (ucast (w :: 64 word) :: u8) = unat w mod 256"
  by (simp add: unsigned_ucast_eq take_bit_eq_mod)

lemma digit_step: "256 * (n div 2 ^ (8 + k)) + n div 2 ^ k mod 256 = n div 2 ^ k" for n :: nat
proof -
  have "n div 2 ^ (8 + k) = n div 2 ^ k div 256"
    by (simp add: power_add div_mult2_eq [symmetric] mult.commute)
  then show ?thesis by (simp add: mult_div_mod_eq)
qed

lemma be_val_be_bytes: "be_val (be_bytes w) = unat w"
proof -
  have top: "unat w div 2 ^ 56 mod 256 = unat w div 2 ^ 56"
    using unsigned_less [of w, where 'a = nat]
    by (intro mod_less) (simp add: div_less_iff_less_mult)
  show ?thesis
    using digit_step [of "unat w" 48] digit_step [of "unat w" 40] digit_step [of "unat w" 32]
      digit_step [of "unat w" 24] digit_step [of "unat w" 16] digit_step [of "unat w" 8]
      digit_step [of "unat w" 0] top
    by (simp add: be_val_def be_bytes_def unat_shift unat_low_byte)
qed

lemma length_be_bytes [simp]: "length (be_bytes w) = 8"
  by (simp add: be_bytes_def)

lemma read_field_step:
  assumes "length f < 2 ^ 64"
  shows "read_fields (hashCredentialField f @ bs) = map_option ((#) f) (read_fields bs)"
proof -
  have "be_val (be_bytes (of_nat (length f))) = length f"
    using assms by (simp add: be_val_be_bytes unat_of_nat)
  moreover have "be_bytes (of_nat (length f)) \<noteq> []"
    by (metis length_be_bytes length_0_conv numeral_eq_iff zero_neq_numeral)
  ultimately show ?thesis
    by (subst read_fields.simps) (simp add: hashCredentialField_def)
qed

lemma read_fields_concat:
  "\<forall>f \<in> set fs. length f < 2 ^ 64 \<Longrightarrow> read_fields (concat (map hashCredentialField fs)) = Some fs"
  by (induction fs) (simp_all add: read_field_step, simp add: read_fields.simps)

lemma bytes_of_inject: "bytes_of s = bytes_of t \<longleftrightarrow> s = t"
proof -
  have "inj (\<lambda>c :: char. of_nat (of_char c) :: u8)"
  proof (rule injI)
    fix c d :: char
    assume "(of_nat (of_char c) :: u8) = of_nat (of_char d)"
    then have "(of_char c :: nat) = of_char d"
      by (simp add: word_of_nat_eq_iff take_bit_eq_mod)
    then show "c = d" by simp
  qed
  then show ?thesis by (simp add: bytes_of_def inj_map_eq_map)
qed

lemma length_bytes_of [simp]: "length (bytes_of s) = length s"
  by (simp add: bytes_of_def)

definition pair_fields :: "(string \<times> string) list \<Rightarrow> u8 list list" where
  "pair_fields ps = concat (map (\<lambda>p. [bytes_of (fst p), bytes_of (snd p)]) ps)"

lemma pair_fields_inject: "pair_fields ps = pair_fields qs \<longleftrightarrow> ps = qs"
proof (induction ps arbitrary: qs)
  case Nil
  then show ?case by (cases qs) (simp_all add: pair_fields_def)
next
  case (Cons p ps)
  then show ?case
    by (cases qs) (auto simp: pair_fields_def bytes_of_inject prod_eq_iff)
qed

lemma credential_material_fields:
  "credential_material r s = concat (map hashCredentialField (pair_fields (credential_pairs r s)))"
proof -
  have "concat (map hash_pair ps) = concat (map hashCredentialField (pair_fields ps))" for ps
    by (induction ps) (simp_all add: hash_pair_def pair_fields_def)
  then show ?thesis by (simp add: credential_material_def)
qed

text \<open>Keys and values are shorter than an unsigned 64-bit length, as every byte slice is.\<close>

definition sizes_ok :: "(string \<times> string) list \<Rightarrow> bool" where
  "sizes_ok ps \<longleftrightarrow> (\<forall>p \<in> set ps. length (fst p) < 2 ^ 64 \<and> length (snd p) < 2 ^ 64)"

lemma sizes_ok_fields: "sizes_ok ps \<Longrightarrow> \<forall>f \<in> set (pair_fields ps). length f < 2 ^ 64"
  by (auto simp: sizes_ok_def pair_fields_def)

lemma credential_material_read:
  "sizes_ok (credential_pairs r s) \<Longrightarrow>
   read_fields (credential_material r s) = Some (pair_fields (credential_pairs r s))"
  unfolding credential_material_fields by (rule read_fields_concat) (rule sizes_ok_fields)

lemma credential_material_inject:
  assumes "sizes_ok (credential_pairs r s)" and "sizes_ok (credential_pairs r' s')"
  shows "credential_material r s = credential_material r' s' \<longleftrightarrow>
    credential_pairs r s = credential_pairs r' s'"
proof
  assume "credential_material r s = credential_material r' s'"
  then have "Some (pair_fields (credential_pairs r s)) = Some (pair_fields (credential_pairs r' s'))"
    using credential_material_read [OF assms(1)] credential_material_read [OF assms(2)] by simp
  then show "credential_pairs r s = credential_pairs r' s'"
    by (simp add: pair_fields_inject)
qed (simp add: credential_material_def)

text \<open>
  The bytes hashed for a credential can be read back into exactly the selected keys and values, in
  order.
\<close>

theorem credential_material_roundtrip:
  assumes "sizes_ok (credential_pairs r s)"
  shows "read_fields (credential_material r s) = Some (pair_fields (credential_pairs r s)) \<and>
    (\<forall>r' s'. sizes_ok (credential_pairs r' s') \<longrightarrow>
       credential_material r s = credential_material r' s' \<longrightarrow>
       credential_pairs r s = credential_pairs r' s')"
  using credential_material_read [OF assms] credential_material_inject [OF assms] by blast

definition sample_secret :: secret where
  "sample_secret = \<lparr>sec_meta = new_meta ''ns'' ''key'' Map.empty, sec_data = [(''token'', ''abc'')]\<rparr>"

definition sample_ref :: credential_ref where
  "sample_ref = \<lparr>cr_secret = ''key'', cr_key = ''token''\<rparr>"

lemma credential_material_roundtrip_witness:
  "read_fields (credential_material sample_ref sample_secret) =
   Some [bytes_of ''token'', bytes_of ''abc'']"
proof -
  have p: "credential_pairs sample_ref sample_secret = [(''token'', ''abc'')]"
    by (simp add: credential_pairs_def sample_ref_def sample_secret_def secret_value_def)
  have "sizes_ok (credential_pairs sample_ref sample_secret)"
    by (simp add: p sizes_ok_def)
  from credential_material_roundtrip [OF this] show ?thesis
    by (simp add: p pair_fields_def)
qed

text \<open>
  Two credentials have one digest exactly when the selected keys and values are the same, or SHA-256
  itself maps two different inputs to one digest.
\<close>

theorem credential_hash_distinguishes:
  assumes "sizes_ok (credential_pairs r s)" and "sizes_ok (credential_pairs r' s')"
  shows "credentialHash r s = credentialHash r' s' \<longleftrightarrow>
    credential_pairs r s = credential_pairs r' s' \<or>
    (credential_material r s \<noteq> credential_material r' s' \<and>
     sha256 (credential_material r s) = sha256 (credential_material r' s'))"
  using credential_material_inject [OF assms]
  by (auto simp: credentialHash_def hex_encode_inject)

lemma credential_hash_distinguishes_witness:
  "credentialHash sample_ref sample_secret =
     credentialHash sample_ref (sample_secret\<lparr>sec_data := [(''other'', ''x''), (''token'', ''abc'')]\<rparr>)"
proof -
  let ?s = "sample_secret\<lparr>sec_data := [(''other'', ''x''), (''token'', ''abc'')]\<rparr>"
  have p: "credential_pairs sample_ref sample_secret = [(''token'', ''abc'')]"
    and q: "credential_pairs sample_ref ?s = [(''token'', ''abc'')]"
    by (simp_all add: credential_pairs_def sample_ref_def sample_secret_def secret_value_def)
  have "sizes_ok (credential_pairs sample_ref sample_secret)" "sizes_ok (credential_pairs sample_ref ?s)"
    by (simp_all only: p q) (simp_all add: sizes_ok_def)
  from credential_hash_distinguishes [OF this] show ?thesis by (simp only: p q simp_thms)
qed

section \<open>The patches of a reconcile\<close>

lemma observe_gateway_simps [simp]:
  "gw_meta (observe_gateway g) = gw_meta g" "gw_provider (observe_gateway g) = gw_provider g"
  "gw_endpoint (observe_gateway g) = gw_endpoint g" "gw_credential (observe_gateway g) = gw_credential g"
  "gw_conditions (observe_gateway g) = gw_conditions g"
  "gw_verified_hash (observe_gateway g) = gw_verified_hash g"
  "gw_namespace (observe_gateway g) = gw_namespace g" "gw_generation (observe_gateway g) = gw_generation g"
  "secret_key_of (observe_gateway g) = secret_key_of g"
  "verificationJobName (observe_gateway g) h = verificationJobName g h"
  by (simp_all add: observe_gateway_def gw_namespace_def gw_generation_def secret_key_of_def
      verificationJobName_def)

lemma set_ready_simps [simp]:
  "gw_meta (gw_set_ready L g st r m) = gw_meta g" "gw_provider (gw_set_ready L g st r m) = gw_provider g"
  "gw_credential (gw_set_ready L g st r m) = gw_credential g"
  "gw_verified_hash (gw_set_ready L g st r m) = gw_verified_hash g"
  "gw_connection_verified (gw_set_ready L g st r m) = gw_connection_verified g"
  "gw_observed_generation (gw_set_ready L g st r m) = gw_observed_generation g"
  "gw_generation (gw_set_ready L g st r m) = gw_generation g"
  "gw_namespace (gw_set_ready L g st r m) = gw_namespace g"
  "secret_key_of (gw_set_ready L g st r m) = secret_key_of g"
  by (simp_all add: gw_set_ready_def gw_generation_def gw_namespace_def secret_key_of_def)

lemma update_simps [simp]:
  "gw_generation (g\<lparr>gw_connection_verified := v\<rparr>) = gw_generation g"
  "gw_generation (g\<lparr>gw_verified_hash := h\<rparr>) = gw_generation g"
  "gw_namespace (g\<lparr>gw_connection_verified := v\<rparr>) = gw_namespace g"
  "gw_namespace (g\<lparr>gw_verified_hash := h\<rparr>) = gw_namespace g"
  "secret_key_of (g\<lparr>gw_connection_verified := v\<rparr>) = secret_key_of g"
  "secret_key_of (g\<lparr>gw_verified_hash := h\<rparr>) = secret_key_of g"
  by (simp_all add: gw_generation_def gw_namespace_def secret_key_of_def)

lemma ready_after_set:
  assumes "conditions_ok L"
  shows "find_condition L (gw_conditions (gw_set_ready L g st r m)) condition_ready =
    Some \<lparr>cd_type = condition_ready, cd_status = st, cd_generation = gw_generation g,
      cd_reason = r, cd_message = m\<rparr>"
  using assms by (simp add: gw_set_ready_def find_set_type)

lemma ready_reason_set [simp]: "conditions_ok L \<Longrightarrow> ready_reason L (gw_set_ready L g st r m) = r"
  by (simp add: ready_reason_def ready_after_set)

lemma settled_set [simp]:
  "conditions_ok L \<Longrightarrow> settled L (gw_set_ready L g st r m) h \<longleftrightarrow> gw_verified_hash g = h"
  by (simp add: settled_def ready_after_set)

lemma is_ready_set [simp]:
  "conditions_ok L \<Longrightarrow> is_ready L (gw_conditions (gw_set_ready L g st r m)) \<longleftrightarrow> st = CTrue"
  by (simp add: is_ready_def ready_after_set)

lemma settled_observe [simp]: "settled L (observe_gateway g) h = settled L g h"
  by (auto simp: settled_def split: option.splits)

lemma ready_reason_observe [simp]: "ready_reason L (observe_gateway g) = ready_reason L g"
  by (simp add: ready_reason_def)

text \<open>The three kinds of patch: unusable or in progress, skipped, answered by a finished Job.\<close>

definition waiting_patch :: "klib \<Rightarrow> gateway \<Rightarrow> gateway \<Rightarrow> bool" where
  "waiting_patch L g g' \<longleftrightarrow>
     (\<exists>r m. g' = gw_set_ready L (g\<lparr>gw_connection_verified := False\<rparr>) CFalse r m \<and>
        r \<in> {''CredentialSecretNotFound'', ''CredentialKeyNotFound'', ''CredentialSecretEmpty'', ''Verifying''})"

definition skipped_patch :: "klib \<Rightarrow> gateway \<Rightarrow> string \<Rightarrow> gateway \<Rightarrow> bool" where
  "skipped_patch L g h g' \<longleftrightarrow> \<not> hasModelsProbe (gw_provider g) \<and>
     (\<exists>m. g' = gw_set_ready L (g\<lparr>gw_verified_hash := h, gw_connection_verified := False\<rparr>) CTrue
        reasonVerificationSkipped m)"

definition answered_patch :: "klib \<Rightarrow> gateway \<Rightarrow> string \<Rightarrow> job \<Rightarrow> gateway \<Rightarrow> bool" where
  "answered_patch L g h j g' \<longleftrightarrow> hasModelsProbe (gw_provider g) \<and> isJobComplete j \<and>
     (\<exists>diag m. g' = gw_set_ready L
        (g\<lparr>gw_verified_hash := h, gw_connection_verified := isJobSucceeded j\<rparr>)
        (if isJobSucceeded j then CTrue else CFalse)
        (fst (gatewayVerifyReason diag (gw_endpoint g) (verificationJobName g h) (isJobSucceeded j))) m)"

lemma record_answer_patch:
  assumes "record_answer C L g h j w = (out, w')" and "isJobComplete j" and "hasModelsProbe (gw_provider g)"
  shows "\<exists>g'. out = PatchRun g' no_requeue None \<and> answered_patch L g h j g'"
proof -
  let ?name = "verificationJobName g h"
  obtain diag w1 where d: "verificationDiagnostic C (gw_namespace g) ?name (om_uid (jb_meta j)) w = (diag, w1)"
    by fastforce
  obtain reason m where r: "gatewayVerifyReason diag (gw_endpoint g) ?name (isJobSucceeded j) = (reason, m)"
    by fastforce
  let ?g = "gw_set_ready L (g\<lparr>gw_verified_hash := h, gw_connection_verified := isJobSucceeded j\<rparr>)
    (if isJobSucceeded j then CTrue else CFalse)"
  have "out = PatchRun (?g reason m) no_requeue None"
    using assms(1) by (simp add: record_answer_def patch_gateway_def Let_def d r)
  moreover have "?g reason m =
      ?g (fst (gatewayVerifyReason diag (gw_endpoint g) ?name (isJobSucceeded j))) m"
    using r by simp
  ultimately show ?thesis
    using assms(2,3) unfolding answered_patch_def by blast
qed

lemma verifying_patch: "\<exists>g'. verifying L g = PatchRun g' no_requeue None \<and> waiting_patch L g g'"
  by (auto simp: verifying_def patch_gateway_def waiting_patch_def)

lemma probe_cases:
  assumes "probe_gateway cfg C L g h w = (out, w')" and "hasModelsProbe (gw_provider g)"
  shows "(\<exists>e. out = Finish no_requeue (Some e)) \<or>
    (\<exists>g'. out = PatchRun g' no_requeue None \<and> waiting_patch L g g') \<or>
    (\<exists>g' j w2 w3. out = PatchRun g' no_requeue None \<and> answered_patch L g h j g' \<and>
       gc_get_job C (nskey_of (gw_namespace g) (verificationJobName g h)) w2 = (Inr j, w3))"
proof (cases "deleteVerificationJobs C g (verificationJobName g h) w")
  case d: (Pair r w1)
  show ?thesis
  proof (cases r)
    case (Some e)
    with d assms show ?thesis by (auto simp: probe_gateway_def Let_def)
  next
    case None
    note pd = assms(1) [unfolded probe_gateway_def Let_def d None, simplified]
    obtain a w2 where j: "gc_get_job C (nskey_of (gw_namespace g) (verificationJobName g h)) w1 = (a, w2)"
      by fastforce
    show ?thesis
    proof (cases a)
      case (Inl e)
      with pd j verifying_patch [of L g] show ?thesis
        by (auto split: if_splits prod.splits option.splits)
    next
      case (Inr jb)
      with pd j verifying_patch [of L g] record_answer_patch [of C L g h jb w2 out w'] assms(2)
      show ?thesis by (auto split: if_splits)
    qed
  qed
qed

lemma verify_cases:
  assumes "verify_gateway cfg C L g h w = (out, w')"
  shows "(out = Finish no_requeue None \<and> w' = w \<and> settled L g h \<and> isTerminalReadyReason (ready_reason L g)) \<or>
    (\<exists>e. out = Finish no_requeue (Some e)) \<or>
    (\<exists>g'. out = PatchRun g' no_requeue None \<and> (waiting_patch L g g' \<or> skipped_patch L g h g')) \<or>
    (\<exists>g' j w2 w3. out = PatchRun g' no_requeue None \<and> answered_patch L g h j g' \<and>
       gc_get_job C (nskey_of (gw_namespace g) (verificationJobName g h)) w2 = (Inr j, w3))"
proof (cases "hasModelsProbe (gw_provider g)")
  case True
  show ?thesis
  proof (cases "settled L g h \<and> isTerminalReadyReason (ready_reason L g)")
    case True
    with \<open>hasModelsProbe (gw_provider g)\<close> assms show ?thesis by (simp add: verify_gateway_def)
  next
    case False
    with True assms have "probe_gateway cfg C L g h w = (out, w')"
      by (auto simp: verify_gateway_def split: if_splits)
    from probe_cases [OF this True] show ?thesis by blast
  qed
next
  case False
  then show ?thesis
    using assms
    by (auto simp: verify_gateway_def skip_probe_def skipped_patch_def patch_gateway_def
        isTerminalReadyReason_def split: if_splits prod.splits option.splits)
qed

lemma credential_cases:
  assumes "decide_gateway cfg C L gw w = (out, w')"
  obtains (failed) e where "out = Finish no_requeue (Some e)"
  | (unusable) g' where "out = PatchRun g' no_requeue None" and "waiting_patch L (observe_gateway gw) g'"
  | (usable) s w1 where "gc_get_secret C (secret_key_of gw) w = (Inr s, w1)"
      and "credential_problem (gw_credential gw) s = None"
      and "verify_gateway cfg C L (observe_gateway gw) (credentialHash (gw_credential gw) s) w1 = (out, w')"
proof (cases "gc_get_secret C (secret_key_of gw) w")
  case g: (Pair a w1)
  show ?thesis
  proof (cases a)
    case (Inl e)
    then show ?thesis
    proof (cases "kind_of e = KNotFound")
      case True
      with g Inl assms have "out = PatchRun (gw_set_ready L
          ((observe_gateway gw)\<lparr>gw_connection_verified := False\<rparr>) CFalse ''CredentialSecretNotFound''
          (Fmt ''Secret %q not found'' [Lit (cr_secret (gw_credential gw))])) no_requeue None"
        by (simp add: decide_gateway_def patch_gateway_def Let_def)
      then show ?thesis by (rule unusable) (auto simp: waiting_patch_def)
    next
      case False
      with g Inl assms have "out = Finish no_requeue (Some e)"
        by (simp add: decide_gateway_def Let_def)
      then show ?thesis by (rule failed)
    qed
  next
    case (Inr s)
    show ?thesis
    proof (cases "credential_problem (gw_credential gw) s")
      case None
      with g Inr assms usable show ?thesis by (simp add: decide_gateway_def Let_def)
    next
      case (Some p)
      then have "fst p \<in> {''CredentialKeyNotFound'', ''CredentialSecretEmpty''}"
        by (auto simp: credential_problem_def split: if_splits)
      moreover have "out = PatchRun (gw_set_ready L
          ((observe_gateway gw)\<lparr>gw_connection_verified := False\<rparr>) CFalse (fst p) (snd p)) no_requeue None"
        using Some g Inr assms by (cases p) (simp add: decide_gateway_def patch_gateway_def Let_def)
      ultimately show ?thesis using unusable unfolding waiting_patch_def by blast
    qed
  qed
qed

lemma waiting_not_ready:
  "conditions_ok L \<Longrightarrow> waiting_patch L g g' \<Longrightarrow>
   \<not> is_ready L (gw_conditions g') \<and> \<not> gw_connection_verified g' \<and> \<not> isTerminalReadyReason (ready_reason L g')"
  by (auto simp: waiting_patch_def isTerminalReadyReason_def reason_defs)

lemma skipped_facts:
  "conditions_ok L \<Longrightarrow> skipped_patch L g h g' \<Longrightarrow>
   \<not> hasModelsProbe (gw_provider g) \<and> is_ready L (gw_conditions g') \<and> \<not> gw_connection_verified g' \<and>
   ready_reason L g' = reasonVerificationSkipped \<and> settled L g' h \<and> gw_verified_hash g' = h"
  by (auto simp: skipped_patch_def)

lemma verified_terminal: "isTerminalReadyReason reasonConnectionVerified"
  by (simp add: isTerminalReadyReason_def)

lemma verify_reason_terminal:
  "isTerminalReadyReason (fst (gatewayVerifyReason d e n ok)) \<and>
   (ok \<longrightarrow> fst (gatewayVerifyReason d e n ok) = reasonConnectionVerified)"
  by (simp add: gatewayVerifyReason_def Let_def isTerminalReadyReason_def)

lemma answered_facts:
  "conditions_ok L \<Longrightarrow> answered_patch L g h j g' \<Longrightarrow>
   hasModelsProbe (gw_provider g) \<and> isTerminalReadyReason (ready_reason L g') \<and> settled L g' h \<and>
   gw_verified_hash g' = h \<and> gw_connection_verified g' = isJobSucceeded j \<and>
   is_ready L (gw_conditions g') = isJobSucceeded j \<and>
   (isJobSucceeded j \<longrightarrow> ready_reason L g' = reasonConnectionVerified)"
  by (auto simp: answered_patch_def verify_reason_terminal verified_terminal split: if_splits)

lemma patch_keeps:
  assumes "waiting_patch L g g' \<or> skipped_patch L g h g' \<or> answered_patch L g h j g'"
  shows "gw_meta g' = gw_meta g" "gw_provider g' = gw_provider g" "gw_credential g' = gw_credential g"
  using assms by (auto simp: waiting_patch_def skipped_patch_def answered_patch_def)

section \<open>Soundness of Ready\<close>

text \<open>
  C26: a Gateway that a reconcile publishes as Ready or as verified has a usable credential, carries the
  digest of exactly that credential, and was either verified by a succeeded Job named for this generation
  and credential, or has a provider without a probe and says so; Ready without verification has no other
  cause.
\<close>

theorem gateway_verified_sound:
  assumes "conditions_ok L"
    and d: "decide_gateway cfg C L gw w = (PatchRun g' res e, w')"
    and r: "gw_connection_verified g' \<or> is_ready L (gw_conditions g')"
  shows "is_ready L (gw_conditions g') \<and>
    (\<exists>s w1. gc_get_secret C (secret_key_of gw) w = (Inr s, w1) \<and>
       credential_problem (gw_credential gw) s = None \<and>
       gw_verified_hash g' = credentialHash (gw_credential gw) s \<and>
       (if gw_connection_verified g'
        then hasModelsProbe (gw_provider gw) \<and> ready_reason L g' = reasonConnectionVerified \<and>
          (\<exists>j w2 w3. isJobSucceeded j \<and>
             gc_get_job C (nskey_of (gw_namespace gw)
               (verificationJobName gw (credentialHash (gw_credential gw) s))) w2 = (Inr j, w3))
        else \<not> hasModelsProbe (gw_provider gw) \<and> ready_reason L g' = reasonVerificationSkipped))"
  using d
proof (cases rule: credential_cases)
  case (failed e)
  then show ?thesis by simp
next
  case (unusable g'')
  with waiting_not_ready [OF assms(1) unusable(2)] r show ?thesis by simp
next
  case (usable s w1)
  let ?h = "credentialHash (gw_credential gw) s"
  from verify_cases [OF usable(3)] consider
    "waiting_patch L (observe_gateway gw) g'" | "skipped_patch L (observe_gateway gw) ?h g'"
    | j w2 w3 where "answered_patch L (observe_gateway gw) ?h j g'"
        "gc_get_job C (nskey_of (gw_namespace gw) (verificationJobName gw ?h)) w2 = (Inr j, w3)"
    by auto
  then show ?thesis
  proof cases
    case 1
    with waiting_not_ready [OF assms(1) 1] r show ?thesis by simp
  next
    case 2
    with skipped_facts [OF assms(1) 2] usable show ?thesis by auto
  next
    case 3
    with answered_facts [OF assms(1) 3(1)] usable r show ?thesis by auto
  qed
qed

definition gateway_client_over :: "int gateway_client" where
  "gateway_client_over =
     \<lparr>gc_get_gateway = (\<lambda>k w. (Inl not_found, w)),
      gc_get_secret = (\<lambda>k w. (Inr sample_secret, w)),
      gc_get_job = (\<lambda>k w. (Inl not_found, w)),
      gc_list_jobs = (\<lambda>ns s w. (Inr [], w)),
      gc_create_job = (\<lambda>j w. (None, w)),
      gc_delete_job = (\<lambda>p j w. (None, w)),
      gc_live_list_pods = (\<lambda>ns s w. (Inr [], w)),
      gc_patch_status = (\<lambda>a b w. (None, w)),
      gc_list_gateways = (\<lambda>ns n w. (Inr [], w))\<rparr>"

definition probed_gateway :: gateway where
  "probed_gateway =
     \<lparr>gw_meta = (new_meta ''ns'' ''gw'' Map.empty)\<lparr>om_generation := 1\<rparr>, gw_provider = ''openai'',
      gw_endpoint = ''https://llm'', gw_credential = sample_ref,
      gw_model = \<lparr>gm_name = ''m'', gm_context_window = 0, gm_tier = []\<rparr>,
      gw_observed_generation = 0, gw_connection_verified = False, gw_verified_hash = [],
      gw_conditions = []\<rparr>"

definition done_job :: job where
  "done_job =
     (verification_job \<lparr>gf_verification_image = []\<rparr> probed_gateway ''job'')\<lparr>jb_conditions :=
        [\<lparr>cd_type = ''Complete'', cd_status = CTrue, cd_generation = 0, cd_reason = [], cd_message = Lit []\<rparr>]\<rparr>"

definition answering_client :: "int gateway_client" where
  "answering_client = gateway_client_over\<lparr>gc_get_job := (\<lambda>k w. (Inr done_job, w))\<rparr>"

lemma sample_credential: "credential_problem sample_ref sample_secret = None"
  by (simp add: credential_problem_def sample_ref_def sample_secret_def)

lemma ascii_lower:
  "list_all (\<lambda>c. byte c < 65 \<or> (90 < byte c \<and> byte c < 128)) s \<Longrightarrow> to_lower s = s"
proof -
  assume a: "list_all (\<lambda>c. byte c < 65 \<or> (90 < byte c \<and> byte c < 128)) s"
  then have "ascii s" by (auto simp: ascii_def list_all_iff)
  then have "to_lower s = concat (map (\<lambda>c. lower_chunk (byte c, [c])) s)"
    by (simp add: to_lower_def rune_chunks_ascii o_def)
  also have "\<dots> = concat (map (\<lambda>c. [c]) s)"
    using a by (intro arg_cong [where f = concat] map_cong) (auto simp: lower_chunk_def list_all_iff)
  finally show ?thesis by simp
qed

lemma sample_probe: "hasModelsProbe ''openai''"
  by (simp add: hasModelsProbe_def normalizeProvider_def ascii_lower byte_def
      providersWithoutModelsProbe_def provider_aws_bedrock_def provider_gcp_vertex_def)

definition answered_gateway :: gateway where
  "answered_gateway =
     gw_set_ready sample_lib
      ((observe_gateway probed_gateway)\<lparr>gw_verified_hash := credentialHash sample_ref sample_secret,
         gw_connection_verified := True\<rparr>) CTrue reasonConnectionVerified
      (Fmt ''Endpoint %s is reachable'' [Lit ''https://llm''])"

lemma sample_answer:
  "decide_gateway \<lparr>gf_verification_image = []\<rparr> answering_client sample_lib probed_gateway 0 =
   (PatchRun answered_gateway no_requeue None, 0)"
proof -
  have g: "gw_credential probed_gateway = sample_ref" "gw_provider probed_gateway = ''openai''"
    "gw_endpoint probed_gateway = ''https://llm''" "gw_conditions probed_gateway = []"
    by (simp_all add: probed_gateway_def)
  have n: "\<not> settled sample_lib probed_gateway h" for h
    by (simp add: settled_def g sample_lib_def)
  have j: "isJobSucceeded done_job"
    by (simp add: done_job_def isJobSucceeded_def)
  show ?thesis
    by (simp add: decide_gateway_def Let_def g sample_credential verify_gateway_def n sample_probe
        probe_gateway_def deleteVerificationJobs_def record_answer_def verificationDiagnostic_def
        answering_client_def gateway_client_over_def j succeeded_complete patch_gateway_def
        gatewayVerifyReason_def split_fields_def rune_chunks.simps(1) answered_gateway_def)
qed

lemma answered_sample:
  "gw_connection_verified answered_gateway" "ready_reason sample_lib answered_gateway = reasonConnectionVerified"
  by (simp_all add: answered_gateway_def sample_conditions_ok)

lemma gateway_verified_sound_witness:
  "\<exists>s w1. gc_get_secret answering_client (secret_key_of probed_gateway) 0 = (Inr s, w1) \<and>
     gw_verified_hash answered_gateway = credentialHash (gw_credential probed_gateway) s"
  using gateway_verified_sound [OF sample_conditions_ok sample_answer] answered_sample by blast

section \<open>A settled Gateway\<close>

lemma terminal_patch_settled:
  assumes "conditions_ok L"
    and d: "decide_gateway cfg C L gw w = (PatchRun g' res e, w')"
    and t: "isTerminalReadyReason (ready_reason L g')"
    and s: "gc_get_secret C (secret_key_of gw) w = (Inr s, w1)"
  shows "settled L g' (credentialHash (gw_credential gw) s) \<and>
    gw_verified_hash g' = credentialHash (gw_credential gw) s \<and>
    (\<not> hasModelsProbe (gw_provider gw) \<longrightarrow> ready_reason L g' = reasonVerificationSkipped) \<and>
    gw_meta g' = gw_meta gw \<and> gw_provider g' = gw_provider gw \<and> gw_credential g' = gw_credential gw"
  using d
proof (cases rule: credential_cases)
  case (failed e)
  then show ?thesis by simp
next
  case (unusable g'')
  with waiting_not_ready [OF assms(1) unusable(2)] t show ?thesis by simp
next
  case (usable s2 w2)
  with s have [simp]: "s2 = s" by simp
  let ?h = "credentialHash (gw_credential gw) s"
  from verify_cases [OF usable(3)] consider
    "waiting_patch L (observe_gateway gw) g'" | "skipped_patch L (observe_gateway gw) ?h g'"
    | j where "answered_patch L (observe_gateway gw) ?h j g'"
    by auto
  then show ?thesis
  proof cases
    case 1
    with waiting_not_ready [OF assms(1) 1] t show ?thesis by simp
  next
    case 2
    with skipped_facts [OF assms(1) 2] patch_keeps [of L "observe_gateway gw" g' ?h] show ?thesis by simp
  next
    case 3
    with answered_facts [OF assms(1) 3] patch_keeps [of L "observe_gateway gw" g' ?h j] show ?thesis by simp
  qed
qed

text \<open>
  Once an outcome is settled, later reconciles only read the Secret and leave everything as it is,
  as long as the selected credential digests to the same value; a rotated credential is never taken for
  settled.
\<close>

theorem gateway_settles:
  assumes "conditions_ok L"
    and d: "decide_gateway cfg C L gw w = (PatchRun g' res e, w')"
    and t: "isTerminalReadyReason (ready_reason L g')"
    and s: "gc_get_secret C (secret_key_of gw) w = (Inr s, w1)"
    and s2: "gc_get_secret C' (secret_key_of gw) v = (Inr s2, v1)"
    and c2: "credential_problem (gw_credential gw) s2 = None"
  shows "if credentialHash (gw_credential gw) s2 = credentialHash (gw_credential gw) s
    then decide_gateway cfg' C' L g' v = (Finish no_requeue None, v1)
    else fst (decide_gateway cfg' C' L g' v) \<noteq> Finish no_requeue None"
proof -
  let ?h = "credentialHash (gw_credential gw) s2"
  from terminal_patch_settled [OF assms(1) d t s]
  have st: "settled L g' (credentialHash (gw_credential gw) s)"
    "gw_verified_hash g' = credentialHash (gw_credential gw) s"
    "\<not> hasModelsProbe (gw_provider gw) \<longrightarrow> ready_reason L g' = reasonVerificationSkipped"
    and k: "gw_credential g' = gw_credential gw" "gw_provider g' = gw_provider gw" "gw_meta g' = gw_meta gw"
    by simp_all
  have sk: "secret_key_of g' = secret_key_of gw"
    by (simp add: secret_key_of_def gw_namespace_def k)
  have v: "decide_gateway cfg' C' L g' v = verify_gateway cfg' C' L (observe_gateway g') ?h v1"
    by (simp add: decide_gateway_def Let_def sk s2 k c2)
  show ?thesis
  proof (cases "?h = credentialHash (gw_credential gw) s")
    case True
    with v st t show ?thesis by (simp add: verify_gateway_def k)
  next
    case False
    with st have "\<not> settled L g' ?h" by (auto simp: settled_def split: option.splits)
    moreover obtain out v2 where vg: "verify_gateway cfg' C' L (observe_gateway g') ?h v1 = (out, v2)"
      by fastforce
    ultimately show ?thesis using verify_cases [OF vg] False v by auto
  qed
qed

lemma gateway_settles_witness:
  "decide_gateway \<lparr>gf_verification_image = []\<rparr> answering_client sample_lib answered_gateway 5 =
     (Finish no_requeue None, 5)"
proof -
  have s: "gc_get_secret answering_client (secret_key_of probed_gateway) w = (Inr sample_secret, w)" for w
    by (simp add: answering_client_def gateway_client_over_def)
  have c: "credential_problem (gw_credential probed_gateway) sample_secret = None"
    using sample_credential by (simp add: probed_gateway_def)
  have t: "isTerminalReadyReason (ready_reason sample_lib answered_gateway)"
    by (simp add: answered_sample verified_terminal)
  show ?thesis
    using gateway_settles [OF sample_conditions_ok sample_answer t s s c] by simp
qed

text \<open>
  A finished verification Job settles the Gateway in one reconcile, verified exactly when the Job
  succeeded; an unfinished one leaves it verifying.
\<close>

theorem gateway_job_settles:
  assumes "conditions_ok L"
    and s: "gc_get_secret C (secret_key_of gw) w = (Inr s, w1)"
    and c: "credential_problem (gw_credential gw) s = None"
    and p: "hasModelsProbe (gw_provider gw)"
    and n: "\<not> (settled L gw (credentialHash (gw_credential gw) s) \<and> isTerminalReadyReason (ready_reason L gw))"
    and d: "deleteVerificationJobs C (observe_gateway gw)
      (verificationJobName gw (credentialHash (gw_credential gw) s)) w1 = (None, w2)"
    and j: "gc_get_job C (nskey_of (gw_namespace gw)
      (verificationJobName gw (credentialHash (gw_credential gw) s))) w2 = (Inr j, w3)"
  shows "\<exists>g' w'. decide_gateway cfg C L gw w = (PatchRun g' no_requeue None, w') \<and>
    gw_observed_generation g' = gw_generation gw \<and>
    (if isJobComplete j
     then isTerminalReadyReason (ready_reason L g') \<and>
       settled L g' (credentialHash (gw_credential gw) s) \<and>
       gw_connection_verified g' = isJobSucceeded j \<and> is_ready L (gw_conditions g') = isJobSucceeded j
     else ready_reason L g' = ''Verifying'' \<and> \<not> gw_connection_verified g')"
proof -
  let ?h = "credentialHash (gw_credential gw) s" and ?g = "observe_gateway gw"
  have q: "decide_gateway cfg C L gw w =
      (if isJobComplete j then record_answer C L ?g ?h j w3 else (verifying L ?g, w3))"
    using s c p n d j
    by (auto simp: decide_gateway_def Let_def verify_gateway_def probe_gateway_def)
  show ?thesis
  proof (cases "isJobComplete j")
    case True
    obtain out w' where r: "record_answer C L ?g ?h j w3 = (out, w')" by fastforce
    from record_answer_patch [OF r True] p obtain g' where
      g: "out = PatchRun g' no_requeue None" "answered_patch L ?g ?h j g'" by auto
    have "gw_observed_generation g' = gw_generation gw"
      using g(2) by (auto simp: answered_patch_def observe_gateway_def)
    with answered_facts [OF assms(1) g(2)] True q r g(1) show ?thesis by simp
  next
    case False
    with q assms(1) show ?thesis
      by (simp add: verifying_def patch_gateway_def observe_gateway_def)
  qed
qed

lemma gateway_job_settles_witness:
  "\<exists>g' w'. decide_gateway \<lparr>gf_verification_image = []\<rparr> answering_client sample_lib probed_gateway 7 =
     (PatchRun g' no_requeue None, w') \<and> gw_connection_verified g'"
proof -
  have g: "gw_credential probed_gateway = sample_ref" "gw_provider probed_gateway = ''openai''"
    "gw_conditions probed_gateway = []"
    by (simp_all add: probed_gateway_def)
  have s: "gc_get_secret answering_client (secret_key_of probed_gateway) 7 = (Inr sample_secret, 7)"
    and j: "gc_get_job answering_client k 7 = (Inr done_job, 7)"
    and d: "deleteVerificationJobs answering_client gw name 7 = (None, 7)" for k gw name
    by (simp_all add: answering_client_def gateway_client_over_def deleteVerificationJobs_def)
  have n: "\<not> (settled sample_lib probed_gateway h \<and> t)" for h t
    by (simp add: settled_def g sample_lib_def)
  have k: "isJobComplete done_job" "isJobSucceeded done_job"
    by (simp_all add: done_job_def isJobSucceeded_def isJobComplete_def)
  from gateway_job_settles [OF sample_conditions_ok s _ _ n d j, of "\<lparr>gf_verification_image = []\<rparr>"]
  show ?thesis
    using sample_probe sample_credential k by (auto simp: g)
qed

section \<open>The diagnostic line\<close>

lemma probe_words: "plain_word (''code='' @ c)" "plain_word (''rc='' @ c)"
  if "plain_word c"
  using that by (simp_all add: plain_word_def space_rune_def byte_def)

lemma probe_kinds: "plain_word ''ok''" "plain_word ''auth''" "plain_word ''http''" "plain_word ''unreachable''"
  by (simp_all add: plain_word_def space_rune_def byte_def)

lemma probe_fields:
  assumes "plain_word k" and "plain_word c"
  shows "split_fields (k @ '' code='' @ c) = [k, ''code='' @ c]"
    and "split_fields (k @ '' rc='' @ c) = [k, ''rc='' @ c]"
  using split_fields_two [OF assms(1) probe_words(1) [OF assms(2)]]
    split_fields_two [OF assms(1) probe_words(2) [OF assms(2)]] by simp_all

text \<open>
  Each line the probe writes, with any code, is read back as the reason it stands for and quotes the
  code; an empty or unknown line of a failed Job still yields a terminal reason.
\<close>

theorem probe_line_reasons:
  assumes "plain_word c"
  shows "gatewayVerifyReason (''ok code='' @ c) ep n True =
      (reasonConnectionVerified, Fmt ''Endpoint %s is reachable (HTTP %s)'' [Lit ep, Lit c]) \<and>
    fst (gatewayVerifyReason (''auth code='' @ c) ep n False) = reasonAuthenticationFailed \<and>
    gatewayVerifyReason (''http code='' @ c) ep n False =
      (reasonConnectionFailed, Fmt ''Endpoint %s/v1/models returned HTTP %s'' [Lit ep, Lit c]) \<and>
    gatewayVerifyReason (''unreachable rc='' @ c) ep n False =
      (reasonEndpointUnreachable, Fmt ''Endpoint %s is unreachable (%s)'' [Lit ep, Lit (curlErrorPhrase c)]) \<and>
    (\<forall>line ok. isTerminalReadyReason (fst (gatewayVerifyReason line ep n ok)) \<and>
       (fst (gatewayVerifyReason line ep n ok) = reasonConnectionVerified \<longleftrightarrow> ok))"
proof -
  have c: "c \<noteq> []" using assms by (simp add: plain_word_def)
  have d: "diagValue [k, ''code='' @ c] ''code'' = c" if "cut_prefix k ''code='' = None" for k
    using that cut_prefix_append [of "''code=''" c] by simp
  have r: "diagValue [k, ''rc='' @ c] ''rc'' = c" if "cut_prefix k ''rc='' = None" for k
    using that cut_prefix_append [of "''rc=''" c] by simp
  have np: "cut_prefix ''ok'' ''code='' = None" "cut_prefix ''auth'' ''code='' = None"
    "cut_prefix ''http'' ''code='' = None" "cut_prefix ''unreachable'' ''rc='' = None"
    by (simp_all add: cut_prefix_def has_prefix_def)
  have "split_fields (''ok code='' @ c) = [''ok'', ''code='' @ c]"
    "split_fields (''auth code='' @ c) = [''auth'', ''code='' @ c]"
    "split_fields (''http code='' @ c) = [''http'', ''code='' @ c]"
    "split_fields (''unreachable rc='' @ c) = [''unreachable'', ''rc='' @ c]"
    using probe_fields [OF probe_kinds(1) assms] probe_fields [OF probe_kinds(2) assms]
      probe_fields [OF probe_kinds(3) assms] probe_fields [OF probe_kinds(4) assms] by simp_all
  then have l: "gatewayVerifyReason (''ok code='' @ c) ep n True =
      (reasonConnectionVerified, Fmt ''Endpoint %s is reachable (HTTP %s)'' [Lit ep, Lit c])"
    "fst (gatewayVerifyReason (''auth code='' @ c) ep n False) = reasonAuthenticationFailed"
    "gatewayVerifyReason (''http code='' @ c) ep n False =
      (reasonConnectionFailed, Fmt ''Endpoint %s/v1/models returned HTTP %s'' [Lit ep, Lit c])"
    "gatewayVerifyReason (''unreachable rc='' @ c) ep n False =
      (reasonEndpointUnreachable, Fmt ''Endpoint %s is unreachable (%s)'' [Lit ep, Lit (curlErrorPhrase c)])"
    unfolding gatewayVerifyReason_def Let_def
    by (simp_all only: d [OF np(1)] d [OF np(2)] d [OF np(3)] r [OF np(4)] list.case)
      (simp_all add: c)
  show ?thesis
    using l verify_reason_terminal
    by (auto simp: gatewayVerifyReason_def Let_def reason_defs split: if_splits)
qed

lemma probe_line_reasons_witness:
  "fst (gatewayVerifyReason ''auth code=401'' ''https://llm'' ''job'' False) = reasonAuthenticationFailed"
proof -
  have "plain_word ''401''" by (simp add: plain_word_def space_rune_def byte_def)
  from probe_line_reasons [OF this, of "''https://llm''" "''job''"] show ?thesis by simp
qed

end
