(* ===== verification/Readiness.thy ===== *)
theory Readiness
  imports Sandbox
begin

text \<open>
  Aggregate readiness: an object that refers to others publishes a Ready condition that is True exactly
  when every referenced object was found Ready.  The loop over the references, the interface of the
  publication, and the Agent and AgentWorkflow reconcilers (\<open>internal/controller/agent_controller.go\<close>,
  \<open>internal/controller/agentworkflow_controller.go\<close>).
\<close>

section \<open>Calls in sequence\<close>

fun map_calls :: "('x \<Rightarrow> 'w \<Rightarrow> 'y \<times> 'w) \<Rightarrow> 'x list \<Rightarrow> 'w \<Rightarrow> 'y list \<times> 'w" where
  "map_calls f [] w = ([], w)"
| "map_calls f (x # xs) w =
     (case f x w of (y, w1) \<Rightarrow> (case map_calls f xs w1 of (ys, w2) \<Rightarrow> (y # ys, w2)))"

text \<open>The state in which each of the calls is made.\<close>

fun call_worlds :: "('x \<Rightarrow> 'w \<Rightarrow> 'y \<times> 'w) \<Rightarrow> 'x list \<Rightarrow> 'w \<Rightarrow> 'w list" where
  "call_worlds f [] w = []"
| "call_worlds f (x # xs) w = w # call_worlds f xs (snd (f x w))"

lemma length_call_worlds [simp]: "length (call_worlds f xs w) = length xs"
  by (induction xs arbitrary: w) auto

lemma map_calls_answers: "fst (map_calls f xs w) = map2 (\<lambda>x v. fst (f x v)) xs (call_worlds f xs w)"
  by (induction xs arbitrary: w) (auto split: prod.split, metis fst_conv snd_conv)

lemma map_calls_append:
  "map_calls f (xs @ ys) w =
     (fst (map_calls f xs w) @ fst (map_calls f ys (snd (map_calls f xs w))),
      snd (map_calls f ys (snd (map_calls f xs w))))"
  by (induction xs arbitrary: w) (auto split: prod.split)

lemma call_worlds_append:
  "call_worlds f (xs @ ys) w = call_worlds f xs w @ call_worlds f ys (snd (map_calls f xs w))"
  by (induction xs arbitrary: w) (auto split: prod.split)

text \<open>The problems among the answers, in order; they are published with \<open>strings.Join(reasons, "; ")\<close>.\<close>

definition problems :: "'a option list \<Rightarrow> 'a list" where
  "problems xs = List.map_filter (\<lambda>x. x) xs"

lemma problems_simps [simp]:
  "problems [] = []" "problems (None # xs) = problems xs" "problems (Some a # xs) = a # problems xs"
  by (simp_all add: problems_def List.map_filter_simps)

lemma problems_append [simp]: "problems (xs @ ys) = problems xs @ problems ys"
  by (induction xs) (auto simp: problems_def List.map_filter_simps split: option.split)

lemma problems_Nil_iff: "problems xs = [] \<longleftrightarrow> (\<forall>x \<in> set xs. x = None)"
proof (induction xs)
  case (Cons x xs)
  then show ?case by (cases x) auto
qed simp

lemma problems_map2:
  "length xs = length ys \<Longrightarrow> problems (map2 f xs ys) = [] \<longleftrightarrow> list_all2 (\<lambda>x y. f x y = None) xs ys"
  by (induction xs ys rule: list_induct2) (auto simp: problems_Nil_iff)

lemma no_problems:
  "problems (fst (map_calls f rs w)) = [] \<longleftrightarrow> list_all2 (\<lambda>r v. fst (f r v) = None) rs (call_worlds f rs w)"
  by (simp add: map_calls_answers problems_map2)

section \<open>The interface of an aggregate\<close>

text \<open>
  Publishing a list of problems makes an object Ready exactly when the list is empty, and otherwise
  quotes all of it.  What follows for any loop of checks holds for each of the publishers.
\<close>

locale readiness =
  fixes L :: klib and publish :: "'o \<Rightarrow> msg list \<Rightarrow> 'o" and conds :: "'o \<Rightarrow> condition list"
  assumes publish_ready: "conditions_ok L \<Longrightarrow> is_ready L (conds (publish x ps)) \<longleftrightarrow> ps = []"
    and publish_problems: "conditions_ok L \<Longrightarrow> ps \<noteq> [] \<Longrightarrow>
      map_option cd_message (find_condition L (conds (publish x ps)) condition_ready) = Some (join_msgs ps)"
begin

lemma ready_iff_checks:
  assumes "conditions_ok L"
  shows "is_ready L (conds (publish x (problems (fst (map_calls f rs w))))) \<longleftrightarrow>
    list_all2 (\<lambda>r v. fst (f r v) = None) rs (call_worlds f rs w)"
  by (simp add: publish_ready [OF assms] no_problems)

lemma not_ready_quotes:
  assumes "conditions_ok L" and "\<not> is_ready L (conds (publish x ps))" and "p \<in> set ps"
  shows "\<exists>qs. map_option cd_message (find_condition L (conds (publish x ps)) condition_ready) =
    Some (join_msgs qs) \<and> p \<in> set qs"
proof -
  have "ps \<noteq> []" using assms(3) by auto
  with publish_problems [OF assms(1), of ps x] assms(3) show ?thesis by blast
qed

end

section \<open>The Agent reconciler\<close>

record 'w agent_client =
  ac_get_agent :: "nskey \<Rightarrow> ('w, agent) call"
  ac_get_gateway :: "nskey \<Rightarrow> ('w, gateway) call"
  ac_get_card :: "nskey \<Rightarrow> ('w, skill_card) call"
  ac_get_collection :: "nskey \<Rightarrow> ('w, skill_collection) call"
  ac_patch_status :: "agent \<Rightarrow> agent \<Rightarrow> 'w command"
  ac_list_agents :: "string \<Rightarrow> string \<Rightarrow> string \<Rightarrow> ('w, agent list) call"

definition agentGatewayRefIndexField :: string where
  "agentGatewayRefIndexField = ''.spec.gateways.ref''"
definition agentSkillCardRefIndexField :: string where
  "agentSkillCardRefIndexField = ''.spec.skillCards.ref''"
definition agentSkillCollectionRefIndexField :: string where
  "agentSkillCollectionRefIndexField = ''.spec.skillCollections.ref''"

text \<open>The object type \<open>checkRef\<close> is called with, and the name it is given for messages.\<close>

datatype ref_kind = GatewayRef | SkillCardRef | SkillCollectionRef

fun ref_kind_text :: "ref_kind \<Rightarrow> string" where
  "ref_kind_text GatewayRef = ''Gateway''"
| "ref_kind_text SkillCardRef = ''SkillCard''"
| "ref_kind_text SkillCollectionRef = ''SkillCollection''"

text \<open>Reading a referenced object down to its conditions: the type switch.\<close>

definition map_answer :: "('a \<Rightarrow> 'b) \<Rightarrow> 'a res \<times> 'w \<Rightarrow> 'b res \<times> 'w" where
  "map_answer f a = (case a of (Inl e, w) \<Rightarrow> (Inl e, w) | (Inr x, w) \<Rightarrow> (Inr (f x), w))"

fun read_ref :: "'w agent_client \<Rightarrow> nskey \<Rightarrow> ref_kind \<Rightarrow> ('w, condition list) call" where
  "read_ref C key GatewayRef w = map_answer gw_conditions (ac_get_gateway C key w)"
| "read_ref C key SkillCardRef w = map_answer sc_conditions (ac_get_card C key w)"
| "read_ref C key SkillCollectionRef w = map_answer sl_conditions (ac_get_collection C key w)"

definition checkRef ::
  "'w agent_client \<Rightarrow> klib \<Rightarrow> string \<Rightarrow> ref_kind \<times> string \<Rightarrow> 'w \<Rightarrow> msg option \<times> 'w" where
  "checkRef C L ns r w =
     (case r of (kind, name) \<Rightarrow>
        (case read_ref C (nskey_of ns name) kind w of
           (Inl e, w') \<Rightarrow>
             (Some (if kind_of e = KNotFound
                then Fmt ''%s %q not found'' [Lit (ref_kind_text kind), Lit name]
                else Fmt ''error fetching %s %q: %v'' [Lit (ref_kind_text kind), Lit name, text_of e]), w')
         | (Inr cs, w') \<Rightarrow>
             (if is_ready L cs then None
              else Some (Fmt ''%s %q is not Ready'' [Lit (ref_kind_text kind), Lit name]), w')))"

definition ag_namespace :: "agent \<Rightarrow> string" where
  "ag_namespace a = om_namespace (ag_meta a)"

definition ag_set_condition :: "klib \<Rightarrow> string \<Rightarrow> cond_status \<Rightarrow> string \<Rightarrow> msg \<Rightarrow> agent \<Rightarrow> agent" where
  "ag_set_condition L t st r m a =
     a\<lparr>ag_conditions := set_condition L (ag_conditions a)
         \<lparr>cd_type = t, cd_status = st, cd_generation = om_generation (ag_meta a), cd_reason = r,
          cd_message = m\<rparr>\<rparr>"

definition publish_agent_ready :: "klib \<Rightarrow> agent \<Rightarrow> msg list \<Rightarrow> agent" where
  "publish_agent_ready L a reasons =
     (if reasons = []
      then ag_set_condition L condition_ready CTrue ''AllDependenciesReady''
             (Lit ''All referenced gateways, skills, and collections are ready'') a
      else ag_set_condition L condition_ready CFalse ''DependenciesNotReady'' (join_msgs reasons) a)"

definition publish_gateway_configured :: "klib \<Rightarrow> agent \<Rightarrow> msg list \<Rightarrow> agent" where
  "publish_gateway_configured L a reasons =
     (if as_gateways (ag_spec a) = []
      then ag_set_condition L condition_gateway_configured CFalse ''NoGatewaysDeclared''
             (Lit ''Agent declares no gateways; an AgentRun must name one to run'') a
      else if reasons \<noteq> []
      then ag_set_condition L condition_gateway_configured CFalse ''GatewaysNotReady'' (join_msgs reasons) a
      else ag_set_condition L condition_gateway_configured CTrue ''GatewaysReady''
             (Lit ''All declared gateways are ready'') a)"

definition check_refs ::
  "'w agent_client \<Rightarrow> klib \<Rightarrow> agent \<Rightarrow> ref_kind \<Rightarrow> string list \<Rightarrow> 'w \<Rightarrow> msg list \<times> 'w" where
  "check_refs C L a kind names w =
     (case map_calls (checkRef C L (ag_namespace a)) (map (Pair kind) names) w of
        (answers, w') \<Rightarrow> (problems answers, w'))"

definition decide_agent :: "'w agent_client \<Rightarrow> klib \<Rightarrow> agent \<Rightarrow> 'w \<Rightarrow> agent \<times> 'w" where
  "decide_agent C L ag w =
     (let a = ag\<lparr>ag_observed_generation := om_generation (ag_meta ag)\<rparr>; sp = ag_spec ag
      in case check_refs C L a GatewayRef (as_gateways sp) w of
           (gatewayNotReady, w1) \<Rightarrow>
             (case check_refs C L a SkillCardRef (as_skill_cards sp) w1 of
                (cards, w2) \<Rightarrow>
                  (case check_refs C L a SkillCollectionRef (as_skill_collections sp) w2 of
                     (colls, w3) \<Rightarrow>
                       (publish_gateway_configured L
                          (publish_agent_ready L a (gatewayNotReady @ cards @ colls)) gatewayNotReady, w3))))"

definition Reconcile_agent ::
  "'w agent_client \<Rightarrow> klib \<Rightarrow> nskey \<Rightarrow> 'w \<Rightarrow> (reconcile_result \<times> err option) \<times> 'w" where
  "Reconcile_agent C L key w =
     (case ac_get_agent C key w of
        (Inl e, w1) \<Rightarrow> ((no_requeue, if kind_of e = KNotFound then None else Some e), w1)
      | (Inr a, w1) \<Rightarrow>
          (case decide_agent C L a w1 of
             (a', w2) \<Rightarrow> (case ac_patch_status C a a' w2 of (r, w3) \<Rightarrow> ((no_requeue, r), w3))))"

definition agent_index :: "string \<Rightarrow> agent \<Rightarrow> string list" where
  "agent_index field a =
     (if field = agentGatewayRefIndexField then as_gateways (ag_spec a)
      else if field = agentSkillCardRefIndexField then as_skill_cards (ag_spec a)
      else if field = agentSkillCollectionRefIndexField then as_skill_collections (ag_spec a)
      else [])"

definition findAgentsForResource ::
  "'w agent_client \<Rightarrow> string \<Rightarrow> objmeta \<Rightarrow> 'w \<Rightarrow> nskey list \<times> 'w" where
  "findAgentsForResource C field m w =
     (case ac_list_agents C (om_namespace m) field (om_name m) w of
        (Inl e, w') \<Rightarrow> ([], w')
      | (Inr as, w') \<Rightarrow> (map (\<lambda>a. key_of_meta (ag_meta a)) as, w'))"

section \<open>The AgentWorkflow reconciler\<close>

record 'w template_client =
  tc_get_workflow :: "nskey \<Rightarrow> ('w, agent_workflow) call"
  tc_get_agent :: "nskey \<Rightarrow> ('w, agent) call"
  tc_patch_status :: "agent_workflow \<Rightarrow> agent_workflow \<Rightarrow> 'w command"
  tc_list_workflows :: "string \<Rightarrow> string \<Rightarrow> ('w, agent_workflow list) call"

definition workflowAgentRefIndexField :: string where
  "workflowAgentRefIndexField = ''.spec.stages.agentRef''"

text \<open>One stage: what is wrong with its Agent, or the error that ends the reconcile.\<close>

definition check_stage ::
  "'w template_client \<Rightarrow> klib \<Rightarrow> string \<Rightarrow> workflow_stage \<Rightarrow> 'w \<Rightarrow> msg option res \<times> 'w" where
  "check_stage C L ns stg w =
     (case tc_get_agent C (nskey_of ns (ws_agent_ref stg)) w of
        (Inl e, w') \<Rightarrow>
          (if kind_of e = KNotFound
           then Inr (Some (Fmt ''stage %q: Agent %q not found'' [Lit (ws_name stg), Lit (ws_agent_ref stg)]))
           else Inl e, w')
      | (Inr a, w') \<Rightarrow>
          (Inr (if is_ready L (ag_conditions a) then None
                else Some (Fmt ''stage %q: Agent %q is not Ready'' [Lit (ws_name stg), Lit (ws_agent_ref stg)])), w'))"

fun check_stages ::
  "'w template_client \<Rightarrow> klib \<Rightarrow> string \<Rightarrow> workflow_stage list \<Rightarrow> 'w \<Rightarrow> msg list res \<times> 'w" where
  "check_stages C L ns [] w = (Inr [], w)"
| "check_stages C L ns (s # ss) w =
     (case check_stage C L ns s w of
        (Inl e, w1) \<Rightarrow> (Inl e, w1)
      | (Inr p, w1) \<Rightarrow>
          (case check_stages C L ns ss w1 of
             (Inl e, w2) \<Rightarrow> (Inl e, w2)
           | (Inr ps, w2) \<Rightarrow> (Inr (problems [p] @ ps), w2)))"

definition publish_workflow_ready :: "klib \<Rightarrow> agent_workflow \<Rightarrow> msg list \<Rightarrow> agent_workflow" where
  "publish_workflow_ready L aw reasons =
     aw\<lparr>aw_conditions := set_condition L (aw_conditions aw)
       (if reasons = []
        then \<lparr>cd_type = condition_ready, cd_status = CTrue, cd_generation = om_generation (aw_meta aw),
              cd_reason = ''AllAgentsReady'', cd_message = Lit ''All stage Agents are ready''\<rparr>
        else \<lparr>cd_type = condition_ready, cd_status = CFalse, cd_generation = om_generation (aw_meta aw),
              cd_reason = ''AgentsNotReady'', cd_message = join_msgs reasons\<rparr>)\<rparr>"

definition decide_template ::
  "'w template_client \<Rightarrow> klib \<Rightarrow> agent_workflow \<Rightarrow> 'w \<Rightarrow> agent_workflow res \<times> 'w" where
  "decide_template C L aw0 w =
     (let aw = aw0\<lparr>aw_observed_generation := om_generation (aw_meta aw0)\<rparr>
      in case check_stages C L (om_namespace (aw_meta aw)) (aw_stages aw) w of
           (Inl e, w') \<Rightarrow> (Inl e, w')
         | (Inr ps, w') \<Rightarrow> (Inr (publish_workflow_ready L aw ps), w'))"

definition Reconcile_template ::
  "'w template_client \<Rightarrow> klib \<Rightarrow> nskey \<Rightarrow> 'w \<Rightarrow> (reconcile_result \<times> err option) \<times> 'w" where
  "Reconcile_template C L key w =
     (case tc_get_workflow C key w of
        (Inl e, w1) \<Rightarrow> ((no_requeue, if kind_of e = KNotFound then None else Some e), w1)
      | (Inr aw, w1) \<Rightarrow>
          (case decide_template C L aw w1 of
             (Inl e, w2) \<Rightarrow> ((no_requeue, Some e), w2)
           | (Inr aw', w2) \<Rightarrow>
               (case tc_patch_status C aw aw' w2 of (r, w3) \<Rightarrow> ((no_requeue, r), w3))))"

definition workflow_index :: "agent_workflow \<Rightarrow> string list" where
  "workflow_index aw = map ws_agent_ref (aw_stages aw)"

definition findWorkflowsForAgent :: "'w template_client \<Rightarrow> objmeta \<Rightarrow> 'w \<Rightarrow> nskey list \<times> 'w" where
  "findWorkflowsForAgent C m w =
     (case tc_list_workflows C (om_namespace m) (om_name m) w of
        (Inl e, w') \<Rightarrow> ([], w')
      | (Inr ws, w') \<Rightarrow> (map (\<lambda>a. key_of_meta (aw_meta a)) ws, w'))"

section \<open>Ready exactly when every reference is\<close>

lemma ag_set_condition_simps [simp]:
  "ag_meta (ag_set_condition L t st r m a) = ag_meta a" "ag_spec (ag_set_condition L t st r m a) = ag_spec a"
  "ag_observed_generation (ag_set_condition L t st r m a) = ag_observed_generation a"
  by (simp_all add: ag_set_condition_def)

lemma publish_keeps_agent [simp]:
  "ag_meta (publish_agent_ready L a ps) = ag_meta a" "ag_spec (publish_agent_ready L a ps) = ag_spec a"
  "ag_observed_generation (publish_agent_ready L a ps) = ag_observed_generation a"
  "ag_observed_generation (publish_gateway_configured L a ps) = ag_observed_generation a"
  by (simp_all add: publish_agent_ready_def publish_gateway_configured_def)

lemma find_ag_set [simp]:
  "conditions_ok L \<Longrightarrow> find_condition L (ag_conditions (ag_set_condition L t st r m a)) u =
     (if u = t then Some \<lparr>cd_type = t, cd_status = st, cd_generation = om_generation (ag_meta a),
        cd_reason = r, cd_message = m\<rparr> else find_condition L (ag_conditions a) u)"
  by (simp add: ag_set_condition_def find_set_type)

lemma ready_not_configured [simp]:
  "condition_ready \<noteq> condition_gateway_configured" "condition_gateway_configured \<noteq> condition_ready"
  by (simp_all add: condition_ready_def condition_gateway_configured_def)

lemma ready_of_configured [simp]:
  "conditions_ok L \<Longrightarrow> find_condition L (ag_conditions (publish_gateway_configured L a ps)) condition_ready =
     find_condition L (ag_conditions a) condition_ready"
  by (simp add: publish_gateway_configured_def)

interpretation agent_readiness: readiness L "publish_agent_ready L" ag_conditions for L
  by unfold_locales (simp_all add: publish_agent_ready_def is_ready_def)

interpretation workflow_readiness: readiness L "publish_workflow_ready L" aw_conditions for L
  by unfold_locales (simp_all add: publish_workflow_ready_def is_ready_def find_set_type)

text \<open>The references of an Agent, in the order they are checked, and the object that is there.\<close>

definition agent_refs :: "agent \<Rightarrow> (ref_kind \<times> string) list" where
  "agent_refs a = map (Pair GatewayRef) (as_gateways (ag_spec a))
     @ map (Pair SkillCardRef) (as_skill_cards (ag_spec a))
     @ map (Pair SkillCollectionRef) (as_skill_collections (ag_spec a))"

definition ref_ready :: "'w agent_client \<Rightarrow> klib \<Rightarrow> string \<Rightarrow> ref_kind \<times> string \<Rightarrow> 'w \<Rightarrow> bool" where
  "ref_ready C L ns r v \<longleftrightarrow>
     (\<exists>cs v'. read_ref C (nskey_of ns (snd r)) (fst r) v = (Inr cs, v') \<and> is_ready L cs)"

lemma checkRef_None: "fst (checkRef C L ns r v) = None \<longleftrightarrow> ref_ready C L ns r v"
  by (auto simp: checkRef_def ref_ready_def split: prod.splits sum.splits)

lemma decide_agent_eq:
  "decide_agent C L ag w =
     (let a = ag\<lparr>ag_observed_generation := om_generation (ag_meta ag)\<rparr>;
          f = checkRef C L (ag_namespace ag)
      in (publish_gateway_configured L
            (publish_agent_ready L a (problems (fst (map_calls f (agent_refs ag) w))))
            (problems (fst (map_calls f (map (Pair GatewayRef) (as_gateways (ag_spec ag))) w))),
          snd (map_calls f (agent_refs ag) w)))"
  by (simp add: decide_agent_def check_refs_def agent_refs_def map_calls_append Let_def ag_namespace_def
      split: prod.split)

text \<open>
  A reconciled Agent is Ready exactly when every Gateway, SkillCard and SkillCollection it references
  was found Ready when it was read, and has its gateways configured exactly when it declares some and
  those were all Ready; so a Ready Agent lacks configured gateways only when it declares none.
\<close>

theorem agent_ready_iff:
  assumes "conditions_ok L" and d: "decide_agent C L ag w = (ag', w')"
  shows "(is_ready L (ag_conditions ag') \<longleftrightarrow>
      list_all2 (ref_ready C L (ag_namespace ag)) (agent_refs ag)
        (call_worlds (checkRef C L (ag_namespace ag)) (agent_refs ag) w)) \<and>
    (map_option cd_status (find_condition L (ag_conditions ag') condition_gateway_configured) = Some CTrue \<longleftrightarrow>
      as_gateways (ag_spec ag) \<noteq> [] \<and>
      list_all2 (ref_ready C L (ag_namespace ag)) (map (Pair GatewayRef) (as_gateways (ag_spec ag)))
        (call_worlds (checkRef C L (ag_namespace ag)) (map (Pair GatewayRef) (as_gateways (ag_spec ag))) w)) \<and>
    (is_ready L (ag_conditions ag') \<longrightarrow>
       map_option cd_status (find_condition L (ag_conditions ag') condition_gateway_configured) \<noteq> Some CTrue \<longrightarrow>
       as_gateways (ag_spec ag) = []) \<and>
    ag_observed_generation ag' = om_generation (ag_meta ag)"
proof -
  let ?f = "checkRef C L (ag_namespace ag)" and ?gs = "map (Pair GatewayRef) (as_gateways (ag_spec ag))"
  let ?a = "ag\<lparr>ag_observed_generation := om_generation (ag_meta ag)\<rparr>"
  let ?ps = "problems (fst (map_calls ?f (agent_refs ag) w))" and ?qs = "problems (fst (map_calls ?f ?gs w))"
  have ag': "ag' = publish_gateway_configured L (publish_agent_ready L ?a ?ps) ?qs"
    using d by (simp add: decide_agent_eq Let_def)
  have r: "is_ready L (ag_conditions ag') \<longleftrightarrow>
      list_all2 (ref_ready C L (ag_namespace ag)) (agent_refs ag) (call_worlds ?f (agent_refs ag) w)"
    using agent_readiness.ready_iff_checks [OF assms(1), of ?a ?f "agent_refs ag" w]
    by (simp add: ag' is_ready_def assms(1) checkRef_None)
  have q: "?qs = [] \<longleftrightarrow> list_all2 (ref_ready C L (ag_namespace ag)) ?gs (call_worlds ?f ?gs w)"
    by (simp add: no_problems checkRef_None)
  have g: "map_option cd_status (find_condition L (ag_conditions ag') condition_gateway_configured) = Some CTrue
      \<longleftrightarrow> as_gateways (ag_spec ag) \<noteq> [] \<and> ?qs = []"
    by (simp add: ag' publish_gateway_configured_def assms(1))
  have "is_ready L (ag_conditions ag') \<longrightarrow> ?qs = []"
    unfolding r q by (simp add: agent_refs_def call_worlds_append list_all2_append)
  with r g q show ?thesis by (simp add: ag')
qed

lemma ready_sample:
  "conditions_ok L \<Longrightarrow> is_ready L (set_condition L cs
     \<lparr>cd_type = condition_ready, cd_status = CTrue, cd_generation = n, cd_reason = r, cd_message = m\<rparr>)"
  by (simp add: is_ready_def find_set_type)

definition empty_agents :: "int agent_client" where
  "empty_agents =
     \<lparr>ac_get_agent = (\<lambda>k w. (Inl not_found, w)), ac_get_gateway = (\<lambda>k w. (Inl not_found, w)),
      ac_get_card = (\<lambda>k w. (Inl not_found, w)), ac_get_collection = (\<lambda>k w. (Inl not_found, w)),
      ac_patch_status = (\<lambda>a b w. (None, w)), ac_list_agents = (\<lambda>ns f n w. (Inr [], w))\<rparr>"

definition gatewayless_agent :: agent where
  "gatewayless_agent =
     \<lparr>ag_meta = new_meta ''ns'' ''coder'' Map.empty,
      ag_spec = \<lparr>as_image = ''img'', as_prompt = [], as_gateways = [], as_skill_cards = [],
        as_skill_collections = [], as_params = [], as_git_config = None, as_execution = None\<rparr>,
      ag_observed_generation = 0, ag_conditions = []\<rparr>"

lemma agent_ready_iff_witness:
  "is_ready sample_lib (ag_conditions (fst (decide_agent empty_agents sample_lib gatewayless_agent 3)))"
proof -
  obtain a w where d: "decide_agent empty_agents sample_lib gatewayless_agent 3 = (a, w)" by fastforce
  have "agent_refs gatewayless_agent = []"
    by (simp add: agent_refs_def gatewayless_agent_def)
  with agent_ready_iff [OF sample_conditions_ok d] show ?thesis by (simp add: d)
qed

section \<open>Workflow templates\<close>

definition stage_ready :: "'w template_client \<Rightarrow> klib \<Rightarrow> string \<Rightarrow> workflow_stage \<Rightarrow> 'w \<Rightarrow> bool" where
  "stage_ready C L ns stg v \<longleftrightarrow>
     (\<exists>a v'. tc_get_agent C (nskey_of ns (ws_agent_ref stg)) v = (Inr a, v') \<and> is_ready L (ag_conditions a))"

lemma check_stage_answer:
  "fst (check_stage C L ns s w) = Inr None \<longleftrightarrow> stage_ready C L ns s w"
  by (auto simp: check_stage_def stage_ready_def split: prod.splits sum.splits)

lemma check_stages_ok:
  "check_stages C L ns ss w = (Inr ps, w') \<Longrightarrow>
   ps = [] \<longleftrightarrow> list_all2 (stage_ready C L ns) ss (call_worlds (check_stage C L ns) ss w)"
proof (induction ss arbitrary: w ps)
  case (Cons s ss)
  obtain p w1 where p: "check_stage C L ns s w = (Inr p, w1)"
    using Cons.prems by (auto split: prod.splits sum.splits)
  obtain qs where q: "check_stages C L ns ss w1 = (Inr qs, w')" "ps = problems [p] @ qs"
    using Cons.prems p by (auto split: prod.splits sum.splits)
  have "p = None \<longleftrightarrow> stage_ready C L ns s w"
    using check_stage_answer [of C L ns s w] p by simp
  with Cons.IH [OF q(1)] q(2) p show ?case by (cases p) auto
qed simp

lemma check_stages_err:
  "check_stages C L ns ss w = (Inl e, w') \<Longrightarrow>
   \<exists>stg v. stg \<in> set ss \<and> kind_of e \<noteq> KNotFound \<and>
     fst (tc_get_agent C (nskey_of ns (ws_agent_ref stg)) v) = Inl e"
proof (induction ss arbitrary: w)
  case (Cons s ss)
  show ?case
  proof (cases "check_stage C L ns s w")
    case c: (Pair a w1)
    show ?thesis
    proof (cases a)
      case (Inl e')
      with c Cons.prems have "e' = e" by simp
      with c Inl have "fst (tc_get_agent C (nskey_of ns (ws_agent_ref s)) w) = Inl e \<and> kind_of e \<noteq> KNotFound"
        by (auto simp: check_stage_def split: prod.splits sum.splits if_splits)
      then show ?thesis by auto
    next
      case (Inr p)
      with c Cons.prems have "check_stages C L ns ss w1 = (Inl e, w')"
        by (auto split: prod.splits sum.splits)
      from Cons.IH [OF this] show ?thesis by auto
    qed
  qed
qed simp

text \<open>
  A workflow template is published as Ready exactly when the Agent of every stage was found Ready; a
  read that fails for another reason than a missing Agent publishes nothing and returns that error.
\<close>

theorem template_ready_iff:
  assumes "conditions_ok L" and d: "decide_template C L aw w = (a, w')"
  shows "case a of
      Inr aw' \<Rightarrow> aw_observed_generation aw' = om_generation (aw_meta aw) \<and>
        (is_ready L (aw_conditions aw') \<longleftrightarrow>
          list_all2 (stage_ready C L (om_namespace (aw_meta aw))) (aw_stages aw)
            (call_worlds (check_stage C L (om_namespace (aw_meta aw))) (aw_stages aw) w))
    | Inl e \<Rightarrow> kind_of e \<noteq> KNotFound \<and>
        (\<exists>stg v. stg \<in> set (aw_stages aw) \<and>
           fst (tc_get_agent C (nskey_of (om_namespace (aw_meta aw)) (ws_agent_ref stg)) v) = Inl e)"
proof (cases a)
  case (Inl e)
  with d have "check_stages C L (om_namespace (aw_meta aw)) (aw_stages aw) w = (Inl e, w')"
    by (auto simp: decide_template_def Let_def split: prod.splits sum.splits)
  from check_stages_err [OF this] Inl show ?thesis by auto
next
  case (Inr aw')
  with d obtain ps where ps: "check_stages C L (om_namespace (aw_meta aw)) (aw_stages aw) w = (Inr ps, w')"
    "aw' = publish_workflow_ready L (aw\<lparr>aw_observed_generation := om_generation (aw_meta aw)\<rparr>) ps"
    by (auto simp: decide_template_def Let_def split: prod.splits sum.splits)
  have "aw_observed_generation aw' = om_generation (aw_meta aw)"
    by (simp add: ps(2) publish_workflow_ready_def)
  moreover have "is_ready L (aw_conditions aw') \<longleftrightarrow> ps = []"
    using workflow_readiness.publish_ready [OF assms(1)] by (simp add: ps(2))
  ultimately show ?thesis
    using check_stages_ok [OF ps(1)] Inr by simp
qed

definition template_world :: "int template_client" where
  "template_world =
     \<lparr>tc_get_workflow = (\<lambda>k w. (Inl not_found, w)), tc_get_agent = (\<lambda>k w. (Inl not_found, w)),
      tc_patch_status = (\<lambda>a b w. (None, w)), tc_list_workflows = (\<lambda>ns n w. (Inr [], w))\<rparr>"

definition one_stage :: agent_workflow where
  "one_stage =
     \<lparr>aw_meta = new_meta ''ns'' ''flow'' Map.empty, aw_guide = [],
      aw_stages = [\<lparr>ws_name = ''fix'', ws_agent_ref = ''coder'', ws_instructions = [], ws_execution = None\<rparr>],
      aw_params = [], aw_observed_generation = 0, aw_conditions = []\<rparr>"

lemma template_ready_iff_witness:
  "\<exists>aw'. fst (decide_template template_world sample_lib one_stage 0) = Inr aw' \<and>
     \<not> is_ready sample_lib (aw_conditions aw')"
proof -
  obtain aw' where d: "decide_template template_world sample_lib one_stage 0 = (Inr aw', 0)"
    by (simp add: decide_template_def one_stage_def check_stage_def template_world_def not_found_def Let_def)
  have "\<not> stage_ready template_world sample_lib ns stg v" for ns stg v
    by (simp add: stage_ready_def template_world_def)
  with template_ready_iff [OF sample_conditions_ok d] d show ?thesis
    by (simp add: one_stage_def)
qed

end
