(* ===== verification/SkillCollection.thy ===== *)
theory SkillCollection
  imports Readiness Jobs Names Ttl
begin

text \<open>
  The SkillCollection reconciler (\<open>skillcollection_controller.go\<close>, \<open>skillcollection_enumerate.go\<close> and
  \<open>skillcollection_rbac.go\<close> of \<open>internal/controller\<close>): a collection either lists skills, and is Ready when
  each of them resolves, or names an image, whose skills a one-shot Job writes out as SkillCards.
\<close>

section \<open>The environment\<close>

record role_rule =
  ru_groups :: "string list"
  ru_resources :: "string list"
  ru_verbs :: "string list"

record role =
  ro_meta :: objmeta
  ro_rules :: "role_rule list"

record role_subject =
  su_kind :: string
  su_name :: string
  su_namespace :: string

record role_binding =
  rb_meta :: objmeta
  rb_group :: string
  rb_kind :: string
  rb_role :: string
  rb_subjects :: "role_subject list"

text \<open>\<open>CreateOrUpdate\<close> gets the object by name, runs the given function on it and writes the result.\<close>

record 'w collection_client =
  sk_get_collection :: "nskey \<Rightarrow> ('w, skill_collection) call"
  sk_get_card :: "nskey \<Rightarrow> ('w, skill_card) call"
  sk_get_job :: "nskey \<Rightarrow> ('w, job) call"
  sk_list_jobs :: "string \<Rightarrow> label_selector \<Rightarrow> ('w, job list) call"
  sk_list_cards :: "string \<Rightarrow> label_selector \<Rightarrow> ('w, skill_card list) call"
  sk_create_job :: "job \<Rightarrow> 'w command"
  sk_delete_job :: "propagation \<Rightarrow> job \<Rightarrow> 'w command"
  sk_delete_card :: "skill_card \<Rightarrow> 'w command"
  sk_apply_account :: "nskey \<Rightarrow> (objmeta \<Rightarrow> objmeta res) \<Rightarrow> 'w command"
  sk_apply_role :: "nskey \<Rightarrow> (role \<Rightarrow> role res) \<Rightarrow> 'w command"
  sk_apply_binding :: "nskey \<Rightarrow> (role_binding \<Rightarrow> role_binding res) \<Rightarrow> 'w command"
  sk_patch_status :: "skill_collection \<Rightarrow> skill_collection \<Rightarrow> 'w command"
  sk_list_collections :: "string \<Rightarrow> string \<Rightarrow> ('w, skill_collection list) call"

record collection_config =
  sf_enumeration_image :: string
  sf_service_account :: string

definition enumerationJobPrefix :: string where "enumerationJobPrefix = ''skill-enumerate-''"
definition enumerationSrcDir :: string where "enumerationSrcDir = ''/src''"
definition materializeSubcommand :: string where "materializeSubcommand = ''materialize''"
definition defaultEnumerationServiceAccount :: string where
  "defaultEnumerationServiceAccount = ''skill-enumerator''"
definition reasonAllSkillsResolved :: string where "reasonAllSkillsResolved = ''AllSkillsResolved''"
definition reasonEnumerationFailed :: string where "reasonEnumerationFailed = ''EnumerationFailed''"
definition enumerationDeadline :: int where "enumerationDeadline = 10 * 60"
definition rbacRetryInterval :: int where "rbacRetryInterval = 5 * 60 * second"
definition enumeratorRoleName :: string where "enumeratorRoleName = ''skill-enumerator''"
definition kindServiceAccount :: string where "kindServiceAccount = ''ServiceAccount''"
definition skill_collection_kind :: string where "skill_collection_kind = ''SkillCollection''"

definition sl_name :: "skill_collection \<Rightarrow> string" where "sl_name c = om_name (sl_meta c)"
definition sl_namespace :: "skill_collection \<Rightarrow> string" where "sl_namespace c = om_namespace (sl_meta c)"

definition enumerationServiceAccount :: "collection_config \<Rightarrow> string" where
  "enumerationServiceAccount cfg =
     (if sf_service_account cfg \<noteq> [] then sf_service_account cfg else defaultEnumerationServiceAccount)"

definition enumerationJobName :: "skill_collection \<Rightarrow> string" where
  "enumerationJobName c =
     sanitizeVolumeName (enumerationJobPrefix @ sl_name c @ ''-gen'' @ int_text (om_generation (sl_meta c)))"

section \<open>The identity of the Job\<close>

definition terminal :: "string \<Rightarrow> msg list \<Rightarrow> err" where
  "terminal f xs = Err KTerminal (Fmt f xs)"

definition isTerminal :: "err \<Rightarrow> bool" where
  "isTerminal e \<longleftrightarrow> kind_of e = KTerminal"

definition rbacError :: "string \<Rightarrow> string \<Rightarrow> err \<Rightarrow> err" where
  "rbacError ns account e =
     (if kind_of e = KForbidden
      then wrapf ''the controller may not create RBAC in namespace %s, so the enumeration Job has no identity. Either grant the controller create on serviceaccounts, roles and rolebindings, or create in %s: a ServiceAccount named %q, a Role named %q granting create,delete,get,list,update on konveyor.io skillcards, and a RoleBinding named %q binding the two: %w''
             [Lit ns, Lit ns, Lit account, Lit enumeratorRoleName, Lit enumeratorRoleName] e
      else wrapf ''preparing the enumerator's identity in namespace %s: %w'' [Lit ns] e)"

definition enumerator_labels :: "string \<Rightarrow> string option" where
  "enumerator_labels = [label_managed_by \<mapsto> managed_by, label_component \<mapsto> enumeratorRoleName]"

text \<open>The three mutate functions: an object without UID is about to be created.\<close>

definition mutate_account :: "objmeta \<Rightarrow> objmeta res" where
  "mutate_account m = Inr (if om_uid m = [] then m\<lparr>om_labels := enumerator_labels\<rparr> else m)"

definition enumerator_rules :: "role_rule list" where
  "enumerator_rules =
     [\<lparr>ru_groups = [''konveyor.io''], ru_resources = [''skillcards''],
       ru_verbs = [''create'', ''delete'', ''get'', ''list'', ''update'']\<rparr>]"

definition mutate_role :: "role \<Rightarrow> role res" where
  "mutate_role r =
     Inr ((if om_uid (ro_meta r) = [] then r\<lparr>ro_meta := (ro_meta r)\<lparr>om_labels := enumerator_labels\<rparr>\<rparr> else r)
            \<lparr>ro_rules := enumerator_rules\<rparr>)"

definition mutate_binding :: "string \<Rightarrow> role_subject \<Rightarrow> role_binding \<Rightarrow> role_binding res" where
  "mutate_binding ns s b =
     (if om_uid (rb_meta b) = []
      then Inr (b\<lparr>rb_meta := (rb_meta b)\<lparr>om_labels := enumerator_labels\<rparr>,
                  rb_group := ''rbac.authorization.k8s.io'', rb_kind := ''Role'',
                  rb_role := enumeratorRoleName, rb_subjects := [s]\<rparr>)
      else if rb_kind b \<noteq> ''Role'' \<or> rb_role b \<noteq> enumeratorRoleName
      then Inl (errorf ''RoleBinding %s/%s already binds %s %q, and roleRef cannot be changed; delete it, or bind %q to Role %q yourself''
             [Lit ns, Lit enumeratorRoleName, Lit (rb_kind b), Lit (rb_role b), Lit (su_name s), Lit enumeratorRoleName])
      else Inr (if s \<in> set (rb_subjects b) then b else b\<lparr>rb_subjects := rb_subjects b @ [s]\<rparr>))"

definition ensureEnumeratorRBAC ::
  "collection_config \<Rightarrow> 'w collection_client \<Rightarrow> string \<Rightarrow> 'w \<Rightarrow> err option \<times> 'w" where
  "ensureEnumeratorRBAC cfg C ns w =
     (let account = enumerationServiceAccount cfg; fail = (\<lambda>e w. (Some (rbacError ns account e), w))
      in case sk_apply_account C (nskey_of ns account) mutate_account w of
           (Some e, w1) \<Rightarrow> fail e w1
         | (None, w1) \<Rightarrow>
             (case sk_apply_role C (nskey_of ns enumeratorRoleName) mutate_role w1 of
                (Some e, w2) \<Rightarrow> fail e w2
              | (None, w2) \<Rightarrow>
                  (case sk_apply_binding C (nskey_of ns enumeratorRoleName)
                          (mutate_binding ns
                             \<lparr>su_kind = kindServiceAccount, su_name = account, su_namespace = ns\<rparr>) w2 of
                     (Some e, w3) \<Rightarrow> fail e w3
                   | (None, w3) \<Rightarrow> (None, w3))))"

section \<open>The enumeration Job\<close>

definition collection_selector :: "skill_collection \<Rightarrow> label_selector" where
  "collection_selector c = [(label_skill_collection, sl_name c)]"

definition enumeration_container :: "collection_config \<Rightarrow> skill_collection \<Rightarrow> string \<Rightarrow> container" where
  "enumeration_container cfg c img =
     (let env = (\<lambda>n v. \<lparr>ev_name = n, ev_value = v, ev_from = None\<rparr>)
      in \<lparr>ct_name = materializeSubcommand, ct_image = sf_enumeration_image cfg,
          ct_command = [loader_binary], ct_args = [materializeSubcommand, enumerationSrcDir],
          ct_env = [env ''KONVEYOR_COLLECTION_NAME'' (sl_name c),
            env ''KONVEYOR_COLLECTION_UID'' (om_uid (sl_meta c)),
            env ''KONVEYOR_NAMESPACE'' (sl_namespace c),
            env ''KONVEYOR_SKILL_IMAGE'' img,
            env ''KONVEYOR_SKILL_TYPE'' (skill_type_text (sl_type c))],
          ct_env_from = [],
          ct_mounts = [\<lparr>vm_name = ''src'', vm_path = enumerationSrcDir, vm_subpath = [], vm_readonly = True\<rparr>],
          ct_ports = [], ct_tcp_probe = None, ct_fallback_to_logs = False\<rparr>)"

definition enumeration_job :: "collection_config \<Rightarrow> skill_collection \<Rightarrow> string \<Rightarrow> string \<Rightarrow> job" where
  "enumeration_job cfg c img name =
     \<lparr>jb_meta = new_meta (sl_namespace c) name
        [label_managed_by \<mapsto> managed_by, label_skill_collection \<mapsto> sl_name c],
      jb_backoff = 0, jb_deadline = enumerationDeadline,
      jb_pod_labels = [label_skill_collection \<mapsto> sl_name c],
      jb_service_account = enumerationServiceAccount cfg,
      jb_run_as_non_root = True, jb_seccomp = ''RuntimeDefault'', jb_security = hardened,
      jb_pull_policy = [],
      jb_pod = \<lparr>ps_restart = ''Never'', ps_init = [], ps_containers = [enumeration_container cfg c img],
        ps_volumes = [\<lparr>vol_name = ''src'', vol_source = VImage img\<rparr>]\<rparr>,
      jb_conditions = []\<rparr>"

definition createEnumerationJob ::
  "collection_config \<Rightarrow> 'w collection_client \<Rightarrow> klib \<Rightarrow> skill_collection \<Rightarrow> string \<Rightarrow> string \<Rightarrow> 'w
    \<Rightarrow> err option \<times> 'w" where
  "createEnumerationJob cfg C L c img name w =
     (let errs = label_value_problems L (sl_name c)
      in if errs \<noteq> []
         then (Some (terminal ''cannot enumerate: the collection name is used as a label value on the cards it owns, and %s''
                 [Lit (join ''; '' errs)]), w)
         else if sf_enumeration_image cfg = []
         then (Some (terminal ''no enumeration image configured: set SKILL_LOADER_IMAGE (or ENUMERATION_IMAGE) on the controller to an image carrying /skill-loader'' []), w)
         else
           (let j = enumeration_job cfg c img name
            in case set_controller_ref L skill_collection_kind (sl_meta c) (jb_meta j) of
                 Inl e \<Rightarrow> (Some (wrapf ''setting owner reference on enumeration job: %w'' [] e), w)
               | Inr m \<Rightarrow>
                   (case sk_create_job C (j\<lparr>jb_meta := m\<rparr>) w of
                      (Some e, w') \<Rightarrow>
                        (if kind_of e = KAlreadyExists then None
                         else Some (wrapf ''creating enumeration job: %w'' [] e), w')
                    | (None, w') \<Rightarrow> (None, w'))))"

text \<open>The stale Jobs are deleted in order; whether any was seen is the answer.\<close>

fun delete_stale ::
  "'w collection_client \<Rightarrow> string \<Rightarrow> bool \<Rightarrow> job list \<Rightarrow> 'w \<Rightarrow> bool res \<times> 'w" where
  "delete_stale C current remaining [] w = (Inr remaining, w)"
| "delete_stale C current remaining (j # js) w =
     (if jb_name j = current then delete_stale C current remaining js w
      else (case sk_delete_job C Foreground j w of
              (None, w') \<Rightarrow> delete_stale C current True js w'
            | (Some e, w') \<Rightarrow>
                if kind_of e = KNotFound then delete_stale C current True js w'
                else (Inl (wrapf ''deleting stale enumeration job %q: %w'' [Lit (jb_name j)] e), w')))"

definition deleteStaleEnumerationJobs ::
  "'w collection_client \<Rightarrow> skill_collection \<Rightarrow> string \<Rightarrow> 'w \<Rightarrow> bool res \<times> 'w" where
  "deleteStaleEnumerationJobs C c current w =
     (case sk_list_jobs C (sl_namespace c) (collection_selector c) w of
        (Inl e, w') \<Rightarrow> (Inl (wrapf ''listing enumeration jobs: %w'' [] e), w')
      | (Inr jobs, w') \<Rightarrow> delete_stale C current False jobs w')"

definition ownedSkillCards ::
  "'w collection_client \<Rightarrow> skill_collection \<Rightarrow> 'w \<Rightarrow> string list res \<times> 'w" where
  "ownedSkillCards C c w =
     (case sk_list_cards C (sl_namespace c) (collection_selector c) w of
        (Inl e, w') \<Rightarrow> (Inl (wrapf ''listing owned SkillCards: %w'' [] e), w')
      | (Inr cards, w') \<Rightarrow> (Inr (sort (map (\<lambda>k. om_name (sc_meta k)) cards)), w'))"

text \<open>No Job of this generation yet: clear the others away, or start it.\<close>

definition start_enumeration ::
  "collection_config \<Rightarrow> 'w collection_client \<Rightarrow> klib \<Rightarrow> skill_collection \<Rightarrow> string \<Rightarrow> 'w
    \<Rightarrow> string list option res \<times> 'w" where
  "start_enumeration cfg C L c img w =
     (let name = enumerationJobName c
      in case deleteStaleEnumerationJobs C c name w of
           (Inl e, w1) \<Rightarrow> (Inl e, w1)
         | (Inr stale, w1) \<Rightarrow>
             if stale then (Inr None, w1)
             else (case ensureEnumeratorRBAC cfg C (sl_namespace c) w1 of
                     (Some e, w2) \<Rightarrow> (Inl e, w2)
                   | (None, w2) \<Rightarrow>
                       (case createEnumerationJob cfg C L c img name w2 of
                          (Some e, w3) \<Rightarrow> (Inl e, w3)
                        | (None, w3) \<Rightarrow> (Inr None, w3))))"

definition enumerateImage ::
  "collection_config \<Rightarrow> 'w collection_client \<Rightarrow> klib \<Rightarrow> skill_collection \<Rightarrow> string \<Rightarrow> 'w
    \<Rightarrow> string list option res \<times> 'w" where
  "enumerateImage cfg C L c img w =
     (let name = enumerationJobName c
      in case sk_get_job C (nskey_of (sl_namespace c) name) w of
           (Inl e, w1) \<Rightarrow>
             (if kind_of e = KNotFound then start_enumeration cfg C L c img w1 else (Inl e, w1))
         | (Inr j, w1) \<Rightarrow>
             if \<not> isJobComplete j then (Inr None, w1)
             else if \<not> isJobSucceeded j
             then (Inl (terminal ''enumeration job %s failed; see its logs'' [Lit name]), w1)
             else (case ownedSkillCards C c w1 of
                     (Inl e, w2) \<Rightarrow> (Inl e, w2)
                   | (Inr found, w2) \<Rightarrow>
                       if found = []
                       then (Inl (errorf ''enumeration job %s succeeded but none of the SkillCards it wrote are visible yet''
                                    [Lit name]), w2)
                       else (Inr (Some found), w2)))"

section \<open>Reconcile\<close>

definition sl_set_ready ::
  "klib \<Rightarrow> skill_collection \<Rightarrow> cond_status \<Rightarrow> string \<Rightarrow> msg \<Rightarrow> skill_collection" where
  "sl_set_ready L c st r m =
     c\<lparr>sl_conditions := set_condition L (sl_conditions c)
         \<lparr>cd_type = condition_ready, cd_status = st, cd_generation = om_generation (sl_meta c),
          cd_reason = r, cd_message = m\<rparr>\<rparr>"

definition reconcileImageSource ::
  "collection_config \<Rightarrow> 'w collection_client \<Rightarrow> klib \<Rightarrow> skill_collection \<Rightarrow> 'w
    \<Rightarrow> skill_collection outcome \<times> 'w" where
  "reconcileImageSource cfg C L c w =
     (case enumerateImage cfg C L c (sl_image c) w of
        (Inl e, w') \<Rightarrow>
          (let c' = sl_set_ready L c CFalse reasonEnumerationFailed (text_of e)
           in (if kind_of e = KForbidden
               then PatchRun c' \<lparr>rr_requeue = False, rr_after = rbacRetryInterval\<rparr> None
               else if isTerminal e then PatchRun c' no_requeue None
               else PatchRun c' no_requeue (Some e), w'))
      | (Inr None, w') \<Rightarrow>
          (PatchRun (sl_set_ready L c CFalse ''Enumerating'' (Fmt ''Reading the skills in %s'' [Lit (sl_image c)]))
             no_requeue None, w')
      | (Inr (Some found), w') \<Rightarrow>
          (PatchRun (sl_set_ready L (c\<lparr>sl_resolved_skills := found\<rparr>) CTrue reasonAllSkillsResolved
             (Fmt ''Enumerated %d skills from %s'' [Lit (nat_text (length found)), Lit (sl_image c)]))
             no_requeue None, w'))"

fun delete_cards :: "'w collection_client \<Rightarrow> skill_card list \<Rightarrow> 'w \<Rightarrow> err option \<times> 'w" where
  "delete_cards C [] w = (None, w)"
| "delete_cards C (k # ks) w =
     (case sk_delete_card C k w of
        (None, w') \<Rightarrow> delete_cards C ks w'
      | (Some e, w') \<Rightarrow>
          if kind_of e = KNotFound then delete_cards C ks w'
          else (Some (wrapf ''deleting generated SkillCard %q: %w'' [Lit (om_name (sc_meta k))] e), w'))"

definition dropEnumeratedSkillCards ::
  "'w collection_client \<Rightarrow> skill_collection \<Rightarrow> 'w \<Rightarrow> skill_collection res \<times> 'w" where
  "dropEnumeratedSkillCards C c w =
     (if sl_resolved_skills c = [] then (Inr c, w)
      else (case deleteStaleEnumerationJobs C c [] w of
              (Inl e, w1) \<Rightarrow> (Inl e, w1)
            | (Inr _, w1) \<Rightarrow>
                (case sk_list_cards C (sl_namespace c) (collection_selector c) w1 of
                   (Inl e, w2) \<Rightarrow> (Inl (wrapf ''listing generated SkillCards: %w'' [] e), w2)
                 | (Inr cards, w2) \<Rightarrow>
                     (case delete_cards C cards w2 of
                        (Some e, w3) \<Rightarrow> (Inl e, w3)
                      | (None, w3) \<Rightarrow> (Inr (c\<lparr>sl_resolved_skills := []\<rparr>), w3)))))"

definition checkSkillCardRef ::
  "'w collection_client \<Rightarrow> klib \<Rightarrow> string \<Rightarrow> collection_entry \<Rightarrow> 'w \<Rightarrow> msg option \<times> 'w" where
  "checkSkillCardRef C L ns r w =
     (case sk_get_card C (nskey_of ns (ce_card_ref r)) w of
        (Inl e, w') \<Rightarrow>
          (Some (if kind_of e = KNotFound
             then Fmt ''skill %q: SkillCard %q not found'' [Lit (ce_name r), Lit (ce_card_ref r)]
             else Fmt ''skill %q: error fetching SkillCard %q: %v'' [Lit (ce_name r), Lit (ce_card_ref r), text_of e]), w')
      | (Inr k, w') \<Rightarrow>
          (if is_ready L (sc_conditions k) then None
           else Some (Fmt ''skill %q: SkillCard %q is not Ready'' [Lit (ce_name r), Lit (ce_card_ref r)]), w'))"

definition check_entry ::
  "'w collection_client \<Rightarrow> klib \<Rightarrow> string \<Rightarrow> collection_entry \<Rightarrow> 'w \<Rightarrow> msg option \<times> 'w" where
  "check_entry C L ns r w =
     (if ce_card_ref r \<noteq> [] then checkSkillCardRef C L ns r w
      else if ce_image r \<noteq> [] then (None, w)
      else if ce_source r \<noteq> [] then (None, w)
      else (Some (Fmt ''skill %q: no source configured'' [Lit (ce_name r)]), w))"

definition publish_skills :: "klib \<Rightarrow> skill_collection \<Rightarrow> msg option list \<Rightarrow> skill_collection" where
  "publish_skills L c answers =
     (let total = length (sl_skills c); ready = length (filter (\<lambda>a. a = None) answers);
          reasons = problems answers;
          counts = Fmt ''%d of %d skills resolved'' [Lit (nat_text ready), Lit (nat_text total)]
      in if total = 0 then sl_set_ready L c CFalse ''NoSkills'' (Lit ''Collection has no skills'')
         else if ready = total
         then sl_set_ready L c CTrue reasonAllSkillsResolved
                (Fmt ''All %d skills resolved'' [Lit (nat_text total)])
         else sl_set_ready L c CFalse ''SkillsNotReady''
                (if reasons \<noteq> [] then Fmt ''%s: %s'' [counts, join_msgs reasons] else counts))"

definition decide_collection ::
  "collection_config \<Rightarrow> 'w collection_client \<Rightarrow> klib \<Rightarrow> skill_collection \<Rightarrow> 'w
    \<Rightarrow> skill_collection outcome \<times> 'w" where
  "decide_collection cfg C L c0 w =
     (let c = c0\<lparr>sl_observed_generation := om_generation (sl_meta c0)\<rparr>
      in if sl_image c \<noteq> [] then reconcileImageSource cfg C L c w
         else (case dropEnumeratedSkillCards C c w of
                 (Inl e, w1) \<Rightarrow> (Finish no_requeue (Some e), w1)
               | (Inr c1, w1) \<Rightarrow>
                   (case map_calls (check_entry C L (sl_namespace c1)) (sl_skills c1) w1 of
                      (answers, w2) \<Rightarrow> (PatchRun (publish_skills L c1 answers) no_requeue None, w2))))"

definition Reconcile_collection ::
  "collection_config \<Rightarrow> 'w collection_client \<Rightarrow> klib \<Rightarrow> nskey \<Rightarrow> 'w
    \<Rightarrow> (reconcile_result \<times> err option) \<times> 'w" where
  "Reconcile_collection cfg C L key w =
     (case sk_get_collection C key w of
        (Inl e, w1) \<Rightarrow> ((no_requeue, if kind_of e = KNotFound then None else Some e), w1)
      | (Inr c, w1) \<Rightarrow>
          (case decide_collection cfg C L c w1 of
             (out, w2) \<Rightarrow> perform (sk_patch_status C c) (\<lambda>w. (None, w)) out w2))"

section \<open>The watch on SkillCards\<close>

definition extractSkillCardRefs :: "skill_collection \<Rightarrow> string list" where
  "extractSkillCardRefs c = filter (\<lambda>r. r \<noteq> []) (map ce_card_ref (sl_skills c))"

definition findCollectionsForSkillCard :: "'w collection_client \<Rightarrow> objmeta \<Rightarrow> 'w \<Rightarrow> nskey list \<times> 'w" where
  "findCollectionsForSkillCard C m w =
     (case sk_list_collections C (om_namespace m) (om_name m) w of
        (Inl e, w') \<Rightarrow> ([], w')
      | (Inr cs, w') \<Rightarrow> (map (\<lambda>c. key_of_meta (sl_meta c)) cs, w'))"

end
