(* ===== verification/SkillCollectionProperties.thy ===== *)
theory SkillCollectionProperties
  imports SkillCollection
begin

text \<open>
  What the SkillCollection controller guarantees: when a collection is Ready, that an enumeration is
  published only from a succeeded Job, that two enumerations never overlap, and what its writes to shared
  RBAC objects leave alone.
\<close>

section \<open>Collections that list their skills\<close>

lemma sl_set_ready_simps [simp]:
  "sl_meta (sl_set_ready L c st r m) = sl_meta c"
  "sl_skills (sl_set_ready L c st r m) = sl_skills c"
  "sl_resolved_skills (sl_set_ready L c st r m) = sl_resolved_skills c"
  "sl_observed_generation (sl_set_ready L c st r m) = sl_observed_generation c"
  by (simp_all add: sl_set_ready_def)

lemma is_ready_sl_set [simp]:
  "conditions_ok L \<Longrightarrow> is_ready L (sl_conditions (sl_set_ready L c st r m)) \<longleftrightarrow> st = CTrue"
  by (simp add: is_ready_def sl_set_ready_def find_set_type)

lemma count_ready:
  "length (filter (\<lambda>a. a = None) answers) = length answers \<longleftrightarrow> problems answers = []"
proof (induction answers)
  case (Cons a answers)
  show ?case
    using Cons length_filter_le [of "\<lambda>a. a = None" answers]
    by (cases a) (auto simp del: length_filter_le)
qed simp

lemma publish_skills_ready:
  assumes "conditions_ok L" and "length answers = length (sl_skills c)"
  shows "is_ready L (sl_conditions (publish_skills L c answers)) \<longleftrightarrow>
    sl_skills c \<noteq> [] \<and> problems answers = []"
  using assms count_ready [of answers] by (auto simp: publish_skills_def Let_def)

definition entry_resolves ::
  "'w collection_client \<Rightarrow> klib \<Rightarrow> string \<Rightarrow> collection_entry \<Rightarrow> 'w \<Rightarrow> bool" where
  "entry_resolves C L ns r v \<longleftrightarrow>
     (if ce_card_ref r \<noteq> []
      then \<exists>k v'. sk_get_card C (nskey_of ns (ce_card_ref r)) v = (Inr k, v') \<and> is_ready L (sc_conditions k)
      else ce_image r \<noteq> [] \<or> ce_source r \<noteq> [])"

lemma check_entry_None: "fst (check_entry C L ns r v) = None \<longleftrightarrow> entry_resolves C L ns r v"
  by (auto simp: check_entry_def checkSkillCardRef_def entry_resolves_def split: prod.splits sum.splits)

lemma drop_keeps:
  "dropEnumeratedSkillCards C c w = (Inr c', w') \<Longrightarrow>
   sl_meta c' = sl_meta c \<and> sl_skills c' = sl_skills c \<and> sl_resolved_skills c' = [] \<and>
   sl_observed_generation c' = sl_observed_generation c"
  by (auto simp: dropEnumeratedSkillCards_def split: if_splits prod.splits sum.splits option.splits)

lemma length_map_calls [simp]: "length (fst (map_calls f xs w)) = length xs"
  by (simp add: map_calls_answers)

text \<open>
  A collection without an image is published as Ready exactly when it lists at least one skill and
  every entry resolves: a referenced card was found Ready, or there is an image or a source; cards of an
  earlier image are no longer named by its status.
\<close>

theorem collection_ready_iff:
  assumes "conditions_ok L" and "sl_image c = []"
    and d: "decide_collection cfg C L c w = (PatchRun c' res e, w')"
  shows "sl_resolved_skills c' = [] \<and> sl_observed_generation c' = om_generation (sl_meta c) \<and>
    res = no_requeue \<and> e = None \<and>
    (\<exists>w1. is_ready L (sl_conditions c') \<longleftrightarrow> sl_skills c \<noteq> [] \<and>
       list_all2 (entry_resolves C L (sl_namespace c)) (sl_skills c)
         (call_worlds (check_entry C L (sl_namespace c)) (sl_skills c) w1))"
proof -
  let ?c = "c\<lparr>sl_observed_generation := om_generation (sl_meta c)\<rparr>"
  obtain c1 w1 where dr: "dropEnumeratedSkillCards C ?c w = (Inr c1, w1)"
    using d assms(2) by (auto simp: decide_collection_def Let_def split: prod.splits sum.splits)
  note k = drop_keeps [OF dr]
  have ns: "sl_namespace c1 = sl_namespace c" using k by (simp add: sl_namespace_def)
  let ?f = "check_entry C L (sl_namespace c)"
  have p: "c' = publish_skills L c1 (fst (map_calls ?f (sl_skills c) w1))" "res = no_requeue" "e = None"
    using d assms(2) dr k by (auto simp: decide_collection_def Let_def ns split: prod.splits)
  have "is_ready L (sl_conditions c') \<longleftrightarrow> sl_skills c \<noteq> [] \<and>
      list_all2 (entry_resolves C L (sl_namespace c)) (sl_skills c) (call_worlds ?f (sl_skills c) w1)"
    using publish_skills_ready [OF assms(1), of "fst (map_calls ?f (sl_skills c) w1)" c1] k
    by (simp add: p(1) no_problems check_entry_None)
  moreover have "sl_resolved_skills c' = []" "sl_observed_generation c' = om_generation (sl_meta c)"
    using k by (simp_all add: p(1) publish_skills_def Let_def)
  ultimately show ?thesis using p(2,3) by blast
qed

definition quiet_collections :: "int collection_client" where
  "quiet_collections =
     \<lparr>sk_get_collection = (\<lambda>k w. (Inl not_found, w)), sk_get_card = (\<lambda>k w. (Inl not_found, w)),
      sk_get_job = (\<lambda>k w. (Inl not_found, w)), sk_list_jobs = (\<lambda>ns s w. (Inr [], w)),
      sk_list_cards = (\<lambda>ns s w. (Inr [], w)), sk_create_job = (\<lambda>j w. (None, w + 1)),
      sk_delete_job = (\<lambda>p j w. (None, w)), sk_delete_card = (\<lambda>k w. (None, w)),
      sk_apply_account = (\<lambda>k f w. (None, w)), sk_apply_role = (\<lambda>k f w. (None, w)),
      sk_apply_binding = (\<lambda>k f w. (None, w)), sk_patch_status = (\<lambda>a b w. (None, w)),
      sk_list_collections = (\<lambda>ns n w. (Inr [], w))\<rparr>"

definition listed_collection :: skill_collection where
  "listed_collection =
     \<lparr>sl_meta = new_meta ''ns'' ''skills'' Map.empty, sl_version = [], sl_image = [], sl_type = SkillTypeUnset,
      sl_skills = [\<lparr>ce_name = ''a'', ce_card_ref = [], ce_image = ''img'', ce_source = [], ce_ref = [],
        ce_subpath = [], ce_type = SkillTypeUnset\<rparr>],
      sl_observed_generation = 0, sl_conditions = [], sl_resolved_skills = []\<rparr>"

lemma collection_ready_iff_witness:
  "\<exists>c' w'. decide_collection \<lparr>sf_enumeration_image = [], sf_service_account = []\<rparr> quiet_collections sample_lib
      listed_collection 0 = (PatchRun c' no_requeue None, w') \<and> is_ready sample_lib (sl_conditions c')"
proof -
  let ?cfg = "\<lparr>sf_enumeration_image = [], sf_service_account = []\<rparr>"
  obtain c' w' where d:
    "decide_collection ?cfg quiet_collections sample_lib listed_collection 0 = (PatchRun c' no_requeue None, w')"
    by (simp add: decide_collection_def listed_collection_def dropEnumeratedSkillCards_def check_entry_def)
  have "sl_image listed_collection = []" by (simp add: listed_collection_def)
  from collection_ready_iff [OF sample_conditions_ok this d] d show ?thesis
    by (auto simp: listed_collection_def entry_resolves_def)
qed

section \<open>Enumeration\<close>

text \<open>
  C39: a collection with an image is published as Ready only when the Job of its own generation succeeded
  and wrote cards, and its resolved skills are then the sorted names of the cards labelled with it; every
  other patch is not Ready and keeps the resolved skills.
\<close>

theorem enumeration_sound:
  assumes "conditions_ok L" and "sl_image c \<noteq> []"
    and d: "decide_collection cfg C L c w = (PatchRun c' res e, w')"
  shows "if is_ready L (sl_conditions c')
    then \<exists>j w1 cards w2. sk_get_job C (nskey_of (sl_namespace c) (enumerationJobName c)) w = (Inr j, w1) \<and>
      isJobSucceeded j \<and> sk_list_cards C (sl_namespace c) (collection_selector c) w1 = (Inr cards, w2) \<and>
      cards \<noteq> [] \<and> sl_resolved_skills c' = sort (map (\<lambda>k. om_name (sc_meta k)) cards)
    else sl_resolved_skills c' = sl_resolved_skills c"
proof -
  let ?c = "c\<lparr>sl_observed_generation := om_generation (sl_meta c)\<rparr>"
  have n: "enumerationJobName ?c = enumerationJobName c" "sl_namespace ?c = sl_namespace c"
    "collection_selector ?c = collection_selector c"
    by (simp_all add: enumerationJobName_def sl_name_def sl_namespace_def collection_selector_def)
  have r: "reconcileImageSource cfg C L ?c w = (PatchRun c' res e, w')"
    using d assms(2) by (simp add: decide_collection_def Let_def)
  obtain a w1 where a: "enumerateImage cfg C L ?c (sl_image c) w = (a, w1)" by fastforce
  show ?thesis
  proof (cases "\<exists>found. a = Inr (Some found)")
    case False
    then have "\<exists>st r m. c' = sl_set_ready L ?c CFalse r m"
      using r a by (auto simp: reconcileImageSource_def Let_def split: sum.splits option.splits if_splits)
    then show ?thesis using assms(1) by auto
  next
    case True
    then obtain found where f: "a = Inr (Some found)" by blast
    then have c': "c' = sl_set_ready L (?c\<lparr>sl_resolved_skills := found\<rparr>) CTrue reasonAllSkillsResolved
        (Fmt ''Enumerated %d skills from %s'' [Lit (nat_text (length found)), Lit (sl_image c)])"
      using r a by (simp add: reconcileImageSource_def)
    obtain j w2 where j: "sk_get_job C (nskey_of (sl_namespace c) (enumerationJobName c)) w = (Inr j, w2)"
      "isJobSucceeded j" "ownedSkillCards C ?c w2 = (Inr found, w1)" "found \<noteq> []"
      using a f n
      by (auto simp: enumerateImage_def start_enumeration_def Let_def
          split: prod.splits sum.splits if_splits option.splits)
    obtain cards where k: "sk_list_cards C (sl_namespace c) (collection_selector c) w2 = (Inr cards, w1)"
      "found = sort (map (\<lambda>k. om_name (sc_meta k)) cards)"
      using j(3) n by (auto simp: ownedSkillCards_def split: prod.splits sum.splits)
    have "cards \<noteq> []" using j(4) k(2) by auto
    then show ?thesis using assms(1) j k c' by auto
  qed
qed

definition enumerated_card :: skill_card where
  "enumerated_card =
     \<lparr>sc_meta = new_meta ''ns'' ''fix'' Map.empty, sc_image = ''img'', sc_subpath = [], sc_source = [],
      sc_ref = [], sc_inline = [], sc_display_name = [], sc_version = [], sc_description = [],
      sc_type = SkillTypeUnset, sc_tags = [], sc_observed_generation = 0, sc_resolved_image = [],
      sc_delivery_mode = [], sc_conditions = []\<rparr>"

definition enumerating_client :: "int collection_client" where
  "enumerating_client = quiet_collections\<lparr>
     sk_get_job := (\<lambda>k w. (Inr (enumeration_job \<lparr>sf_enumeration_image = [], sf_service_account = []\<rparr>
        listed_collection ''img'' ''job'' \<lparr>jb_conditions := [\<lparr>cd_type = ''Complete'', cd_status = CTrue,
          cd_generation = 0, cd_reason = [], cd_message = Lit []\<rparr>]\<rparr>), w)),
     sk_list_cards := (\<lambda>ns s w. (Inr [enumerated_card], w))\<rparr>"

lemma enumeration_sound_witness:
  "\<exists>c' w'. decide_collection \<lparr>sf_enumeration_image = [], sf_service_account = []\<rparr> enumerating_client sample_lib
      (listed_collection\<lparr>sl_image := ''img''\<rparr>) 0 = (PatchRun c' no_requeue None, w') \<and>
      is_ready sample_lib (sl_conditions c') \<and> sl_resolved_skills c' = [''fix'']"
proof -
  let ?cfg = "\<lparr>sf_enumeration_image = [], sf_service_account = []\<rparr>"
  let ?c = "listed_collection\<lparr>sl_image := ''img''\<rparr>"
  have "\<exists>c' w'. decide_collection ?cfg enumerating_client sample_lib ?c 0 = (PatchRun c' no_requeue None, w') \<and>
      is_ready sample_lib (sl_conditions c')"
    by (simp add: decide_collection_def reconcileImageSource_def enumerateImage_def ownedSkillCards_def
        enumerating_client_def isJobComplete_def isJobSucceeded_def Let_def sample_conditions_ok)
  then obtain c' w' where d: "decide_collection ?cfg enumerating_client sample_lib ?c 0 =
      (PatchRun c' no_requeue None, w')" "is_ready sample_lib (sl_conditions c')" by blast
  have "sl_image ?c \<noteq> []" by simp
  from enumeration_sound [OF sample_conditions_ok this d(1)] d show ?thesis
    by (auto simp: enumerating_client_def quiet_collections_def enumerated_card_def new_meta_def)
qed

section \<open>Enumerations do not overlap\<close>

lemma delete_stale_remaining:
  "delete_stale C current rem js w = (Inr r, w') \<Longrightarrow> r \<longleftrightarrow> rem \<or> (\<exists>j \<in> set js. jb_name j \<noteq> current)"
  by (induction js arbitrary: rem w) (auto split: if_splits prod.splits option.splits)

lemma delete_stale_client:
  "delete_stale (C\<lparr>sk_create_job := f\<rparr>) current rem js w = delete_stale C current rem js w"
  by (induction js arbitrary: rem w) (simp_all split: prod.split option.split)

lemma delete_jobs_client:
  "deleteStaleEnumerationJobs (C\<lparr>sk_create_job := f\<rparr>) c current w = deleteStaleEnumerationJobs C c current w"
  by (simp add: deleteStaleEnumerationJobs_def delete_stale_client split: prod.split sum.split)

text \<open>
  C40: as long as a Job of an earlier generation of the collection is still listed, no enumeration Job is
  created: the reconcile does the same whatever creating a Job would do.
\<close>

theorem enumerations_do_not_overlap:
  assumes "sk_get_job C (nskey_of (sl_namespace c) (enumerationJobName c)) w = (Inl e, w1)"
    and "sk_list_jobs C (sl_namespace c) (collection_selector c) w1 = (Inr jobs, w2)"
    and "\<exists>j \<in> set jobs. jb_name j \<noteq> enumerationJobName c"
  shows "enumerateImage cfg (C\<lparr>sk_create_job := f\<rparr>) L c img w = enumerateImage cfg C L c img w \<and>
    (\<forall>found w'. enumerateImage cfg C L c img w \<noteq> (Inr (Some found), w'))"
proof -
  obtain r w3 where r: "deleteStaleEnumerationJobs C c (enumerationJobName c) w1 = (r, w3)" by fastforce
  have "\<not> (\<exists>s. r = Inr s \<and> \<not> s)"
    using r assms(2,3) delete_stale_remaining [of C "enumerationJobName c" False jobs w2 _ w3]
    by (auto simp: deleteStaleEnumerationJobs_def)
  with r assms(1) show ?thesis
    by (auto simp: enumerateImage_def start_enumeration_def delete_jobs_client Let_def split: sum.splits)
qed

definition stale_job :: job where
  "stale_job = enumeration_job \<lparr>sf_enumeration_image = [], sf_service_account = []\<rparr> listed_collection ''img'' ''old''"

lemma enumerations_do_not_overlap_witness:
  "enumerateImage \<lparr>sf_enumeration_image = ''loader'', sf_service_account = []\<rparr>
     ((quiet_collections\<lparr>sk_list_jobs := (\<lambda>ns s w. (Inr [stale_job], w))\<rparr>)\<lparr>sk_create_job := (\<lambda>j w. (None, w + 7))\<rparr>)
     sample_lib listed_collection ''img'' 0 =
   enumerateImage \<lparr>sf_enumeration_image = ''loader'', sf_service_account = []\<rparr>
     (quiet_collections\<lparr>sk_list_jobs := (\<lambda>ns s w. (Inr [stale_job], w))\<rparr>) sample_lib listed_collection ''img'' 0"
proof -
  let ?C = "quiet_collections\<lparr>sk_list_jobs := (\<lambda>ns s w. (Inr [stale_job], w))\<rparr>"
  have g: "sk_get_job ?C k 0 = (Inl not_found, 0)" and l: "sk_list_jobs ?C ns s 0 = (Inr [stale_job], 0)" for k ns s
    by (simp_all add: quiet_collections_def)
  have "enumerationJobName listed_collection = ''skill-enumerate-skills-gen0''"
  proof -
    have "digit_char 0 = CHR ''0''" by code_simp
    then show ?thesis
      unfolding enumerationJobName_def
      by (subst volume_name.san_fixed)
        (simp_all add: enumerationJobPrefix_def listed_collection_def sl_name_def new_meta_def int_text_def
          nat_text.simps dns_label_def name_char_def less_eq_char_def)
  qed
  then have "\<exists>j \<in> set [stale_job]. jb_name j \<noteq> enumerationJobName listed_collection"
    by (simp add: stale_job_def enumeration_job_def jb_name_def new_meta_def)
  from enumerations_do_not_overlap [OF g l this] show ?thesis by blast
qed

section \<open>An image that is removed early\<close>

text \<open>
  When the image of a collection is removed before its first enumeration was published, nothing is
  cleaned up: the reconcile neither lists nor deletes the Job still running or the cards it writes.
\<close>

theorem early_removal_leaves_enumeration:
  assumes "sl_image c = []" and "sl_resolved_skills c = []"
  shows "decide_collection cfg (C\<lparr>sk_list_jobs := f, sk_delete_job := g, sk_list_cards := h,
      sk_delete_card := k\<rparr>) L c w = decide_collection cfg C L c w \<and>
    (\<forall>w1. dropEnumeratedSkillCards C c w1 = (Inr c, w1))"
proof -
  have "check_entry (C\<lparr>sk_list_jobs := f, sk_delete_job := g, sk_list_cards := h, sk_delete_card := k\<rparr>) L ns =
      check_entry C L ns" for ns
    by (intro ext) (simp add: check_entry_def checkSkillCardRef_def)
  then show ?thesis
    using assms by (simp add: decide_collection_def dropEnumeratedSkillCards_def Let_def)
qed

lemma early_removal_leaves_enumeration_witness:
  "dropEnumeratedSkillCards quiet_collections listed_collection 4 = (Inr listed_collection, 4)"
proof -
  have "sl_image listed_collection = []" "sl_resolved_skills listed_collection = []"
    by (simp_all add: listed_collection_def)
  from early_removal_leaves_enumeration [where C = quiet_collections, OF this] show ?thesis by simp
qed

section \<open>Shared RBAC objects\<close>

text \<open>
  The objects of the enumerator's identity that exist already keep their labels, their subjects and
  their role reference; the binding then names the enumerator's account, and one that binds another role
  is refused, never rewritten.
\<close>

theorem existing_rbac_kept:
  assumes "om_uid (rb_meta b) \<noteq> []" and "om_uid (ro_meta r) \<noteq> []" and "om_uid m \<noteq> []"
  shows "mutate_account m = Inr m \<and>
    (\<exists>r'. mutate_role r = Inr r' \<and> ro_meta r' = ro_meta r \<and> ro_rules r' = enumerator_rules) \<and>
    (case mutate_binding ns s b of
       Inr b' \<Rightarrow> rb_meta b' = rb_meta b \<and> rb_kind b' = ''Role'' \<and> rb_role b' = enumeratorRoleName \<and>
         rb_kind b' = rb_kind b \<and> rb_role b' = rb_role b \<and> rb_group b' = rb_group b \<and>
         set (rb_subjects b') = insert s (set (rb_subjects b)) \<and>
         (distinct (rb_subjects b) \<longrightarrow> distinct (rb_subjects b'))
     | Inl e \<Rightarrow> rb_kind b \<noteq> ''Role'' \<or> rb_role b \<noteq> enumeratorRoleName)"
  using assms by (auto simp: mutate_account_def mutate_role_def mutate_binding_def)

lemma existing_rbac_kept_witness:
  "mutate_account ((new_meta ''ns'' ''skill-enumerator'' Map.empty)\<lparr>om_uid := ''u''\<rparr>) =
     Inr ((new_meta ''ns'' ''skill-enumerator'' Map.empty)\<lparr>om_uid := ''u''\<rparr>)"
proof -
  let ?m = "(new_meta ''ns'' ''skill-enumerator'' Map.empty)\<lparr>om_uid := ''u''\<rparr>"
  let ?b = "\<lparr>rb_meta = ?m, rb_group = [], rb_kind = ''Role'', rb_role = enumeratorRoleName, rb_subjects = []\<rparr>"
  let ?r = "\<lparr>ro_meta = ?m, ro_rules = []\<rparr>"
  have "om_uid (rb_meta ?b) \<noteq> []" "om_uid (ro_meta ?r) \<noteq> []" "om_uid ?m \<noteq> []" by simp_all
  from existing_rbac_kept [OF this] show ?thesis by blast
qed

end
