(* ===== verification/SkillFormat.thy ===== *)
theory SkillFormat
  imports Text
begin

text \<open>
  The Agent Skills format (\<open>api/skill/frontmatter.go\<close>): the YAML header between two fences, its validation
  and the body after it.  The YAML decoder is a third-party package and a parameter: it yields the two
  fields of the header and its top-level keys.
\<close>

section \<open>Fences\<close>

definition newline :: char where
  "newline = CHR 0x0A"

definition fence :: string where
  "fence = ''---''"

definition bom :: string where
  "bom = [CHR 0xEF, CHR 0xBB, CHR 0xBF]"

definition line_space :: "char \<Rightarrow> bool" where
  "line_space c \<longleftrightarrow> c = CHR '' '' \<or> c = CHR 0x09 \<or> c = CHR 0x0D"

definition is_fence :: "string \<Rightarrow> bool" where
  "is_fence line \<longleftrightarrow> trim_right line_space line = fence"

text \<open>The bytes up to the first newline, and those after it if there is one (\<open>bytes.Cut\<close>).\<close>

definition first_line :: "string \<Rightarrow> string" where
  "first_line s = takeWhile (\<lambda>c. c \<noteq> newline) s"

definition after_line :: "string \<Rightarrow> string option" where
  "after_line s = (case dropWhile (\<lambda>c. c \<noteq> newline) s of [] \<Rightarrow> None | _ # rest \<Rightarrow> Some rest)"

definition cutOpeningFence :: "string \<Rightarrow> string option" where
  "cutOpeningFence content =
     (let c = trim_prefix content bom
      in case after_line c of
           None \<Rightarrow> None
         | Some rest \<Rightarrow> if is_fence (first_line c) then Some rest else None)"

text \<open>The loop over the lines, by offset.\<close>

function closing_from :: "string \<Rightarrow> nat \<Rightarrow> nat option" where
  "closing_from b offset =
     (if offset < length b then
        (if is_fence (first_line (drop offset b)) then Some offset
         else (case after_line (drop offset b) of
                 None \<Rightarrow> None
               | Some _ \<Rightarrow> closing_from b (offset + length (first_line (drop offset b)) + 1)))
      else None)"
  by pat_completeness auto
termination
  by (relation "measure (\<lambda>(b, offset). length b - offset)") auto

declare closing_from.simps [simp del]

definition findClosingFence :: "string \<Rightarrow> nat option" where
  "findClosingFence b = closing_from b 0"

section \<open>The header\<close>

record frontmatter =
  fr_name :: string
  fr_description :: string
  fr_extra :: "string list"

text \<open>What the YAML decoder makes of a header: into the struct, and into a map.\<close>

record yaml_decoder =
  yd_struct :: "string \<Rightarrow> (string \<times> string) res"
  yd_keys :: "string \<Rightarrow> string list res"

definition allowedFields :: "string list" where
  "allowedFields = [''name'', ''description'', ''license'', ''compatibility'', ''metadata'', ''allowed-tools'']"

definition maxNameLen :: nat where "maxNameLen = 64"
definition maxDescriptionLen :: nat where "maxDescriptionLen = 1024"

text \<open>Both decodings of the header, the fields it must not have, and the trimming.\<close>

definition decode_header :: "yaml_decoder \<Rightarrow> string \<Rightarrow> frontmatter res" where
  "decode_header Y header =
     (case yd_struct Y header of
        Inl e \<Rightarrow> Inl (wrapf ''parsing frontmatter: %w'' [] e)
      | Inr (name, description) \<Rightarrow>
          (case yd_keys Y header of
             Inl e \<Rightarrow> Inl (wrapf ''parsing frontmatter: %w'' [] e)
           | Inr keys \<Rightarrow>
               Inr \<lparr>fr_name = trim_space name, fr_description = trim_space description,
                    fr_extra = sort (filter (\<lambda>k. k \<notin> set allowedFields) keys)\<rparr>))"

definition Parse :: "yaml_decoder \<Rightarrow> string \<Rightarrow> frontmatter res" where
  "Parse Y content =
     (case cutOpeningFence content of
        None \<Rightarrow> Inl (errorf ''no YAML frontmatter: file does not start with ---'' [])
      | Some rest \<Rightarrow>
          (case findClosingFence rest of
             None \<Rightarrow> Inl (errorf ''unterminated YAML frontmatter: no closing ---'' [])
           | Some end_at \<Rightarrow> decode_header Y (take end_at rest)))"

text \<open>
  \<open>ValidName\<close> looks at the name rune by rune; the byte at the start of a rune outside ASCII is never one
  of the allowed characters.
\<close>

definition name_rune :: "nat \<Rightarrow> bool" where
  "name_rune r \<longleftrightarrow> (97 \<le> r \<and> r \<le> 122) \<or> (48 \<le> r \<and> r \<le> 57) \<or> r = 45"

definition ValidName :: "string \<Rightarrow> err option" where
  "ValidName name =
     (if name = [] then Some (errorf ''is empty'' [])
      else if rune_count name > maxNameLen
      then Some (errorf ''is %d characters, the limit is %d'' [Lit (nat_text (rune_count name)), Lit (nat_text maxNameLen)])
      else if has_prefix name ''-'' \<or> has_suffix name ''-''
      then Some (errorf ''cannot start or end with a hyphen'' [])
      else if contains_sub name ''--'' then Some (errorf ''cannot contain consecutive hyphens'' [])
      else first_err
        (\<lambda>c. if name_rune (fst c) then None
             else Some (errorf ''contains %q; only lowercase letters, digits and hyphens are allowed'' [Lit (snd c)]))
        (rune_chunks name))"

definition Validate :: "frontmatter \<Rightarrow> err option" where
  "Validate fm =
     (if fr_name fm = [] then Some (errorf ''frontmatter has no name'' [])
      else if fr_description fm = []
      then Some (errorf ''frontmatter has no description (skill %q would be unselectable)'' [Lit (fr_name fm)])
      else if rune_count (fr_description fm) > maxDescriptionLen
      then Some (errorf ''skill %q has a description of %d characters, the limit is %d''
             [Lit (fr_name fm), Lit (nat_text (rune_count (fr_description fm))), Lit (nat_text maxDescriptionLen)])
      else (case ValidName (fr_name fm) of
              Some e \<Rightarrow> Some (wrapf ''skill name %q: %w'' [Lit (fr_name fm)] e)
            | None \<Rightarrow>
                if fr_extra fm \<noteq> []
                then Some (errorf ''skill %q has frontmatter fields the Agent Skills spec does not define: %s. The spec allows only name, description, license, compatibility, metadata and allowed-tools; put anything else under metadata''
                       [Lit (fr_name fm), Lit (join '', '' (fr_extra fm))])
                else None))"

definition ParseAndValidate :: "yaml_decoder \<Rightarrow> string \<Rightarrow> frontmatter res" where
  "ParseAndValidate Y content =
     (case Parse Y content of
        Inl e \<Rightarrow> Inl e
      | Inr fm \<Rightarrow> (case Validate fm of Some e \<Rightarrow> Inl e | None \<Rightarrow> Inr fm))"

section \<open>The body\<close>

definition body_space :: "char \<Rightarrow> bool" where
  "body_space c \<longleftrightarrow> c = CHR 0x0D \<or> c = newline"

definition Body :: "string \<Rightarrow> string" where
  "Body content =
     (case cutOpeningFence content of
        None \<Rightarrow> content
      | Some rest \<Rightarrow>
          (case findClosingFence rest of
             None \<Rightarrow> content
           | Some end_at \<Rightarrow>
               trim_left body_space (case after_line (drop end_at rest) of None \<Rightarrow> [] | Some b \<Rightarrow> b)))"

text \<open>\<open>validateInlineSkill\<close> of \<open>internal/controller/skillfrontmatter.go\<close>.\<close>

definition validateInlineSkill :: "yaml_decoder \<Rightarrow> string \<Rightarrow> err option" where
  "validateInlineSkill Y content =
     (if trim_space content = [] then Some (errorf ''inline content is empty'' [])
      else (case ParseAndValidate Y content of
              Inl e \<Rightarrow> Some (wrapf ''inline content is not a valid skill: %w'' [] e)
            | Inr _ \<Rightarrow> None))"

end
