(* ===== verification/SkillCard.thy ===== *)
theory SkillCard
  imports Sandbox SkillFormat Ttl
begin

text \<open>
  The SkillCard reconciler (\<open>skillcard_controller.go\<close>, \<open>imageresolve.go\<close> of \<open>internal/controller\<close>): Ready
  says that the card is usable as written, Resolvable what a registry said about its image.  The registry
  client and the parser of image references are third-party packages and parameters.
\<close>

section \<open>The registry\<close>

datatype imageResolution = imageResolveUnknown | imageResolvePresent | imageResolveMissing

text \<open>
  What a failed HEAD request yields: the diagnostics and the status code of the transport error, when it
  is one, and the text of the error.
\<close>

record registry_error =
  re_transport :: "((string \<times> string) list \<times> int) option"
  re_text :: msg

text \<open>\<open>MANIFEST_UNKNOWN\<close> and \<open>NAME_UNKNOWN\<close>, the codes of the distribution specification.\<close>

definition missing_code :: "string \<Rightarrow> bool" where
  "missing_code c \<longleftrightarrow> c = ''MANIFEST_UNKNOWN'' \<or> c = ''NAME_UNKNOWN''"

definition classifyResolveError :: "string \<Rightarrow> registry_error \<Rightarrow> imageResolution \<times> msg" where
  "classifyResolveError ref e =
     (let unknown = (imageResolveUnknown,
            Fmt ''could not reach registry to confirm %s: %v'' [Lit ref, re_text e])
      in case re_transport e of
           None \<Rightarrow> unknown
         | Some (codes, status) \<Rightarrow>
             (case find (\<lambda>c. missing_code (fst c)) codes of
                Some c \<Rightarrow> (imageResolveMissing,
                    Fmt ''no manifest for %s in its registry: %s'' [Lit ref, Lit (snd c)])
              | None \<Rightarrow>
                  if status = 404
                  then (imageResolveMissing, Fmt ''registry has no manifest for %s (404)'' [Lit ref])
                  else if status = 401 \<or> status = 403
                  then (imageResolveUnknown,
                    Fmt ''registry requires credentials the controller does not hold for %s; existence not confirmed''
                      [Lit ref])
                  else unknown))"

definition defaultResolveTimeout :: int where
  "defaultResolveTimeout = 15 * second"

text \<open>
  The registry-backed resolver: the reference parser yields the canonical spelling, the HEAD request an
  error or nothing within the timeout.
\<close>

record 'w registry =
  rg_parse :: "string \<Rightarrow> string res"
  rg_head :: "int \<Rightarrow> string \<Rightarrow> 'w \<Rightarrow> registry_error option \<times> 'w"
  rg_timeout :: int

definition registry_resolve :: "'w registry \<Rightarrow> string \<Rightarrow> 'w \<Rightarrow> (imageResolution \<times> msg) \<times> 'w" where
  "registry_resolve R ref w =
     (case rg_parse R ref of
        Inl e \<Rightarrow> ((imageResolveMissing, Fmt ''invalid image reference: %v'' [text_of e]), w)
      | Inr parsed \<Rightarrow>
          (case rg_head R (if rg_timeout R \<le> 0 then defaultResolveTimeout else rg_timeout R) parsed w of
             (Some e, w') \<Rightarrow> (classifyResolveError parsed e, w')
           | (None, w') \<Rightarrow> ((imageResolvePresent, Fmt ''manifest found in registry: %s'' [Lit parsed]), w')))"

section \<open>Reconcile\<close>

type_synonym 'w resolver = "string \<Rightarrow> 'w \<Rightarrow> (imageResolution \<times> msg) \<times> 'w"

record 'w card_client =
  kc_get_card :: "nskey \<Rightarrow> ('w, skill_card) call"
  kc_patch_status :: "skill_card \<Rightarrow> skill_card \<Rightarrow> 'w command"
  kc_resolver :: "'w resolver option"

definition resolvableRecheckInterval :: int where
  "resolvableRecheckInterval = 10 * 60 * second"

definition sc_set_condition :: "klib \<Rightarrow> string \<Rightarrow> cond_status \<Rightarrow> string \<Rightarrow> msg \<Rightarrow> skill_card \<Rightarrow> skill_card" where
  "sc_set_condition L t st r m c =
     c\<lparr>sc_conditions := set_condition L (sc_conditions c)
         \<lparr>cd_type = t, cd_status = st, cd_generation = om_generation (sc_meta c), cd_reason = r,
          cd_message = m\<rparr>\<rparr>"

definition clear_resolvable :: "klib \<Rightarrow> skill_card \<Rightarrow> skill_card" where
  "clear_resolvable L c = c\<lparr>sc_conditions := remove_condition L (sc_conditions c) condition_resolvable\<rparr>"

fun resolvable_verdict :: "imageResolution \<Rightarrow> cond_status \<times> string" where
  "resolvable_verdict imageResolvePresent = (CTrue, ''ArtifactPresent'')"
| "resolvable_verdict imageResolveMissing = (CFalse, ''ArtifactMissing'')"
| "resolvable_verdict imageResolveUnknown = (CUnknown, ''ResolveInconclusive'')"

definition setResolvable ::
  "'w resolver option \<Rightarrow> klib \<Rightarrow> skill_card \<Rightarrow> 'w \<Rightarrow> (skill_card \<times> int) \<times> 'w" where
  "setResolvable res L c w =
     (case res of
        None \<Rightarrow> ((clear_resolvable L c, 0), w)
      | Some f \<Rightarrow>
          (case f (sc_image c) w of
             ((result, message), w') \<Rightarrow>
               ((sc_set_condition L condition_resolvable (fst (resolvable_verdict result))
                   (snd (resolvable_verdict result)) message c, resolvableRecheckInterval), w')))"

definition set_delivery :: "string \<Rightarrow> string \<Rightarrow> skill_card \<Rightarrow> skill_card" where
  "set_delivery resolved mode c = c\<lparr>sc_resolved_image := resolved, sc_delivery_mode := mode\<rparr>"

definition reconcileImage ::
  "'w resolver option \<Rightarrow> klib \<Rightarrow> skill_card \<Rightarrow> 'w \<Rightarrow> (skill_card \<times> int) \<times> 'w" where
  "reconcileImage res L c w =
     setResolvable res L
       (sc_set_condition L condition_ready CTrue ''ImageResolved''
          (Fmt ''OCI image ref accepted: %s'' [Lit (sc_image c)]) (set_delivery (sc_image c) ''image'' c)) w"

definition reconcileSource :: "klib \<Rightarrow> skill_card \<Rightarrow> skill_card" where
  "reconcileSource L c =
     sc_set_condition L condition_ready CTrue ''SourceAccepted''
       (Fmt ''git source accepted, cloned at pod start: %s'' [Lit (sc_source c)])
       (clear_resolvable L (set_delivery [] ''source'' c))"

definition reconcileInline :: "yaml_decoder \<Rightarrow> klib \<Rightarrow> skill_card \<Rightarrow> skill_card" where
  "reconcileInline Y L c =
     (let c' = clear_resolvable L (set_delivery [] ''inline'' c)
      in case validateInlineSkill Y (sc_inline c) of
           Some e \<Rightarrow> sc_set_condition L condition_ready CFalse ''InvalidSkillContent'' (text_of e) c'
         | None \<Rightarrow> sc_set_condition L condition_ready CTrue ''InlineAccepted''
                     (Lit ''inline skill content is valid'') c')"

definition unconfigured :: "klib \<Rightarrow> skill_card \<Rightarrow> skill_card" where
  "unconfigured L c =
     sc_set_condition L condition_ready CFalse ''NoSourceConfigured''
       (Lit ''No image, source, or inline content is set'') (clear_resolvable L (set_delivery [] [] c))"

definition decide_card ::
  "'w resolver option \<Rightarrow> yaml_decoder \<Rightarrow> klib \<Rightarrow> skill_card \<Rightarrow> 'w \<Rightarrow> (skill_card \<times> int) \<times> 'w" where
  "decide_card res Y L c0 w =
     (let c = c0\<lparr>sc_observed_generation := om_generation (sc_meta c0)\<rparr>
      in if sc_image c \<noteq> [] then reconcileImage res L c w
         else if sc_source c \<noteq> [] then ((reconcileSource L c, 0), w)
         else if sc_inline c \<noteq> [] then ((reconcileInline Y L c, 0), w)
         else ((unconfigured L c, 0), w))"

definition Reconcile_card ::
  "'w card_client \<Rightarrow> yaml_decoder \<Rightarrow> klib \<Rightarrow> nskey \<Rightarrow> 'w \<Rightarrow> (reconcile_result \<times> err option) \<times> 'w" where
  "Reconcile_card C Y L key w =
     (case kc_get_card C key w of
        (Inl e, w1) \<Rightarrow> ((no_requeue, if kind_of e = KNotFound then None else Some e), w1)
      | (Inr c, w1) \<Rightarrow>
          (case decide_card (kc_resolver C) Y L c w1 of
             ((c', after), w2) \<Rightarrow>
               (case kc_patch_status C c c' w2 of
                  (Some e, w3) \<Rightarrow> ((no_requeue, Some e), w3)
                | (None, w3) \<Rightarrow> ((\<lparr>rr_requeue = False, rr_after = after\<rparr>, None), w3))))"

section \<open>Ready and Resolvable\<close>

lemma find_sc_set [simp]:
  "conditions_ok L \<Longrightarrow> find_condition L (sc_conditions (sc_set_condition L t st r m c)) u =
     (if u = t then Some \<lparr>cd_type = t, cd_status = st, cd_generation = om_generation (sc_meta c),
        cd_reason = r, cd_message = m\<rparr> else find_condition L (sc_conditions c) u)"
  by (simp add: sc_set_condition_def find_set_type)

lemma find_sc_clear [simp]:
  "conditions_ok L \<Longrightarrow> find_condition L (sc_conditions (clear_resolvable L c)) u =
     (if u = condition_resolvable then None else find_condition L (sc_conditions c) u)"
  by (simp add: clear_resolvable_def find_remove)

lemma ready_not_resolvable [simp]:
  "condition_ready \<noteq> condition_resolvable" "condition_resolvable \<noteq> condition_ready"
  by (simp_all add: condition_ready_def condition_resolvable_def)

lemma sc_set_simps [simp]:
  "sc_meta (sc_set_condition L t st r m c) = sc_meta c" "sc_image (sc_set_condition L t st r m c) = sc_image c"
  "sc_delivery_mode (sc_set_condition L t st r m c) = sc_delivery_mode c"
  "sc_resolved_image (sc_set_condition L t st r m c) = sc_resolved_image c"
  "sc_meta (clear_resolvable L c) = sc_meta c" "sc_image (clear_resolvable L c) = sc_image c"
  "sc_delivery_mode (clear_resolvable L c) = sc_delivery_mode c"
  "sc_resolved_image (clear_resolvable L c) = sc_resolved_image c"
  "sc_meta (set_delivery i d c) = sc_meta c" "sc_image (set_delivery i d c) = sc_image c"
  "sc_conditions (set_delivery i d c) = sc_conditions c"
  "sc_delivery_mode (set_delivery i d c) = d" "sc_resolved_image (set_delivery i d c) = i"
  by (simp_all add: sc_set_condition_def clear_resolvable_def set_delivery_def)

text \<open>
  A card is Ready exactly when it names an image or a source, or its inline content is a valid skill,
  whatever the registry answers; a Resolvable condition exists exactly for an image that a resolver looked
  at, and is False only when the registry denied it; only such a card is looked at again after a while.
\<close>

theorem card_ready_iff:
  assumes "conditions_ok L" and d: "decide_card res Y L c w = ((c', after), w')"
  shows "(is_ready L (sc_conditions c') \<longleftrightarrow>
      sc_image c \<noteq> [] \<or> sc_source c \<noteq> [] \<or>
      (sc_inline c \<noteq> [] \<and> validateInlineSkill Y (sc_inline c) = None)) \<and>
    (find_condition L (sc_conditions c') condition_resolvable \<noteq> None \<longleftrightarrow> sc_image c \<noteq> [] \<and> res \<noteq> None) \<and>
    (map_option cd_status (find_condition L (sc_conditions c') condition_resolvable) = Some CFalse \<longleftrightarrow>
      sc_image c \<noteq> [] \<and> (\<exists>f m. res = Some f \<and> fst (f (sc_image c) w) = (imageResolveMissing, m))) \<and>
    (after = (if sc_image c \<noteq> [] \<and> res \<noteq> None then resolvableRecheckInterval else 0)) \<and>
    (sc_resolved_image c' = sc_image c)"
proof (cases "sc_image c = []")
  case True
  with d assms(1) show ?thesis
    by (auto simp: decide_card_def reconcileSource_def reconcileInline_def unconfigured_def is_ready_def Let_def
        split: if_splits option.splits)
next
  case False
  show ?thesis
  proof (cases res)
    case None
    with False d assms(1) show ?thesis
      by (auto simp: decide_card_def reconcileImage_def setResolvable_def is_ready_def)
  next
    case (Some f)
    obtain r m w2 where f: "f (sc_image c) w = ((r, m), w2)" by (metis surj_pair)
    with Some False d assms(1) show ?thesis
      by (cases r) (auto simp: decide_card_def reconcileImage_def setResolvable_def is_ready_def)
  qed
qed

definition no_yaml :: yaml_decoder where
  "no_yaml = \<lparr>yd_struct = (\<lambda>s. Inr ([], [])), yd_keys = (\<lambda>s. Inr [])\<rparr>"

definition image_card :: skill_card where
  "image_card =
     \<lparr>sc_meta = new_meta ''ns'' ''fix'' Map.empty, sc_image = ''reg/fix:1'', sc_subpath = [], sc_source = [],
      sc_ref = [], sc_inline = [], sc_display_name = [], sc_version = [], sc_description = [],
      sc_type = SkillTypeUnset, sc_tags = [], sc_observed_generation = 0, sc_resolved_image = [],
      sc_delivery_mode = [], sc_conditions = []\<rparr>"

definition denied :: "int resolver" where
  "denied ref w = (classifyResolveError ref \<lparr>re_transport = Some ([], 404), re_text = Lit []\<rparr>, w)"

lemma card_ready_iff_witness:
  "is_ready sample_lib (sc_conditions (fst (fst (decide_card (Some denied) no_yaml sample_lib image_card 0)))) \<and>
   map_option cd_status (find_condition sample_lib
     (sc_conditions (fst (fst (decide_card (Some denied) no_yaml sample_lib image_card 0)))) condition_resolvable)
     = Some CFalse"
proof -
  obtain c' after w' where d: "decide_card (Some denied) no_yaml sample_lib image_card 0 = ((c', after), w')"
    by (metis surj_pair)
  have "sc_image image_card \<noteq> []" "fst (fst (denied (sc_image image_card) 0)) = imageResolveMissing"
    by (simp_all add: image_card_def denied_def classifyResolveError_def)
  with card_ready_iff [OF sample_conditions_ok d] show ?thesis
    by (simp add: d) (metis prod.collapse)
qed

text \<open>
  A registry condemns an image only by saying so: the reference does not parse, or the answer carries
  a code for an unknown manifest or repository, or is a 404; refused credentials and unreachable
  registries stay inconclusive.
\<close>

theorem resolve_missing_iff:
  "fst (fst (registry_resolve R ref w)) = imageResolveMissing \<longleftrightarrow>
     (case rg_parse R ref of
        Inl e \<Rightarrow> True
      | Inr parsed \<Rightarrow>
          (case fst (rg_head R (if rg_timeout R \<le> 0 then defaultResolveTimeout else rg_timeout R) parsed w) of
             None \<Rightarrow> False
           | Some e \<Rightarrow>
               (case re_transport e of
                  None \<Rightarrow> False
                | Some (codes, status) \<Rightarrow> status = 404 \<or> (\<exists>c m. (c, m) \<in> set codes \<and> missing_code c))))"
proof -
  have "fst (classifyResolveError ref e) = imageResolveMissing \<longleftrightarrow>
      (case re_transport e of None \<Rightarrow> False
       | Some (codes, status) \<Rightarrow> status = 404 \<or> (\<exists>c m. (c, m) \<in> set codes \<and> missing_code c))" for ref e
    by (auto simp: classifyResolveError_def Let_def find_None_iff find_Some_iff in_set_conv_nth
        split: option.splits prod.splits) (metis fst_conv nth_mem)+
  then show ?thesis
    by (simp add: registry_resolve_def split: sum.split prod.split option.split)
qed

end
