(* ===== verification/SkillFormatProperties.thy ===== *)
theory SkillFormatProperties
  imports SkillFormat Names
begin

text \<open>
  The header of a skill file: the closing fence is the first line that is one, header and body are
  separated exactly, and the naming rule accepts exactly the names the format allows.
\<close>

section \<open>Lines\<close>

lemma split_lines:
  "split_on newline s =
     first_line s # (case after_line s of None \<Rightarrow> [] | Some rest \<Rightarrow> split_on newline rest)"
proof (induction s)
  case Nil
  then show ?case by (simp add: first_line_def after_line_def)
next
  case (Cons c s)
  then show ?case by (simp add: first_line_def after_line_def)
qed

lemma after_line_drop:
  "after_line s = Some rest \<Longrightarrow> rest = drop (Suc (length (first_line s))) s \<and> length (first_line s) < length s"
proof (induction s)
  case (Cons c s)
  then show ?case by (auto simp: after_line_def first_line_def split: if_splits)
qed (simp add: after_line_def)

text \<open>The first fence among lines that start at an offset.\<close>

fun fence_line :: "string list \<Rightarrow> nat \<Rightarrow> nat option" where
  "fence_line [] off = None"
| "fence_line (l # ls) off = (if is_fence l then Some off else fence_line ls (off + length l + 1))"

lemma not_fence_Nil [simp]: "\<not> is_fence []"
  by (simp add: is_fence_def fence_def trim_right_def)

lemma closing_from_lines:
  "off \<le> length b \<Longrightarrow> closing_from b off = fence_line (split_on newline (drop off b)) off"
proof (induction b off rule: closing_from.induct)
  case (1 b off)
  show ?case
  proof (cases "off < length b \<and> \<not> is_fence (first_line (drop off b))")
    case True
    show ?thesis
    proof (cases "after_line (drop off b)")
      case None
      with True show ?thesis by (subst closing_from.simps) (simp add: split_lines)
    next
      case (Some rest)
      let ?n = "off + length (first_line (drop off b)) + 1"
      from after_line_drop [OF Some]
      have r: "rest = drop ?n b" "?n \<le> length b"
        using True by (auto simp: ac_simps)
      from "1.IH" [OF _ _ Some r(2)] True
      have "closing_from b ?n = fence_line (split_on newline (drop ?n b)) ?n" by simp
      then show ?thesis
        using True Some r(1)
        by (subst closing_from.simps, subst split_lines) simp
    qed
  next
    case False
    with "1.prems" show ?thesis
      by (subst closing_from.simps, subst split_lines) (auto simp: first_line_def after_line_def)
  qed
qed

lemma findClosingFence_lines: "findClosingFence b = fence_line (split_on newline b) 0"
  by (simp add: findClosingFence_def closing_from_lines)

definition unlines :: "string list \<Rightarrow> string" where
  "unlines ls = concat (map (\<lambda>l. l @ [newline]) ls)"

lemma fence_line_first:
  "\<forall>p \<in> set pre. \<not> is_fence p \<Longrightarrow> is_fence l \<Longrightarrow>
   fence_line (pre @ l # post) off = Some (off + length (unlines pre))"
  by (induction pre arbitrary: off) (simp_all add: unlines_def)

lemma fence_line_None: "\<forall>p \<in> set ls. \<not> is_fence p \<Longrightarrow> fence_line ls off = None"
  by (induction ls arbitrary: off) simp_all

lemma fence_line_Some:
  "fence_line ls off = Some n \<longleftrightarrow>
   (\<exists>pre l post. ls = pre @ l # post \<and> is_fence l \<and> (\<forall>p \<in> set pre. \<not> is_fence p) \<and>
      n = off + length (unlines pre))"
proof
  assume f: "fence_line ls off = Some n"
  then have "\<exists>l \<in> set ls. is_fence l"
    using fence_line_None [of ls off] by fastforce
  from split_list_first_prop [OF this] obtain pre l post where
    ls: "ls = pre @ l # post" "is_fence l" "\<forall>p \<in> set pre. \<not> is_fence p" by blast
  with f fence_line_first [OF ls(3,2)] show
    "\<exists>pre l post. ls = pre @ l # post \<and> is_fence l \<and> (\<forall>p \<in> set pre. \<not> is_fence p) \<and>
       n = off + length (unlines pre)" by auto
next
  assume "\<exists>pre l post. ls = pre @ l # post \<and> is_fence l \<and> (\<forall>p \<in> set pre. \<not> is_fence p) \<and>
      n = off + length (unlines pre)"
  then show "fence_line ls off = Some n" using fence_line_first by blast
qed

section \<open>Header and body\<close>

lemma split_on_append: "split_on c (a @ c # b) = split_on c a @ split_on c b"
  by (induction a) (auto split: list.split)

lemma split_on_free: "c \<notin> set a \<Longrightarrow> split_on c a = [a]"
  by (induction a) auto

lemma split_unlines:
  "\<forall>l \<in> set ls. newline \<notin> set l \<Longrightarrow> split_on newline (unlines ls @ s) = ls @ split_on newline s"
proof (induction ls)
  case (Cons l ls)
  have "split_on newline (unlines (l # ls) @ s) = split_on newline (l @ newline # (unlines ls @ s))"
    by (simp add: unlines_def)
  also have "\<dots> = [l] @ split_on newline (unlines ls @ s)"
    using Cons.prems by (simp only: split_on_append) (simp add: split_on_free)
  finally show ?case using Cons by simp
qed (simp add: unlines_def)

lemma first_line_append: "newline \<notin> set l \<Longrightarrow> first_line (l @ newline # s) = l"
  by (induction l) (auto simp: first_line_def)

lemma after_line_append: "newline \<notin> set l \<Longrightarrow> after_line (l @ newline # s) = Some s"
  by (induction l) (auto simp: after_line_def)

lemma after_line_free: "newline \<notin> set l \<Longrightarrow> after_line l = None"
  by (induction l) (auto simp: after_line_def)

lemma fence_not_bom: "is_fence l \<Longrightarrow> trim_prefix (l @ s) bom = l @ s"
proof -
  assume f: "is_fence l"
  obtain t where "l = trim_right line_space l @ t"
    using trim_right_prefix [of l line_space] by blast
  with f have "l = fence @ t" by (simp add: is_fence_def)
  then show ?thesis by (simp add: trim_prefix_def has_prefix_def bom_def fence_def)
qed

lemma trim_bom: "is_fence l \<Longrightarrow> pre = [] \<or> pre = bom \<Longrightarrow> trim_prefix (pre @ l @ s) bom = l @ s"
  by (auto simp: fence_not_bom) (simp add: trim_prefix_def has_prefix_def)

lemma cut_opening:
  assumes "is_fence o1" and "newline \<notin> set o1" and "pre = [] \<or> pre = bom"
  shows "cutOpeningFence (pre @ o1 @ newline # s) = Some s"
  using assms by (simp add: cutOpeningFence_def trim_bom after_line_append first_line_append)

lemma closing_found:
  assumes "\<forall>h \<in> set hs. newline \<notin> set h \<and> \<not> is_fence h" and "is_fence c" and "newline \<notin> set c"
  shows "findClosingFence (unlines hs @ c @ newline # body) = Some (length (unlines hs))"
    and "findClosingFence (unlines hs @ c) = Some (length (unlines hs))"
proof -
  have "split_on newline (c @ newline # body) = c # split_on newline body"
    using assms(3) by (simp add: split_on_append split_on_free)
  then have l: "split_on newline (unlines hs @ c @ newline # body) = hs @ c # split_on newline body"
    "split_on newline (unlines hs @ c) = hs @ [c]"
    using assms by (simp_all add: split_unlines split_on_free)
  show "findClosingFence (unlines hs @ c @ newline # body) = Some (length (unlines hs))"
    "findClosingFence (unlines hs @ c) = Some (length (unlines hs))"
    unfolding findClosingFence_lines l using fence_line_first [of hs c] assms by auto
qed

text \<open>
  A file that is written as header between two fence lines and a body is read back exactly: the
  decoder sees the header, \<open>Body\<close> gives the body without leading line breaks, whatever white space trails
  the fences and whether or not a byte order mark leads the file.
\<close>

theorem header_body_roundtrip:
  assumes "pre = [] \<or> pre = bom"
    and "is_fence o1" and "newline \<notin> set o1"
    and "\<forall>h \<in> set hs. newline \<notin> set h \<and> \<not> is_fence h"
    and "is_fence c" and "newline \<notin> set c"
  shows "Parse Y (pre @ o1 @ newline # unlines hs @ c @ newline # body) = decode_header Y (unlines hs) \<and>
    Body (pre @ o1 @ newline # unlines hs @ c @ newline # body) = trim_left body_space body \<and>
    Parse Y (pre @ o1 @ newline # unlines hs @ c) = decode_header Y (unlines hs) \<and>
    Body (pre @ o1 @ newline # unlines hs @ c) = []"
  using closing_found [OF assms(4-6)] cut_opening [OF assms(2,3,1)] assms(6)
  by (simp add: Parse_def Body_def after_line_append after_line_free) (simp add: trim_left_def)

lemma header_body_roundtrip_witness:
  "Body (bom @ ''---'' @ newline # unlines [''name: fix'', ''description: d''] @ ''--- '' @ newline # ''# Fix'') =
     ''# Fix''"
proof -
  have "is_fence ''---''" "is_fence ''--- ''" "\<not> is_fence ''name: fix''" "\<not> is_fence ''description: d''"
    by (simp_all add: is_fence_def fence_def trim_right_def line_space_def)
  then show ?thesis
    using header_body_roundtrip [of bom "''---''" "[''name: fix'', ''description: d'']" "''--- ''" _ "''# Fix''"]
    by (simp add: newline_def trim_left_def body_space_def)
qed

text \<open>
  The fence that closes the header is the first line that consists of it, and the offset is where that
  line starts; the search ends without one exactly when there is none.
\<close>

theorem closing_fence_first:
  "(findClosingFence b = Some n \<longleftrightarrow>
     (\<exists>hs l post. split_on newline b = hs @ l # post \<and> is_fence l \<and> (\<forall>h \<in> set hs. \<not> is_fence h) \<and>
        n = length (unlines hs))) \<and>
   (findClosingFence b = None \<longleftrightarrow> (\<forall>l \<in> set (split_on newline b). \<not> is_fence l))"
proof -
  have "findClosingFence b = None \<longleftrightarrow> (\<forall>l \<in> set (split_on newline b). \<not> is_fence l)"
    unfolding findClosingFence_lines
    using fence_line_None [of "split_on newline b" 0] fence_line_Some [of "split_on newline b" 0]
      split_list_first_prop [of "split_on newline b" is_fence]
    by (metis fence_line_first option.distinct(1))
  then show ?thesis
    unfolding findClosingFence_lines fence_line_Some by simp
qed

lemma closing_fence_first_witness:
  "findClosingFence (unlines [''name: x'', ''---''] @ ''body'') = Some 8"
proof -
  have s: "split_on newline (unlines [''name: x'', ''---''] @ ''body'') = [''name: x'', ''---'', ''body'']"
    by (simp add: unlines_def newline_def)
  have f: "is_fence ''---''" "\<not> is_fence ''name: x''"
    by (simp_all add: is_fence_def fence_def trim_right_def line_space_def)
  have "\<exists>hs l post. [''name: x'', ''---'', ''body''] = hs @ l # post \<and> is_fence l \<and>
      (\<forall>h \<in> set hs. \<not> is_fence h) \<and> 8 = length (unlines hs)"
    using f by (intro exI [of _ "[''name: x'']"] exI [of _ "''---''"] exI [of _ "[''body'']"])
      (simp add: unlines_def)
  then show ?thesis
    using closing_fence_first [of "unlines [''name: x'', ''---''] @ ''body''" "8"] unfolding s by blast
qed

section \<open>Names\<close>

lemma decode_low:
  "decode_rune (c # cs) = (r, n) \<Longrightarrow> r < 128 \<Longrightarrow> n = 1 \<and> r = byte c"
  by (auto simp: decode_rune.simps Let_def rune_error_def second_ok_def cont_byte_def
      split: if_splits list.splits)

lemma low_runes_ascii: "\<forall>x \<in> set (rune_chunks s). fst x < 128 \<Longrightarrow> ascii s"
proof (induction s rule: rune_chunks.induct)
  case (2 c cs)
  obtain r n where d: "decode_rune (c # cs) = (r, n)" by fastforce
  have "r < 128" using "2.prems" d by (simp add: rune_chunks.simps(2))
  from decode_low [OF d this] have n: "n = 1" "r = byte c" by auto
  with "2.prems" d have "\<forall>x \<in> set (rune_chunks cs). fst x < 128"
    by (simp add: rune_chunks.simps(2))
  with "2.IH" [OF d [symmetric] refl] n have "ascii cs" by simp
  with n \<open>r < 128\<close> show ?case by (simp add: ascii_def)
qed (simp add: ascii_def)

lemma name_rune_char: "name_rune (byte c) \<longleftrightarrow> name_char c"
proof -
  have "byte c = 45 \<longleftrightarrow> c = CHR ''-''"
    using of_char_eq_iff [of c "CHR ''-''", where 'a = nat] by (simp add: byte_def)
  then show ?thesis
    by (auto simp: name_rune_def name_char_def byte_def less_eq_char_def)
qed

lemma name_runes: "(\<forall>x \<in> set (rune_chunks s). name_rune (fst x)) \<longleftrightarrow> list_all name_char s"
proof
  assume a: "\<forall>x \<in> set (rune_chunks s). name_rune (fst x)"
  then have "\<forall>x \<in> set (rune_chunks s). fst x < 128" by (auto simp: name_rune_def)
  then have "ascii s" by (rule low_runes_ascii)
  with a show "list_all name_char s"
    by (auto simp: rune_chunks_ascii list_all_iff name_rune_char)
next
  assume a: "list_all name_char s"
  then have "ascii s" by (auto simp: ascii_def list_all_iff name_char_ascii)
  with a show "\<forall>x \<in> set (rune_chunks s). name_rune (fst x)"
    by (auto simp: rune_chunks_ascii list_all_iff name_rune_char)
qed

lemma ValidName_rules:
  "ValidName name = None \<longleftrightarrow>
     name \<noteq> [] \<and> length name \<le> 64 \<and> list_all name_char name \<and> hd name \<noteq> CHR ''-'' \<and>
     last name \<noteq> CHR ''-'' \<and> (\<nexists>a b. name = a @ ''--'' @ b)"
proof -
  have ends: "has_prefix s ''-'' \<longleftrightarrow> s \<noteq> [] \<and> hd s = CHR ''-''" for s
    by (cases s) (auto simp: has_prefix_def)
  have suf: "has_suffix s ''-'' \<longleftrightarrow> s \<noteq> [] \<and> last s = CHR ''-''" for s
    using ends [of "rev s"] by (auto simp: has_suffix_def hd_rev)
  have count: "list_all name_char s \<Longrightarrow> rune_count s = length s" for s
    by (rule rune_count_ascii) (auto simp: ascii_def list_all_iff name_char_ascii)
  have runes: "first_err (\<lambda>c. if name_rune (fst c) then None else Some (e c)) (rune_chunks s) = None \<longleftrightarrow>
      list_all name_char s" for e s
    using name_runes [of s] by (simp add: first_err_None split: if_splits)
  show ?thesis
    by (auto simp: ValidName_def ends suf contains_sub_iff runes maxNameLen_def count)
qed

lemma ValidName_no_slash: "ValidName name = None \<Longrightarrow> CHR ''/'' \<notin> set name"
  unfolding ValidName_rules by (auto simp: list_all_iff name_char_def less_eq_char_def)

text \<open>
  A skill name is accepted exactly when it has 1 to 64 characters, all lower-case letters, digits or
  hyphens, with no hyphen at either end and no two in a row; so it is a single path segment, and a DNS
  label unless it uses the 64th character.
\<close>

theorem ValidName_iff:
  "(ValidName name = None \<longleftrightarrow>
     name \<noteq> [] \<and> length name \<le> 64 \<and> list_all name_char name \<and> hd name \<noteq> CHR ''-'' \<and>
     last name \<noteq> CHR ''-'' \<and> (\<nexists>a b. name = a @ ''--'' @ b)) \<and>
   (ValidName name = None \<longrightarrow> CHR ''/'' \<notin> set name \<and> (length name \<le> 63 \<longleftrightarrow> dns_label name))"
  using ValidName_rules ValidName_no_slash by (auto simp: dns_label_def)

lemma ValidName_iff_witness:
  "CHR ''/'' \<notin> set ''fix-java'' \<and> dns_label ''fix-java''"
proof -
  have "ValidName ''fix-java'' = None" by code_simp
  with ValidName_iff [of "''fix-java''"] show ?thesis by simp
qed

end
