(* ===== verification/Files.thy ===== *)
theory Files
  imports Paths Jobs RunClient
begin

text \<open>
  What the skill loader asks of the file system (\<open>os\<close>, \<open>io\<close>, \<open>path/filepath\<close>) over an abstract state of the
  world, and the lexical functions of \<open>path/filepath\<close> on Unix that it uses.  A missing file is an error of
  kind \<open>KNotFound\<close>, as \<open>os.IsNotExist\<close> and \<open>fs.ErrNotExist\<close> test it.
\<close>

section \<open>The file system\<close>

record file_info =
  fi_dir :: bool
  fi_regular :: bool
  fi_perm :: int

record dir_entry =
  de_name :: string
  de_dir :: bool
  de_symlink :: bool

text \<open>
  \<open>fs_stat\<close> follows links and \<open>fs_lstat\<close> does not (\<open>DirEntry.Info\<close>); \<open>fs_copy\<close> opens a file, creates or
  truncates another with permissions, and copies the bytes.
\<close>

record 'w fs =
  fs_stat :: "string \<Rightarrow> ('w, file_info) call"
  fs_lstat :: "string \<Rightarrow> ('w, file_info) call"
  fs_read_dir :: "string \<Rightarrow> ('w, dir_entry list) call"
  fs_read_file :: "string \<Rightarrow> ('w, string) call"
  fs_eval_symlinks :: "string \<Rightarrow> ('w, string) call"
  fs_mkdir_temp :: "string \<Rightarrow> ('w, string) call"
  fs_mkdir_all :: "string \<Rightarrow> 'w command"
  fs_remove :: "string \<Rightarrow> 'w command"
  fs_remove_all :: "string \<Rightarrow> 'w command"
  fs_write_file :: "string \<Rightarrow> string \<Rightarrow> 'w command"
  fs_copy :: "string \<Rightarrow> string \<Rightarrow> int \<Rightarrow> 'w command"

section \<open>Paths of the file system\<close>

definition path_join :: "string \<Rightarrow> string \<Rightarrow> string" where
  "path_join a b =
     (if a = [] \<and> b = [] then []
      else path_clean (if a = [] then b else if b = [] then a else a @ [slash] @ b))"

text \<open>The elements the loop of \<open>filepath.Rel\<close> walks over; the current directory counts as empty.\<close>

definition rel_comps :: "string \<Rightarrow> string list" where
  "rel_comps p = (if p = [] then [] else if p = [slash] then [[]] else split_on slash p)"

fun strip_common :: "string list \<Rightarrow> string list \<Rightarrow> string list \<times> string list" where
  "strip_common (a # as) (b # bs) = (if a = b then strip_common as bs else (a # as, b # bs))"
| "strip_common as bs = (as, bs)"

text \<open>\<open>filepath.Rel\<close>: \<open>None\<close> when the target cannot be made relative to the base.\<close>

definition path_rel :: "string \<Rightarrow> string \<Rightarrow> string option" where
  "path_rel basepath targpath =
     (let base = path_clean basepath; targ = path_clean targpath
      in if targ = base then Some ''.''
         else let base' = (if base = ''.'' then [] else base)
              in if is_abs base' \<noteq> is_abs targ then None
                 else (case strip_common (rel_comps base') (rel_comps targ) of
                         (bs, ts) \<Rightarrow>
                           if bs \<noteq> [] \<and> ts \<noteq> [] \<and> hd bs = ''..'' then None
                           else Some (join [slash] (map (\<lambda>_. ''..'') bs @ ts))))"

section \<open>Loops that stop at the first error\<close>

fun run_each :: "('x \<Rightarrow> 'w \<Rightarrow> err option \<times> 'w) \<Rightarrow> 'x list \<Rightarrow> 'w \<Rightarrow> err option \<times> 'w" where
  "run_each f [] w = (None, w)"
| "run_each f (x # xs) w =
     (case f x w of
        (Some e, w') \<Rightarrow> (Some e, w')
      | (None, w') \<Rightarrow> run_each f xs w')"

text \<open>An invariant of the world that every step keeps is kept by the loop.\<close>

lemma run_each_keeps:
  assumes "\<And>x w. x \<in> set xs \<Longrightarrow> P w \<Longrightarrow> P (snd (f x w))" and "P w"
  shows "P (snd (run_each f xs w))"
  using assms
proof (induction xs arbitrary: w)
  case (Cons x xs)
  obtain r w' where f: "f x w = (r, w')" by fastforce
  have w': "P w'" using Cons.prems f by (metis list.set_intros(1) snd_conv)
  show ?case
  proof (cases r)
    case None
    have "P (snd (run_each f xs w'))"
      by (rule Cons.IH [OF _ w']) (simp add: Cons.prems(1))
    with f None show ?thesis by simp
  qed (simp add: f w')
qed simp

section \<open>Containment of joined paths\<close>

lemma path_join_comps:
  assumes "clean_abs d" and "proper_comp n"
  shows "clean_abs (path_join d n)" and "comps (path_join d n) = comps d @ [n]"
proof -
  from assms(1) have d: "d = abs_of (comps d)" "list_all proper_comp (comps d)"
    by (auto elim: clean_absE)
  have ne: "d \<noteq> []" "n \<noteq> []" using assms by (auto simp: clean_abs_def is_abs_def proper_comp_def has_prefix_def)
  have n: "slash \<notin> set n" using assms(2) by (simp add: proper_comp_def)
  have abs: "is_abs (d @ [slash] @ n)"
    using assms(1) by (auto simp: clean_abs_def is_abs_def has_prefix_iff)
  have "split_on slash (d @ slash # n) = split_on slash d @ [n]"
    by (induction d) (auto simp: split_on_no_slash n split: list.split)
  then have "clean_comps (d @ [slash] @ n) = clean_comps d @ [n]"
    using abs assms
    by (simp add: clean_comps_def clean_abs_def proper_comp_def)
  moreover have "clean_comps d = comps d"
    using d clean_comps_abs_of by metis
  ultimately have j: "path_join d n = abs_of (comps d @ [n])"
    using ne abs by (simp add: path_join_def path_clean_abs)
  show "clean_abs (path_join d n)" and "comps (path_join d n) = comps d @ [n]"
    using j d assms(2) comps_abs_of [of "comps d @ [n]"]
    by (simp_all add: clean_abs_def path_clean_abs clean_comps_abs_of)
qed

lemma path_join_inside:
  assumes "clean_abs root" and "clean_abs d" and "isAncestorOrEqual root d" and "proper_comp n"
  shows "isAncestorOrEqual root (path_join d n)"
  using assms path_join_comps [OF assms(2,4)]
  by (simp add: ancestor_iff_prefix prefix_prefix)

lemma strip_common_prefix:
  "strip_common as bs = (xs, ys) \<Longrightarrow> \<exists>c. as = c @ xs \<and> bs = c @ ys"
proof (induction as bs rule: strip_common.induct)
  case (1 a as b bs)
  show ?case
  proof (cases "a = b")
    case True
    with "1.prems" "1.IH" obtain c where "as = c @ xs \<and> bs = c @ ys" by auto
    with True have "a # as = (a # c) @ xs \<and> b # bs = (a # c) @ ys" by simp
    then show ?thesis by blast
  next
    case False
    with "1.prems" show ?thesis by (intro exI [of _ "[]"]) simp
  qed
qed (auto intro: exI [of _ "[]"])

text \<open>A relative path that does not start by leaving the base is one below it.\<close>

definition leaves :: "string option \<Rightarrow> bool" where
  "leaves r \<longleftrightarrow> (case r of None \<Rightarrow> True | Some p \<Rightarrow> p = ''..'' \<or> has_prefix p ''../'')"

lemma rel_comps_abs: "clean_abs p \<Longrightarrow> rel_comps p = [] # comps p"
proof -
  assume "clean_abs p"
  then obtain cs where p: "p = abs_of cs" "list_all proper_comp cs"
    by (auto elim: clean_absE)
  have cp: "comps p = cs" unfolding p(1) by (rule comps_abs_of [OF p(2)])
  show ?thesis
  proof (cases "cs = []")
    case True
    with p(1) cp show ?thesis by (simp add: rel_comps_def abs_of_def)
  next
    case False
    have "p \<noteq> [slash]"
    proof
      assume "p = [slash]"
      with cp False show False by (simp add: comps_def)
    qed
    moreover have "p \<noteq> []" unfolding p(1) by (simp add: abs_of_def)
    moreover have "split_on slash p = [] # cs"
      unfolding p(1) using split_abs_of [OF p(2)] False by simp
    ultimately show ?thesis
      using cp by (simp add: rel_comps_def)
  qed
qed

lemma rel_inside:
  assumes "clean_abs root" and "clean_abs p" and "\<not> leaves (path_rel root p)"
  shows "isAncestorOrEqual root p"
proof (cases "p = root")
  case True
  then show ?thesis by (simp add: isAncestorOrEqual_def)
next
  case False
  have c: "path_clean root = root" "path_clean p = p" "is_abs root" "is_abs p" "root \<noteq> ''.''"
    using assms by (auto simp: clean_abs_def is_abs_def has_prefix_def slash_def)
  obtain bs ts where s: "strip_common (rel_comps root) (rel_comps p) = (bs, ts)" by fastforce
  from strip_common_prefix [OF s] obtain k where k: "rel_comps root = k @ bs" "rel_comps p = k @ ts" by blast
  have "bs = []"
  proof (rule ccontr)
    assume "bs \<noteq> []"
    then obtain b bs' where bs: "bs = b # bs'" by (cases bs) auto
    have "leaves (Some (join [slash] (map (\<lambda>_. ''..'') bs @ ts)))"
      by (cases "map (\<lambda>_. ''..'') bs' @ ts") (simp_all add: bs leaves_def has_prefix_def slash_def)
    moreover have "path_rel root p = Some (join [slash] (map (\<lambda>_. ''..'') bs @ ts)) \<or> path_rel root p = None"
      using c False s by (simp add: path_rel_def Let_def)
    ultimately show False using assms(3) by (auto simp: leaves_def)
  qed
  then have "prefix (comps root) (comps p)"
    using k rel_comps_abs [OF assms(1)] rel_comps_abs [OF assms(2)]
    by (cases k) (auto simp: prefix_def)
  then show ?thesis using ancestor_iff_prefix [OF assms(1,2)] by simp
qed

end
