(* ===== verification/SkillCopy.thy ===== *)
theory SkillCopy
  imports Files SkillFormat Sandbox
begin

text \<open>
  How the skill loader writes the skills root (\<open>internal/skills/load.go\<close>): the copy of a skill directory
  that resolves links but never leaves it, the removal of what a previous run left, and the manifest.
\<close>

section \<open>Names\<close>

definition SkillFile :: string where "SkillFile = ''SKILL.md''"
definition ManifestFile :: string where "ManifestFile = ''.konveyor-skills.json''"

text \<open>The bookkeeping entries of the kubelet in a projected volume.\<close>

definition isKubernetesInternal :: "string \<Rightarrow> bool" where
  "isKubernetesInternal name \<longleftrightarrow> has_prefix name ''..''"

definition path_exists :: "'w fs \<Rightarrow> string \<Rightarrow> 'w \<Rightarrow> bool \<times> 'w" where
  "path_exists F p w = (case fs_stat F p w of (Inl _, w') \<Rightarrow> (False, w') | (Inr _, w') \<Rightarrow> (True, w'))"

section \<open>Copying\<close>

definition maxCopyDepth :: nat where "maxCopyDepth = 32"

text \<open>
  What a directory entry really is.  An entry that is no link is where it appears to be; a link is
  followed and refused when it ends outside the root.
\<close>

definition resolveWithin ::
  "'w fs \<Rightarrow> string \<Rightarrow> string \<Rightarrow> dir_entry \<Rightarrow> ('w, string \<times> file_info) call" where
  "resolveWithin F root p e w =
     (if \<not> de_symlink e then
        (case fs_lstat F p w of
           (Inl err, w1) \<Rightarrow> (Inl (wrapf ''resolving %s: %w'' [Lit p] err), w1)
         | (Inr info, w1) \<Rightarrow> (Inr (p, info), w1))
      else
        (case fs_eval_symlinks F p w of
           (Inl err, w1) \<Rightarrow> (Inl (wrapf ''resolving %s: %w'' [Lit p] err), w1)
         | (Inr resolved, w1) \<Rightarrow>
             if leaves (path_rel root resolved)
             then (Inl (errorf ''%s points at %s, outside the skill; a skill can only carry files its own source holds''
                     [Lit p, Lit resolved]), w1)
             else
               (case fs_stat F resolved w1 of
                  (Inl err, w2) \<Rightarrow> (Inl (wrapf ''resolving %s: %w'' [Lit p] err), w2)
                | (Inr info, w2) \<Rightarrow> (Inr (resolved, info), w2))))"

definition copyFile :: "'w fs \<Rightarrow> string \<Rightarrow> string \<Rightarrow> int \<Rightarrow> 'w command" where
  "copyFile F src dst perm w =
     (case fs_mkdir_all F (path_dir dst) w of
        (Some e, w1) \<Rightarrow> (Some e, w1)
      | (None, w1) \<Rightarrow> fs_copy F src dst perm w1)"

text \<open>
  The body of the loop of \<open>copyDir\<close>; \<open>descend\<close> is its recursive call.  A link with nothing at its end
  is skipped, and so is what is neither a directory nor a regular file.
\<close>

definition copy_entry ::
  "'w fs \<Rightarrow> string \<Rightarrow> string \<Rightarrow> string \<Rightarrow> (string \<Rightarrow> string \<Rightarrow> 'w command) \<Rightarrow> dir_entry \<Rightarrow> 'w command" where
  "copy_entry F root dir dst descend e w =
     (if isKubernetesInternal (de_name e) \<or> de_name e = ''.git'' then (None, w)
      else
        (case resolveWithin F root (path_join dir (de_name e)) e w of
           (Inl err, w1) \<Rightarrow> if kind_of err = KNotFound then (None, w1) else (Some err, w1)
         | (Inr (resolved, info), w1) \<Rightarrow>
             if fi_dir info then descend resolved (path_join dst (de_name e)) w1
             else if fi_regular info
             then copyFile F resolved (path_join dst (de_name e)) (fi_perm info) w1
             else (None, w1)))"

function copyDir :: "'w fs \<Rightarrow> string \<Rightarrow> string \<Rightarrow> string \<Rightarrow> nat \<Rightarrow> 'w command" where
  "copyDir F root dir dst depth w =
     (if maxCopyDepth < depth
      then (Some (errorf ''%s nests more than %d directories deep'' [Lit dir, Lit (nat_text maxCopyDepth)]), w)
      else
        (case fs_read_dir F dir w of
           (Inl e, w1) \<Rightarrow> (Some e, w1)
         | (Inr entries, w1) \<Rightarrow>
             (case fs_mkdir_all F dst w1 of
                (Some e, w2) \<Rightarrow> (Some e, w2)
              | (None, w2) \<Rightarrow>
                  run_each
                    (copy_entry F root dir dst
                      (\<lambda>resolved target w3. copyDir F root resolved target (depth + 1) w3))
                    entries w2)))"
  by pat_completeness auto

termination
  by (relation "measure (\<lambda>(F, root, dir, dst, depth, w). Suc maxCopyDepth - depth)") auto

declare copyDir.simps [simp del]

definition copyTree :: "'w fs \<Rightarrow> string \<Rightarrow> string \<Rightarrow> 'w command" where
  "copyTree F src dst w =
     (case fs_eval_symlinks F src w of
        (Inl e, w1) \<Rightarrow> (Some (wrapf ''resolving %s: %w'' [Lit src] e), w1)
      | (Inr root, w1) \<Rightarrow> copyDir F root root dst 0 w1)"

section \<open>Stale skills\<close>

definition prune_entry :: "'w fs \<Rightarrow> string \<Rightarrow> string list \<Rightarrow> dir_entry \<Rightarrow> 'w command" where
  "prune_entry F destDir keep e w =
     (if \<not> de_dir e \<or> de_name e \<in> set keep then (None, w)
      else
        (case fs_remove_all F (path_join destDir (de_name e)) w of
           (Some err, w1) \<Rightarrow> (Some (wrapf ''removing stale skill %q: %w'' [Lit (de_name e)] err), w1)
         | (None, w1) \<Rightarrow> (None, w1)))"

definition prune :: "'w fs \<Rightarrow> string \<Rightarrow> string list \<Rightarrow> 'w command" where
  "prune F destDir keep w =
     (case fs_read_dir F destDir w of
        (Inl e, w1) \<Rightarrow>
          (if kind_of e = KNotFound then None else Some (wrapf ''reading %s: %w'' [Lit destDir] e), w1)
      | (Inr entries, w1) \<Rightarrow> run_each (prune_entry F destDir keep) entries w1)"

section \<open>The manifest\<close>

record loaded_skill =
  ld_name :: string
  ld_description :: string
  ld_type :: string
  ld_source :: string
  ld_path :: string

record manifest =
  mf_skills :: "loaded_skill list"
  mf_rules :: "string list"

text \<open>
  \<open>json.MarshalIndent\<close> with two spaces of a struct, in the order of its fields, and of a slice; the values
  are rendered already.
\<close>

definition indent_block :: "char \<Rightarrow> char \<Rightarrow> nat \<Rightarrow> string list \<Rightarrow> string" where
  "indent_block l r depth items =
     (if items = [] then [l, r]
      else [l] @ json_newline (depth + 1) @ join ('','' @ json_newline (depth + 1)) items @
           json_newline depth @ [r])"

definition indent_struct :: "nat \<Rightarrow> (string \<times> string) list \<Rightarrow> string" where
  "indent_struct depth kvs =
     indent_block (CHR ''{'') (CHR ''}'') depth (map (\<lambda>kv. json_string (fst kv) @ '': '' @ snd kv) kvs)"

definition indent_array :: "nat \<Rightarrow> string list \<Rightarrow> string" where
  "indent_array depth xs = indent_block (CHR ''['') (CHR '']'') depth xs"

definition loaded_json :: "loaded_skill \<Rightarrow> string" where
  "loaded_json l =
     indent_struct 2
       ([(''name'', json_string (ld_name l)), (''description'', json_string (ld_description l)),
         (''type'', json_string (ld_type l)), (''source'', json_string (ld_source l))] @
        (if ld_path l = [] then [] else [(''sourcePath'', json_string (ld_path l))]))"

definition manifest_json :: "manifest \<Rightarrow> string" where
  "manifest_json m =
     indent_struct 0
       [(''skills'', indent_array 1 (map loaded_json (mf_skills m))),
        (''rules'', indent_array 1 (map json_string (mf_rules m)))]"

definition writeManifest :: "'w fs \<Rightarrow> string \<Rightarrow> manifest \<Rightarrow> ('w, manifest) call" where
  "writeManifest F destDir m w =
     (case fs_mkdir_all F destDir w of
        (Some e, w1) \<Rightarrow> (Inl e, w1)
      | (None, w1) \<Rightarrow>
          (case fs_write_file F (path_join destDir ManifestFile) (manifest_json m @ [nl]) w1 of
             (Some e, w2) \<Rightarrow> (Inl (wrapf ''writing manifest: %w'' [] e), w2)
           | (None, w2) \<Rightarrow> (Inr m, w2)))"

end
