(* ===== verification/SkillLoader.thy ===== *)
theory SkillLoader
  imports SkillCopy
begin

text \<open>
  The skill loader (\<open>internal/skills/load.go\<close>, \<open>internal/skills/frontmatter.go\<close>): the sources become
  candidate directories, the candidates are checked, and what passes is assembled under the skills root.
  Git is a parameter, as is the YAML decoder.
\<close>

definition TypeSkill :: string where "TypeSkill = skill_type_text SkillTypeSkill"
definition TypeRule :: string where "TypeRule = skill_type_text SkillTypeRule"

record candidate =
  cn_dir :: string
  cn_source :: string
  cn_path :: string
  cn_type :: string

record load_options =
  lo_src :: string
  lo_dest :: string
  lo_sources :: "skill_source list"

definition candidate_label :: "candidate \<Rightarrow> string" where
  "candidate_label c = (if cn_path c = [] then cn_source c else cn_source c @ ''/'' @ cn_path c)"

section \<open>Checking\<close>

definition readFrontmatter :: "'w fs \<Rightarrow> yaml_decoder \<Rightarrow> string \<Rightarrow> ('w, frontmatter) call" where
  "readFrontmatter F Y p w =
     (case fs_read_file F p w of
        (Inl e, w1) \<Rightarrow> (Inl e, w1)
      | (Inr content, w1) \<Rightarrow> (ParseAndValidate Y content, w1))"

text \<open>The three local variables of \<open>check\<close>.\<close>

record check_acc =
  ck_loaded :: "loaded_skill list"
  ck_by_name :: "(string \<times> candidate) list"
  ck_problems :: "msg list"

definition empty_check :: check_acc where
  "empty_check = \<lparr>ck_loaded = [], ck_by_name = [], ck_problems = []\<rparr>"

definition add_problem :: "msg \<Rightarrow> check_acc \<Rightarrow> check_acc" where
  "add_problem m acc = acc\<lparr>ck_problems := ck_problems acc @ [m]\<rparr>"

text \<open>The load policy of a source: the default when it sets none, nothing when it is unknown.\<close>

definition load_policy :: "string \<Rightarrow> string option" where
  "load_policy t = (if t = [] then Some TypeSkill else if t = TypeSkill \<or> t = TypeRule then Some t else None)"

definition loaded_of :: "frontmatter \<Rightarrow> string \<Rightarrow> candidate \<Rightarrow> loaded_skill" where
  "loaded_of fm t c = \<lparr>ld_name = fr_name fm, ld_description = fr_description fm, ld_type = t,
     ld_source = cn_source c, ld_path = cn_path c\<rparr>"

definition check_candidate :: "candidate \<Rightarrow> frontmatter res \<Rightarrow> check_acc \<Rightarrow> check_acc" where
  "check_candidate c r acc =
     (case r of
        Inl e \<Rightarrow> add_problem (Fmt ''%s: %v'' [Lit (candidate_label c), text_of e]) acc
      | Inr fm \<Rightarrow>
          (case map_of (ck_by_name acc) (fr_name fm) of
             Some prev \<Rightarrow>
               add_problem (Fmt ''duplicate skill name %q: %s and %s''
                 [Lit (fr_name fm), Lit (candidate_label prev), Lit (candidate_label c)]) acc
           | None \<Rightarrow>
               (let acc1 = acc\<lparr>ck_by_name := (fr_name fm, c) # ck_by_name acc\<rparr>
                in case load_policy (cn_type c) of
                     None \<Rightarrow>
                       add_problem (Fmt ''source %q sets type %q, want %q or %q''
                         [Lit (cn_source c), Lit (cn_type c), Lit TypeSkill, Lit TypeRule]) acc1
                   | Some t \<Rightarrow> acc1\<lparr>ck_loaded := ck_loaded acc1 @ [loaded_of fm t c]\<rparr>)))"

fun check_loop :: "'w fs \<Rightarrow> yaml_decoder \<Rightarrow> candidate list \<Rightarrow> check_acc \<Rightarrow> 'w \<Rightarrow> check_acc \<times> 'w" where
  "check_loop F Y [] acc w = (acc, w)"
| "check_loop F Y (c # cs) acc w =
     (case readFrontmatter F Y (path_join (cn_dir c) SkillFile) w of
        (r, w1) \<Rightarrow> check_loop F Y cs (check_candidate c r acc) w1)"

definition check_error :: "msg list \<Rightarrow> err option" where
  "check_error problems =
     (if problems = [] then None
      else Some (errorf (''%d unusable skill(s):'' @ [nl] @ ''  %s'')
             [Lit (nat_text (length problems)), Fmt ([nl] @ ''  '') problems]))"

definition check ::
  "'w fs \<Rightarrow> yaml_decoder \<Rightarrow> candidate list \<Rightarrow> 'w \<Rightarrow>
     (loaded_skill list \<times> (string \<times> candidate) list \<times> err option) \<times> 'w" where
  "check F Y cs w =
     (case check_loop F Y cs empty_check w of
        (acc, w1) \<Rightarrow> ((ck_loaded acc, ck_by_name acc, check_error (ck_problems acc)), w1))"

section \<open>Finding skills\<close>

definition is_directory :: "'w fs \<Rightarrow> string \<Rightarrow> 'w \<Rightarrow> bool \<times> 'w" where
  "is_directory F p w = (case fs_stat F p w of (Inl _, w1) \<Rightarrow> (False, w1) | (Inr info, w1) \<Rightarrow> (fi_dir info, w1))"

definition found_at :: "string \<Rightarrow> string \<Rightarrow> string \<Rightarrow> candidate" where
  "found_at dir source sub = \<lparr>cn_dir = dir, cn_source = source, cn_path = sub, cn_type = []\<rparr>"

fun discover_entries ::
  "'w fs \<Rightarrow> string \<Rightarrow> string \<Rightarrow> dir_entry list \<Rightarrow> 'w \<Rightarrow> candidate list \<times> 'w" where
  "discover_entries F dir source [] w = ([], w)"
| "discover_entries F dir source (e # es) w =
     (if isKubernetesInternal (de_name e) \<or> has_prefix (de_name e) ''.''
      then discover_entries F dir source es w
      else
        (let sub = path_join dir (de_name e)
         in case is_directory F sub w of
              (False, w1) \<Rightarrow> discover_entries F dir source es w1
            | (True, w1) \<Rightarrow>
                (case path_exists F (path_join sub SkillFile) w1 of
                   (ok, w2) \<Rightarrow>
                     (case discover_entries F dir source es w2 of
                        (cs, w3) \<Rightarrow> (if ok then found_at sub source (de_name e) # cs else cs, w3)))))"

definition discover :: "'w fs \<Rightarrow> string \<Rightarrow> string \<Rightarrow> ('w, candidate list) call" where
  "discover F dir source w =
     (case path_exists F (path_join dir SkillFile) w of
        (True, w1) \<Rightarrow> (Inr [found_at dir source []], w1)
      | (False, w1) \<Rightarrow>
          (case fs_read_dir F dir w1 of
             (Inl e, w2) \<Rightarrow> (Inl (wrapf ''reading source %s: %w'' [Lit source] e), w2)
           | (Inr entries, w2) \<Rightarrow>
               (case discover_entries F dir source entries w2 of
                  ([], w3) \<Rightarrow>
                    (Inl (errorf ''source %q contributed no skills: no %s at its root and no subdirectory containing one''
                       [Lit source, Lit SkillFile]), w3)
                | (c # cs, w3) \<Rightarrow> (Inr (c # cs), w3))))"

text \<open>Every staged subdirectory as an undeclared source.\<close>

fun scan_entries :: "'w fs \<Rightarrow> string \<Rightarrow> dir_entry list \<Rightarrow> 'w \<Rightarrow> skill_source list \<times> 'w" where
  "scan_entries F srcDir [] w = ([], w)"
| "scan_entries F srcDir (e # es) w =
     (if isKubernetesInternal (de_name e) then scan_entries F srcDir es w
      else
        (case is_directory F (path_join srcDir (de_name e)) w of
           (ok, w1) \<Rightarrow>
             (case scan_entries F srcDir es w1 of
                (ss, w2) \<Rightarrow>
                  (if ok then \<lparr>ks_name = de_name e, ks_subpath = [], ks_type = [], ks_git = None\<rparr> # ss
                   else ss, w2))))"

definition scanSrcDir :: "'w fs \<Rightarrow> string \<Rightarrow> ('w, skill_source list) call" where
  "scanSrcDir F srcDir w =
     (case fs_read_dir F srcDir w of
        (Inl e, w1) \<Rightarrow>
          (if kind_of e = KNotFound then Inr []
           else Inl (wrapf ''reading source dir %s: %w'' [Lit srcDir] e), w1)
      | (Inr entries, w1) \<Rightarrow> (case scan_entries F srcDir entries w1 of (ss, w2) \<Rightarrow> (Inr ss, w2)))"


section \<open>Git sources\<close>

text \<open>
  The git library: the names of references, the clone into a directory and what is asked of the repository
  there.  A clone that the time limit cuts off is one that fails.
\<close>

record clone_options =
  co_url :: string
  co_depth :: nat
  co_single_branch :: bool
  co_reference :: string

record 'w git_lib =
  gl_branch_name :: "string \<Rightarrow> string"
  gl_tag_name :: "string \<Rightarrow> string"
  gl_clone :: "string \<Rightarrow> clone_options \<Rightarrow> 'w command"
  gl_worktree :: "string \<Rightarrow> 'w command"
  gl_resolve :: "string \<Rightarrow> string \<Rightarrow> ('w, string) call"
  gl_checkout :: "string \<Rightarrow> string \<Rightarrow> 'w command"

definition shallow :: "string \<Rightarrow> string \<Rightarrow> clone_options" where
  "shallow url reference = \<lparr>co_url = url, co_depth = 1, co_single_branch = True, co_reference = reference\<rparr>"

definition full_clone :: "string \<Rightarrow> clone_options" where
  "full_clone url = \<lparr>co_url = url, co_depth = 0, co_single_branch = False, co_reference = []\<rparr>"

definition cloneAndCheckout :: "'w fs \<Rightarrow> 'w git_lib \<Rightarrow> git_source \<Rightarrow> string \<Rightarrow> 'w command" where
  "cloneAndCheckout F G g dest w =
     (case fs_remove_all F dest w of
        (Some e, w1) \<Rightarrow> (Some e, w1)
      | (None, w1) \<Rightarrow>
          (case gl_clone G dest (full_clone (gs_url g)) w1 of
             (Some e, w2) \<Rightarrow> (Some e, w2)
           | (None, w2) \<Rightarrow>
               (case gl_worktree G dest w2 of
                  (Some e, w3) \<Rightarrow> (Some e, w3)
                | (None, w3) \<Rightarrow>
                    (case gl_resolve G dest (gs_ref g) w3 of
                       (Inl e, w4) \<Rightarrow> (Some (wrapf ''resolving %q: %w'' [Lit (gs_ref g)] e), w4)
                     | (Inr hash, w4) \<Rightarrow> gl_checkout G dest hash w4))))"

text \<open>A branch, else a tag, else a commit.\<close>

definition clone :: "'w fs \<Rightarrow> 'w git_lib \<Rightarrow> string \<Rightarrow> git_source \<Rightarrow> string \<Rightarrow> 'w command" where
  "clone F G name g dest w =
     (case gl_clone G dest
             (shallow (gs_url g) (if gs_ref g = [] then [] else gl_branch_name G (gs_ref g))) w of
        (None, w1) \<Rightarrow> (None, w1)
      | (Some e, w1) \<Rightarrow>
          if gs_ref g = []
          then (Some (wrapf ''git source %q: cloning %s: %w'' [Lit name, Lit (gs_url g)] e), w1)
          else
            (case fs_remove_all F dest w1 of
               (Some e2, w2) \<Rightarrow> (Some e2, w2)
             | (None, w2) \<Rightarrow>
                 (case gl_clone G dest (shallow (gs_url g) (gl_tag_name G (gs_ref g))) w2 of
                    (None, w3) \<Rightarrow> (None, w3)
                  | (Some _, w3) \<Rightarrow>
                      (case cloneAndCheckout F G g dest w3 of
                         (None, w4) \<Rightarrow> (None, w4)
                       | (Some e4, w4) \<Rightarrow>
                           (Some (wrapf ''git source %q: cloning %s at ref %q: %w''
                              [Lit name, Lit (gs_url g), Lit (gs_ref g)] e4), w4)))))"

section \<open>Collecting\<close>

definition usable_source_name :: "string \<Rightarrow> bool" where
  "usable_source_name n \<longleftrightarrow> n \<noteq> [] \<and> n = path_base n \<and> n \<noteq> ''.'' \<and> n \<noteq> ''..''"

text \<open>
  The directory a source is read from, with the temporary directory made for it if it is cloned.
\<close>

definition source_root ::
  "'w fs \<Rightarrow> 'w git_lib \<Rightarrow> string \<Rightarrow> skill_source \<Rightarrow> 'w \<Rightarrow> (string res \<times> string list) \<times> 'w" where
  "source_root F G srcDir s w =
     (let root = path_join srcDir (ks_name s)
      in case ks_git s of
           Some g \<Rightarrow>
             (case fs_mkdir_temp F ''skill-clone-'' w of
                (Inl e, w1) \<Rightarrow> ((Inl (wrapf ''temp dir for %s: %w'' [Lit (ks_name s)] e), []), w1)
              | (Inr tmp, w1) \<Rightarrow>
                  (case clone F G (ks_name s) g tmp w1 of
                     (Some e, w2) \<Rightarrow> ((Inl e, [tmp]), w2)
                   | (None, w2) \<Rightarrow> ((Inr tmp, [tmp]), w2)))
         | None \<Rightarrow>
             (case is_directory F root w of
                (False, w1) \<Rightarrow>
                  ((Inl (errorf ''source %q was declared but nothing is staged at %s''
                      [Lit (ks_name s), Lit root]), []), w1)
              | (True, w1) \<Rightarrow> ((Inr root, []), w1)))"

text \<open>The path of a \<open>subPath\<close>, which cannot leave the root, and the check that it is a directory.\<close>

definition sub_root :: "string \<Rightarrow> string \<Rightarrow> string" where
  "sub_root root sub = path_join root (path_clean ([slash] @ sub))"

definition select_subpath :: "'w fs \<Rightarrow> skill_source \<Rightarrow> string \<Rightarrow> ('w, string) call" where
  "select_subpath F s root w =
     (if ks_subpath s = [] then (Inr root, w)
      else
        (case is_directory F (sub_root root (ks_subpath s)) w of
           (True, w1) \<Rightarrow> (Inr (sub_root root (ks_subpath s)), w1)
         | (False, w1) \<Rightarrow>
             (Inl (errorf ''source %q: subPath %q is not a directory in it''
                [Lit (ks_name s), Lit (ks_subpath s)]), w1)))"

text \<open>A declared source holds one skill; its load policy and the order within a source.\<close>

definition settle_found :: "bool \<Rightarrow> skill_source \<Rightarrow> candidate list \<Rightarrow> candidate list res" where
  "settle_found declared s found =
     (if declared \<and> 1 < length found
      then Inl (errorf ''source %q holds %d skills (%s); set subPath to select one, or use a SkillCollection''
             [Lit (ks_name s), Lit (nat_text (length found)), Lit (join '', '' (sort (map cn_path found)))])
      else Inr (sort_key cn_path (map (\<lambda>c. c\<lparr>cn_type := ks_type s\<rparr>) found)))"

definition collect_source ::
  "'w fs \<Rightarrow> 'w git_lib \<Rightarrow> string \<Rightarrow> bool \<Rightarrow> skill_source \<Rightarrow> 'w \<Rightarrow> (candidate list res \<times> string list) \<times> 'w" where
  "collect_source F G srcDir declared s w =
     (if \<not> usable_source_name (ks_name s)
      then ((Inl (errorf ''source %q is not a usable directory name; it must be a single path segment''
              [Lit (ks_name s)]), []), w)
      else
        (case source_root F G srcDir s w of
           ((Inl e, tmps), w1) \<Rightarrow> ((Inl e, tmps), w1)
         | ((Inr root, tmps), w1) \<Rightarrow>
             (case select_subpath F s root w1 of
                (Inl e, w2) \<Rightarrow> ((Inl e, tmps), w2)
              | (Inr dir, w2) \<Rightarrow>
                  (case discover F dir (ks_name s) w2 of
                     (Inl e, w3) \<Rightarrow> ((Inl e, tmps), w3)
                   | (Inr found, w3) \<Rightarrow> ((settle_found declared s found, tmps), w3)))))"

fun collect_sources ::
  "'w fs \<Rightarrow> 'w git_lib \<Rightarrow> string \<Rightarrow> bool \<Rightarrow> skill_source list \<Rightarrow> 'w \<Rightarrow> (candidate list res \<times> string list) \<times> 'w" where
  "collect_sources F G srcDir declared [] w = ((Inr [], []), w)"
| "collect_sources F G srcDir declared (s # ss) w =
     (case collect_source F G srcDir declared s w of
        ((Inl e, tmps), w1) \<Rightarrow> ((Inl e, tmps), w1)
      | ((Inr found, tmps), w1) \<Rightarrow>
          (case collect_sources F G srcDir declared ss w1 of
             ((Inl e, later), w2) \<Rightarrow> ((Inl e, tmps @ later), w2)
           | ((Inr rest, later), w2) \<Rightarrow> ((Inr (found @ rest), tmps @ later), w2)))"

text \<open>The candidates of every source and the temporary directories to remove.\<close>

definition collect ::
  "'w fs \<Rightarrow> 'w git_lib \<Rightarrow> load_options \<Rightarrow> 'w \<Rightarrow> (candidate list res \<times> string list) \<times> 'w" where
  "collect F G opts w =
     (if lo_sources opts \<noteq> [] then collect_sources F G (lo_src opts) True (lo_sources opts) w
      else
        (case scanSrcDir F (lo_src opts) w of
           (Inl e, w1) \<Rightarrow> ((Inl e, []), w1)
         | (Inr scanned, w1) \<Rightarrow> collect_sources F G (lo_src opts) False scanned w1))"

section \<open>Assembly\<close>

definition assemble_skill ::
  "'w fs \<Rightarrow> string \<Rightarrow> (string \<times> candidate) list \<Rightarrow> loaded_skill \<Rightarrow> 'w command" where
  "assemble_skill F destDir byName l w =
     (let src = (case map_of byName (ld_name l) of None \<Rightarrow> [] | Some c \<Rightarrow> cn_dir c);
          dst = path_join destDir (ld_name l)
      in case fs_remove_all F dst w of
           (Some e, w1) \<Rightarrow> (Some (wrapf ''clearing %s before assembling %q: %w'' [Lit dst, Lit (ld_name l)] e), w1)
         | (None, w1) \<Rightarrow>
             (case copyTree F src dst w1 of
                (Some e, w2) \<Rightarrow> (Some (wrapf ''assembling skill %q from %s: %w'' [Lit (ld_name l), Lit src] e), w2)
              | (None, w2) \<Rightarrow> (None, w2)))"

definition rules_of :: "loaded_skill list \<Rightarrow> string list" where
  "rules_of ls = map ld_name (filter (\<lambda>l. ld_type l = TypeRule) ls)"

text \<open>What follows a check that passed: the old manifest goes first, the new one is written last.\<close>

definition clear_manifest :: "'w fs \<Rightarrow> string \<Rightarrow> 'w command" where
  "clear_manifest F destDir w =
     (case fs_remove F (path_join destDir ManifestFile) w of
        (None, w1) \<Rightarrow> (None, w1)
      | (Some e, w1) \<Rightarrow>
          (if kind_of e = KNotFound then None
           else Some (wrapf ''clearing the previous manifest: %w'' [] e), w1))"

definition assemble ::
  "'w fs \<Rightarrow> string \<Rightarrow> loaded_skill list \<Rightarrow> (string \<times> candidate) list \<Rightarrow> ('w, manifest) call" where
  "assemble F destDir ls byName w =
     (case clear_manifest F destDir w of
        (Some e, w1) \<Rightarrow> (Inl e, w1)
      | (None, w1) \<Rightarrow>
          (case prune F destDir (map ld_name ls) w1 of
             (Some e, w2) \<Rightarrow> (Inl e, w2)
           | (None, w2) \<Rightarrow>
               (case run_each (assemble_skill F destDir byName) ls w2 of
                  (Some e, w3) \<Rightarrow> (Inl e, w3)
                | (None, w3) \<Rightarrow> writeManifest F destDir \<lparr>mf_skills = ls, mf_rules = rules_of ls\<rparr> w3)))"

definition load_candidates ::
  "'w fs \<Rightarrow> yaml_decoder \<Rightarrow> string \<Rightarrow> candidate list \<Rightarrow> ('w, manifest) call" where
  "load_candidates F Y destDir cs w =
     (if cs = [] then
        (case prune F destDir [] w of
           (Some e, w1) \<Rightarrow> (Inl e, w1)
         | (None, w1) \<Rightarrow> writeManifest F destDir \<lparr>mf_skills = [], mf_rules = []\<rparr> w1)
      else
        (case check F Y cs w of
           ((ls, byName, Some e), w1) \<Rightarrow> (Inl e, w1)
         | ((ls, byName, None), w1) \<Rightarrow> assemble F destDir ls byName w1))"

text \<open>The deferred removal of the temporary directories, whatever each one answers.\<close>

fun remove_temps :: "'w fs \<Rightarrow> string list \<Rightarrow> 'w \<Rightarrow> 'w" where
  "remove_temps F [] w = w"
| "remove_temps F (d # ds) w = remove_temps F ds (snd (fs_remove_all F d w))"

definition Load :: "'w fs \<Rightarrow> 'w git_lib \<Rightarrow> yaml_decoder \<Rightarrow> load_options \<Rightarrow> ('w, manifest) call" where
  "Load F G Y opts w =
     (case collect F G opts w of
        ((r, tmps), w1) \<Rightarrow>
          (case (case r of
                   Inl e \<Rightarrow> (Inl e, w1)
                 | Inr cs \<Rightarrow> load_candidates F Y (lo_dest opts) cs w1) of
             (result, w2) \<Rightarrow> (result, remove_temps F tmps w2)))"

text \<open>\<open>Validate\<close> reports what is usable beside the error, so both are returned.\<close>

definition ValidateDir ::
  "'w fs \<Rightarrow> yaml_decoder \<Rightarrow> string \<Rightarrow> 'w \<Rightarrow> (loaded_skill list \<times> err option) \<times> 'w" where
  "ValidateDir F Y dir w =
     (case discover F dir (path_base dir) w of
        (Inl e, w1) \<Rightarrow> (([], Some e), w1)
      | (Inr cs, w1) \<Rightarrow>
          (case check F Y cs w1 of ((ls, _, r), w2) \<Rightarrow> ((ls, r), w2)))"

end
