(* ===== verification/SkillWire.thy ===== *)
theory SkillWire
  imports SkillLoader
begin

text \<open>
  The two wire formats of the skills: the source list the controller declares
  (\<open>parseSources\<close> of \<open>cmd/skill-loader/main.go\<close>) and the manifest the loader leaves for the harness
  (\<open>api/skill/manifest.go\<close>).  Decoding into a struct is that of \<open>encoding/json\<close>: the members one after
  another, each into the field of its name, \<open>null\<close> leaving a field alone and unknown names ignored.
\<close>

section \<open>Decoding into structs\<close>

text \<open>A name as the decoder folds it: capitals, the long \<open>s\<close> and the Kelvin sign.\<close>

definition fold_chunk :: "nat \<times> string \<Rightarrow> string" where
  "fold_chunk c =
     (let r = fst c in
      if 65 \<le> r \<and> r \<le> 90 then [char_of (r + 32)]
      else if r = 383 then ''s''
      else if r = 8490 then ''k''
      else snd c)"

definition fold_name :: "string \<Rightarrow> string" where
  "fold_name s = concat (map fold_chunk (rune_chunks s))"

text \<open>The field a key means: the one of that very name, else the first that folds to the same.\<close>

definition struct_field :: "string list \<Rightarrow> string \<Rightarrow> string option" where
  "struct_field names k =
     (if k \<in> set names then Some k else find (\<lambda>n. fold_name n = fold_name k) names)"

fun opt_fold :: "('a \<Rightarrow> 's \<Rightarrow> 's option) \<Rightarrow> 'a list \<Rightarrow> 's \<Rightarrow> 's option" where
  "opt_fold f [] s = Some s"
| "opt_fold f (x # xs) s = (case f x s of None \<Rightarrow> None | Some s1 \<Rightarrow> opt_fold f xs s1)"

text \<open>Into a struct: a member that does not fit its field is an error, as is a value that is no object.\<close>

definition decode_struct ::
  "string list \<Rightarrow> (string \<Rightarrow> json \<Rightarrow> 's \<Rightarrow> 's option) \<Rightarrow> json \<Rightarrow> 's \<Rightarrow> 's option" where
  "decode_struct names set_field v s =
     (case v of
        JNull \<Rightarrow> Some s
      | JObj kvs \<Rightarrow>
          opt_fold (\<lambda>kv s1. case struct_field names (fst kv) of
                              None \<Rightarrow> Some s1
                            | Some n \<Rightarrow> set_field n (snd kv) s1) kvs s
      | _ \<Rightarrow> None)"

definition decode_string :: "json \<Rightarrow> string \<Rightarrow> string option" where
  "decode_string v old = (case v of JNull \<Rightarrow> Some old | JStr s \<Rightarrow> Some s | _ \<Rightarrow> None)"

text \<open>Into a slice of fresh elements.\<close>

definition decode_slice :: "(json \<Rightarrow> 'a option) \<Rightarrow> json \<Rightarrow> 'a list option" where
  "decode_slice f v = (case v of JNull \<Rightarrow> Some [] | JArr xs \<Rightarrow> opt_all f xs | _ \<Rightarrow> None)"

section \<open>The declared sources\<close>

definition set_git_field :: "string \<Rightarrow> json \<Rightarrow> git_source \<Rightarrow> git_source option" where
  "set_git_field n v g =
     (if n = ''url'' then map_option (\<lambda>x. g\<lparr>gs_url := x\<rparr>) (decode_string v (gs_url g))
      else map_option (\<lambda>x. g\<lparr>gs_ref := x\<rparr>) (decode_string v (gs_ref g)))"

definition zero_git :: git_source where
  "zero_git = \<lparr>gs_url = [], gs_ref = []\<rparr>"

text \<open>Into the pointer: \<open>null\<close> resets it, an object goes into the struct it points at, a new one if need be.\<close>

definition decode_git :: "json \<Rightarrow> git_source option \<Rightarrow> git_source option option" where
  "decode_git v old =
     (if v = JNull then Some None
      else map_option Some
        (decode_struct [''url'', ''ref''] set_git_field v (case old of None \<Rightarrow> zero_git | Some g \<Rightarrow> g)))"

definition set_source_field :: "string \<Rightarrow> json \<Rightarrow> skill_source \<Rightarrow> skill_source option" where
  "set_source_field n v s =
     (if n = ''name'' then map_option (\<lambda>x. s\<lparr>ks_name := x\<rparr>) (decode_string v (ks_name s))
      else if n = ''subPath'' then map_option (\<lambda>x. s\<lparr>ks_subpath := x\<rparr>) (decode_string v (ks_subpath s))
      else if n = ''type'' then map_option (\<lambda>x. s\<lparr>ks_type := x\<rparr>) (decode_string v (ks_type s))
      else map_option (\<lambda>x. s\<lparr>ks_git := x\<rparr>) (decode_git v (ks_git s)))"

definition zero_source :: skill_source where
  "zero_source = \<lparr>ks_name = [], ks_subpath = [], ks_type = [], ks_git = None\<rparr>"

definition decode_source :: "json \<Rightarrow> skill_source option" where
  "decode_source v = decode_struct [''name'', ''subPath'', ''type'', ''git''] set_source_field v zero_source"

text \<open>What every entry must have; the index names it in the message.\<close>

fun check_entries :: "nat \<Rightarrow> skill_source list \<Rightarrow> err option" where
  "check_entries i [] = None"
| "check_entries i (s # ss) =
     (if ks_name s = [] then Some (errorf ''entry %d: name is required'' [Lit (nat_text i)])
      else if (case ks_git s of None \<Rightarrow> False | Some g \<Rightarrow> gs_url g = [])
      then Some (errorf ''entry %d (%s): git.url is required'' [Lit (nat_text i), Lit (ks_name s)])
      else check_entries (i + 1) ss)"

definition parseSources :: "string \<Rightarrow> skill_source list res" where
  "parseSources raw =
     (if raw = [] then Inr []
      else
        (case Option.bind (json_unmarshal raw) (decode_slice decode_source) of
           None \<Rightarrow> Inl (wrapf ''expected a JSON array of {name,subPath,type,git:{url,ref}}: %w'' [] decode_error)
         | Some ss \<Rightarrow> (case check_entries 0 ss of Some e \<Rightarrow> Inl e | None \<Rightarrow> Inr ss)))"

text \<open>The \<open>load\<close> command: flags and environment in, the result of the assembly out.\<close>

definition loadSkills ::
  "'w fs \<Rightarrow> 'w git_lib \<Rightarrow> yaml_decoder \<Rightarrow> string \<Rightarrow> string \<Rightarrow> (string \<Rightarrow> string) \<Rightarrow> 'w command" where
  "loadSkills F G Y srcDir destDir getenv w =
     (case parseSources (getenv skill_sources_env) of
        Inl e \<Rightarrow> (Some (wrapf ''%s: %w'' [Lit skill_sources_env] e), w)
      | Inr sources \<Rightarrow>
          (case Load F G Y \<lparr>lo_src = srcDir, lo_dest = destDir, lo_sources = sources\<rparr> w of
             (Inl e, w1) \<Rightarrow> (Some e, w1)
           | (Inr m, w1) \<Rightarrow> (None, w1)))"

section \<open>The manifest\<close>

definition set_loaded_field :: "string \<Rightarrow> json \<Rightarrow> loaded_skill \<Rightarrow> loaded_skill option" where
  "set_loaded_field n v l =
     (if n = ''name'' then map_option (\<lambda>x. l\<lparr>ld_name := x\<rparr>) (decode_string v (ld_name l))
      else if n = ''description''
      then map_option (\<lambda>x. l\<lparr>ld_description := x\<rparr>) (decode_string v (ld_description l))
      else if n = ''type'' then map_option (\<lambda>x. l\<lparr>ld_type := x\<rparr>) (decode_string v (ld_type l))
      else if n = ''source'' then map_option (\<lambda>x. l\<lparr>ld_source := x\<rparr>) (decode_string v (ld_source l))
      else map_option (\<lambda>x. l\<lparr>ld_path := x\<rparr>) (decode_string v (ld_path l)))"

definition zero_loaded :: loaded_skill where
  "zero_loaded = \<lparr>ld_name = [], ld_description = [], ld_type = [], ld_source = [], ld_path = []\<rparr>"

definition decode_loaded :: "json \<Rightarrow> loaded_skill option" where
  "decode_loaded v =
     decode_struct [''name'', ''description'', ''type'', ''source'', ''sourcePath''] set_loaded_field v zero_loaded"

definition set_manifest_field :: "string \<Rightarrow> json \<Rightarrow> manifest \<Rightarrow> manifest option" where
  "set_manifest_field n v m =
     (if n = ''skills'' then map_option (\<lambda>x. m\<lparr>mf_skills := x\<rparr>) (decode_slice decode_loaded v)
      else map_option (\<lambda>x. m\<lparr>mf_rules := x\<rparr>) (decode_slice (\<lambda>u. decode_string u []) v))"

definition empty_manifest :: manifest where
  "empty_manifest = \<lparr>mf_skills = [], mf_rules = []\<rparr>"

definition decode_manifest :: "json \<Rightarrow> manifest option" where
  "decode_manifest v = decode_struct [''skills'', ''rules''] set_manifest_field v empty_manifest"

definition ReadManifest :: "'w fs \<Rightarrow> string \<Rightarrow> ('w, manifest) call" where
  "ReadManifest F skillsDir w =
     (case fs_read_file F (path_join skillsDir ManifestFile) w of
        (Inl e, w1) \<Rightarrow>
          (if kind_of e = KNotFound then Inr empty_manifest
           else Inl (wrapf ''reading %s: %w'' [Lit ManifestFile] e), w1)
      | (Inr raw, w1) \<Rightarrow>
          (case Option.bind (json_unmarshal raw) decode_manifest of
             None \<Rightarrow> Inl (wrapf ''parsing %s: %w'' [Lit ManifestFile] decode_error)
           | Some m \<Rightarrow> Inr m, w1))"

record rule =
  rl_name :: string
  rl_body :: string

fun rule_contents :: "'w fs \<Rightarrow> string \<Rightarrow> string list \<Rightarrow> ('w, rule list) call" where
  "rule_contents F skillsDir [] w = (Inr [], w)"
| "rule_contents F skillsDir (n # ns) w =
     (case fs_read_file F (path_join (path_join skillsDir n) SkillFile) w of
        (Inl e, w1) \<Rightarrow> (Inl (wrapf ''reading rule %q: %w'' [Lit n] e), w1)
      | (Inr body, w1) \<Rightarrow>
          (case rule_contents F skillsDir ns w1 of
             (Inl e, w2) \<Rightarrow> (Inl e, w2)
           | (Inr rs, w2) \<Rightarrow> (Inr (\<lparr>rl_name = n, rl_body = Body body\<rparr> # rs), w2)))"

definition RuleContent :: "'w fs \<Rightarrow> string \<Rightarrow> manifest \<Rightarrow> ('w, rule list) call" where
  "RuleContent F skillsDir m w = rule_contents F skillsDir (mf_rules m) w"

end
