(* ===== verification/JsonRoundtrip.thy ===== *)
theory JsonRoundtrip
  imports Json Text
begin

text \<open>
  What is encoded is read back: strings of well-formed UTF-8, and arrays and objects of values that are
  themselves read back, with any white space between the tokens.
\<close>

section \<open>Strings\<close>

definition well_formed :: "string \<Rightarrow> bool" where
  "well_formed s \<longleftrightarrow> list_all (\<lambda>c. \<not> (fst c = rune_error \<and> length (snd c) = 1)) (rune_chunks s)"

lemma ascii_well_formed: "ascii s \<Longrightarrow> well_formed s"
  by (auto simp: well_formed_def rune_chunks_ascii list_all_iff ascii_def rune_error_def)

lemma char_of_byte: "byte c = n \<Longrightarrow> c = char_of n"
  by (auto simp: byte_def)

lemma decode_stable:
  assumes "decode_rune (c # cs) = (r, w)" and "\<not> (r = rune_error \<and> w = 1)"
  shows "decode_rune (take w (c # cs) @ rest) = (r, w)"
  using assms by (auto simp: decode_rune.simps Let_def split: if_splits list.splits)

lemma decode_ascii:
  assumes "decode_rune (c # cs) = (r, w)" and "r < 128"
  shows "w = 1" and "byte c = r"
  using assms by (auto simp: decode_rune.simps Let_def rune_error_def second_ok_def cont_byte_def
      split: if_splits list.splits)

lemma decode_high:
  assumes "decode_rune (c # cs) = (r, w)" and "128 \<le> r"
  shows "128 \<le> byte c"
  using assms by (auto simp: decode_rune.simps Let_def split: if_splits)

lemma decode_three:
  assumes "decode_rune (c # cs) = (r, w)" and "2048 \<le> r" and "r < 65533"
  obtains b1 b2 more where "cs = b1 # b2 # more" and "w = 3" and "224 \<le> byte c" and "byte c < 240"
    and "128 \<le> byte b1" and "byte b1 < 192" and "128 \<le> byte b2" and "byte b2 < 192"
    and "r = (byte c - 224) * 4096 + (byte b1 - 128) * 64 + (byte b2 - 128)"
proof -
  let ?a = "byte c"
  have "\<not> ?a < 128" using assms by (auto simp: decode_rune.simps Let_def)
  moreover have "\<not> (?a < 194 \<or> 244 < ?a)" using assms calculation by (auto simp: decode_rune.simps Let_def rune_error_def)
  moreover have "\<not> ?a < 224"
  proof
    assume a: "?a < 224"
    obtain b1 more where cs: "cs = b1 # more" and b1: "second_ok ?a (byte b1)"
      and r: "r = (?a - 192) * 64 + (byte b1 - 128)"
      using assms a calculation
      by (auto simp: decode_rune.simps Let_def rune_error_def split: list.splits if_splits)
    have "byte b1 < 192" using b1 by (simp add: second_ok_def split: if_splits)
    with r a have "r < 2048" by linarith
    with assms(2) show False by simp
  qed
  moreover have "?a < 240"
  proof (rule ccontr)
    assume a: "\<not> ?a < 240"
    obtain b1 b2 b3 more where b1: "second_ok ?a (byte b1)"
      and r: "r = (?a - 240) * 262144 + (byte b1 - 128) * 4096 + (byte b2 - 128) * 64 + (byte b3 - 128)"
      using assms a calculation
      by (auto simp: decode_rune.simps Let_def rune_error_def split: list.splits if_splits)
    have "?a = 240 \<longrightarrow> 144 \<le> byte b1" using b1 by (simp add: second_ok_def)
    with r a have "65536 \<le> r" by (cases "?a = 240") auto
    with assms(3) show False by simp
  qed
  ultimately obtain b1 b2 more where "cs = b1 # b2 # more" and b1: "second_ok ?a (byte b1)" and "cont_byte b2"
      and "w = 3" and "r = (?a - 224) * 4096 + (byte b1 - 128) * 64 + (byte b2 - 128)"
    using assms by (auto simp: decode_rune.simps Let_def rune_error_def split: list.splits if_splits)
  moreover have "128 \<le> byte b1 \<and> byte b1 < 192" using b1 by (simp add: second_ok_def split: if_splits)
  ultimately show ?thesis using that \<open>\<not> ?a < 224\<close> \<open>?a < 240\<close> by (auto simp: cont_byte_def)
qed

text \<open>The two separators the encoder escapes have one encoding each.\<close>

lemma decode_separator:
  assumes "decode_rune (c # cs) = (8232 + k, w)" and "k < 2"
  shows "take w (c # cs) = map char_of [226, 128, 168 + k]"
proof -
  obtain b1 b2 more where cs: "cs = b1 # b2 # more" and w: "w = 3"
    and a: "224 \<le> byte c" and r: "128 \<le> byte b1" "byte b1 < 192" "128 \<le> byte b2" "byte b2 < 192"
    and v: "8232 + k = (byte c - 224) * 4096 + (byte b1 - 128) * 64 + (byte b2 - 128)"
    by (rule decode_three [OF assms(1)]) (use assms(2) in auto)
  obtain x where x: "byte c = 224 + x" using a le_Suc_ex by blast
  obtain y where y: "byte b1 = 128 + y" using r(1) le_Suc_ex by blast
  obtain z where z: "byte b2 = 128 + z" using r(3) le_Suc_ex by blast
  have "x * 4096 + y * 64 + z = 8232 + k" "y < 64" "z < 64" using v r x y z by auto
  moreover from this assms(2) have x2: "x = 2" by linarith
  ultimately have eq: "y * 64 + z = 40 + k" by simp
  then have "y = 0" using assms(2) by linarith
  with eq have "y = 0" "z = 40 + k" by simp_all
  then have c: "c = char_of (226 :: nat)" "b1 = char_of (128 :: nat)" "b2 = char_of (168 + k)"
    using x x2 y z by (auto intro!: char_of_byte)
  have "take w (c # cs) = [c, b1, b2]" unfolding cs w by simp
  then show ?thesis unfolding c by simp
qed

lemma hex_digits:
  "n < 16 \<Longrightarrow> is_hex_digit (hex_digit n) \<and> hex_val (hex_digit n) = n"
proof -
  have "list_all (\<lambda>n. is_hex_digit (hex_digit n) \<and> hex_val (hex_digit n) = n) [0..<16]" by code_simp
  then show "n < 16 \<Longrightarrow> ?thesis" by (auto simp: list_all_iff)
qed

lemma hex4_digits:
  assumes "a < 16" and "b < 16" and "c < 16" and "d < 16"
  shows "hex4 (map hex_digit [a, b, c, d] @ rest) = Some (16 * (16 * (16 * a + b) + c) + d, rest)"
  using assms [THEN hex_digits] by (simp add: hex4_def)

lemma hex4_byte:
  assumes "n < 256"
  shows "hex4 (''00'' @ [hex_digit (n div 16), hex_digit (n mod 16)] @ rest) = Some (n, rest)"
proof -
  have "''00'' = map hex_digit [0, 0]" by code_simp
  then show ?thesis
    using hex4_digits [of 0 0 "n div 16" "n mod 16" rest] assms by simp
qed

lemma encode_ascii: "byte c < 128 \<Longrightarrow> encode_rune (byte c) = [c]"
  by (simp add: encode_rune_def byte_def)

lemma apfst_single: "apfst ((@) [c]) = apfst ((#) c)"
  by (simp add: fun_eq_iff apfst_def)

lemma unquote_ascii:
  assumes "byte c < 128"
  shows "json_unquote (Suc n) (json_escape_byte c @ rest) = map_option (apfst ((#) c)) (json_unquote n rest)"
proof -
  have d: "decode_rune (c # rest) = (byte c, 1)" using assms by (simp add: decode_rune.simps)
  have u: "json_unquote (Suc n) (CHR 0x5C # ''u00'' @ [hex_digit (byte c div 16), hex_digit (byte c mod 16)] @ rest) =
      map_option (apfst ((@) [c])) (json_unquote n rest)"
    using hex4_byte [of "byte c" rest] assms encode_ascii [OF assms] by simp
  then show ?thesis
    using u d assms by (auto simp: json_escape_byte_def rune_error_def apfst_single)
qed

lemma unquote_u:
  assumes "hex4 es = Some (r, rest)" and "\<not> (55296 \<le> r \<and> r < 56320)"
  shows "json_unquote (Suc n) (CHR 0x5C # CHR ''u'' # es) =
    map_option (apfst ((@) (encode_rune r))) (json_unquote n rest)"
  using assms by auto

lemma unquote_rune:
  assumes "decode_rune (c # cs) = (r, w)" and "\<not> (r = rune_error \<and> w = 1)"
  shows "json_unquote (Suc n) (json_escape_rune (r, take w (c # cs)) @ rest) =
    map_option (apfst ((@) (take w (c # cs)))) (json_unquote n rest)"
proof (cases "r < 128")
  case True
  note a = decode_ascii [OF assms(1) True]
  then show ?thesis
    using True a unquote_ascii [of c n rest] by (simp add: json_escape_rune_def apfst_single)
next
  case False
  then have hi: "128 \<le> byte c" using decode_high [OF assms(1)] by simp
  have len: "length (take w (c # cs)) = w" using decode_width_le [of "c # cs"] assms(1) by simp
  show ?thesis
  proof (cases "r = 8232 \<or> r = 8233")
    case True
    then obtain k where k: "r = 8232 + k" "k < 2" using that [of 0] that [of 1] by auto
    have t: "take w (c # cs) = map char_of [226, 128, 168 + k]"
      by (rule decode_separator [OF assms(1) [unfolded k(1)] k(2)])
    have "''2028'' = map hex_digit [2, 0, 2, 8]" "''2029'' = map hex_digit [2, 0, 2, 9]" by code_simp+
    then have h: "hex4 (''2028'' @ rest) = Some (8232, rest)" "hex4 (''2029'' @ rest) = Some (8233, rest)"
      using hex4_digits [of 2 0 2 8 rest] hex4_digits [of 2 0 2 9 rest] by simp_all
    have e: "encode_rune 8232 = map char_of [226, 128, 168 :: nat]" "encode_rune 8233 = map char_of [226, 128, 169 :: nat]"
      by (simp_all add: encode_rune_def)
    have esc: "json_escape_rune (8232, b) = CHR 0x5C # CHR ''u'' # ''2028''"
      "json_escape_rune (8233, b) = CHR 0x5C # CHR ''u'' # ''2029''" for b
      by (simp_all add: json_escape_rune_def rune_error_def)
    have "k = 0 \<or> k = 1" using k(2) by auto
    then show ?thesis
    proof
      assume "k = 0"
      with k(1) unquote_u [OF h(1), of n] show ?thesis unfolding t by (simp add: esc e del: json_unquote.simps)
    next
      assume "k = 1"
      with k(1) unquote_u [OF h(2), of n] show ?thesis unfolding t by (simp add: esc e del: json_unquote.simps)
    qed
  next
    case sep: False
    have esc: "json_escape_rune (r, take w (c # cs)) = take w (c # cs)"
      using False sep assms(2) len by (auto simp: json_escape_rune_def)
    have pos: "1 \<le> w" using decode_width_pos [of c cs] assms(1) by simp
    then obtain v where w: "w = Suc v" by (cases w) auto
    have d: "decode_rune (c # take v cs @ rest) = (r, w)"
      using decode_stable [OF assms, of rest] w by simp
    have ne: "c \<noteq> CHR 0x22" "c \<noteq> CHR 0x5C" using hi by (auto simp: byte_def)
    have "length (take v cs) = v" using len w by simp
    then show ?thesis
      unfolding esc using w d ne hi assms(2) by (auto simp: rune_error_def)
  qed
qed

lemma unquote_body:
  "well_formed s \<Longrightarrow> length (rune_chunks s) < n \<Longrightarrow>
     json_unquote n (concat (map json_escape_rune (rune_chunks s)) @ CHR 0x22 # rest) = Some (s, rest)"
proof (induction s arbitrary: n rule: rune_chunks.induct)
  case 1
  then show ?case by (cases n) auto
next
  case (2 c cs)
  obtain r w where d: "decode_rune (c # cs) = (r, w)" by fastforce
  from "2.prems"(2) obtain m where n: "n = Suc m" by (cases n) auto
  have len: "length (take w (c # cs)) = w" using decode_width_le [of "c # cs"] d by simp
  have wf: "\<not> (r = rune_error \<and> w = 1)" "well_formed (drop w (c # cs))"
    using "2.prems"(1) d len by (auto simp: well_formed_def rune_chunks.simps(2))
  have "length (rune_chunks (drop w (c # cs))) < m"
    using "2.prems"(2) d n by (simp add: rune_chunks.simps(2))
  from "2.IH" [OF d [symmetric] refl wf(2) this] show ?case
    using unquote_rune [OF d wf(1), of m] by (simp add: rune_chunks.simps(2) d n)
qed

lemma length_concat_le: "(\<And>x. x \<in> set xs \<Longrightarrow> f x \<noteq> []) \<Longrightarrow> length xs \<le> length (concat (map f xs))"
proof (induction xs)
  case (Cons x xs)
  then have "length xs \<le> length (concat (map f xs))" and "f x \<noteq> []" by simp_all
  then show ?case by (cases "f x") simp_all
qed simp

lemma chunks_shorter: "length (rune_chunks s) \<le> length (concat (map json_escape_rune (rune_chunks s)))"
proof (rule length_concat_le)
  fix rb assume "rb \<in> set (rune_chunks s)"
  then have "snd rb \<noteq> []" using rune_chunk_nonempty [of "fst rb" "snd rb" s] by simp
  moreover have "json_escape_byte c \<noteq> []" for c by (simp add: json_escape_byte_def)
  ultimately show "json_escape_rune rb \<noteq> []"
    by (cases rb; cases "snd rb") (auto simp: json_escape_rune_def)
qed

lemma unquote_string:
  "well_formed s \<Longrightarrow> length (json_string s) \<le> Suc n \<Longrightarrow>
     json_unquote n (tl (json_string s) @ rest) = Some (s, rest)"
  using unquote_body [of s n rest] chunks_shorter [of s] by (simp add: json_string_def)

section \<open>Tokens and white space\<close>

lemma skip_ws_append: "list_all json_ws ws \<Longrightarrow> skip_ws (ws @ t) = skip_ws t"
  unfolding skip_ws_def by (induction ws) auto

lemma skip_ws_to: "list_all json_ws ws \<Longrightarrow> \<not> json_ws c \<Longrightarrow> skip_ws (ws @ c # s) = c # s"
  unfolding skip_ws_def by (induction ws) auto

lemma skip_ws_one: "\<not> json_ws c \<Longrightarrow> skip_ws (c # s) = c # s"
  by (simp add: skip_ws_def)

lemma tokens_no_ws [simp]:
  "\<not> json_ws CHR 0x22" "\<not> json_ws CHR ''{''" "\<not> json_ws CHR ''}''" "\<not> json_ws CHR ''[''"
  "\<not> json_ws CHR '']''" "\<not> json_ws CHR '',''" "\<not> json_ws CHR '':''"
  by (simp_all add: json_ws_def)

text \<open>What may stand after a value: nothing, white space, a comma or a closing bracket.\<close>

definition value_ends :: "string \<Rightarrow> bool" where
  "value_ends s \<longleftrightarrow> s = [] \<or> json_ws (hd s) \<or> hd s \<in> {CHR '','', CHR ''}'', CHR '']''}"

lemma value_ends_simps [simp]:
  "value_ends []" "value_ends (CHR '','' # s)" "value_ends (CHR ''}'' # s)" "value_ends (CHR '']'' # s)"
  by (simp_all add: value_ends_def)

lemma value_ends_ws: "list_all json_ws ws \<Longrightarrow> value_ends s \<Longrightarrow> value_ends (ws @ s)"
  by (cases ws) (auto simp: value_ends_def)

text \<open>
  A text that reads as a value whatever may follow, with the fuel and the room for nesting it needs.
\<close>

definition reads_as :: "nat \<Rightarrow> nat \<Rightarrow> string \<Rightarrow> json \<Rightarrow> bool" where
  "reads_as k h t v \<longleftrightarrow>
     (\<forall>n d rest. k \<le> n \<longrightarrow> d + h \<le> max_nesting \<longrightarrow> value_ends rest \<longrightarrow>
        json_value n d (t @ rest) = Some (v, rest))"

lemma reads_asD:
  "reads_as k h t v \<Longrightarrow> k \<le> n \<Longrightarrow> d + h \<le> max_nesting \<Longrightarrow> value_ends rest
    \<Longrightarrow> json_value n d (t @ rest) = Some (v, rest)"
  unfolding reads_as_def by blast

lemma reads_mono: "reads_as k h t v \<Longrightarrow> k \<le> k' \<Longrightarrow> h \<le> h' \<Longrightarrow> reads_as k' h' t v"
  unfolding reads_as_def by auto

lemma json_string_quote: "json_string s = CHR 0x22 # tl (json_string s)"
  by (simp add: json_string_def)

lemma reads_string:
  assumes "well_formed s"
  shows "reads_as 1 0 (json_string s) (JStr s)"
  unfolding reads_as_def
proof (intro allI impI)
  fix n d rest assume "1 \<le> (n :: nat)"
  then obtain m where n: "n = Suc m" by (cases n) auto
  obtain q where q: "q = tl (json_string s) @ rest" by simp
  have t: "json_string s @ rest = CHR 0x22 # q" unfolding q by (subst json_string_quote) simp
  have "length (json_string s) \<le> Suc (Suc (length q))"
    using arg_cong [OF t, of length] by simp
  then have "json_unquote (Suc (length q)) q = Some (s, rest)"
    unfolding q by (intro unquote_string assms) simp
  then show "json_value n d (json_string s @ rest) = Some (JStr s, rest)"
    unfolding n t json_value.simps
    by (simp add: Let_def skip_ws_one has_prefix_def del: json_unquote.simps)
qed

lemma value_ws: "list_all json_ws ws \<Longrightarrow> json_value n d (ws @ t) = json_value n d t"
  by (cases n) (simp_all add: json_value.simps skip_ws_append)

lemma reads_ws: "reads_as k h t v \<Longrightarrow> list_all json_ws ws \<Longrightarrow> reads_as k h (ws @ t) v"
  by (simp add: reads_as_def value_ws)

section \<open>Arrays and objects\<close>

text \<open>The elements of an array between its brackets, with white space where the encoder puts it.\<close>

lemma elems_read:
  assumes "xs \<noteq> []" and "list_all (\<lambda>(t, v). reads_as k h t v) xs" and "k + length xs \<le> n"
    and "d + h \<le> max_nesting" and "list_all json_ws w" and "list_all json_ws w2"
  shows "json_elems n d (join ('','' @ w) (map fst xs) @ w2 @ CHR '']'' # rest) = Some (map snd xs, rest)"
  using assms(1-3)
proof (induction xs arbitrary: n)
  case (Cons x xs)
  obtain t v where x: "x = (t, v)" by fastforce
  obtain m where n: "n = Suc m" using Cons.prems(3) by (cases n) auto
  have rd: "json_value m d (t @ s) = Some (v, s)" if "value_ends s" for s
    using that Cons.prems n assms(4) x by (auto intro: reads_asD)
  show ?case
  proof (cases "xs = []")
    case True
    then show ?thesis
      using rd skip_ws_to [OF assms(6), of "CHR '']''" rest] x n value_ends_ws [OF assms(6)]
      by (simp add: json_elems.simps has_prefix_def)
  next
    case False
    have "json_elems m d (join ('','' @ w) (map fst xs) @ w2 @ CHR '']'' # rest) = Some (map snd xs, rest)"
      using Cons.prems False n by (intro Cons.IH) auto
    moreover have "json_elems m d (w @ s) = json_elems m d s" for s
      by (cases m) (simp_all add: json_elems.simps value_ws [OF assms(5)])
    moreover have "join ('','' @ w) (map fst (x # xs)) = t @ CHR '','' # w @ join ('','' @ w) (map fst xs)"
      using False x by (cases xs) auto
    ultimately show ?thesis
      using rd x n by (simp add: json_elems.simps skip_ws_one has_prefix_def)
  qed
qed simp

lemma members_read:
  assumes "xs \<noteq> []" and "list_all (\<lambda>(key, t, v). well_formed key \<and> reads_as k h t v) xs"
    and "k + length xs \<le> n" and "d + h \<le> max_nesting"
    and "list_all json_ws w" and "list_all json_ws w2" and "list_all json_ws c"
  shows "json_members n d
      (join ('','' @ w) (map (\<lambda>(key, t, v). json_string key @ '':'' @ c @ t) xs) @ w2 @ CHR ''}'' # rest) =
    Some (map (\<lambda>(key, t, v). (key, v)) xs, rest)"
  using assms(1-3)
proof (induction xs arbitrary: n)
  case (Cons x xs)
  obtain key t v where x: "x = (key, t, v)" by (cases x) auto
  obtain m where n: "n = Suc m" using Cons.prems(3) by (cases n) auto
  have wf: "well_formed key" and "reads_as k h t v" using Cons.prems(2) x by auto
  then have rd: "json_value m d (c @ t @ s) = Some (v, s)" if "value_ends s" for s
    using that reads_asD [OF reads_ws [OF _ assms(7)], of k h t v m d s] Cons.prems(3) n assms(4) by simp
  let ?f = "\<lambda>(key, t, v). json_string key @ '':'' @ c @ t"
  have head: "json_members (Suc m) d (json_string key @ CHR '':'' # c @ t @ s) =
      (let t2 = skip_ws s in
       if has_prefix t2 ''}'' then Some ([(key, v)], tl t2)
       else if has_prefix t2 '','' then
         (case json_members m d (tl t2) of None \<Rightarrow> None | Some (kvs, s3) \<Rightarrow> Some ((key, v) # kvs, s3))
       else None)" if "value_ends s" for s
  proof -
    obtain q where q: "q = tl (json_string key) @ CHR '':'' # c @ t @ s" by simp
    have a: "json_string key @ CHR '':'' # c @ t @ s = CHR 0x22 # q"
      unfolding q by (subst json_string_quote) simp
    have "length (json_string key) \<le> Suc (Suc (length q))" using arg_cong [OF a, of length] by simp
    then have "json_unquote (Suc (length q)) q = Some (key, CHR '':'' # c @ t @ s)"
      unfolding q by (intro unquote_string wf) simp
    then show ?thesis
      unfolding a json_members.simps
      by (simp add: Let_def skip_ws_one has_prefix_def rd that del: json_unquote.simps)
  qed
  show ?case
  proof (cases "xs = []")
    case True
    then show ?thesis
      using head skip_ws_to [OF assms(6), of "CHR ''}''" rest] x n value_ends_ws [OF assms(6)]
      by (simp add: has_prefix_def)
  next
    case False
    have "json_members m d (join ('','' @ w) (map ?f xs) @ w2 @ CHR ''}'' # rest) =
        Some (map (\<lambda>(key, t, v). (key, v)) xs, rest)"
      using Cons.prems False n by (intro Cons.IH) auto
    moreover have "json_members m d (w @ s) = json_members m d s" for s
      by (cases m) (simp_all add: json_members.simps skip_ws_append [OF assms(5)])
    moreover have "join ('','' @ w) (map ?f (x # xs)) =
        json_string key @ CHR '':'' # c @ t @ CHR '','' # w @ join ('','' @ w) (map ?f xs)"
      using False x by (cases xs) auto
    ultimately show ?thesis
      using head n x by (simp add: skip_ws_one has_prefix_def)
  qed
qed simp

text \<open>Whole arrays and objects.\<close>

lemma reads_array:
  assumes "xs \<noteq> []" and "list_all (\<lambda>(t, v). reads_as k h t v) xs"
    and "list_all json_ws w1" and "list_all json_ws w" and "list_all json_ws w2"
    and "\<And>t v. (t, v) \<in> set xs \<Longrightarrow> t \<noteq> [] \<and> \<not> json_ws (hd t) \<and> hd t \<noteq> CHR '']''"
  shows "reads_as (Suc (k + length xs)) (Suc h)
    (''['' @ w1 @ join ('','' @ w) (map fst xs) @ w2 @ '']'') (JArr (map snd xs))"
  unfolding reads_as_def
proof (intro allI impI)
  fix n d rest assume n: "Suc (k + length xs) \<le> n" and d: "d + Suc h \<le> max_nesting"
  obtain m where m: "n = Suc m" using n by (cases n) auto
  let ?body = "join ('','' @ w) (map fst xs) @ w2 @ CHR '']'' # rest"
  have el: "json_elems m (d + 1) ?body = Some (map snd xs, rest)"
    by (rule elems_read [OF assms(1,2)]) (use n m d assms in auto)
  obtain t0 v0 ys where xs: "xs = (t0, v0) # ys" using assms(1) by (cases xs) auto
  obtain a t1 where t0: "t0 = a # t1" "\<not> json_ws a" "a \<noteq> CHR '']''"
    using assms(6) [of t0 v0] xs by (cases t0) auto
  obtain s where body: "?body = a # s"
    using xs t0 by (cases ys) auto
  have "json_elems m (d + 1) (w1 @ ?body) = json_elems m (d + 1) ?body"
    by (cases m) (simp_all add: json_elems.simps value_ws [OF assms(3)])
  from trans [OF this el] have "json_elems m (d + 1) (w1 @ a # s) = Some (map snd xs, rest)"
    unfolding body .
  moreover have "(''['' @ w1 @ join ('','' @ w) (map fst xs) @ w2 @ '']'') @ rest = CHR ''['' # w1 @ a # s"
    unfolding body [symmetric] by simp
  ultimately show "json_value n d ((''['' @ w1 @ join ('','' @ w) (map fst xs) @ w2 @ '']'') @ rest) =
      Some (JArr (map snd xs), rest)"
    using d t0 unfolding m json_value.simps
    by (simp add: Let_def skip_ws_one has_prefix_def skip_ws_append [OF assms(3)])
qed

lemma reads_object:
  assumes "xs \<noteq> []" and "list_all (\<lambda>(key, t, v). well_formed key \<and> reads_as k h t v) xs"
    and "list_all json_ws w1" and "list_all json_ws w" and "list_all json_ws w2" and "list_all json_ws c"
  shows "reads_as (Suc (k + length xs)) (Suc h)
    (''{'' @ w1 @ join ('','' @ w) (map (\<lambda>(key, t, v). json_string key @ '':'' @ c @ t) xs) @ w2 @ ''}'')
    (JObj (map (\<lambda>(key, t, v). (key, v)) xs))"
  unfolding reads_as_def
proof (intro allI impI)
  fix n d rest assume n: "Suc (k + length xs) \<le> n" and d: "d + Suc h \<le> max_nesting"
  obtain m where m: "n = Suc m" using n by (cases n) auto
  let ?items = "map (\<lambda>(key, t, v). json_string key @ '':'' @ c @ t) xs"
  let ?body = "join ('','' @ w) ?items @ w2 @ CHR ''}'' # rest"
  have el: "json_members m (d + 1) ?body = Some (map (\<lambda>(key, t, v). (key, v)) xs, rest)"
    by (rule members_read [OF assms(1,2)]) (use n m d assms in auto)
  obtain key t v ys where xs: "xs = (key, t, v) # ys" using assms(1) by (cases xs) auto
  obtain s where body: "?body = CHR 0x22 # s"
    using xs by (cases ys) (auto simp: json_string_def)
  have "json_members m (d + 1) (w1 @ ?body) = json_members m (d + 1) ?body"
    by (cases m) (simp_all add: json_members.simps skip_ws_append [OF assms(3)])
  from trans [OF this el]
  have "json_members m (d + 1) (w1 @ CHR 0x22 # s) = Some (map (\<lambda>(key, t, v). (key, v)) xs, rest)"
    unfolding body .
  moreover have "(''{'' @ w1 @ join ('','' @ w) ?items @ w2 @ ''}'') @ rest = CHR ''{'' # w1 @ CHR 0x22 # s"
    unfolding body [symmetric] by simp
  ultimately show "json_value n d ((''{'' @ w1 @ join ('','' @ w) ?items @ w2 @ ''}'') @ rest) =
      Some (JObj (map (\<lambda>(key, t, v). (key, v)) xs), rest)"
    using d unfolding m json_value.simps
    by (simp add: Let_def skip_ws_one has_prefix_def skip_ws_append [OF assms(3)])
qed

text \<open>A text that reads as a value within the fuel of the decoder is that value.\<close>

lemma unmarshal_reads:
  assumes "reads_as k h t v" and "k \<le> 2 * length t + 2" and "h \<le> max_nesting" and "list_all json_ws ws"
  shows "json_unmarshal (t @ ws) = Some v"
proof -
  have "json_value (2 * length (t @ ws) + 2) 0 (t @ ws) = Some (v, ws)"
    by (rule reads_asD [OF assms(1)]) (use assms value_ends_ws [OF assms(4), of "[]"] in auto)
  moreover have "skip_ws ws = []" using assms(4) unfolding skip_ws_def by (induction ws) auto
  ultimately show ?thesis by (simp add: json_unmarshal_def)
qed

end
