(* ===== verification/SkillCopyProperties.thy ===== *)
theory SkillCopyProperties
  imports SkillCopy
begin

text \<open>
  What the copy of a skill may touch: an invariant rule for \<open>copyTree\<close> over any property of the world, a
  ghost trace of the operations, and the bound on the depth of the recursion.
\<close>

section \<open>What is assumed of the file system\<close>

text \<open>\<open>os.ReadDir\<close> yields names of entries, never a path or one of the two dots.\<close>

definition names_ok :: "'w fs \<Rightarrow> bool" where
  "names_ok F \<longleftrightarrow>
     (\<forall>d w es w'. fs_read_dir F d w = (Inr es, w') \<longrightarrow> list_all (\<lambda>e. proper_comp (de_name e)) es)"

text \<open>\<open>filepath.EvalSymlinks\<close> of an absolute path is absolute, and it cleans its result.\<close>

definition links_ok :: "'w fs \<Rightarrow> bool" where
  "links_ok F \<longleftrightarrow> (\<forall>p w r w'. is_abs p \<longrightarrow> fs_eval_symlinks F p w = (Inr r, w') \<longrightarrow> clean_abs r)"

text \<open>A property of the world no read breaks.\<close>

definition reads_keep :: "'w fs \<Rightarrow> ('w \<Rightarrow> bool) \<Rightarrow> bool" where
  "reads_keep F P \<longleftrightarrow>
     (\<forall>p w. P w \<longrightarrow>
        P (snd (fs_stat F p w)) \<and> P (snd (fs_lstat F p w)) \<and> P (snd (fs_read_dir F p w)) \<and>
        P (snd (fs_read_file F p w)) \<and> P (snd (fs_eval_symlinks F p w)))"

lemma reads_keepD:
  assumes "reads_keep F P" and "P w"
  shows "fs_stat F p w = (x1, w') \<Longrightarrow> P w'" and "fs_lstat F p w = (x1, w') \<Longrightarrow> P w'"
    and "fs_read_dir F p w = (x2, w') \<Longrightarrow> P w'" and "fs_read_file F p w = (x3, w') \<Longrightarrow> P w'"
    and "fs_eval_symlinks F p w = (x4, w') \<Longrightarrow> P w'"
  using assms unfolding reads_keep_def by (metis snd_conv)+

text \<open>
  A path some levels below another, and a property of the world no directory made down there breaks, nor
  any copy to there of a file \<open>S\<close> allows.
\<close>

definition below :: "nat \<Rightarrow> string \<Rightarrow> string \<Rightarrow> bool" where
  "below k base p \<longleftrightarrow>
     clean_abs p \<and> isAncestorOrEqual base p \<and> length (comps p) = length (comps base) + k"

definition copies_keep :: "'w fs \<Rightarrow> ('w \<Rightarrow> bool) \<Rightarrow> (string \<Rightarrow> bool) \<Rightarrow> string \<Rightarrow> bool" where
  "copies_keep F P S dst \<longleftrightarrow>
     (\<forall>k p w. P w \<longrightarrow> k \<le> maxCopyDepth \<longrightarrow> below k dst p \<longrightarrow> P (snd (fs_mkdir_all F p w))) \<and>
     (\<forall>k s d perm w. P w \<longrightarrow> S s \<longrightarrow> k \<le> maxCopyDepth \<longrightarrow> below (Suc k) dst d \<longrightarrow>
        P (snd (fs_copy F s d perm w)))"

lemma copies_keepD:
  assumes "copies_keep F P S dst" and "P w" and "k \<le> maxCopyDepth"
  shows "below k dst p \<Longrightarrow> fs_mkdir_all F p w = (x, w') \<Longrightarrow> P w'"
    and "S s \<Longrightarrow> below (Suc k) dst d \<Longrightarrow> fs_copy F s d perm w = (x, w') \<Longrightarrow> P w'"
  using assms unfolding copies_keep_def by (metis snd_conv)+

section \<open>Paths below the destination\<close>

lemma clean_abs_abs: "clean_abs p \<Longrightarrow> is_abs p"
  by (simp add: clean_abs_def)

lemma ancestor_refl [simp]: "isAncestorOrEqual p p"
  by (simp add: isAncestorOrEqual_def)

lemma path_dir_join:
  assumes "clean_abs d" and "proper_comp n"
  shows "path_dir (path_join d n) = d"
proof -
  from assms(1) have d: "d = abs_of (comps d)" "list_all proper_comp (comps d)"
    by (auto elim: clean_absE)
  have n: "slash \<notin> set n" using assms(2) by (simp add: proper_comp_def)
  have "path_join d n = abs_of (comps d @ [n])"
    using path_join_comps [OF assms] by (metis clean_absE comps_abs_of)
  also have "\<dots> = (if comps d = [] then [slash] else d @ [slash]) @ n"
    using join_append [of "comps d" "[n]" "[slash]"] d(1) by (auto simp: abs_of_def)
  finally have "path_join d n = (if comps d = [] then [slash] else d @ [slash]) @ n" .
  moreover have "trim_right (\<lambda>c. c \<noteq> slash) ((if comps d = [] then [slash] else d @ [slash]) @ n) =
      (if comps d = [] then [slash] else d @ [slash])"
    using n dropWhile_append2 [of "rev n" "\<lambda>c. c \<noteq> slash"] by (fastforce simp: trim_right_def)
  moreover have "path_clean (if comps d = [] then [slash] else d @ [slash]) = d"
  proof (cases "comps d = []")
    case True
    with d(1) have "d = [slash]" by (simp add: abs_of_def)
    with True assms(1) show ?thesis by (simp add: clean_abs_def)
  next
    case False
    have "split_on slash (d @ [slash]) = split_on slash d @ [[]]"
      by (induction d) (auto split: list.split)
    moreover have abs: "is_abs (d @ [slash])" "is_abs d"
      using assms(1) by (auto simp: clean_abs_def is_abs_def has_prefix_iff)
    moreover have "clean_comps d = comps d" using clean_comps_abs_of [OF d(2)] d(1) by simp
    ultimately have "clean_comps (d @ [slash]) = comps d"
      by (simp add: clean_comps_def)
    with False d(1) abs(1) show ?thesis by (simp add: path_clean_abs)
  qed
  ultimately show ?thesis by (simp add: path_dir_def)
qed


lemma below_self: "clean_abs p \<Longrightarrow> below 0 p p"
  by (simp add: below_def)

lemma below_join:
  assumes "clean_abs base" and "below k base p" and "proper_comp n"
  shows "below (Suc k) base (path_join p n)"
  using assms path_join_comps [of p n] path_join_inside [of base p n] by (simp add: below_def)

section \<open>The invariant rule\<close>

lemma resolveWithin_keeps:
  assumes "reads_keep F P" and "P w" and "resolveWithin F root p e w = (r, w')"
  shows "P w'"
  using assms(3) unfolding resolveWithin_def
  by (auto split: if_splits prod.splits sum.splits dest: reads_keepD [OF assms(1,2)] reads_keepD [OF assms(1)])

lemma resolveWithin_inside:
  assumes "links_ok F" and "clean_abs root" and "clean_abs p" and "isAncestorOrEqual root p"
    and "resolveWithin F root p e w = (Inr (q, info), w')"
  shows "clean_abs q" and "isAncestorOrEqual root q"
proof -
  have "q = p \<or> (\<exists>w1. fs_eval_symlinks F p w = (Inr q, w1) \<and> \<not> leaves (path_rel root q))"
    using assms(5) unfolding resolveWithin_def by (auto split: if_splits prod.splits sum.splits)
  moreover have "clean_abs q" if "fs_eval_symlinks F p w = (Inr q, w1)" for w1
    using assms(1) that clean_abs_abs [OF assms(3)] unfolding links_ok_def by blast
  ultimately show "clean_abs q" and "isAncestorOrEqual root q"
    using assms(2-4) rel_inside by blast+
qed

lemma copyFile_keeps:
  assumes "copies_keep F P S base" and "S src" and "clean_abs base" and "below k base dst"
    and "k \<le> maxCopyDepth" and "proper_comp n" and "P w"
  shows "P (snd (copyFile F src (path_join dst n) perm w))"
proof -
  have dst: "clean_abs dst" using assms(4) by (simp add: below_def)
  obtain r w1 where m: "fs_mkdir_all F dst w = (r, w1)" by fastforce
  have w1: "P w1" using copies_keepD(1) [OF assms(1,7,5,4) m] .
  obtain r2 w2 where c: "fs_copy F src (path_join dst n) perm w1 = (r2, w2)" by fastforce
  have "P w2"
    using copies_keepD(2) [OF assms(1) w1 assms(5,2) below_join [OF assms(3,4,6)] c] .
  with w1 m c show ?thesis
    by (simp add: copyFile_def path_dir_join [OF dst assms(6)] split: option.split)
qed

text \<open>
  \<open>D\<close> is what is known of the directories the copy reads: it holds of an entry of one, and of what a link
  among them resolves to.
\<close>

lemma copyDir_keeps:
  assumes names: "names_ok F" and reads: "reads_keep F P"
    and entry: "\<And>d n. D d \<Longrightarrow> proper_comp n \<Longrightarrow> D (path_join d n)"
    and link: "\<And>p e w q info w'. D p \<Longrightarrow> resolveWithin F root p e w = (Inr (q, info), w') \<Longrightarrow> D q"
    and copies: "copies_keep F P D base" and base: "clean_abs base"
  shows "D dir \<Longrightarrow> below depth base dst \<Longrightarrow> P w \<Longrightarrow>
    P (snd (copyDir F root dir dst depth w))"
proof (induction "Suc maxCopyDepth - depth" arbitrary: dir dst depth w rule: less_induct)
  case less
  show ?case
  proof (cases "maxCopyDepth < depth")
    case True
    with less.prems show ?thesis by (simp add: copyDir.simps)
  next
    case False
    obtain r w1 where rd: "fs_read_dir F dir w = (r, w1)" by fastforce
    have w1: "P w1" using reads_keepD(3) [OF reads less.prems(3) rd] .
    show ?thesis
    proof (cases r)
      case (Inl e)
      with False rd w1 show ?thesis by (simp add: copyDir.simps)
    next
      case (Inr es)
      obtain r2 w2 where mk: "fs_mkdir_all F dst w1 = (r2, w2)" by fastforce
      have w2: "P w2" using copies_keepD(1) [OF copies w1 _ less.prems(2) mk] False by simp
      define descend where "descend = (\<lambda>q t w3. copyDir F root q t (depth + 1) w3)"
      have step: "P (snd (copy_entry F root dir dst descend e w3))" if "e \<in> set es" "P w3" for e w3
      proof -
        have n: "proper_comp (de_name e)"
          using names rd Inr that(1) unfolding names_ok_def list_all_iff by blast
        obtain rr w4 where rs: "resolveWithin F root (path_join dir (de_name e)) e w3 = (rr, w4)" by fastforce
        have w4: "P w4" using resolveWithin_keeps [OF reads that(2) rs] .
        show ?thesis
        proof (cases rr)
          case (Inl err)
          with rs w4 that(2) show ?thesis by (simp add: copy_entry_def)
        next
          case res: (Inr qi)
          obtain q info where qi: "qi = (q, info)" by fastforce
          have "D q" using link [OF entry [OF less.prems(1) n]] rs res qi by blast
          moreover have "below (depth + 1) base (path_join dst (de_name e))"
            using below_join [OF base less.prems(2) n] by simp
          ultimately have "P (snd (descend q (path_join dst (de_name e)) w4))"
            unfolding descend_def using False w4 by (intro less.hyps) auto
          moreover have "P (snd (copyFile F q (path_join dst (de_name e)) (fi_perm info) w4))"
            using False by (intro copyFile_keeps [OF copies \<open>D q\<close> base less.prems(2) _ n w4]) simp
          ultimately show ?thesis using rs res qi w4 that(2) by (simp add: copy_entry_def)
        qed
      qed
      have "P (snd (run_each (copy_entry F root dir dst descend) es w2))"
        by (rule run_each_keeps [OF step w2])
      with False rd Inr mk w2 show ?thesis
        by (subst copyDir.simps) (simp add: descend_def split: option.split)
    qed
  qed
qed


section \<open>A trace of the operations\<close>

text \<open>A file system that also notes, in order, every operation that changes files.\<close>

datatype file_op =
    OpMkdir string
  | OpRemove string
  | OpRemoveAll string
  | OpWrite string
  | OpCopy string string
  | OpTemp string
  | OpGit string

definition unnoted :: "('w \<Rightarrow> 'a \<times> 'w) \<Rightarrow> 'w \<times> file_op list \<Rightarrow> 'a \<times> ('w \<times> file_op list)" where
  "unnoted f s = (case f (fst s) of (r, w) \<Rightarrow> (r, (w, snd s)))"

definition noted :: "('a \<Rightarrow> file_op list) \<Rightarrow> ('w \<Rightarrow> 'a \<times> 'w) \<Rightarrow> 'w \<times> file_op list \<Rightarrow> 'a \<times> ('w \<times> file_op list)" where
  "noted op f s = (case f (fst s) of (r, w) \<Rightarrow> (r, (w, snd s @ op r)))"

definition traced :: "'w fs \<Rightarrow> ('w \<times> file_op list) fs" where
  "traced F =
     \<lparr>fs_stat = (\<lambda>p. unnoted (fs_stat F p)),
      fs_lstat = (\<lambda>p. unnoted (fs_lstat F p)),
      fs_read_dir = (\<lambda>p. unnoted (fs_read_dir F p)),
      fs_read_file = (\<lambda>p. unnoted (fs_read_file F p)),
      fs_eval_symlinks = (\<lambda>p. unnoted (fs_eval_symlinks F p)),
      fs_mkdir_temp = (\<lambda>p. noted (\<lambda>r. case r of Inl _ \<Rightarrow> [] | Inr t \<Rightarrow> [OpTemp t]) (fs_mkdir_temp F p)),
      fs_mkdir_all = (\<lambda>p. noted (\<lambda>_. [OpMkdir p]) (fs_mkdir_all F p)),
      fs_remove = (\<lambda>p. noted (\<lambda>_. [OpRemove p]) (fs_remove F p)),
      fs_remove_all = (\<lambda>p. noted (\<lambda>_. [OpRemoveAll p]) (fs_remove_all F p)),
      fs_write_file = (\<lambda>p b. noted (\<lambda>_. [OpWrite p]) (fs_write_file F p b)),
      fs_copy = (\<lambda>a b m. noted (\<lambda>_. [OpCopy a b]) (fs_copy F a b m))\<rparr>"

lemma unnoted_ops [simp]: "snd (snd (unnoted f s)) = snd s"
  by (simp add: unnoted_def split: prod.split)

lemma noted_ops [simp]: "snd (snd (noted op f s)) = snd s @ op (fst (noted op f s))"
  by (simp add: noted_def split: prod.split)

lemma names_traced [simp]: "names_ok (traced F) = names_ok F"
proof
  assume t: "names_ok (traced F)"
  show "names_ok F"
    unfolding names_ok_def
  proof (intro allI impI)
    fix d w es w'
    assume "fs_read_dir F d w = (Inr es, w')"
    then have "fs_read_dir (traced F) d (w, []) = (Inr es, (w', []))"
      by (simp add: traced_def unnoted_def)
    with t show "list_all (\<lambda>e. proper_comp (de_name e)) es" unfolding names_ok_def by blast
  qed
qed (auto simp: names_ok_def traced_def unnoted_def split: prod.splits)

lemma links_traced: "links_ok F \<Longrightarrow> links_ok (traced F)"
  by (auto simp: links_ok_def traced_def unnoted_def split: prod.splits)

text \<open>The trace is a ghost: without it the copy answers the same and leaves the same world.\<close>

definition ghost :: "('w \<times> file_op list \<Rightarrow> 'a \<times> ('w \<times> file_op list)) \<Rightarrow> ('w \<Rightarrow> 'a \<times> 'w) \<Rightarrow> bool" where
  "ghost f g \<longleftrightarrow> (\<forall>s. map_prod id fst (f s) = g (fst s))"

lemma ghost_at: "ghost f g \<Longrightarrow> map_prod id fst (f s) = g (fst s)"
  by (simp only: ghost_def)

lemma ghostD: "ghost f g \<Longrightarrow> f s = (r, s') \<Longrightarrow> g (fst s) = (r, fst s')"
  unfolding ghost_def by (metis map_prod_simp id_apply)

lemma ghost_noted [simp]: "ghost (noted op f) f" "ghost (unnoted f) f"
  by (simp_all add: ghost_def noted_def unnoted_def split: prod.split)

lemma ghost_reads [simp]:
  "ghost (fs_stat (traced F) p) (fs_stat F p)"
  "ghost (fs_lstat (traced F) p) (fs_lstat F p)"
  "ghost (fs_read_dir (traced F) p) (fs_read_dir F p)"
  "ghost (fs_eval_symlinks (traced F) p) (fs_eval_symlinks F p)"
  "ghost (fs_mkdir_all (traced F) p) (fs_mkdir_all F p)"
  "ghost (fs_copy (traced F) p q m) (fs_copy F p q m)"
  by (simp_all add: traced_def)

lemmas ghost_readsD = ghost_reads [THEN ghostD]

lemma ghost_run_each:
  assumes "\<And>x. x \<in> set xs \<Longrightarrow> ghost (f x) (g x)"
  shows "ghost (run_each f xs) (run_each g xs)"
  using assms
proof (induction xs)
  case (Cons x xs)
  have tail: "ghost (run_each f xs) (run_each g xs)" by (rule Cons.IH) (simp add: Cons.prems)
  have head: "ghost (f x) (g x)" by (simp add: Cons.prems)
  show ?case
    unfolding ghost_def
  proof
    fix s
    obtain r s1 where fx: "f x s = (r, s1)" by (metis surj_pair)
    from ghostD [OF head fx] fx show "map_prod id fst (run_each f (x # xs) s) = run_each g (x # xs) (fst s)"
      by (cases r) (simp_all add: ghost_at [OF tail])
  qed
qed (simp add: ghost_def)

lemma ghost_resolve: "ghost (resolveWithin (traced F) root p e) (resolveWithin F root p e)"
  unfolding ghost_def
proof
  fix s
  obtain a s1 where l: "fs_lstat (traced F) p s = (a, s1)" by (metis surj_pair)
  obtain b s2 where ev: "fs_eval_symlinks (traced F) p s = (b, s2)" by (metis surj_pair)
  obtain d s3 where st: "fs_stat (traced F) (projr b) s2 = (d, s3)" by (metis surj_pair)
  from ghost_readsD(2) [OF l] ghost_readsD(4) [OF ev] ghost_readsD(1) [OF st] l ev st
  show "map_prod id fst (resolveWithin (traced F) root p e s) = resolveWithin F root p e (fst s)"
    by (cases a; cases b; cases d) (simp_all add: resolveWithin_def)
qed

lemma ghost_copyFile: "ghost (copyFile (traced F) a b m) (copyFile F a b m)"
  unfolding ghost_def
proof
  fix s
  obtain r s1 where mk: "fs_mkdir_all (traced F) (path_dir b) s = (r, s1)" by (metis surj_pair)
  have "map_prod id fst (fs_copy (traced F) a b m s1) = fs_copy F a b m (fst s1)"
    using ghost_reads(6) unfolding ghost_def by blast
  with ghost_readsD(5) [OF mk] mk
  show "map_prod id fst (copyFile (traced F) a b m s) = copyFile F a b m (fst s)"
    by (cases r) (simp_all add: copyFile_def)
qed

lemma ghost_copy_entry:
  assumes "\<And>q t. ghost (f q t) (g q t)"
  shows "ghost (copy_entry (traced F) root d t f e) (copy_entry F root d t g e)"
  unfolding ghost_def
proof
  fix s
  obtain r s1 where rs: "resolveWithin (traced F) root (path_join d (de_name e)) e s = (r, s1)" by (metis surj_pair)
  from ghostD [OF ghost_resolve rs] rs
  show "map_prod id fst (copy_entry (traced F) root d t f e s) = copy_entry F root d t g e (fst s)"
    by (simp add: copy_entry_def ghost_at [OF assms] ghost_at [OF ghost_copyFile] split: sum.split prod.split)
qed

lemma ghost_copyDir: "ghost (copyDir (traced F) root dir dst depth) (copyDir F root dir dst depth)"
proof (induction "Suc maxCopyDepth - depth" arbitrary: dir dst depth rule: less_induct)
  case less
  show ?case
    unfolding ghost_def
  proof
    fix s
    show "map_prod id fst (copyDir (traced F) root dir dst depth s) = copyDir F root dir dst depth (fst s)"
    proof (cases "maxCopyDepth < depth")
      case True
      then show ?thesis by (simp add: copyDir.simps)
    next
      case False
      have "ghost (copyDir (traced F) root q t (depth + 1)) (copyDir F root q t (depth + 1))" for q t
        by (rule less) (use False in simp)
      then have each: "ghost
          (run_each (copy_entry (traced F) root dir dst (\<lambda>q t. copyDir (traced F) root q t (depth + 1))) es)
          (run_each (copy_entry F root dir dst (\<lambda>q t. copyDir F root q t (depth + 1))) es)" for es
        by (intro ghost_run_each ghost_copy_entry)
      obtain r s1 where rd: "fs_read_dir (traced F) dir s = (r, s1)" by (metis surj_pair)
      obtain r2 s2 where mk: "fs_mkdir_all (traced F) dst s1 = (r2, s2)" by (metis surj_pair)
      from ghost_readsD(3) [OF rd] ghost_readsD(5) [OF mk] rd mk False show ?thesis
        by (cases r; cases r2) (simp_all add: copyDir.simps [where depth = depth] ghost_at [OF each [simplified]])
    qed
  qed
qed

text \<open>A property of the trace no read breaks, and what operations may be added to it.\<close>

lemma reads_keep_traced: "reads_keep (traced F) (\<lambda>s. P (snd s))"
  by (simp add: reads_keep_def traced_def)

lemma copies_keep_traced:
  assumes "\<And>k p ops. P ops \<Longrightarrow> k \<le> maxCopyDepth \<Longrightarrow> below k dst p \<Longrightarrow> P (ops @ [OpMkdir p])"
    and "\<And>k s d ops. P ops \<Longrightarrow> S s \<Longrightarrow> k \<le> maxCopyDepth \<Longrightarrow> below (Suc k) dst d \<Longrightarrow> P (ops @ [OpCopy s d])"
  shows "copies_keep (traced F) (\<lambda>s. P (snd s)) S dst"
  using assms by (simp add: copies_keep_def traced_def)

text \<open>Below the destination, not deeper than the limit, and from below the root only.\<close>

definition placed_op :: "string \<Rightarrow> string \<Rightarrow> file_op \<Rightarrow> bool" where
  "placed_op root dst op =
     (case op of
        OpMkdir p \<Rightarrow> isAncestorOrEqual dst p \<and> length (comps p) \<le> length (comps dst) + maxCopyDepth
      | OpCopy s d \<Rightarrow>
          isAncestorOrEqual root s \<and> isAncestorOrEqual dst d \<and>
          length (comps d) \<le> length (comps dst) + maxCopyDepth + 1
      | _ \<Rightarrow> False)"

lemma copy_trace:
  assumes "names_ok F" and "links_ok F" and "is_abs src" and "clean_abs dst"
    and "fs_eval_symlinks F src w = (Inr root, w0)"
    and "copyTree (traced F) src dst (w, []) = (r, (w', ops))"
  shows "list_all (placed_op root dst) ops"
proof -
  let ?P = "\<lambda>s :: 'a \<times> file_op list. list_all (placed_op root dst) (snd s)"
  let ?D = "\<lambda>d. clean_abs d \<and> isAncestorOrEqual root d"
  have root: "clean_abs root" using assms(2,3,5) unfolding links_ok_def by blast
  have "?P (snd (copyDir (traced F) root root dst 0 (w0, [])))"
  proof (rule copyDir_keeps [where D = ?D and base = dst])
    show "reads_keep (traced F) ?P" by (rule reads_keep_traced)
    show "copies_keep (traced F) ?P ?D dst"
      by (rule copies_keep_traced) (simp_all add: placed_op_def below_def)
    show "?D (path_join d n)" if "?D d" "proper_comp n" for d n
      using that path_join_comps(1) path_join_inside [OF root] by blast
    show "?D q" if "?D p" "resolveWithin (traced F) root p e w1 = (Inr (q, info), w2)" for p e w1 q info w2
      using resolveWithin_inside [OF links_traced [OF assms(2)] root _ _ that(2)] that(1) by blast
  qed (simp_all add: assms root below_self)
  moreover have "copyTree (traced F) src dst (w, []) = copyDir (traced F) root root dst 0 (w0, [])"
    using assms(5) by (simp add: copyTree_def traced_def unnoted_def)
  ultimately show ?thesis using assms(6) by (metis snd_conv)
qed

text \<open>
  C17: copying a skill writes only below its destination and copies only files below the directory the
  source resolves to, whatever links the source contains.
\<close>

theorem copy_contained:
  assumes "names_ok F" and "links_ok F" and "is_abs src" and "clean_abs dst"
    and "fs_eval_symlinks F src w = (Inr root, w0)"
    and "copyTree (traced F) src dst (w, []) = (r, (w', ops))"
  shows "list_all (\<lambda>op. (\<exists>p. op = OpMkdir p \<and> isAncestorOrEqual dst p) \<or>
      (\<exists>s d. op = OpCopy s d \<and> isAncestorOrEqual root s \<and> isAncestorOrEqual dst d)) ops"
  using copy_trace [OF assms]
  by (rule list.pred_mono_strong) (auto simp: placed_op_def split: file_op.splits)

text \<open>
  No directory is made more than 32 levels below the destination and no file copied more than 33, however
  deep the source is or its links make it look.
\<close>

theorem copy_depth_bounded:
  assumes "names_ok F" and "links_ok F" and "is_abs src" and "clean_abs dst"
    and "fs_eval_symlinks F src w = (Inr root, w0)"
    and "copyTree (traced F) src dst (w, []) = (r, (w', ops))"
  shows "list_all (\<lambda>op. case op of
       OpMkdir p \<Rightarrow> length (comps p) \<le> length (comps dst) + 32
     | OpCopy s d \<Rightarrow> length (comps d) \<le> length (comps dst) + 33
     | _ \<Rightarrow> False) ops"
  using copy_trace [OF assms]
  by (rule list.pred_mono_strong) (simp add: placed_op_def maxCopyDepth_def split: file_op.splits)

section \<open>Cycles\<close>

text \<open>
  Directories from which the copy never gets out: reading one either fails, or lists an entry that is not
  skipped and is again such a directory, unless it cannot be resolved at all.
\<close>

definition endless :: "'w fs \<Rightarrow> string \<Rightarrow> string set \<Rightarrow> bool" where
  "endless F root S \<longleftrightarrow>
     (\<forall>d w es w1. d \<in> S \<longrightarrow> fs_read_dir F d w = (Inr es, w1) \<longrightarrow>
        (\<exists>e \<in> set es. \<not> isKubernetesInternal (de_name e) \<and> de_name e \<noteq> ''.git'' \<and>
           (\<forall>w2. case resolveWithin F root (path_join d (de_name e)) e w2 of
                    (Inl err, _) \<Rightarrow> kind_of err \<noteq> KNotFound
                  | (Inr (q, info), _) \<Rightarrow> q \<in> S \<and> fi_dir info)))"

lemma run_each_fails:
  assumes "x \<in> set xs" and "\<And>w. fst (f x w) \<noteq> None"
  shows "fst (run_each f xs w) \<noteq> None"
  using assms(1)
proof (induction xs arbitrary: w)
  case (Cons y ys)
  obtain r w1 where y: "f y w = (r, w1)" by fastforce
  show ?case
  proof (cases "r = None \<and> x \<noteq> y")
    case True
    with Cons y show ?thesis by simp
  next
    case False
    then have "r \<noteq> None" using assms(2) [of w] y by auto
    with y show ?thesis by auto
  qed
qed simp

lemma copyDir_endless:
  assumes "endless F root S"
  shows "dir \<in> S \<Longrightarrow> fst (copyDir F root dir dst depth w) \<noteq> None"
proof (induction "Suc maxCopyDepth - depth" arbitrary: dir dst depth w rule: less_induct)
  case less
  show ?case
  proof (cases "maxCopyDepth < depth")
    case True
    then show ?thesis by (simp add: copyDir.simps)
  next
    case False
    obtain r w1 where rd: "fs_read_dir F dir w = (r, w1)" by fastforce
    show ?thesis
    proof (cases r)
      case (Inl e)
      with False rd show ?thesis by (simp add: copyDir.simps)
    next
      case (Inr es)
      define descend where "descend = (\<lambda>q t w3. copyDir F root q t (depth + 1) w3)"
      have deeper: "fst (descend q t w3) \<noteq> None" if "q \<in> S" for q t w3
        unfolding descend_def by (rule less.hyps) (use False that in auto)
      obtain e where e: "e \<in> set es" "\<not> isKubernetesInternal (de_name e)" "de_name e \<noteq> ''.git''"
        and res: "\<And>w2. case resolveWithin F root (path_join dir (de_name e)) e w2 of
                    (Inl err, _) \<Rightarrow> kind_of err \<noteq> KNotFound
                  | (Inr (q, info), _) \<Rightarrow> q \<in> S \<and> fi_dir info"
        using assms less.prems rd Inr unfolding endless_def by blast
      have "fst (copy_entry F root dir dst descend e w2) \<noteq> None" for w2
        using res [of w2] e deeper
        by (auto simp: copy_entry_def split: prod.splits sum.splits)
      from run_each_fails [where f = "copy_entry F root dir dst descend", OF e(1) this]
      show ?thesis
        using False rd Inr by (subst copyDir.simps) (auto simp: descend_def split: prod.split option.split)
    qed
  qed
qed

text \<open>
  C25: a source whose directories lead back into themselves through links is refused with an error; the copy
  of it neither runs on nor succeeds.
\<close>

theorem copy_cycle_refused:
  assumes "fs_eval_symlinks F src w = (Inr root, w0)" and "endless F root S" and "root \<in> S"
  shows "\<exists>e w'. copyTree F src dst w = (Some e, w')"
  using copyDir_endless [OF assms(2,3), of dst 0 w0] assms(1)
  by (cases "copyDir F root root dst 0 w0") (auto simp: copyTree_def)

end
