(* ===== verification/SampleFiles.thy ===== *)
theory SampleFiles
  imports SkillCopyProperties
begin

text \<open>
  A file system given by its directories, links and files, for the witnesses: reads answer from it, writes
  succeed and change nothing.
\<close>

definition follow :: "(string \<times> string) list \<Rightarrow> string \<Rightarrow> string" where
  "follow links p = (case map_of links (path_clean p) of Some q \<Rightarrow> q | None \<Rightarrow> path_clean p)"

definition dir_info :: file_info where
  "dir_info = \<lparr>fi_dir = True, fi_regular = False, fi_perm = 493\<rparr>"

definition plain_info :: file_info where
  "plain_info = \<lparr>fi_dir = False, fi_regular = True, fi_perm = 420\<rparr>"

definition found_or :: "'a option \<Rightarrow> 'a res" where
  "found_or r = (case r of None \<Rightarrow> Inl not_found | Some x \<Rightarrow> Inr x)"

definition tree_fs ::
  "(string \<times> dir_entry list) list \<Rightarrow> (string \<times> string) list \<Rightarrow> (string \<times> string) list \<Rightarrow> 'w fs" where
  "tree_fs dirs links texts =
     (let info = (\<lambda>p. if map_of dirs p \<noteq> None then Inr dir_info
                      else if map_of texts p \<noteq> None then Inr plain_info else Inl not_found)
      in \<lparr>fs_stat = (\<lambda>p w. (info (follow links p), w)),
          fs_lstat = (\<lambda>p w. (info (path_clean p), w)),
          fs_read_dir = (\<lambda>p w. (found_or (map_of dirs (follow links p)), w)),
          fs_read_file = (\<lambda>p w. (found_or (map_of texts (follow links p)), w)),
          fs_eval_symlinks = (\<lambda>p w. (map_sum id (\<lambda>_. follow links p) (info (follow links p)), w)),
          fs_mkdir_temp = (\<lambda>p w. (Inr (''/tmp/'' @ p @ ''1''), w)),
          fs_mkdir_all = (\<lambda>p w. (None, w)),
          fs_remove = (\<lambda>p w. (None, w)),
          fs_remove_all = (\<lambda>p w. (None, w)),
          fs_write_file = (\<lambda>p b w. (None, w)),
          fs_copy = (\<lambda>s d m w. (None, w))\<rparr>)"

lemma tree_names_ok:
  "list_all (\<lambda>d. list_all (\<lambda>e. proper_comp (de_name e)) (snd d)) dirs \<Longrightarrow> names_ok (tree_fs dirs links texts)"
  by (auto simp: names_ok_def tree_fs_def Let_def found_or_def list_all_iff split: option.splits dest!: map_of_SomeD)

lemma tree_links_ok:
  "list_all (\<lambda>l. clean_abs (snd l)) links \<Longrightarrow> links_ok (tree_fs dirs links texts)"
  by (auto simp: links_ok_def tree_fs_def Let_def follow_def list_all_iff clean_abs_clean
      split: option.splits if_splits dest!: map_of_SomeD)

definition a_file :: "string \<Rightarrow> dir_entry" where
  "a_file n = \<lparr>de_name = n, de_dir = False, de_symlink = False\<rparr>"

definition a_dir :: "string \<Rightarrow> dir_entry" where
  "a_dir n = \<lparr>de_name = n, de_dir = True, de_symlink = False\<rparr>"

definition a_link :: "string \<Rightarrow> dir_entry" where
  "a_link n = \<lparr>de_name = n, de_dir = False, de_symlink = True\<rparr>"

text \<open>A projected volume with one skill, whose file is a link into the directory of the kubelet.\<close>

definition volume_fs :: "unit fs" where
  "volume_fs =
     tree_fs
       [(''/src'', [a_dir ''fix'']), (''/src/fix'', [a_link ''SKILL.md'', a_dir ''..data'']),
        (''/src/fix/..data'', [a_file ''SKILL.md'']), (''/skills'', [a_dir ''old''])]
       [(''/src/fix/SKILL.md'', ''/src/fix/..data/SKILL.md'')]
       [(''/src/fix/..data/SKILL.md'', ''---'' @ [nl] @ ''name: fix'' @ [nl] @ ''---'' @ [nl])]"

lemma volume_names_ok: "names_ok volume_fs"
  unfolding volume_fs_def by (rule tree_names_ok) code_simp

lemma volume_links_ok: "links_ok volume_fs"
  unfolding volume_fs_def by (rule tree_links_ok) code_simp

lemma volume_copy:
  "copyTree (traced volume_fs) ''/src/fix'' ''/skills/fix'' ((), []) =
     (None, ((), [OpMkdir ''/skills/fix'', OpMkdir ''/skills/fix'',
        OpCopy ''/src/fix/..data/SKILL.md'' ''/skills/fix/SKILL.md'']))"
  by code_simp

lemma volume_root: "fs_eval_symlinks volume_fs ''/src/fix'' w = (Inr ''/src/fix'', w)"
  by code_simp

text \<open>A skill whose directory holds a link to itself.\<close>

definition cyclic_fs :: "unit fs" where
  "cyclic_fs = tree_fs [(''/src'', [a_link ''self''])] [(''/src/self'', ''/src'')] []"

lemma cyclic_endless: "endless cyclic_fs ''/src'' {''/src''}"
proof -
  have rd: "fs_read_dir cyclic_fs ''/src'' w = (Inr [a_link ''self''], w)" for w by code_simp
  have rs: "resolveWithin cyclic_fs ''/src'' (path_join ''/src'' ''self'') (a_link ''self'') w =
      (Inr (''/src'', dir_info), w)" for w by code_simp
  have n: "\<not> isKubernetesInternal ''self''" and name: "de_name (a_link ''self'') = ''self''"
    and d: "fi_dir dir_info"
    by code_simp+
  show ?thesis
    unfolding endless_def by (auto simp: rd name rs n d)
qed

lemma copy_contained_witness:
  "list_all (\<lambda>op. (\<exists>p. op = OpMkdir p \<and> isAncestorOrEqual ''/skills/fix'' p) \<or>
      (\<exists>s d. op = OpCopy s d \<and> isAncestorOrEqual ''/src/fix'' s \<and> isAncestorOrEqual ''/skills/fix'' d))
     [OpMkdir ''/skills/fix'', OpMkdir ''/skills/fix'',
      OpCopy ''/src/fix/..data/SKILL.md'' ''/skills/fix/SKILL.md'']"
  by (rule copy_contained [OF volume_names_ok volume_links_ok _ _ volume_root volume_copy]) code_simp+

lemma copy_depth_bounded_witness:
  "length (comps ''/skills/fix/SKILL.md'') \<le> length (comps ''/skills/fix'') + 33"
proof -
  have "is_abs ''/src/fix''" "clean_abs ''/skills/fix''" by code_simp+
  from copy_depth_bounded [OF volume_names_ok volume_links_ok this volume_root volume_copy]
  show ?thesis by simp
qed

lemma copy_cycle_refused_witness:
  "\<exists>e w'. copyTree cyclic_fs ''/src'' ''/skills/x'' () = (Some e, w')"
proof (rule copy_cycle_refused [OF _ cyclic_endless])
  show "fs_eval_symlinks cyclic_fs ''/src'' () = (Inr ''/src'', ())" by code_simp
qed simp

end
