(* ===== verification/SkillWireProperties.thy ===== *)
theory SkillWireProperties
  imports SkillWire JsonRoundtrip SampleFiles
begin

text \<open>
  Both wire formats are read back as they were written: the sources from the controller to the loader, the
  manifest from the loader to the harness.
\<close>

lemma well_formed_keys:
  "well_formed ''name''" "well_formed ''subPath''" "well_formed ''type''" "well_formed ''git''"
  "well_formed ''url''" "well_formed ''ref''" "well_formed ''description''" "well_formed ''source''"
  "well_formed ''sourcePath''" "well_formed ''skills''" "well_formed ''rules''"
  by (rule ascii_well_formed, simp add: ascii_def byte_def)+

lemma reads_text: "well_formed s \<Longrightarrow> 1 \<le> k \<Longrightarrow> reads_as k h (json_string s) (JStr s)"
  by (rule reads_mono [OF reads_string]) simp_all

lemma length_join_ge: "(\<And>x. x \<in> set xs \<Longrightarrow> x \<noteq> []) \<Longrightarrow> length xs \<le> length (join sep xs)"
proof (induction xs)
  case (Cons x xs)
  have "x \<noteq> []" "length xs \<le> length (join sep xs)" using Cons by simp_all
  then show ?case by (cases xs; cases x) auto
qed simp

section \<open>Sources\<close>

text \<open>The members of the JSON of a source: key, text and value.\<close>

definition git_members :: "git_source \<Rightarrow> (string \<times> string \<times> json) list" where
  "git_members g =
     [(''url'', json_string (gs_url g), JStr (gs_url g))] @
     (if gs_ref g = [] then [] else [(''ref'', json_string (gs_ref g), JStr (gs_ref g))])"

definition compact :: "(string \<times> string \<times> json) list \<Rightarrow> string" where
  "compact xs = struct_json (map (\<lambda>(key, t, v). (key, t)) xs)"

definition members_value :: "(string \<times> string \<times> json) list \<Rightarrow> json" where
  "members_value xs = JObj (map (\<lambda>(key, t, v). (key, v)) xs)"

definition source_members :: "skill_source \<Rightarrow> (string \<times> string \<times> json) list" where
  "source_members s =
     [(''name'', json_string (ks_name s), JStr (ks_name s))] @
     (if ks_subpath s = [] then [] else [(''subPath'', json_string (ks_subpath s), JStr (ks_subpath s))]) @
     (if ks_type s = [] then [] else [(''type'', json_string (ks_type s), JStr (ks_type s))]) @
     (case ks_git s of None \<Rightarrow> []
      | Some g \<Rightarrow> [(''git'', compact (git_members g), members_value (git_members g))])"

lemma source_json_members: "source_json s = compact (source_members s)"
  by (auto simp: source_json_def compact_def source_members_def git_members_def split: option.split)

lemma compact_reads:
  assumes "xs \<noteq> []" and "list_all (\<lambda>(key, t, v). well_formed key \<and> reads_as k h t v) xs"
  shows "reads_as (Suc (k + length xs)) (Suc h) (compact xs) (members_value xs)"
  using reads_object [OF assms, of "[]" "[]" "[]" "[]"]
  by (simp add: compact_def struct_json_def members_value_def comp_def case_prod_unfold)

definition source_ok :: "skill_source \<Rightarrow> bool" where
  "source_ok s \<longleftrightarrow>
     ks_name s \<noteq> [] \<and> well_formed (ks_name s) \<and> well_formed (ks_subpath s) \<and> well_formed (ks_type s) \<and>
     (case ks_git s of None \<Rightarrow> True
      | Some g \<Rightarrow> gs_url g \<noteq> [] \<and> well_formed (gs_url g) \<and> well_formed (gs_ref g))"

lemma git_reads:
  assumes "well_formed (gs_url g)" and "well_formed (gs_ref g)" and "4 \<le> k" and "1 \<le> h"
  shows "reads_as k h (compact (git_members g)) (members_value (git_members g))"
proof -
  have "reads_as (Suc (1 + length (git_members g))) (Suc 0) (compact (git_members g)) (members_value (git_members g))"
    by (rule compact_reads) (use assms in \<open>auto simp: git_members_def well_formed_keys reads_text\<close>)
  then show ?thesis by (rule reads_mono) (use assms(3,4) in \<open>simp_all add: git_members_def\<close>)
qed

lemma source_reads:
  assumes "source_ok s"
  shows "reads_as 9 2 (source_json s) (members_value (source_members s))"
proof -
  have "reads_as (Suc (4 + length (source_members s))) (Suc 1) (source_json s) (members_value (source_members s))"
    unfolding source_json_members
    by (rule compact_reads)
      (use assms in \<open>auto simp: source_members_def source_ok_def well_formed_keys reads_text git_reads
        split: option.splits\<close>)
  then show ?thesis by (rule reads_mono) (auto simp: source_members_def split: option.split)
qed

lemma decode_git_members: "decode_git (members_value (git_members g)) None = Some (Some g)"
  by (cases g) (simp add: decode_git_def members_value_def git_members_def decode_struct_def struct_field_def
      set_git_field_def decode_string_def zero_git_def)

lemma decode_source_members: "decode_source (members_value (source_members s)) = Some s"
proof -
  obtain n p t g where s: "s = \<lparr>ks_name = n, ks_subpath = p, ks_type = t, ks_git = g\<rparr>" by (cases s) auto
  show ?thesis
    unfolding s using decode_git_members
    by (cases g) (simp_all add: decode_source_def members_value_def source_members_def decode_struct_def
        struct_field_def set_source_field_def decode_string_def zero_source_def)
qed


lemma opt_all_map: "(\<And>x. x \<in> set xs \<Longrightarrow> f (g x) = Some (h x)) \<Longrightarrow> opt_all f (map g xs) = Some (map h xs)"
  by (induction xs) auto

lemma check_entries_ok: "list_all source_ok ss \<Longrightarrow> check_entries i ss = None"
  by (induction ss arbitrary: i) (auto simp: source_ok_def split: option.splits)

lemma source_json_start: "source_json s \<noteq> [] \<and> hd (source_json s) = CHR ''{''"
  by (simp add: source_json_def struct_json_def)

lemma sources_reads:
  assumes "ss \<noteq> []" and "list_all source_ok ss"
  shows "json_unmarshal (sources_json ss) = Some (JArr (map (\<lambda>s. members_value (source_members s)) ss))"
proof -
  let ?xs = "map (\<lambda>s. (source_json s, members_value (source_members s))) ss"
  have "reads_as (Suc (9 + length ?xs)) (Suc 2)
      (''['' @ [] @ join ('','' @ []) (map fst ?xs) @ [] @ '']'') (JArr (map snd ?xs))"
  proof (rule reads_array)
    show "list_all (\<lambda>(t, v). reads_as 9 2 t v) ?xs"
      using assms(2) source_reads by (simp add: list_all_iff)
  qed (use assms(1) source_json_start in auto)
  then have r: "reads_as (10 + length ss) 3 (sources_json ss)
      (JArr (map (\<lambda>s. members_value (source_members s)) ss))"
    by (simp add: sources_json_def comp_def)
  have "5 * length ss \<le> length (concat (map source_json ss))"
  proof (induction ss)
    case (Cons s ss)
    have "5 \<le> length (source_json s)" by (simp add: source_json_def struct_json_def json_string_def split: option.split)
    with Cons show ?case by simp
  qed simp
  moreover have "length (concat xs) \<le> length (join sep xs)" for sep and xs :: "string list"
    by (induction sep xs rule: join.induct) auto
  ultimately have "5 * length ss \<le> length (sources_json ss)"
    by (simp add: sources_json_def le_SucI order_trans)
  moreover have "1 \<le> length ss" using assms(1) by (cases ss) auto
  ultimately have k: "10 + length ss \<le> 2 * length (sources_json ss) + 2" by linarith
  show ?thesis
    using unmarshal_reads [OF r k, of "[]"] by (simp add: max_nesting_def)
qed

lemma parse_sources_back:
  assumes "ss \<noteq> []" and "list_all source_ok ss"
  shows "parseSources (sources_json ss) = Inr ss"
proof -
  have "decode_slice decode_source (JArr (map (\<lambda>s. members_value (source_members s)) ss)) = Some ss"
    using opt_all_map [of ss decode_source "\<lambda>s. members_value (source_members s)" id]
    by (simp add: decode_slice_def decode_source_members)
  moreover have "sources_json ss \<noteq> []" by (simp add: sources_json_def)
  ultimately show ?thesis
    by (simp add: parseSources_def sources_reads [OF assms] check_entries_ok [OF assms(2)])
qed

text \<open>
  The source list the controller writes into the loader's environment is read back as it was: for any
  declared sources with names, repositories and well-formed text, every field, every order, escapes included.
\<close>

theorem sources_roundtrip:
  assumes "ss \<noteq> []" and "list_all source_ok ss"
  shows "parseSources (sources_json ss) = Inr ss"
  using parse_sources_back [OF assms] .

lemma sources_roundtrip_witness:
  "parseSources (sources_json [\<lparr>ks_name = ''fix'', ks_subpath = ''a/b'', ks_type = ''rule'',
      ks_git = Some \<lparr>gs_url = ''https://x/y?z=<1>'', gs_ref = ''main''\<rparr>\<rparr>]) =
   Inr [\<lparr>ks_name = ''fix'', ks_subpath = ''a/b'', ks_type = ''rule'',
      ks_git = Some \<lparr>gs_url = ''https://x/y?z=<1>'', gs_ref = ''main''\<rparr>\<rparr>]"
  by (rule sources_roundtrip) (auto simp: source_ok_def ascii_def byte_def intro!: ascii_well_formed)

section \<open>The manifest\<close>

lemma newline_ws: "list_all json_ws (json_newline d)"
  by (simp add: json_newline_def json_ws_def nl_def list_all_iff)

lemma indent_struct_reads:
  assumes "xs \<noteq> []" and "list_all (\<lambda>(key, t, v). well_formed key \<and> reads_as k h t v) xs"
  shows "reads_as (Suc (k + length xs)) (Suc h) (indent_struct depth (map (\<lambda>(key, t, v). (key, t)) xs))
    (members_value xs)"
  using reads_object [OF assms newline_ws [of "depth + 1"] newline_ws [of "depth + 1"] newline_ws [of depth],
      of "'' ''"] assms(1)
  by (simp add: indent_struct_def indent_block_def members_value_def comp_def case_prod_unfold json_ws_def)

lemma empty_array_reads: "reads_as 1 1 ''[]'' (JArr [])"
  unfolding reads_as_def
proof (intro allI impI)
  fix n d rest assume "1 \<le> (n :: nat)" and "d + 1 \<le> max_nesting"
  then show "json_value n d (''[]'' @ rest) = Some (JArr [], rest)"
    by (cases n) (simp_all add: json_value.simps Let_def skip_ws_one has_prefix_def)
qed

lemma indent_array_reads:
  assumes "list_all (\<lambda>(t, v). reads_as k h t v) xs"
    and "\<And>t v. (t, v) \<in> set xs \<Longrightarrow> t \<noteq> [] \<and> \<not> json_ws (hd t) \<and> hd t \<noteq> CHR '']''"
  shows "reads_as (Suc (k + length xs)) (Suc h) (indent_array depth (map fst xs)) (JArr (map snd xs))"
proof (cases "xs = []")
  case True
  then show ?thesis
    using reads_mono [OF empty_array_reads] by (simp add: indent_array_def indent_block_def)
next
  case False
  from reads_array [OF False assms(1) newline_ws [of "depth + 1"] newline_ws [of "depth + 1"] newline_ws [of depth]
      assms(2)] False
  show ?thesis by (simp add: indent_array_def indent_block_def)
qed

definition loaded_members :: "loaded_skill \<Rightarrow> (string \<times> string \<times> json) list" where
  "loaded_members l =
     [(''name'', json_string (ld_name l), JStr (ld_name l)),
      (''description'', json_string (ld_description l), JStr (ld_description l)),
      (''type'', json_string (ld_type l), JStr (ld_type l)),
      (''source'', json_string (ld_source l), JStr (ld_source l))] @
     (if ld_path l = [] then [] else [(''sourcePath'', json_string (ld_path l), JStr (ld_path l))])"

definition loaded_ok :: "loaded_skill \<Rightarrow> bool" where
  "loaded_ok l \<longleftrightarrow> list_all well_formed [ld_name l, ld_description l, ld_type l, ld_source l, ld_path l]"

lemma loaded_reads: "loaded_ok l \<Longrightarrow> reads_as 7 1 (loaded_json l) (members_value (loaded_members l))"
proof -
  assume l: "loaded_ok l"
  have r: "reads_as (Suc (1 + length (loaded_members l))) (Suc 0)
      (indent_struct 2 (map (\<lambda>(key, t, v). (key, t)) (loaded_members l))) (members_value (loaded_members l))"
    by (rule indent_struct_reads)
      (use l in \<open>auto simp: loaded_members_def loaded_ok_def well_formed_keys reads_text\<close>)
  have eq: "loaded_json l = indent_struct 2 (map (\<lambda>(key, t, v). (key, t)) (loaded_members l))"
    by (simp add: loaded_json_def loaded_members_def)
  show ?thesis unfolding eq by (rule reads_mono [OF r]) (auto simp: loaded_members_def)
qed

definition loaded_names :: "string list" where
  "loaded_names = [''name'', ''description'', ''type'', ''source'', ''sourcePath'']"

lemma loaded_fields:
  "struct_field loaded_names ''name'' = Some ''name''"
  "struct_field loaded_names ''description'' = Some ''description''"
  "struct_field loaded_names ''type'' = Some ''type''"
  "struct_field loaded_names ''source'' = Some ''source''"
  "struct_field loaded_names ''sourcePath'' = Some ''sourcePath''"
  by (simp_all add: struct_field_def loaded_names_def)

lemma set_loaded_fields:
  "set_loaded_field ''name'' (JStr x) l = Some (l\<lparr>ld_name := x\<rparr>)"
  "set_loaded_field ''description'' (JStr x) l = Some (l\<lparr>ld_description := x\<rparr>)"
  "set_loaded_field ''type'' (JStr x) l = Some (l\<lparr>ld_type := x\<rparr>)"
  "set_loaded_field ''source'' (JStr x) l = Some (l\<lparr>ld_source := x\<rparr>)"
  "set_loaded_field ''sourcePath'' (JStr x) l = Some (l\<lparr>ld_path := x\<rparr>)"
  by (simp_all add: set_loaded_field_def decode_string_def)

lemma decode_loaded_members: "decode_loaded (members_value (loaded_members l)) = Some l"
proof (cases l)
  case (fields n d t s p)
  show ?thesis
    unfolding fields decode_loaded_def loaded_names_def [symmetric]
    by (simp add: members_value_def loaded_members_def decode_struct_def loaded_fields set_loaded_fields
        zero_loaded_def)
qed

definition manifest_members :: "manifest \<Rightarrow> (string \<times> string \<times> json) list" where
  "manifest_members m =
     [(''skills'', indent_array 1 (map loaded_json (mf_skills m)),
       JArr (map (\<lambda>l. members_value (loaded_members l)) (mf_skills m))),
      (''rules'', indent_array 1 (map json_string (mf_rules m)), JArr (map JStr (mf_rules m)))]"

definition manifest_ok :: "manifest \<Rightarrow> bool" where
  "manifest_ok m \<longleftrightarrow> list_all loaded_ok (mf_skills m) \<and> list_all well_formed (mf_rules m)"

lemma manifest_reads:
  assumes "manifest_ok m"
  shows "json_unmarshal (manifest_json m @ [nl]) = Some (members_value (manifest_members m))"
proof -
  let ?k = "8 + length (mf_skills m) + length (mf_rules m)"
  have skills: "reads_as ?k 2 (indent_array 1 (map loaded_json (mf_skills m)))
      (JArr (map (\<lambda>l. members_value (loaded_members l)) (mf_skills m)))"
  proof -
    let ?xs = "map (\<lambda>l. (loaded_json l, members_value (loaded_members l))) (mf_skills m)"
    have "reads_as (Suc (7 + length ?xs)) (Suc 1) (indent_array 1 (map fst ?xs)) (JArr (map snd ?xs))"
    proof (rule indent_array_reads)
      show "list_all (\<lambda>(t, v). reads_as 7 1 t v) ?xs"
        using assms loaded_reads by (simp add: manifest_ok_def list_all_iff)
    qed (auto simp: loaded_json_def indent_struct_def indent_block_def)
    then have "reads_as (Suc (7 + length ?xs)) (Suc 1) (indent_array 1 (map loaded_json (mf_skills m)))
      (JArr (map (\<lambda>l. members_value (loaded_members l)) (mf_skills m)))" by (simp add: comp_def)
    then show ?thesis by (rule reads_mono) simp_all
  qed
  have rules: "reads_as ?k 2 (indent_array 1 (map json_string (mf_rules m))) (JArr (map JStr (mf_rules m)))"
  proof -
    let ?xs = "map (\<lambda>s. (json_string s, JStr s)) (mf_rules m)"
    have "reads_as (Suc (1 + length ?xs)) (Suc 0) (indent_array 1 (map fst ?xs)) (JArr (map snd ?xs))"
    proof (rule indent_array_reads)
      show "list_all (\<lambda>(t, v). reads_as 1 0 t v) ?xs"
        using assms reads_string by (simp add: manifest_ok_def list_all_iff)
    qed (auto simp: json_string_def)
    then have "reads_as (Suc (1 + length ?xs)) (Suc 0) (indent_array 1 (map json_string (mf_rules m)))
      (JArr (map JStr (mf_rules m)))" by (simp add: comp_def)
    then show ?thesis by (rule reads_mono) simp_all
  qed
  have "reads_as (Suc (?k + length (manifest_members m))) (Suc 2)
      (indent_struct 0 (map (\<lambda>(key, t, v). (key, t)) (manifest_members m))) (members_value (manifest_members m))"
    by (rule indent_struct_reads) (use skills rules in \<open>auto simp: manifest_members_def well_formed_keys\<close>)
  then have r: "reads_as (?k + 3) 3 (manifest_json m) (members_value (manifest_members m))"
    by (simp add: manifest_json_def manifest_members_def)
  have block: "length xs \<le> length (indent_array d xs)" if "\<And>x. x \<in> set xs \<Longrightarrow> x \<noteq> []" for d xs
    using length_join_ge [where xs = xs and sep = "'','' @ json_newline (d + 1)"] that
    by (simp add: indent_array_def indent_block_def le_SucI trans_le_add2)
  have "length (mf_skills m) \<le> length (indent_array 1 (map loaded_json (mf_skills m)))"
    using block [of "map loaded_json (mf_skills m)" 1]
    by (auto simp: loaded_json_def indent_struct_def indent_block_def)
  moreover have "length (mf_rules m) \<le> length (indent_array 1 (map json_string (mf_rules m)))"
    using block [of "map json_string (mf_rules m)" 1] by (auto simp: json_string_def)
  moreover have "length (indent_array 1 (map loaded_json (mf_skills m))) +
      length (indent_array 1 (map json_string (mf_rules m))) + 10 \<le> length (manifest_json m)"
    by (simp add: manifest_json_def indent_struct_def indent_block_def json_string_def json_newline_def)
  ultimately have "?k + 3 \<le> 2 * length (manifest_json m) + 2" by linarith
  then show ?thesis
    by (rule unmarshal_reads [OF r]) (simp_all add: max_nesting_def json_ws_def nl_def)
qed

lemma decode_manifest_members: "decode_manifest (members_value (manifest_members m)) = Some m"
proof -
  have f: "struct_field [''skills'', ''rules''] ''skills'' = Some ''skills''"
    "struct_field [''skills'', ''rules''] ''rules'' = Some ''rules''"
    by (simp_all add: struct_field_def)
  have s: "decode_slice decode_loaded (JArr (map (\<lambda>l. members_value (loaded_members l)) ls)) = Some ls" for ls
    using opt_all_map [of ls decode_loaded "\<lambda>l. members_value (loaded_members l)" id]
    by (simp add: decode_slice_def decode_loaded_members)
  have r: "decode_slice (\<lambda>u. decode_string u []) (JArr (map JStr rs)) = Some rs" for rs
    using opt_all_map [of rs "\<lambda>u. decode_string u []" JStr id]
    by (simp add: decode_slice_def decode_string_def)
  have "members_value (manifest_members m) =
      JObj [(''skills'', JArr (map (\<lambda>l. members_value (loaded_members l)) (mf_skills m))),
        (''rules'', JArr (map JStr (mf_rules m)))]"
    by (subst members_value_def) (simp add: manifest_members_def)
  then show ?thesis
    by (simp add: decode_manifest_def decode_struct_def f set_manifest_field_def s r empty_manifest_def)
qed

text \<open>
  C24: the harness reads from the skills root exactly the manifest the loader wrote there, skills and rules
  in their order.
\<close>

theorem manifest_roundtrip:
  assumes "manifest_ok m"
    and "fs_read_file F (path_join dir ManifestFile) w = (Inr (manifest_json m @ [nl]), w')"
  shows "ReadManifest F dir w = (Inr m, w')"
  using assms(2) by (simp add: ReadManifest_def manifest_reads [OF assms(1)] decode_manifest_members)


definition sample_manifest :: manifest where
  "sample_manifest =
     \<lparr>mf_skills = [\<lparr>ld_name = ''fix'', ld_description = ''It <fixes> it'', ld_type = ''rule'',
        ld_source = ''card'', ld_path = []\<rparr>],
      mf_rules = [''fix'']\<rparr>"

lemma manifest_roundtrip_witness:
  "ReadManifest (tree_fs [] [] [(''/skills/.konveyor-skills.json'', manifest_json sample_manifest @ [nl])])
     ''/skills'' () = (Inr sample_manifest, ())"
proof (rule manifest_roundtrip)
  show "manifest_ok sample_manifest"
    by (auto simp: manifest_ok_def sample_manifest_def loaded_ok_def ascii_def byte_def intro!: ascii_well_formed)
  have "path_join ''/skills'' ManifestFile = ''/skills/.konveyor-skills.json''" by code_simp
  moreover have "path_clean ''/skills/.konveyor-skills.json'' = ''/skills/.konveyor-skills.json''" by code_simp
  ultimately show "fs_read_file (tree_fs [] [] [(''/skills/.konveyor-skills.json'', manifest_json sample_manifest @ [nl])])
      (path_join ''/skills'' ManifestFile) () = (Inr (manifest_json sample_manifest @ [nl]), ())"
    by (simp add: tree_fs_def Let_def follow_def found_or_def)
qed

end
