(* ===== verification/SkillLoaderProperties.thy ===== *)
theory SkillLoaderProperties
  imports SampleFiles SkillFormatProperties SkillLoader
begin

text \<open>
  What the loader promises: the check accepts exactly the usable candidates, a failure before the assembly
  leaves the skills root alone, an assembly stays below it, and declared sources keep their order.
\<close>

section \<open>The check\<close>

text \<open>The front matter of every candidate, one file after another.\<close>

fun read_all :: "'w fs \<Rightarrow> yaml_decoder \<Rightarrow> candidate list \<Rightarrow> 'w \<Rightarrow> frontmatter res list \<times> 'w" where
  "read_all F Y [] w = ([], w)"
| "read_all F Y (c # cs) w =
     (case readFrontmatter F Y (path_join (cn_dir c) SkillFile) w of
        (r, w1) \<Rightarrow> (case read_all F Y cs w1 of (rs, w2) \<Rightarrow> (r # rs, w2)))"

text \<open>
  Usable candidates: every header is valid, no name occurs twice, every load policy is known.
\<close>

definition usable :: "candidate list \<Rightarrow> frontmatter res list \<Rightarrow> bool" where
  "usable cs rs \<longleftrightarrow>
     list_all (\<lambda>r. \<exists>fm. r = Inr fm) rs \<and> distinct (map (fr_name \<circ> projr) rs) \<and>
     list_all (\<lambda>c. cn_type c \<in> {[], TypeSkill, TypeRule}) cs"

definition assembled :: "candidate \<Rightarrow> frontmatter res \<Rightarrow> loaded_skill" where
  "assembled c r = loaded_of (projr r) (if cn_type c = [] then TypeSkill else cn_type c) c"

lemma load_policy_known:
  "load_policy t = (if t \<in> {[], TypeSkill, TypeRule} then Some (if t = [] then TypeSkill else t) else None)"
  by (simp add: load_policy_def)

lemma check_candidate_problems:
  "ck_problems (check_candidate c r acc) = [] \<longleftrightarrow>
     ck_problems acc = [] \<and> (\<exists>fm. r = Inr fm \<and> map_of (ck_by_name acc) (fr_name fm) = None) \<and>
     cn_type c \<in> {[], TypeSkill, TypeRule}"
  by (cases r) (auto simp: check_candidate_def add_problem_def load_policy_known Let_def split: option.splits)

lemma check_candidate_ok:
  assumes "map_of (ck_by_name acc) (fr_name fm) = None" and "cn_type c \<in> {[], TypeSkill, TypeRule}"
  shows "check_candidate c (Inr fm) acc =
    acc\<lparr>ck_by_name := (fr_name fm, c) # ck_by_name acc,
        ck_loaded := ck_loaded acc @ [assembled c (Inr fm)]\<rparr>"
  using assms by (simp add: check_candidate_def load_policy_known Let_def assembled_def)

lemma read_all_length: "read_all F Y cs w = (rs, w') \<Longrightarrow> length rs = length cs"
  by (induction cs arbitrary: w rs w') (auto split: prod.splits)

lemma check_loop_problems:
  "ck_problems acc \<noteq> [] \<Longrightarrow> check_loop F Y cs acc w = (acc', w') \<Longrightarrow> ck_problems acc' \<noteq> []"
proof (induction cs arbitrary: acc w)
  case (Cons c cs)
  obtain r w1 where rd: "readFrontmatter F Y (path_join (cn_dir c) SkillFile) w = (r, w1)" by (metis surj_pair)
  have "ck_problems (check_candidate c r acc) \<noteq> []"
    using Cons.prems(1) check_candidate_problems by blast
  from Cons.IH [OF this] Cons.prems(2) rd show ?case by simp
qed simp

lemma check_loop_spec:
  assumes "read_all F Y cs w = (rs, w1)" and "check_loop F Y cs acc w = (acc', w2)" and "ck_problems acc = []"
  shows "w2 = w1 \<and>
    (ck_problems acc' = [] \<longleftrightarrow>
       usable cs rs \<and> (\<forall>r \<in> set rs. map_of (ck_by_name acc) (fr_name (projr r)) = None)) \<and>
    (ck_problems acc' = [] \<longrightarrow>
       ck_loaded acc' = ck_loaded acc @ map2 assembled cs rs \<and>
       ck_by_name acc' = rev (zip (map (fr_name \<circ> projr) rs) cs) @ ck_by_name acc)"
  using assms
proof (induction cs arbitrary: w rs acc)
  case Nil
  then show ?case by (auto simp: usable_def)
next
  case (Cons c cs)
  obtain r w0 where rd: "readFrontmatter F Y (path_join (cn_dir c) SkillFile) w = (r, w0)" by (metis surj_pair)
  obtain rs' where ra: "read_all F Y cs w0 = (rs', w1)" and rs: "rs = r # rs'"
    using Cons.prems(1) rd by (auto split: prod.splits)
  have cl: "check_loop F Y cs (check_candidate c r acc) w0 = (acc', w2)"
    using Cons.prems(2) rd by simp
  show ?case
  proof (cases "ck_problems (check_candidate c r acc) = []")
    case False
    then have "ck_problems acc' \<noteq> []" using check_loop_problems [OF _ cl] by blast
    moreover have "w2 = w1"
      using ra cl by (induction cs arbitrary: w0 rs' acc r c) (auto split: prod.splits)
    moreover have "\<not> (usable (c # cs) (r # rs') \<and> map_of (ck_by_name acc) (fr_name (projr r)) = None)"
      using False Cons.prems(3) unfolding check_candidate_problems by (auto simp: usable_def)
    ultimately show ?thesis using rs by auto
  next
    case True
    then obtain fm where fm: "r = Inr fm" "map_of (ck_by_name acc) (fr_name fm) = None"
      and t: "cn_type c \<in> {[], TypeSkill, TypeRule}"
      unfolding check_candidate_problems by blast
    note ok = check_candidate_ok [OF fm(2) t]
    define new where "new \<longleftrightarrow> (\<forall>x \<in> set rs'. fr_name (projr x) \<noteq> fr_name fm)"
    have seen: "(\<forall>x \<in> set rs'. map_of ((fr_name fm, c) # ck_by_name acc) (fr_name (projr x)) = None) \<longleftrightarrow>
        new \<and> (\<forall>x \<in> set rs'. map_of (ck_by_name acc) (fr_name (projr x)) = None)"
      by (auto simp: new_def)
    have use: "usable (c # cs) (Inr fm # rs') \<longleftrightarrow> usable cs rs' \<and> new"
      using t by (auto simp: usable_def new_def image_iff)
    have all: "(\<forall>x \<in> set (Inr fm # rs'). map_of (ck_by_name acc) (fr_name (projr x)) = None) \<longleftrightarrow>
        (\<forall>x \<in> set rs'. map_of (ck_by_name acc) (fr_name (projr x)) = None)"
      using fm(2) by simp
    have "ck_by_name (check_candidate c r acc) = (fr_name fm, c) # ck_by_name acc"
      and "ck_loaded (check_candidate c r acc) = ck_loaded acc @ [assembled c (Inr fm)]"
      using ok fm(1) by simp_all
    with Cons.IH [OF ra cl True] show ?thesis
      unfolding rs fm(1) use all by (simp add: seen del: map_of.simps)
  qed
qed

lemma check_spec:
  assumes "read_all F Y cs w = (rs, w1)" and "check F Y cs w = ((ls, byName, e), w2)"
  shows "w2 = w1 \<and> (e = None \<longleftrightarrow> usable cs rs) \<and>
    (e = None \<longrightarrow> ls = map2 assembled cs rs \<and> byName = rev (zip (map (fr_name \<circ> projr) rs) cs))"
proof -
  obtain acc w3 where cl: "check_loop F Y cs empty_check w = (acc, w3)" by (metis surj_pair)
  with assms(2) have "ls = ck_loaded acc" "byName = ck_by_name acc" "e = check_error (ck_problems acc)" "w3 = w2"
    by (simp_all add: check_def)
  with check_loop_spec [OF assms(1) cl] show ?thesis
    by (auto simp: empty_check_def check_error_def)
qed

text \<open>
  C23: the check reports no problem exactly when every candidate has a valid header, the names differ and
  the load policies are known; it then yields one skill per candidate, in order, and knows for each name
  the candidate that has it.
\<close>

theorem check_accepts_iff:
  assumes "read_all F Y cs w = (rs, w1)" and "check F Y cs w = ((ls, byName, e), w2)"
  shows "w2 = w1 \<and> (e = None \<longleftrightarrow> usable cs rs) \<and>
    (e = None \<longrightarrow> ls = map2 assembled cs rs \<and> byName = rev (zip (map (fr_name \<circ> projr) rs) cs))"
  using check_spec [OF assms] .

section \<open>What the loader writes\<close>

text \<open>A valid header has a name that is a path segment.\<close>

lemma valid_name_comp: "ValidName n = None \<Longrightarrow> proper_comp n"
  using ValidName_no_slash [of n] unfolding ValidName_rules
  by (auto simp: proper_comp_def slash_def list_all_iff name_char_def less_eq_char_def)

lemma read_name_comp:
  assumes "readFrontmatter F Y p w = (Inr fm, w1)"
  shows "proper_comp (fr_name fm)"
proof -
  obtain content where "ParseAndValidate Y content = Inr fm"
    using assms by (auto simp: readFrontmatter_def split: prod.splits sum.splits)
  then have "Validate fm = None"
    by (auto simp: ParseAndValidate_def split: sum.splits option.splits)
  then have "ValidName (fr_name fm) = None"
    by (auto simp: Validate_def split: if_splits option.splits)
  then show ?thesis by (rule valid_name_comp)
qed

lemma read_all_names:
  "read_all F Y cs w = (rs, w1) \<Longrightarrow> Inr fm \<in> set rs \<Longrightarrow> proper_comp (fr_name fm)"
  by (induction cs arbitrary: w rs) (auto split: prod.splits dest: read_name_comp)

lemma check_names:
  assumes "check F Y cs w = ((ls, byName, None), w2)" and "l \<in> set ls"
  shows "proper_comp (ld_name l)"
proof -
  obtain rs w1 where ra: "read_all F Y cs w = (rs, w1)" by (metis surj_pair)
  have ls: "ls = map2 assembled cs rs" and ok: "list_all (\<lambda>r. \<exists>fm. r = Inr fm) rs"
    using check_spec [OF ra assms(1)] by (auto simp: usable_def)
  from assms(2) obtain c r where "(c, r) \<in> set (zip cs rs)" and l: "l = assembled c r"
    unfolding ls by auto
  then have "r \<in> set rs" by (auto dest: set_zip_rightD)
  with ok obtain fm where "r = Inr fm" by (auto simp: list_all_iff)
  with read_all_names [OF ra] \<open>r \<in> set rs\<close> l show ?thesis by (simp add: assembled_def loaded_of_def)
qed

text \<open>Git that notes what it changes: the clone and the checkout.\<close>

definition traced_git :: "'w git_lib \<Rightarrow> ('w \<times> file_op list) git_lib" where
  "traced_git G =
     \<lparr>gl_branch_name = gl_branch_name G,
      gl_tag_name = gl_tag_name G,
      gl_clone = (\<lambda>d opts. noted (\<lambda>_. [OpGit d]) (gl_clone G d opts)),
      gl_worktree = (\<lambda>d. unnoted (gl_worktree G d)),
      gl_resolve = (\<lambda>d r. unnoted (gl_resolve G d r)),
      gl_checkout = (\<lambda>d h. noted (\<lambda>_. [OpGit d]) (gl_checkout G d h))\<rparr>"

text \<open>
  Operations on the temporary directories of a set, and a trace of which every operation is one of those
  or else allowed.
\<close>

definition temp_op :: "string set \<Rightarrow> file_op \<Rightarrow> bool" where
  "temp_op T op =
     (case op of OpTemp _ \<Rightarrow> True | OpGit d \<Rightarrow> d \<in> T | OpRemoveAll d \<Rightarrow> d \<in> T | _ \<Rightarrow> False)"

definition temps_of :: "file_op list \<Rightarrow> string set" where
  "temps_of ops = {t. OpTemp t \<in> set ops}"

definition obeys :: "(file_op \<Rightarrow> bool) \<Rightarrow> string set \<Rightarrow> 'w \<times> file_op list \<Rightarrow> bool" where
  "obeys A T s \<longleftrightarrow>
     T \<subseteq> temps_of (snd s) \<and> list_all (\<lambda>op. A op \<or> temp_op (temps_of (snd s)) op) (snd s)"

lemma temps_of_append [simp]: "temps_of (a @ b) = temps_of a \<union> temps_of b"
  by (auto simp: temps_of_def)

lemma temp_op_mono: "temp_op T op \<Longrightarrow> T \<subseteq> U \<Longrightarrow> temp_op U op"
  by (auto simp: temp_op_def split: file_op.splits)

lemma obeys_append:
  assumes "obeys A T s" and "list_all (\<lambda>op. A op \<or> temp_op T op) new"
  shows "obeys A (T \<union> temps_of new) (w, snd s @ new)"
  using assms temp_op_mono unfolding obeys_def list_all_iff by simp blast

lemma obeys_step:
  assumes "obeys A T s" and "list_all (\<lambda>op. A op \<or> temp_op T op) new" and "snd s' = snd s @ new"
  shows "obeys A T s'"
  using obeys_append [OF assms(1,2), of "fst s'"] assms(3) by (cases s') (simp add: obeys_def)

lemma unnoted_obeys: "unnoted f s = (r, s') \<Longrightarrow> obeys A T s \<Longrightarrow> obeys A T s'"
  by (auto simp: unnoted_def obeys_def split: prod.splits)

lemma noted_obeys:
  assumes "noted op f s = (r, s')" and "obeys A T s" and "list_all (\<lambda>o1. A o1 \<or> temp_op T o1) (op r)"
  shows "obeys A T s'"
proof (rule obeys_step [OF assms(2,3)])
  show "snd s' = snd s @ op r" using assms(1) by (auto simp: noted_def split: prod.splits)
qed

text \<open>Reads keep such a trace, and so do the operations on a temporary directory of the set.\<close>

lemma traced_stepD:
  "fs_stat (traced F) p s = (r1, s') \<Longrightarrow> obeys A T s \<Longrightarrow> obeys A T s'"
  "fs_read_dir (traced F) p s = (r2, s') \<Longrightarrow> obeys A T s \<Longrightarrow> obeys A T s'"
  "fs_read_file (traced F) p s = (r3, s') \<Longrightarrow> obeys A T s \<Longrightarrow> obeys A T s'"
  "fs_mkdir_temp (traced F) p s = (Inl e, s') \<Longrightarrow> obeys A T s \<Longrightarrow> obeys A T s'"
  "fs_remove_all (traced F) d s = (r4, s') \<Longrightarrow> obeys A T s \<Longrightarrow> d \<in> T \<Longrightarrow> obeys A T s'"
  "gl_clone (traced_git G) d opts s = (r5, s') \<Longrightarrow> obeys A T s \<Longrightarrow> d \<in> T \<Longrightarrow> obeys A T s'"
  "gl_worktree (traced_git G) d s = (r6, s') \<Longrightarrow> obeys A T s \<Longrightarrow> obeys A T s'"
  "gl_resolve (traced_git G) d ref s = (r7, s') \<Longrightarrow> obeys A T s \<Longrightarrow> obeys A T s'"
  "gl_checkout (traced_git G) d h s = (r8, s') \<Longrightarrow> obeys A T s \<Longrightarrow> d \<in> T \<Longrightarrow> obeys A T s'"
  by (auto simp: traced_def traced_git_def temp_op_def elim: unnoted_obeys noted_obeys)

lemma traced_temp_obeys:
  assumes "obeys A T s" and "fs_mkdir_temp (traced F) p s = (Inr t, s')"
  shows "obeys A (insert t T) s'"
proof -
  obtain w where s': "s' = (w, snd s @ [OpTemp t])"
    using assms(2) by (auto simp: traced_def noted_def split: prod.splits)
  have "temps_of [OpTemp t] = {t}" by (auto simp: temps_of_def)
  with obeys_append [OF assms(1), of "[OpTemp t]" w] show ?thesis
    by (simp add: s' temp_op_def)
qed

lemma probes_obey:
  "path_exists (traced F) p s = (b, s') \<Longrightarrow> obeys A T s \<Longrightarrow> obeys A T s'"
  "is_directory (traced F) p s = (b, s') \<Longrightarrow> obeys A T s \<Longrightarrow> obeys A T s'"
  "readFrontmatter (traced F) Y p s = (r, s') \<Longrightarrow> obeys A T s \<Longrightarrow> obeys A T s'"
  by (auto simp: path_exists_def is_directory_def readFrontmatter_def split: prod.splits sum.splits
      dest: traced_stepD)

lemma discover_entries_obey:
  "discover_entries (traced F) dir src es s = (cs, s') \<Longrightarrow> obeys A T s \<Longrightarrow> obeys A T s'"
  by (induction es arbitrary: s cs s')
    (auto simp: Let_def split: if_splits prod.splits bool.splits dest!: probes_obey)

lemma scan_entries_obey:
  "scan_entries (traced F) dir es s = (ss, s') \<Longrightarrow> obeys A T s \<Longrightarrow> obeys A T s'"
  by (induction es arbitrary: s ss s') (auto split: if_splits prod.splits dest!: probes_obey)

lemma find_obeys:
  "discover (traced F) dir src s = (r, s') \<Longrightarrow> obeys A T s \<Longrightarrow> obeys A T s'"
  "scanSrcDir (traced F) dir s = (r2, s') \<Longrightarrow> obeys A T s \<Longrightarrow> obeys A T s'"
  by (auto simp: discover_def scanSrcDir_def split: prod.splits bool.splits sum.splits list.splits if_splits
      dest: probes_obey traced_stepD discover_entries_obey scan_entries_obey)

lemma cloneAndCheckout_obeys:
  "cloneAndCheckout (traced F) (traced_git G) g d s = (r, s') \<Longrightarrow> obeys A T s \<Longrightarrow> d \<in> T \<Longrightarrow> obeys A T s'"
  by (auto simp: cloneAndCheckout_def split: prod.splits option.splits sum.splits dest!: traced_stepD)

lemma clone_obeys:
  "clone (traced F) (traced_git G) name g d s = (r, s') \<Longrightarrow> obeys A T s \<Longrightarrow> d \<in> T \<Longrightarrow> obeys A T s'"
  by (auto simp: clone_def split: prod.splits option.splits if_splits dest: traced_stepD cloneAndCheckout_obeys)


lemma source_root_obeys:
  assumes "source_root (traced F) (traced_git G) dir src s = ((r, tmps), s')" and "obeys A T s"
  shows "obeys A (T \<union> set tmps) s'"
proof (cases "ks_git src")
  case None
  with assms show ?thesis
    by (auto simp: source_root_def Let_def split: prod.splits bool.splits dest!: probes_obey)
next
  case (Some g)
  obtain m s1 where mk: "fs_mkdir_temp (traced F) ''skill-clone-'' s = (m, s1)" by (metis surj_pair)
  show ?thesis
  proof (cases m)
    case (Inl e)
    with assms Some mk show ?thesis
      by (auto simp: source_root_def dest: traced_stepD)
  next
    case (Inr t)
    then have "obeys A (insert t T) s1" using traced_temp_obeys [OF assms(2)] mk by simp
    with assms(1) Some mk Inr show ?thesis
      by (auto simp: source_root_def split: prod.splits option.splits dest!: clone_obeys)
  qed
qed

lemma select_subpath_obeys:
  "select_subpath (traced F) src root s = (r, s') \<Longrightarrow> obeys A T s \<Longrightarrow> obeys A T s'"
  by (auto simp: select_subpath_def split: if_splits prod.splits bool.splits dest!: probes_obey)

lemma collect_source_obeys:
  assumes "collect_source (traced F) (traced_git G) dir declared src s = ((r, tmps), s')" and "obeys A T s"
  shows "obeys A (T \<union> set tmps) s'"
proof (cases "usable_source_name (ks_name src)")
  case False
  with assms show ?thesis by (simp add: collect_source_def)
next
  case True
  obtain r1 t1 s1 where root: "source_root (traced F) (traced_git G) dir src s = ((r1, t1), s1)"
    by (metis surj_pair)
  note o1 = source_root_obeys [OF root assms(2)]
  show ?thesis
  proof (cases r1)
    case (Inl e)
    with True root o1 assms(1) show ?thesis by (simp add: collect_source_def)
  next
    case (Inr d)
    with True root assms(1) have "tmps = t1"
      by (auto simp: collect_source_def split: prod.splits sum.splits)
    with True root Inr o1 assms(1) show ?thesis
      by (auto simp: collect_source_def split: prod.splits sum.splits
          dest!: select_subpath_obeys find_obeys(1))
  qed
qed

lemma collect_sources_obeys:
  "collect_sources (traced F) (traced_git G) dir declared ss s = ((r, tmps), s') \<Longrightarrow> obeys A T s \<Longrightarrow>
     obeys A (T \<union> set tmps) s'"
proof (induction ss arbitrary: T s r tmps s')
  case (Cons x ss)
  obtain r1 t1 s1 where x: "collect_source (traced F) (traced_git G) dir declared x s = ((r1, t1), s1)"
    by (metis surj_pair)
  note o1 = collect_source_obeys [OF x Cons.prems(2)]
  obtain r2 t2 s2 where xs: "collect_sources (traced F) (traced_git G) dir declared ss s1 = ((r2, t2), s2)"
    by (metis surj_pair)
  have o2: "obeys A (T \<union> set t1 \<union> set t2) s2" by (rule Cons.IH [OF xs o1])
  from x xs o1 o2 Cons.prems(1) show ?case
    by (cases r1; cases r2) (auto simp: Un_assoc)
qed simp

lemma collect_obeys:
  "collect (traced F) (traced_git G) opts s = ((r, tmps), s') \<Longrightarrow> obeys A T s \<Longrightarrow>
     obeys A (T \<union> set tmps) s'"
  by (auto simp: collect_def split: if_splits prod.splits sum.splits
      dest!: collect_sources_obeys [where A = A and T = T] find_obeys(2) [where A = A and T = T])

lemma check_obeys:
  "check (traced F) Y cs s = (x, s') \<Longrightarrow> obeys A T s \<Longrightarrow> obeys A T s'"
proof -
  have "check_loop (traced F) Y cs acc s = (acc', s') \<Longrightarrow> obeys A T s \<Longrightarrow> obeys A T s'" for acc acc' s s'
    by (induction cs arbitrary: acc s) (auto split: prod.splits dest!: probes_obey)
  then show "check (traced F) Y cs s = (x, s') \<Longrightarrow> obeys A T s \<Longrightarrow> obeys A T s'"
    by (auto simp: check_def split: prod.splits)
qed

lemma remove_temps_obeys:
  "obeys A T s \<Longrightarrow> set ds \<subseteq> T \<Longrightarrow> obeys A T (remove_temps (traced F) ds s)"
proof (induction ds arbitrary: s)
  case (Cons d ds)
  obtain r s1 where rm: "fs_remove_all (traced F) d s = (r, s1)" by (metis surj_pair)
  have "obeys A T s1" using traced_stepD(5) [OF rm] Cons.prems by simp
  from Cons.IH [OF this] Cons.prems(2) rm show ?case by simp
qed simp

section \<open>The skills root\<close>

text \<open>What an assembly may do to the skills root: everything below it, nothing else.\<close>

definition dest_op :: "string \<Rightarrow> file_op \<Rightarrow> bool" where
  "dest_op dest op =
     (case op of
        OpMkdir p \<Rightarrow> isAncestorOrEqual dest p
      | OpCopy s d \<Rightarrow> isAncestorOrEqual dest d
      | OpWrite p \<Rightarrow> p = path_join dest ManifestFile
      | OpRemove p \<Rightarrow> p = path_join dest ManifestFile
      | OpRemoveAll p \<Rightarrow> (\<exists>n. proper_comp n \<and> p = path_join dest n)
      | _ \<Rightarrow> False)"

text \<open>Operations that \<open>A\<close> allows keep the trace.\<close>

lemma allowed_obeys:
  assumes "obeys A T s"
  shows "A (OpMkdir p) \<Longrightarrow> fs_mkdir_all (traced F) p s = (r, s') \<Longrightarrow> obeys A T s'"
    and "A (OpRemove p) \<Longrightarrow> fs_remove (traced F) p s = (r, s') \<Longrightarrow> obeys A T s'"
    and "A (OpRemoveAll p) \<Longrightarrow> fs_remove_all (traced F) p s = (r, s') \<Longrightarrow> obeys A T s'"
    and "A (OpWrite p) \<Longrightarrow> fs_write_file (traced F) p b s = (r, s') \<Longrightarrow> obeys A T s'"
    and "A (OpCopy q p) \<Longrightarrow> fs_copy (traced F) q p m s = (r, s') \<Longrightarrow> obeys A T s'"
  using assms by (auto simp: traced_def elim: noted_obeys)

lemma clear_manifest_obeys:
  "clear_manifest (traced F) dest s = (r, s') \<Longrightarrow> obeys (dest_op dest) T s \<Longrightarrow> obeys (dest_op dest) T s'"
  by (auto simp: clear_manifest_def dest_op_def split: prod.splits option.splits dest: allowed_obeys(2) [rotated 2])

lemma writeManifest_obeys:
  "writeManifest (traced F) dest m s = (r, s') \<Longrightarrow> obeys (dest_op dest) T s \<Longrightarrow> obeys (dest_op dest) T s'"
  by (auto simp: writeManifest_def dest_op_def split: prod.splits option.splits
      dest!: allowed_obeys(1) [rotated 2, where A = "dest_op dest" and T = T]
        allowed_obeys(4) [rotated 2, where A = "dest_op dest" and T = T])

lemma prune_obeys:
  fixes F :: "'w fs"
  assumes "names_ok F" and "prune (traced F) dest keep s = (r, s')" and "obeys (dest_op dest) T s"
  shows "obeys (dest_op dest) T s'"
proof -
  obtain x s1 where rd: "fs_read_dir (traced F) dest s = (x, s1)" by (metis surj_pair)
  have o1: "obeys (dest_op dest) T s1" using traced_stepD(2) [OF rd assms(3)] .
  show ?thesis
  proof (cases x)
    case (Inl e)
    with assms(2) rd o1 show ?thesis by (simp add: prune_def)
  next
    case (Inr es)
    have n: "list_all (\<lambda>e. proper_comp (de_name e)) es"
      using rd Inr assms(1) names_traced [of F] unfolding names_ok_def by blast
    have "obeys (dest_op dest) T (snd (run_each (prune_entry (traced F) dest keep) es s1))"
    proof (rule run_each_keeps [where P = "obeys (dest_op dest) T"])
      show "obeys (dest_op dest) T s1" by (rule o1)
      fix e and s2 :: "'w \<times> file_op list"
      assume e: "e \<in> set es" and o2: "obeys (dest_op dest) T s2"
      obtain y s3 where rm: "fs_remove_all (traced F) (path_join dest (de_name e)) s2 = (y, s3)"
        by (metis surj_pair)
      have "dest_op dest (OpRemoveAll (path_join dest (de_name e)))"
        using n e by (auto simp: dest_op_def list_all_iff)
      from allowed_obeys(3) [OF o2 this rm] o2 rm
      show "obeys (dest_op dest) T (snd (prune_entry (traced F) dest keep e s2))"
        by (simp add: prune_entry_def split: option.split)
    qed
    with assms(2) rd Inr show ?thesis by (simp add: prune_def)
  qed
qed

lemma below_dest:
  assumes "clean_abs dest" and "proper_comp n" and "below k (path_join dest n) p"
  shows "isAncestorOrEqual dest p"
proof -
  note j = path_join_comps [OF assms(1,2)]
  have "prefix (comps dest @ [n]) (comps p)"
    using assms(3) ancestor_iff_prefix [OF j(1)] j(2) by (auto simp: below_def)
  then have "prefix (comps dest) (comps p)" by (rule append_prefixD)
  with assms show ?thesis using ancestor_iff_prefix by (auto simp: below_def)
qed

lemma copyTree_obeys:
  fixes F :: "'w fs"
  assumes "names_ok F" and "clean_abs dest" and "proper_comp n"
    and "copyTree (traced F) src (path_join dest n) s = (r, s')" and "obeys (dest_op dest) T s"
  shows "obeys (dest_op dest) T s'"
proof -
  let ?P = "obeys (dest_op dest) T :: 'w \<times> file_op list \<Rightarrow> bool"
  have reads: "reads_keep (traced F) ?P"
    by (auto simp: reads_keep_def traced_def unnoted_def obeys_def split: prod.splits)
  have "copies_keep (traced F) ?P (\<lambda>_. True) (path_join dest n)"
    unfolding copies_keep_def
  proof (intro conjI allI impI)
    fix k p w assume o1: "?P w" and b: "below k (path_join dest n) p"
    obtain y w1 where mk: "fs_mkdir_all (traced F) p w = (y, w1)" by (metis surj_pair)
    have "dest_op dest (OpMkdir p)" using below_dest [OF assms(2,3) b] by (simp add: dest_op_def)
    from allowed_obeys(1) [OF o1 this mk] mk show "?P (snd (fs_mkdir_all (traced F) p w))" by simp
  next
    fix k q d m w assume o1: "?P w" and b: "below (Suc k) (path_join dest n) d"
    obtain y w1 where cp: "fs_copy (traced F) q d m w = (y, w1)" by (metis surj_pair)
    have "dest_op dest (OpCopy q d)" using below_dest [OF assms(2,3) b] by (simp add: dest_op_def)
    from allowed_obeys(5) [OF o1 this cp] cp show "?P (snd (fs_copy (traced F) q d m w))" by simp
  qed
  note keeps = copyDir_keeps [OF names_traced [THEN iffD2, OF assms(1)] reads _ _ this
      path_join_comps(1) [OF assms(2,3)], simplified]
  obtain x s1 where ev: "fs_eval_symlinks (traced F) src s = (x, s1)" by (metis surj_pair)
  have o1: "?P s1" using reads_keepD(5) [OF reads assms(5) ev] .
  show ?thesis
  proof (cases x)
    case (Inl e)
    with assms(4) ev o1 show ?thesis by (simp add: copyTree_def)
  next
    case (Inr root)
    have "?P (snd (copyDir (traced F) root root (path_join dest n) 0 s1))"
      using keeps below_self [OF path_join_comps(1) [OF assms(2,3)]] o1 by blast
    with assms(4) ev Inr show ?thesis by (simp add: copyTree_def)
  qed
qed


lemma assemble_skill_obeys:
  assumes "names_ok F" and "clean_abs dest" and "proper_comp (ld_name l)"
    and "assemble_skill (traced F) dest byName l s = (r, s')" and "obeys (dest_op dest) T s"
  shows "obeys (dest_op dest) T s'"
proof -
  obtain x s1 where rm: "fs_remove_all (traced F) (path_join dest (ld_name l)) s = (x, s1)"
    by (metis surj_pair)
  have "dest_op dest (OpRemoveAll (path_join dest (ld_name l)))"
    using assms(3) by (auto simp: dest_op_def)
  note o1 = allowed_obeys(3) [OF assms(5) this rm]
  define src where "src = (case map_of byName (ld_name l) of None \<Rightarrow> [] | Some c \<Rightarrow> cn_dir c)"
  obtain y s2 where cp: "copyTree (traced F) src (path_join dest (ld_name l)) s1 = (y, s2)"
    by (metis surj_pair)
  note o2 = copyTree_obeys [OF assms(1,2,3) cp o1]
  have "s' = s1 \<or> s' = s2"
    using assms(4) rm cp unfolding assemble_skill_def Let_def src_def [symmetric]
    by (auto split: option.splits)
  with o1 o2 show ?thesis by blast
qed

lemma assemble_obeys:
  fixes F :: "'w fs"
  assumes "names_ok F" and "clean_abs dest" and "\<And>l. l \<in> set ls \<Longrightarrow> proper_comp (ld_name l)"
    and "assemble (traced F) dest ls byName s = (r, s')" and "obeys (dest_op dest) T s"
  shows "obeys (dest_op dest) T s'"
proof -
  obtain a s1 where cm: "clear_manifest (traced F) dest s = (a, s1)" by (metis surj_pair)
  note o1 = clear_manifest_obeys [OF cm assms(5)]
  obtain b s2 where pr: "prune (traced F) dest (map ld_name ls) s1 = (b, s2)" by (metis surj_pair)
  note o2 = prune_obeys [OF assms(1) pr o1]
  obtain c s3 where ru: "run_each (assemble_skill (traced F) dest byName) ls s2 = (c, s3)" by (metis surj_pair)
  have "obeys (dest_op dest) T (snd (run_each (assemble_skill (traced F) dest byName) ls s2))"
  proof (rule run_each_keeps [where P = "obeys (dest_op dest) T"])
    show "obeys (dest_op dest) T s2" by (rule o2)
    fix l and s4 :: "'w \<times> file_op list"
    assume l: "l \<in> set ls" and o3: "obeys (dest_op dest) T s4"
    obtain d s5 where as: "assemble_skill (traced F) dest byName l s4 = (d, s5)" by (metis surj_pair)
    from assemble_skill_obeys [OF assms(1,2) assms(3) [OF l] as o3] as
    show "obeys (dest_op dest) T (snd (assemble_skill (traced F) dest byName l s4))" by simp
  qed
  then have o3: "obeys (dest_op dest) T s3" using ru by simp
  obtain d s4 where wr: "writeManifest (traced F) dest \<lparr>mf_skills = ls, mf_rules = rules_of ls\<rparr> s3 = (d, s4)"
    by (metis surj_pair)
  note o4 = writeManifest_obeys [OF wr o3]
  have "s' \<in> {s1, s2, s3, s4}"
    using assms(4) cm pr ru wr by (auto simp: assemble_def split: option.splits)
  with o1 o2 o3 o4 show ?thesis by blast
qed

lemma load_candidates_obeys:
  assumes "names_ok F" and "clean_abs dest"
    and "load_candidates (traced F) Y dest cs s = (r, s')" and "obeys (dest_op dest) T s"
  shows "obeys (dest_op dest) T s'"
proof (cases "cs = []")
  case True
  obtain a s1 where pr: "prune (traced F) dest [] s = (a, s1)" by (metis surj_pair)
  note o1 = prune_obeys [OF assms(1) pr assms(4)]
  from True pr o1 assms(3) show ?thesis
    by (auto simp: load_candidates_def split: option.splits dest: writeManifest_obeys)
next
  case False
  obtain ls byName e s1 where ck: "check (traced F) Y cs s = ((ls, byName, e), s1)"
    by (cases "check (traced F) Y cs s") auto
  note o1 = check_obeys [OF ck assms(4)]
  show ?thesis
  proof (cases e)
    case None
    with False ck assms(3) have "assemble (traced F) dest ls byName s1 = (r, s')"
      by (simp add: load_candidates_def)
    from assemble_obeys [OF assms(1,2) check_names [OF ck [unfolded None]] this o1] show ?thesis .
  next
    case (Some x)
    with False ck assms(3) o1 show ?thesis by (simp add: load_candidates_def)
  qed
qed

lemma obeys_start: "obeys A {} (w, [])"
  by (simp add: obeys_def)

lemma obeys_weaken: "obeys (\<lambda>_. False) T s \<Longrightarrow> obeys A T s"
  by (auto simp: obeys_def list_all_iff)

text \<open>
  C19: a load changes nothing outside the skills root but the temporary directories of its clones: below the
  root it makes directories, copies files, removes whole entries and writes the manifest.
\<close>

theorem load_stays_below_root:
  assumes "names_ok F" and "clean_abs (lo_dest opts)"
    and "Load (traced F) (traced_git G) Y opts (w, []) = (r, (w', ops))"
  shows "list_all (\<lambda>op. dest_op (lo_dest opts) op \<or> temp_op (temps_of ops) op) ops"
proof -
  obtain c tmps s1 where co: "collect (traced F) (traced_git G) opts (w, []) = ((c, tmps), s1)"
    by (metis surj_pair)
  have o1: "obeys (dest_op (lo_dest opts)) (set tmps) s1"
    using collect_obeys [OF co obeys_start] by simp
  have "\<exists>s2. obeys (dest_op (lo_dest opts)) (set tmps) s2 \<and> (w', ops) = remove_temps (traced F) tmps s2"
  proof (cases c)
    case (Inl e)
    with co o1 assms(3) show ?thesis by (intro exI [of _ s1]) (simp add: Load_def)
  next
    case (Inr cs)
    obtain x s2 where lc: "load_candidates (traced F) Y (lo_dest opts) cs s1 = (x, s2)" by (metis surj_pair)
    from load_candidates_obeys [OF assms(1,2) lc o1] co lc Inr assms(3) show ?thesis
      by (intro exI [of _ s2]) (simp add: Load_def)
  qed
  then have "obeys (dest_op (lo_dest opts)) (set tmps) (w', ops)"
    using remove_temps_obeys by fastforce
  then show ?thesis by (simp add: obeys_def)
qed

text \<open>
  C20: all or nothing: if a load does anything at all beside its temporary directories, every source was
  collected and every candidate passed the check before.
\<close>

theorem load_checks_first:
  assumes "Load (traced F) (traced_git G) Y opts (w, []) = (r, (w', ops))"
    and "\<not> list_all (temp_op (temps_of ops)) ops"
  shows "\<exists>cs tmps s1. collect (traced F) (traced_git G) opts (w, []) = ((Inr cs, tmps), s1) \<and>
    usable cs (fst (read_all (traced F) Y cs s1))"
proof -
  obtain c tmps s1 where co: "collect (traced F) (traced_git G) opts (w, []) = ((c, tmps), s1)"
    by (metis surj_pair)
  have o1: "obeys (\<lambda>_. False) (set tmps) s1" using collect_obeys [OF co obeys_start] by simp
  have quiet: False if "obeys (\<lambda>_. False) (set tmps) s2" "(w', ops) = remove_temps (traced F) tmps s2" for s2
    using remove_temps_obeys [OF that(1), of tmps F] that(2) [symmetric] assms(2) by (simp add: obeys_def)
  show ?thesis
  proof (cases c)
    case (Inl e)
    with co assms(1) quiet [OF o1] show ?thesis by (auto simp: Load_def)
  next
    case (Inr cs)
    show ?thesis
    proof (cases "cs = []")
      case True
      with co Inr show ?thesis by (auto simp: usable_def)
    next
      case False
      obtain ls byName e s2 where ck: "check (traced F) Y cs s1 = ((ls, byName, e), s2)"
        by (cases "check (traced F) Y cs s1") auto
      obtain rs s3 where ra: "read_all (traced F) Y cs s1 = (rs, s3)" by (metis surj_pair)
      have "e = None"
      proof (rule ccontr)
        assume "e \<noteq> None"
        with False ck co Inr assms(1) quiet [OF check_obeys [OF ck o1]] show False
          by (auto simp: Load_def load_candidates_def)
      qed
      with check_spec [OF ra ck] ra co Inr show ?thesis by auto
    qed
  qed
qed


section \<open>Declared sources\<close>

lemma discover_entries_source:
  "discover_entries F dir src es w = (cs, w') \<Longrightarrow> \<forall>c \<in> set cs. cn_source c = src"
  by (induction es arbitrary: w cs w')
    (auto simp: Let_def found_at_def split: if_splits prod.splits bool.splits)

lemma discover_found:
  assumes "discover F dir src w = (Inr cs, w')"
  shows "cs \<noteq> [] \<and> (\<forall>c \<in> set cs. cn_source c = src)"
  using assms
  by (auto simp: discover_def found_at_def split: prod.splits bool.splits sum.splits list.splits
      dest!: discover_entries_source)

lemma assembled_fields:
  "length cs = length rs \<Longrightarrow>
     map ld_source (map2 assembled cs rs) = map cn_source cs \<and>
     map ld_type (map2 assembled cs rs) = map (\<lambda>t. if t = [] then TypeSkill else t) (map cn_type cs) \<and>
     map ld_name (map2 assembled cs rs) = map (fr_name \<circ> projr) rs"
  by (induction cs rs rule: list_induct2) (simp_all add: assembled_def loaded_of_def)

lemma collect_declared:
  assumes "collect_source F G dir True s w = ((Inr cs, tmps), w')"
  shows "\<exists>c. cs = [c] \<and> cn_source c = ks_name s \<and> cn_type c = ks_type s"
proof -
  obtain d w1 found where "discover F d (ks_name s) w1 = (Inr found, w')"
    and st: "settle_found True s found = Inr cs"
    using assms by (auto simp: collect_source_def split: if_splits prod.splits sum.splits)
  from discover_found [OF this(1)] obtain c where "found = [c]" "cn_source c = ks_name s"
    using st by (cases found) (auto simp: settle_found_def split: if_splits)
  with st show ?thesis by (auto simp: settle_found_def)
qed

lemma collect_sources_declared:
  "collect_sources F G dir True ss w = ((Inr cs, tmps), w') \<Longrightarrow>
     map cn_source cs = map ks_name ss \<and> map cn_type cs = map ks_type ss"
proof (induction ss arbitrary: w cs tmps w')
  case (Cons s ss)
  then obtain c1 t1 w1 c2 t2 where 1: "collect_source F G dir True s w = ((Inr c1, t1), w1)"
    and 2: "collect_sources F G dir True ss w1 = ((Inr c2, t2), w')" and cs: "cs = c1 @ c2"
    by (auto split: prod.splits sum.splits)
  from collect_declared [OF 1] Cons.IH [OF 2] cs show ?case by auto
qed simp

lemma assemble_manifest:
  "assemble F dest ls byName w = (Inr m, w') \<Longrightarrow> m = \<lparr>mf_skills = ls, mf_rules = rules_of ls\<rparr>"
  by (auto simp: assemble_def writeManifest_def split: prod.splits option.splits)

lemma rules_by_source:
  assumes "map ld_type ls = map (\<lambda>s. if ks_type s = [] then TypeSkill else ks_type s) ss"
  shows "rules_of ls = map (ld_name \<circ> snd) (filter (\<lambda>(s, l). ks_type s = TypeRule) (zip ss ls))"
proof -
  have "length ls = length ss" using assms by (metis length_map)
  then show ?thesis
    using assms
  proof (induction ls ss rule: list_induct2)
    case (Cons l ls s ss)
    have "ld_type l = TypeRule \<longleftrightarrow> ks_type s = TypeRule"
      using Cons.prems by (auto simp: TypeRule_def TypeSkill_def)
    with Cons show ?case by (simp add: rules_of_def)
  qed (simp add: rules_of_def)
qed

text \<open>
  C21: a load of declared sources that succeeds leaves one skill per source, in the order of the declaration,
  with the load policy the source sets, under distinct names that are single path segments; the rules are
  those of the sources declared as such, in that order.
\<close>

theorem declared_sources_in_order:
  assumes "Load F G Y opts w = (Inr m, w')" and "lo_sources opts \<noteq> []"
  shows "map ld_source (mf_skills m) = map ks_name (lo_sources opts) \<and>
    map ld_type (mf_skills m) = map (\<lambda>s. if ks_type s = [] then TypeSkill else ks_type s) (lo_sources opts) \<and>
    distinct (map ld_name (mf_skills m)) \<and> list_all proper_comp (map ld_name (mf_skills m)) \<and>
    mf_rules m = map (ld_name \<circ> snd)
      (filter (\<lambda>(s, l). ks_type s = TypeRule) (zip (lo_sources opts) (mf_skills m)))"
proof -
  obtain cs tmps w1 where co: "collect_sources F G (lo_src opts) True (lo_sources opts) w = ((Inr cs, tmps), w1)"
    and lc: "fst (load_candidates F Y (lo_dest opts) cs w1) = Inr m"
    using assms by (auto simp: Load_def collect_def split: prod.splits sum.splits)
  note decl = collect_sources_declared [OF co]
  have ne: "cs \<noteq> []" using decl assms(2) by auto
  obtain ls byName e w2 where ck: "check F Y cs w1 = ((ls, byName, e), w2)"
    by (cases "check F Y cs w1") auto
  obtain rs w3 where ra: "read_all F Y cs w1 = (rs, w3)" by (metis surj_pair)
  have e: "e = None" using lc ne ck by (cases e) (simp_all add: load_candidates_def)
  have us: "usable cs rs" and ls: "ls = map2 assembled cs rs"
    using check_spec [OF ra ck] e by auto
  obtain w4 where "assemble F (lo_dest opts) ls byName w2 = (Inr m, w4)"
    using lc ne ck e by (cases "assemble F (lo_dest opts) ls byName w2") (auto simp: load_candidates_def)
  then have m: "m = \<lparr>mf_skills = ls, mf_rules = rules_of ls\<rparr>" by (rule assemble_manifest)
  have len: "length rs = length cs" by (rule read_all_length [OF ra])
  have src: "map ld_source ls = map cn_source cs"
    and ty: "map ld_type ls = map (\<lambda>t. if t = [] then TypeSkill else t) (map cn_type cs)"
    and nm: "map ld_name ls = map (fr_name \<circ> projr) rs"
    unfolding ls using assembled_fields [OF len [symmetric]] by blast+
  have ty': "map ld_type ls = map (\<lambda>s. if ks_type s = [] then TypeSkill else ks_type s) (lo_sources opts)"
    unfolding ty using decl by simp
  have "list_all proper_comp (map ld_name ls)"
    using check_names [OF ck [unfolded e]] by (auto simp: list_all_iff)
  moreover have "distinct (map ld_name ls)"
    using us unfolding nm by (simp add: usable_def)
  ultimately show ?thesis
    unfolding m using src decl ty' rules_by_source [OF ty'] by simp
qed


section \<open>A load of the sample volume\<close>

definition fix_yaml :: yaml_decoder where
  "fix_yaml = \<lparr>yd_struct = (\<lambda>h. Inr (''fix'', ''Repairs'')), yd_keys = (\<lambda>h. Inr [''name''])\<rparr>"

definition idle_git :: "'w git_lib" where
  "idle_git = \<lparr>gl_branch_name = id, gl_tag_name = id, gl_clone = (\<lambda>d opts w. (None, w)),
     gl_worktree = (\<lambda>d w. (None, w)), gl_resolve = (\<lambda>d r w. (Inr r, w)),
     gl_checkout = (\<lambda>d h w. (None, w))\<rparr>"

definition fix_options :: load_options where
  "fix_options = \<lparr>lo_src = ''/src'', lo_dest = ''/skills'',
     lo_sources = [\<lparr>ks_name = ''fix'', ks_subpath = [], ks_type = ''rule'', ks_git = None\<rparr>]\<rparr>"

definition fix_skill :: loaded_skill where
  "fix_skill = \<lparr>ld_name = ''fix'', ld_description = ''Repairs'', ld_type = ''rule'',
     ld_source = ''fix'', ld_path = []\<rparr>"

definition fix_candidate :: candidate where
  "fix_candidate = \<lparr>cn_dir = ''/src/fix'', cn_source = ''fix'', cn_path = [], cn_type = ''rule''\<rparr>"

lemma fix_collect:
  "collect (traced volume_fs) (traced_git idle_git) fix_options ((), []) = ((Inr [fix_candidate], []), ((), []))"
  by code_simp

definition fix_rest :: string where
  "fix_rest = ''name: fix'' @ [nl] @ ''---'' @ [nl]"

definition fix_text :: string where
  "fix_text = ''---'' @ [nl] @ fix_rest"

definition fix_header :: frontmatter where
  "fix_header = \<lparr>fr_name = ''fix'', fr_description = ''Repairs'', fr_extra = []\<rparr>"

lemma fix_parse: "ParseAndValidate fix_yaml fix_text = Inr fix_header"
proof -
  have cut: "cutOpeningFence fix_text = Some fix_rest" and close: "findClosingFence fix_rest = Some 10"
    by code_simp+
  have words: "plain_word ''fix''" "plain_word ''Repairs''"
    by (simp_all add: plain_word_def byte_def space_rune_def)
  have "ValidName ''fix'' = None"
    unfolding ValidName_rules by (auto simp: name_char_def less_eq_char_def Cons_eq_append_conv)
  moreover have "rune_count ''Repairs'' \<le> maxDescriptionLen"
    using words(2) by (simp add: rune_count_ascii plain_word_ascii maxDescriptionLen_def)
  ultimately show ?thesis
    by (simp add: ParseAndValidate_def Parse_def cut close decode_header_def fix_yaml_def fix_header_def
        trim_space_word words Validate_def allowedFields_def)
qed

lemma check_of_read:
  assumes "fs_read_file F (path_join ''/src/fix'' SkillFile) w = (Inr fix_text, w)"
  shows "check F fix_yaml [fix_candidate] w = (([fix_skill], [(''fix'', fix_candidate)], None), w)"
proof -
  have "readFrontmatter F fix_yaml (path_join ''/src/fix'' SkillFile) w = (Inr fix_header, w)"
    by (simp add: readFrontmatter_def assms fix_parse)
  then show ?thesis
    by (simp add: check_def fix_candidate_def empty_check_def check_candidate_def load_policy_known Let_def
        TypeRule_def fix_header_def loaded_of_def fix_skill_def check_error_def)
qed

lemma fix_check:
  "check (traced volume_fs) fix_yaml [fix_candidate] ((), []) =
     (([fix_skill], [(''fix'', fix_candidate)], None), ((), []))"
  by (rule check_of_read) code_simp

lemma fix_copy:
  "clear_manifest (traced volume_fs) ''/skills'' ((), []) = (None, ((), [OpRemove ''/skills/.konveyor-skills.json'']))"
  "prune (traced volume_fs) ''/skills'' [''fix''] ((), ops) = (None, ((), ops @ [OpRemoveAll ''/skills/old'']))"
  "assemble_skill (traced volume_fs) ''/skills'' [(''fix'', fix_candidate)] fix_skill ((), ops) =
     (None, ((), ops @ [OpRemoveAll ''/skills/fix'', OpMkdir ''/skills/fix'', OpMkdir ''/skills/fix'',
        OpCopy ''/src/fix/..data/SKILL.md'' ''/skills/fix/SKILL.md'']))"
  by (code_simp, code_simp, code_simp, simp)

lemma fix_write:
  "writeManifest (traced volume_fs) ''/skills'' m ((), ops) =
     (Inr m, ((), ops @ [OpMkdir ''/skills'', OpWrite ''/skills/.konveyor-skills.json'']))"
proof -
  have "path_join ''/skills'' ManifestFile = ''/skills/.konveyor-skills.json''" by code_simp
  then show ?thesis
    by (simp add: writeManifest_def traced_def noted_def volume_fs_def tree_fs_def Let_def)
qed

lemma fix_load:
  "Load (traced volume_fs) (traced_git idle_git) fix_yaml fix_options ((), []) =
     (Inr \<lparr>mf_skills = [fix_skill], mf_rules = [''fix'']\<rparr>,
      ((), [OpRemove ''/skills/.konveyor-skills.json'', OpRemoveAll ''/skills/old'',
        OpRemoveAll ''/skills/fix'', OpMkdir ''/skills/fix'', OpMkdir ''/skills/fix'',
        OpCopy ''/src/fix/..data/SKILL.md'' ''/skills/fix/SKILL.md'', OpMkdir ''/skills'',
        OpWrite ''/skills/.konveyor-skills.json'']))"
proof -
  have f: "lo_dest fix_options = ''/skills''" "map ld_name [fix_skill] = [''fix'']" "rules_of [fix_skill] = [''fix'']"
    by (simp_all add: fix_options_def fix_skill_def rules_of_def TypeRule_def)
  have each: "run_each (assemble_skill (traced volume_fs) ''/skills'' [(''fix'', fix_candidate)]) [fix_skill] ((), ops) =
      (None, ((), ops @ [OpRemoveAll ''/skills/fix'', OpMkdir ''/skills/fix'', OpMkdir ''/skills/fix'',
        OpCopy ''/src/fix/..data/SKILL.md'' ''/skills/fix/SKILL.md'']))" for ops
    unfolding run_each.simps fix_copy(3) by (simp only: prod.case option.case)
  have a1: "clear_manifest (traced volume_fs) ''/skills'' ((), []) = (None, ((), [OpRemove ''/skills/.konveyor-skills.json'']))"
    by (rule fix_copy)
  have as: "assemble (traced volume_fs) ''/skills'' [fix_skill] [(''fix'', fix_candidate)] ((), []) =
    (Inr \<lparr>mf_skills = [fix_skill], mf_rules = [''fix'']\<rparr>, ((), (([OpRemove ''/skills/.konveyor-skills.json''] @ [OpRemoveAll ''/skills/old'']) @
        [OpRemoveAll ''/skills/fix'', OpMkdir ''/skills/fix'', OpMkdir ''/skills/fix'',
        OpCopy ''/src/fix/..data/SKILL.md'' ''/skills/fix/SKILL.md'']) @ [OpMkdir ''/skills'',
        OpWrite ''/skills/.konveyor-skills.json'']))"
    unfolding assemble_def a1 f(2,3) prod.case option.case fix_copy(2) each fix_write ..
  have ne: "([fix_candidate] = []) = False" by simp
  show ?thesis
    unfolding Load_def fix_collect load_candidates_def f(1) prod.case sum.case fix_check ne if_False option.case as remove_temps.simps append_Cons append_Nil ..
qed

lemma check_accepts_iff_witness:
  "usable [fix_candidate] (fst (read_all volume_fs fix_yaml [fix_candidate] ()))"
proof -
  obtain rs w1 where ra: "read_all volume_fs fix_yaml [fix_candidate] () = (rs, w1)" by (metis surj_pair)
  have "check volume_fs fix_yaml [fix_candidate] () = (([fix_skill], [(''fix'', fix_candidate)], None), ())"
    by (rule check_of_read) code_simp
  from check_accepts_iff [OF ra this] ra show ?thesis by simp
qed

lemma load_stays_below_root_witness:
  "list_all (\<lambda>op. dest_op ''/skills'' op \<or> temp_op {} op)
     [OpRemoveAll ''/skills/old'', OpMkdir ''/skills'', OpWrite ''/skills/.konveyor-skills.json'']"
proof -
  have d: "lo_dest fix_options = ''/skills''" by (simp add: fix_options_def)
  have "clean_abs ''/skills''" by code_simp
  from load_stays_below_root [OF volume_names_ok _ fix_load] this show ?thesis
    unfolding d by (simp add: temps_of_def)
qed

lemma load_checks_first_witness:
  "\<exists>cs tmps s1. collect (traced volume_fs) (traced_git idle_git) fix_options ((), []) = ((Inr cs, tmps), s1) \<and>
    usable cs (fst (read_all (traced volume_fs) fix_yaml cs s1))"
  by (rule load_checks_first [OF fix_load]) (simp add: temp_op_def temps_of_def)

lemma declared_sources_in_order_witness:
  "[''fix''] = map ld_name (mf_skills \<lparr>mf_skills = [fix_skill], mf_rules = [''fix'']\<rparr>)"
proof -
  have "lo_sources fix_options = [\<lparr>ks_name = ''fix'', ks_subpath = [], ks_type = ''rule'', ks_git = None\<rparr>]"
    and rule: "''rule'' = TypeRule"
    by (simp_all add: fix_options_def TypeRule_def)
  with declared_sources_in_order [OF fix_load] show ?thesis by simp
qed

end
