(* ===== verification/SkillHandover.thy ===== *)
theory SkillHandover
  imports SkillWireProperties SkillLoaderProperties
begin

text \<open>
  From the controller to the loader: what \<open>resolveSkillVolumes\<close> declares, written into the environment of
  the init container by \<open>skillLoaderContainer\<close>, is what the \<open>load\<close> command assembles.
\<close>

section \<open>What the controller declares\<close>

definition loadable :: "skill_source \<Rightarrow> bool" where
  "loadable s \<longleftrightarrow>
     ks_type s \<in> {[], TypeSkill, TypeRule} \<and> (case ks_git s of None \<Rightarrow> True | Some g \<Rightarrow> gs_url g \<noteq> [])"

definition declares :: "skill_acc \<Rightarrow> bool" where
  "declares acc \<longleftrightarrow> list_all loadable (sa_declared acc)"

lemma skill_types: "skill_type_text t \<in> {[], TypeSkill, TypeRule}"
  by (cases t) (simp_all add: TypeSkill_def TypeRule_def)

lemma declares_err [simp]: "declares (add_err m acc) = declares acc"
  by (simp add: declares_def add_err_def)

lemma declares_empty: "declares empty_acc"
  by (simp add: declares_def empty_acc_def)

lemma declares_claim:
  assumes "declares acc" and "loadable \<lparr>ks_name = name, ks_subpath = sp, ks_type = t, ks_git = g\<rparr>"
    and "claim L name d sp t g acc = (ok, acc')"
  shows "declares acc'"
proof (cases ok)
  case True
  with claim_accepted [of L name d sp t g acc acc'] assms show ?thesis by (simp add: declares_def)
next
  case False
  with assms show ?thesis by (auto simp: claim_def split: if_splits option.splits)
qed

lemma declares_volume [simp]: "declares (add_volume name src acc) = declares acc"
  by (simp add: declares_def)

lemma declares_addImage:
  "declares acc \<Longrightarrow> t \<in> {[], TypeSkill, TypeRule} \<Longrightarrow> declares (addImage L name sp t img acc)"
  by (auto simp: addImage_def loadable_def split: prod.splits bool.splits dest!: declares_claim [rotated 2])

lemma declares_addInline:
  "declares acc \<Longrightarrow> t \<in> {[], TypeSkill, TypeRule} \<Longrightarrow> declares (addInline L rn name t content acc)"
  by (auto simp: addInline_def loadable_def declares_def split: prod.splits bool.splits
      dest!: declares_claim [rotated 2, unfolded declares_def])

lemma declares_addGit:
  "declares acc \<Longrightarrow> t \<in> {[], TypeSkill, TypeRule} \<Longrightarrow> gs_url g \<noteq> [] \<Longrightarrow> declares (addGit L name sp t g acc)"
  unfolding addGit_def
  by (rule declares_claim [where ok = "fst x" and acc' = "snd x" for x]) (auto simp: loadable_def)

lemma declares_addCard: "declares acc \<Longrightarrow> declares (addCard L rn name sc acc)"
  using skill_types [of "sc_type sc"]
  by (simp add: addCard_def Let_def declares_addImage declares_addInline declares_addGit)

lemma declares_resolve_card: "declares (fst st) \<Longrightarrow> declares (fst (resolve_card C L run f ref st))"
  by (auto simp: resolve_card_def declares_addCard split: prod.splits sum.splits)

lemma declares_entry: "declares (fst st) \<Longrightarrow> declares (fst (resolve_entry C L run c en st))"
  using skill_types [of "ce_type en"]
  by (simp add: resolve_entry_def declares_resolve_card declares_addImage declares_addGit)

lemma declares_fold:
  assumes "\<And>x st. declares (fst st) \<Longrightarrow> declares (fst (f x st))"
  shows "declares (fst st) \<Longrightarrow> declares (fst (fold f xs st))"
  by (induction xs arbitrary: st) (simp_all add: assms)

lemma declares_collection: "declares (fst st) \<Longrightarrow> declares (fst (resolve_collection C L run ref st))"
  by (auto simp: resolve_collection_def resolve_enumerated_def
      intro!: declares_fold declares_entry declares_resolve_card split: prod.splits sum.splits)

lemma resolve_declares:
  assumes "resolveSkillVolumes C L run ag w = (Inr out, w')"
  shows "declares out"
proof -
  let ?st = "fold (resolve_collection C L run) (as_skill_collections (ag_spec ag))
      (fold (resolve_direct C L run) (as_skill_cards (ag_spec ag)) (empty_acc, w))"
  have "declares (fst ?st)"
    by (intro declares_fold)
      (simp_all add: declares_collection resolve_direct_def declares_resolve_card declares_empty)
  moreover have "fst ?st = out"
    using assms by (auto simp: resolveSkillVolumes_def split: prod.splits if_splits)
  ultimately show ?thesis by simp
qed

section \<open>What the loader makes of it\<close>

definition source_text_ok :: "skill_source \<Rightarrow> bool" where
  "source_text_ok s \<longleftrightarrow>
     list_all well_formed ([ks_name s, ks_subpath s, ks_type s] @
       (case ks_git s of None \<Rightarrow> [] | Some g \<Rightarrow> [gs_url g, gs_ref g]))"

text \<open>
  C18: the \<open>load\<close> command of a run's init container assembles exactly the sources the controller resolved, in
  their order: the environment is read back, and no source is refused for its name, its load policy or a
  missing repository.
\<close>

theorem loader_reads_what_controller_declares:
  assumes "resolveSkillVolumes C L run ag w = (Inr out, w')" and "sa_declared out \<noteq> []"
    and "list_all source_text_ok (sa_declared out)"
    and "ev \<in> set (ct_env (skillLoaderContainer img out mounts))" and "getenv (ev_name ev) = ev_value ev"
  shows "loadSkills F G Y src dest getenv w1 =
      (case Load F G Y \<lparr>lo_src = src, lo_dest = dest, lo_sources = sa_declared out\<rparr> w1 of
         (Inl e, w2) \<Rightarrow> (Some e, w2) | (Inr m, w2) \<Rightarrow> (None, w2)) \<and>
    list_all (\<lambda>s. usable_source_name (ks_name s) \<and> load_policy (ks_type s) \<noteq> None) (sa_declared out) \<and>
    distinct (map ks_name (sa_declared out))"
proof -
  have good: "declared_good L out" using resolveSkillVolumes_inv [OF assms(1)] by simp
  have decl: "list_all loadable (sa_declared out)" using resolve_declares [OF assms(1)] by (simp add: declares_def)
  have names: "list_all (\<lambda>s. usable_source_name (ks_name s)) (sa_declared out)"
    using good by (auto simp: declared_good_def usable_name_def usable_source_name_def list_all_iff)
  have "list_all source_ok (sa_declared out)"
    using decl names assms(3)
    by (auto simp: list_all_iff loadable_def source_ok_def usable_source_name_def source_text_ok_def split: option.splits)
  then have p: "parseSources (sources_json (sa_declared out)) = Inr (sa_declared out)"
    by (rule parse_sources_back [OF assms(2)])
  have "ev_name ev = skill_sources_env \<and> ev_value ev = sources_json (sa_declared out)"
    using assms(2,4) by (simp add: skillLoaderContainer_def plain_env_def)
  then have "getenv skill_sources_env = sources_json (sa_declared out)" using assms(5) by simp
  then show ?thesis
    using p names decl good
    by (auto simp: loadSkills_def list_all_iff loadable_def load_policy_known declared_good_def)
qed

lemma loader_reads_what_controller_declares_witness:
  "loadSkills volume_fs idle_git fix_yaml ''/src'' ''/skills'' (\<lambda>k. sources_json (sa_declared card_acc)) () =
     (case Load volume_fs idle_git fix_yaml
        \<lparr>lo_src = ''/src'', lo_dest = ''/skills'', lo_sources = sa_declared card_acc\<rparr> () of
        (Inl e, w2) \<Rightarrow> (Some e, w2) | (Inr m, w2) \<Rightarrow> (None, w2)) \<and>
   distinct (map ks_name (sa_declared card_acc))"
proof -
  let ?ev = "plain_env skill_sources_env (sources_json (sa_declared card_acc))"
  have d: "sa_declared card_acc \<noteq> []" by (simp add: card_acc_def)
  have t: "list_all source_text_ok (sa_declared card_acc)"
    by (auto simp: card_acc_def source_text_ok_def ascii_def byte_def intro!: ascii_well_formed)
  have e: "?ev \<in> set (ct_env (skillLoaderContainer ''loader'' card_acc []))"
    using d by (simp add: skillLoaderContainer_def)
  have v: "(\<lambda>k. sources_json (sa_declared card_acc)) (ev_name ?ev) = ev_value ?ev"
    by (simp add: plain_env_def)
  show ?thesis
    using loader_reads_what_controller_declares [OF sample_resolve d t e v, where F = volume_fs and G = idle_git
        and Y = fix_yaml and src = "''/src''" and dest = "''/skills''"]
    by blast
qed

end
