(* ===== verification/SkillMaterialize.thy ===== *)
theory SkillMaterialize
  imports SkillLoader
begin

text \<open>
  The cards of a collection (\<open>internal/skills/materialize.go\<close>): the enumeration Job writes one SkillCard per
  skill of its source and deletes those the source no longer holds.  The API client is a record of calls.
\<close>

record 'w card_writer =
  cw_connect :: "'w command"
  cw_create_or_update :: "skill_card \<Rightarrow> (skill_card \<Rightarrow> skill_card res) \<Rightarrow> 'w command"
  cw_list :: "string \<Rightarrow> label_selector \<Rightarrow> ('w, skill_card list) call"
  cw_delete :: "skill_card \<Rightarrow> 'w command"

record card_owner =
  ow_name :: string
  ow_uid :: string
  ow_namespace :: string

text \<open>The type is one of those the card's CRD enumerates.\<close>

record materialize_options =
  mo_owner :: card_owner
  mo_image :: string
  mo_type :: skill_type

section \<open>One card\<close>

definition max_card_name :: nat where "max_card_name = 253"

definition cardName :: "string \<Rightarrow> string \<Rightarrow> string res" where
  "cardName owner skill =
     (let name = owner @ ''-'' @ skill
      in if max_card_name < length name
         then Inl (errorf ''the card for skill %q in collection %q would be named %q, which is %d characters and the limit is %d; shorten the collection name''
                [Lit skill, Lit owner, Lit name, Lit (nat_text (length name)), Lit (nat_text max_card_name)])
         else Inr name)"

fun setControllerRef :: "owner_ref list \<Rightarrow> owner_ref \<Rightarrow> owner_ref list" where
  "setControllerRef [] owner = [owner]"
| "setControllerRef (r # rs) owner =
     (if or_uid r = or_uid owner then owner # rs else r # setControllerRef rs owner)"

definition collection_owner_ref :: "card_owner \<Rightarrow> owner_ref" where
  "collection_owner_ref o1 = \<lparr>or_api = ''konveyor.io/v1alpha1'', or_kind = ''SkillCollection'',
     or_name = ow_name o1, or_uid = ow_uid o1, or_controller = Some True\<rparr>"

definition empty_card :: "string \<Rightarrow> string \<Rightarrow> skill_card" where
  "empty_card ns name = \<lparr>sc_meta = new_meta ns name (\<lambda>_. None), sc_image = [], sc_subpath = [],
     sc_source = [], sc_ref = [], sc_inline = [], sc_display_name = [], sc_version = [],
     sc_description = [], sc_type = SkillTypeUnset, sc_tags = [], sc_observed_generation = 0,
     sc_resolved_image = [], sc_delivery_mode = [], sc_conditions = []\<rparr>"

definition effective_type :: "skill_type \<Rightarrow> skill_type" where
  "effective_type t = (if t = SkillTypeUnset then SkillTypeSkill else t)"

text \<open>The card of a skill as far as the Job decides it: labels and owners are merged, the rest is set.\<close>

definition card_content :: "materialize_options \<Rightarrow> loaded_skill \<Rightarrow> skill_card \<Rightarrow> skill_card" where
  "card_content opts s sc =
     sc\<lparr>sc_meta := (sc_meta sc)
            \<lparr>om_labels := (om_labels (sc_meta sc))(label_skill_collection \<mapsto> ow_name (mo_owner opts)),
             om_owners := setControllerRef (om_owners (sc_meta sc)) (collection_owner_ref (mo_owner opts))\<rparr>,
          sc_image := mo_image opts,
          sc_subpath := ld_path s,
          sc_type := effective_type (mo_type opts),
          sc_description := ld_description s\<rparr>"

definition mutate_card ::
  "materialize_options \<Rightarrow> string \<Rightarrow> loaded_skill \<Rightarrow> skill_card \<Rightarrow> skill_card res" where
  "mutate_card opts name s sc =
     (if om_uid (sc_meta sc) \<noteq> [] \<and>
         label (sc_meta sc) label_skill_collection \<noteq> ow_name (mo_owner opts)
      then Inl (errorf ''SkillCard %q already exists and is not owned by collection %q; rename the collection or the skill''
             [Lit name, Lit (ow_name (mo_owner opts))])
      else Inr (card_content opts s sc))"

section \<open>All cards\<close>

fun write_cards ::
  "'w card_writer \<Rightarrow> materialize_options \<Rightarrow> loaded_skill list \<Rightarrow> ('w, string list) call" where
  "write_cards C opts [] w = (Inr [], w)"
| "write_cards C opts (s # ss) w =
     (case cardName (ow_name (mo_owner opts)) (ld_name s) of
        Inl e \<Rightarrow> (Inl e, w)
      | Inr name \<Rightarrow>
          (case cw_create_or_update C (empty_card (ow_namespace (mo_owner opts)) name)
                  (mutate_card opts name s) w of
             (Some e, w1) \<Rightarrow> (Inl (wrapf ''writing SkillCard %q: %w'' [Lit name] e), w1)
           | (None, w1) \<Rightarrow>
               (case write_cards C opts ss w1 of
                  (Inl e, w2) \<Rightarrow> (Inl e, w2)
                | (Inr names, w2) \<Rightarrow> (Inr (name # names), w2))))"

definition prune_card :: "'w card_writer \<Rightarrow> string list \<Rightarrow> skill_card \<Rightarrow> 'w command" where
  "prune_card C wanted sc w =
     (if om_name (sc_meta sc) \<in> set wanted then (None, w)
      else
        (case cw_delete C sc w of
           (Some e, w1) \<Rightarrow> (Some (wrapf ''pruning SkillCard %q: %w'' [Lit (om_name (sc_meta sc))] e), w1)
         | (None, w1) \<Rightarrow> (None, w1)))"

definition prune_cards :: "'w card_writer \<Rightarrow> card_owner \<Rightarrow> string list \<Rightarrow> 'w command" where
  "prune_cards C o1 wanted w =
     (case cw_list C (ow_namespace o1) [(label_skill_collection, ow_name o1)] w of
        (Inl e, w1) \<Rightarrow> (Some (wrapf ''listing owned SkillCards: %w'' [] e), w1)
      | (Inr owned, w1) \<Rightarrow> run_each (prune_card C wanted) owned w1)"

definition write_and_prune ::
  "'w card_writer \<Rightarrow> materialize_options \<Rightarrow> loaded_skill list \<Rightarrow> ('w, string list) call" where
  "write_and_prune C opts found w =
     (case write_cards C opts found w of
        (Inl e, w1) \<Rightarrow> (Inl e, w1)
      | (Inr names, w1) \<Rightarrow>
          (case prune_cards C (mo_owner opts) names w1 of
             (Some e, w2) \<Rightarrow> (Inl e, w2)
           | (None, w2) \<Rightarrow> (Inr names, w2)))"

definition Materialize ::
  "'w fs \<Rightarrow> yaml_decoder \<Rightarrow> 'w card_writer \<Rightarrow> string \<Rightarrow> materialize_options \<Rightarrow> ('w, string list) call" where
  "Materialize F Y C dir opts w =
     (case ValidateDir F Y dir w of
        ((_, Some e), w1) \<Rightarrow> (Inl e, w1)
      | ((found, None), w1) \<Rightarrow>
          (case cw_connect C w1 of
             (Some e, w2) \<Rightarrow> (Inl e, w2)
           | (None, w2) \<Rightarrow> write_and_prune C opts found w2))"

section \<open>The command\<close>

text \<open>The environment of the command; which of several missing variables is named first is Go's choice.\<close>

definition materialize_options_of :: "(string \<Rightarrow> string) \<Rightarrow> skill_type \<Rightarrow> materialize_options" where
  "materialize_options_of getenv t =
     \<lparr>mo_owner = \<lparr>ow_name = getenv ''KONVEYOR_COLLECTION_NAME'', ow_uid = getenv ''KONVEYOR_COLLECTION_UID'',
        ow_namespace = getenv ''KONVEYOR_NAMESPACE''\<rparr>,
      mo_image = getenv ''KONVEYOR_SKILL_IMAGE'', mo_type = t\<rparr>"

definition required_variables :: "string list" where
  "required_variables = [''KONVEYOR_COLLECTION_NAME'', ''KONVEYOR_COLLECTION_UID'', ''KONVEYOR_NAMESPACE'',
     ''KONVEYOR_SKILL_IMAGE'']"

definition materializeSkills ::
  "'w fs \<Rightarrow> yaml_decoder \<Rightarrow> 'w card_writer \<Rightarrow> (string \<Rightarrow> string) \<Rightarrow> skill_type \<Rightarrow> string \<Rightarrow> 'w command" where
  "materializeSkills F Y C getenv t dir w =
     (case first_err (\<lambda>k. if getenv k = [] then Some (errorf ''%s is required'' [Lit k]) else None)
             required_variables of
        Some e \<Rightarrow> (Some e, w)
      | None \<Rightarrow>
          (case Materialize F Y C dir (materialize_options_of getenv t) w of
             (Inl e, w1) \<Rightarrow> (Some e, w1)
           | (Inr names, w1) \<Rightarrow> (None, w1)))"

definition validateSkills :: "'w fs \<Rightarrow> yaml_decoder \<Rightarrow> string \<Rightarrow> 'w command" where
  "validateSkills F Y dir w = (case ValidateDir F Y dir w of ((_, r), w1) \<Rightarrow> (r, w1))"

end
