(* ===== verification/MaterializeProperties.thy ===== *)
theory MaterializeProperties
  imports SkillMaterialize SkillLoaderProperties
begin

text \<open>
  The cards of a collection after an enumeration, over a store of cards behind the API client.
\<close>

section \<open>A store of cards\<close>

text \<open>
  What the API server keeps of a card the Job wrote; identifiers and generations are its own.
\<close>

definition same_content :: "skill_card \<Rightarrow> skill_card \<Rightarrow> bool" where
  "same_content a b \<longleftrightarrow>
     om_labels (sc_meta a) = om_labels (sc_meta b) \<and> sc_image a = sc_image b \<and>
     sc_subpath a = sc_subpath b \<and> sc_type a = sc_type b \<and> sc_description a = sc_description b"

definition card_named :: "skill_card \<Rightarrow> string" where
  "card_named c = om_name (sc_meta c)"

text \<open>
  \<open>CreateOrUpdate\<close> applies the function to the stored card, or to the given one if there is none, and
  stores the result; a list finds the cards with the labels; a call that fails may or may not have taken
  effect.
\<close>

type_synonym 'w store = "'w \<Rightarrow> string \<Rightarrow> skill_card option"

definition names_stored :: "'w store \<Rightarrow> bool" where
  "names_stored st \<longleftrightarrow> (\<forall>w n c. st w n = Some c \<longrightarrow> card_named c = n \<and> om_uid (sc_meta c) \<noteq> [])"

definition updates_stored :: "'w card_writer \<Rightarrow> 'w store \<Rightarrow> bool" where
  "updates_stored C st \<longleftrightarrow>
     (\<forall>w c f e w'. cw_create_or_update C c f w = (e, w') \<longrightarrow>
        (e \<noteq> None \<and> st w' = st w) \<or>
        (\<exists>c2 c3. f (case st w (card_named c) of None \<Rightarrow> c | Some x \<Rightarrow> x) = Inr c2 \<and>
           same_content c2 c3 \<and> st w' = (st w)(card_named c \<mapsto> c3)))"

definition lists_stored :: "'w card_writer \<Rightarrow> 'w store \<Rightarrow> bool" where
  "lists_stored C st \<longleftrightarrow>
     (\<forall>w ns k v r w'. cw_list C ns [(k, v)] w = (r, w') \<longrightarrow> st w' = st w \<and>
        (\<forall>cs. r = Inr cs \<longrightarrow> set cs = {c. \<exists>n. st w n = Some c \<and> om_labels (sc_meta c) k = Some v}))"

definition deletes_stored :: "'w card_writer \<Rightarrow> 'w store \<Rightarrow> bool" where
  "deletes_stored C st \<longleftrightarrow>
     (\<forall>w c e w'. cw_delete C c w = (e, w') \<longrightarrow>
        (e \<noteq> None \<and> st w' = st w) \<or> st w' = (st w)(card_named c := None))"

definition store_ok :: "'w card_writer \<Rightarrow> 'w store \<Rightarrow> bool" where
  "store_ok C st \<longleftrightarrow>
     names_stored st \<and> updates_stored C st \<and> lists_stored C st \<and> deletes_stored C st \<and>
     (\<forall>w e w'. cw_connect C w = (e, w') \<longrightarrow> st w' = st w)"

lemma store_named: "store_ok C st \<Longrightarrow> st w n = Some c \<Longrightarrow> card_named c = n \<and> om_uid (sc_meta c) \<noteq> []"
  by (simp add: store_ok_def names_stored_def)

lemma store_update:
  assumes "store_ok C st" and "cw_create_or_update C c f w = (e, w')"
  obtains (failed) "e \<noteq> None" and "st w' = st w"
  | (stored) c2 c3 where "f (case st w (card_named c) of None \<Rightarrow> c | Some x \<Rightarrow> x) = Inr c2"
      and "same_content c2 c3" and "st w' = (st w)(card_named c \<mapsto> c3)"
proof -
  have "updates_stored C st" using assms(1) by (simp add: store_ok_def)
  from this [unfolded updates_stored_def, rule_format, OF assms(2)] that show ?thesis by metis
qed

lemma store_list:
  assumes "store_ok C st" and "cw_list C ns [(k, v)] w = (r, w')"
  shows "st w' = st w \<and>
    (\<forall>cs. r = Inr cs \<longrightarrow> set cs = {c. \<exists>n. st w n = Some c \<and> om_labels (sc_meta c) k = Some v})"
proof -
  have "lists_stored C st" using assms(1) by (simp add: store_ok_def)
  from this [unfolded lists_stored_def, rule_format, OF assms(2)] show ?thesis by simp
qed

lemma store_delete:
  assumes "store_ok C st" and "cw_delete C c w = (e, w')"
  shows "(e \<noteq> None \<and> st w' = st w) \<or> st w' = (st w)(card_named c := None)"
proof -
  have "deletes_stored C st" using assms(1) by (simp add: store_ok_def)
  from this [unfolded deletes_stored_def, rule_format, OF assms(2)] show ?thesis .
qed

definition owned :: "materialize_options \<Rightarrow> skill_card option \<Rightarrow> bool" where
  "owned opts x \<longleftrightarrow>
     (\<exists>c. x = Some c \<and> om_labels (sc_meta c) label_skill_collection = Some (ow_name (mo_owner opts)))"

definition described :: "materialize_options \<Rightarrow> loaded_skill \<Rightarrow> skill_card option \<Rightarrow> bool" where
  "described opts l x \<longleftrightarrow>
     (\<exists>c. x = Some c \<and> om_labels (sc_meta c) label_skill_collection = Some (ow_name (mo_owner opts)) \<and>
        sc_image c = mo_image opts \<and> sc_subpath c = ld_path l \<and> sc_type c = effective_type (mo_type opts) \<and>
        sc_description c = ld_description l)"

definition card_name_of :: "materialize_options \<Rightarrow> loaded_skill \<Rightarrow> string" where
  "card_name_of opts l = ow_name (mo_owner opts) @ ''-'' @ ld_name l"

lemma described_owned: "described opts l x \<Longrightarrow> owned opts x"
  by (auto simp: described_def owned_def)

section \<open>Writing\<close>

lemma write_one:
  assumes "store_ok C st" and "ow_name (mo_owner opts) \<noteq> []"
    and "cw_create_or_update C (empty_card ns name) (mutate_card opts name l) w = (e, w')"
  shows "(e \<noteq> None \<and> st w' = st w) \<or>
    (\<exists>x. st w' = (st w)(name \<mapsto> x) \<and> described opts l (Some x) \<and> (st w name = None \<or> owned opts (st w name)))"
proof (rule store_update [OF assms(1,3)])
  let ?c = "empty_card ns name"
  have n: "card_named ?c = name" by (simp add: card_named_def empty_card_def new_meta_def)
  fix c2 c3
  assume f: "mutate_card opts name l (case st w (card_named ?c) of None \<Rightarrow> ?c | Some x \<Rightarrow> x) = Inr c2"
    and same: "same_content c2 c3" and st: "st w' = (st w)(card_named ?c \<mapsto> c3)"
  let ?cur = "case st w name of None \<Rightarrow> ?c | Some x \<Rightarrow> x"
  from f n have c2: "c2 = card_content opts l ?cur"
    and own: "om_uid (sc_meta ?cur) = [] \<or> label (sc_meta ?cur) label_skill_collection = ow_name (mo_owner opts)"
    by (auto simp: mutate_card_def split: if_splits)
  have "om_labels (sc_meta c3) = (om_labels (sc_meta ?cur))(label_skill_collection \<mapsto> ow_name (mo_owner opts))"
    using same unfolding c2 by (simp add: same_content_def card_content_def)
  then have "described opts l (Some c3)"
    using same unfolding c2 by (simp add: described_def same_content_def card_content_def)
  moreover have "st w name = None \<or> owned opts (st w name)"
    using own store_named [OF assms(1)] assms(2)
    by (cases "st w name") (auto simp: owned_def label_def split: option.splits)
  ultimately show ?thesis using st n by auto
qed simp

lemma write_cards_spec:
  assumes "store_ok C st" and "ow_name (mo_owner opts) \<noteq> []"
  shows "write_cards C opts ls w = (r, w') \<Longrightarrow>
    (\<forall>n. st w n \<noteq> None \<longrightarrow> \<not> owned opts (st w n) \<longrightarrow> st w' n = st w n) \<and>
    (\<forall>n. owned opts (st w n) \<longrightarrow> owned opts (st w' n)) \<and>
    (\<forall>n. n \<notin> card_name_of opts ` set ls \<longrightarrow> st w' n = st w n) \<and>
    (\<forall>names. r = Inr names \<longrightarrow> names = map (card_name_of opts) ls \<and>
       (distinct (map ld_name ls) \<longrightarrow> (\<forall>l \<in> set ls. described opts l (st w' (card_name_of opts l)))))"
proof (induction ls arbitrary: w r w')
  case (Cons l ls)
  let ?n = "card_name_of opts l"
  show ?case
  proof (cases "cardName (ow_name (mo_owner opts)) (ld_name l)")
    case (Inl e)
    with Cons.prems show ?thesis by auto
  next
    case (Inr name)
    then have name: "name = ?n" by (simp add: cardName_def card_name_of_def Let_def split: if_splits)
    obtain e w1 where cu: "cw_create_or_update C (empty_card (ow_namespace (mo_owner opts)) ?n)
        (mutate_card opts ?n l) w = (e, w1)" by (metis surj_pair)
    note one = write_one [OF assms cu]
    have w1: "(\<forall>n. st w n \<noteq> None \<longrightarrow> \<not> owned opts (st w n) \<longrightarrow> st w1 n = st w n) \<and>
        (\<forall>n. owned opts (st w n) \<longrightarrow> owned opts (st w1 n)) \<and> (\<forall>n. n \<noteq> ?n \<longrightarrow> st w1 n = st w n)"
      using one described_owned by (elim disjE exE conjE) auto
    show ?thesis
    proof (cases e)
      case (Some x)
      with Cons.prems Inr name cu w1 show ?thesis by auto
    next
      case None
      obtain r2 w2 where rest: "write_cards C opts ls w1 = (r2, w2)" by (metis surj_pair)
      have w': "w' = w2" and r: "r = map_sum id ((#) ?n) r2"
        using Cons.prems Inr name cu None rest by (auto split: sum.splits)
      note ih = Cons.IH [OF rest]
      have d: "described opts l (st w1 ?n)" using one None by auto
      have fresh: "distinct (map ld_name (l # ls)) \<Longrightarrow> ?n \<notin> card_name_of opts ` set ls"
        by (auto simp: card_name_of_def)
      have "described opts l (st w2 ?n)" if "distinct (map ld_name (l # ls))"
        using ih d fresh [OF that] by auto
      moreover have "st w n \<noteq> None \<Longrightarrow> \<not> owned opts (st w n) \<Longrightarrow> st w2 n = st w n" for n
        using ih w1 by metis
      ultimately show ?thesis
        using ih w1 unfolding w' r by (cases r2) auto
    qed
  qed
qed simp

section \<open>Pruning\<close>

lemma prune_loop:
  assumes "store_ok C st" and "run_each (prune_card C names) cs w = (e, w')"
    and "\<forall>c \<in> set cs. om_labels (sc_meta c) label_skill_collection = Some (ow_name (mo_owner opts))"
  shows "(\<forall>n. st w' n = st w n \<or> (st w' n = None \<and> n \<notin> set names \<and> n \<in> card_named ` set cs)) \<and>
    (e = None \<longrightarrow> (\<forall>n \<in> card_named ` set cs - set names. st w' n = None))"
  using assms(2,3)
proof (induction cs arbitrary: w)
  case (Cons c cs)
  show ?case
  proof (cases "card_named c \<in> set names")
    case True
    then have "prune_card C names c w = (None, w)" by (simp add: prune_card_def card_named_def)
    with Cons.prems(1) have "run_each (prune_card C names) cs w = (e, w')" by simp
    from Cons.IH [OF this] Cons.prems(2) True show ?thesis by fastforce
  next
    case False
    obtain x w1 where del: "cw_delete C c w = (x, w1)" by (metis surj_pair)
    have pc: "prune_card C names c w =
        (map_option (wrapf ''pruning SkillCard %q: %w'' [Lit (om_name (sc_meta c))]) x, w1)"
      using False del by (cases x) (simp_all add: prune_card_def card_named_def)
    have st1: "st w1 = st w \<or> st w1 = (st w)(card_named c := None)"
      and gone: "x = None \<Longrightarrow> st w1 = (st w)(card_named c := None)"
      using store_delete [OF assms(1) del] by auto
    show ?thesis
    proof (cases x)
      case (Some y)
      then have "e \<noteq> None \<and> w' = w1" using Cons.prems(1) pc by auto
      with st1 False show ?thesis by (auto split: if_splits)
    next
      case None
      then have "run_each (prune_card C names) cs w1 = (e, w')"
        using Cons.prems(1) pc by simp
      from Cons.IH [OF this] Cons.prems(2) gone [OF None] False show ?thesis
        by (auto split: if_splits)
    qed
  qed
qed simp

text \<open>
  C22: after an enumeration that succeeds, the cards labelled with the collection are exactly one per skill
  of the source, each with the collection's image and load policy and the skill's path and description;
  whatever the outcome, a card that carries another label or none is left as it was.
\<close>

theorem materialize_cards:
  assumes "store_ok C st" and "ow_name (mo_owner opts) \<noteq> []"
    and "ValidateDir F Y dir w = ((found, None), w0)" and "st w0 = st w"
    and "Materialize F Y C dir opts w = (r, w')"
  shows "(\<forall>n. st w n \<noteq> None \<longrightarrow> \<not> owned opts (st w n) \<longrightarrow> st w' n = st w n) \<and>
    (\<forall>names. r = Inr names \<longrightarrow> names = map (card_name_of opts) found \<and>
       {n. owned opts (st w' n)} = set names \<and>
       (\<forall>l \<in> set found. described opts l (st w' (card_name_of opts l))))"
proof -
  obtain e1 w1 where con: "cw_connect C w0 = (e1, w1)" by (metis surj_pair)
  have s1: "st w1 = st w"
    using assms(1,4) con by (simp add: store_ok_def)
  obtain a w2 where wr: "write_cards C opts found w1 = (a, w2)" by (metis surj_pair)
  note written = write_cards_spec [OF assms(1,2) wr, unfolded s1]
  have dist: "distinct (map ld_name found)"
  proof -
    obtain cs w3 where d: "discover F dir (path_base dir) w = (Inr cs, w3)"
      using assms(3) by (auto simp: ValidateDir_def split: prod.splits sum.splits)
    obtain ls by_name e w4 where ck: "check F Y cs w3 = ((ls, by_name, e), w4)"
      by (cases "check F Y cs w3") auto
    obtain rs w5 where ra: "read_all F Y cs w3 = (rs, w5)" by (metis surj_pair)
    have "ls = found" "e = None" using assms(3) d ck by (auto simp: ValidateDir_def)
    with check_spec [OF ra ck] have "found = map2 assembled cs rs" "usable cs rs" by auto
    moreover have "length cs = length rs" using read_all_length [OF ra] by simp
    ultimately show ?thesis using assembled_fields [of cs rs] by (simp add: usable_def)
  qed
  have mat: "e1 = None \<Longrightarrow> write_and_prune C opts found w1 = (r, w')"
    "e1 \<noteq> None \<Longrightarrow> (\<exists>x. r = Inl x) \<and> w' = w1"
    using assms(3,5) con by (auto simp: Materialize_def split: option.splits)
  show ?thesis
  proof (cases "e1 = None \<and> (\<exists>names. a = Inr names)")
    case False
    then have "(\<exists>x. r = Inl x) \<and> (w' = w1 \<or> w' = w2)"
      using mat wr by (cases a) (auto simp: write_and_prune_def)
    with written s1 show ?thesis by auto
  next
    case True
    then obtain names where a: "a = Inr names" by blast
    have names: "names = map (card_name_of opts) found" using written a by blast
    obtain b w3 where pr: "prune_cards C (mo_owner opts) names w2 = (b, w3)" by (metis surj_pair)
    have w': "w' = w3" and r: "r = (case b of None \<Rightarrow> Inr names | Some x \<Rightarrow> Inl x)"
      using mat(1) True wr a pr by (auto simp: write_and_prune_def split: option.splits)
    obtain c w4 where li: "cw_list C (ow_namespace (mo_owner opts))
        [(label_skill_collection, ow_name (mo_owner opts))] w2 = (c, w4)" by (metis surj_pair)
    have s4: "st w4 = st w2" using store_list [OF assms(1) li] by simp
    show ?thesis
    proof (cases c)
      case (Inl x)
      then have "w3 = w4 \<and> b \<noteq> None" using pr li by (auto simp: prune_cards_def)
      with written s4 w' r show ?thesis by (auto split: option.splits)
    next
      case (Inr cs)
      have cs: "set cs = {c. \<exists>n. st w2 n = Some c \<and>
          om_labels (sc_meta c) label_skill_collection = Some (ow_name (mo_owner opts))}"
        using store_list [OF assms(1) li] Inr by simp
      have loop: "run_each (prune_card C names) cs w4 = (b, w3)" using pr li Inr by (simp add: prune_cards_def)
      have listed: "card_named ` set cs = {n. owned opts (st w2 n)}"
        unfolding cs using store_named [OF assms(1)] by (force simp: owned_def)
      note gone = prune_loop [OF assms(1) loop, where opts = opts, unfolded s4 listed]
      have lab: "\<forall>c \<in> set cs. om_labels (sc_meta c) label_skill_collection = Some (ow_name (mo_owner opts))"
        unfolding cs by blast
      have keep: "st w3 n = st w2 n" if "\<not> owned opts (st w2 n) \<or> n \<in> set names" for n
        using gone [OF lab] that by blast
      have desc: "described opts l (st w2 (card_name_of opts l))" if "l \<in> set found" for l
        using written a dist that by blast
      have foreign: "st w3 n = st w n" if "st w n \<noteq> None" "\<not> owned opts (st w n)" for n
        using written that keep [of n] by metis
      have all: "{n. owned opts (st w3 n)} = set names" if "b = None"
      proof
        show "{n. owned opts (st w3 n)} \<subseteq> set names"
        proof
          fix n assume "n \<in> {n. owned opts (st w3 n)}"
          then have o3: "owned opts (st w3 n)" by simp
          then have "st w3 n \<noteq> None" by (auto simp: owned_def)
          then have "st w3 n = st w2 n" using gone [OF lab] by metis
          with o3 have o2: "owned opts (st w2 n)" by simp
          show "n \<in> set names"
          proof (rule ccontr)
            assume "n \<notin> set names"
            then have "st w3 n = None" using gone [OF lab] that o2 by blast
            with \<open>st w3 n \<noteq> None\<close> show False by simp
          qed
        qed
        show "set names \<subseteq> {n. owned opts (st w3 n)}"
          using desc keep described_owned names by fastforce
      qed
      show ?thesis
        unfolding w' using foreign all desc keep names r
        by (auto split: option.splits)
    qed
  qed
qed

section \<open>A shelf of cards\<close>

text \<open>A store that keeps what it is given, for the witness; it holds one stale card and one foreign card.\<close>

type_synonym shelf = "(string \<times> skill_card) list"

definition stamp :: "string \<Rightarrow> skill_card \<Rightarrow> skill_card" where
  "stamp n c = c\<lparr>sc_meta := (sc_meta c)\<lparr>om_name := n, om_uid := ''u''\<rparr>\<rparr>"

definition on_shelf :: "shelf store" where
  "on_shelf w n = map_option (stamp n) (map_of w n)"

definition shelf_writer :: "shelf card_writer" where
  "shelf_writer =
     \<lparr>cw_connect = (\<lambda>w. (None, w)),
      cw_create_or_update = (\<lambda>c f w.
        case f (case on_shelf w (card_named c) of None \<Rightarrow> c | Some x \<Rightarrow> x) of
          Inl e \<Rightarrow> (Some e, w)
        | Inr c2 \<Rightarrow> (None, (card_named c, c2) # w)),
      cw_list = (\<lambda>ns sel w.
        (Inr (filter (\<lambda>c. list_all (\<lambda>(k, v). om_labels (sc_meta c) k = Some v) sel)
               (map (\<lambda>n. the (on_shelf w n)) (map fst w))), w)),
      cw_delete = (\<lambda>c w. (None, filter (\<lambda>x. fst x \<noteq> card_named c) w))\<rparr>"

lemma map_of_other: "map_of (filter (\<lambda>x. fst x \<noteq> n) w) = (map_of w)(n := None)"
  by (induction w) (auto simp: fun_eq_iff)

lemma shelf_cards: "(\<lambda>n. the (on_shelf w n)) ` fst ` set w = {c. \<exists>n. on_shelf w n = Some c}"
proof -
  have "n \<in> fst ` set w \<longleftrightarrow> on_shelf w n \<noteq> None" for n
    by (simp add: on_shelf_def map_of_eq_None_iff)
  then have "fst ` set w = {n. on_shelf w n \<noteq> None}" by blast
  then show ?thesis by force
qed

lemma shelf_ok: "store_ok shelf_writer on_shelf"
  unfolding store_ok_def
proof (intro conjI)
  show "names_stored on_shelf" by (auto simp: names_stored_def on_shelf_def stamp_def card_named_def)
  show "updates_stored shelf_writer on_shelf"
    unfolding updates_stored_def
  proof (intro allI impI)
    fix w c f e w'
    assume a: "cw_create_or_update shelf_writer c f w = (e, w')"
    let ?cur = "case on_shelf w (card_named c) of None \<Rightarrow> c | Some x \<Rightarrow> x"
    show "(e \<noteq> None \<and> on_shelf w' = on_shelf w) \<or>
        (\<exists>c2 c3. f ?cur = Inr c2 \<and> same_content c2 c3 \<and> on_shelf w' = (on_shelf w)(card_named c \<mapsto> c3))"
    proof (cases "f ?cur")
      case (Inl x)
      with a show ?thesis by (auto simp: shelf_writer_def)
    next
      case (Inr c2)
      then have "w' = (card_named c, c2) # w" using a by (simp add: shelf_writer_def)
      moreover have "same_content c2 (stamp (card_named c) c2)" by (simp add: same_content_def stamp_def)
      ultimately show ?thesis
        using Inr by (intro disjI2 exI [of _ c2] exI [of _ "stamp (card_named c) c2"]) (auto simp: on_shelf_def)
    qed
  qed
  show "lists_stored shelf_writer on_shelf"
    by (simp add: lists_stored_def shelf_writer_def image_image shelf_cards [unfolded image_image])
  show "deletes_stored shelf_writer on_shelf"
    by (auto simp: deletes_stored_def shelf_writer_def on_shelf_def map_of_other fun_eq_iff)
qed (simp add: shelf_writer_def)

definition team_options :: materialize_options where
  "team_options = \<lparr>mo_owner = \<lparr>ow_name = ''team'', ow_uid = ''7'', ow_namespace = ''ns''\<rparr>,
     mo_image = ''reg/skills:1'', mo_type = SkillTypeUnset\<rparr>"

definition one_skill_fs :: "'w fs" where
  "one_skill_fs = tree_fs [] [] [(''/s/SKILL.md'', fix_text)]"

definition fix_found :: loaded_skill where
  "fix_found = \<lparr>ld_name = ''fix'', ld_description = ''Repairs'', ld_type = ''skill'', ld_source = ''s'', ld_path = []\<rparr>"

lemma one_skill_validate: "ValidateDir one_skill_fs fix_yaml ''/s'' w = (([fix_found], None), w)"
proof -
  have j: "path_join ''/s'' SkillFile = ''/s/SKILL.md''" "follow [] ''/s/SKILL.md'' = ''/s/SKILL.md''"
    "path_base ''/s'' = ''s''"
    by code_simp+
  have d: "discover one_skill_fs ''/s'' ''s'' w = (Inr [found_at ''/s'' ''s'' []], w)"
    by (simp add: discover_def path_exists_def one_skill_fs_def tree_fs_def Let_def j)
  have "readFrontmatter one_skill_fs fix_yaml ''/s/SKILL.md'' w =
      (Inr fix_header, w)"
    by (simp add: readFrontmatter_def one_skill_fs_def tree_fs_def Let_def j found_or_def fix_parse)
  then have "check one_skill_fs fix_yaml [found_at ''/s'' ''s'' []] w =
      (([fix_found], [(''fix'', found_at ''/s'' ''s'' [])], None), w)"
    by (simp add: check_def found_at_def j empty_check_def check_candidate_def load_policy_def Let_def
        loaded_of_def fix_found_def fix_header_def check_error_def TypeSkill_def)
  then show ?thesis by (simp add: ValidateDir_def j d)
qed

definition stale_shelf :: shelf where
  "stale_shelf =
     [(''team-old'', card_content team_options fix_found (empty_card ''ns'' ''team-old'')),
      (''lint'', empty_card ''ns'' ''lint'')]"

lemma materialize_cards_witness:
  "\<exists>r w'. Materialize one_skill_fs fix_yaml shelf_writer ''/s'' team_options stale_shelf = (r, w') \<and>
     on_shelf w' ''lint'' = on_shelf stale_shelf ''lint''"
proof -
  obtain r w' where m: "Materialize one_skill_fs fix_yaml shelf_writer ''/s'' team_options stale_shelf = (r, w')"
    by (metis surj_pair)
  have "ow_name (mo_owner team_options) \<noteq> []" by (simp add: team_options_def)
  from materialize_cards [OF shelf_ok this one_skill_validate refl m]
  have "\<forall>n. on_shelf stale_shelf n \<noteq> None \<longrightarrow> \<not> owned team_options (on_shelf stale_shelf n) \<longrightarrow>
      on_shelf w' n = on_shelf stale_shelf n" by blast
  moreover have "on_shelf stale_shelf ''lint'' \<noteq> None" "\<not> owned team_options (on_shelf stale_shelf ''lint'')"
    by (simp_all add: on_shelf_def stale_shelf_def owned_def stamp_def empty_card_def new_meta_def)
  ultimately show ?thesis using m by blast
qed

end
