(* ===== verification/Redact.thy ===== *)
theory Redact
  imports SkillWire
begin

text \<open>
  The masking of secrets in what the harness logs and publishes (\<open>redact.go\<close> of
  \<open>harness/cmd/migration-harness\<close>), and \<open>strings.ReplaceAll\<close> for a text that is not empty.
\<close>

section \<open>Replacing a text\<close>

function replace_all :: "string \<Rightarrow> string \<Rightarrow> string \<Rightarrow> string" where
  "replace_all old new [] = []"
| "replace_all old new (c # cs) =
     (if old \<noteq> [] \<and> has_prefix (c # cs) old
      then new @ replace_all old new (drop (length old) (c # cs))
      else c # replace_all old new cs)"
  by pat_completeness auto
termination
  by (relation "measure (\<lambda>(old, new, s). length s)") auto

section \<open>The redactor\<close>

text \<open>\<open>secretEnvName\<close>: one of the words anywhere in the name, in either case.\<close>

definition secret_words :: "string list" where
  "secret_words = [''secret'', ''token'', ''password'', ''passwd'', ''api_key'', ''access_key'', ''credentials'']"

definition secretEnvName :: "string \<Rightarrow> bool" where
  "secretEnvName n = list_ex (contains_sub (fold_name n)) secret_words"

definition minSecretLen :: nat where "minSecretLen = 8"

definition add_secret :: "string \<Rightarrow> string list \<Rightarrow> string list" where
  "add_secret v secrets =
     (if minSecretLen \<le> length v \<and> v \<notin> set secrets then secrets @ [v] else secrets)"

text \<open>\<open>strings.Cut(kv, "=")\<close>.\<close>

definition cut_pair :: "string \<Rightarrow> (string \<times> string) option" where
  "cut_pair kv =
     (if CHR ''='' \<in> set kv
      then Some (takeWhile (\<lambda>c. c \<noteq> CHR ''='') kv, tl (dropWhile (\<lambda>c. c \<noteq> CHR ''='') kv))
      else None)"

definition add_variable :: "string \<Rightarrow> string list \<Rightarrow> string list" where
  "add_variable kv secrets =
     (case cut_pair kv of
        None \<Rightarrow> secrets
      | Some (n, v) \<Rightarrow> if secretEnvName n then add_secret v secrets else secrets)"

text \<open>The secrets, longest first (the order among equally long ones is that of their collection).\<close>

definition newRedactor :: "string list \<Rightarrow> string list \<Rightarrow> string list" where
  "newRedactor known environ =
     rev (sort_key length (rev (fold add_variable environ (fold add_secret known []))))"

definition redact_marker :: string where "redact_marker = ''[redacted]''"

definition redact :: "string list \<Rightarrow> string \<Rightarrow> string" where
  "redact secrets text = fold (\<lambda>s t. replace_all s redact_marker t) secrets text"

section \<open>What is masked\<close>

definition bracket_free :: "string \<Rightarrow> bool" where
  "bracket_free s \<longleftrightarrow> CHR ''['' \<notin> set s \<and> CHR '']'' \<notin> set s"

lemma prefix_of_split:
  assumes "has_prefix (u @ c # v) w" and "c \<notin> set w"
  shows "has_prefix u w"
  using assms by (auto simp: has_prefix_iff append_eq_append_conv2 Cons_eq_append_conv)

lemma contains_in_append:
  assumes "contains_sub (u @ c # v) w" and "c \<notin> set w" and "w \<noteq> []"
  shows "contains_sub u w \<or> contains_sub v w"
  using assms
proof (induction u)
  case Nil
  then show ?case by (auto simp: has_prefix_iff Cons_eq_append_conv)
next
  case (Cons x u)
  then consider "has_prefix ((x # u) @ c # v) w" | "contains_sub (u @ c # v) w" by auto
  then show ?case
    using Cons prefix_of_split [of "x # u" c v w] by cases auto
qed

lemma contains_trans: "contains_sub t u \<Longrightarrow> contains_sub u w \<Longrightarrow> contains_sub t w"
  by (auto simp: contains_sub_iff) (metis append_assoc)

lemma contains_drop: "contains_sub (drop n t) w \<Longrightarrow> contains_sub t w"
  by (metis append_take_drop_id append_assoc contains_sub_iff)

lemma marker_contains:
  assumes "contains_sub (redact_marker @ t) w" and "bracket_free w"
    and "w \<noteq> []" and "\<not> contains_sub ''redacted'' w"
  shows "contains_sub t w"
proof -
  have "contains_sub (''redacted'' @ CHR '']'' # t) w"
    using contains_in_append [of "[]" "CHR ''[''" "''redacted'' @ CHR '']'' # t" w] assms
    by (simp add: redact_marker_def bracket_free_def)
  then show ?thesis
    using contains_in_append [of "''redacted''" "CHR '']''" t w] assms by (auto simp: bracket_free_def)
qed

text \<open>A text without brackets that starts the result started the original.\<close>

lemma replaced_prefix:
  "has_prefix (replace_all old redact_marker t) w \<Longrightarrow> bracket_free w \<Longrightarrow> has_prefix t w"
proof (induction old redact_marker t arbitrary: w rule: replace_all.induct)
  case (2 old c cs)
  show ?case
  proof (cases "old \<noteq> [] \<and> has_prefix (c # cs) old")
    case True
    with 2 have "w = []" by (cases w) (auto simp: redact_marker_def has_prefix_iff bracket_free_def)
    then show ?thesis by simp
  next
    case False
    with 2 show ?thesis by (cases w) (auto simp: has_prefix_def bracket_free_def)
  qed
qed simp

lemma replaced_contains:
  "contains_sub (replace_all old redact_marker t) w \<Longrightarrow> bracket_free w \<Longrightarrow> w \<noteq> []
    \<Longrightarrow> \<not> contains_sub ''redacted'' w \<Longrightarrow> contains_sub t w"
proof (induction old redact_marker t rule: replace_all.induct)
  case (2 old c cs)
  show ?case
  proof (cases "old \<noteq> [] \<and> has_prefix (c # cs) old")
    case True
    have "contains_sub (replace_all old redact_marker (drop (length old) (c # cs))) w"
      by (rule marker_contains) (use 2 True in auto)
    then have "contains_sub (drop (length old) (c # cs)) w" using 2 True by blast
    then show ?thesis by (rule contains_drop)
  next
    case False
    then consider "has_prefix (replace_all old redact_marker (c # cs)) w"
      | "contains_sub (replace_all old redact_marker cs) w" using 2 by auto
    then show ?thesis using 2 False replaced_prefix by cases (auto simp del: replace_all.simps)
  qed
qed simp

lemma replaced_masks:
  "bracket_free s \<Longrightarrow> s \<noteq> [] \<Longrightarrow> \<not> contains_sub ''redacted'' s
    \<Longrightarrow> \<not> contains_sub (replace_all s redact_marker t) s"
proof (induction s redact_marker t rule: replace_all.induct)
  case (2 s c cs)
  show ?case
  proof (cases "has_prefix (c # cs) s")
    case True
    with 2 show ?thesis using marker_contains by auto
  next
    case False
    then have "\<not> has_prefix (replace_all s redact_marker (c # cs)) s"
      using replaced_prefix "2.prems" by blast
    with False 2 show ?thesis by auto
  qed
qed simp

lemma redact_masks_one:
  assumes "s \<in> set secrets" and "bracket_free s" and "s \<noteq> []" and "\<not> contains_sub ''redacted'' s"
  shows "\<not> contains_sub (redact secrets t) s"
  using assms(1)
proof (induction secrets arbitrary: t rule: rev_induct)
  case (snoc x xs)
  show ?case
  proof (cases "x = s")
    case True
    then show ?thesis using replaced_masks assms by (simp add: redact_def)
  next
    case False
    with snoc have "\<not> contains_sub (redact xs t) s" by simp
    then show ?thesis using replaced_contains assms by (auto simp: redact_def)
  qed
qed simp

lemma set_add_secret [simp]:
  "set (add_secret v secrets) = (if minSecretLen \<le> length v then insert v (set secrets) else set secrets)"
  by (auto simp: add_secret_def)

lemma fold_add_secret: "minSecretLen \<le> length v \<Longrightarrow> v \<in> set known \<or> v \<in> set acc \<Longrightarrow> v \<in> set (fold add_secret known acc)"
  by (induction known arbitrary: acc) auto

lemma add_variable_keeps: "v \<in> set acc \<Longrightarrow> v \<in> set (add_variable kv acc)"
  by (auto simp: add_variable_def split: option.splits)

lemma fold_add_keeps: "v \<in> set acc \<Longrightarrow> v \<in> set (fold add_variable environ acc)"
  by (induction environ arbitrary: acc) (auto simp: add_variable_keeps)

lemma fold_add_variable:
  "kv \<in> set environ \<Longrightarrow> cut_pair kv = Some (n, v) \<Longrightarrow> secretEnvName n \<Longrightarrow> minSecretLen \<le> length v
    \<Longrightarrow> v \<in> set (fold add_variable environ acc)"
proof (induction environ arbitrary: acc)
  case (Cons x xs)
  show ?case
  proof (cases "x = kv")
    case True
    with Cons.prems have "v \<in> set (add_variable x acc)" by (simp add: add_variable_def)
    then show ?thesis by (simp add: fold_add_keeps)
  next
    case False
    with Cons show ?thesis by simp
  qed
qed simp

text \<open>What the redactor knows: the values given and those of the variables with a telling name.\<close>

definition held_secret :: "string list \<Rightarrow> string list \<Rightarrow> string \<Rightarrow> bool" where
  "held_secret known environ v \<longleftrightarrow>
     v \<in> set known \<or> (\<exists>kv \<in> set environ. \<exists>n. cut_pair kv = Some (n, v) \<and> secretEnvName n)"

lemma newRedactor_holds:
  "held_secret known environ v \<Longrightarrow> minSecretLen \<le> length v \<Longrightarrow> v \<in> set (newRedactor known environ)"
  by (auto simp: held_secret_def newRedactor_def intro: fold_add_variable fold_add_keeps fold_add_secret)

lemma redacted_word: "contains_sub ''redacted'' v \<Longrightarrow> 8 \<le> length v \<Longrightarrow> v = ''redacted''"
proof -
  assume "contains_sub ''redacted'' v" and l: "8 \<le> length v"
  then obtain a b where ab: "''redacted'' = a @ v @ b" by (auto simp: contains_sub_iff)
  then have "length (''redacted'') = length a + length v + length b" by (metis length_append add.assoc)
  with l have "length a = 0" "length b = 0" by (simp_all add: eval_nat_numeral)
  then have "a = []" "b = []" by simp_all
  with ab show ?thesis by simp
qed

text \<open>C38: No secret the harness holds is left in a redacted text: a value given to the redactor, or the value
  of an environment variable with a telling name, of at least eight bytes, does not occur in the result,
  whatever the text is and whatever the other secrets are.  The exceptions are values with a square bracket,
  which a marker may complete, and the word of the marker itself.\<close>

theorem redact_masks:
  assumes "held_secret known environ v" and "8 \<le> length v" and "bracket_free v" and "v \<noteq> ''redacted''"
  shows "\<not> contains_sub (redact (newRedactor known environ) text) v"
proof -
  have "v \<in> set (newRedactor known environ)"
    using assms newRedactor_holds by (simp add: minSecretLen_def)
  moreover have "v \<noteq> []" "\<not> contains_sub ''redacted'' v" using assms redacted_word by auto
  ultimately show ?thesis using redact_masks_one assms by blast
qed

theorem redact_masks_witness:
  "\<not> contains_sub (redact (newRedactor [''12345678''] [''GH_TOKEN=abc45678'']) ''abc45678 12345678'') ''abc45678''"
proof -
  have "fold_name ''GH_TOKEN'' = ''gh_token''"
    by (simp add: fold_name_def fold_chunk_def rune_chunks_ascii ascii_def byte_def Let_def char_of_def bit_iff_odd)
  then have "secretEnvName ''GH_TOKEN''"
    by (simp add: secretEnvName_def secret_words_def has_prefix_def)
  then have "held_secret [''12345678''] [''GH_TOKEN=abc45678''] ''abc45678''"
    by (auto simp: held_secret_def cut_pair_def)
  from redact_masks [OF this] show ?thesis by (simp add: bracket_free_def)
qed

end
