(* ===== verification/Frames.thy ===== *)
theory Frames
  imports Redact
begin

text \<open>
  JSON-RPC frames between the harness and the agent (\<open>harness/internal/acp/jsonrpc.go\<close>) and the decoding of
  the types they hold.  A raw message is kept as the value it spells (\<^const>\<open>None\<close> when the member is absent);
  how it is spelled (white space, escapes) is not kept.
\<close>

section \<open>Decoding into fields\<close>

definition decode_bool :: "json \<Rightarrow> bool \<Rightarrow> bool option" where
  "decode_bool v old = (case v of JNull \<Rightarrow> Some old | JBool b \<Rightarrow> Some b | _ \<Rightarrow> None)"

text \<open>Into an \<open>int\<close> or \<open>int64\<close>: the text of the number must read as an integer in range.\<close>

definition decode_int :: "json \<Rightarrow> int \<Rightarrow> int option" where
  "decode_int v old = (case v of JNull \<Rightarrow> Some old | JNumber s \<Rightarrow> parse_int s | _ \<Rightarrow> None)"

definition decode_float :: "json \<Rightarrow> f64 \<Rightarrow> f64 option" where
  "decode_float v old = (case v of JNull \<Rightarrow> Some old | JNumber s \<Rightarrow> parse_float s | _ \<Rightarrow> None)"

section \<open>Frames\<close>

record rpc_error =
  re_code :: int
  re_message :: string
  re_data :: "json option"

record rpc_frame =
  fr_id :: "json option"
  fr_method :: string
  fr_params :: "json option"
  fr_result :: "json option"
  fr_error :: "rpc_error option"

definition zero_error :: rpc_error where
  "zero_error = \<lparr>re_code = 0, re_message = [], re_data = None\<rparr>"

definition set_error_field :: "string \<Rightarrow> json \<Rightarrow> rpc_error \<Rightarrow> rpc_error option" where
  "set_error_field n v e =
     (if n = ''code'' then map_option (\<lambda>x. e\<lparr>re_code := x\<rparr>) (decode_int v (re_code e))
      else if n = ''message'' then map_option (\<lambda>x. e\<lparr>re_message := x\<rparr>) (decode_string v (re_message e))
      else Some (e\<lparr>re_data := Some v\<rparr>))"

definition decode_rpc_error :: "json \<Rightarrow> rpc_error option \<Rightarrow> rpc_error option option" where
  "decode_rpc_error v old =
     (if v = JNull then Some None
      else map_option Some
        (decode_struct [''code'', ''message'', ''data''] set_error_field v
           (case old of None \<Rightarrow> zero_error | Some e \<Rightarrow> e)))"

definition zero_frame :: rpc_frame where
  "zero_frame = \<lparr>fr_id = None, fr_method = [], fr_params = None, fr_result = None, fr_error = None\<rparr>"

definition set_frame_field :: "string \<Rightarrow> json \<Rightarrow> rpc_frame \<Rightarrow> rpc_frame option" where
  "set_frame_field n v f =
     (if n = ''jsonrpc'' then map_option (\<lambda>_. f) (decode_string v [])
      else if n = ''id'' then Some (f\<lparr>fr_id := Some v\<rparr>)
      else if n = ''result'' then Some (f\<lparr>fr_result := Some v\<rparr>)
      else if n = ''error'' then map_option (\<lambda>x. f\<lparr>fr_error := x\<rparr>) (decode_rpc_error v (fr_error f))
      else if n = ''method'' then map_option (\<lambda>x. f\<lparr>fr_method := x\<rparr>) (decode_string v (fr_method f))
      else Some (f\<lparr>fr_params := Some v\<rparr>))"

definition decode_frame :: "json \<Rightarrow> rpc_frame option" where
  "decode_frame v =
     decode_struct [''jsonrpc'', ''id'', ''result'', ''error'', ''method'', ''params'']
       set_frame_field v zero_frame"

section \<open>What a frame is\<close>

definition HasID :: "rpc_frame \<Rightarrow> bool" where
  "HasID f \<longleftrightarrow> fr_id f \<noteq> None \<and> fr_id f \<noteq> Some JNull"

definition IntID :: "rpc_frame \<Rightarrow> int option" where
  "IntID f = (if HasID f then (case fr_id f of Some (JNumber s) \<Rightarrow> parse_int s | _ \<Rightarrow> None) else None)"

definition IsNotification :: "rpc_frame \<Rightarrow> bool" where
  "IsNotification f \<longleftrightarrow> \<not> HasID f \<and> fr_method f \<noteq> []"

definition IsAgentRequest :: "rpc_frame \<Rightarrow> bool" where
  "IsAgentRequest f \<longleftrightarrow> HasID f \<and> fr_method f \<noteq> []"

text \<open>Every frame is one of four kinds.\<close>

datatype frame_kind = Notification | AgentRequest | Answer | Junk

definition frame_kind :: "rpc_frame \<Rightarrow> frame_kind" where
  "frame_kind f =
     (if IsNotification f then Notification
      else if IsAgentRequest f then AgentRequest
      else if HasID f then Answer else Junk)"

lemma frame_kind_iff:
  "frame_kind f = Answer \<longleftrightarrow> HasID f \<and> fr_method f = []"
  "frame_kind f = Notification \<longleftrightarrow> \<not> HasID f \<and> fr_method f \<noteq> []"
  "frame_kind f = AgentRequest \<longleftrightarrow> HasID f \<and> fr_method f \<noteq> []"
  by (auto simp: frame_kind_def IsNotification_def IsAgentRequest_def)

section \<open>Unmarshalling a raw member\<close>

text \<open>\<open>json.Unmarshal(raw, &target)\<close>: an absent member is no JSON text.\<close>

definition unmarshal_raw :: "(json \<Rightarrow> 'a option) \<Rightarrow> json option \<Rightarrow> 'a option" where
  "unmarshal_raw f raw = Option.bind raw f"

lemma unmarshal_raw_simps [simp]: "unmarshal_raw f None = None" "unmarshal_raw f (Some v) = f v"
  by (simp_all add: unmarshal_raw_def)

definition decode_field :: "string \<Rightarrow> (json \<Rightarrow> 'a \<Rightarrow> 'a option) \<Rightarrow> json \<Rightarrow> 'a \<Rightarrow> 'a option" where
  "decode_field n f v old = decode_struct [n] (\<lambda>_. f) v old"

text \<open>\<open>struct { SessionID string `json:"sessionId"` }\<close>.\<close>

definition decode_session_id :: "json \<Rightarrow> string option" where
  "decode_session_id v = decode_field ''sessionId'' decode_string v []"

end
