(* ===== verification/FloatArith.thy ===== *)
theory FloatArith
  imports Float64
begin

text \<open>
  Comparison and the product of \<open>float64\<close> values, and the conversions from and to integers, as far as the
  harness computes with budgets.
\<close>

definition f64_is_nan :: "f64 \<Rightarrow> bool" where
  "f64_is_nan b \<longleftrightarrow> \<not> f64_finite b \<and> f64_fraction b \<noteq> 0"

definition f64_is_inf :: "f64 \<Rightarrow> bool" where
  "f64_is_inf b \<longleftrightarrow> \<not> f64_finite b \<and> f64_fraction b = 0"

definition f64_magnitude :: "f64 \<Rightarrow> nat" where
  "f64_magnitude b = unat b mod 2 ^ 63"

text \<open>The order of the values that are numbers is that of their magnitudes with the sign; both zeros are equal.\<close>

definition f64_key :: "f64 \<Rightarrow> int" where
  "f64_key b = (if f64_neg b then - int (f64_magnitude b) else int (f64_magnitude b))"

definition f64_less :: "f64 \<Rightarrow> f64 \<Rightarrow> bool" where
  "f64_less a b \<longleftrightarrow> \<not> f64_is_nan a \<and> \<not> f64_is_nan b \<and> f64_key a < f64_key b"

definition f64_le :: "f64 \<Rightarrow> f64 \<Rightarrow> bool" where
  "f64_le a b \<longleftrightarrow> \<not> f64_is_nan a \<and> \<not> f64_is_nan b \<and> f64_key a \<le> f64_key b"

text \<open>The nearest value of a rational, infinity when it is too large.\<close>

definition f64_of_rat :: "nat \<Rightarrow> nat \<Rightarrow> f64" where
  "f64_of_rat n d = (case round_f64 n d of None \<Rightarrow> f64_inf | Some bits \<Rightarrow> of_nat bits)"

definition f64_of_nat :: "nat \<Rightarrow> f64" where
  "f64_of_nat n = f64_of_rat n 1"

text \<open>The product of finite values: the exact one, rounded.\<close>

definition f64_mul :: "f64 \<Rightarrow> f64 \<Rightarrow> f64" where
  "f64_mul a b =
     f64_sign (f64_neg a \<noteq> f64_neg b)
       (case (f64_rat a, f64_rat b) of ((n, d), (n', d')) \<Rightarrow> f64_of_rat (n * n') (d * d'))"

text \<open>\<open>int(math.Floor(x))\<close> of a finite value that is not negative.\<close>

definition f64_floor :: "f64 \<Rightarrow> nat" where
  "f64_floor b = (case f64_rat b of (n, d) \<Rightarrow> n div d)"

end
