(* ===== verification/AgentSession.thy ===== *)
theory AgentSession
  imports Frames FloatArith
begin

text \<open>
  The ACP session of a run (\<open>harness/internal/acp/session.go\<close>): the accounting of a prompt's notifications,
  the loop of \<open>SendPrompt\<close> as the sequence of events its \<open>select\<close> receives, and the answers to what the agent
  asks.  The connection and the forwarder to viewers are records of calls over an abstract world.
\<close>

section \<open>The result of a prompt\<close>

record prompt_result =
  pr_stop_reason :: string
  pr_chunks :: "string list"
  pr_cost_limit_reached :: bool
  pr_cost :: f64
  pr_turns_used :: nat
  pr_context_used :: int
  pr_context_size :: int
  pr_closing :: "string list"
  pr_closing_id :: string
  pr_notices :: "string list"

definition empty_result :: prompt_result where
  "empty_result = \<lparr>pr_stop_reason = [], pr_chunks = [], pr_cost_limit_reached = False, pr_cost = 0,
     pr_turns_used = 0, pr_context_used = 0, pr_context_size = 0, pr_closing = [], pr_closing_id = [],
     pr_notices = []\<rparr>"

definition FinalMessage :: "prompt_result \<Rightarrow> string" where
  "FinalMessage r = join [nl] (pr_closing r)"

definition appendClosing :: "string \<Rightarrow> string \<Rightarrow> prompt_result \<Rightarrow> prompt_result" where
  "appendClosing text mid r =
     (if pr_closing r \<noteq> [] \<and> (mid = [] \<or> mid = pr_closing_id r)
      then r\<lparr>pr_closing := butlast (pr_closing r) @ [last (pr_closing r) @ text], pr_closing_id := mid\<rparr>
      else r\<lparr>pr_closing := pr_closing r @ [text], pr_closing_id := mid\<rparr>)"

section \<open>Failures of the provider in the text of the agent\<close>

definition providerErrorPrefixes :: "string list" where
  "providerErrorPrefixes =
     [''Ran into this error'', ''The provider refused this request.'', ''The model returned an empty response.'']"

definition providerErrorSuffixes :: "string list" where
  "providerErrorSuffixes = [''Please resend your message to try again.'']"

definition trim_suffix :: "string \<Rightarrow> string \<Rightarrow> string" where
  "trim_suffix s p = (if has_suffix s p then take (length s - length p) s else s)"

text \<open>\<open>t[strings.LastIndex(body, "\n")+1:]\<close>.\<close>

definition after_last_newline :: "string \<Rightarrow> string \<Rightarrow> string" where
  "after_last_newline body t = drop (length body - length (takeWhile (\<lambda>c. c \<noteq> nl) (rev body))) t"

definition suffix_failure :: "string \<Rightarrow> string \<Rightarrow> string" where
  "suffix_failure t m = trim_space (after_last_newline (trim_space (trim_suffix t m)) t)"

text \<open>The lines from the last one that opens with a known prefix; \<^const>\<open>None\<close> when there is none.\<close>

fun last_failure :: "string list \<Rightarrow> string list option" where
  "last_failure [] = None"
| "last_failure (l # ls) =
     (case last_failure ls of
        Some ms \<Rightarrow> Some ms
      | None \<Rightarrow> if list_ex (has_prefix (trim_space l)) providerErrorPrefixes then Some (l # ls) else None)"

definition ProviderErrorText :: "string \<Rightarrow> string" where
  "ProviderErrorText text =
     (let t = trim_space text
      in case find (has_suffix t) providerErrorSuffixes of
           Some m \<Rightarrow> suffix_failure t m
         | None \<Rightarrow> (case last_failure (split_on nl t) of
                      None \<Rightarrow> []
                    | Some ls \<Rightarrow> trim_space (join [nl] ls)))"

definition LooksLikeProviderError :: "string \<Rightarrow> bool" where
  "LooksLikeProviderError text \<longleftrightarrow> ProviderErrorText text \<noteq> []"

definition ClosingProviderError :: "prompt_result \<Rightarrow> bool" where
  "ClosingProviderError r = list_ex LooksLikeProviderError (pr_closing r)"

section \<open>Notifications\<close>

definition session_update_method :: string where "session_update_method = ''session/update''"
definition gooseUpdateMethod :: string where "gooseUpdateMethod = ''_goose/unstable/session/update''"

definition extractSessionIDFromNotifications :: "rpc_frame list \<Rightarrow> string" where
  "extractSessionIDFromNotifications ns =
     (case find (\<lambda>n. fr_method n = session_update_method \<and>
                      (case unmarshal_raw decode_session_id (fr_params n) of None \<Rightarrow> False | Some s \<Rightarrow> s \<noteq> [])) ns of
        None \<Rightarrow> []
      | Some n \<Rightarrow> the (unmarshal_raw decode_session_id (fr_params n)))"

definition decode_update_kind :: "json \<Rightarrow> string option" where
  "decode_update_kind v = decode_field ''update'' (decode_field ''sessionUpdate'' decode_string) v []"

definition isToolCall :: "rpc_frame \<Rightarrow> bool" where
  "isToolCall f \<longleftrightarrow>
     fr_method f = session_update_method \<and> unmarshal_raw decode_update_kind (fr_params f) = Some ''tool_call''"

text \<open>The fields of a usage update.\<close>

record usage_update =
  uu_kind :: string
  uu_used :: int
  uu_size :: int
  uu_limit :: int
  uu_cost :: "f64 option"

definition zero_usage_update :: usage_update where
  "zero_usage_update = \<lparr>uu_kind = [], uu_used = 0, uu_size = 0, uu_limit = 0, uu_cost = None\<rparr>"

definition decode_cost :: "json \<Rightarrow> f64 option \<Rightarrow> f64 option option" where
  "decode_cost v old =
     (if v = JNull then Some None
      else map_option Some (decode_field ''amount'' decode_float v (case old of None \<Rightarrow> 0 | Some c \<Rightarrow> c)))"

definition set_usage_field :: "string \<Rightarrow> json \<Rightarrow> usage_update \<Rightarrow> usage_update option" where
  "set_usage_field n v u =
     (if n = ''sessionUpdate'' then map_option (\<lambda>x. u\<lparr>uu_kind := x\<rparr>) (decode_string v (uu_kind u))
      else if n = ''used'' then map_option (\<lambda>x. u\<lparr>uu_used := x\<rparr>) (decode_int v (uu_used u))
      else if n = ''size'' then map_option (\<lambda>x. u\<lparr>uu_size := x\<rparr>) (decode_int v (uu_size u))
      else if n = ''contextLimit'' then map_option (\<lambda>x. u\<lparr>uu_limit := x\<rparr>) (decode_int v (uu_limit u))
      else map_option (\<lambda>x. u\<lparr>uu_cost := x\<rparr>) (decode_cost v (uu_cost u)))"

definition decode_usage_update :: "json \<Rightarrow> usage_update option" where
  "decode_usage_update v =
     decode_field ''update''
       (decode_struct [''sessionUpdate'', ''used'', ''size'', ''contextLimit'', ''cost''] set_usage_field)
       v zero_usage_update"

text \<open>The second component says whether a cost was ever reported.\<close>

definition record_cost :: "f64 option \<Rightarrow> prompt_result \<times> bool \<Rightarrow> prompt_result \<times> bool" where
  "record_cost c rs = (case c of None \<Rightarrow> rs | Some a \<Rightarrow> ((fst rs)\<lparr>pr_cost := a\<rparr>, True))"

definition trackUsage :: "rpc_frame \<Rightarrow> prompt_result \<times> bool \<Rightarrow> prompt_result \<times> bool" where
  "trackUsage f rs =
     (if fr_method f \<noteq> gooseUpdateMethod then rs
      else case unmarshal_raw decode_usage_update (fr_params f) of
             None \<Rightarrow> rs
           | Some u \<Rightarrow>
               if uu_kind u \<noteq> ''usage_update'' then rs
               else (case record_cost (uu_cost u) rs of
                       (r, saw) \<Rightarrow>
                         let size = (if uu_size u = 0 then uu_limit u else uu_size u)
                         in if 0 < size
                            then (r\<lparr>pr_context_used := uu_used u, pr_context_size := size\<rparr>, saw)
                            else (r, saw)))"

text \<open>The fields of a session update; those that are only logged are checked for their type.\<close>

record session_update =
  su_kind :: string
  su_content :: "json option"
  su_message_id :: string

definition zero_session_update :: session_update where
  "zero_session_update = \<lparr>su_kind = [], su_content = None, su_message_id = []\<rparr>"

definition set_update_field :: "string \<Rightarrow> json \<Rightarrow> session_update \<Rightarrow> session_update option" where
  "set_update_field n v u =
     (if n = ''sessionUpdate'' then map_option (\<lambda>x. u\<lparr>su_kind := x\<rparr>) (decode_string v (su_kind u))
      else if n = ''content'' then Some (u\<lparr>su_content := Some v\<rparr>)
      else if n = ''_meta''
      then map_option (\<lambda>x. u\<lparr>su_message_id := x\<rparr>)
             (decode_field ''goose'' (decode_field ''messageId'' decode_string) v (su_message_id u))
      else map_option (\<lambda>_. u) (decode_string v []))"

definition decode_session_update :: "json \<Rightarrow> session_update option" where
  "decode_session_update v =
     decode_field ''update''
       (decode_struct [''sessionUpdate'', ''content'', ''title'', ''status'', ''text'', ''type'', ''_meta'']
          set_update_field)
       v zero_session_update"

text \<open>A content block with its type and text.\<close>

definition decode_content :: "json \<Rightarrow> (string \<times> string) option" where
  "decode_content v =
     decode_struct [''type'', ''text'']
       (\<lambda>n x c. if n = ''type'' then map_option (\<lambda>t. (t, snd c)) (decode_string x (fst c))
                else map_option (\<lambda>t. (fst c, t)) (decode_string x (snd c)))
       v ([], [])"

record goose_status =
  go_kind :: string
  go_type :: string
  go_message :: string

definition decode_goose_status :: "json \<Rightarrow> goose_status option" where
  "decode_goose_status v =
     decode_field ''update''
       (decode_struct [''sessionUpdate'', ''status'']
          (\<lambda>n x g. if n = ''sessionUpdate'' then map_option (\<lambda>t. g\<lparr>go_kind := t\<rparr>) (decode_string x (go_kind g))
                   else decode_struct [''type'', ''message'']
                          (\<lambda>m y h. if m = ''type''
                                   then map_option (\<lambda>t. h\<lparr>go_type := t\<rparr>) (decode_string y (go_type h))
                                   else map_option (\<lambda>t. h\<lparr>go_message := t\<rparr>) (decode_string y (go_message h)))
                          x g))
       v \<lparr>go_kind = [], go_type = [], go_message = []\<rparr>"

definition handleGooseNotice :: "rpc_frame \<Rightarrow> prompt_result \<Rightarrow> prompt_result" where
  "handleGooseNotice f r =
     (case unmarshal_raw decode_goose_status (fr_params f) of
        None \<Rightarrow> r
      | Some g \<Rightarrow>
          if go_kind g \<noteq> ''status_message'' \<or> go_type g \<noteq> ''notice'' then r
          else let m = trim_space (go_message g)
               in if m \<noteq> [] then r\<lparr>pr_notices := pr_notices r @ [m]\<rparr> else r)"

definition handlePromptNotification :: "rpc_frame \<Rightarrow> prompt_result \<Rightarrow> prompt_result" where
  "handlePromptNotification f r =
     (if fr_method f = gooseUpdateMethod then handleGooseNotice f r
      else if fr_method f \<noteq> session_update_method then r
      else case unmarshal_raw decode_session_update (fr_params f) of
             None \<Rightarrow> r
           | Some u \<Rightarrow>
               if su_kind u = ''agent_message_chunk''
               then (case unmarshal_raw decode_content (su_content u) of
                       Some (ty, text) \<Rightarrow>
                         if ty = ''text''
                         then appendClosing text (su_message_id u) (r\<lparr>pr_chunks := pr_chunks r @ [text]\<rparr>)
                         else r
                     | None \<Rightarrow> r)
               else if su_kind u = ''user_message_chunk'' \<or> su_kind u = ''tool_call''
               then r\<lparr>pr_closing := []\<rparr>
               else r)"

section \<open>The connection\<close>

datatype rpc_reply = ResultReply json | ErrorReply int string

text \<open>
  \<open>ac_send\<close> sends the request of a prompt, \<open>ac_call\<close> a request whose answer and notifications it waits for,
  \<open>ac_turn\<close> is the handler called when the turn count advances.
\<close>

record 'w acp_conn =
  ac_call :: "string \<Rightarrow> json \<Rightarrow> ('w, json option \<times> rpc_frame list) call"
  ac_send :: "string \<Rightarrow> json \<Rightarrow> 'w command"
  ac_notify :: "string \<Rightarrow> json \<Rightarrow> 'w command"
  ac_respond :: "json \<Rightarrow> rpc_reply \<Rightarrow> 'w command"
  ac_turn :: "nat \<Rightarrow> 'w \<Rightarrow> 'w"

text \<open>The state of the client that outlives a call.\<close>

record session =
  se_initialized :: bool
  se_id :: string
  se_hitl_unanswered :: bool

definition new_session :: session where
  "new_session = \<lparr>se_initialized = False, se_id = [], se_hitl_unanswered = False\<rparr>"

section \<open>Opening a session\<close>

definition acpProtocolVersion :: int where "acpProtocolVersion = 1"

definition initialize_params :: json where
  "initialize_params =
     JObj [(''protocolVersion'', JInt acpProtocolVersion),
           (''clientInfo'', JObj [(''name'', JStr ''migration-harness''), (''version'', JStr ''0.1.0'')]),
           (''clientCapabilities'',
              JObj [(''elicitation'', JObj [(''form'', JObj [])]),
                    (''_meta'', JObj [(''goose'', JObj [(''customNotifications'', JBool True)])])])]"

definition decode_init_result :: "json \<Rightarrow> int option" where
  "decode_init_result v =
     decode_struct [''protocolVersion'', ''agentCapabilities'']
       (\<lambda>n x i. if n = ''protocolVersion'' then decode_int x i else Some i) v 0"

definition Initialize :: "'w acp_conn \<Rightarrow> session \<Rightarrow> 'w \<Rightarrow> (err option \<times> session) \<times> 'w" where
  "Initialize C s w =
     (if se_initialized s then ((None, s), w)
      else case ac_call C ''initialize'' initialize_params w of
             (Inl e, w1) \<Rightarrow> ((Some (wrapf ''initialize: %w'' [] e), s), w1)
           | (Inr (result, _), w1) \<Rightarrow>
               (case unmarshal_raw decode_init_result result of
                  None \<Rightarrow> ((Some (wrapf ''parse initialize result: %w'' [] decode_error), s), w1)
                | Some v \<Rightarrow> ((None, s\<lparr>se_initialized := True\<rparr>), w1)))"

record mcp_server =
  mc_name :: string
  mc_command :: string
  mc_args :: "string list"
  mc_env :: "(string \<times> string) list"

definition mcp_server_json :: "mcp_server \<Rightarrow> json" where
  "mcp_server_json m =
     JObj [(''name'', JStr (mc_name m)), (''command'', JStr (mc_command m)),
           (''args'', JArr (map JStr (mc_args m))),
           (''env'', JArr (map (\<lambda>(n, v). JObj [(''name'', JStr n), (''value'', JStr v)]) (mc_env m)))]"

definition session_new_params :: "string \<Rightarrow> mcp_server list \<Rightarrow> json" where
  "session_new_params cwd servers =
     JObj [(''cwd'', JStr cwd), (''mcpServers'', JArr (map mcp_server_json servers))]"

definition decode_new_result :: "json \<Rightarrow> string option" where
  "decode_new_result v =
     decode_struct [''sessionId'', ''modes'', ''models'']
       (\<lambda>n x i. if n = ''sessionId'' then decode_string x i else Some i) v []"

definition session_id_of :: "rpc_frame list \<Rightarrow> json option \<Rightarrow> string" where
  "session_id_of ns result =
     (let fromNotif = extractSessionIDFromNotifications ns
      in if fromNotif \<noteq> [] then fromNotif
         else case unmarshal_raw decode_new_result result of None \<Rightarrow> [] | Some i \<Rightarrow> i)"

definition CreateSession ::
  "'w acp_conn \<Rightarrow> string \<Rightarrow> mcp_server list \<Rightarrow> session \<Rightarrow> 'w \<Rightarrow> (string res \<times> session) \<times> 'w" where
  "CreateSession C cwd servers s w =
     (case Initialize C s w of
        ((Some e, s1), w1) \<Rightarrow> ((Inl e, s1), w1)
      | ((None, s1), w1) \<Rightarrow>
          (case ac_call C ''session/new'' (session_new_params cwd servers) w1 of
             (Inl e, w2) \<Rightarrow> ((Inl (wrapf ''session/new: %w'' [] e), s1), w2)
           | (Inr (result, ns), w2) \<Rightarrow>
               let sid = session_id_of ns result
               in if sid = [] then ((Inl (errorf ''session/new: no session ID received'' []), s1), w2)
                  else ((Inr sid, s1\<lparr>se_id := sid\<rparr>), w2)))"

section \<open>A prompt\<close>

text \<open>
  What the \<open>select\<close> of \<open>SendPrompt\<close> receives: a notification; the response, with the notifications still
  buffered; the end of the connection, with the response if it had been routed already; the end of the context.
\<close>

datatype prompt_event =
    EvNotification rpc_frame
  | EvResponse rpc_frame "rpc_frame list"
  | EvClosed "rpc_frame option" "rpc_frame list"
  | EvDone err

record prompt_state =
  ps_result :: prompt_result
  ps_saw_cost :: bool
  ps_cancel_sent :: bool

datatype prompt_status = Waiting prompt_state | Returned "prompt_result option" "err option"

definition process_notification ::
  "'w acp_conn \<Rightarrow> rpc_frame \<Rightarrow> prompt_state \<Rightarrow> 'w \<Rightarrow> prompt_state \<times> 'w" where
  "process_notification C f p w =
     (let r = ps_result p; n = Suc (pr_turns_used r);
          rw = (if isToolCall f then (r\<lparr>pr_turns_used := n\<rparr>, ac_turn C n w) else (r, w));
          u = trackUsage f (handlePromptNotification f (fst rw), ps_saw_cost p)
      in (p\<lparr>ps_result := fst u, ps_saw_cost := snd u\<rparr>, snd rw))"

fun process_all :: "'w acp_conn \<Rightarrow> rpc_frame list \<Rightarrow> prompt_state \<Rightarrow> 'w \<Rightarrow> prompt_state \<times> 'w" where
  "process_all C [] p w = (p, w)"
| "process_all C (f # fs) p w = (case process_notification C f p w of (p1, w1) \<Rightarrow> process_all C fs p1 w1)"

definition cancel_params :: "string \<Rightarrow> json" where
  "cancel_params sid = JObj [(''sessionId'', JStr sid)]"

definition maybe_cancel_for_cost ::
  "'w acp_conn \<Rightarrow> string \<Rightarrow> f64 \<Rightarrow> prompt_state \<Rightarrow> 'w \<Rightarrow> prompt_state \<times> 'w" where
  "maybe_cancel_for_cost C sid costLimit p w =
     (if f64_less 0 costLimit \<and> \<not> ps_cancel_sent p \<and> f64_le costLimit (pr_cost (ps_result p))
      then (p\<lparr>ps_cancel_sent := True, ps_result := (ps_result p)\<lparr>pr_cost_limit_reached := True\<rparr>\<rparr>,
            snd (ac_notify C ''session/cancel'' (cancel_params sid) w))
      else (p, w))"

definition decode_stop_reason :: "json \<Rightarrow> prompt_result \<Rightarrow> prompt_result option" where
  "decode_stop_reason v r =
     map_option (\<lambda>x. r\<lparr>pr_stop_reason := x\<rparr>) (decode_field ''stopReason'' decode_string v (pr_stop_reason r))"

definition prompt_answer :: "rpc_frame \<Rightarrow> prompt_result \<Rightarrow> prompt_status" where
  "prompt_answer msg r =
     (case fr_error msg of
        Some e \<Rightarrow> Returned (Some r)
                   (Some (errorf ''prompt error %d: %w'' [Lit (int_text (re_code e)), Lit (re_message e)]))
      | None \<Rightarrow>
          (case unmarshal_raw (\<lambda>v. decode_stop_reason v r) (fr_result msg) of
             None \<Rightarrow> Returned None (Some (wrapf ''parse prompt result: %w'' [] decode_error))
           | Some r1 \<Rightarrow> Returned (Some r1) None))"

definition connection_lost :: err where
  "connection_lost = Err KConnectionLost (Lit ''websocket connection closed during prompt'')"

fun prompt_loop ::
  "'w acp_conn \<Rightarrow> string \<Rightarrow> f64 \<Rightarrow> prompt_event list \<Rightarrow> prompt_state \<Rightarrow> 'w \<Rightarrow> prompt_status \<times> 'w" where
  "prompt_loop C sid limit [] p w = (Waiting p, w)"
| "prompt_loop C sid limit (EvNotification f # es) p w =
     (case process_notification C f p w of
        (p1, w1) \<Rightarrow>
          (case maybe_cancel_for_cost C sid limit p1 w1 of
             (p2, w2) \<Rightarrow> prompt_loop C sid limit es p2 w2))"
| "prompt_loop C sid limit (EvResponse msg fs # es) p w =
     (case process_all C fs p w of (p1, w1) \<Rightarrow> (prompt_answer msg (ps_result p1), w1))"
| "prompt_loop C sid limit (EvClosed (Some msg) fs # es) p w =
     (case process_all C fs p w of (p1, w1) \<Rightarrow> (prompt_answer msg (ps_result p1), w1))"
| "prompt_loop C sid limit (EvClosed None fs # es) p w =
     (case process_all C fs p w of
        (p1, w1) \<Rightarrow> (Returned (Some (ps_result p1)) (Some connection_lost), w1))"
| "prompt_loop C sid limit (EvDone e # es) p w = (Returned None (Some e), w)"

definition start_prompt :: prompt_state where
  "start_prompt = \<lparr>ps_result = empty_result, ps_saw_cost = False, ps_cancel_sent = False\<rparr>"

definition prompt_params :: "string \<Rightarrow> string \<Rightarrow> json" where
  "prompt_params sid text =
     JObj [(''sessionId'', JStr sid),
           (''prompt'', JArr [JObj ((''type'', JStr ''text'') #
                                    (if text = [] then [] else [(''text'', JStr text)]))])]"

definition SendPrompt ::
  "'w acp_conn \<Rightarrow> string \<Rightarrow> string \<Rightarrow> f64 \<Rightarrow> prompt_event list \<Rightarrow> 'w \<Rightarrow> prompt_status \<times> 'w" where
  "SendPrompt C sid text costLimit events w =
     (case ac_send C ''session/prompt'' (prompt_params sid text) w of
        (Some e, w1) \<Rightarrow> (Returned None (Some (wrapf ''send prompt: %w'' [] e)), w1)
      | (None, w1) \<Rightarrow> prompt_loop C sid costLimit events start_prompt w1)"

section \<open>What the agent asks\<close>

datatype forward_outcome = ForwardNoViewers | ForwardAnswered | ForwardTimeout

text \<open>The relay to attached viewers.\<close>

record 'w forwarder =
  fw_permission :: "json option \<Rightarrow> 'w \<Rightarrow> (json option \<times> forward_outcome) \<times> 'w"
  fw_elicitation :: "json option \<Rightarrow> 'w \<Rightarrow> (json option \<times> forward_outcome) \<times> 'w"

record permission_option =
  po_id :: string
  po_name :: string
  po_kind :: string

definition decode_permission_option :: "json \<Rightarrow> permission_option option" where
  "decode_permission_option v =
     decode_struct [''optionId'', ''name'', ''kind'']
       (\<lambda>n x p. if n = ''optionId'' then map_option (\<lambda>t. p\<lparr>po_id := t\<rparr>) (decode_string x (po_id p))
                else if n = ''name'' then map_option (\<lambda>t. p\<lparr>po_name := t\<rparr>) (decode_string x (po_name p))
                else map_option (\<lambda>t. p\<lparr>po_kind := t\<rparr>) (decode_string x (po_kind p)))
       v \<lparr>po_id = [], po_name = [], po_kind = []\<rparr>"

text \<open>The title is only logged; its type is checked.\<close>

definition decode_permission :: "json \<Rightarrow> permission_option list option" where
  "decode_permission v =
     decode_struct [''toolCall'', ''options'']
       (\<lambda>n x os. if n = ''toolCall'' then map_option (\<lambda>_. os) (decode_field ''title'' decode_string x [])
                 else decode_slice decode_permission_option x)
       v []"

definition cancelled_outcome :: json where
  "cancelled_outcome = JObj [(''outcome'', JStr ''cancelled'')]"

definition outcome_reply :: "json \<Rightarrow> rpc_reply" where
  "outcome_reply v = ResultReply (JObj [(''outcome'', v)])"

definition denial :: "permission_option list \<Rightarrow> json" where
  "denial options =
     (case find (\<lambda>p. po_kind p = ''reject_once'') options of
        None \<Rightarrow> cancelled_outcome
      | Some p \<Rightarrow> JObj [(''outcome'', JStr ''selected''), (''optionId'', JStr (po_id p))])"

definition raw_value :: "json option \<Rightarrow> json" where
  "raw_value raw = (case raw of None \<Rightarrow> JNull | Some v \<Rightarrow> v)"

text \<open>A failure to send is logged only.\<close>

definition send_reply :: "'w acp_conn \<Rightarrow> rpc_frame \<Rightarrow> rpc_reply \<Rightarrow> 'w \<Rightarrow> 'w" where
  "send_reply C msg r w = snd (ac_respond C (raw_value (fr_id msg)) r w)"

definition cancelTurn :: "'w acp_conn \<Rightarrow> session \<Rightarrow> 'w \<Rightarrow> 'w" where
  "cancelTurn C s w =
     (if se_id s = [] then w else snd (ac_notify C ''session/cancel'' (cancel_params (se_id s)) w))"

definition offer ::
  "(json option \<Rightarrow> 'w \<Rightarrow> (json option \<times> forward_outcome) \<times> 'w) option \<Rightarrow> json option \<Rightarrow> 'w
    \<Rightarrow> json option option \<times> 'w" where
  "offer F params w =
     (case F of
        None \<Rightarrow> (None, w)
      | Some f \<Rightarrow> (case f params w of
                     ((result, ForwardAnswered), w1) \<Rightarrow> (Some result, w1)
                   | ((_, _), w1) \<Rightarrow> (None, w1)))"

definition answerElicitation ::
  "'w acp_conn \<Rightarrow> 'w forwarder option \<Rightarrow> rpc_frame \<Rightarrow> session \<Rightarrow> 'w \<Rightarrow> session \<times> 'w" where
  "answerElicitation C F msg s w =
     (case offer (map_option fw_elicitation F) (fr_params msg) w of
        (Some result, w1) \<Rightarrow> (s, send_reply C msg (ResultReply (raw_value result)) w1)
      | (None, w1) \<Rightarrow>
          let s1 = s\<lparr>se_hitl_unanswered := True\<rparr>;
              w2 = send_reply C msg (ResultReply (JObj [(''action'', JStr ''cancel'')])) w1
          in (s1, cancelTurn C s1 w2))"

definition answerPermission ::
  "'w acp_conn \<Rightarrow> 'w forwarder option \<Rightarrow> rpc_frame \<Rightarrow> 'w \<Rightarrow> 'w" where
  "answerPermission C F msg w =
     (case unmarshal_raw decode_permission (fr_params msg) of
        None \<Rightarrow> send_reply C msg (outcome_reply cancelled_outcome) w
      | Some options \<Rightarrow>
          (case offer (map_option fw_permission F) (fr_params msg) w of
             (Some result, w1) \<Rightarrow> send_reply C msg (ResultReply (raw_value result)) w1
           | (None, w1) \<Rightarrow> send_reply C msg (outcome_reply (denial options)) w1))"

definition answerAgentRequest ::
  "'w acp_conn \<Rightarrow> 'w forwarder option \<Rightarrow> rpc_frame \<Rightarrow> session \<Rightarrow> 'w \<Rightarrow> session \<times> 'w" where
  "answerAgentRequest C F msg s w =
     (if fr_method msg = ''elicitation/create'' then answerElicitation C F msg s w
      else if fr_method msg \<noteq> ''session/request_permission''
      then (s, send_reply C msg (ErrorReply (- 32601) ''method not supported by harness'') w)
      else (s, answerPermission C F msg w))"

end
