(* ===== verification/SessionProperties.thy ===== *)
theory SessionProperties
  imports AgentSession
begin

text \<open>
  What a prompt reports of the notifications it received, and what the harness answers to the agent on its own.
  A connection is observed by recording what goes over it beside the world.
\<close>

section \<open>A recorded connection\<close>

datatype acp_event =
    Called string
  | Requested string
  | Notified string json
  | Replied json rpc_reply
  | Turned nat
  | Offered "json option \<times> forward_outcome"

definition noted :: "'e \<Rightarrow> ('w \<Rightarrow> 'a \<times> 'w) \<Rightarrow> 'w \<times> 'e list \<Rightarrow> 'a \<times> 'w \<times> 'e list" where
  "noted e f wl = (case f (fst wl) of (a, w) \<Rightarrow> (a, w, snd wl @ [e]))"

definition recorded :: "'w acp_conn \<Rightarrow> ('w \<times> acp_event list) acp_conn" where
  "recorded C =
     \<lparr>ac_call = (\<lambda>m p. noted (Called m) (ac_call C m p)),
      ac_send = (\<lambda>m p. noted (Requested m) (ac_send C m p)),
      ac_notify = (\<lambda>m p. noted (Notified m p) (ac_notify C m p)),
      ac_respond = (\<lambda>i r. noted (Replied i r) (ac_respond C i r)),
      ac_turn = (\<lambda>n wl. (ac_turn C n (fst wl), snd wl @ [Turned n]))\<rparr>"

definition noted_offer ::
  "(json option \<Rightarrow> 'w \<Rightarrow> (json option \<times> forward_outcome) \<times> 'w) \<Rightarrow> json option
    \<Rightarrow> 'w \<times> acp_event list \<Rightarrow> (json option \<times> forward_outcome) \<times> 'w \<times> acp_event list" where
  "noted_offer f p wl = (case f p (fst wl) of (a, w) \<Rightarrow> (a, w, snd wl @ [Offered a]))"

definition recorded_forwarder :: "'w forwarder \<Rightarrow> ('w \<times> acp_event list) forwarder" where
  "recorded_forwarder F =
     \<lparr>fw_permission = noted_offer (fw_permission F), fw_elicitation = noted_offer (fw_elicitation F)\<rparr>"

lemma recorded_simps [simp]:
  "ac_call (recorded C) m p = noted (Called m) (ac_call C m p)"
  "ac_send (recorded C) m p = noted (Requested m) (ac_send C m p)"
  "ac_notify (recorded C) m p = noted (Notified m p) (ac_notify C m p)"
  "ac_respond (recorded C) i r = noted (Replied i r) (ac_respond C i r)"
  "ac_turn (recorded C) n wl = (ac_turn C n (fst wl), snd wl @ [Turned n])"
  "fw_permission (recorded_forwarder F) = noted_offer (fw_permission F)"
  "fw_elicitation (recorded_forwarder F) = noted_offer (fw_elicitation F)"
  by (simp_all add: recorded_def recorded_forwarder_def)

lemma snd_noted [simp]: "snd (snd (noted e f wl)) = snd wl @ [e]"
  by (simp add: noted_def split: prod.splits)

section \<open>Accounting, as a specification\<close>

text \<open>The frames a prompt takes into account before it returns.\<close>

fun handled :: "prompt_event list \<Rightarrow> rpc_frame list" where
  "handled [] = []"
| "handled (EvNotification f # es) = f # handled es"
| "handled (EvResponse m fs # es) = fs"
| "handled (EvClosed m fs # es) = fs"
| "handled (EvDone e # es) = []"

text \<open>The text of an agent message chunk with its message id, the frames after which the closing message
  starts over, the cost a frame reports.\<close>

definition chunk_of :: "rpc_frame \<Rightarrow> (string \<times> string) option" where
  "chunk_of f =
     (if fr_method f \<noteq> session_update_method then None
      else case unmarshal_raw decode_session_update (fr_params f) of
             None \<Rightarrow> None
           | Some u \<Rightarrow>
               if su_kind u \<noteq> ''agent_message_chunk'' then None
               else case unmarshal_raw decode_content (su_content u) of
                      None \<Rightarrow> None
                    | Some (ty, text) \<Rightarrow> if ty = ''text'' then Some (text, su_message_id u) else None)"

definition starts_over :: "rpc_frame \<Rightarrow> bool" where
  "starts_over f \<longleftrightarrow>
     fr_method f = session_update_method \<and>
     (case unmarshal_raw decode_session_update (fr_params f) of
        None \<Rightarrow> False
      | Some u \<Rightarrow> su_kind u = ''user_message_chunk'' \<or> su_kind u = ''tool_call'')"

definition cost_of :: "rpc_frame \<Rightarrow> f64 option" where
  "cost_of f =
     (if fr_method f \<noteq> gooseUpdateMethod then None
      else case unmarshal_raw decode_usage_update (fr_params f) of
             None \<Rightarrow> None
           | Some u \<Rightarrow> if uu_kind u = ''usage_update'' then uu_cost u else None)"

text \<open>Chunks joined into messages: a chunk without an id, or with that of the one before it, goes on with its
  message.\<close>

fun messages :: "(string \<times> string) list \<Rightarrow> string list" where
  "messages [] = []"
| "messages [c] = [fst c]"
| "messages (c # d # cs) =
     (if snd d = [] \<or> snd d = snd c
      then (fst c @ hd (messages (d # cs))) # tl (messages (d # cs))
      else fst c # messages (d # cs))"

definition since_start_over :: "rpc_frame list \<Rightarrow> rpc_frame list" where
  "since_start_over fs = rev (takeWhile (\<lambda>f. \<not> starts_over f) (rev fs))"

definition closing_messages :: "rpc_frame list \<Rightarrow> string list" where
  "closing_messages fs = messages (List.map_filter chunk_of (since_start_over fs))"

definition last_cost :: "rpc_frame list \<Rightarrow> f64" where
  "last_cost fs = (case List.map_filter cost_of fs of [] \<Rightarrow> 0 | cs \<Rightarrow> last cs)"

lemma messages_not_Nil [simp]: "messages cs = [] \<longleftrightarrow> cs = []"
  by (induction cs rule: messages.induct) auto

lemma messages_snoc:
  "cs \<noteq> [] \<Longrightarrow> messages (cs @ [d]) =
     (if snd d = [] \<or> snd d = snd (last cs)
      then butlast (messages cs) @ [last (messages cs) @ fst d]
      else messages cs @ [fst d])"
proof (induction cs rule: messages.induct)
  case (3 c e cs)
  then show ?case by (cases "messages (e # cs)") (auto simp: neq_Nil_conv)
qed auto

lemma map_filter_snoc:
  "List.map_filter g (xs @ [x]) = List.map_filter g xs @ (case g x of None \<Rightarrow> [] | Some y \<Rightarrow> [y])"
  by (induction xs) (auto simp: List.map_filter_simps split: option.splits)

lemma since_start_over_snoc:
  "since_start_over (fs @ [f]) = (if starts_over f then [] else since_start_over fs @ [f])"
  by (simp add: since_start_over_def)

lemma last_cost_snoc: "last_cost (fs @ [f]) = (case cost_of f of None \<Rightarrow> last_cost fs | Some c \<Rightarrow> c)"
  by (cases "cost_of f"; cases "List.map_filter cost_of fs") (simp_all add: last_cost_def map_filter_snoc)

section \<open>What a notification does to the result\<close>

lemma appendClosing_fields [simp]:
  "pr_turns_used (appendClosing t i r) = pr_turns_used r" "pr_cost (appendClosing t i r) = pr_cost r"
  "pr_cost_limit_reached (appendClosing t i r) = pr_cost_limit_reached r"
  "pr_closing_id (appendClosing t i r) = i"
  "pr_stop_reason (appendClosing t i r) = pr_stop_reason r"
  by (auto simp: appendClosing_def)

lemma notice_fields [simp]:
  "pr_turns_used (handleGooseNotice f r) = pr_turns_used r" "pr_cost (handleGooseNotice f r) = pr_cost r"
  "pr_cost_limit_reached (handleGooseNotice f r) = pr_cost_limit_reached r"
  "pr_closing (handleGooseNotice f r) = pr_closing r" "pr_closing_id (handleGooseNotice f r) = pr_closing_id r"
  by (auto simp: handleGooseNotice_def Let_def split: option.splits)

lemma notification_fields [simp]:
  "pr_turns_used (handlePromptNotification f r) = pr_turns_used r"
  "pr_cost (handlePromptNotification f r) = pr_cost r"
  "pr_cost_limit_reached (handlePromptNotification f r) = pr_cost_limit_reached r"
  by (auto simp: handlePromptNotification_def split: option.splits)

lemma usage_fields [simp]:
  "pr_turns_used (fst (trackUsage f rs)) = pr_turns_used (fst rs)"
  "pr_cost_limit_reached (fst (trackUsage f rs)) = pr_cost_limit_reached (fst rs)"
  "pr_closing (fst (trackUsage f rs)) = pr_closing (fst rs)"
  "pr_closing_id (fst (trackUsage f rs)) = pr_closing_id (fst rs)"
  by (auto simp: trackUsage_def record_cost_def Let_def split: option.splits prod.splits)

lemma usage_cost: "pr_cost (fst (trackUsage f rs)) = (case cost_of f of None \<Rightarrow> pr_cost (fst rs) | Some c \<Rightarrow> c)"
  by (auto simp: trackUsage_def record_cost_def cost_of_def Let_def split: option.splits prod.splits)

text \<open>The closing text a result holds is the one of the frames so far; the id is that of the last chunk.\<close>

definition closing_ok :: "rpc_frame list \<Rightarrow> prompt_result \<Rightarrow> bool" where
  "closing_ok fs r \<longleftrightarrow>
     (let cs = List.map_filter chunk_of (since_start_over fs)
      in pr_closing r = messages cs \<and> (cs \<noteq> [] \<longrightarrow> pr_closing_id r = snd (last cs)))"

lemma methods_differ [simp]:
  "session_update_method \<noteq> gooseUpdateMethod" "gooseUpdateMethod \<noteq> session_update_method"
  by (simp_all add: session_update_method_def gooseUpdateMethod_def)

lemma closing_ok_step:
  assumes "closing_ok fs r"
  shows "closing_ok (fs @ [f]) (handlePromptNotification f r)"
proof (cases "starts_over f")
  case True
  then show ?thesis
    by (auto simp: closing_ok_def since_start_over_snoc starts_over_def handlePromptNotification_def
        List.map_filter_simps split: option.splits)
next
  case over: False
  show ?thesis
  proof (cases "chunk_of f")
    case None
    then have "pr_closing (handlePromptNotification f r) = pr_closing r"
      and "pr_closing_id (handlePromptNotification f r) = pr_closing_id r"
      using over by (auto simp: handlePromptNotification_def chunk_of_def starts_over_def
          split: option.splits if_splits)
    with None over assms show ?thesis
      by (simp add: closing_ok_def since_start_over_snoc map_filter_snoc)
  next
    case (Some c)
    then have h: "handlePromptNotification f r =
        appendClosing (fst c) (snd c) (r\<lparr>pr_chunks := pr_chunks r @ [fst c]\<rparr>)"
      by (auto simp: handlePromptNotification_def chunk_of_def split: option.splits if_splits)
    let ?cs = "List.map_filter chunk_of (since_start_over fs)"
    have "pr_closing (handlePromptNotification f r) = messages (?cs @ [c])"
    proof (cases "?cs = []")
      case True
      with assms show ?thesis by (simp add: h appendClosing_def closing_ok_def)
    next
      case False
      with assms show ?thesis
        by (simp add: h appendClosing_def closing_ok_def Let_def messages_snoc)
    qed
    then show ?thesis
      using over Some by (simp add: closing_ok_def since_start_over_snoc map_filter_snoc h)
  qed
qed

section \<open>A prompt keeps its accounts\<close>

definition turn_events :: "acp_event list \<Rightarrow> nat list" where
  "turn_events es = List.map_filter (\<lambda>e. case e of Turned n \<Rightarrow> Some n | _ \<Rightarrow> None) es"

definition cancel_events :: "acp_event list \<Rightarrow> (string \<times> json) list" where
  "cancel_events es = List.map_filter (\<lambda>e. case e of Notified m p \<Rightarrow> Some (m, p) | _ \<Rightarrow> None) es"

lemma events_simps [simp]:
  "turn_events [] = []" "cancel_events [] = []"
  "turn_events (es @ [Turned n]) = turn_events es @ [n]" "cancel_events (es @ [Turned n]) = cancel_events es"
  "turn_events (es @ [Notified m p]) = turn_events es"
  "cancel_events (es @ [Notified m p]) = cancel_events es @ [(m, p)]"
  "turn_events [Requested m] = []" "cancel_events [Requested m] = []"
  by (simp_all add: turn_events_def cancel_events_def map_filter_snoc List.map_filter_simps)

definition accounts ::
  "string \<Rightarrow> rpc_frame list \<Rightarrow> prompt_state \<Rightarrow> acp_event list \<Rightarrow> bool" where
  "accounts sid fs p es \<longleftrightarrow>
     (let r = ps_result p in
      pr_turns_used r = length (filter isToolCall fs) \<and>
      turn_events es = [1..<Suc (pr_turns_used r)] \<and>
      closing_ok fs r \<and> pr_cost r = last_cost fs \<and>
      pr_cost_limit_reached r = ps_cancel_sent p \<and>
      cancel_events es = (if ps_cancel_sent p then [(''session/cancel'', cancel_params sid)] else []))"

lemma process_accounts:
  assumes "accounts sid fs p (snd wl)"
  shows "accounts sid (fs @ [f]) (fst (process_notification (recorded C) f p wl))
           (snd (snd (process_notification (recorded C) f p wl)))"
    and "ps_cancel_sent (fst (process_notification (recorded C) f p wl)) = ps_cancel_sent p"
proof -
  have tracked: "closing_ok gs (fst (trackUsage f (r, b))) = closing_ok gs r" for gs r b
    by (simp add: closing_ok_def)
  have counted: "closing_ok gs (r\<lparr>pr_turns_used := n\<rparr>) = closing_ok gs r" for gs r n
    by (simp add: closing_ok_def)
  show "accounts sid (fs @ [f]) (fst (process_notification (recorded C) f p wl))
           (snd (snd (process_notification (recorded C) f p wl)))"
    using assms
    by (auto simp: accounts_def process_notification_def Let_def usage_cost last_cost_snoc tracked counted
        closing_ok_step split: option.splits)
  show "ps_cancel_sent (fst (process_notification (recorded C) f p wl)) = ps_cancel_sent p"
    by (simp add: process_notification_def Let_def)
qed

lemma process_all_accounts:
  "accounts sid fs p (snd wl) \<Longrightarrow> process_all (recorded C) gs p wl = (p', wl')
    \<Longrightarrow> accounts sid (fs @ gs) p' (snd wl') \<and> ps_cancel_sent p' = ps_cancel_sent p"
proof (induction gs arbitrary: fs p wl)
  case (Cons g gs)
  obtain p1 wl1 where 1: "process_notification (recorded C) g p wl = (p1, wl1)"
    by (metis surj_pair)
  have "accounts sid (fs @ [g]) p1 (snd wl1)" and "ps_cancel_sent p1 = ps_cancel_sent p"
    using process_accounts [OF Cons.prems(1), where f = g and C = C] by (simp_all add: 1)
  moreover have "process_all (recorded C) gs p1 wl1 = (p', wl')" using Cons.prems(2) by (simp add: 1)
  ultimately show ?case using Cons.IH [of "fs @ [g]" p1 wl1] by simp
qed simp

text \<open>The limit was reached at some notification.\<close>

definition over_limit :: "f64 \<Rightarrow> rpc_frame list \<Rightarrow> bool" where
  "over_limit limit fs \<longleftrightarrow> f64_less 0 limit \<and> (\<exists>n \<le> length fs. n \<noteq> 0 \<and> f64_le limit (last_cost (take n fs)))"

lemma over_limit_snoc:
  "over_limit limit (fs @ [f]) \<longleftrightarrow> over_limit limit fs \<or> f64_less 0 limit \<and> f64_le limit (last_cost (fs @ [f]))"
proof -
  have "(\<exists>n \<le> length (fs @ [f]). n \<noteq> 0 \<and> f64_le limit (last_cost (take n (fs @ [f])))) \<longleftrightarrow>
        (\<exists>n \<le> length fs. n \<noteq> 0 \<and> f64_le limit (last_cost (take n fs))) \<or> f64_le limit (last_cost (fs @ [f]))"
    by (auto simp: le_Suc_eq)
  then show ?thesis by (auto simp: over_limit_def)
qed

text \<open>The frames that arrived as notifications of their own, after which the limit is looked at.\<close>

fun watched :: "prompt_event list \<Rightarrow> rpc_frame list" where
  "watched (EvNotification f # es) = f # watched es"
| "watched es = []"

lemma cancel_accounts:
  assumes "accounts sid fs p (snd wl)" and "fs \<noteq> []"
    and "maybe_cancel_for_cost (recorded C) sid limit p wl = (p', wl')"
    and "ps_cancel_sent p \<longleftrightarrow> over_limit limit (butlast fs)"
  shows "accounts sid fs p' (snd wl') \<and> (ps_cancel_sent p' \<longleftrightarrow> over_limit limit fs)"
proof -
  have closing: "closing_ok gs (r\<lparr>pr_cost_limit_reached := b\<rparr>) = closing_ok gs r" for gs r b
    by (simp add: closing_ok_def)
  have "over_limit limit fs \<longleftrightarrow> ps_cancel_sent p \<or> f64_less 0 limit \<and> f64_le limit (pr_cost (ps_result p))"
    using over_limit_snoc [of limit "butlast fs" "last fs"] assms by (simp add: accounts_def Let_def)
  then show ?thesis
    using assms(1,3) by (auto simp: maybe_cancel_for_cost_def accounts_def Let_def closing split: if_splits)
qed

definition settled_accounts :: "string \<Rightarrow> rpc_frame list \<Rightarrow> bool \<Rightarrow> prompt_result \<Rightarrow> acp_event list \<Rightarrow> bool" where
  "settled_accounts sid fs over r es \<longleftrightarrow>
     pr_turns_used r = length (filter isToolCall fs) \<and>
     turn_events es = [1..<Suc (pr_turns_used r)] \<and>
     pr_closing r = closing_messages fs \<and> pr_cost r = last_cost fs \<and>
     pr_cost_limit_reached r = over \<and>
     cancel_events es = (if over then [(''session/cancel'', cancel_params sid)] else [])"

lemma settled_accountsI:
  "accounts sid fs p es \<Longrightarrow> ps_cancel_sent p = over \<Longrightarrow> settled_accounts sid fs over (ps_result p) es"
  by (simp add: accounts_def settled_accounts_def closing_messages_def closing_ok_def Let_def)

lemma prompt_answer_accounts:
  "settled_accounts sid fs over r es \<Longrightarrow> prompt_answer msg r = Returned (Some r') e
    \<Longrightarrow> settled_accounts sid fs over r' es"
  by (auto simp: prompt_answer_def decode_stop_reason_def settled_accounts_def unmarshal_raw_def
      split: option.splits Option.bind_splits)

lemma loop_accounts:
  assumes "prompt_loop (recorded C) sid limit es p wl = (Returned (Some r) e, wl')"
    and "accounts sid fs p (snd wl)" and "ps_cancel_sent p \<longleftrightarrow> over_limit limit fs"
  shows "settled_accounts sid (fs @ handled es) (over_limit limit (fs @ watched es)) r (snd wl')"
  using assms
proof (induction "recorded C" sid limit es p wl arbitrary: fs rule: prompt_loop.induct)
  case (2 sid limit f es p wl)
  obtain p1 wl1 where 1: "process_notification (recorded C) f p wl = (p1, wl1)" by (metis surj_pair)
  obtain p2 wl2 where 2: "maybe_cancel_for_cost (recorded C) sid limit p1 wl1 = (p2, wl2)" by (metis surj_pair)
  have "accounts sid (fs @ [f]) p1 (snd wl1)" and "ps_cancel_sent p1 = ps_cancel_sent p"
    using process_accounts [OF "2.prems"(2), where f = f and C = C] by (simp_all add: 1)
  then have "accounts sid (fs @ [f]) p2 (snd wl2)" and "ps_cancel_sent p2 \<longleftrightarrow> over_limit limit (fs @ [f])"
    using cancel_accounts [where sid = sid and fs = "fs @ [f]" and p = p1 and wl = wl1 and C = C and limit = limit] 2 "2.prems" by auto
  moreover have "prompt_loop (recorded C) sid limit es p2 wl2 = (Returned (Some r) e, wl')"
    using "2.prems"(1) by (simp add: 1 2)
  ultimately show ?case
    using "2.hyps" [OF 1 [symmetric] 2 [symmetric], of "fs @ [f]"] by simp
next
  case (3 sid limit msg gs es p wl)
  obtain p1 wl1 where 1: "process_all (recorded C) gs p wl = (p1, wl1)" by (metis surj_pair)
  with 3 process_all_accounts have "accounts sid (fs @ gs) p1 (snd wl1) \<and> ps_cancel_sent p1 = ps_cancel_sent p"
    by blast
  then show ?case using 3 1 settled_accountsI prompt_answer_accounts by fastforce
next
  case (4 sid limit msg gs es p wl)
  obtain p1 wl1 where 1: "process_all (recorded C) gs p wl = (p1, wl1)" by (metis surj_pair)
  with 4 process_all_accounts have "accounts sid (fs @ gs) p1 (snd wl1) \<and> ps_cancel_sent p1 = ps_cancel_sent p"
    by blast
  then show ?case using 4 1 settled_accountsI prompt_answer_accounts by fastforce
next
  case (5 sid limit gs es p wl)
  obtain p1 wl1 where 1: "process_all (recorded C) gs p wl = (p1, wl1)" by (metis surj_pair)
  with 5 process_all_accounts have "accounts sid (fs @ gs) p1 (snd wl1) \<and> ps_cancel_sent p1 = ps_cancel_sent p"
    by blast
  then show ?case using 5 1 settled_accountsI by fastforce
qed auto

lemma start_accounts: "accounts sid [] start_prompt [Requested m]"
  unfolding accounts_def start_prompt_def empty_result_def closing_ok_def since_start_over_def last_cost_def Let_def
  by (simp add: List.map_filter_simps)

lemma start_unsent: "\<not> ps_cancel_sent start_prompt"
  by (simp add: start_prompt_def)

text \<open>C33: A prompt that returns a result reports exactly what its notifications said.  Its turn count is the
  number of tool calls, and the turn handler was called with 1, 2, ... up to it; the closing text is made of
  the agent messages after the last tool call or human message, chunks joined by message id; the cost is the
  last one reported.  The harness sent \<open>session/cancel\<close> at most once, exactly when a cost limit is set and some
  notification before the end of the turn reported a cost at or over it, and the result says so.\<close>

theorem prompt_accounting:
  assumes "SendPrompt (recorded C) sid text limit events (w, []) = (Returned (Some r) e, (w', log))"
  shows "pr_turns_used r = length (filter isToolCall (handled events)) \<and>
    turn_events log = [1..<Suc (pr_turns_used r)] \<and>
    pr_closing r = closing_messages (handled events) \<and>
    pr_cost r = last_cost (handled events) \<and>
    (pr_cost_limit_reached r \<longleftrightarrow> over_limit limit (watched events)) \<and>
    cancel_events log = (if pr_cost_limit_reached r then [(''session/cancel'', cancel_params sid)] else [])"
proof -
  obtain wl1 where l: "prompt_loop (recorded C) sid limit events start_prompt wl1 = (Returned (Some r) e, (w', log))"
    and s: "snd wl1 = [Requested ''session/prompt'']"
    using assms by (auto simp: SendPrompt_def noted_def split: prod.splits option.splits)
  have "settled_accounts sid ([] @ handled events) (over_limit limit ([] @ watched events)) r (snd (w', log))"
    by (rule loop_accounts [OF l]) (simp_all add: s start_accounts over_limit_def start_unsent)
  then show ?thesis by (simp add: settled_accounts_def)
qed

text \<open>A connection that only keeps time, and frames for the witnesses.\<close>

definition quiet_conn :: "unit acp_conn" where
  "quiet_conn =
     \<lparr>ac_call = (\<lambda>m p w. (Inr (None, []), w)), ac_send = (\<lambda>m p w. (None, w)),
      ac_notify = (\<lambda>m p w. (None, w)), ac_respond = (\<lambda>i r w. (None, w)), ac_turn = (\<lambda>n w. w)\<rparr>"

definition update_frame :: "(string \<times> json) list \<Rightarrow> rpc_frame" where
  "update_frame u = zero_frame\<lparr>fr_method := session_update_method, fr_params := Some (JObj [(''update'', JObj u)])\<rparr>"

definition text_frame :: "string \<Rightarrow> rpc_frame" where
  "text_frame t =
     update_frame [(''sessionUpdate'', JStr ''agent_message_chunk''),
       (''content'', JObj [(''type'', JStr ''text''), (''text'', JStr t)])]"

definition tool_frame :: rpc_frame where
  "tool_frame = update_frame [(''sessionUpdate'', JStr ''tool_call'')]"

definition cost_frame :: "string \<Rightarrow> rpc_frame" where
  "cost_frame a =
     zero_frame\<lparr>fr_method := gooseUpdateMethod, fr_params := Some (JObj [(''update'',
       JObj [(''sessionUpdate'', JStr ''usage_update''), (''cost'', JObj [(''amount'', JNumber a)])])])\<rparr>"

definition end_turn :: rpc_frame where
  "end_turn = zero_frame\<lparr>fr_result := Some (JObj [(''stopReason'', JStr ''end_turn'')])\<rparr>"

lemmas frame_evals =
  update_frame_def text_frame_def tool_frame_def cost_frame_def end_turn_def zero_frame_def
  decode_field_def decode_struct_def struct_field_def decode_update_kind_def isToolCall_def
  decode_session_update_def set_update_field_def zero_session_update_def decode_content_def
  decode_usage_update_def set_usage_field_def zero_usage_update_def decode_cost_def
  decode_string_def decode_float_def decode_stop_reason_def

lemma tool_frame_simps [simp]:
  "isToolCall tool_frame" "handlePromptNotification tool_frame r = r\<lparr>pr_closing := []\<rparr>"
  "trackUsage tool_frame rs = rs"
  by (simp_all add: frame_evals handlePromptNotification_def trackUsage_def)

lemma text_frame_simps [simp]:
  "\<not> isToolCall (text_frame t)"
  "handlePromptNotification (text_frame t) r = appendClosing t [] (r\<lparr>pr_chunks := pr_chunks r @ [t]\<rparr>)"
  "trackUsage (text_frame t) rs = rs"
  by (simp_all add: frame_evals handlePromptNotification_def trackUsage_def)

definition one_turn :: "prompt_event list" where
  "one_turn = [EvNotification (text_frame ''I will look.''), EvNotification tool_frame,
     EvNotification (text_frame ''Do''), EvResponse end_turn [text_frame ''ne'']]"

lemma end_turn_answer: "prompt_answer end_turn r = Returned (Some (r\<lparr>pr_stop_reason := ''end_turn''\<rparr>)) None"
  by (simp add: prompt_answer_def frame_evals)

lemma no_limit: "maybe_cancel_for_cost C sid 0 p w = (p, w)"
  by (simp add: maybe_cancel_for_cost_def f64_less_def)

lemma quiet_send: "ac_send (recorded quiet_conn) m p ((), es) = (None, (), es @ [Requested m])"
  by (simp add: noted_def quiet_conn_def)

lemma one_turn_returns:
  "\<exists>r w' log. SendPrompt (recorded quiet_conn) ''s1'' ''go'' 0 one_turn ((), []) = (Returned (Some r) None, (w', log))"
  unfolding SendPrompt_def one_turn_def quiet_send prod.case option.case
  by (simp add: no_limit end_turn_answer process_notification_def Let_def)

theorem prompt_accounting_witness:
  "\<exists>r w' log. SendPrompt (recorded quiet_conn) ''s1'' ''go'' 0 one_turn ((), []) = (Returned (Some r) None, (w', log))
     \<and> pr_turns_used r = 1 \<and> turn_events log = [1] \<and> pr_closing r = [''Done'']"
proof -
  obtain r w' log where
    s: "SendPrompt (recorded quiet_conn) ''s1'' ''go'' 0 one_turn ((), []) = (Returned (Some r) None, (w', log))"
    using one_turn_returns by blast
  have h: "handled one_turn =
      [text_frame ''I will look.'', tool_frame, text_frame ''Do'', text_frame ''ne'']"
    by (simp add: one_turn_def)
  have "pr_turns_used r = 1" using prompt_accounting [OF s] by (simp add: h)
  moreover have "turn_events log = [1]"
    using prompt_accounting [OF s] \<open>pr_turns_used r = 1\<close> by simp
  moreover have "pr_closing r = [''Done'']"
    using prompt_accounting [OF s]
    by (simp add: h closing_messages_def since_start_over_def starts_over_def chunk_of_def frame_evals
        List.map_filter_simps)
  ultimately show ?thesis using s by blast
qed

section \<open>What the harness answers on its own\<close>

definition replies :: "acp_event list \<Rightarrow> (json \<times> rpc_reply) list" where
  "replies es = List.map_filter (\<lambda>e. case e of Replied i r \<Rightarrow> Some (i, r) | _ \<Rightarrow> None) es"

text \<open>A viewer answered with \<open>v\<close>.\<close>

definition viewer_answer :: "acp_event list \<Rightarrow> json option \<Rightarrow> bool" where
  "viewer_answer es v \<longleftrightarrow> Offered (v, ForwardAnswered) \<in> set es"

text \<open>A reply that grants nothing: a question is cancelled, a permission is cancelled or answered with the
  choice that rejects it once, anything else is an error.\<close>

definition declines :: "rpc_frame \<Rightarrow> rpc_reply \<Rightarrow> bool" where
  "declines msg r \<longleftrightarrow>
     (if fr_method msg = ''elicitation/create'' then r = ResultReply (JObj [(''action'', JStr ''cancel'')])
      else if fr_method msg = ''session/request_permission''
      then r = outcome_reply cancelled_outcome \<or>
           (\<exists>os p. unmarshal_raw decode_permission (fr_params msg) = Some os \<and> p \<in> set os \<and>
                   po_kind p = ''reject_once'' \<and>
                   r = outcome_reply (JObj [(''outcome'', JStr ''selected''), (''optionId'', JStr (po_id p))]))
      else r = ErrorReply (- 32601) ''method not supported by harness'')"

lemma offer_cases:
  assumes "offer (map_option g (map_option recorded_forwarder F)) params (w, es) = (a, wl)"
    and "\<And>f. g (recorded_forwarder f) = noted_offer (h f)"
  shows "(\<exists>v. a = Some v \<and> snd wl = es @ [Offered (v, ForwardAnswered)])
     \<or> a = None \<and> (snd wl = es \<or> (\<exists>v out. out \<noteq> ForwardAnswered \<and> snd wl = es @ [Offered (v, out)]))"
  using assms
  by (auto simp: offer_def noted_offer_def split: option.splits prod.splits forward_outcome.splits)

lemma denial_declines:
  "fr_method msg = ''session/request_permission'' \<Longrightarrow> unmarshal_raw decode_permission (fr_params msg) = Some os
    \<Longrightarrow> declines msg (outcome_reply (denial os))"
  by (auto simp: declines_def denial_def find_Some_iff in_set_conv_nth split: option.splits)

lemma send_reply_log [simp]:
  "snd (send_reply (recorded C) msg r wl) = snd wl @ [Replied (raw_value (fr_id msg)) r]"
  by (simp add: send_reply_def)

lemma cancelTurn_log:
  "snd (cancelTurn (recorded C) s wl) =
     snd wl @ (if se_id s = [] then [] else [Notified ''session/cancel'' (cancel_params (se_id s))])"
  by (simp add: cancelTurn_def)

lemma replies_simps [simp]:
  "replies [] = []" "replies (es @ [Replied i r]) = replies es @ [(i, r)]"
  "replies (es @ [Offered a]) = replies es" "replies [Replied i r] = [(i, r)]" "replies [Offered a] = []"
  "replies [Offered a, Replied i r] = [(i, r)]" "replies (Replied i r # es) = (i, r) # replies es"
  "replies (Offered a # es) = replies es" "replies (Notified m q # es) = replies es"
  "cancel_events (Offered a # es) = cancel_events es" "cancel_events (Replied i r # es) = cancel_events es"
  "cancel_events (Notified m q # es) = (m, q) # cancel_events es"
  by (simp_all add: replies_def cancel_events_def map_filter_snoc List.map_filter_simps)

text \<open>The reply the agent gets and what else happens: a viewer's answer handed on, or a refusal.\<close>

definition answered_by_viewer :: "rpc_frame \<Rightarrow> session \<Rightarrow> session \<Rightarrow> rpc_reply \<Rightarrow> acp_event list \<Rightarrow> bool" where
  "answered_by_viewer msg s s' r log \<longleftrightarrow>
     (\<exists>v. viewer_answer log v \<and> r = ResultReply (raw_value v)) \<and> s' = s \<and> cancel_events log = []"

definition refused :: "rpc_frame \<Rightarrow> session \<Rightarrow> session \<Rightarrow> rpc_reply \<Rightarrow> acp_event list \<Rightarrow> bool" where
  "refused msg s s' r log \<longleftrightarrow>
     (\<forall>v. \<not> viewer_answer log v) \<and> declines msg r \<and>
     (if fr_method msg = ''elicitation/create''
      then s' = s\<lparr>se_hitl_unanswered := True\<rparr> \<and>
           (\<exists>es. log = es @ [Replied (raw_value (fr_id msg)) r] @
              (if se_id s = [] then [] else [Notified ''session/cancel'' (cancel_params (se_id s))]))
      else s' = s \<and> cancel_events log = [])"

lemma elicitation_log:
  assumes "fr_method msg = ''elicitation/create''"
    and "answerElicitation (recorded C) (map_option recorded_forwarder F) msg s (w, []) = (s', (w', log))"
  shows "\<exists>r. replies log = [(raw_value (fr_id msg), r)] \<and>
    (answered_by_viewer msg s s' r log \<or> refused msg s s' r log)"
proof -
  obtain a wl where o:
    "offer (map_option fw_elicitation (map_option recorded_forwarder F)) (fr_params msg) (w, []) = (a, wl)"
    by (metis surj_pair)
  from offer_cases [OF o, of fw_elicitation] consider
      (viewer) v where "a = Some v" "snd wl = [Offered (v, ForwardAnswered)]"
    | (none) "a = None" "snd wl = [] \<or> (\<exists>v out. out \<noteq> ForwardAnswered \<and> snd wl = [Offered (v, out)])"
    by auto
  then show ?thesis
  proof cases
    case viewer
    have "(w', log) = send_reply (recorded C) msg (ResultReply (raw_value v)) wl" and "s' = s"
      using assms viewer by (simp_all add: answerElicitation_def o)
    then have "log = [Offered (v, ForwardAnswered), Replied (raw_value (fr_id msg)) (ResultReply (raw_value v))]"
      by (metis send_reply_log snd_conv viewer(2) append_Cons append_Nil)
    with \<open>s' = s\<close> show ?thesis by (auto simp: answered_by_viewer_def viewer_answer_def)
  next
    case none
    let ?r = "ResultReply (JObj [(''action'', JStr ''cancel'')])"
    have c: "cancelTurn (recorded C) (s\<lparr>se_hitl_unanswered := True\<rparr>) (send_reply (recorded C) msg ?r wl) = (w', log)"
      and s': "s' = s\<lparr>se_hitl_unanswered := True\<rparr>"
      using assms none by (auto simp: answerElicitation_def o Let_def)
    then have "log = snd wl @ [Replied (raw_value (fr_id msg)) ?r] @
        (if se_id s = [] then [] else [Notified ''session/cancel'' (cancel_params (se_id s))])"
      using cancelTurn_log [of C "s\<lparr>se_hitl_unanswered := True\<rparr>" "send_reply (recorded C) msg ?r wl"]
      by (simp add: c)
    with none(2) s' show ?thesis
      using assms(1) by (auto simp: refused_def viewer_answer_def declines_def)
  qed
qed

lemma permission_log:
  assumes "fr_method msg = ''session/request_permission''"
    and "answerPermission (recorded C) (map_option recorded_forwarder F) msg (w, []) = (w', log)"
  shows "\<exists>r. replies log = [(raw_value (fr_id msg), r)] \<and>
    (answered_by_viewer msg s s r log \<or> refused msg s s r log)"
proof (cases "unmarshal_raw decode_permission (fr_params msg)")
  case None
  then have "log = [Replied (raw_value (fr_id msg)) (outcome_reply cancelled_outcome)]"
    using assms(2) send_reply_log [of C msg "outcome_reply cancelled_outcome" "(w, [])"]
    by (simp add: answerPermission_def)
  then show ?thesis using assms(1) by (auto simp: refused_def viewer_answer_def declines_def)
next
  case (Some os)
  obtain a wl where o:
    "offer (map_option fw_permission (map_option recorded_forwarder F)) (fr_params msg) (w, []) = (a, wl)"
    by (metis surj_pair)
  from offer_cases [OF o, of fw_permission] consider
      (viewer) v where "a = Some v" "snd wl = [Offered (v, ForwardAnswered)]"
    | (none) "a = None" "snd wl = [] \<or> (\<exists>v out. out \<noteq> ForwardAnswered \<and> snd wl = [Offered (v, out)])"
    by auto
  then show ?thesis
  proof cases
    case viewer
    then have "log = [Offered (v, ForwardAnswered), Replied (raw_value (fr_id msg)) (ResultReply (raw_value v))]"
      using assms(2) Some send_reply_log [of C msg "ResultReply (raw_value v)" wl]
      by (simp add: answerPermission_def o)
    then show ?thesis by (auto simp: answered_by_viewer_def viewer_answer_def)
  next
    case none
    then have "log = snd wl @ [Replied (raw_value (fr_id msg)) (outcome_reply (denial os))]"
      using assms(2) Some send_reply_log [of C msg "outcome_reply (denial os)" wl]
      by (simp add: answerPermission_def o)
    with none(2) show ?thesis
      using assms(1) denial_declines [OF assms(1) Some] by (auto simp: refused_def viewer_answer_def)
  qed
qed

text \<open>C27: Every request of the agent gets exactly one reply, under its own id, and the harness never grants
  anything by itself.  When a viewer answered, the reply is that answer and nothing else happens; otherwise it
  is a refusal (a permission cancelled or rejected once, a question cancelled, anything else an error), and an
  unanswered question moreover marks the run as failed and, after the reply, cancels the turn.\<close>

theorem asks_fail_closed:
  assumes "answerAgentRequest (recorded C) (map_option recorded_forwarder F) msg s (w, []) = (s', (w', log))"
  shows "\<exists>r. replies log = [(raw_value (fr_id msg), r)] \<and>
    (answered_by_viewer msg s s' r log \<or> refused msg s s' r log)"
proof -
  consider (ask) "fr_method msg = ''elicitation/create''" | (perm) "fr_method msg = ''session/request_permission''"
    | (else) "fr_method msg \<noteq> ''elicitation/create''" "fr_method msg \<noteq> ''session/request_permission''" by blast
  then show ?thesis
  proof cases
    case ask
    with assms show ?thesis using elicitation_log by (simp add: answerAgentRequest_def)
  next
    case perm
    with assms show ?thesis using permission_log [OF perm] by (auto simp: answerAgentRequest_def)
  next
    case else
    then have "log = [Replied (raw_value (fr_id msg)) (ErrorReply (- 32601) ''method not supported by harness'')]"
      and "s' = s"
      using assms send_reply_log [of C msg "ErrorReply (- 32601) ''method not supported by harness''" "(w, [])"]
      by (auto simp: answerAgentRequest_def)
    with else show ?thesis by (auto simp: refused_def viewer_answer_def declines_def)
  qed
qed

theorem asks_fail_closed_witness:
  "\<exists>s' w' log r.
     answerAgentRequest (recorded quiet_conn) (map_option recorded_forwarder None)
       (zero_frame\<lparr>fr_id := Some (JStr ''q1''), fr_method := ''elicitation/create''\<rparr>)
       (new_session\<lparr>se_id := ''s1''\<rparr>) ((), []) = (s', (w', log))
     \<and> replies log = [(JStr ''q1'', r)] \<and> se_hitl_unanswered s'"
proof -
  let ?m = "zero_frame\<lparr>fr_id := Some (JStr ''q1''), fr_method := ''elicitation/create''\<rparr>"
  let ?s = "new_session\<lparr>se_id := ''s1''\<rparr>"
  obtain s' w' log where a:
    "answerAgentRequest (recorded quiet_conn) (map_option recorded_forwarder None) ?m ?s ((), []) = (s', (w', log))"
    by (metis surj_pair)
  have "log = [Replied (JStr ''q1'') (ResultReply (JObj [(''action'', JStr ''cancel'')])),
      Notified ''session/cancel'' (cancel_params ''s1'')]"
    using a by (simp add: answerAgentRequest_def answerElicitation_def offer_def send_reply_def cancelTurn_def
        noted_def quiet_conn_def raw_value_def zero_frame_def new_session_def Let_def)
  moreover from asks_fail_closed [OF a] obtain r where "replies log = [(JStr ''q1'', r)]"
    and "answered_by_viewer ?m ?s s' r log \<or> refused ?m ?s s' r log" by (auto simp: raw_value_def)
  ultimately have "se_hitl_unanswered s'"
    by (auto simp: answered_by_viewer_def viewer_answer_def refused_def)
  with a \<open>replies log = [(JStr ''q1'', r)]\<close> show ?thesis by blast
qed

end
