(* ===== verification/WsClient.thy ===== *)
theory WsClient
  imports AgentSession
begin

text \<open>
  The connection to the agent (\<open>harness/internal/acp/wsclient.go\<close>): how inbound frames are told apart and
  routed, the calls that wait for a response, and the retries of the dial.  Everything the mutex \<open>mu\<close> guards
  is one record; a channel is the list of what is buffered in it.
\<close>

section \<open>State\<close>

record raw_notification =
  rn_seq :: nat
  rn_method :: string
  rn_frame :: json

text \<open>
  \<open>ws_pending\<close> are the ids with a registered channel, \<open>ws_inbox\<close> what such a channel (of capacity one) holds,
  which its caller can still receive after the id was removed.  Sinks and raw subscribers are named by
  \<open>nextSubID\<close>; a raw subscriber has its own capacity.  \<open>ws_requests\<close> is the counter of request ids.
\<close>

record ws_state =
  ws_requests :: int
  ws_pending :: "int list"
  ws_inbox :: "int \<Rightarrow> rpc_frame option"
  ws_sinks :: "(nat \<times> rpc_frame list) list"
  ws_raws :: "(nat \<times> nat \<times> raw_notification list) list"
  ws_next :: nat
  ws_seq :: nat

definition new_ws :: ws_state where
  "new_ws = \<lparr>ws_requests = 0, ws_pending = [], ws_inbox = (\<lambda>_. None), ws_sinks = [], ws_raws = [],
     ws_next = 0, ws_seq = 0\<rparr>"

definition sink_capacity :: nat where "sink_capacity = 256"

section \<open>Registration\<close>

definition newRequest :: "ws_state \<Rightarrow> int \<times> ws_state" where
  "newRequest s = (ws_requests s + 1, s\<lparr>ws_requests := ws_requests s + 1\<rparr>)"

definition registerPending :: "int \<Rightarrow> ws_state \<Rightarrow> ws_state" where
  "registerPending i s =
     s\<lparr>ws_pending := i # removeAll i (ws_pending s), ws_inbox := (ws_inbox s)(i := None)\<rparr>"

definition unregisterPending :: "int \<Rightarrow> ws_state \<Rightarrow> ws_state" where
  "unregisterPending i s = s\<lparr>ws_pending := removeAll i (ws_pending s)\<rparr>"

definition addNotifSink :: "ws_state \<Rightarrow> nat \<times> ws_state" where
  "addNotifSink s =
     (let i = ws_next s + 1 in (i, s\<lparr>ws_next := i, ws_sinks := (i, []) # ws_sinks s\<rparr>))"

definition removeNotifSink :: "nat \<Rightarrow> ws_state \<Rightarrow> ws_state" where
  "removeNotifSink i s = s\<lparr>ws_sinks := filter (\<lambda>k. fst k \<noteq> i) (ws_sinks s)\<rparr>"

definition SubscribeRawNotifications :: "nat \<Rightarrow> ws_state \<Rightarrow> nat \<times> ws_state" where
  "SubscribeRawNotifications buffer s =
     (let i = ws_next s + 1 in (i, s\<lparr>ws_next := i, ws_raws := (i, buffer, []) # ws_raws s\<rparr>))"

definition unsubscribeRaw :: "nat \<Rightarrow> ws_state \<Rightarrow> ws_state" where
  "unsubscribeRaw i s = s\<lparr>ws_raws := filter (\<lambda>k. fst k \<noteq> i) (ws_raws s)\<rparr>"

section \<open>Routing\<close>

text \<open>A full channel drops the frame.\<close>

definition offer_frame :: "nat \<Rightarrow> 'a \<Rightarrow> 'a list \<Rightarrow> 'a list" where
  "offer_frame cap x q = (if length q < cap then q @ [x] else q)"

definition fanOutNotification :: "rpc_frame \<Rightarrow> json \<Rightarrow> ws_state \<Rightarrow> ws_state" where
  "fanOutNotification f raw s =
     (let n = ws_seq s + 1;
          rn = \<lparr>rn_seq = n, rn_method = fr_method f, rn_frame = raw\<rparr>
      in s\<lparr>ws_seq := n,
           ws_sinks := map (\<lambda>(i, q). (i, offer_frame sink_capacity f q)) (ws_sinks s),
           ws_raws := map (\<lambda>(i, cap, q). (i, cap, offer_frame cap rn q)) (ws_raws s)\<rparr>)"

definition routeResponse :: "rpc_frame \<Rightarrow> ws_state \<Rightarrow> ws_state" where
  "routeResponse f s =
     (case IntID f of
        None \<Rightarrow> s
      | Some i \<Rightarrow>
          if i \<in> set (ws_pending s)
          then s\<lparr>ws_pending := removeAll i (ws_pending s), ws_inbox := (ws_inbox s)(i := Some f)\<rparr>
          else s)"

text \<open>One turn of \<open>readLoop\<close>: the new state and the request that goes to the handler.\<close>

definition read_frame :: "json \<Rightarrow> ws_state \<Rightarrow> ws_state \<times> rpc_frame option" where
  "read_frame raw s =
     (case decode_frame raw of
        None \<Rightarrow> (s, None)
      | Some f \<Rightarrow>
          (case frame_kind f of
             Notification \<Rightarrow> (fanOutNotification f raw s, None)
           | AgentRequest \<Rightarrow> (s, Some f)
           | Answer \<Rightarrow> (routeResponse f s, None)
           | Junk \<Rightarrow> (s, None)))"

text \<open>Without a handler the request is refused, so that the agent is never left waiting.\<close>

definition dispatchAgentRequest ::
  "'w acp_conn \<Rightarrow> (rpc_frame \<Rightarrow> 'w \<Rightarrow> 'w) option \<Rightarrow> rpc_frame \<Rightarrow> 'w \<Rightarrow> 'w" where
  "dispatchAgentRequest C handler f w =
     (case handler of
        None \<Rightarrow> send_reply C f (ErrorReply (- 32601) ''method not supported by harness'') w
      | Some h \<Rightarrow> h f w)"

section \<open>Calls\<close>

text \<open>
  What the \<open>select\<close> of \<open>Call\<close> receives until it returns, and its result: the notifications come with it also
  when it fails.
\<close>

definition closed_error :: err where
  "closed_error = errorf ''websocket connection closed'' []"

definition call_answer :: "rpc_frame \<Rightarrow> json option res" where
  "call_answer msg =
     (case fr_error msg of
        Some e \<Rightarrow> Inl (errorf ''ACP error %d: %w'' [Lit (int_text (re_code e)), Lit (re_message e)])
      | None \<Rightarrow> Inr (fr_result msg))"

fun call_loop :: "prompt_event list \<Rightarrow> rpc_frame list \<Rightarrow> (json option res \<times> rpc_frame list) option" where
  "call_loop [] ns = None"
| "call_loop (EvNotification f # es) ns = call_loop es (ns @ [f])"
| "call_loop (EvResponse msg fs # es) ns = Some (call_answer msg, ns @ fs)"
| "call_loop (EvClosed (Some msg) fs # es) ns = Some (call_answer msg, ns @ fs)"
| "call_loop (EvClosed None fs # es) ns = Some (Inl closed_error, ns)"
| "call_loop (EvDone e # es) ns = Some (Inl e, ns)"

text \<open>\<open>CallRPC\<close> keeps the error object of the agent.\<close>

fun call_rpc :: "prompt_event \<Rightarrow> (json option \<times> rpc_error option) res option" where
  "call_rpc (EvResponse msg fs) = Some (Inr (fr_result msg, fr_error msg))"
| "call_rpc (EvClosed m fs) = Some (Inl closed_error)"
| "call_rpc (EvDone e) = Some (Inl e)"
| "call_rpc (EvNotification f) = None"

section \<open>Dialling\<close>

text \<open>
  \<open>WaitReadyDial\<close>: attempts until the deadline, the delay doubling from half a second up to four.  An attempt
  sees the time before it and whether it connects; \<open>stop\<close> says the context ended during the wait.
\<close>

record dial_attempt =
  da_now :: int
  da_connects :: bool
  da_stopped :: bool

datatype dial_result = Dialled | DialStopped | NotReady

fun dial_loop :: "int \<Rightarrow> int \<Rightarrow> dial_attempt list \<Rightarrow> int list \<Rightarrow> (dial_result \<times> int list) option" where
  "dial_loop deadline delay [] ds = None"
| "dial_loop deadline delay (a # as) ds =
     (if \<not> da_now a < deadline then Some (NotReady, ds)
      else if da_connects a then Some (Dialled, ds)
      else if da_stopped a then Some (DialStopped, ds @ [delay])
      else dial_loop deadline (if delay < 4000000000 then 2 * delay else delay) as (ds @ [delay]))"

definition WaitReadyDial :: "int \<Rightarrow> int \<Rightarrow> dial_attempt list \<Rightarrow> (dial_result \<times> int list) option" where
  "WaitReadyDial start timeout as = dial_loop (start + timeout) 500000000 as []"

section \<open>Every interleaving of calls and frames\<close>

text \<open>
  The actions of the goroutines that share the state: callers register a fresh request, take its response,
  give it up; sinks and subscribers come and go and are drained; the reader handles a frame.
\<close>

inductive ws_step :: "ws_state \<Rightarrow> ws_state \<Rightarrow> bool" where
  Register: "newRequest s = (i, s1) \<Longrightarrow> ws_step s (registerPending i s1)"
| Unregister: "ws_step s (unregisterPending i s)"
| Take: "ws_step s (s\<lparr>ws_inbox := (ws_inbox s)(i := None)\<rparr>)"
| AddSink: "addNotifSink s = (i, s1) \<Longrightarrow> ws_step s s1"
| RemoveSink: "ws_step s (removeNotifSink i s)"
| DrainSink: "ws_step s (s\<lparr>ws_sinks := map (\<lambda>(j, q). (j, if j = i then drop n q else q)) (ws_sinks s)\<rparr>)"
| Subscribe: "SubscribeRawNotifications cap s = (i, s1) \<Longrightarrow> ws_step s s1"
| Unsubscribe: "ws_step s (unsubscribeRaw i s)"
| DrainRaw: "ws_step s (s\<lparr>ws_raws := map (\<lambda>(j, c, q). (j, c, if j = i then drop n q else q)) (ws_raws s)\<rparr>)"
| Read: "read_frame raw s = (s1, req) \<Longrightarrow> ws_step s s1"

inductive_cases ws_stepE: "ws_step s s'"

inductive ws_reachable :: "ws_state \<Rightarrow> bool" where
  Start: "ws_reachable new_ws"
| Step: "ws_reachable s \<Longrightarrow> ws_step s s' \<Longrightarrow> ws_reachable s'"

definition routed_ok :: "ws_state \<Rightarrow> bool" where
  "routed_ok s \<longleftrightarrow>
     0 \<le> ws_requests s \<and> distinct (ws_pending s) \<and>
     (\<forall>i \<in> set (ws_pending s). 0 < i \<and> i \<le> ws_requests s \<and> ws_inbox s i = None) \<and>
     (\<forall>i f. ws_inbox s i = Some f \<longrightarrow> i \<le> ws_requests s \<and> IntID f = Some i \<and> fr_method f = [])"

definition buffers_ok :: "ws_state \<Rightarrow> bool" where
  "buffers_ok s \<longleftrightarrow>
     (\<forall>(i, q) \<in> set (ws_sinks s). length q \<le> sink_capacity) \<and>
     (\<forall>(i, cap, q) \<in> set (ws_raws s). length q \<le> cap)"

lemma route_routed: "routed_ok s \<Longrightarrow> fr_method f = [] \<Longrightarrow> routed_ok (routeResponse f s)"
  by (auto simp: routed_ok_def routeResponse_def distinct_removeAll split: option.splits)

lemma fan_routed: "routed_ok (fanOutNotification f raw s) = routed_ok s"
  by (simp add: routed_ok_def fanOutNotification_def Let_def)

lemma read_routed: "routed_ok s \<Longrightarrow> read_frame raw s = (s', r) \<Longrightarrow> routed_ok s'"
  by (auto simp: read_frame_def fan_routed route_routed frame_kind_iff split: option.splits frame_kind.splits)

lemma register_routed: "routed_ok s \<Longrightarrow> newRequest s = (i, s1) \<Longrightarrow> routed_ok (registerPending i s1)"
  by (auto simp: routed_ok_def newRequest_def registerPending_def distinct_removeAll) fastforce+

lemma step_routed:
  assumes "ws_step s s'" and "routed_ok s"
  shows "routed_ok s'"
  using assms(1)
proof (cases rule: ws_step.cases)
  case Register
  then show ?thesis using assms(2) register_routed by blast
next
  case Read
  then show ?thesis using assms(2) read_routed by blast
qed (use assms(2) in \<open>auto simp: routed_ok_def unregisterPending_def addNotifSink_def removeNotifSink_def
      SubscribeRawNotifications_def unsubscribeRaw_def Let_def distinct_removeAll split: if_splits\<close>)

lemma reachable_routed: "ws_reachable s \<Longrightarrow> routed_ok s"
proof (induction rule: ws_reachable.induct)
  case Start
  then show ?case by (simp add: routed_ok_def new_ws_def)
next
  case (Step s s')
  then show ?case using step_routed by blast
qed

lemma offer_frame_length: "length q \<le> cap \<Longrightarrow> length (offer_frame cap x q) \<le> cap"
  by (auto simp: offer_frame_def)

lemma fan_buffers: "buffers_ok s \<Longrightarrow> buffers_ok (fanOutNotification f raw s)"
  by (auto simp: buffers_ok_def fanOutNotification_def Let_def offer_frame_length)

lemma route_buffers: "buffers_ok (routeResponse f s) = buffers_ok s"
  by (simp add: buffers_ok_def routeResponse_def split: option.splits)

lemma read_buffers: "buffers_ok s \<Longrightarrow> read_frame raw s = (s', r) \<Longrightarrow> buffers_ok s'"
  by (auto simp: read_frame_def fan_buffers route_buffers split: option.splits frame_kind.splits)

lemma step_buffers:
  assumes "ws_step s s'" and "buffers_ok s"
  shows "buffers_ok s'"
  using assms(1)
proof (cases rule: ws_step.cases)
  case (Read raw req)
  then show ?thesis using assms(2) read_buffers by blast
next
  case (DrainSink i n)
  then show ?thesis
    using assms(2) by (fastforce simp: buffers_ok_def intro: order.trans [OF diff_le_self])
next
  case (DrainRaw i n)
  then show ?thesis
    using assms(2) by (fastforce simp: buffers_ok_def intro: order.trans [OF diff_le_self])
qed (use assms(2) in \<open>auto simp: buffers_ok_def newRequest_def registerPending_def unregisterPending_def
      addNotifSink_def removeNotifSink_def SubscribeRawNotifications_def unsubscribeRaw_def Let_def split: if_splits\<close>)

lemma reachable_buffers: "ws_reachable s \<Longrightarrow> buffers_ok s"
proof (induction rule: ws_reachable.induct)
  case Start
  then show ?case by (simp add: buffers_ok_def new_ws_def)
next
  case (Step s s')
  then show ?case using step_buffers by blast
qed

text \<open>A response that waits for its caller stays until it is taken.\<close>

lemma step_inbox:
  assumes "ws_step s s'" and "routed_ok s" and "ws_inbox s i = Some f"
  shows "ws_inbox s' i = Some f \<or> ws_inbox s' i = None"
  using assms(1)
proof (cases rule: ws_step.cases)
  case (Read raw req)
  have "i \<notin> set (ws_pending s)" using assms(2,3) by (auto simp: routed_ok_def)
  then show ?thesis
    using Read assms(3) by (auto simp: read_frame_def fanOutNotification_def routeResponse_def Let_def
        split: option.splits frame_kind.splits if_splits)
qed (use assms(3) in \<open>auto simp: newRequest_def registerPending_def unregisterPending_def
      addNotifSink_def removeNotifSink_def SubscribeRawNotifications_def unsubscribeRaw_def Let_def split: if_splits\<close>)

text \<open>C37: However callers, subscribers and the reader interleave, a response only reaches the caller of its own
  request: what the channel of an id holds is a response frame with that numeric id, an id waits or holds but
  never both, a response is neither replaced nor delivered twice, and an id is never used again.  Buffers stay
  within their capacities, so that the reader never blocks.\<close>

theorem responses_matched:
  assumes "ws_reachable s" and "ws_step s s'"
  shows "(\<forall>i f. ws_inbox s i = Some f \<longrightarrow>
      IntID f = Some i \<and> fr_method f = [] \<and> i \<notin> set (ws_pending s) \<and>
      (ws_inbox s' i = Some f \<or> ws_inbox s' i = None) \<and> i \<le> ws_requests s) \<and>
    fst (newRequest s) \<notin> set (ws_pending s) \<and> ws_inbox s (fst (newRequest s)) = None \<and>
    distinct (ws_pending s) \<and> buffers_ok s"
proof -
  have ok: "routed_ok s" using assms reachable_routed by blast
  have boxes: "IntID f = Some i \<and> fr_method f = [] \<and> i \<notin> set (ws_pending s) \<and>
      (ws_inbox s' i = Some f \<or> ws_inbox s' i = None) \<and> i \<le> ws_requests s" if "ws_inbox s i = Some f" for i f
    using ok that step_inbox [OF assms(2) ok that] by (fastforce simp: routed_ok_def)
  have fresh: "fst (newRequest s) \<notin> set (ws_pending s) \<and> ws_inbox s (fst (newRequest s)) = None"
  proof -
    let ?k = "fst (newRequest s)"
    have k: "?k = ws_requests s + 1" by (simp add: newRequest_def)
    then have "?k \<notin> set (ws_pending s)" using ok by (auto simp: routed_ok_def)
    moreover have "ws_inbox s ?k = None"
    proof (cases "ws_inbox s ?k")
      case (Some f)
      then have "?k \<le> ws_requests s" using ok by (simp add: routed_ok_def)
      with k show ?thesis by simp
    qed
    ultimately show ?thesis ..
  qed
  have "distinct (ws_pending s) \<and> buffers_ok s"
    using ok assms(1) reachable_buffers by (simp add: routed_ok_def)
  with boxes fresh show ?thesis by blast
qed

text \<open>A request, its response, and the caller that takes it.\<close>

definition answer_one :: json where
  "answer_one = JObj [(''id'', JNumber ''1''), (''result'', JBool True)]"

definition one_waiting :: ws_state where
  "one_waiting = registerPending 1 (new_ws\<lparr>ws_requests := 1\<rparr>)"

definition answer_frame :: rpc_frame where
  "answer_frame = zero_frame\<lparr>fr_id := Some (JNumber ''1''), fr_result := Some (JBool True)\<rparr>"

lemma answer_routed:
  "read_frame answer_one one_waiting =
     (one_waiting\<lparr>ws_pending := [], ws_inbox := (\<lambda>_. None)(1 := Some answer_frame)\<rparr>, None)"
proof -
  have "decode_frame answer_one = Some answer_frame"
    by (simp add: decode_frame_def answer_one_def answer_frame_def decode_struct_def struct_field_def
        set_frame_field_def zero_frame_def)
  moreover have "IntID answer_frame = Some 1"
    by (simp add: IntID_def HasID_def answer_frame_def parse_int_def is_digit_def less_eq_char_def
        digits_val_def digit_val_def Let_def)
  ultimately show ?thesis
    by (simp add: read_frame_def frame_kind_def IsNotification_def IsAgentRequest_def HasID_def
        answer_frame_def zero_frame_def routeResponse_def one_waiting_def registerPending_def new_ws_def
        fun_upd_def)
qed

theorem responses_matched_witness:
  "\<exists>s. ws_reachable s \<and> ws_inbox s 1 = Some answer_frame \<and> IntID answer_frame = Some 1 \<and> 1 \<notin> set (ws_pending s)"
proof -
  let ?s = "fst (read_frame answer_one one_waiting)"
  have "ws_step new_ws one_waiting"
    unfolding one_waiting_def by (rule Register) (simp add: newRequest_def new_ws_def)
  then have "ws_reachable one_waiting" by (meson Start Step)
  moreover have "ws_step one_waiting ?s" by (rule Read) (rule surjective_pairing)
  ultimately have r: "ws_reachable ?s" by (rule Step)
  have b: "ws_inbox ?s 1 = Some answer_frame" by (simp add: answer_routed)
  have "ws_step ?s (unregisterPending 1 ?s)" by (rule Unregister)
  from responses_matched [OF r this] r b show ?thesis by blast
qed

end
