(* ===== verification/Outcome.thy ===== *)
theory Outcome
  imports AgentSession Sandbox Text
begin

text \<open>
  How a stage ended and how the harness reports it (\<open>outcome.go\<close> of \<open>harness/cmd/migration-harness\<close>): the
  exit code, the reading of the prompt's result, the usage numbers and the termination log.
\<close>

section \<open>Outcomes and exit codes\<close>

datatype outcome = OutSucceeded | OutFailed | OutLimitReached

fun outcome_text :: "outcome \<Rightarrow> string" where
  "outcome_text OutSucceeded = ''succeeded''"
| "outcome_text OutLimitReached = ''limitReached''"
| "outcome_text OutFailed = ''failed''"

fun outcome_exit_code :: "outcome \<Rightarrow> int" where
  "outcome_exit_code OutSucceeded = 0"
| "outcome_exit_code OutLimitReached = 2"
| "outcome_exit_code OutFailed = 1"

datatype limit_kind = LimitNone | LimitMaxTurns | LimitMaxCost

fun limit_text :: "limit_kind \<Rightarrow> string" where
  "limit_text LimitNone = []"
| "limit_text LimitMaxTurns = ''maxTurns''"
| "limit_text LimitMaxCost = ''maxCost''"

definition stopReasonMaxTurns :: string where
  "stopReasonMaxTurns = ''max_turn_requests''"

text \<open>
  A missing result without an error does not occur (\<open>prompt_result_or_error\<close> below); the code would panic on it.
\<close>

definition turns_over :: "int \<Rightarrow> prompt_result \<Rightarrow> bool" where
  "turns_over native r \<longleftrightarrow> 0 < native \<and> native \<le> int (pr_turns_used r)"

definition classifyOutcome ::
  "prompt_result option \<Rightarrow> err option \<Rightarrow> int \<Rightarrow> bool \<Rightarrow> outcome \<times> limit_kind" where
  "classifyOutcome result err nativeMaxTurns providerError =
     (case (err, result) of
        (Some e, Some r) \<Rightarrow>
          if kind_of e = KConnectionLost \<and> turns_over nativeMaxTurns r
          then (OutLimitReached, LimitMaxTurns) else (OutFailed, LimitNone)
      | (Some e, None) \<Rightarrow> (OutFailed, LimitNone)
      | (None, None) \<Rightarrow> (OutFailed, LimitNone)
      | (None, Some r) \<Rightarrow>
          if pr_stop_reason r = ''cancelled'' \<and> pr_cost_limit_reached r then (OutLimitReached, LimitMaxCost)
          else if pr_stop_reason r = ''cancelled'' then (OutFailed, LimitNone)
          else if providerError \<and> pr_turns_used r = 0 then (OutFailed, LimitNone)
          else if pr_stop_reason r = stopReasonMaxTurns then (OutLimitReached, LimitMaxTurns)
          else if turns_over nativeMaxTurns r then (OutLimitReached, LimitMaxTurns)
          else if pr_cost_limit_reached r then (OutSucceeded, LimitMaxCost)
          else (OutSucceeded, LimitNone))"

section \<open>Usage\<close>

record usage =
  us_turns :: int
  us_context_used :: int
  us_context_size :: int
  us_cost :: f64

definition combineUsage :: "prompt_result \<Rightarrow> prompt_result option \<Rightarrow> usage" where
  "combineUsage primary handoff =
     (let u = \<lparr>us_turns = int (pr_turns_used primary), us_context_used = pr_context_used primary,
               us_context_size = pr_context_size primary, us_cost = pr_cost primary\<rparr>
      in case handoff of
           None \<Rightarrow> u
         | Some h \<Rightarrow>
             let u1 = u\<lparr>us_turns := us_turns u + int (pr_turns_used h)\<rparr>;
                 u2 = (if f64_less (us_cost u1) (pr_cost h) then u1\<lparr>us_cost := pr_cost h\<rparr> else u1)
             in if 0 < pr_context_size h
                then u2\<lparr>us_context_used := pr_context_used h, us_context_size := pr_context_size h\<rparr>
                else u2)"

section \<open>Texts cut to a length\<close>

text \<open>The character U+2026.\<close>

definition ellipsis :: string where
  "ellipsis = map char_of [226, 128, 166 :: nat]"

text \<open>\<open>string([]rune(s)[:n])\<close>.\<close>

definition first_runes :: "nat \<Rightarrow> string \<Rightarrow> string" where
  "first_runes n s = concat (map encode_rune (take n (runes s)))"

definition cut_line :: "nat \<Rightarrow> string \<Rightarrow> string" where
  "cut_line n line =
     (if n < rune_count line then trim_space (first_runes (n - 1) line) @ ellipsis else line)"

definition providerErrorSummaryLen :: nat where
  "providerErrorSummaryLen = 1000"

definition providerErrorSummary :: "string \<Rightarrow> string" where
  "providerErrorSummary text =
     (let failure = ProviderErrorText text;
          t = (if failure \<noteq> [] then failure else text)
      in case find (\<lambda>l. l \<noteq> []) (map trim_space (split_on nl t)) of
           None \<Rightarrow> []
         | Some line \<Rightarrow> cut_line providerErrorSummaryLen line)"

fun cut_back :: "string \<Rightarrow> nat \<Rightarrow> nat" where
  "cut_back s 0 = 0"
| "cut_back s (Suc n) = (if rune_start (s ! Suc n) then Suc n else cut_back s n)"

definition truncateRuneSafe :: "string \<Rightarrow> nat \<Rightarrow> string" where
  "truncateRuneSafe s maxBytes = (if length s \<le> maxBytes then s else take (cut_back s maxBytes) s)"

section \<open>The termination log\<close>

record termination_blob =
  tb_exit_code :: int
  tb_outcome :: string
  tb_limit_reached :: string
  tb_stop_reason :: string
  tb_usage :: "usage option"

definition executeErrorTerminationBlob :: "string \<Rightarrow> int \<Rightarrow> termination_blob" where
  "executeErrorTerminationBlob errText code =
     \<lparr>tb_exit_code = code, tb_outcome = outcome_text OutFailed, tb_limit_reached = [],
      tb_stop_reason = errText, tb_usage = None\<rparr>"

definition maxTerminationLogBytes :: nat where "maxTerminationLogBytes = 4096"

definition defaultTerminationLogPath :: string where
  "defaultTerminationLogPath = ''/dev/termination-log''"

definition terminationLogPath :: "(string \<Rightarrow> string) \<Rightarrow> string" where
  "terminationLogPath getenv =
     (let v = getenv ''HARNESS_TERMINATION_LOG_PATH'' in if v \<noteq> [] then v else defaultTerminationLogPath)"

text \<open>The members of the two structs with those that are omitted when zero; \<^const>\<open>None\<close> is a value that has
  no JSON.\<close>

definition int_member :: "string \<Rightarrow> int \<Rightarrow> (string \<times> string) list" where
  "int_member k i = (if i = 0 then [] else [(k, int_text i)])"

definition cost_member :: "f64 \<Rightarrow> (string \<times> string) list option" where
  "cost_member c =
     (if f64_magnitude c = 0 then Some []
      else map_option (\<lambda>t. [(''cost'', t)]) (json_float c))"

definition usage_json :: "usage \<Rightarrow> string option" where
  "usage_json u =
     map_option (\<lambda>cost. struct_json (int_member ''turnsUsed'' (us_turns u) @
         int_member ''contextUsed'' (us_context_used u) @ int_member ''contextSize'' (us_context_size u) @ cost))
       (cost_member (us_cost u))"

definition usage_member :: "usage option \<Rightarrow> (string \<times> string) list option" where
  "usage_member u =
     (case u of None \<Rightarrow> Some [] | Some v \<Rightarrow> map_option (\<lambda>t. [(''usage'', t)]) (usage_json v))"

definition text_member :: "string \<Rightarrow> string \<Rightarrow> (string \<times> string) list" where
  "text_member k s = (if s = [] then [] else [(k, json_string s)])"

definition termination_json :: "termination_blob \<Rightarrow> string option" where
  "termination_json t =
     map_option (\<lambda>us. struct_json ([(''exitCode'', int_text (tb_exit_code t)),
         (''outcome'', json_string (tb_outcome t))] @ text_member ''limitReached'' (tb_limit_reached t) @
         text_member ''stopReason'' (tb_stop_reason t) @ us))
       (usage_member (tb_usage t))"

text \<open>What remains when nothing else fits.\<close>

definition minimal_blob :: "termination_blob \<Rightarrow> termination_blob" where
  "minimal_blob t =
     \<lparr>tb_exit_code = tb_exit_code t, tb_outcome = tb_outcome t, tb_limit_reached = tb_limit_reached t,
      tb_stop_reason = [], tb_usage = None\<rparr>"

definition trimmed_blob :: "termination_blob \<Rightarrow> termination_blob" where
  "trimmed_blob t =
     (if 200 < length (tb_stop_reason t)
      then t\<lparr>tb_stop_reason := truncateRuneSafe (tb_stop_reason t) 200 @ ellipsis\<rparr> else t)"

definition minimal_json :: "termination_blob \<Rightarrow> string" where
  "minimal_json t = (case termination_json (minimal_blob t) of None \<Rightarrow> [] | Some d \<Rightarrow> d)"

definition termination_data :: "termination_blob \<Rightarrow> string option" where
  "termination_data t =
     (case termination_json t of
        None \<Rightarrow> None
      | Some data \<Rightarrow>
          if maxTerminationLogBytes < length data
          then (case termination_json (trimmed_blob t) of
                  Some d1 \<Rightarrow> if maxTerminationLogBytes < length d1 then Some (minimal_json t) else Some d1
                | None \<Rightarrow> Some (minimal_json t))
          else Some data)"

definition writeTerminationLog ::
  "(string \<Rightarrow> string \<Rightarrow> 'w command) \<Rightarrow> string \<Rightarrow> termination_blob \<Rightarrow> 'w \<Rightarrow> 'w" where
  "writeTerminationLog write_file path t w =
     (case termination_data t of None \<Rightarrow> w | Some data \<Rightarrow> snd (write_file path data w))"

lemma prompt_answer_or_error: "prompt_answer msg r = Returned q e \<Longrightarrow> q \<noteq> None \<or> e \<noteq> None"
  by (rule ccontr) (auto simp: prompt_answer_def split: option.splits)

lemma prompt_result_or_error:
  "prompt_loop C sid limit es p w = (Returned r e, w') \<Longrightarrow> r \<noteq> None \<or> e \<noteq> None"
proof (induction C sid limit es p w rule: prompt_loop.induct)
  case 3
  then show ?case using prompt_answer_or_error by (force split: prod.splits)
next
  case 4
  then show ?case using prompt_answer_or_error by (force split: prod.splits)
qed (auto split: prod.splits)

end
