(* ===== verification/HarnessConfig.thy ===== *)
theory HarnessConfig
  imports Outcome FloatArith SkillWire
begin

text \<open>
  What the harness runs with: the parameter file and its rendering for the prompt (\<open>internal/params/params.go\<close>),
  the configuration from the environment (\<open>internal/config/config.go\<close>), the prompt of a stage
  (\<open>internal/prompt/prompt.go\<close>) and the environment of the agent (\<open>internal/goose/lifecycle.go\<close>), under
  \<open>src/harness\<close>.
\<close>

section \<open>Budgets\<close>

text \<open>0.85 as a \<open>float64\<close>.\<close>

definition ReserveFraction :: f64 where
  "ReserveFraction = 0x3feb333333333333"

definition NativeTurnLimit :: "int \<Rightarrow> int" where
  "NativeTurnLimit maxTurns =
     (if maxTurns \<le> 0 then 0
      else let native = int (f64_floor (f64_mul (f64_of_nat (nat maxTurns)) ReserveFraction))
           in if native < 1 then 1 else native)"

section \<open>The parameter file\<close>

record harness_execution =
  hx_mode :: string
  hx_ask_user :: bool
  hx_max_turns :: int
  hx_max_cost :: string

text \<open>Values of the two maps keep the text of a number, which is in the range of a \<open>float64\<close>.\<close>

record harness_params =
  hp_workflow :: "(string \<times> json) list"
  hp_agent :: "(string \<times> json) list"
  hp_execution :: harness_execution

definition zero_execution :: harness_execution where
  "zero_execution = \<lparr>hx_mode = [], hx_ask_user = False, hx_max_turns = 0, hx_max_cost = []\<rparr>"

definition zero_params :: harness_params where
  "zero_params = \<lparr>hp_workflow = [], hp_agent = [], hp_execution = zero_execution\<rparr>"

definition set_execution_field :: "string \<Rightarrow> json \<Rightarrow> harness_execution \<Rightarrow> harness_execution option" where
  "set_execution_field n v x =
     (if n = ''mode'' then map_option (\<lambda>t. x\<lparr>hx_mode := t\<rparr>) (decode_string v (hx_mode x))
      else if n = ''askUser'' then map_option (\<lambda>b. x\<lparr>hx_ask_user := b\<rparr>) (decode_bool v (hx_ask_user x))
      else if n = ''maxTurns'' then map_option (\<lambda>i. x\<lparr>hx_max_turns := i\<rparr>) (decode_int v (hx_max_turns x))
      else map_option (\<lambda>t. x\<lparr>hx_max_cost := t\<rparr>) (decode_string v (hx_max_cost x)))"

definition decode_execution :: "json \<Rightarrow> harness_execution \<Rightarrow> harness_execution option" where
  "decode_execution = decode_struct [''mode'', ''askUser'', ''maxTurns'', ''maxCost''] set_execution_field"

text \<open>Into a map: its entries are added to those there are, \<open>null\<close> makes it nil.\<close>

definition decode_any_map :: "json \<Rightarrow> (string \<times> json) list \<Rightarrow> (string \<times> json) list option" where
  "decode_any_map v old =
     (case v of
        JNull \<Rightarrow> Some []
      | JObj kvs \<Rightarrow>
          if json_floats_ok v then Some (fold (\<lambda>kv. AList.update (fst kv) (json_any (snd kv))) kvs old) else None
      | _ \<Rightarrow> None)"

definition set_params_field :: "string \<Rightarrow> json \<Rightarrow> harness_params \<Rightarrow> harness_params option" where
  "set_params_field n v f =
     (if n = ''workflow'' then map_option (\<lambda>m. f\<lparr>hp_workflow := m\<rparr>) (decode_any_map v (hp_workflow f))
      else if n = ''agent'' then map_option (\<lambda>m. f\<lparr>hp_agent := m\<rparr>) (decode_any_map v (hp_agent f))
      else map_option (\<lambda>x. f\<lparr>hp_execution := x\<rparr>) (decode_execution v (hp_execution f)))"

definition decode_params :: "json \<Rightarrow> harness_params option" where
  "decode_params v = decode_struct [''workflow'', ''agent'', ''execution''] set_params_field v zero_params"

definition load_params :: "'w fs \<Rightarrow> string \<Rightarrow> ('w, harness_params) call" where
  "load_params F path w =
     (case fs_read_file F path w of
        (Inl e, w1) \<Rightarrow>
          (if kind_of e = KNotFound then Inr zero_params else Inl (wrapf ''read %s: %w'' [Lit path] e), w1)
      | (Inr data, w1) \<Rightarrow>
          (case Option.bind (json_unmarshal data) decode_params of
             None \<Rightarrow> Inl (wrapf ''parse %s: %w'' [Lit path] decode_error)
           | Some f \<Rightarrow> Inr f, w1))"

definition MaxTurns :: "harness_params \<Rightarrow> int option" where
  "MaxTurns f = (if hx_max_turns (hp_execution f) \<le> 0 then None else Some (hx_max_turns (hp_execution f)))"

subsection \<open>Rendering values\<close>

text \<open>
  \<open>int64(x)\<close> of a whole \<open>float64\<close>.  What Go makes of a value out of range is up to the implementation; this is
  the result of the conversion instruction on amd64.
\<close>

definition f64_to_int64 :: "f64 \<Rightarrow> int" where
  "f64_to_int64 b =
     (let i = (if f64_neg b then - int (f64_floor b) else int (f64_floor b))
      in if - (2 ^ 63) \<le> i \<and> i < 2 ^ 63 then i else - (2 ^ 63))"

text \<open>\<open>t == math.Trunc(t)\<close> within the bounds, both compared as \<open>float64\<close>: the upper one is \<open>2^63\<close> itself.\<close>

definition prints_as_int :: "f64 \<Rightarrow> bool" where
  "prints_as_int b \<longleftrightarrow>
     f64_finite b \<and> (case f64_rat b of (n, d) \<Rightarrow> n mod d = 0 \<and> n div d \<le> 2 ^ 63)"

text \<open>The verb \<open>%v\<close> on a \<open>float64\<close>: the shortest digits, with an exponent outside of \<open>[1e-4, 1e6)\<close>.\<close>

definition format_g :: "f64 \<Rightarrow> string" where
  "format_g b =
     (case shortest_digits b of
        (ds, p) \<Rightarrow>
          let x = p - 1; t = nat_text (nat \<bar>x\<bar>)
          in if x < - 4 \<or> 6 \<le> x
             then (if f64_neg b then ''-'' else []) @ take 1 ds @ (if length ds > 1 then ''.'' @ drop 1 ds else []) @
                  ''e'' @ (if x < 0 then ''-'' else ''+'') @ (if length t = 1 then ''0'' @ t else t)
             else format_f b)"

text \<open>\<open>%v\<close> on a decoded value.\<close>

function fmt_any :: "json \<Rightarrow> string" where
  "fmt_any JNull = ''<nil>''"
| "fmt_any (JBool b) = (if b then ''true'' else ''false'')"
| "fmt_any (JNumber s) = (case parse_float s of Some t \<Rightarrow> format_g t | None \<Rightarrow> s)"
| "fmt_any (JInt i) = int_text i"
| "fmt_any (JFloat f) = format_g f"
| "fmt_any (JStr s) = s"
| "fmt_any (JArr xs) = ''['' @ join '' '' (map fmt_any xs) @ '']''"
| "fmt_any (JObj kvs) =
     ''map['' @ join '' '' (map (\<lambda>kv. fst kv @ '':'' @ fmt_any (snd kv)) (sort_keys kvs)) @ '']''"
  by pat_completeness auto

termination
  by (relation "measure size") (auto simp: size_list_estimation' dest: json_size_member
      intro: le_imp_less_Suc)

definition format_number :: "f64 \<Rightarrow> string" where
  "format_number t = (if prints_as_int t then int_text (f64_to_int64 t) else format_f t)"

definition formatValue :: "json \<Rightarrow> string" where
  "formatValue v =
     (case v of
        JNumber s \<Rightarrow> (case parse_float s of Some t \<Rightarrow> format_number t | None \<Rightarrow> s)
      | _ \<Rightarrow> fmt_any v)"

definition renderValues :: "string \<Rightarrow> (string \<times> json) list \<Rightarrow> string" where
  "renderValues lbl values =
     (if values = [] then []
      else trim_right (\<lambda>c. c = nl)
             (''### '' @ lbl @ [nl] @
              concat (map (\<lambda>kv. ''- '' @ fst kv @ '': '' @ formatValue (snd kv) @ [nl]) (sort_keys values))))"

definition RenderSection :: "harness_params \<Rightarrow> string" where
  "RenderSection f =
     join [nl, nl] (filter (\<lambda>s. s \<noteq> []) [renderValues ''Workflow'' (hp_workflow f), renderValues ''Agent'' (hp_agent f)])"

section \<open>The configuration\<close>

record config =
  cf_model :: string
  cf_provider :: string
  cf_endpoint :: string
  cf_api_key :: string
  cf_max_turns :: int
  cf_hub_base_url :: string
  cf_hub_token :: string
  cf_hub_token_id :: string
  cf_app_id :: string
  cf_acp_secret_key :: string
  cf_target_branch :: string
  cf_git_author_name :: string
  cf_git_author_email :: string
  cf_workflow_stage :: string
  cf_workflow_stage_count :: string
  cf_acp_tee :: bool
  cf_hitl_timeout :: int
  cf_hitl_steer :: bool
  cf_hitl_ask :: bool
  cf_agent_prompt :: string
  cf_workflow_guide :: string
  cf_stage_instructions :: string
  cf_params :: harness_params
  cf_cost_limit :: f64
  cf_max_cost :: f64

definition DefaultMaxTurns :: int where "DefaultMaxTurns = 200"
definition MaxHITLTimeoutSeconds :: int where "MaxHITLTimeoutSeconds = 600"
definition DefaultGitAuthorName :: string where "DefaultGitAuthorName = ''migration-agent''"
definition DefaultGitAuthorEmail :: string where "DefaultGitAuthorEmail = ''migration-agent@konveyor.io''"

text \<open>The environment: an unset variable reads as the empty string.\<close>

type_synonym environ = "string \<Rightarrow> string"

definition envWithFallback :: "environ \<Rightarrow> string \<Rightarrow> string \<Rightarrow> string" where
  "envWithFallback env primary fallback = (if env primary \<noteq> [] then env primary else env fallback)"

definition gitAuthorFromEnv :: "environ \<Rightarrow> string \<times> string" where
  "gitAuthorFromEnv env =
     (let name = env ''KONVEYOR_GIT_AUTHOR_NAME''; email = env ''KONVEYOR_GIT_AUTHOR_EMAIL''
      in if name = [] \<or> email = [] then (DefaultGitAuthorName, DefaultGitAuthorEmail) else (name, email))"

definition envSwitchedOff :: "environ \<Rightarrow> string \<Rightarrow> bool" where
  "envSwitchedOff env name \<longleftrightarrow> to_lower (trim_space (env name)) \<in> {''off'', ''false'', ''0'', ''disabled''}"

definition envSwitchedOn :: "environ \<Rightarrow> string \<Rightarrow> bool" where
  "envSwitchedOn env name \<longleftrightarrow> to_lower (trim_space (env name)) \<in> {''on'', ''true'', ''1'', ''enabled''}"

definition paramsFilePath :: "environ \<Rightarrow> string" where
  "paramsFilePath env =
     (if env ''HARNESS_PARAMS_FILE'' \<noteq> [] then env ''HARNESS_PARAMS_FILE'' else ''/run/konveyor/params.json'')"

definition workflowGuideFromEnv :: "environ \<Rightarrow> string" where
  "workflowGuideFromEnv env =
     (if env ''KONVEYOR_WORKFLOW_GUIDE'' \<noteq> [] then env ''KONVEYOR_WORKFLOW_GUIDE''
      else env ''KONVEYOR_PLAYBOOK_INSTRUCTIONS'')"

definition llm_model :: "environ \<Rightarrow> string" where
  "llm_model env = envWithFallback env ''KONVEYOR_LLM_MODEL'' ''KONVEYOR_MODEL_PRIMARY_MODEL''"

text \<open>The required variables.  The code walks them in the order of a map: which missing one it names is open.\<close>

definition required_env :: "environ \<Rightarrow> (string \<times> string) list" where
  "required_env env =
     (''KONVEYOR_LLM_MODEL'', llm_model env) #
     map (\<lambda>k. (k, env k)) [''HUB_BASE_URL'', ''APP_ID'', ''KONVEYOR_ACP_SECRET_KEY'', ''TARGET_BRANCH'']"

definition read_cost :: "string \<Rightarrow> f64 res" where
  "read_cost s =
     (if s = [] then Inr 0
      else case parse_float s of
             None \<Rightarrow> Inl (errorf ''execution.maxCost %q is not numeric: %w'' [Lit s])
           | Some x \<Rightarrow>
               if \<not> f64_finite x \<or> f64_less x 0
               then Inl (errorf ''execution.maxCost %q must be a finite non-negative number'' [Lit s])
               else Inr (if f64_less 0 x then x else 0))"

definition hitl_timeout :: "environ \<Rightarrow> int" where
  "hitl_timeout env =
     (case parse_int (env ''HARNESS_HITL_TIMEOUT_SECONDS'') of
        Some n \<Rightarrow>
          if 0 < n then (if MaxHITLTimeoutSeconds < n then MaxHITLTimeoutSeconds else n) * 1000000000 else 0
      | None \<Rightarrow> 0)"

definition config_of :: "environ \<Rightarrow> harness_params \<Rightarrow> f64 \<Rightarrow> config" where
  "config_of env f maxCost =
     \<lparr>cf_model = llm_model env,
      cf_provider = envWithFallback env ''KONVEYOR_LLM_PROVIDER'' ''KONVEYOR_MODEL_PRIMARY_PROVIDER'',
      cf_endpoint = envWithFallback env ''KONVEYOR_LLM_ENDPOINT'' ''KONVEYOR_MODEL_PRIMARY_ENDPOINT'',
      cf_api_key = envWithFallback env ''KONVEYOR_LLM_API_KEY'' ''KONVEYOR_MODEL_PRIMARY_API_KEY'',
      cf_max_turns = (case MaxTurns f of Some n \<Rightarrow> n | None \<Rightarrow> DefaultMaxTurns),
      cf_hub_base_url = env ''HUB_BASE_URL'', cf_hub_token = env ''HUB_TOKEN'', cf_hub_token_id = env ''HUB_TOKEN_ID'',
      cf_app_id = env ''APP_ID'', cf_acp_secret_key = env ''KONVEYOR_ACP_SECRET_KEY'',
      cf_target_branch = env ''TARGET_BRANCH'',
      cf_git_author_name = fst (gitAuthorFromEnv env), cf_git_author_email = snd (gitAuthorFromEnv env),
      cf_workflow_stage = env ''KONVEYOR_WORKFLOW_STAGE'',
      cf_workflow_stage_count = env ''KONVEYOR_WORKFLOW_STAGE_COUNT'',
      cf_acp_tee = (\<not> envSwitchedOff env ''HARNESS_ACP_TEE''),
      cf_hitl_timeout = hitl_timeout env,
      cf_hitl_steer = (\<not> envSwitchedOff env ''HARNESS_HITL_STEER''),
      cf_hitl_ask = ((hx_ask_user (hp_execution f) \<or> envSwitchedOn env ''HARNESS_HITL_ASK'') \<and>
                     \<not> envSwitchedOff env ''HARNESS_HITL_ASK''),
      cf_agent_prompt = env ''KONVEYOR_PROMPT'', cf_workflow_guide = workflowGuideFromEnv env,
      cf_stage_instructions = env ''KONVEYOR_INSTRUCTIONS'', cf_params = f,
      cf_cost_limit = (if f64_less 0 maxCost then f64_mul maxCost ReserveFraction else 0),
      cf_max_cost = maxCost\<rparr>"

definition LoadFromEnv :: "'w fs \<Rightarrow> environ \<Rightarrow> ('w, config) call" where
  "LoadFromEnv F env w =
     (case find (\<lambda>kv. snd kv = []) (required_env env) of
        Some (k, v) \<Rightarrow> (Inl (errorf ''required env var %s is not set'' [Lit k]), w)
      | None \<Rightarrow>
          (case load_params F (paramsFilePath env) w of
             (Inl e, w1) \<Rightarrow> (Inl (wrapf ''load params: %w'' [] e), w1)
           | (Inr f, w1) \<Rightarrow>
               (case read_cost (hx_max_cost (hp_execution f)) of
                  Inl e \<Rightarrow> (Inl e, w1)
                | Inr cost \<Rightarrow> (Inr (config_of env f cost), w1))))"

section \<open>The environment of the agent\<close>

definition DefaultACPPort :: int where "DefaultACPPort = 4000"
definition LoopbackACPPort :: int where "LoopbackACPPort = 4001"

record serve_config =
  sv_port :: int
  sv_bind_loopback :: bool
  sv_secret_key :: string
  sv_provider :: string
  sv_model :: string
  sv_api_key :: string
  sv_endpoint :: string
  sv_mode :: string
  sv_max_turns :: int

definition executionEnv :: "string \<Rightarrow> int \<Rightarrow> string list" where
  "executionEnv mode maxTurns =
     [''GOOSE_MODE='' @ (if mode = [] then ''auto'' else mode)] @
     (let native = NativeTurnLimit maxTurns
      in if 0 < native then [''GOOSE_MAX_TURNS='' @ int_text native] else [])"

definition filterEnvKey :: "string list \<Rightarrow> string \<Rightarrow> string list" where
  "filterEnvKey env key = filter (\<lambda>e. \<not> has_prefix e (key @ ''='')) env"

text \<open>The key under the name the provider reads, when there is one.\<close>

definition api_key_env :: "string \<Rightarrow> string \<Rightarrow> string list" where
  "api_key_env p apiKey =
     (if apiKey = [] then []
      else if p = ''anthropic'' then [''ANTHROPIC_API_KEY='' @ apiKey]
      else if p = ''openai'' then [''OPENAI_API_KEY='' @ apiKey]
      else if p = ''google'' then [''GOOGLE_API_KEY='' @ apiKey]
      else if p = ''xai'' then [''XAI_API_KEY='' @ apiKey]
      else [])"

definition endpoint_env :: "string \<Rightarrow> string \<Rightarrow> string list" where
  "endpoint_env p endpoint =
     (if endpoint = [] then []
      else if p = ''anthropic'' then [''ANTHROPIC_HOST='' @ endpoint]
      else if p = ''openai'' then [''OPENAI_HOST='' @ endpoint]
      else [])"

definition provider_name :: "string \<Rightarrow> string" where
  "provider_name provider = map (\<lambda>c. if c = CHR ''-'' then CHR ''_'' else c) (to_lower provider)"

definition writeADCFile :: "'w fs \<Rightarrow> string \<Rightarrow> ('w, string) call" where
  "writeADCFile F content w =
     (case fs_mkdir_temp F ''migration-harness-*'' w of
        (Inl e, w1) \<Rightarrow> (Inl (wrapf ''create temp dir for ADC: %w'' [] e), w1)
      | (Inr dir, w1) \<Rightarrow>
          let path = path_join dir ''gcp-adc.json''
          in case fs_write_file F path content w1 of
               (Some e, w2) \<Rightarrow> (Inl (wrapf ''write ADC file: %w'' [] e), w2)
             | (None, w2) \<Rightarrow> (Inr path, w2))"

text \<open>The environment of the process, extended; and the temporary directories to remove when it ends.\<close>

definition vertex_env :: "'w fs \<Rightarrow> environ \<Rightarrow> string \<Rightarrow> string list \<Rightarrow> 'w \<Rightarrow> (string list \<times> string list) \<times> 'w" where
  "vertex_env F env p es w =
     (let content = env ''GOOGLE_APPLICATION_CREDENTIALS_JSON''
      in if p \<noteq> ''gcp_vertex_ai'' \<or> content = [] then ((es, []), w)
         else case writeADCFile F content w of
                (Inl e, w1) \<Rightarrow> ((filterEnvKey es ''GOOGLE_APPLICATION_CREDENTIALS_JSON'', []), w1)
              | (Inr path, w1) \<Rightarrow>
                  ((filterEnvKey (es @ [''GOOGLE_APPLICATION_CREDENTIALS='' @ path])
                      ''GOOGLE_APPLICATION_CREDENTIALS_JSON'', [path_dir path]), w1))"

definition providerEnv ::
  "'w fs \<Rightarrow> environ \<Rightarrow> string list \<Rightarrow> string \<Rightarrow> string \<Rightarrow> string \<Rightarrow> string \<Rightarrow> 'w \<Rightarrow> (string list \<times> string list) \<times> 'w" where
  "providerEnv F env environment provider model apiKey endpoint w =
     (let p = provider_name provider;
          es = environment @ (if p \<noteq> [] then [''GOOSE_PROVIDER='' @ p] else []) @
               (if model \<noteq> [] then [''GOOSE_MODEL='' @ model] else []) @ api_key_env p apiKey
      in case vertex_env F env p es w of
           ((es1, tmp), w1) \<Rightarrow> ((es1 @ endpoint_env p endpoint, tmp), w1))"

definition serve_host :: "serve_config \<Rightarrow> string" where
  "serve_host c = (if sv_secret_key c \<noteq> [] \<and> \<not> sv_bind_loopback c then ''0.0.0.0'' else ''127.0.0.1'')"

definition serve_args :: "serve_config \<Rightarrow> string list" where
  "serve_args c =
     [''serve'', ''--host'', serve_host c, ''--port'',
      int_text (if sv_port c = 0 then DefaultACPPort else sv_port c), ''--with-builtin'', ''developer'']"

definition serve_env ::
  "'w fs \<Rightarrow> environ \<Rightarrow> string list \<Rightarrow> serve_config \<Rightarrow> 'w \<Rightarrow> (string list \<times> string list) \<times> 'w" where
  "serve_env F env environment c w =
     (case providerEnv F env environment (sv_provider c) (sv_model c) (sv_api_key c) (sv_endpoint c) w of
        ((es, tmp), w1) \<Rightarrow>
          ((es @ executionEnv (sv_mode c) (sv_max_turns c) @
            (if sv_secret_key c \<noteq> [] then [''GOOSE_SERVER__SECRET_KEY='' @ sv_secret_key c] else []), tmp), w1))"

end
