(* ===== verification/HarnessGit.thy ===== *)
theory HarnessGit
  imports HarnessConfig Files
begin

text \<open>
  The clone a stage works on (\<open>internal/git\<close>), the checks on what the Hub knows of the application
  (\<open>internal/hub/client.go\<close>) and the watcher that pushes while the agent works (\<open>internal/watcher\<close>), under
  \<open>src/harness\<close>.  The git library, the Hub client and the notifications of the file system are calls.
\<close>

section \<open>Repositories\<close>

record credentials =
  cr_username :: string
  cr_token :: string
  cr_repo_url :: string
  cr_branch :: string

text \<open>\<open>Auth\<close>: user and password, or none.\<close>

definition Auth :: "credentials \<Rightarrow> (string \<times> string) option" where
  "Auth c = (if cr_username c = [] \<and> cr_token c = [] then None else Some (cr_username c, cr_token c))"

text \<open>What the code reads of a parsed URL: whether it holds user information, the URL without it, host and path.\<close>

record parsed_url =
  pu_user :: bool
  pu_without_user :: string
  pu_host :: string
  pu_path :: string

text \<open>
  The calls of go-git on one clone, and \<open>url.Parse\<close>.  A checkout takes the branch, a start commit and whether
  to create it; \<open>gg_head\<close> gives the reference and the commit.
\<close>

record 'w gogit =
  gg_clone :: "string \<Rightarrow> (string \<times> string) option \<Rightarrow> string \<Rightarrow> 'w command"
  gg_remote_urls :: "('w, string list) call"
  gg_delete_remote :: "'w command"
  gg_create_remote :: "string list \<Rightarrow> 'w command"
  gg_config :: "'w command"
  gg_set_user :: "string \<Rightarrow> string \<Rightarrow> 'w command"
  gg_head :: "('w, string \<times> string) call"
  gg_resolve :: "string \<Rightarrow> ('w, string) call"
  gg_worktree :: "'w command"
  gg_checkout :: "string \<Rightarrow> string option \<Rightarrow> bool \<Rightarrow> 'w command"
  gg_push :: "(string \<times> string) option \<Rightarrow> string \<Rightarrow> 'w command"
  gg_url :: "string \<Rightarrow> parsed_url option"

definition isChildOf :: "string \<Rightarrow> string \<Rightarrow> bool" where
  "isChildOf path root =
     (case path_rel root path of None \<Rightarrow> False | Some rel \<Rightarrow> rel \<noteq> ''.'' \<and> \<not> has_prefix rel ''..'')"

text \<open>
  \<open>Clone\<close> into a directory given by its absolute path; an existing one is removed first, but only below the
  workspace or the directory for temporary files.
\<close>

definition Clone :: "'w fs \<Rightarrow> 'w gogit \<Rightarrow> string \<Rightarrow> credentials \<Rightarrow> string \<Rightarrow> 'w command" where
  "Clone F G tmp cred dest w =
     (let destDir = path_clean dest;
          clone = (\<lambda>w1. case gg_clone G (cr_repo_url cred) (Auth cred) destDir w1 of
                          (Some e, w2) \<Rightarrow> (Some (wrapf ''clone %s: %w'' [Lit (cr_repo_url cred)] e), w2)
                        | (None, w2) \<Rightarrow> (None, w2))
      in case fs_stat F destDir w of
           (Inl e, w1) \<Rightarrow> clone w1
         | (Inr info, w1) \<Rightarrow>
             if \<not> isChildOf destDir ''/workspace'' \<and> \<not> isChildOf destDir tmp
             then (Some (errorf ''refusing to remove %s: not under /workspace or temp'' [Lit destDir]), w1)
             else case fs_remove_all F destDir w1 of
                    (Some e, w2) \<Rightarrow> (Some (wrapf ''remove %s: %w'' [Lit destDir] e), w2)
                  | (None, w2) \<Rightarrow> clone w2)"

definition bare_url :: "'w gogit \<Rightarrow> string \<Rightarrow> string" where
  "bare_url G u =
     (case gg_url G u of Some p \<Rightarrow> if pu_user p then pu_without_user p else u | None \<Rightarrow> u)"

definition StripCredentials :: "'w gogit \<Rightarrow> 'w command" where
  "StripCredentials G w =
     (case gg_remote_urls G w of
        (Inl e, w1) \<Rightarrow> (Some (wrapf ''get remote origin: %w'' [] e), w1)
      | (Inr urls, w1) \<Rightarrow>
          if urls = [] then (None, w1)
          else case gg_delete_remote G w1 of
                 (Some e, w2) \<Rightarrow> (Some (wrapf ''delete remote: %w'' [] e), w2)
               | (None, w2) \<Rightarrow>
                   (case gg_create_remote G (map (bare_url G) urls) w2 of
                      (Some e, w3) \<Rightarrow> (Some (wrapf ''recreate remote: %w'' [] e), w3)
                    | (None, w3) \<Rightarrow> (None, w3)))"

definition ConfigureAuthor :: "'w gogit \<Rightarrow> string \<Rightarrow> string \<Rightarrow> 'w command" where
  "ConfigureAuthor G name email w =
     (case gg_config G w of
        (Some e, w1) \<Rightarrow> (Some (wrapf ''read config: %w'' [] e), w1)
      | (None, w1) \<Rightarrow> gg_set_user G name email w1)"

definition checkout_ref :: "'w gogit \<Rightarrow> string \<Rightarrow> 'w command" where
  "checkout_ref G branch w =
     (case gg_worktree G w of
        (Some e, w1) \<Rightarrow> (Some (wrapf ''get worktree: %w'' [] e), w1)
      | (None, w1) \<Rightarrow>
          (case gg_resolve G (''refs/remotes/origin/'' @ branch) w1 of
             (Inr hash, w2) \<Rightarrow> gg_checkout G (''refs/heads/'' @ branch) (Some hash) True w2
           | (Inl e, w2) \<Rightarrow>
               (case gg_checkout G (''refs/heads/'' @ branch) None True w2 of
                  (None, w3) \<Rightarrow> (None, w3)
                | (Some e1, w3) \<Rightarrow>
                    (case gg_checkout G (''refs/heads/'' @ branch) None False w3 of
                       (None, w4) \<Rightarrow> (None, w4)
                     | (Some e2, w4) \<Rightarrow> (Some (wrapf ''checkout branch %s: %w'' [Lit branch] e2), w4)))))"

definition CheckoutBranch :: "'w gogit \<Rightarrow> string \<Rightarrow> 'w command" where
  "CheckoutBranch G branch w =
     (case gg_head G w of
        (Inr (name, hash), w1) \<Rightarrow> if name = ''refs/heads/'' @ branch then (None, w1) else checkout_ref G branch w1
      | (Inl e, w1) \<Rightarrow> checkout_ref G branch w1)"

definition HeadSHA :: "'w gogit \<Rightarrow> ('w, string) call" where
  "HeadSHA G w =
     (case gg_head G w of
        (Inl e, w1) \<Rightarrow> (Inl (wrapf ''resolve HEAD: %w'' [] e), w1)
      | (Inr (name, hash), w1) \<Rightarrow> (Inr hash, w1))"

definition push_ref :: "'w gogit \<Rightarrow> credentials \<Rightarrow> string \<Rightarrow> ('w, bool) call" where
  "push_ref G cred branch w =
     (case gg_push G (Auth cred) (''refs/heads/'' @ branch @ '':refs/heads/'' @ branch) w of
        (Some e, w1) \<Rightarrow>
          (if kind_of e = KUpToDate then Inr True else Inl (wrapf ''push %s: %w'' [Lit branch] e), w1)
      | (None, w1) \<Rightarrow> (Inr True, w1))"

text \<open>False only when nothing was committed and the push was left out.\<close>

definition Push :: "'w gogit \<Rightarrow> credentials \<Rightarrow> string \<Rightarrow> string \<Rightarrow> ('w, bool) call" where
  "Push G cred branch baseSHA w =
     (if baseSHA = [] then push_ref G cred branch w
      else case gg_head G w of
             (Inr (name, hash), w1) \<Rightarrow> if hash = baseSHA then (Inr False, w1) else push_ref G cred branch w1
           | (Inl e, w1) \<Rightarrow> push_ref G cred branch w1)"

section \<open>The application in the Hub\<close>

record hub_repository =
  hr_kind :: string
  hr_url :: string
  hr_branch :: string

record hub_app =
  ha_name :: string
  ha_repository :: "hub_repository option"

record hub_identity =
  hi_user :: string
  hi_password :: string

text \<open>The calls of the Hub client; \<open>hc_git_creds\<close> is the search for an identity, direct before indirect.\<close>

record 'w hub =
  hc_fetch_app :: "nat \<Rightarrow> ('w, hub_app) call"
  hc_git_creds :: "nat \<Rightarrow> ('w, hub_identity option) call"
  hc_insights :: "nat \<Rightarrow> ('w, json list) call"
  hc_revoke :: "nat \<Rightarrow> 'w command"

definition ErrUnsupportedSourceSCM :: err where
  "ErrUnsupportedSourceSCM = Err KUnsupportedSCM (Lit ''unsupported source SCM'')"

definition ValidateSourceRepository :: "hub_repository option \<Rightarrow> err option" where
  "ValidateSourceRepository repo =
     (case repo of
        None \<Rightarrow> Some (wrapf ''%w: source repository has no URL'' [] ErrUnsupportedSourceSCM)
      | Some r \<Rightarrow>
          if hr_url r = [] then Some (wrapf ''%w: source repository has no URL'' [] ErrUnsupportedSourceSCM)
          else if to_lower (trim_space (hr_kind r)) \<in> {[], ''git''} then None
          else Some (wrapf ''%w: source repository %q uses SCM kind %q; only git is supported (non-git sources are out of scope for dev-preview)''
                       [Lit (hr_url r), Lit (hr_kind r)] ErrUnsupportedSourceSCM))"

text \<open>\<open>strconv.ParseUint\<close> in base ten: digits only, below \<open>2^64\<close>.\<close>

definition parse_uint :: "string \<Rightarrow> nat option" where
  "parse_uint s =
     (if s = [] \<or> \<not> list_all is_digit s then None
      else if digits_val s < 2 ^ 64 then Some (digits_val s) else None)"

definition ParseAppID :: "string \<Rightarrow> nat res" where
  "ParseAppID s = (case parse_uint s of None \<Rightarrow> Inl (errorf ''invalid syntax'' [Lit s]) | Some n \<Rightarrow> Inr n)"

definition resolveFromHub :: "'w hub \<Rightarrow> config \<Rightarrow> ('w, credentials) call" where
  "resolveFromHub H cfg w =
     (case ParseAppID (cf_app_id cfg) of
        Inl e \<Rightarrow> (Inl (wrapf ''invalid APP_ID %q: %w'' [Lit (cf_app_id cfg)] e), w)
      | Inr appID \<Rightarrow>
          (case hc_fetch_app H appID w of
             (Inl e, w1) \<Rightarrow> (Inl (wrapf ''fetch app: %w'' [] e), w1)
           | (Inr app, w1) \<Rightarrow>
               (case ha_repository app of
                  None \<Rightarrow> (Inl (errorf ''application %q has no source repository configured'' [Lit (ha_name app)]), w1)
                | Some repo \<Rightarrow>
                    (case ValidateSourceRepository (Some repo) of
                       Some e \<Rightarrow> (Inl e, w1)
                     | None \<Rightarrow>
                         (case hc_git_creds H appID w1 of
                            (Inl e, w2) \<Rightarrow> (Inl (wrapf ''fetch git creds: %w'' [] e), w2)
                          | (Inr None, w2) \<Rightarrow>
                              (Inr \<lparr>cr_username = [], cr_token = [], cr_repo_url = hr_url repo,
                                    cr_branch = hr_branch repo\<rparr>, w2)
                          | (Inr (Some i), w2) \<Rightarrow>
                              (Inr \<lparr>cr_username = (if hi_user i = [] then ''x-access-token'' else hi_user i),
                                    cr_token = hi_password i, cr_repo_url = hr_url repo,
                                    cr_branch = hr_branch repo\<rparr>, w2))))))"

section \<open>The watcher\<close>

definition excludeDirs :: "string list" where
  "excludeDirs = [''.goose'', ''__pycache__'', ''.git'', ''node_modules'', ''target'']"

definition excludeExts :: "string list" where
  "excludeExts = [''.tmp'', ''.swp'', ''.bak'']"

text \<open>What follows the last dot of a name, dot included.\<close>

definition path_ext :: "string \<Rightarrow> string" where
  "path_ext base =
     (if CHR ''.'' \<in> set base then CHR ''.'' # rev (takeWhile (\<lambda>c. c \<noteq> CHR ''.'') (rev base)) else [])"

definition isRelevantChange :: "string \<Rightarrow> bool" where
  "isRelevantChange relPath \<longleftrightarrow>
     list_all (\<lambda>part. part \<notin> set excludeDirs) (split_on slash relPath) \<and>
     path_ext (path_base relPath) \<notin> set excludeExts"

text \<open>
  What the loop receives: a change of a file (by its path relative to the clone; \<^const>\<open>None\<close> when it has none,
  and whether it is a creation, write, removal or rename), or the end of the quiet period, which comes only
  after the timer was set.
\<close>

datatype watch_event = Changed "string option" bool | TimerFired

record watch_state =
  wa_dirty :: bool
  wa_timer :: bool

definition watch_start :: watch_state where
  "watch_start = \<lparr>wa_dirty = False, wa_timer = False\<rparr>"

text \<open>One turn of the loop: the new state, and whether it pushes.\<close>

definition watch_turn :: "watch_event \<Rightarrow> watch_state \<Rightarrow> watch_state \<times> bool" where
  "watch_turn ev s =
     (case ev of
        Changed rel counts \<Rightarrow>
          if counts \<and> (case rel of None \<Rightarrow> False | Some r \<Rightarrow> isRelevantChange r)
          then (\<lparr>wa_dirty = True, wa_timer = True\<rparr>, False) else (s, False)
      | TimerFired \<Rightarrow> if wa_dirty s then (\<lparr>wa_dirty = False, wa_timer = False\<rparr>, True) else (s\<lparr>wa_timer := False\<rparr>, False))"

fun watch_pushes :: "watch_event list \<Rightarrow> watch_state \<Rightarrow> nat" where
  "watch_pushes [] s = 0"
| "watch_pushes (e # es) s = (case watch_turn e s of (s1, p) \<Rightarrow> (if p then 1 else 0) + watch_pushes es s1)"

end
