(* ===== verification/HarnessPrompt.thy ===== *)
theory HarnessPrompt
  imports HarnessConfig
begin

text \<open>
  The prompt of a stage (\<open>harness/internal/prompt/prompt.go\<close>): layers from the least to the most specific.
\<close>

definition stagingRules :: string where
  "stagingRules = join [nl]
     [''## Working Environment'',
      [],
      ''Your working directory is a git repository. Anything you commit is pushed to the'',
      ''user's branch when the stage ends.'',
      [],
      ''Write ephemeral files to /tmp, never into the repository working tree:'',
      ''  - scripts you need to run: write them to /tmp, make them executable there,'',
      ''    and run them from there'',
      ''  - scratch notes, plans, logs, and intermediate output'',
      [],
      ''Only files the user actually asked for belong in the repository. Keep the'',
      ''worktree clean: anything left there is ambiguous, and gets swept into your'',
      ''commits if you stage broadly. This applies even when a skill's instructions do'',
      ''not say where to put something.'',
      []]"

definition askUserGuideline :: string where
  "askUserGuideline =
     ''A human may be watching this run. When you need a decision only a human can make '' @ [CHR 0xE2, CHR 0x80, CHR 0x94] @ '' a missing '' @
     ''prerequisite, an ambiguous requirement, a choice between approaches, anything destructive '' @ [CHR 0xE2, CHR 0x80, CHR 0x94] @ '' '' @
     ''call the '' @ [CHR 0x60] @ ''ask_user'' @ [CHR 0x60] @ '' tool and wait for its answer. Do not ask questions in prose: nobody reads '' @
     ''your messages until the run is over, and ending your turn on a question ends the run. A human '' @
     ''may also redirect you mid-turn; if a redirect asks you to pause, check in, report status, or '' @
     ''wait, call '' @ [CHR 0x60] @ ''ask_user'' @ [CHR 0x60] @ '' with your status and the choices you see, and do not continue until it '' @
     ''answers. If '' @ [CHR 0x60] @ ''ask_user'' @ [CHR 0x60] @ '' reports that nobody answered, say what you needed and stop.'' @
     [nl, nl]"

record layers =
  la_agent_prompt :: string
  la_rules :: "rule list"
  la_workflow_guide :: string
  la_parameters :: string
  la_stage_task :: string
  la_ask_user :: bool

definition rule_text :: "rule \<Rightarrow> string" where
  "rule_text r = ''### '' @ rl_name r @ [nl, nl] @ trim_right (\<lambda>c. c = nl) (rl_body r) @ [nl, nl]"

definition section_text :: "string \<Rightarrow> string \<Rightarrow> string" where
  "section_text title body = (if body = [] then [] else ''## '' @ title @ [nl, nl] @ body @ [nl, nl])"

definition Build :: "layers \<Rightarrow> string" where
  "Build l =
     trim_right (\<lambda>c. c = nl)
       (stagingRules @ [nl] @
        (if la_agent_prompt l \<noteq> [] then la_agent_prompt l @ [nl, nl] else []) @
        (if la_rules l \<noteq> []
         then ''## Rules'' @ [nl, nl] @ ''These always apply. They are not optional and not task-specific.'' @ [nl, nl] @
              concat (map rule_text (la_rules l))
         else []) @
        section_text ''Workflow Guide'' (la_workflow_guide l) @
        section_text ''Parameters'' (la_parameters l) @
        ''## Working Guidelines'' @ [nl, nl] @
        ''Commit your changes to git with a descriptive message when your work is complete.'' @ [nl, nl] @
        (if la_ask_user l then askUserGuideline else []) @
        (if la_stage_task l \<noteq> [] then ''## Stage Task'' @ [nl, nl] @ la_stage_task l else [])) @ [nl]"

end
