(* ===== verification/StageText.thy ===== *)
theory StageText
  imports HarnessGit HarnessPrompt
begin

text \<open>
  The texts of a stage that do not come from the agent (\<open>main.go\<close> and \<open>outcome.go\<close> of
  \<open>harness/cmd/migration-harness\<close>): the place in a workflow, the rungs of the plan shown to viewers, the
  handoff prompt.
\<close>

section \<open>The place in a workflow\<close>

definition parseHubTokenID :: "config \<Rightarrow> nat option" where
  "parseHubTokenID cfg = (if cf_hub_token_id cfg = [] then None else parse_uint (cf_hub_token_id cfg))"

definition workflowStagePosition :: "config \<Rightarrow> (nat \<times> nat) option" where
  "workflowStagePosition cfg =
     (if cf_workflow_stage cfg = [] \<or> cf_workflow_stage_count cfg = [] then None
      else case parse_uint (cf_workflow_stage cfg) of
             None \<Rightarrow> None
           | Some stage_no \<Rightarrow>
               if stage_no = 0 then None
               else case parse_uint (cf_workflow_stage_count cfg) of
                      None \<Rightarrow> None
                    | Some count \<Rightarrow> if count = 0 \<or> count < stage_no then None else Some (stage_no, count))"

definition isIntermediateWorkflowStage :: "config \<Rightarrow> bool" where
  "isIntermediateWorkflowStage cfg =
     (case workflowStagePosition cfg of None \<Rightarrow> False | Some (stage_no, count) \<Rightarrow> stage_no < count)"

section \<open>The rungs of the plan\<close>

text \<open>The characters U+2014, U+201C and U+201D.\<close>

definition em_dash :: string where "em_dash = [CHR 0xE2, CHR 0x80, CHR 0x94]"
definition quote_open :: string where "quote_open = [CHR 0xE2, CHR 0x80, CHR 0x9C]"
definition quote_close :: string where "quote_close = [CHR 0xE2, CHR 0x80, CHR 0x9D]"

definition repoDisplayName :: "(string \<Rightarrow> parsed_url option) \<Rightarrow> string \<Rightarrow> string" where
  "repoDisplayName parse_url rawURL =
     (if rawURL = [] then []
      else case parse_url rawURL of
             None \<Rightarrow> []
           | Some u \<Rightarrow>
               if pu_host u = [] then []
               else pu_host u @ trim_suffix (trim_right (\<lambda>c. c = slash) (pu_path u)) ''.git'')"

text \<open>The number of insights, when the analysis was fetched.\<close>

definition planPrepRung :: "(string \<Rightarrow> parsed_url option) \<Rightarrow> string \<Rightarrow> string \<Rightarrow> nat option \<Rightarrow> string list \<Rightarrow> string" where
  "planPrepRung parse_url repoURL branch insights red =
     (let repo = repoDisplayName parse_url repoURL
      in ''Prepare workspace: '' @ (if repo \<noteq> [] then redact red repo else ''clone'') @
         (if branch \<noteq> [] then '' on branch '' @ branch else []) @
         (case insights of
            None \<Rightarrow> []
          | Some n \<Rightarrow> if n = 0 then '', no analysis insights''
                      else if n = 1 then '', 1 analysis insight''
                      else '', '' @ nat_text n @ '' analysis insights''))"

definition taskSummaryMaxLen :: nat where "taskSummaryMaxLen = 80"

text \<open>The words of the first paragraph; markers are dropped until there is a word.\<close>

fun task_words :: "string list \<Rightarrow> string list \<Rightarrow> string list" where
  "task_words [] ws = ws"
| "task_words (l # ls) ws =
     (let t = trim_space l;
          line = (if ws = [] then trim_space (trim_left (\<lambda>c. c \<in> {CHR ''#'', CHR ''*'', CHR ''-'', CHR ''>''}) t) else t)
      in if line = [] then (if ws \<noteq> [] then ws else task_words ls ws)
         else task_words ls (ws @ split_fields line))"

definition taskSummary :: "string \<Rightarrow> string" where
  "taskSummary text = cut_line taskSummaryMaxLen (join '' '' (task_words (split_on nl text) []))"

definition turn_budget :: "nat \<Rightarrow> int \<Rightarrow> string" where
  "turn_budget turnsUsed maxTurns =
     (if 0 < turnsUsed \<and> 0 < maxTurns then ''turn '' @ nat_text turnsUsed @ '' of '' @ int_text maxTurns
      else if turnsUsed = 1 then ''1 turn''
      else if 1 < turnsUsed then nat_text turnsUsed @ '' turns''
      else if 0 < maxTurns then ''up to '' @ int_text maxTurns @ '' turns''
      else [])"

definition task_line :: "config \<Rightarrow> string \<Rightarrow> string" where
  "task_line cfg excerpt =
     (let quoted = quote_open @ excerpt @ quote_close
      in case workflowStagePosition cfg of
           Some (stage_no, count) \<Rightarrow>
             ''Stage '' @ nat_text stage_no @ '' of '' @ nat_text count @ '' '' @ em_dash @
             (if excerpt \<noteq> [] then '' agent works the task: '' @ quoted else '' agent works its standing prompt'')
         | None \<Rightarrow>
             (if excerpt \<noteq> [] then ''Agent works the task: '' @ quoted else ''Agent works its standing prompt''))"

definition planTaskRung :: "config \<Rightarrow> string list \<Rightarrow> nat \<Rightarrow> string" where
  "planTaskRung cfg red turnsUsed =
     (let budget = turn_budget turnsUsed (cf_max_turns cfg)
      in task_line cfg (taskSummary (redact red (cf_stage_instructions cfg))) @
         (if cf_model cfg \<noteq> [] \<or> budget \<noteq> []
          then '' ('' @ cf_model cfg @ (if cf_model cfg \<noteq> [] \<and> budget \<noteq> [] then '', '' else []) @ budget @ '')''
          else []))"

section \<open>The handoff\<close>

definition handoffPromptText :: string where
  "handoffPromptText =
     ''You have reached your execution limit and must stop working on the original task now, regardless of '' @
     ''what remains incomplete. Do only this: write a handoff to '' @ [CHR 0x60] @ ''.konveyor/handoff.md'' @ [CHR 0x60] @ '' documenting what '' @
     ''you completed and what remains, then commit both your current work and '' @ [CHR 0x60] @ ''.konveyor/handoff.md'' @ [CHR 0x60] @ '' '' @
     ''together in a single commit. Once that commit succeeds, end your turn immediately '' @ [CHR 0xE2, CHR 0x80, CHR 0x94] @ '' do not resume '' @
     ''the original task or perform any further actions.''"

end
