(* ===== verification/Tee.thy ===== *)
theory Tee
  imports AgentSession
begin

text \<open>
  The pod's endpoint for viewers (\<open>harness/internal/tee/tee.go\<close>): status frames and their replay, asks offered
  to viewers, frames of viewers that belong to the run.  A viewer is known by a number, its outbound channel is
  a list.  A critical section with the broadcast that follows it is one step; \<open>forwardAsk\<close>, which waits in
  between, and the attaching of a viewer are two.
\<close>

section \<open>State\<close>

record tee_config =
  tc_secret :: string
  tc_hitl_timeout :: int
  tc_queue_cap :: int
  tc_steer_enabled :: bool

definition DefaultHITLTimeout :: int where "DefaultHITLTimeout = 180000000000"
definition DefaultQueueCap :: int where "DefaultQueueCap = 256"
definition replayCap :: nat where "replayCap = 32"
definition steerMethod :: string where "steerMethod = ''_goose/unstable/session/steer''"

text \<open>
  \<open>te_parked\<close> are the asks that wait, with their prefix and what their channel (of capacity one) holds;
  \<open>te_perms\<close> the ids an answer is still taken for, \<open>te_pending\<close> the frames of open asks.  \<open>te_queue\<close> and
  \<open>te_closed\<close> belong to every viewer ever accepted, \<open>te_attached\<close> are the registered ones.
\<close>

record tee_state =
  te_viewers :: nat
  te_queue :: "nat \<Rightarrow> json list"
  te_closed :: "nat \<Rightarrow> bool"
  te_attached :: "nat list"
  te_perms :: "string list"
  te_pending :: "(string \<times> json) list"
  te_parked :: "(string \<times> string \<times> json option) list"
  te_stopped :: bool
  te_responsive :: bool
  te_perm_seq :: nat
  te_run_session :: "string option"
  te_run_active :: bool
  te_replay :: "json list"
  te_replay_keys :: "string list"

text \<open>\<open>New\<close>: the configuration with its defaults, and nothing attached.\<close>

definition tee_defaults :: "tee_config \<Rightarrow> tee_config" where
  "tee_defaults c =
     c\<lparr>tc_hitl_timeout := (if tc_hitl_timeout c \<le> 0 then DefaultHITLTimeout else tc_hitl_timeout c),
       tc_queue_cap := (if tc_queue_cap c \<le> 0 then DefaultQueueCap else tc_queue_cap c)\<rparr>"

definition new_tee :: tee_state where
  "new_tee = \<lparr>te_viewers = 0, te_queue = (\<lambda>_. []), te_closed = (\<lambda>_. False), te_attached = [], te_perms = [],
     te_pending = [], te_parked = [], te_stopped = False, te_responsive = False, te_perm_seq = 0,
     te_run_session = None, te_run_active = False, te_replay = [], te_replay_keys = []\<rparr>"

definition AttachRun :: "string \<Rightarrow> tee_state \<Rightarrow> tee_state" where
  "AttachRun sid s = s\<lparr>te_run_session := Some sid\<rparr>"

definition SetRunActive :: "bool \<Rightarrow> tee_state \<Rightarrow> tee_state" where
  "SetRunActive b s = s\<lparr>te_run_active := b\<rparr>"

section \<open>Queues\<close>

text \<open>
  A viewer whose queue is full is dropped.  (For a closed viewer the code may still queue the frame; nothing
  reads it any more.)
\<close>

definition enqueue :: "tee_config \<Rightarrow> json \<Rightarrow> nat \<Rightarrow> tee_state \<Rightarrow> tee_state" where
  "enqueue c f v s =
     (if te_closed s v then s
      else if int (length (te_queue s v)) < tc_queue_cap c
      then s\<lparr>te_queue := (te_queue s)(v := te_queue s v @ [f])\<rparr>
      else s\<lparr>te_closed := (te_closed s)(v := True)\<rparr>)"

definition broadcast :: "tee_config \<Rightarrow> json \<Rightarrow> tee_state \<Rightarrow> tee_state" where
  "broadcast c f s = fold (enqueue c f) (te_attached s) s"

section \<open>Status frames\<close>

definition notification_frame :: "string \<Rightarrow> string \<Rightarrow> json \<Rightarrow> json" where
  "notification_frame m sid update =
     JObj [(''jsonrpc'', JStr ''2.0''), (''method'', JStr m),
           (''params'', JObj [(''sessionId'', JStr sid), (''update'', update)])]"

text \<open>The ring: an earlier frame with the same key goes, the new one comes last, the oldest fall out.\<close>

fun drop_key :: "string \<Rightarrow> string list \<Rightarrow> json list \<Rightarrow> string list \<times> json list" where
  "drop_key k (x # ks) (f # fs) =
     (if x = k then (ks, fs) else (case drop_key k ks fs of (ks', fs') \<Rightarrow> (x # ks', f # fs')))"
| "drop_key k ks fs = (ks, fs)"

definition keep_last :: "nat \<Rightarrow> 'a list \<Rightarrow> 'a list" where
  "keep_last n xs = drop (length xs - n) xs"

definition record_replay :: "string \<Rightarrow> json \<Rightarrow> tee_state \<Rightarrow> tee_state" where
  "record_replay key frame s =
     (case (if key \<noteq> [] then drop_key key (te_replay_keys s) (te_replay s)
            else (te_replay_keys s, te_replay s)) of
        (ks, fs) \<Rightarrow>
          s\<lparr>te_replay := keep_last replayCap (fs @ [frame]),
            te_replay_keys := keep_last replayCap (ks @ [key])\<rparr>)"

definition emitRunFrame :: "tee_config \<Rightarrow> string \<Rightarrow> json \<Rightarrow> string \<Rightarrow> tee_state \<Rightarrow> tee_state" where
  "emitRunFrame c m update key s =
     (case te_run_session s of
        None \<Rightarrow> s
      | Some sid \<Rightarrow>
          if sid = [] then s
          else let frame = notification_frame m sid update in broadcast c frame (record_replay key frame s))"

definition replayKeyFor :: "json \<Rightarrow> string" where
  "replayKeyFor update =
     (case update of
        JObj kvs \<Rightarrow> if map_of kvs ''sessionUpdate'' = Some (JStr ''plan'') then ''plan'' else []
      | _ \<Rightarrow> [])"

definition EmitRunUpdate :: "tee_config \<Rightarrow> json \<Rightarrow> tee_state \<Rightarrow> tee_state" where
  "EmitRunUpdate c update s = emitRunFrame c session_update_method update (replayKeyFor update) s"

definition notice_update :: "string \<Rightarrow> json" where
  "notice_update message =
     JObj [(''sessionUpdate'', JStr ''status_message''),
           (''status'', JObj [(''message'', JStr message), (''type'', JStr ''notice'')])]"

definition EmitRunNotice :: "tee_config \<Rightarrow> string \<Rightarrow> tee_state \<Rightarrow> tee_state" where
  "EmitRunNotice c message s = emitRunFrame c gooseUpdateMethod (notice_update message) [] s"

text \<open>A notification of the run connection, to every viewer as it came.\<close>

definition tee_notification :: "tee_config \<Rightarrow> string \<Rightarrow> json \<Rightarrow> tee_state \<Rightarrow> tee_state" where
  "tee_notification c m frame s =
     (if m \<noteq> session_update_method \<and> m \<noteq> gooseUpdateMethod then s else broadcast c frame s)"

section \<open>Asks\<close>

definition ask_id :: "string \<Rightarrow> nat \<Rightarrow> string" where
  "ask_id kind n = kind @ ''-'' @ nat_text n"

definition ask_frame :: "string \<Rightarrow> string \<Rightarrow> json option \<Rightarrow> json" where
  "ask_frame i m params =
     JObj [(''id'', JStr i), (''jsonrpc'', JStr ''2.0''), (''method'', JStr m), (''params'', raw_value params)]"

text \<open>Up to the wait: \<^const>\<open>None\<close> when the ask is not offered to anybody.\<close>

definition begin_ask ::
  "tee_config \<Rightarrow> string \<Rightarrow> string \<Rightarrow> json option \<Rightarrow> tee_state \<Rightarrow> string option \<times> tee_state" where
  "begin_ask c kind m params s =
     (let n = te_perm_seq s + 1; i = ask_id kind n; s1 = s\<lparr>te_perm_seq := n\<rparr>
      in if te_stopped s1 \<or> te_attached s1 = [] then (None, s1)
         else if \<not> te_responsive s1 then (None, s1)
         else let frame = ask_frame i m params;
                  s2 = s1\<lparr>te_perms := i # te_perms s1, te_pending := (i, frame) # te_pending s1,
                          te_parked := (i, kind, None) # te_parked s1\<rparr>
              in (Some i, broadcast c frame s2))"

definition ask_permission :: "tee_config \<Rightarrow> json option \<Rightarrow> tee_state \<Rightarrow> string option \<times> tee_state" where
  "ask_permission c = begin_ask c ''kperm'' ''session/request_permission''"

definition ask_elicitation :: "tee_config \<Rightarrow> json option \<Rightarrow> tee_state \<Rightarrow> string option \<times> tee_state" where
  "ask_elicitation c = begin_ask c ''kask'' ''elicitation/create''"

definition cancelResult :: "string \<Rightarrow> json" where
  "cancelResult kind =
     (if kind = ''kask'' then JObj [(''action'', JStr ''cancel'')]
      else JObj [(''outcome'', cancelled_outcome)])"

definition emitAskResolution :: "tee_config \<Rightarrow> string \<Rightarrow> json \<Rightarrow> tee_state \<Rightarrow> tee_state" where
  "emitAskResolution c i result s =
     broadcast c (JObj [(''id'', JStr i), (''jsonrpc'', JStr ''2.0''), (''result'', result)]) s"

definition close_ask :: "string \<Rightarrow> tee_state \<Rightarrow> tee_state" where
  "close_ask i s =
     s\<lparr>te_perms := removeAll i (te_perms s), te_pending := filter (\<lambda>p. fst p \<noteq> i) (te_pending s),
       te_parked := filter (\<lambda>p. fst p \<noteq> i) (te_parked s)\<rparr>"

text \<open>The three ways the wait ends; each is possible only when its channel is ready.\<close>

definition ask_answered :: "string \<Rightarrow> tee_state \<Rightarrow> (json \<times> tee_state) option" where
  "ask_answered i s =
     (case map_of (te_parked s) i of Some (kind, Some r) \<Rightarrow> Some (r, close_ask i s) | _ \<Rightarrow> None)"

definition ask_stopped :: "tee_config \<Rightarrow> string \<Rightarrow> tee_state \<Rightarrow> tee_state option" where
  "ask_stopped c i s =
     (case map_of (te_parked s) i of
        Some (kind, r) \<Rightarrow>
          if te_stopped s then Some (close_ask i (emitAskResolution c i (cancelResult kind) s)) else None
      | None \<Rightarrow> None)"

definition ask_timed_out :: "tee_config \<Rightarrow> string \<Rightarrow> tee_state \<Rightarrow> tee_state option" where
  "ask_timed_out c i s =
     (case map_of (te_parked s) i of
        Some (kind, r) \<Rightarrow>
          Some (close_ask i (emitAskResolution c i (cancelResult kind) (s\<lparr>te_responsive := False\<rparr>)))
      | None \<Rightarrow> None)"

definition fill_channel :: "string \<Rightarrow> json \<Rightarrow> (string \<times> string \<times> json option) list
    \<Rightarrow> (string \<times> string \<times> json option) list" where
  "fill_channel i r ps = map (\<lambda>(j, p, q). if j = i then (j, p, Some r) else (j, p, q)) ps"

definition resolveAsk :: "tee_config \<Rightarrow> string \<Rightarrow> json option \<Rightarrow> tee_state \<Rightarrow> tee_state" where
  "resolveAsk c i result s =
     (let s1 = s\<lparr>te_responsive := True\<rparr>
      in case result of
           None \<Rightarrow> s1
         | Some r \<Rightarrow>
             if i \<in> set (te_perms s1)
             then emitAskResolution c i r
                    (s1\<lparr>te_perms := removeAll i (te_perms s1),
                        te_pending := filter (\<lambda>p. fst p \<noteq> i) (te_pending s1),
                        te_parked := fill_channel i r (te_parked s1)\<rparr>)
             else s1)"

section \<open>Frames of viewers\<close>

definition viewer_frame :: "json \<Rightarrow> rpc_frame option" where
  "viewer_frame v =
     decode_struct [''id'', ''method'', ''params'', ''result'']
       (\<lambda>n x f. if n = ''id'' then Some (f\<lparr>fr_id := Some x\<rparr>)
                else if n = ''method'' then map_option (\<lambda>t. f\<lparr>fr_method := t\<rparr>) (decode_string x (fr_method f))
                else if n = ''params'' then Some (f\<lparr>fr_params := Some x\<rparr>)
                else Some (f\<lparr>fr_result := Some x\<rparr>))
       v zero_frame"

text \<open>\<open>Some (id, result)\<close> when the frame answers an ask; a frame without a result is taken but answers nothing.\<close>

definition harnessAskAnswer :: "json \<Rightarrow> (string \<times> json option) option" where
  "harnessAskAnswer data =
     (case viewer_frame data of
        None \<Rightarrow> None
      | Some f \<Rightarrow>
          if fr_method f \<noteq> [] then None
          else case unmarshal_raw (\<lambda>v. decode_string v []) (fr_id f) of
                 None \<Rightarrow> None
               | Some i \<Rightarrow>
                   if has_prefix i ''kperm-'' \<or> has_prefix i ''kask-'' then Some (i, fr_result f) else None)"

definition rpc_error_json :: "rpc_error \<Rightarrow> json" where
  "rpc_error_json e =
     JObj ([(''code'', JInt (re_code e)), (''message'', JStr (re_message e))] @
           (case re_data e of None \<Rightarrow> [] | Some d \<Rightarrow> [(''data'', d)]))"

text \<open>The answer to a viewer under its own id: an error, or a result (\<open>null\<close> when there is none).\<close>

definition respond ::
  "tee_config \<Rightarrow> nat \<Rightarrow> json \<Rightarrow> rpc_error + json option \<Rightarrow> tee_state \<Rightarrow> tee_state" where
  "respond c v i answer s =
     enqueue c (case answer of
         Inl e \<Rightarrow> JObj [(''error'', rpc_error_json e), (''id'', i), (''jsonrpc'', JStr ''2.0'')]
       | Inr r \<Rightarrow> JObj [(''id'', i), (''jsonrpc'', JStr ''2.0''), (''result'', raw_value r)]) v s"

definition refusal :: "int \<Rightarrow> string \<Rightarrow> rpc_error + json option" where
  "refusal code message = Inl \<lparr>re_code = code, re_message = message, re_data = None\<rparr>"

text \<open>What becomes of a frame: it goes to the viewer's own agent, is done with, or starts a relay to the run.\<close>

datatype relay = PassOn | Consumed | Steer json json | CancelRun json

definition interceptRunFrame ::
  "tee_config \<Rightarrow> nat \<Rightarrow> json \<Rightarrow> tee_state \<Rightarrow> relay \<times> tee_state" where
  "interceptRunFrame c v data s =
     (case te_run_session s of
        None \<Rightarrow> (PassOn, s)
      | Some runSession \<Rightarrow>
          if runSession = [] then (PassOn, s)
          else case viewer_frame data of
            None \<Rightarrow> (PassOn, s)
          | Some f \<Rightarrow>
              if fr_method f = [] then (PassOn, s)
              else if unmarshal_raw decode_session_id (fr_params f) \<noteq> Some runSession then (PassOn, s)
              else if fr_method f = steerMethod then
                (case fr_id f of
                   None \<Rightarrow> (PassOn, s)
                 | Some i \<Rightarrow>
                     if \<not> tc_steer_enabled c
                     then (Consumed, respond c v i (refusal (- 32601)
                       ''viewer steering is disabled by harness policy (HARNESS_HITL_STEER=off)'') s)
                     else (Steer i (raw_value (fr_params f)), s))
              else if fr_method f = ''session/cancel'' then
                (if \<not> tc_steer_enabled c then (Consumed, s)
                 else (CancelRun (raw_value (fr_params f)), s\<lparr>te_responsive := True\<rparr>))
              else if fr_method f = ''session/prompt'' then
                (case fr_id f of
                   None \<Rightarrow> (PassOn, s)
                 | Some i \<Rightarrow>
                     if \<not> te_run_active s then (PassOn, s)
                     else (Consumed, respond c v i (refusal (- 32602)
                       (''session already has an active run; use '' @ steerMethod)) s))
              else (PassOn, s))"

text \<open>The reader of a viewer: answers to asks first.\<close>

definition client_frame :: "tee_config \<Rightarrow> nat \<Rightarrow> json \<Rightarrow> tee_state \<Rightarrow> relay \<times> tee_state" where
  "client_frame c v data s =
     (case harnessAskAnswer data of
        Some (i, result) \<Rightarrow> (Consumed, resolveAsk c i result s)
      | None \<Rightarrow> interceptRunFrame c v data s)"

text \<open>The answer to a relayed steer: the text of a failed call, the agent's error, or its result.\<close>

definition relaySteer ::
  "tee_config \<Rightarrow> nat \<Rightarrow> json \<Rightarrow> string + (json option \<times> rpc_error option) \<Rightarrow> tee_state \<Rightarrow> tee_state" where
  "relaySteer c v i reply s =
     respond c v i
       (case reply of
          Inl t \<Rightarrow> refusal (- 32603) (''steer relay failed: '' @ t)
        | Inr (result, Some e) \<Rightarrow> Inl e
        | Inr (result, None) \<Rightarrow> Inr result)
       (s\<lparr>te_responsive := True\<rparr>)"

section \<open>Viewers come and go\<close>

text \<open>The key in the header, else in the query; without a configured key nobody attaches.\<close>

definition authorized :: "tee_config \<Rightarrow> string \<Rightarrow> string \<Rightarrow> bool" where
  "authorized c header token =
     (if tc_secret c = [] then False
      else if header \<noteq> [] then header = tc_secret c
      else if token \<noteq> [] then token = tc_secret c
      else False)"

text \<open>A new viewer with the replay and the open asks in its queue, not registered yet.\<close>

definition accept_viewer :: "tee_config \<Rightarrow> tee_state \<Rightarrow> nat \<times> tee_state" where
  "accept_viewer c s =
     (let v = te_viewers s; backlog = te_replay s @ map snd (te_pending s)
      in (v, fold (\<lambda>f. enqueue c f v) backlog (s\<lparr>te_viewers := v + 1\<rparr>)))"

definition addViewer :: "nat \<Rightarrow> tee_state \<Rightarrow> bool \<times> tee_state" where
  "addViewer v s =
     (if te_stopped s then (False, s)
      else (True, s\<lparr>te_attached := v # removeAll v (te_attached s), te_responsive := True\<rparr>))"

definition removeViewer :: "nat \<Rightarrow> tee_state \<Rightarrow> tee_state" where
  "removeViewer v s = s\<lparr>te_attached := removeAll v (te_attached s), te_closed := (te_closed s)(v := True)\<rparr>"

definition shutdown_viewer :: "nat \<Rightarrow> tee_state \<Rightarrow> tee_state" where
  "shutdown_viewer v s = s\<lparr>te_closed := (te_closed s)(v := True)\<rparr>"

text \<open>The writer takes the next frame.\<close>

definition write_next :: "nat \<Rightarrow> tee_state \<Rightarrow> tee_state" where
  "write_next v s = s\<lparr>te_queue := (te_queue s)(v := tl (te_queue s v))\<rparr>"

text \<open>\<open>Stop\<close>: nobody attaches any more, parked asks wake up; the viewers are shut down afterwards.\<close>

definition stop_tee :: "tee_state \<Rightarrow> tee_state" where
  "stop_tee s = s\<lparr>te_stopped := True\<rparr>"

text \<open>A frame of the viewer's own agent, passed on as it came.\<close>

definition upstream_frame :: "tee_config \<Rightarrow> nat \<Rightarrow> json \<Rightarrow> tee_state \<Rightarrow> tee_state" where
  "upstream_frame c v frame s = enqueue c frame v s"

end
