(* ===== verification/Stage.thy ===== *)
theory Stage
  imports StageText Tee
begin

text \<open>
  A stage from its configuration to its exit (\<open>runStage\<close> and \<open>main\<close> of
  \<open>harness/cmd/migration-harness/main.go\<close>).  What the stage does outside of itself is a record of calls on a
  state of the world; logging is left out.  Deferred calls run where the function returns, last one first.
\<close>

section \<open>What a stage calls\<close>

text \<open>
  \<open>io_hub\<close> is the client for a base URL and a token.  \<open>io_prompt\<close> is \<open>SendPrompt\<close>, given the handler of the
  turn count, the session, the text and the cost limit; \<open>io_hitl_unanswered\<close> the mark it leaves.  \<open>io_start_tee\<close>
  listens, \<open>io_attach_tee\<close> joins the run's session to it and makes it the forwarder of asks.  \<open>io_turns\<close> and
  \<open>io_pushes\<close> are the two counters shared with other goroutines.  \<open>io_error_text\<close> renders an error.
\<close>

record 'w stage_io =
  io_env :: environ
  io_environ :: "string list"
  io_temp_dir :: string
  io_fs :: "'w fs"
  io_is_symlink :: "string \<Rightarrow> ('w, bool) call"
  io_readlink :: "string \<Rightarrow> ('w, string) call"
  io_symlink :: "string \<Rightarrow> string \<Rightarrow> 'w command"
  io_glob :: "string \<Rightarrow> ('w, string list) call"
  io_home :: "('w, string) call"
  io_executable :: "('w, string) call"
  io_unsetenv :: "string \<Rightarrow> 'w \<Rightarrow> 'w"
  io_error_text :: "err \<Rightarrow> string"
  io_hub :: "string \<Rightarrow> string \<Rightarrow> 'w hub"
  io_git :: "'w gogit"
  io_start_goose :: "serve_config \<Rightarrow> 'w command"
  io_goose_alive :: "'w \<Rightarrow> bool"
  io_stop_goose :: "'w \<Rightarrow> 'w"
  io_dial :: "'w command"
  io_close :: "'w \<Rightarrow> 'w"
  io_create_session :: "string \<Rightarrow> mcp_server list \<Rightarrow> ('w, string) call"
  io_prompt :: "(nat \<Rightarrow> 'w \<Rightarrow> 'w) \<Rightarrow> string \<Rightarrow> string \<Rightarrow> f64 \<Rightarrow> 'w \<Rightarrow> (prompt_result option \<times> err option) \<times> 'w"
  io_hitl_unanswered :: "'w \<Rightarrow> bool"
  io_start_tee :: "tee_config \<Rightarrow> 'w command"
  io_attach_tee :: "string \<Rightarrow> 'w \<Rightarrow> 'w"
  io_stop_tee :: "'w \<Rightarrow> 'w"
  io_update :: "json \<Rightarrow> 'w \<Rightarrow> 'w"
  io_notice :: "string \<Rightarrow> 'w \<Rightarrow> 'w"
  io_run_active :: "bool \<Rightarrow> 'w \<Rightarrow> 'w"
  io_turns :: "'w \<Rightarrow> nat"
  io_set_turns :: "nat \<Rightarrow> 'w \<Rightarrow> 'w"
  io_next_push :: "'w \<Rightarrow> nat \<times> 'w"
  io_new_watcher :: "string \<Rightarrow> ('w \<Rightarrow> err option \<times> 'w) \<Rightarrow> 'w command"
  io_start_watcher :: "'w command"
  io_stop_watcher :: "'w \<Rightarrow> 'w"
  io_write_report :: "string \<Rightarrow> string \<Rightarrow> 'w command"

text \<open>How a stage ends: the exit code and error, the report, and whether it counts as succeeded.\<close>

record stage_end =
  en_code :: int
  en_err :: "err option"
  en_term :: termination_blob
  en_succeeded :: bool

definition safe_blob :: termination_blob where
  "safe_blob =
     \<lparr>tb_exit_code = 1, tb_outcome = outcome_text OutFailed, tb_limit_reached = [], tb_stop_reason = [],
      tb_usage = None\<rparr>"

definition setup_failed :: "err \<Rightarrow> stage_end" where
  "setup_failed e = \<lparr>en_code = 1, en_err = Some e, en_term = safe_blob, en_succeeded = False\<rparr>"

text \<open>The two shapes of \<open>if err != nil { return 1, fmt.Errorf(...) }\<close>.\<close>

definition attempt ::
  "string \<Rightarrow> msg list \<Rightarrow> 'a res \<times> 'w \<Rightarrow> ('a \<Rightarrow> 'w \<Rightarrow> stage_end \<times> 'w) \<Rightarrow> stage_end \<times> 'w" where
  "attempt f xs r k = (case r of (Inl e, w) \<Rightarrow> (setup_failed (wrapf f xs e), w) | (Inr x, w) \<Rightarrow> k x w)"

definition attempt_cmd ::
  "string \<Rightarrow> msg list \<Rightarrow> err option \<times> 'w \<Rightarrow> ('w \<Rightarrow> stage_end \<times> 'w) \<Rightarrow> stage_end \<times> 'w" where
  "attempt_cmd f xs r k = (case r of (Some e, w) \<Rightarrow> (setup_failed (wrapf f xs e), w) | (None, w) \<Rightarrow> k w)"

section \<open>The workspace\<close>

definition clone_dir :: "environ \<Rightarrow> string" where
  "clone_dir env = (if env ''HARNESS_WORK_DIR'' \<noteq> [] then env ''HARNESS_WORK_DIR'' else ''/workspace/repo'')"

definition defaultSkillsDir :: string where "defaultSkillsDir = ''/opt/skills''"

definition skillsDir :: "environ \<Rightarrow> string" where
  "skillsDir env = (if env ''HARNESS_SKILLS_DIR'' \<noteq> [] then env ''HARNESS_SKILLS_DIR'' else defaultSkillsDir)"

definition ClearEnv :: "'w stage_io \<Rightarrow> 'w \<Rightarrow> 'w" where
  "ClearEnv IO w = fold (io_unsetenv IO) [''HUB_BASE_URL'', ''HUB_TOKEN'', ''HUB_TOKEN_ID'', ''APP_ID''] w"

definition discoverSkills :: "'w stage_io \<Rightarrow> ('w, string list) call" where
  "discoverSkills IO = io_glob IO (path_join (skillsDir (io_env IO)) ''*/SKILL.md'')"

text \<open>The link \<open>~/.agents/skills\<close>; a source given by an absolute path.\<close>

definition symlinkSkillsDir :: "'w stage_io \<Rightarrow> string \<Rightarrow> string \<Rightarrow> 'w command" where
  "symlinkSkillsDir IO homeDir src w =
     (let skillsSrc = path_clean src; agentsDir = path_join homeDir ''.agents''; link = path_join agentsDir ''skills''
      in case fs_mkdir_all (io_fs IO) agentsDir w of
           (Some e, w1) \<Rightarrow> (Some e, w1)
         | (None, w1) \<Rightarrow>
             (case io_is_symlink IO link w1 of
                (Inl e, w2) \<Rightarrow> io_symlink IO skillsSrc link w2
              | (Inr False, w2) \<Rightarrow> (Some (errorf ''%s already exists and is not a symlink'' [Lit link]), w2)
              | (Inr True, w2) \<Rightarrow>
                  (case io_readlink IO link w2 of
                     (target, w3) \<Rightarrow>
                       if target = Inr skillsSrc then (None, w3)
                       else case fs_remove (io_fs IO) link w3 of
                              (Some e, w4) \<Rightarrow> (Some (wrapf ''remove stale symlink %s: %w'' [Lit link] e), w4)
                            | (None, w4) \<Rightarrow> io_symlink IO skillsSrc link w4)))"

definition fetchAndWriteAnalysis :: "'w stage_io \<Rightarrow> 'w hub \<Rightarrow> string \<Rightarrow> string \<Rightarrow> ('w, nat) call" where
  "fetchAndWriteAnalysis IO H appIDStr workDir w =
     (case ParseAppID appIDStr of
        Inl e \<Rightarrow> (Inl (wrapf ''invalid APP_ID %q: %w'' [Lit appIDStr] e), w)
      | Inr appID \<Rightarrow>
          (case hc_insights H appID w of
             (Inl e, w1) \<Rightarrow> (Inl e, w1)
           | (Inr insights, w1) \<Rightarrow>
               if insights = [] then (Inr 0, w1)
               else let analysisDir = path_join workDir ''.konveyor''
                    in case fs_mkdir_all (io_fs IO) analysisDir w1 of
                         (Some e, w2) \<Rightarrow> (Inl (wrapf ''create .konveyor dir: %w'' [] e), w2)
                       | (None, w2) \<Rightarrow>
                           (case json_indent 0 (JArr insights) of
                              None \<Rightarrow> (Inl (wrapf ''marshal analysis: %w'' [] marshal_error), w2)
                            | Some data \<Rightarrow>
                                (case fs_write_file (io_fs IO) (path_join analysisDir ''analysis.json'') data w2 of
                                   (Some e, w3) \<Rightarrow> (Inl (wrapf ''write analysis: %w'' [] e), w3)
                                 | (None, w3) \<Rightarrow> (Inr (length insights), w3)))))"

text \<open>Clone, commit identity, credentials out of the clone and of the environment, branch, base commit.\<close>

definition prepare_clone ::
  "'w stage_io \<Rightarrow> config \<Rightarrow> credentials \<Rightarrow> (string \<Rightarrow> 'w \<Rightarrow> stage_end \<times> 'w) \<Rightarrow> 'w \<Rightarrow> stage_end \<times> 'w" where
  "prepare_clone IO cfg creds k w =
     (let G = io_git IO
      in attempt_cmd ''clone: %w'' [] (Clone (io_fs IO) G (io_temp_dir IO) creds (clone_dir (io_env IO)) w) (\<lambda>w1.
         attempt_cmd ''configure git author: %w'' []
           (ConfigureAuthor G (cf_git_author_name cfg) (cf_git_author_email cfg) w1) (\<lambda>w2.
         attempt_cmd ''strip credentials: %w'' [] (StripCredentials G w2) (\<lambda>w3.
         attempt_cmd ''checkout branch %s: %w'' [Lit (cr_branch creds)] (CheckoutBranch G (cr_branch creds) (ClearEnv IO w3)) (\<lambda>w4.
         case HeadSHA G w4 of
           (Inl e, w5) \<Rightarrow> k [] w5
         | (Inr sha, w5) \<Rightarrow> k sha w5)))))"

text \<open>
  The skills of the image: the rules for the prompt, and when there are any skills the link the runtime finds
  them by and the analysis they work on.
\<close>

definition prepare_skills ::
  "'w stage_io \<Rightarrow> 'w hub \<Rightarrow> config \<Rightarrow> (rule list \<Rightarrow> nat option \<Rightarrow> 'w \<Rightarrow> stage_end \<times> 'w) \<Rightarrow> 'w \<Rightarrow> stage_end \<times> 'w" where
  "prepare_skills IO H cfg k w =
     (let dir = skillsDir (io_env IO)
      in attempt ''discover skills: %w'' [] (discoverSkills IO w) (\<lambda>paths w1.
         attempt ''read skill manifest: %w'' [] (ReadManifest (io_fs IO) dir w1) (\<lambda>m w2.
         attempt ''read rules: %w'' [] (RuleContent (io_fs IO) dir m w2) (\<lambda>rules w3.
         if paths = [] then k rules None w3
         else attempt ''resolve home dir: %w'' [] (io_home IO w3) (\<lambda>home w4.
              attempt_cmd ''skill symlink: %w'' [] (symlinkSkillsDir IO home dir w4) (\<lambda>w5.
              case fetchAndWriteAnalysis IO H (cf_app_id cfg) (clone_dir (io_env IO)) w5 of
                (Inl e, w6) \<Rightarrow> k rules None w6
              | (Inr n, w6) \<Rightarrow> k rules (Some n) w6))))))"

section \<open>The agent\<close>

definition goose_config :: "config \<Rightarrow> serve_config" where
  "goose_config cfg =
     \<lparr>sv_port = (if cf_acp_tee cfg then LoopbackACPPort else 0), sv_bind_loopback = cf_acp_tee cfg,
      sv_secret_key = cf_acp_secret_key cfg, sv_provider = cf_provider cfg, sv_model = cf_model cfg,
      sv_api_key = cf_api_key cfg, sv_endpoint = cf_endpoint cfg,
      sv_mode = hx_mode (hp_execution (cf_params cfg)), sv_max_turns = cf_max_turns cfg\<rparr>"

definition ToolName :: string where "ToolName = ''ask_user''"
definition Subcommand :: string where "Subcommand = ''ask-user-mcp''"

definition ask_servers :: "'w stage_io \<Rightarrow> config \<Rightarrow> 'w \<Rightarrow> mcp_server list \<times> 'w" where
  "ask_servers IO cfg w =
     (if \<not> cf_hitl_ask cfg then ([], w)
      else case io_executable IO w of
             (Inl e, w1) \<Rightarrow> ([], w1)
           | (Inr self, w1) \<Rightarrow>
               ([\<lparr>mc_name = ToolName, mc_command = self, mc_args = [Subcommand], mc_env = []\<rparr>], w1))"

text \<open>The relay is up only when its listener started; a failure costs the viewers, not the run.\<close>

definition start_tee :: "'w stage_io \<Rightarrow> config \<Rightarrow> string \<Rightarrow> 'w \<Rightarrow> bool \<times> 'w" where
  "start_tee IO cfg sid w =
     (if \<not> cf_acp_tee cfg then (False, w)
      else case io_start_tee IO
                  (tee_defaults \<lparr>tc_secret = cf_acp_secret_key cfg, tc_hitl_timeout = cf_hitl_timeout cfg,
                                 tc_queue_cap = 0, tc_steer_enabled = cf_hitl_steer cfg\<rparr>) w of
             (Some e, w1) \<Rightarrow> (False, w1)
           | (None, w1) \<Rightarrow> (True, io_attach_tee IO sid w1))"

section \<open>What viewers see of the stage\<close>

text \<open>What the frames of a stage are made of: whether the relay is up, the configuration, branch and rungs.\<close>

record stage_show =
  sh_live :: bool
  sh_config :: config
  sh_branch :: string
  sh_prep :: string
  sh_red :: "string list"

definition plan_entry :: "string \<Rightarrow> string \<Rightarrow> json" where
  "plan_entry content status =
     JObj [(''content'', JStr content), (''priority'', JStr ''medium''), (''status'', JStr status)]"

definition emit_plan :: "'w stage_io \<Rightarrow> stage_show \<Rightarrow> string \<Rightarrow> string \<Rightarrow> string \<Rightarrow> 'w \<Rightarrow> 'w" where
  "emit_plan IO S prep agentRun finish w =
     (if \<not> sh_live S then w
      else io_update IO
             (JObj [(''entries'', JArr
                [plan_entry (sh_prep S) prep,
                 plan_entry (planTaskRung (sh_config S) (sh_red S) (io_turns IO w)) agentRun,
                 plan_entry (''Push results to branch '' @ sh_branch S) finish]),
                (''sessionUpdate'', JStr ''plan'')]) w)"

definition emit_push ::
  "'w stage_io \<Rightarrow> stage_show \<Rightarrow> string \<Rightarrow> ('w, bool) call \<Rightarrow> ('w, bool) call" where
  "emit_push IO S title push w =
     (if \<not> sh_live S then push w
      else case io_next_push IO w of
             (n, w1) \<Rightarrow>
               let i = JStr (''harness-push-'' @ nat_text n);
                   w2 = io_update IO (JObj [(''kind'', JStr ''execute''), (''sessionUpdate'', JStr ''tool_call''),
                          (''status'', JStr ''in_progress''), (''title'', JStr title), (''toolCallId'', i)]) w1
               in case push w2 of
                    (r, w3) \<Rightarrow>
                      (r, io_update IO (JObj [(''sessionUpdate'', JStr ''tool_call_update''),
                            (''status'', JStr (if isl r then ''failed'' else ''completed'')), (''toolCallId'', i)]) w3))"

definition emit_notice :: "'w stage_io \<Rightarrow> stage_show \<Rightarrow> string \<Rightarrow> 'w \<Rightarrow> 'w" where
  "emit_notice IO S message w = (if sh_live S then io_notice IO message w else w)"

text \<open>The handler of the turn count, after the turns of earlier prompts.\<close>

definition turn_handler :: "'w stage_io \<Rightarrow> stage_show \<Rightarrow> nat \<Rightarrow> nat \<Rightarrow> 'w \<Rightarrow> 'w" where
  "turn_handler IO S turnBase n w =
     emit_plan IO S ''completed'' ''in_progress'' ''pending'' (io_set_turns IO (turnBase + n) w)"

section \<open>The prompts\<close>

text \<open>Whether the closing message is one of the provider's failure texts.\<close>

definition logAgentClosingMessage :: "string list \<Rightarrow> prompt_result \<Rightarrow> bool" where
  "logAgentClosingMessage red r \<longleftrightarrow> redact red (trim_space (FinalMessage r)) \<noteq> [] \<and> ClosingProviderError r"

text \<open>What the primary prompt came to, before the health of the agent and the push are known.\<close>

record primary_view =
  py_result :: "prompt_result option"
  py_err :: "err option"
  py_outcome :: outcome
  py_limit :: limit_kind
  py_provider_err :: bool
  py_rejected :: bool
  py_summary :: string
  py_hitl :: bool
  py_cancelled :: bool

definition judge_primary ::
  "config \<Rightarrow> string list \<Rightarrow> prompt_result option \<Rightarrow> err option \<Rightarrow> bool \<Rightarrow> primary_view" where
  "judge_primary cfg red result er hitl =
     (let providerErr = (case result of None \<Rightarrow> False | Some r \<Rightarrow> logAgentClosingMessage red r);
          ol = classifyOutcome result er (NativeTurnLimit (cf_max_turns cfg)) providerErr
      in \<lparr>py_result = result, py_err = er, py_outcome = fst ol, py_limit = snd ol, py_provider_err = providerErr,
          py_rejected = (providerErr \<and> (case result of None \<Rightarrow> False | Some r \<Rightarrow> pr_turns_used r = 0)),
          py_summary = (case result of
             Some r \<Rightarrow> if providerErr then providerErrorSummary (redact red (FinalMessage r)) else [] | None \<Rightarrow> []),
          py_hitl = hitl,
          py_cancelled = (er = None \<and> \<not> hitl \<and>
             (case result of None \<Rightarrow> False
              | Some r \<Rightarrow> pr_stop_reason r = ''cancelled'' \<and> \<not> pr_cost_limit_reached r))\<rparr>)"

definition provider_notice :: "'w stage_io \<Rightarrow> stage_show \<Rightarrow> primary_view \<Rightarrow> 'w \<Rightarrow> 'w" where
  "provider_notice IO S v w =
     (if py_rejected v
      then emit_notice IO S (''the model provider rejected the call '' @ em_dash @ '' no work was done: '' @ py_summary v) w
      else if py_provider_err v
      then emit_notice IO S (''the model provider rejected a call after '' @
             (case py_result v of Some r \<Rightarrow> nat_text (pr_turns_used r) | None \<Rightarrow> []) @ '' turns: '' @ py_summary v) w
      else w)"

definition run_primary ::
  "'w stage_io \<Rightarrow> stage_show \<Rightarrow> string \<Rightarrow> string \<Rightarrow> 'w \<Rightarrow> primary_view \<times> 'w" where
  "run_primary IO S sid text w =
     (let cfg = sh_config S;
          w1 = emit_plan IO S ''completed'' ''in_progress'' ''pending'' w;
          w2 = (if sh_live S then io_run_active IO True w1 else w1)
      in case io_prompt IO (turn_handler IO S 0) sid text (cf_cost_limit cfg) w2 of
           ((result, er), w3) \<Rightarrow>
             let w4 = (case result of None \<Rightarrow> w3 | Some r \<Rightarrow> io_set_turns IO (pr_turns_used r) w3);
                 w5 = (if sh_live S then io_run_active IO False w4 else w4);
                 v = judge_primary cfg (sh_red S) result er (io_hitl_unanswered IO w5)
             in (v, provider_notice IO S v w5))"

text \<open>A reached limit gets one more prompt, with the whole budget; its outcome stands whatever comes of it.\<close>

definition run_handoff ::
  "'w stage_io \<Rightarrow> stage_show \<Rightarrow> string \<Rightarrow> primary_view \<Rightarrow> 'w \<Rightarrow> prompt_result option \<times> 'w" where
  "run_handoff IO S sid v w =
     (if py_outcome v \<noteq> OutLimitReached then (None, w)
      else case io_prompt IO (turn_handler IO S (case py_result v of None \<Rightarrow> 0 | Some r \<Rightarrow> pr_turns_used r))
                  sid handoffPromptText (cf_max_cost (sh_config S)) w of
             ((result, er), w1) \<Rightarrow> (result, w1))"

section \<open>How a stage ends\<close>

definition stage_report :: "primary_view \<Rightarrow> prompt_result option \<Rightarrow> outcome \<Rightarrow> limit_kind \<Rightarrow> termination_blob" where
  "stage_report v handoff out lim =
     (case py_result v of
        Some r \<Rightarrow>
          \<lparr>tb_exit_code = outcome_exit_code out, tb_outcome = outcome_text out, tb_limit_reached = limit_text lim,
           tb_stop_reason = (if py_rejected v then ''provider error: '' @ py_summary v else pr_stop_reason r),
           tb_usage = Some (combineUsage r handoff)\<rparr>
      | None \<Rightarrow>
          \<lparr>tb_exit_code = outcome_exit_code out, tb_outcome = outcome_text out, tb_limit_reached = [],
           tb_stop_reason = [], tb_usage = None\<rparr>)"

definition push_failed :: "'w stage_io \<Rightarrow> termination_blob \<Rightarrow> err \<Rightarrow> stage_end" where
  "push_failed IO term e =
     \<lparr>en_code = 1, en_err = Some (wrapf ''final push: %w'' [] e),
      en_term = term\<lparr>tb_exit_code := 1, tb_outcome := outcome_text OutFailed, tb_limit_reached := [],
                     tb_stop_reason := ''final push: '' @ io_error_text IO e\<rparr>,
      en_succeeded = False\<rparr>"

definition closing_notice :: "outcome \<Rightarrow> limit_kind \<Rightarrow> primary_view \<Rightarrow> bool \<Rightarrow> string \<Rightarrow> string" where
  "closing_notice out lim v pushed branch =
     (let unanswered = ''run stopped '' @ em_dash @ '' an ask_user question went unanswered (no human to decide); ''
      in case out of
           OutSucceeded \<Rightarrow>
             ''stage succeeded '' @ em_dash @
             (if pushed then '' results pushed to branch '' @ branch else '' no changes to push'')
         | OutLimitReached \<Rightarrow>
             ''execution limit reached ('' @ limit_text lim @ '') '' @ em_dash @
             (if pushed then '' handoff committed, results pushed to branch '' @ branch else '' no commits to push'')
         | OutFailed \<Rightarrow>
             (if py_hitl v \<and> pushed then unanswered @ ''partial work pushed to branch '' @ branch
              else if py_hitl v then unanswered @ ''no commits to push''
              else if py_cancelled v \<and> pushed
              then ''run cancelled by viewer '' @ em_dash @ '' partial work pushed to branch '' @ branch
              else if py_cancelled v then ''run cancelled by viewer '' @ em_dash @ '' no commits to push''
              else if py_rejected v
              then ''stage failed '' @ em_dash @ '' the model provider rejected the call; no work was done''
              else if pushed then ''stage failed '' @ em_dash @ '' partial work pushed to branch '' @ branch
              else ''stage failed '' @ em_dash @ '' no commits to push''))"

definition failure_of :: "primary_view \<Rightarrow> err" where
  "failure_of v =
     (if py_hitl v then errorf ''stage failed: ask_user question unanswered (HITL gate)'' []
      else if py_rejected v then errorf ''stage failed: provider error: %s'' [Lit (py_summary v)]
      else errorf ''stage failed'' [])"

definition stage_verdict :: "outcome \<Rightarrow> primary_view \<Rightarrow> termination_blob \<Rightarrow> stage_end" where
  "stage_verdict out v term =
     (case out of
        OutSucceeded \<Rightarrow> \<lparr>en_code = 0, en_err = None, en_term = term, en_succeeded = True\<rparr>
      | OutLimitReached \<Rightarrow> \<lparr>en_code = 2, en_err = None, en_term = term, en_succeeded = False\<rparr>
      | OutFailed \<Rightarrow> \<lparr>en_code = 1, en_err = Some (failure_of v), en_term = term, en_succeeded = False\<rparr>)"

text \<open>From the end of the prompts: health, watcher, report, final push, exit.\<close>

definition conclude ::
  "'w stage_io \<Rightarrow> stage_show \<Rightarrow> credentials \<Rightarrow> string \<Rightarrow> primary_view \<Rightarrow> prompt_result option \<Rightarrow> 'w \<Rightarrow> stage_end \<times> 'w" where
  "conclude IO S creds baseSHA v handoff w =
     (let w1 = emit_plan IO S ''completed'' ''completed'' ''in_progress'' w;
          alive = io_goose_alive IO w1;
          out = (if alive then py_outcome v else OutFailed);
          lim = (if alive then py_limit v else LimitNone);
          w2 = io_stop_watcher IO w1;
          term = stage_report v handoff out lim
      in case emit_push IO S (''git push to branch '' @ cr_branch creds @ '' (final)'')
                (Push (io_git IO) creds (cr_branch creds) baseSHA) w2 of
           (Inl e, w3) \<Rightarrow>
             (push_failed IO term e,
              emit_notice IO S (''stage failed '' @ em_dash @ '' final push error: '' @ io_error_text IO e) w3)
         | (Inr pushed, w3) \<Rightarrow>
             (stage_verdict out v term,
              emit_notice IO S (closing_notice out lim v pushed (cr_branch creds))
                (emit_plan IO S ''completed'' ''completed'' ''completed'' w3)))"

section \<open>The stage\<close>

definition stage_prompt :: "config \<Rightarrow> rule list \<Rightarrow> bool \<Rightarrow> string" where
  "stage_prompt cfg rules ask =
     Build \<lparr>la_agent_prompt = cf_agent_prompt cfg, la_rules = rules, la_workflow_guide = cf_workflow_guide cfg,
            la_parameters = RenderSection (cf_params cfg), la_stage_task = cf_stage_instructions cfg,
            la_ask_user = ask\<rparr>"

definition watcher_push :: "'w stage_io \<Rightarrow> stage_show \<Rightarrow> credentials \<Rightarrow> string \<Rightarrow> 'w command" where
  "watcher_push IO S creds baseSHA w =
     (case emit_push IO S (''git push to branch '' @ cr_branch creds @ '' (auto-commit watcher)'')
             (Push (io_git IO) creds (cr_branch creds) baseSHA) w of
        (r, w1) \<Rightarrow> (case r of Inl e \<Rightarrow> Some e | Inr b \<Rightarrow> None, w1))"

text \<open>With a session: watch, prompt, hand off, conclude; the watcher is stopped again on the way out.\<close>

definition work ::
  "'w stage_io \<Rightarrow> stage_show \<Rightarrow> credentials \<Rightarrow> string \<Rightarrow> string \<Rightarrow> string \<Rightarrow> 'w \<Rightarrow> stage_end \<times> 'w" where
  "work IO S creds baseSHA sid text w =
     (let w0 = emit_plan IO S ''completed'' ''pending'' ''pending'' w
      in attempt_cmd ''create watcher: %w'' []
           (io_new_watcher IO (clone_dir (io_env IO)) (watcher_push IO S creds baseSHA) w0) (\<lambda>w1.
         attempt_cmd ''start watcher: %w'' [] (io_start_watcher IO w1) (\<lambda>w2.
         case run_primary IO S sid text w2 of
           (v, w3) \<Rightarrow>
             (case run_handoff IO S sid v w3 of
                (handoff, w4) \<Rightarrow> apsnd (io_stop_watcher IO) (conclude IO S creds baseSHA v handoff w4)))))"

text \<open>With a session: the relay for viewers, then the work.\<close>

definition show_and_work ::
  "'w stage_io \<Rightarrow> config \<Rightarrow> string list \<Rightarrow> credentials \<Rightarrow> string \<Rightarrow> nat option \<Rightarrow> string \<Rightarrow> string \<Rightarrow> 'w \<Rightarrow> stage_end \<times> 'w" where
  "show_and_work IO cfg red creds baseSHA insights text sid w =
     (case start_tee IO cfg sid w of
        (live, w1) \<Rightarrow>
          let S = \<lparr>sh_live = live, sh_config = cfg, sh_branch = cr_branch creds,
                   sh_prep = planPrepRung (gg_url (io_git IO)) (cr_repo_url creds) (cr_branch creds) insights red,
                   sh_red = red\<rparr>
          in apsnd (if live then io_stop_tee IO else id) (work IO S creds baseSHA sid text w1))"

definition open_session ::
  "'w stage_io \<Rightarrow> config \<Rightarrow> string list \<Rightarrow> credentials \<Rightarrow> string \<Rightarrow> rule list \<Rightarrow> nat option \<Rightarrow> 'w \<Rightarrow> stage_end \<times> 'w" where
  "open_session IO cfg red creds baseSHA rules insights w =
     (case ask_servers IO cfg w of
        (servers, w1) \<Rightarrow>
          attempt ''create session: %w'' [] (io_create_session IO (clone_dir (io_env IO)) servers w1)
            (show_and_work IO cfg red creds baseSHA insights (stage_prompt cfg rules (servers \<noteq> []))))"

text \<open>The agent is started, connected to, and stopped on the way out.\<close>

definition run_agent ::
  "'w stage_io \<Rightarrow> config \<Rightarrow> string list \<Rightarrow> credentials \<Rightarrow> string \<Rightarrow> rule list \<Rightarrow> nat option \<Rightarrow> 'w \<Rightarrow> stage_end \<times> 'w" where
  "run_agent IO cfg red creds baseSHA rules insights w =
     attempt_cmd ''start goose serve: %w'' [] (io_start_goose IO (goose_config cfg) w) (\<lambda>w1.
       apsnd (io_stop_goose IO)
        (attempt_cmd ''connect to goose: %w'' [] (io_dial IO w1) (\<lambda>w2.
           apsnd (io_close IO) (open_session IO cfg red creds baseSHA rules insights w2))))"

definition stage_body :: "'w stage_io \<Rightarrow> config \<Rightarrow> 'w \<Rightarrow> stage_end \<times> 'w" where
  "stage_body IO cfg w =
     (let H = io_hub IO (cf_hub_base_url cfg) (cf_hub_token cfg)
      in attempt ''hub resolution: %w'' [] (resolveFromHub H cfg w) (\<lambda>app w1.
         let red = newRedactor [cf_api_key cfg, cf_hub_token cfg, cf_acp_secret_key cfg, cr_token app] (io_environ IO)
         in if cf_target_branch cfg = cr_branch app
            then (setup_failed (errorf ''TARGET_BRANCH %q must differ from source branch'' [Lit (cf_target_branch cfg)]), w1)
            else let creds = app\<lparr>cr_branch := cf_target_branch cfg\<rparr>
                 in prepare_clone IO cfg creds (\<lambda>baseSHA.
                      prepare_skills IO H cfg (\<lambda>rules insights.
                        run_agent IO cfg red creds baseSHA rules insights)) w1))"

text \<open>The token of the Hub is revoked unless a later stage needs it.\<close>

definition settle_token :: "'w stage_io \<Rightarrow> config \<Rightarrow> stage_end \<Rightarrow> 'w \<Rightarrow> 'w" where
  "settle_token IO cfg en w =
     (case parseHubTokenID cfg of
        None \<Rightarrow> w
      | Some tokenID \<Rightarrow>
          if isIntermediateWorkflowStage cfg \<and> en_succeeded en then w
          else snd (hc_revoke (io_hub IO (cf_hub_base_url cfg) (cf_hub_token cfg)) tokenID w))"

definition final_report :: "'w stage_io \<Rightarrow> stage_end \<Rightarrow> termination_blob" where
  "final_report IO en =
     (case en_err en of
        Some e \<Rightarrow> if tb_stop_reason (en_term en) = [] then (en_term en)\<lparr>tb_stop_reason := io_error_text IO e\<rparr>
                  else en_term en
      | None \<Rightarrow> en_term en)"

definition runStage :: "'w stage_io \<Rightarrow> 'w \<Rightarrow> stage_end \<times> 'w" where
  "runStage IO w =
     (case LoadFromEnv (io_fs IO) (io_env IO) w of
        (Inl e, w1) \<Rightarrow>
          let en = setup_failed (wrapf ''config: %w'' [] e)
          in (en, writeTerminationLog (io_write_report IO) (terminationLogPath (io_env IO)) (final_report IO en) w1)
      | (Inr cfg, w1) \<Rightarrow>
          (case stage_body IO cfg w1 of
             (en, w2) \<Rightarrow>
               (en, writeTerminationLog (io_write_report IO) (terminationLogPath (io_env IO)) (final_report IO en)
                      (settle_token IO cfg en w2))))"

text \<open>The exit code of the process that runs a stage.\<close>

definition main_exit_code :: "stage_end \<Rightarrow> int" where
  "main_exit_code en = (if en_err en \<noteq> None \<and> en_code en = 0 then 1 else en_code en)"

end
