(* ===== verification/StageProperties.thy ===== *)
theory StageProperties
  imports Stage
begin

text \<open>
  What a stage does, in which order: calls that matter leave an event in a log of the world.  The agent starts in
  a clone without credentials, the prompts follow the limits, the Hub token is settled once, and exit code,
  report and verdict agree.
\<close>

section \<open>Calls that leave a mark\<close>

datatype stage_event =
    Identified string string
  | RemotesRead "string list"
  | RemoteDeleted
  | RemoteSet "string list"
  | Unset string
  | Served serve_config
  | Prompted string string f64
  | PushedRef "(string \<times> string) option" string
  | Revoked nat

text \<open>A call appends these events whatever its result; \<open>[]\<close> for a call that leaves no mark.\<close>

definition marks :: "('w \<Rightarrow> stage_event list) \<Rightarrow> stage_event list \<Rightarrow> ('w \<Rightarrow> 'r \<times> 'w) \<Rightarrow> bool" where
  "marks lg es f \<longleftrightarrow> (\<forall>w. lg (snd (f w)) = lg w @ es)"

definition silent :: "('w \<Rightarrow> stage_event list) \<Rightarrow> ('w \<Rightarrow> 'w) \<Rightarrow> bool" where
  "silent lg f \<longleftrightarrow> (\<forall>w. lg (f w) = lg w)"

definition logs_fs :: "('w \<Rightarrow> stage_event list) \<Rightarrow> 'w fs \<Rightarrow> bool" where
  "logs_fs lg F \<longleftrightarrow>
     (\<forall>p. marks lg [] (fs_stat F p)) \<and> (\<forall>p. marks lg [] (fs_read_file F p)) \<and>
     (\<forall>p. marks lg [] (fs_mkdir_all F p)) \<and> (\<forall>p. marks lg [] (fs_remove F p)) \<and>
     (\<forall>p. marks lg [] (fs_remove_all F p)) \<and> (\<forall>p d. marks lg [] (fs_write_file F p d))"

definition logs_git :: "('w \<Rightarrow> stage_event list) \<Rightarrow> 'w gogit \<Rightarrow> bool" where
  "logs_git lg G \<longleftrightarrow>
     (\<forall>u a d. marks lg [] (gg_clone G u a d)) \<and>
     (\<forall>w. lg (snd (gg_remote_urls G w)) = lg w @ (case fst (gg_remote_urls G w) of Inl e \<Rightarrow> [] | Inr us \<Rightarrow> [RemotesRead us])) \<and>
     marks lg [RemoteDeleted] (gg_delete_remote G) \<and> (\<forall>us. marks lg [RemoteSet us] (gg_create_remote G us)) \<and>
     marks lg [] (gg_config G) \<and> (\<forall>n e. marks lg [Identified n e] (gg_set_user G n e)) \<and>
     marks lg [] (gg_head G) \<and> (\<forall>r. marks lg [] (gg_resolve G r)) \<and> marks lg [] (gg_worktree G) \<and>
     (\<forall>b h c. marks lg [] (gg_checkout G b h c)) \<and> (\<forall>a r. marks lg [PushedRef a r] (gg_push G a r))"

definition logs_hub :: "('w \<Rightarrow> stage_event list) \<Rightarrow> 'w hub \<Rightarrow> bool" where
  "logs_hub lg H \<longleftrightarrow>
     (\<forall>n. marks lg [] (hc_fetch_app H n)) \<and> (\<forall>n. marks lg [] (hc_git_creds H n)) \<and>
     (\<forall>n. marks lg [] (hc_insights H n)) \<and> (\<forall>n. marks lg [Revoked n] (hc_revoke H n))"

definition is_push :: "stage_event \<Rightarrow> bool" where
  "is_push e = (case e of PushedRef a r \<Rightarrow> True | _ \<Rightarrow> False)"

text \<open>
  The world keeps a log.  While a prompt runs the watcher may push; a handler of the turn count that leaves no mark
  adds none.
\<close>

definition logs :: "('w \<Rightarrow> stage_event list) \<Rightarrow> 'w stage_io \<Rightarrow> bool" where
  "logs lg IO \<longleftrightarrow>
     logs_fs lg (io_fs IO) \<and> logs_git lg (io_git IO) \<and> (\<forall>u t. logs_hub lg (io_hub IO u t)) \<and>
     (\<forall>p. marks lg [] (io_is_symlink IO p)) \<and> (\<forall>p. marks lg [] (io_readlink IO p)) \<and>
     (\<forall>p q. marks lg [] (io_symlink IO p q)) \<and> (\<forall>p. marks lg [] (io_glob IO p)) \<and>
     marks lg [] (io_home IO) \<and> marks lg [] (io_executable IO) \<and>
     (\<forall>n w. lg (io_unsetenv IO n w) = lg w @ [Unset n]) \<and>
     (\<forall>c. marks lg [Served c] (io_start_goose IO c)) \<and> silent lg (io_stop_goose IO) \<and>
     marks lg [] (io_dial IO) \<and> silent lg (io_close IO) \<and>
     (\<forall>d ms. marks lg [] (io_create_session IO d ms)) \<and>
     (\<forall>h sid t l w. (\<forall>n. silent lg (h n)) \<longrightarrow>
        (\<exists>ps. lg (snd (io_prompt IO h sid t l w)) = lg w @ Prompted sid t l # ps \<and> list_all is_push ps)) \<and>
     (\<forall>c. marks lg [] (io_start_tee IO c)) \<and> (\<forall>s. silent lg (io_attach_tee IO s)) \<and> silent lg (io_stop_tee IO) \<and>
     (\<forall>u. silent lg (io_update IO u)) \<and> (\<forall>m. silent lg (io_notice IO m)) \<and> (\<forall>b. silent lg (io_run_active IO b)) \<and>
     (\<forall>n. silent lg (io_set_turns IO n)) \<and> marks lg [] (io_next_push IO) \<and>
     (\<forall>d f. marks lg [] (io_new_watcher IO d f)) \<and> marks lg [] (io_start_watcher IO) \<and>
     silent lg (io_stop_watcher IO) \<and> (\<forall>p d. marks lg [] (io_write_report IO p d))"

lemma marksD: "marks lg es f \<Longrightarrow> f w = (r, w') \<Longrightarrow> lg w' = lg w @ es"
  unfolding marks_def by (metis snd_conv)

lemma silentD: "silent lg f \<Longrightarrow> lg (f w) = lg w"
  by (simp add: silent_def)

section \<open>The steps\<close>

lemma attempt_cases:
  assumes "attempt f xs r k = (en, w')"
  obtains (failed) e w where "r = (Inl e, w)" "en = setup_failed (wrapf f xs e)" "w' = w"
    | (went) x w where "r = (Inr x, w)" "k x w = (en, w')"
  using assms by (auto simp: attempt_def split: prod.splits sum.splits)

lemma attempt_cmd_cases:
  assumes "attempt_cmd f xs r k = (en, w')"
  obtains (failed) e w where "r = (Some e, w)" "en = setup_failed (wrapf f xs e)" "w' = w"
    | (went) w where "r = (None, w)" "k w = (en, w')"
  using assms by (auto simp: attempt_cmd_def split: prod.splits option.splits)

lemma emit_plan_silent: "logs lg IO \<Longrightarrow> silent lg (emit_plan IO S p a f)"
  by (simp add: emit_plan_def silent_def logs_def)

lemma emit_notice_silent: "logs lg IO \<Longrightarrow> silent lg (emit_notice IO S m)"
  by (simp add: emit_notice_def silent_def logs_def)

lemma turn_handler_silent: "logs lg IO \<Longrightarrow> silent lg (turn_handler IO S b n)"
  using emit_plan_silent [of lg IO] by (simp add: turn_handler_def silent_def logs_def)

lemma provider_notice_silent: "logs lg IO \<Longrightarrow> silent lg (provider_notice IO S v)"
  using emit_notice_silent [of lg IO S] by (simp add: provider_notice_def silent_def)

definition pushes_only :: "('w \<Rightarrow> stage_event list) \<Rightarrow> 'w \<Rightarrow> 'w \<Rightarrow> bool" where
  "pushes_only lg w w' \<longleftrightarrow> (\<exists>ps. lg w' = lg w @ ps \<and> list_all is_push ps)"

lemma pushes_same: "lg w' = lg w \<Longrightarrow> pushes_only lg w w'"
  by (auto simp: pushes_only_def)

lemma pushes_trans: "pushes_only lg u v \<Longrightarrow> pushes_only lg v w \<Longrightarrow> pushes_only lg u w"
  by (auto simp: pushes_only_def)

lemma marks_snd: "marks lg es f \<Longrightarrow> lg (snd (f w)) = lg w @ es"
  by (simp add: marks_def)

lemma git_logs:
  assumes "logs_git lg G"
  shows "lg (snd (gg_clone G u a d w)) = lg w" "lg (snd (gg_delete_remote G w)) = lg w @ [RemoteDeleted]"
    "lg (snd (gg_create_remote G us w)) = lg w @ [RemoteSet us]" "lg (snd (gg_config G w)) = lg w"
    "lg (snd (gg_set_user G n e w)) = lg w @ [Identified n e]" "lg (snd (gg_head G w)) = lg w"
    "lg (snd (gg_resolve G r w)) = lg w" "lg (snd (gg_worktree G w)) = lg w"
    "lg (snd (gg_checkout G b h c w)) = lg w" "lg (snd (gg_push G p q w)) = lg w @ [PushedRef p q]"
  using assms by (simp_all add: logs_git_def marks_def)

lemma push_ref_log: "logs_git lg G \<Longrightarrow> pushes_only lg w (snd (push_ref G c b w))"
  by (simp add: push_ref_def case_prod_beta' git_logs pushes_only_def is_push_def split: option.split)

lemma Push_log: "logs_git lg G \<Longrightarrow> pushes_only lg w (snd (Push G c b s w))"
proof -
  assume l: "logs_git lg G"
  have h: "pushes_only lg w (snd (gg_head G w))" using l by (simp add: pushes_same git_logs)
  moreover have "pushes_only lg w (snd (push_ref G c b (snd (gg_head G w))))"
    by (rule pushes_trans [OF h push_ref_log [OF l]])
  moreover have "pushes_only lg w (snd (push_ref G c b w))" by (rule push_ref_log [OF l])
  ultimately show ?thesis by (simp add: Push_def case_prod_beta' split: sum.split)
qed

lemma emit_push_log:
  assumes l: "logs lg IO" and p: "\<And>w. pushes_only lg w (snd (push w))"
  shows "pushes_only lg w (snd (emit_push IO S t push w))"
proof (cases "sh_live S")
  case True
  have u: "lg (io_update IO x v) = lg v" for x v using l by (simp add: logs_def silent_def)
  have n: "lg (snd (io_next_push IO v)) = lg v" for v using l by (simp add: logs_def marks_def)
  let ?v = "\<lambda>x. io_update IO x (snd (io_next_push IO w))"
  have "pushes_only lg w (io_update IO y (snd (push (?v x))))" for x y
  proof -
    have "pushes_only lg w (?v x)" by (simp add: pushes_same u n)
    from pushes_trans [OF this p] show ?thesis by (simp add: pushes_only_def u)
  qed
  then show ?thesis using True by (simp add: emit_push_def case_prod_beta' Let_def)
next
  case False
  then show ?thesis using p by (simp add: emit_push_def)
qed

lemma final_push_log:
  "logs lg IO \<Longrightarrow> pushes_only lg w (snd (emit_push IO S t (Push (io_git IO) c b s) w))"
  by (rule emit_push_log) (auto intro: Push_log simp: logs_def)

section \<open>The end of a stage\<close>

text \<open>Exit code, report, verdict and error say the same.\<close>

definition agrees :: "outcome \<Rightarrow> stage_end \<Rightarrow> bool" where
  "agrees out en \<longleftrightarrow>
     en_code en = outcome_exit_code out \<and> tb_exit_code (en_term en) = en_code en \<and>
     tb_outcome (en_term en) = outcome_text out \<and> (en_succeeded en \<longleftrightarrow> out = OutSucceeded) \<and>
     (en_err en = None \<longleftrightarrow> out \<noteq> OutFailed) \<and> tb_limit_reached (en_term en) \<in> range limit_text"

lemma no_limit_text: "[] \<in> range limit_text"
  by (metis limit_text.simps(1) rangeI)

lemma setup_agrees: "agrees OutFailed (setup_failed e)"
  using no_limit_text by (simp add: agrees_def setup_failed_def safe_blob_def)

lemma push_agrees: "agrees OutFailed (push_failed IO t e)"
  using no_limit_text by (simp add: agrees_def push_failed_def)

lemma verdict_agrees: "agrees out (stage_verdict out v (stage_report v h out lim))"
  using no_limit_text
  by (cases out) (auto simp: agrees_def stage_verdict_def stage_report_def split: option.split)

lemma agrees_code: "agrees out en \<Longrightarrow> agrees out' en \<Longrightarrow> out = out'"
  by (cases out; cases out') (auto simp: agrees_def)

lemma conclude_agrees:
  "\<exists>out. agrees out (fst (conclude IO S creds b v h w)) \<and> (out = py_outcome v \<or> out = OutFailed)"
  using push_agrees verdict_agrees
  by (simp add: conclude_def case_prod_beta' Let_def split: sum.split) blast

lemma conclude_log:
  assumes l: "logs lg IO"
  shows "pushes_only lg w (snd (conclude IO S creds b v h w))"
proof -
  let ?w2 = "io_stop_watcher IO (emit_plan IO S ''completed'' ''completed'' ''in_progress'' w)"
  let ?f = "emit_push IO S (''git push to branch '' @ cr_branch creds @ '' (final)'')
      (Push (io_git IO) creds (cr_branch creds) b)"
  have "lg ?w2 = lg w" using l silentD [OF emit_plan_silent [OF l]] by (simp add: logs_def silentD)
  then have p: "pushes_only lg w (snd (?f ?w2))"
    using pushes_trans [OF pushes_same final_push_log [OF l]] by blast
  then have "pushes_only lg w (emit_notice IO S m (snd (?f ?w2)))"
    and "pushes_only lg w (emit_notice IO S m (emit_plan IO S x y z (snd (?f ?w2))))" for m x y z
    by (simp_all add: pushes_only_def silentD [OF emit_notice_silent [OF l]] silentD [OF emit_plan_silent [OF l]])
  then show ?thesis by (simp add: conclude_def case_prod_beta' Let_def split: sum.split)
qed

section \<open>The prompts\<close>

fun prompts :: "stage_event list \<Rightarrow> (string \<times> string \<times> f64) list" where
  "prompts [] = []"
| "prompts (Prompted sid t l # es) = (sid, t, l) # prompts es"
| "prompts (e # es) = prompts es"

lemma prompts_append [simp]: "prompts (xs @ ys) = prompts xs @ prompts ys"
  by (induction xs rule: prompts.induct) simp_all

lemma prompts_pushes: "list_all is_push ps \<Longrightarrow> prompts ps = []"
  by (induction ps rule: prompts.induct) (auto simp: is_push_def)

definition working :: "stage_event \<Rightarrow> bool" where
  "working e \<longleftrightarrow> is_push e \<or> (\<exists>sid t l. e = Prompted sid t l)"

lemma pushes_working: "list_all is_push ps \<Longrightarrow> list_all working ps"
  by (auto simp: list_all_iff working_def)

lemma prompt_log:
  assumes "logs lg IO" and "io_prompt IO (turn_handler IO S n) sid t c w = (r, w')"
  shows "\<exists>ps. lg w' = lg w @ Prompted sid t c # ps \<and> list_all is_push ps"
proof -
  have "\<forall>m. silent lg (turn_handler IO S n m)" using turn_handler_silent [OF assms(1)] by blast
  moreover have "\<forall>h sid t l w. (\<forall>n. silent lg (h n)) \<longrightarrow>
        (\<exists>ps. lg (snd (io_prompt IO h sid t l w)) = lg w @ Prompted sid t l # ps \<and> list_all is_push ps)"
    using assms(1) unfolding logs_def by blast
  ultimately have "\<exists>ps. lg (snd (io_prompt IO (turn_handler IO S n) sid t c w)) = lg w @ Prompted sid t c # ps \<and>
      list_all is_push ps" by blast
  with assms(2) show ?thesis by simp
qed

lemma run_primary_log:
  assumes l: "logs lg IO" and r: "run_primary IO S sid t w = (v, w')"
  shows "\<exists>ps. lg w' = lg w @ Prompted sid t (cf_cost_limit (sh_config S)) # ps \<and> list_all is_push ps"
proof -
  let ?w1 = "emit_plan IO S ''completed'' ''in_progress'' ''pending'' w"
  let ?w2 = "if sh_live S then io_run_active IO True ?w1 else ?w1"
  have quiet: "lg (io_run_active IO b u) = lg u" "lg (io_set_turns IO n u) = lg u" for b n u
    using l by (simp_all add: logs_def silent_def)
  have w2: "lg ?w2 = lg w" by (simp add: quiet silentD [OF emit_plan_silent [OF l]])
  obtain res er w3 where p: "io_prompt IO (turn_handler IO S 0) sid t (cf_cost_limit (sh_config S)) ?w2 = ((res, er), w3)"
    by (metis surj_pair)
  have "lg w' = lg w3"
    using r p by (auto simp: run_primary_def Let_def quiet silentD [OF provider_notice_silent [OF l]] split: option.splits if_splits)
  with prompt_log [OF l p] w2 show ?thesis by simp
qed

lemma run_handoff_log:
  assumes l: "logs lg IO" and r: "run_handoff IO S sid v w = (h, w')"
  shows "\<exists>ps. list_all is_push ps \<and>
    lg w' = lg w @ (if py_outcome v = OutLimitReached
                    then Prompted sid handoffPromptText (cf_max_cost (sh_config S)) # ps else [])"
proof (cases "py_outcome v = OutLimitReached")
  case True
  let ?n = "case py_result v of None \<Rightarrow> 0 | Some r \<Rightarrow> pr_turns_used r"
  obtain res er w1 where p: "io_prompt IO (turn_handler IO S ?n) sid handoffPromptText (cf_max_cost (sh_config S)) w = ((res, er), w1)"
    by (metis surj_pair)
  with r True have "w' = w1" by (simp add: run_handoff_def)
  with prompt_log [OF l p] True show ?thesis by auto
next
  case False
  with r show ?thesis by (auto simp: run_handoff_def intro: exI [of _ "[]"])
qed

text \<open>What the log gains while the agent works, and how it fits the end.\<close>

definition worked :: "config \<Rightarrow> string \<Rightarrow> string \<Rightarrow> stage_end \<Rightarrow> stage_event list \<Rightarrow> bool" where
  "worked cfg sid t en es \<longleftrightarrow>
     list_all working es \<and>
     (\<exists>handed. prompts es = (sid, t, cf_cost_limit cfg) #
          (if handed then [(sid, handoffPromptText, cf_max_cost cfg)] else []) \<and>
        (en_code en = 2 \<longrightarrow> handed) \<and> (en_code en = 0 \<longrightarrow> \<not> handed))"

lemma work_cases:
  assumes l: "logs lg IO" and w: "work IO S creds b sid t w = (en, w')"
  shows "(\<exists>e. en = setup_failed e \<and> lg w' = lg w) \<or>
    (\<exists>es out. lg w' = lg w @ es \<and> worked (sh_config S) sid t en es \<and> agrees out en)"
proof -
  have quiet: "lg (io_stop_watcher IO u) = lg u" for u using l by (simp add: logs_def silent_def)
  let ?w0 = "emit_plan IO S ''completed'' ''pending'' ''pending'' w"
  have w0: "lg ?w0 = lg w" by (rule silentD [OF emit_plan_silent [OF l]])
  have new: "marks lg [] (io_new_watcher IO d f)" "marks lg [] (io_start_watcher IO)" for d f
    using l by (simp_all add: logs_def)
  have "work IO S creds b sid t w = (en, w')" by (rule w)
  then show ?thesis unfolding work_def Let_def
  proof (cases rule: attempt_cmd_cases)
    case failed
    then show ?thesis using marksD [OF new(1)] w0 by fastforce
  next
    case (went w1)
    then have w1: "lg w1 = lg w" using marksD [OF new(1)] w0 by fastforce
    from went(2) show ?thesis
    proof (cases rule: attempt_cmd_cases)
      case failed
      then show ?thesis using marksD [OF new(2)] w1 by fastforce
    next
      case (went w2)
      then have w2: "lg w2 = lg w" using marksD [OF new(2)] w1 by fastforce
      obtain v w3 where v: "run_primary IO S sid t w2 = (v, w3)" by fastforce
      obtain h w4 where h: "run_handoff IO S sid v w3 = (h, w4)" by fastforce
      obtain en1 w5 where c: "conclude IO S creds b v h w4 = (en1, w5)" by fastforce
      have en: "en = en1" "lg w' = lg w5" using went(2) by (auto simp: v h c quiet)
      obtain ps where ps: "lg w3 = lg w @ Prompted sid t (cf_cost_limit (sh_config S)) # ps" "list_all is_push ps"
        using run_primary_log [OF l v] w2 by auto
      let ?hand = "py_outcome v = OutLimitReached"
      obtain qs where qs: "lg w4 = lg w3 @ (if ?hand
          then Prompted sid handoffPromptText (cf_max_cost (sh_config S)) # qs else [])" "list_all is_push qs"
        using run_handoff_log [OF l h] by auto
      obtain rs where rs: "lg w5 = lg w4 @ rs" "list_all is_push rs"
        using conclude_log [OF l, of w4 S creds b v h] c by (auto simp: pushes_only_def)
      obtain out where out: "agrees out en" "out = py_outcome v \<or> out = OutFailed"
        using conclude_agrees [of IO S creds b v h w4] c en by auto
      let ?es = "Prompted sid t (cf_cost_limit (sh_config S)) # ps @
        (if ?hand then Prompted sid handoffPromptText (cf_max_cost (sh_config S)) # qs else []) @ rs"
      have "lg w' = lg w @ ?es" using en ps qs rs by simp
      moreover have "list_all working ?es"
        using ps(2) qs(2) rs(2) pushes_working by (auto simp: working_def)
      moreover have "prompts ?es = (sid, t, cf_cost_limit (sh_config S)) #
          (if ?hand then [(sid, handoffPromptText, cf_max_cost (sh_config S))] else [])"
        using ps(2) qs(2) rs(2) by (simp add: prompts_pushes)
      moreover have "en_code en = 2 \<Longrightarrow> ?hand" "en_code en = 0 \<Longrightarrow> \<not> ?hand"
        using out by (cases out; auto simp: agrees_def)+
      ultimately show ?thesis using out(1) unfolding worked_def by blast
    qed
  qed
qed

section \<open>From the clone to the agent\<close>

lemma apsnd_cases:
  assumes "apsnd f x = (en, w')"
  obtains w where "x = (en, w)" "w' = f w"
  using assms by (cases x) auto

text \<open>How a part of the stage ended: in an error before any prompt, or after some work.\<close>

definition ended :: "config \<Rightarrow> rule list \<Rightarrow> stage_end \<Rightarrow> stage_event list \<Rightarrow> bool" where
  "ended cfg rules en es \<longleftrightarrow>
     (\<exists>e. en = setup_failed e \<and> es = []) \<or>
     (\<exists>sid ask out. worked cfg sid (stage_prompt cfg rules ask) en es \<and> agrees out en)"

lemma show_and_work_cases:
  assumes l: "logs lg IO"
    and w: "show_and_work IO cfg red creds b ins (stage_prompt cfg rules ask) sid w = (en, w')"
  shows "\<exists>es. lg w' = lg w @ es \<and> ended cfg rules en es"
proof -
  have quiet: "lg (io_stop_tee IO u) = lg u" "lg (io_attach_tee IO s u) = lg u" for u s
    using l by (simp_all add: logs_def silent_def)
  have tee: "marks lg [] (io_start_tee IO c)" for c using l by (simp add: logs_def)
  obtain live w1 where t: "start_tee IO cfg sid w = (live, w1)" by fastforce
  have w1: "lg w1 = lg w"
    using t quiet marks_snd [OF tee]
    by (auto simp: start_tee_def case_prod_beta' split: if_splits option.splits)
  let ?S = "\<lparr>sh_live = live, sh_config = cfg, sh_branch = cr_branch creds,
             sh_prep = planPrepRung (gg_url (io_git IO)) (cr_repo_url creds) (cr_branch creds) ins red, sh_red = red\<rparr>"
  from w t have "apsnd (if live then io_stop_tee IO else id)
      (work IO ?S creds b sid (stage_prompt cfg rules ask) w1) = (en, w')"
    by (simp add: show_and_work_def Let_def)
  then obtain w2 where k: "work IO ?S creds b sid (stage_prompt cfg rules ask) w1 = (en, w2)"
    and w': "w' = (if live then io_stop_tee IO else id) w2" by (rule apsnd_cases)
  have "lg w' = lg w2" by (simp add: w' quiet)
  moreover from work_cases [OF l k] have "\<exists>es. lg w2 = lg w1 @ es \<and> ended cfg rules en es"
  proof (elim disjE exE conjE)
    fix e assume "en = setup_failed e" "lg w2 = lg w1"
    then show ?thesis by (auto simp: ended_def intro!: exI [of _ "[]"])
  next
    fix es out assume "lg w2 = lg w1 @ es" "worked (sh_config ?S) sid (stage_prompt cfg rules ask) en es" "agrees out en"
    then show ?thesis unfolding ended_def by auto
  qed
  ultimately show ?thesis by (simp add: w1)
qed

lemma setup_ended: "en = setup_failed e \<Longrightarrow> lg w' = lg w \<Longrightarrow> \<exists>es. lg w' = lg w @ es \<and> ended cfg rules en es"
  by (auto simp: ended_def intro!: exI [of _ "[]"])

lemma open_session_cases:
  assumes l: "logs lg IO" and w: "open_session IO cfg red creds b rules ins w = (en, w')"
  shows "\<exists>es. lg w' = lg w @ es \<and> ended cfg rules en es"
proof -
  have exe: "marks lg [] (io_executable IO)" and new: "marks lg [] (io_create_session IO d ms)" for d ms
    using l by (simp_all add: logs_def)
  obtain servers w1 where s: "ask_servers IO cfg w = (servers, w1)" by fastforce
  then have w1: "lg w1 = lg w"
    using marks_snd [OF exe] by (auto simp: ask_servers_def case_prod_beta' split: if_splits sum.splits)
  from w s have "attempt ''create session: %w'' [] (io_create_session IO (clone_dir (io_env IO)) servers w1)
      (show_and_work IO cfg red creds b ins (stage_prompt cfg rules (servers \<noteq> []))) = (en, w')"
    by (simp add: open_session_def)
  then show ?thesis
  proof (cases rule: attempt_cases)
    case failed
    then show ?thesis using setup_ended marksD [OF new] w1 by fastforce
  next
    case (went sid w2)
    then have "lg w2 = lg w" using marksD [OF new] w1 by fastforce
    then show ?thesis using show_and_work_cases [OF l went(2)] by simp
  qed
qed

lemma run_agent_cases:
  assumes l: "logs lg IO" and w: "run_agent IO cfg red creds b rules ins w = (en, w')"
  shows "\<exists>es. lg w' = lg w @ Served (goose_config cfg) # es \<and> ended cfg rules en es"
proof -
  have quiet: "lg (io_stop_goose IO u) = lg u" "lg (io_close IO u) = lg u" for u
    using l by (simp_all add: logs_def silent_def)
  have start: "marks lg [Served (goose_config cfg)] (io_start_goose IO (goose_config cfg))" and dial: "marks lg [] (io_dial IO)"
    using l by (simp_all add: logs_def)
  have gone: "\<exists>es. lg v = lg w @ Served (goose_config cfg) # es \<and> ended cfg rules en es"
    if "lg u = lg w @ [Served (goose_config cfg)]" and "\<exists>es. lg v = lg u @ es \<and> ended cfg rules en es" for u v
    using that by auto
  show ?thesis using w unfolding run_agent_def
  proof (cases rule: attempt_cmd_cases)
    case failed
    then show ?thesis using marksD [OF start] by (auto simp: ended_def)
  next
    case (went w1)
    then have w1: "lg w1 = lg w @ [Served (goose_config cfg)]" using marksD [OF start] by fastforce
    from went(2) obtain w9 where c: "attempt_cmd ''connect to goose: %w'' [] (io_dial IO w1) (\<lambda>w2.
        apsnd (io_close IO) (open_session IO cfg red creds b rules ins w2)) = (en, w9)" and w9: "lg w' = lg w9"
      using quiet by (auto elim!: apsnd_cases)
    from c have "\<exists>es. lg w9 = lg w1 @ es \<and> ended cfg rules en es"
    proof (cases rule: attempt_cmd_cases)
      case failed
      then show ?thesis using setup_ended marksD [OF dial] by fastforce
    next
      case (went w2)
      then have w2: "lg w2 = lg w1" using marksD [OF dial] by fastforce
      from went(2) obtain w8 where "open_session IO cfg red creds b rules ins w2 = (en, w8)" and "lg w9 = lg w8"
        using quiet by (auto elim!: apsnd_cases)
      then show ?thesis using open_session_cases [OF l] w2 by fastforce
    qed
    then show ?thesis using gone [OF w1] w9 by simp
  qed
qed

section \<open>The workspace\<close>

definition cleared_names :: "string list" where
  "cleared_names = [''HUB_BASE_URL'', ''HUB_TOKEN'', ''HUB_TOKEN_ID'', ''APP_ID'']"

text \<open>What precedes the agent: identity, remotes without credentials, Hub variables gone.\<close>

definition prepared_events :: "'w gogit \<Rightarrow> config \<Rightarrow> string list \<Rightarrow> stage_event list" where
  "prepared_events G cfg urls =
     [Identified (cf_git_author_name cfg) (cf_git_author_email cfg), RemotesRead urls] @
     (if urls = [] then [] else [RemoteDeleted, RemoteSet (map (bare_url G) urls)]) @ map Unset cleared_names"

definition preparing :: "stage_event \<Rightarrow> bool" where
  "preparing e \<longleftrightarrow> (case e of Identified n m \<Rightarrow> True | RemotesRead us \<Rightarrow> True | RemoteDeleted \<Rightarrow> True
     | RemoteSet us \<Rightarrow> True | Unset n \<Rightarrow> True | _ \<Rightarrow> False)"

lemma Clone_log: "logs lg IO \<Longrightarrow> lg (snd (Clone (io_fs IO) (io_git IO) tmp cr d w)) = lg w"
proof -
  assume l: "logs lg IO"
  have g: "logs_git lg (io_git IO)" and f: "logs_fs lg (io_fs IO)" using l by (simp_all add: logs_def)
  have fs: "lg (snd (fs_stat (io_fs IO) p u)) = lg u" "lg (snd (fs_remove_all (io_fs IO) p u)) = lg u" for p u
    using f by (simp_all add: logs_fs_def marks_def)
  show ?thesis
    by (simp add: Clone_def Let_def case_prod_beta' git_logs [OF g] fs split: sum.split option.split)
qed

lemma ConfigureAuthor_log:
  assumes "logs_git lg G" and "ConfigureAuthor G n e w = (r, w')"
  shows "r = None \<Longrightarrow> lg w' = lg w @ [Identified n e]" and "\<exists>es. lg w' = lg w @ es \<and> list_all preparing es"
proof -
  obtain r1 w1 where c: "gg_config G w = (r1, w1)" by fastforce
  have w1: "lg w1 = lg w" using git_logs(4) [OF assms(1), of w] c by simp
  have "lg (snd (gg_set_user G n e w1)) = lg w @ [Identified n e]" using git_logs(5) [OF assms(1)] w1 by simp
  then have "if r1 = None then lg w' = lg w @ [Identified n e] else r \<noteq> None \<and> lg w' = lg w"
    using assms(2) c w1 by (auto simp: ConfigureAuthor_def split: option.splits)
  then show "r = None \<Longrightarrow> lg w' = lg w @ [Identified n e]" and "\<exists>es. lg w' = lg w @ es \<and> list_all preparing es"
    by (auto simp: preparing_def split: if_splits)
qed

lemma StripCredentials_log:
  assumes "logs_git lg G" and "StripCredentials G w = (r, w')"
  shows "r = None \<Longrightarrow> \<exists>us. lg w' = lg w @ RemotesRead us #
      (if us = [] then [] else [RemoteDeleted, RemoteSet (map (bare_url G) us)])"
    and "\<exists>es. lg w' = lg w @ es \<and> list_all preparing es"
proof -
  obtain r1 w1 where c: "gg_remote_urls G w = (r1, w1)" by fastforce
  have w1: "lg w1 = lg w @ (case r1 of Inl e \<Rightarrow> [] | Inr us \<Rightarrow> [RemotesRead us])"
    using assms(1) c unfolding logs_git_def by (metis fst_conv snd_conv)
  obtain r2 w2 where d: "gg_delete_remote G w1 = (r2, w2)" by fastforce
  have w2: "lg w2 = lg w1 @ [RemoteDeleted]" using git_logs(2) [OF assms(1), of w1] d by simp
  have w3: "lg (snd (gg_create_remote G us w2)) = lg w2 @ [RemoteSet us]" for us by (rule git_logs(3) [OF assms(1)])
  show "r = None \<Longrightarrow> \<exists>us. lg w' = lg w @ RemotesRead us #
      (if us = [] then [] else [RemoteDeleted, RemoteSet (map (bare_url G) us)])"
    using assms(2) c d w1 w2 w3
    by (auto simp: StripCredentials_def case_prod_beta' split: sum.splits if_splits option.splits)
  show "\<exists>es. lg w' = lg w @ es \<and> list_all preparing es"
    using assms(2) c d w1 w2 w3
    by (auto simp: StripCredentials_def case_prod_beta' preparing_def split: sum.splits if_splits option.splits)
qed

lemma checkout_log: "logs_git lg G \<Longrightarrow> lg (snd (CheckoutBranch G b w)) = lg w"
  by (simp add: CheckoutBranch_def checkout_ref_def case_prod_beta' git_logs split: sum.split option.split)

lemma HeadSHA_log: "logs_git lg G \<Longrightarrow> lg (snd (HeadSHA G w)) = lg w"
  by (simp add: HeadSHA_def case_prod_beta' git_logs split: sum.split)

lemma ClearEnv_log: "logs lg IO \<Longrightarrow> lg (ClearEnv IO w) = lg w @ map Unset cleared_names"
  by (simp add: ClearEnv_def logs_def cleared_names_def)

text \<open>A part that failed before the agent was started.\<close>

definition unprepared :: "('w \<Rightarrow> stage_event list) \<Rightarrow> 'w \<Rightarrow> stage_end \<Rightarrow> 'w \<Rightarrow> bool" where
  "unprepared lg w en w' \<longleftrightarrow> (\<exists>e es. en = setup_failed e \<and> lg w' = lg w @ es \<and> list_all preparing es)"

lemma unprepared_append:
  "unprepared lg u en w' \<Longrightarrow> lg u = lg w @ es \<Longrightarrow> list_all preparing es \<Longrightarrow> unprepared lg w en w'"
  by (force simp: unprepared_def)

lemma unprepared_failed: "en = setup_failed e \<Longrightarrow> \<exists>es. lg w' = lg w @ es \<and> list_all preparing es \<Longrightarrow> unprepared lg w en w'"
  by (auto simp: unprepared_def)

lemma prepare_clone_cases:
  assumes l: "logs lg IO" and p: "prepare_clone IO cfg creds k w = (en, w')"
  shows "unprepared lg w en w' \<or>
    (\<exists>b w1 urls. k b w1 = (en, w') \<and> lg w1 = lg w @ prepared_events (io_git IO) cfg urls)"
proof -
  let ?G = "io_git IO"
  have g: "logs_git lg ?G" using l by (simp add: logs_def)
  from p show ?thesis unfolding prepare_clone_def Let_def
  proof (cases rule: attempt_cmd_cases)
    case (failed e w1)
    then have "lg w' = lg w" using Clone_log [OF l] by (metis snd_conv)
    with failed(2) show ?thesis by (auto simp: unprepared_def)
  next
    case (went w1)
    then have w1: "lg w1 = lg w" using Clone_log [OF l] by (metis snd_conv)
    from went(2) show ?thesis
    proof (cases rule: attempt_cmd_cases)
      case (failed e u)
      with ConfigureAuthor_log(2) [OF g failed(1)] show ?thesis using w1 by (auto simp: unprepared_def)
    next
      case (went w2)
      have w2: "lg w2 = lg w @ [Identified (cf_git_author_name cfg) (cf_git_author_email cfg)]"
        using ConfigureAuthor_log(1) [OF g went(1)] w1 by simp
      from went(2) show ?thesis
      proof (cases rule: attempt_cmd_cases)
        case (failed e u)
        with StripCredentials_log(2) [OF g failed(1)] show ?thesis
          using w2 by (force simp: unprepared_def preparing_def)
      next
        case (went w3)
        from StripCredentials_log(1) [OF g went(1)] obtain us where
          w3: "lg w3 = lg w2 @ RemotesRead us # (if us = [] then [] else [RemoteDeleted, RemoteSet (map (bare_url ?G) us)])"
          by auto
        then have c: "lg (ClearEnv IO w3) = lg w @ prepared_events ?G cfg us"
          using w2 ClearEnv_log [OF l] by (simp add: prepared_events_def)
        from went(2) show ?thesis
        proof (cases rule: attempt_cmd_cases)
          case (failed e u)
          then have "lg w' = lg w @ prepared_events ?G cfg us" using checkout_log [OF g] c by (metis snd_conv)
          moreover have "list_all preparing (prepared_events ?G cfg us)"
            by (simp add: prepared_events_def preparing_def cleared_names_def)
          ultimately show ?thesis using failed(2) by (auto simp: unprepared_def)
        next
          case (went w4)
          then have w4: "lg w4 = lg w @ prepared_events ?G cfg us" using checkout_log [OF g] c by (metis snd_conv)
          obtain r w5 where h: "HeadSHA ?G w4 = (r, w5)" by fastforce
          then have "lg w5 = lg w4" using HeadSHA_log [OF g, of w4] by simp
          moreover have "\<exists>b. k b w5 = (en, w')" using went(2) h by (cases r) auto
          ultimately show ?thesis using w4 by auto
        qed
      qed
    qed
  qed
qed

lemma read_rules_log:
  assumes "logs_fs lg F"
  shows "lg (snd (ReadManifest F d w)) = lg w" and "lg (snd (RuleContent F d m w)) = lg w"
proof -
  have r: "lg (snd (fs_read_file F p u)) = lg u" for p u using assms by (simp add: logs_fs_def marks_def)
  then show "lg (snd (ReadManifest F d w)) = lg w"
    by (simp add: ReadManifest_def case_prod_beta' split: sum.split)
  have "lg (snd (rule_contents F d ns w)) = lg w" for ns w
    by (induction ns arbitrary: w) (simp_all add: case_prod_beta' r split: sum.split)
  then show "lg (snd (RuleContent F d m w)) = lg w" by (simp add: RuleContent_def)
qed

lemma symlink_log: "logs lg IO \<Longrightarrow> lg (snd (symlinkSkillsDir IO h d w)) = lg w"
  by (simp add: symlinkSkillsDir_def Let_def case_prod_beta' logs_def logs_fs_def marks_def
      split: option.split sum.split bool.split)

lemma analysis_log: "logs lg IO \<Longrightarrow> logs_hub lg H \<Longrightarrow> lg (snd (fetchAndWriteAnalysis IO H a d w)) = lg w"
  by (simp add: fetchAndWriteAnalysis_def Let_def case_prod_beta' logs_def logs_fs_def logs_hub_def marks_def
      split: option.split sum.split)

lemma prepare_skills_cases:
  assumes l: "logs lg IO" and h: "logs_hub lg H" and p: "prepare_skills IO H cfg k w = (en, w')"
  shows "(\<exists>e. en = setup_failed e \<and> lg w' = lg w) \<or> (\<exists>rs n w1. k rs n w1 = (en, w') \<and> lg w1 = lg w)"
proof -
  have f: "logs_fs lg (io_fs IO)" and marks: "marks lg [] (discoverSkills IO)" "marks lg [] (io_home IO)"
    using l by (simp_all add: logs_def discoverSkills_def)
  from p show ?thesis unfolding prepare_skills_def Let_def
  proof (cases rule: attempt_cases)
    case failed
    then show ?thesis using marksD [OF marks(1)] by fastforce
  next
    case (went paths w1)
    then have w1: "lg w1 = lg w" using marksD [OF marks(1)] by fastforce
    from went(2) show ?thesis
    proof (cases rule: attempt_cases)
      case (failed e u)
      then show ?thesis using read_rules_log(1) [OF f] w1 by (metis snd_conv)
    next
      case (went m w2)
      then have w2: "lg w2 = lg w" using read_rules_log(1) [OF f] w1 by (metis snd_conv)
      from went(2) show ?thesis
      proof (cases rule: attempt_cases)
        case (failed e u)
        then show ?thesis using read_rules_log(2) [OF f] w2 by (metis snd_conv)
      next
        case (went rules w3)
        then have w3: "lg w3 = lg w" using read_rules_log(2) [OF f] w2 by (metis snd_conv)
        show ?thesis
        proof (cases "paths = []")
          case True
          with went(2) w3 show ?thesis by auto
        next
          case False
          with went(2) have "attempt ''resolve home dir: %w'' [] (io_home IO w3) (\<lambda>home w4.
              attempt_cmd ''skill symlink: %w'' [] (symlinkSkillsDir IO home (skillsDir (io_env IO)) w4) (\<lambda>w5.
              case fetchAndWriteAnalysis IO H (cf_app_id cfg) (clone_dir (io_env IO)) w5 of
                (Inl e, w6) \<Rightarrow> k rules None w6
              | (Inr n, w6) \<Rightarrow> k rules (Some n) w6)) = (en, w')" by simp
          then show ?thesis
          proof (cases rule: attempt_cases)
            case failed
            then show ?thesis using marksD [OF marks(2)] w3 by fastforce
          next
            case (went home w4)
            then have w4: "lg w4 = lg w" using marksD [OF marks(2)] w3 by fastforce
            from went(2) show ?thesis
            proof (cases rule: attempt_cmd_cases)
              case (failed e u)
              then show ?thesis using symlink_log [OF l] w4 by (metis snd_conv)
            next
              case (went w5)
              then have w5: "lg w5 = lg w" using symlink_log [OF l] w4 by (metis snd_conv)
              obtain r w6 where a: "fetchAndWriteAnalysis IO H (cf_app_id cfg) (clone_dir (io_env IO)) w5 = (r, w6)"
                by fastforce
              then have "lg w6 = lg w" using analysis_log [OF l h] w5 by (metis snd_conv)
              moreover have "\<exists>n. k rules n w6 = (en, w')" using went(2) a by (cases r) auto
              ultimately show ?thesis by blast
            qed
          qed
        qed
      qed
    qed
  qed
qed

section \<open>The whole stage\<close>

lemma resolve_log: "logs_hub lg H \<Longrightarrow> lg (snd (resolveFromHub H cfg w)) = lg w"
  by (simp add: resolveFromHub_def case_prod_beta' logs_hub_def marks_def split: sum.split option.split)

definition served :: "'w gogit \<Rightarrow> config \<Rightarrow> stage_end \<Rightarrow> stage_event list \<Rightarrow> bool" where
  "served G cfg en es \<longleftrightarrow>
     (\<exists>urls rules fs. es = prepared_events G cfg urls @ Served (goose_config cfg) # fs \<and> ended cfg rules en fs)"

lemma stage_body_cases:
  assumes l: "logs lg IO" and b: "stage_body IO cfg w = (en, w')"
  shows "unprepared lg w en w' \<or> (\<exists>es. lg w' = lg w @ es \<and> served (io_git IO) cfg en es)"
proof -
  let ?H = "io_hub IO (cf_hub_base_url cfg) (cf_hub_token cfg)"
  have h: "logs_hub lg ?H" using l by (simp add: logs_def)
  from b show ?thesis unfolding stage_body_def Let_def
  proof (cases rule: attempt_cases)
    case (failed e u)
    then have "lg w' = lg w" using resolve_log [OF h] by (metis snd_conv)
    with failed(2) show ?thesis by (auto simp: unprepared_def)
  next
    case (went app w1)
    then have w1: "lg w1 = lg w" using resolve_log [OF h] by (metis snd_conv)
    let ?creds = "app\<lparr>cr_branch := cf_target_branch cfg\<rparr>"
    let ?red = "newRedactor [cf_api_key cfg, cf_hub_token cfg, cf_acp_secret_key cfg, cr_token app] (io_environ IO)"
    show ?thesis
    proof (cases "cf_target_branch cfg = cr_branch app")
      case True
      with went(2) w1 show ?thesis by (auto simp: unprepared_def)
    next
      case False
      with went(2) have p: "prepare_clone IO cfg ?creds (\<lambda>baseSHA. prepare_skills IO ?H cfg
          (\<lambda>rules insights. run_agent IO cfg ?red ?creds baseSHA rules insights)) w1 = (en, w')" by simp
      from prepare_clone_cases [OF l p] show ?thesis
      proof (elim disjE exE conjE)
        assume "unprepared lg w1 en w'"
        then show ?thesis using w1 unprepared_append [of lg w1 en w' w "[]"] by simp
      next
        fix base w2 urls
        assume k: "prepare_skills IO ?H cfg (\<lambda>rules insights. run_agent IO cfg ?red ?creds base rules insights) w2 = (en, w')"
          and w2: "lg w2 = lg w1 @ prepared_events (io_git IO) cfg urls"
        from prepare_skills_cases [OF l h k] show ?thesis
        proof (elim disjE exE conjE)
          fix e assume e: "en = setup_failed e" and "lg w' = lg w2"
          then have "lg w' = lg w @ prepared_events (io_git IO) cfg urls" using w1 w2 by simp
          moreover have "list_all preparing (prepared_events (io_git IO) cfg urls)"
            by (simp add: prepared_events_def preparing_def cleared_names_def)
          ultimately show ?thesis using e by (auto simp: unprepared_def)
        next
          fix rs n w3
          assume r: "run_agent IO cfg ?red ?creds base rs n w3 = (en, w')" and "lg w3 = lg w2"
          with run_agent_cases [OF l r] w1 w2 show ?thesis by (auto simp: served_def)
        qed
      qed
    qed
  qed
qed

definition token_events :: "config \<Rightarrow> stage_end \<Rightarrow> stage_event list" where
  "token_events cfg en =
     (case parseHubTokenID cfg of
        None \<Rightarrow> []
      | Some i \<Rightarrow> if isIntermediateWorkflowStage cfg \<and> en_succeeded en then [] else [Revoked i])"

lemma settle_log: "logs lg IO \<Longrightarrow> lg (settle_token IO cfg en w) = lg w @ token_events cfg en"
proof -
  assume "logs lg IO"
  then have "logs_hub lg (io_hub IO u t)" for u t by (simp add: logs_def)
  then have "lg (snd (hc_revoke (io_hub IO u t) n w)) = lg w @ [Revoked n]" for u t n
    by (simp add: logs_hub_def marks_def)
  then show ?thesis by (auto simp: settle_token_def token_events_def split: option.split)
qed

lemma report_log: "logs lg IO \<Longrightarrow> lg (writeTerminationLog (io_write_report IO) p t w) = lg w"
  by (simp add: writeTerminationLog_def logs_def marks_def split: option.split)

lemma LoadFromEnv_log: "logs_fs lg F \<Longrightarrow> LoadFromEnv F env w = (r, w') \<Longrightarrow> lg w' = lg w"
proof -
  assume f: "logs_fs lg F" and "LoadFromEnv F env w = (r, w')"
  moreover have "lg (snd (load_params F p w)) = lg w" for p
    using f by (simp add: load_params_def case_prod_beta' logs_fs_def marks_def split: sum.split)
  ultimately show ?thesis
    by (auto simp: LoadFromEnv_def case_prod_beta' split: option.splits sum.splits)
qed

lemma runStage_cases:
  assumes l: "logs lg IO" and r: "runStage IO w = (en, w')"
  shows "(\<exists>e. en = setup_failed e) \<and> lg w' = lg w \<and> isl (fst (LoadFromEnv (io_fs IO) (io_env IO) w)) \<or>
    (\<exists>cfg w1 es. LoadFromEnv (io_fs IO) (io_env IO) w = (Inr cfg, w1) \<and> lg w' = lg w @ es @ token_events cfg en \<and>
      ((\<exists>e. en = setup_failed e) \<and> list_all preparing es \<or> served (io_git IO) cfg en es))"
proof -
  have f: "logs_fs lg (io_fs IO)" using l by (simp add: logs_def)
  obtain c w1 where c: "LoadFromEnv (io_fs IO) (io_env IO) w = (c, w1)" by fastforce
  have w1: "lg w1 = lg w" by (rule LoadFromEnv_log [OF f c])
  show ?thesis
  proof (cases c)
    case (Inl e)
    with r c w1 report_log [OF l] show ?thesis by (auto simp: runStage_def Let_def)
  next
    case (Inr cfg)
    obtain en2 w2 where b: "stage_body IO cfg w1 = (en2, w2)" by fastforce
    have en: "en = en2" and w': "lg w' = lg w2 @ token_events cfg en2"
      using r c Inr b by (auto simp: runStage_def report_log [OF l] settle_log [OF l])
    from stage_body_cases [OF l b] w1 obtain es where "lg w2 = lg w @ es"
      and "(\<exists>e. en = setup_failed e) \<and> list_all preparing es \<or> served (io_git IO) cfg en es"
      using en by (auto simp: unprepared_def)
    with c Inr w' en show ?thesis by auto
  qed
qed

text \<open>The agreement needs nothing of the calls.\<close>

definition settled :: "stage_end \<Rightarrow> bool" where
  "settled en \<longleftrightarrow> (\<exists>out. agrees out en)"

lemma settled_setup: "settled (setup_failed e)"
  using setup_agrees by (auto simp: settled_def)

lemma settled_attempt: "(\<And>x w. settled (fst (k x w))) \<Longrightarrow> settled (fst (attempt f xs r k))"
  by (simp add: attempt_def case_prod_beta' settled_setup split: sum.split)

lemma settled_attempt_cmd: "(\<And>w. settled (fst (k w))) \<Longrightarrow> settled (fst (attempt_cmd f xs r k))"
  by (simp add: attempt_cmd_def case_prod_beta' settled_setup split: option.split)

lemma settled_conclude: "settled (fst (conclude IO S creds b v h w))"
  using conclude_agrees [of IO S creds b v h w] by (auto simp: settled_def)

lemma settled_work: "settled (fst (work IO S creds b sid t w))"
  unfolding work_def Let_def
  by (auto intro!: settled_attempt_cmd simp: case_prod_beta' settled_conclude)

lemma settled_agent: "settled (fst (run_agent IO cfg red creds b rules ins w))"
  unfolding run_agent_def open_session_def show_and_work_def
  by (auto intro!: settled_attempt settled_attempt_cmd simp: case_prod_beta' Let_def settled_work)

lemma settled_clone: "(\<And>b w. settled (fst (k b w))) \<Longrightarrow> settled (fst (prepare_clone IO cfg creds k w))"
  unfolding prepare_clone_def Let_def
  by (intro settled_attempt_cmd) (simp add: case_prod_beta' split: sum.split)

lemma settled_skills: "(\<And>rs n w. settled (fst (k rs n w))) \<Longrightarrow> settled (fst (prepare_skills IO H cfg k w))"
  unfolding prepare_skills_def Let_def
  by (auto intro!: settled_attempt settled_attempt_cmd simp: case_prod_beta' split: sum.split)

lemma settled_stage: "settled (fst (runStage IO w))"
proof -
  have "settled (fst (stage_body IO cfg w))" for cfg w
    unfolding stage_body_def Let_def
    by (auto intro!: settled_attempt settled_clone settled_skills settled_agent simp: settled_setup)
  then show ?thesis by (simp add: runStage_def Let_def case_prod_beta' settled_setup split: sum.split)
qed

section \<open>What a stage guarantees\<close>

definition is_served :: "stage_event \<Rightarrow> bool" where
  "is_served e \<longleftrightarrow> (case e of Served c \<Rightarrow> True | _ \<Rightarrow> False)"

definition revocations :: "stage_event list \<Rightarrow> nat list" where
  "revocations es = concat (map (\<lambda>e. case e of Revoked i \<Rightarrow> [i] | _ \<Rightarrow> []) es)"

lemma preparing_plain:
  "list_all preparing es \<Longrightarrow> prompts es = [] \<and> revocations es = [] \<and> filter is_served es = []"
  by (induction es) (auto simp: preparing_def revocations_def is_served_def split: stage_event.splits)

lemma working_plain: "list_all working es \<Longrightarrow> revocations es = [] \<and> filter is_served es = []"
  by (induction es) (auto simp: working_def is_push_def revocations_def is_served_def split: stage_event.splits)

lemma token_plain: "prompts (token_events cfg en) = []" "filter is_served (token_events cfg en) = []"
  by (simp_all add: token_events_def is_served_def split: option.split)

lemma prepared_preparing: "list_all preparing (prepared_events G cfg urls)"
  by (simp add: prepared_events_def preparing_def cleared_names_def)

lemma prepared_plain:
  "prompts (prepared_events G cfg urls) = []" "revocations (prepared_events G cfg urls) = []"
  "filter is_served (prepared_events G cfg urls) = []"
  using preparing_plain [OF prepared_preparing] by blast+

lemma ended_plain: "ended cfg rules en es \<Longrightarrow> revocations es = [] \<and> filter is_served es = []"
  using working_plain by (auto simp: ended_def worked_def revocations_def)

lemma revocations_append [simp]: "revocations (xs @ ys) = revocations xs @ revocations ys"
  by (simp add: revocations_def)

lemma split_at_only:
  assumes "A @ x # B = A' @ y # B'" and "filter P A = []" and "filter P B = []" and "P y"
  shows "A' = A \<and> y = x"
proof -
  from assms(1) consider (same) "A' = A" "y = x" | (before) us where "A = A' @ y # us" | (after) us where "B = us @ y # B'"
    by (auto simp: append_eq_append_conv2 append_eq_Cons_conv Cons_eq_append_conv)
  then show ?thesis
  proof cases
    case same
    then show ?thesis by simp
  next
    case before
    with assms(2,4) show ?thesis by simp
  next
    case after
    with assms(3,4) show ?thesis by simp
  qed
qed

text \<open>C29: The agent is started at most once and only in a prepared workspace: by then the commit identity of the
  configuration is set in the clone, every remote URL was read and replaced by one without user information, and
  the Hub's variables are gone from the environment the agent inherits.  It gets the port, bind address, provider,
  mode and turn budget of the configuration.\<close>

theorem agent_starts_prepared:
  assumes "logs lg IO" and "lg w = []" and "runStage IO w = (en, w')"
    and "LoadFromEnv (io_fs IO) (io_env IO) w = (Inr cfg, w1)" and "lg w' = pre @ Served c # post"
  shows "\<exists>urls. pre = prepared_events (io_git IO) cfg urls \<and> c = goose_config cfg"
proof -
  from runStage_cases [OF assms(1,3)] assms(2,4) obtain es where w': "lg w' = es @ token_events cfg en"
    and es: "(\<exists>e. en = setup_failed e) \<and> list_all preparing es \<or> served (io_git IO) cfg en es" by auto
  from es show ?thesis
  proof (elim disjE conjE)
    assume "list_all preparing es"
    then have "filter is_served (lg w') = []" using w' preparing_plain token_plain(2) by simp
    with assms(5) show ?thesis by (simp add: is_served_def)
  next
    assume "served (io_git IO) cfg en es"
    then obtain urls rules fs where
      e: "es = prepared_events (io_git IO) cfg urls @ Served (goose_config cfg) # fs" and f: "ended cfg rules en fs"
      by (auto simp: served_def)
    have "prepared_events (io_git IO) cfg urls @ Served (goose_config cfg) # (fs @ token_events cfg en) = pre @ Served c # post"
      using w' e assms(5) by simp
    from split_at_only [OF this, of is_served] show ?thesis
      using prepared_plain(3) ended_plain [OF f] token_plain(2) by (auto simp: is_served_def)
  qed
qed

text \<open>C30: Of a configured token the Hub is asked to revoke exactly one, once, on every way out of the stage,
  success and failure of any step alike; only an intermediate stage of a workflow that exits with 0 leaves it to
  the next one.\<close>

theorem hub_token_settled:
  assumes "logs lg IO" and "lg w = []" and "runStage IO w = (en, w')"
    and "LoadFromEnv (io_fs IO) (io_env IO) w = (Inr cfg, w1)"
  shows "revocations (lg w') =
    (case parseHubTokenID cfg of
       None \<Rightarrow> []
     | Some i \<Rightarrow> if isIntermediateWorkflowStage cfg \<and> main_exit_code en = 0 then [] else [i])"
proof -
  from runStage_cases [OF assms(1,3)] assms(2,4) obtain es where w': "lg w' = es @ token_events cfg en"
    and es: "(\<exists>e. en = setup_failed e) \<and> list_all preparing es \<or> served (io_git IO) cfg en es" by auto
  have "revocations es = []"
    using es
  proof (elim disjE conjE)
    assume "list_all preparing es"
    then show ?thesis using preparing_plain by blast
  next
    assume "served (io_git IO) cfg en es"
    then obtain urls rules fs where
      e: "es = prepared_events (io_git IO) cfg urls @ Served (goose_config cfg) # fs" and f: "ended cfg rules en fs"
      by (auto simp: served_def)
    have "revocations (Served c # fs) = revocations fs" for c by (simp add: revocations_def)
    then show ?thesis using e ended_plain [OF f] prepared_plain(2) by simp
  qed
  moreover from settled_stage [of IO w] assms(3) obtain out where "agrees out en" by (auto simp: settled_def)
  then have "en_succeeded en \<longleftrightarrow> main_exit_code en = 0"
    by (cases out) (auto simp: agrees_def main_exit_code_def)
  ultimately show ?thesis
    using w' by (auto simp: token_events_def revocations_def split: option.splits)
qed


end
