(* ===== verification/StageSamples.thy ===== *)
theory StageSamples
  imports StageProperties
begin

text \<open>
  A small world for the stage: it keeps the log and nothing else.  The runs of the stage in it are the witnesses,
  and one of them shows an unanswered question that does not fail the run.
\<close>

definition sample_env :: environ where
  "sample_env n =
     (if n = ''KONVEYOR_LLM_MODEL'' then ''m'' else if n = ''HUB_BASE_URL'' then ''http://hub''
      else if n = ''APP_ID'' then ''1'' else if n = ''KONVEYOR_ACP_SECRET_KEY'' then ''k''
      else if n = ''TARGET_BRANCH'' then ''out'' else if n = ''HUB_TOKEN_ID'' then ''7''
      else if n = ''HARNESS_ACP_TEE'' then ''off'' else [])"

definition absent :: err where "absent = Err KNotFound (Lit ''absent'')"

definition log_fs :: "stage_event list fs" where
  "log_fs =
     \<lparr>fs_stat = (\<lambda>p w. (Inl absent, w)), fs_lstat = (\<lambda>p w. (Inl absent, w)), fs_read_dir = (\<lambda>p w. (Inl absent, w)),
      fs_read_file = (\<lambda>p w. (Inl absent, w)), fs_eval_symlinks = (\<lambda>p w. (Inl absent, w)),
      fs_mkdir_temp = (\<lambda>p w. (Inl absent, w)), fs_mkdir_all = (\<lambda>p w. (None, w)), fs_remove = (\<lambda>p w. (None, w)),
      fs_remove_all = (\<lambda>p w. (None, w)), fs_write_file = (\<lambda>p d w. (None, w)), fs_copy = (\<lambda>p q m w. (None, w))\<rparr>"

definition log_git :: "stage_event list gogit" where
  "log_git =
     \<lparr>gg_clone = (\<lambda>u a d w. (None, w)), gg_remote_urls = (\<lambda>w. (Inr [''http://u@git/x''], w @ [RemotesRead [''http://u@git/x'']])),
      gg_delete_remote = (\<lambda>w. (None, w @ [RemoteDeleted])), gg_create_remote = (\<lambda>us w. (None, w @ [RemoteSet us])),
      gg_config = (\<lambda>w. (None, w)), gg_set_user = (\<lambda>n e w. (None, w @ [Identified n e])),
      gg_head = (\<lambda>w. (Inr (''refs/heads/main'', ''c0''), w)), gg_resolve = (\<lambda>r w. (Inl absent, w)),
      gg_worktree = (\<lambda>w. (None, w)), gg_checkout = (\<lambda>b h n w. (None, w)),
      gg_push = (\<lambda>a r w. (None, w @ [PushedRef a r])),
      gg_url = (\<lambda>u. Some \<lparr>pu_user = True, pu_without_user = ''http://git/x'', pu_host = ''git'', pu_path = ''/x''\<rparr>)\<rparr>"

definition log_hub :: "stage_event list hub" where
  "log_hub =
     \<lparr>hc_fetch_app = (\<lambda>n w. (Inr \<lparr>ha_name = ''a'', ha_repository = Some \<lparr>hr_kind = [], hr_url = ''http://git/x'',
        hr_branch = ''main''\<rparr>\<rparr>, w)), hc_git_creds = (\<lambda>n w. (Inr None, w)), hc_insights = (\<lambda>n w. (Inr [], w)),
      hc_revoke = (\<lambda>n w. (None, w @ [Revoked n]))\<rparr>"

definition done_result :: prompt_result where
  "done_result = empty_result\<lparr>pr_stop_reason := ''end_turn''\<rparr>"

text \<open>The agent ends its turn on its own; \<open>h\<close> says whether a question went unanswered before.\<close>

definition log_io :: "bool \<Rightarrow> stage_event list stage_io" where
  "log_io h =
     \<lparr>io_env = sample_env, io_environ = [], io_temp_dir = ''/tmp'', io_fs = log_fs,
      io_is_symlink = (\<lambda>p w. (Inl absent, w)), io_readlink = (\<lambda>p w. (Inl absent, w)), io_symlink = (\<lambda>p q w. (None, w)),
      io_glob = (\<lambda>p w. (Inr [], w)), io_home = (\<lambda>w. (Inr ''/h'', w)), io_executable = (\<lambda>w. (Inr ''/x'', w)),
      io_unsetenv = (\<lambda>n w. w @ [Unset n]), io_error_text = (\<lambda>e. ''error''), io_hub = (\<lambda>u t. log_hub), io_git = log_git,
      io_start_goose = (\<lambda>c w. (None, w @ [Served c])), io_goose_alive = (\<lambda>w. True), io_stop_goose = (\<lambda>w. w),
      io_dial = (\<lambda>w. (None, w)), io_close = (\<lambda>w. w), io_create_session = (\<lambda>d ms w. (Inr ''s'', w)),
      io_prompt = (\<lambda>f s t l w. ((Some done_result, None), w @ [Prompted s t l])), io_hitl_unanswered = (\<lambda>w. h),
      io_start_tee = (\<lambda>c w. (None, w)), io_attach_tee = (\<lambda>s w. w), io_stop_tee = (\<lambda>w. w), io_update = (\<lambda>u w. w),
      io_notice = (\<lambda>m w. w), io_run_active = (\<lambda>b w. w), io_turns = (\<lambda>w. 0), io_set_turns = (\<lambda>n w. w),
      io_next_push = (\<lambda>w. (1, w)), io_new_watcher = (\<lambda>d p w. (None, w)), io_start_watcher = (\<lambda>w. (None, w)),
      io_stop_watcher = (\<lambda>w. w), io_write_report = (\<lambda>p d w. (None, w))\<rparr>"

lemma log_io_ops:
  "io_prompt (log_io h) f sid t l w = ((Some done_result, None), w @ [Prompted sid t l])"
  "io_hitl_unanswered (log_io h) w = h" "io_set_turns (log_io h) n w = w" "io_goose_alive (log_io h) w"
  "io_stop_watcher (log_io h) w = w" "io_new_watcher (log_io h) d p w = (None, w)" "io_start_watcher (log_io h) w = (None, w)"
  "io_git (log_io h) = log_git"
  by (simp_all add: log_io_def)

lemma log_io_logs: "logs id (log_io h)"
  by (simp add: logs_def logs_fs_def logs_git_def logs_hub_def marks_def silent_def log_io_def log_fs_def log_git_def
      log_hub_def)

abbreviation demo_config :: config where
  "demo_config \<equiv> config_of sample_env zero_params 0"

lemma sample_load: "LoadFromEnv (io_fs (log_io h)) (io_env (log_io h)) w = (Inr demo_config, w)"
  by (simp add: LoadFromEnv_def log_io_def log_fs_def required_env_def llm_model_def envWithFallback_def sample_env_def
      load_params_def absent_def read_cost_def zero_params_def zero_execution_def)

lemma sample_switches: "\<not> cf_acp_tee demo_config" "\<not> cf_hitl_ask demo_config"
proof -
  have off: "trim_space ''off'' = ''off''" "to_lower ''off'' = ''off''" "trim_space [] = []" "to_lower [] = []"
    by (simp_all add: trim_space_def to_lower_def lower_chunk_def rune_chunks_ascii ascii_def byte_def Let_def
        space_rune_def unchunk_def)
  show "\<not> cf_acp_tee demo_config" by (simp add: config_of_def envSwitchedOff_def sample_env_def off)
  show "\<not> cf_hitl_ask demo_config"
    by (simp add: config_of_def envSwitchedOn_def sample_env_def off zero_params_def zero_execution_def)
qed

lemma sample_fields:
  "cf_app_id demo_config = ''1''" "cf_target_branch demo_config = ''out''" "cf_hub_token_id demo_config = ''7''"
  "cf_workflow_stage demo_config = []"
  by (simp_all add: config_of_def sample_env_def)

lemma sample_numbers: "parse_uint ''1'' = Some 1" "parse_uint ''7'' = Some 7"
  by (simp_all add: parse_uint_def is_digit_def less_eq_char_def digits_val_def digit_val_def)

definition sample_app :: credentials where
  "sample_app = \<lparr>cr_username = [], cr_token = [], cr_repo_url = ''http://git/x'', cr_branch = ''main''\<rparr>"

lemma sample_hub_resolve: "resolveFromHub (io_hub (log_io h) u t) demo_config w = (Inr sample_app, w)"
proof -
  have "to_lower (trim_space []) = []" by (simp add: trim_space_def to_lower_def unchunk_def rune_chunks_ascii ascii_def)
  then show ?thesis
    by (simp add: resolveFromHub_def ParseAppID_def sample_fields sample_numbers log_io_def log_hub_def
        ValidateSourceRepository_def sample_app_def)
qed

definition sample_creds :: credentials where "sample_creds = sample_app\<lparr>cr_branch := ''out''\<rparr>"

lemma sample_clone:
  "prepare_clone (log_io h) demo_config sample_creds k w =
     k ''c0'' (w @ prepared_events log_git demo_config [''http://u@git/x''])"
  by (simp add: prepare_clone_def Let_def attempt_cmd_def Clone_def ConfigureAuthor_def StripCredentials_def
      ClearEnv_def CheckoutBranch_def checkout_ref_def HeadSHA_def log_io_def log_fs_def log_git_def
      prepared_events_def cleared_names_def sample_creds_def)

lemma sample_skills: "prepare_skills (log_io h) H demo_config k w = k [] None w"
  by (simp add: prepare_skills_def Let_def attempt_def discoverSkills_def ReadManifest_def RuleContent_def
      empty_manifest_def log_io_def log_fs_def absent_def)

lemma sample_judge:
  "py_outcome (judge_primary demo_config red (Some done_result) None h) = OutSucceeded"
  "py_hitl (judge_primary demo_config red (Some done_result) None h) = h"
  "py_provider_err (judge_primary demo_config red (Some done_result) None h) = False"
  "py_rejected (judge_primary demo_config red (Some done_result) None h) = False"
proof -
  have p: "\<not> logAgentClosingMessage red done_result"
    by (simp add: logAgentClosingMessage_def ClosingProviderError_def done_result_def empty_result_def)
  have "fst (classifyOutcome (Some done_result) None n False) = OutSucceeded" for n
    by (simp add: classifyOutcome_def done_result_def empty_result_def turns_over_def stopReasonMaxTurns_def)
  with p show "py_outcome (judge_primary demo_config red (Some done_result) None h) = OutSucceeded"
    and "py_hitl (judge_primary demo_config red (Some done_result) None h) = h"
    and "py_provider_err (judge_primary demo_config red (Some done_result) None h) = False"
    and "py_rejected (judge_primary demo_config red (Some done_result) None h) = False"
    by (simp_all add: judge_primary_def Let_def)
qed

lemma sample_work:
  assumes "\<not> sh_live S" and "sh_config S = demo_config"
  shows "\<exists>en. work (log_io h) S sample_creds ''c0'' sid t w = (en, w @ [Prompted sid t (cf_cost_limit demo_config)]) \<and>
    en_code en = 0 \<and> en_succeeded en \<and> en_err en = None"
proof -
  have plan: "emit_plan (log_io h) S a b c u = u" "emit_notice (log_io h) S m u = u" for a b c m u
    using assms(1) by (simp_all add: emit_plan_def emit_notice_def)
  let ?v = "judge_primary demo_config (sh_red S) (Some done_result) None h"
  have v: "run_primary (log_io h) S sid t u = (?v, u @ [Prompted sid t (cf_cost_limit demo_config)])" for u
    using assms by (simp add: run_primary_def plan Let_def provider_notice_def log_io_ops sample_judge)
  have hand: "run_handoff (log_io h) S sid ?v u = (None, u)" for u by (simp add: run_handoff_def sample_judge)
  have push: "emit_push (log_io h) S x (Push (io_git (log_io h)) sample_creds b ''c0'') u = (Inr False, u)" for x b u
    using assms(1) by (simp add: emit_push_def Push_def log_io_ops log_git_def)
  have "conclude (log_io h) S sample_creds ''c0'' ?v None u = (stage_verdict OutSucceeded ?v
      (stage_report ?v None OutSucceeded (py_limit ?v)), u)" for u
    using push by (simp add: conclude_def plan Let_def log_io_ops sample_judge)
  then show ?thesis
    by (simp add: work_def plan Let_def attempt_cmd_def v hand log_io_ops stage_verdict_def)
qed

lemma sample_agent:
  "\<exists>en. run_agent (log_io h) demo_config red sample_creds ''c0'' rules ins w =
      (en, w @ [Served (goose_config demo_config),
                Prompted ''s'' (stage_prompt demo_config rules False) (cf_cost_limit demo_config)]) \<and>
    en_code en = 0 \<and> en_succeeded en \<and> en_err en = None"
proof -
  let ?S = "\<lparr>sh_live = False, sh_config = demo_config, sh_branch = cr_branch sample_creds,
     sh_prep = planPrepRung (gg_url (io_git (log_io h))) (cr_repo_url sample_creds) (cr_branch sample_creds) ins red,
     sh_red = red\<rparr>"
  obtain en where w: "work (log_io h) ?S sample_creds ''c0'' ''s'' (stage_prompt demo_config rules False)
      (w @ [Served (goose_config demo_config)]) =
      (en, w @ [Served (goose_config demo_config)] @
        [Prompted ''s'' (stage_prompt demo_config rules False) (cf_cost_limit demo_config)])"
    and en: "en_code en = 0" "en_succeeded en" "en_err en = None"
    using sample_work [of ?S h "''s''" "stage_prompt demo_config rules False" "w @ [Served (goose_config demo_config)]"]
    by auto
  have io: "io_start_goose (log_io h) c u = (None, u @ [Served c])" "io_stop_goose (log_io h) u = u"
    "io_dial (log_io h) u = (None, u)" "io_close (log_io h) u = u" "io_create_session (log_io h) d ms u = (Inr ''s'', u)" for c u d ms
    by (simp_all add: log_io_def)
  have "run_agent (log_io h) demo_config red sample_creds ''c0'' rules ins w =
      (en, w @ [Served (goose_config demo_config)] @
        [Prompted ''s'' (stage_prompt demo_config rules False) (cf_cost_limit demo_config)])"
    using w by (simp add: run_agent_def attempt_cmd_def io open_session_def ask_servers_def sample_switches attempt_def
        show_and_work_def start_tee_def Let_def)
  with en show ?thesis by auto
qed

definition sample_log :: "stage_event list" where
  "sample_log =
     prepared_events log_git demo_config [''http://u@git/x''] @
     [Served (goose_config demo_config),
      Prompted ''s'' (stage_prompt demo_config [] False) (cf_cost_limit demo_config), Revoked 7]"

lemma sample_run: "\<exists>en. runStage (log_io h) [] = (en, sample_log) \<and> main_exit_code en = 0"
proof -
  let ?red = "newRedactor [cf_api_key demo_config, cf_hub_token demo_config, cf_acp_secret_key demo_config,
    cr_token sample_app] (io_environ (log_io h))"
  obtain en where r: "run_agent (log_io h) demo_config ?red sample_creds ''c0'' [] None
      (prepared_events log_git demo_config [''http://u@git/x'']) =
      (en, prepared_events log_git demo_config [''http://u@git/x''] @ [Served (goose_config demo_config),
        Prompted ''s'' (stage_prompt demo_config [] False) (cf_cost_limit demo_config)])"
    and en: "en_code en = 0" "en_err en = None"
    using sample_agent [of h ?red "[]" None "prepared_events log_git demo_config [''http://u@git/x'']"] by auto
  have branch: "cf_target_branch demo_config \<noteq> cr_branch sample_app"
    "sample_app\<lparr>cr_branch := cf_target_branch demo_config\<rparr> = sample_creds"
    by (simp_all add: sample_fields sample_app_def sample_creds_def)
  have b: "stage_body (log_io h) demo_config [] = (en, prepared_events log_git demo_config [''http://u@git/x''] @
      [Served (goose_config demo_config),
       Prompted ''s'' (stage_prompt demo_config [] False) (cf_cost_limit demo_config)])"
    using r branch by (simp add: stage_body_def Let_def attempt_def sample_hub_resolve sample_clone sample_skills)
  have settle: "settle_token (log_io h) demo_config en w = w @ [Revoked 7]" for w
    by (simp add: settle_token_def parseHubTokenID_def sample_fields sample_numbers isIntermediateWorkflowStage_def
        workflowStagePosition_def) (simp add: log_io_def log_hub_def)
  have report: "writeTerminationLog (io_write_report (log_io h)) p t w = w" for p t w
    by (simp add: writeTerminationLog_def log_io_def split: option.split)
  have "runStage (log_io h) [] = (en, sample_log)"
    by (simp add: runStage_def sample_load b settle report sample_log_def)
  with en show ?thesis by (auto simp: main_exit_code_def)
qed

section \<open>The guarantees in the sample world\<close>

lemma sample_load_here: "LoadFromEnv (io_fs (log_io h)) (io_env (log_io h)) [] = (Inr demo_config, [])"
  by (rule sample_load)

lemma sample_prompts: "prompts sample_log = [(''s'', stage_prompt demo_config [] False, cf_cost_limit demo_config)]"
  by (simp add: sample_log_def prepared_plain)

theorem agent_starts_prepared_witness:
  "\<exists>urls. prepared_events log_git demo_config [''http://u@git/x''] = prepared_events (io_git (log_io False)) demo_config urls"
proof -
  obtain en where r: "runStage (log_io False) [] = (en, sample_log)" using sample_run by blast
  have l: "id sample_log = prepared_events log_git demo_config [''http://u@git/x''] @ Served (goose_config demo_config) #
      [Prompted ''s'' (stage_prompt demo_config [] False) (cf_cost_limit demo_config), Revoked 7]"
    by (simp add: sample_log_def)
  from agent_starts_prepared [OF log_io_logs _ r sample_load_here l] show ?thesis by simp
qed

theorem hub_token_settled_witness: "revocations sample_log = [7]"
proof -
  obtain en where r: "runStage (log_io False) [] = (en, sample_log)" using sample_run by blast
  have "parseHubTokenID demo_config = Some 7" "\<not> isIntermediateWorkflowStage demo_config"
    by (simp_all add: parseHubTokenID_def sample_fields sample_numbers isIntermediateWorkflowStage_def
        workflowStagePosition_def)
  then show ?thesis using hub_token_settled [OF log_io_logs _ r sample_load_here] by simp
qed


text \<open>
  The decision record on the \<open>ask_user\<close> tool says the stage reads the latched mark and reports the run failed
  whatever the stop reason was.  The mark only chooses the words of a failure: with it set and a turn that ended
  on its own, the stage succeeds.
\<close>

lemma unanswered_ask_does_not_fail_run:
  "\<exists>en w'. runStage (log_io True) [] = (en, w') \<and> io_hitl_unanswered (log_io True) w' \<and> main_exit_code en = 0"
  using sample_run [of True] by (auto simp: log_io_ops)

end
