(* ===== verification/OutcomeProperties.thy ===== *)
theory OutcomeProperties
  imports Outcome SkillWireProperties RunStatus
begin

text \<open>
  The outcome is read off the prompt's result as documented, the termination log fits and is JSON, and the
  controller reads both back.
\<close>

section \<open>Classification\<close>

text \<open>The outcome of a stage is decided by the prompt's result as follows.  It is a success exactly when the
  prompt returned without an error, was not cancelled, did not run into a turn limit, and is not a provider
  refusal before the first turn; a cost limit noticed by a turn that ended by itself is only recorded.  A limit
  is reported exactly for a turn the harness cancelled over its cost, for the stop reason of the turn limit, or
  for a native turn limit that was used up, be it in a normal end or in a lost connection.\<close>

theorem classifyOutcome_table:
  "(fst (classifyOutcome (Some r) None native pe) = OutSucceeded \<longleftrightarrow>
      pr_stop_reason r \<noteq> ''cancelled'' \<and> pr_stop_reason r \<noteq> stopReasonMaxTurns \<and> \<not> turns_over native r \<and>
      \<not> (pe \<and> pr_turns_used r = 0)) \<and>
    (fst (classifyOutcome (Some r) None native pe) = OutLimitReached \<longleftrightarrow>
      (if pr_stop_reason r = ''cancelled'' then pr_cost_limit_reached r
       else \<not> (pe \<and> pr_turns_used r = 0) \<and> (pr_stop_reason r = stopReasonMaxTurns \<or> turns_over native r))) \<and>
    (snd (classifyOutcome (Some r) None native pe) = LimitMaxCost \<longleftrightarrow>
      pr_cost_limit_reached r \<and>
      (pr_stop_reason r = ''cancelled'' \<or> fst (classifyOutcome (Some r) None native pe) = OutSucceeded)) \<and>
    classifyOutcome res (Some e) native pe =
      (if kind_of e = KConnectionLost \<and> (\<exists>q. res = Some q \<and> turns_over native q)
       then (OutLimitReached, LimitMaxTurns) else (OutFailed, LimitNone)) \<and>
    (fst (classifyOutcome res er native pe) = OutLimitReached \<longrightarrow>
      snd (classifyOutcome res er native pe) \<noteq> LimitNone)"
  by (auto simp: classifyOutcome_def stopReasonMaxTurns_def split: option.splits)

theorem classifyOutcome_table_witness:
  "fst (classifyOutcome (Some (empty_result\<lparr>pr_stop_reason := ''end_turn'', pr_turns_used := 3\<rparr>)) None 3 False)
     = OutLimitReached
   \<and> snd (classifyOutcome None (Some (errorf ''x'' [])) 0 False) = LimitNone"
  using classifyOutcome_table [of "empty_result\<lparr>pr_stop_reason := ''end_turn'', pr_turns_used := 3\<rparr>" 3 False]
    classifyOutcome_table [of _ 0 False None "errorf ''x'' []"]
  by (simp add: turns_over_def)

section \<open>Strings of any bytes\<close>

text \<open>What is read back of any string: each ill-formed byte became the replacement rune.\<close>

definition to_valid :: "string \<Rightarrow> string" where
  "to_valid s = concat (map (\<lambda>c. if fst c = rune_error \<and> length (snd c) = 1 then encode_rune rune_error else snd c)
     (rune_chunks s))"

lemma to_valid_id: "well_formed s \<Longrightarrow> to_valid s = s"
proof -
  assume wf: "well_formed s"
  have "to_valid s = concat (map snd (rune_chunks s))"
    unfolding to_valid_def using wf
    by (intro arg_cong [where f = concat] map_cong refl) (auto simp: well_formed_def list_all_iff)
  then show ?thesis by (simp add: concat_rune_chunks)
qed

lemma escape_bad: "json_escape_rune (rune_error, [c]) = CHR 0x5C # CHR ''u'' # ''fffd''"
  by (simp add: json_escape_rune_def rune_error_def)

lemma hex_bad: "hex4 (''fffd'' @ rest) = Some (65533, rest)"
proof -
  have "''fffd'' = map hex_digit [15, 15, 15, 13]" by code_simp
  then show ?thesis using hex4_digits [of 15 15 15 13 rest] by simp
qed

lemma unquote_any:
  "length (rune_chunks s) < n \<Longrightarrow>
     json_unquote n (concat (map json_escape_rune (rune_chunks s)) @ CHR 0x22 # rest) = Some (to_valid s, rest)"
proof (induction s arbitrary: n rule: rune_chunks.induct)
  case 1
  then show ?case by (cases n) (auto simp: to_valid_def)
next
  case (2 c cs)
  obtain r w where d: "decode_rune (c # cs) = (r, w)" by fastforce
  from "2.prems" obtain m where n: "n = Suc m" by (cases n) auto
  have len: "length (take w (c # cs)) = w" using decode_width_le [of "c # cs"] d by simp
  have "length (rune_chunks (drop w (c # cs))) < m"
    using "2.prems" d n by (simp add: rune_chunks.simps(2))
  note ih = "2.IH" [OF d [symmetric] refl this]
  show ?case
  proof (cases "r = rune_error \<and> w = 1")
    case True
    then have t: "take w (c # cs) = [c]" by simp
    have "json_unquote (Suc m) (json_escape_rune (r, [c]) @ u) =
        map_option (apfst ((@) (encode_rune rune_error))) (json_unquote m u)" for u
      using True unquote_u [OF hex_bad, of m u] escape_bad [of c]
      by (simp add: rune_error_def del: json_unquote.simps)
    with ih True t show ?thesis
      by (simp add: rune_chunks.simps(2) d n to_valid_def del: json_unquote.simps)
  next
    case False
    with ih unquote_rune [OF d False, of m] len show ?thesis
      by (auto simp add: rune_chunks.simps(2) d n to_valid_def del: json_unquote.simps)
  qed
qed

lemma reads_any_string: "1 \<le> k \<Longrightarrow> reads_as k h (json_string s) (JStr (to_valid s))"
  unfolding reads_as_def
proof (intro allI impI)
  fix n d rest assume "1 \<le> k" and "k \<le> (n :: nat)"
  then obtain m where n: "n = Suc m" by (cases n) auto
  obtain q where q: "q = tl (json_string s) @ rest" by simp
  have t: "json_string s @ rest = CHR 0x22 # q" unfolding q by (subst json_string_quote) simp
  have "length (json_string s) \<le> Suc (Suc (length q))" using arg_cong [OF t, of length] by simp
  then have "length (rune_chunks s) < Suc (length q)"
    using chunks_shorter [of s] by (simp add: json_string_def)
  then have "json_unquote (Suc (length q)) q = Some (to_valid s, rest)"
    using unquote_any [of s _ rest] by (simp add: q json_string_def)
  then show "json_value n d (json_string s @ rest) = Some (JStr (to_valid s), rest)"
    unfolding n t json_value.simps
    by (simp add: Let_def skip_ws_one has_prefix_def del: json_unquote.simps)
qed

section \<open>Numbers\<close>

lemma ends_no_digit: "value_ends rest \<Longrightarrow> takeWhile is_digit rest = []"
  by (cases rest) (auto simp: value_ends_def json_ws_def is_digit_def less_eq_char_def)

lemma ends_no_number:
  assumes "value_ends rest"
  shows "\<not> has_prefix rest ''.''" "\<not> has_prefix rest ''e''" "\<not> has_prefix rest ''E''"
  using assms by (cases rest; auto simp: value_ends_def has_prefix_def json_ws_def)+

lemma nat_text_leading: "n \<noteq> 0 \<Longrightarrow> hd (nat_text n) \<noteq> CHR ''0''"
proof (induction n rule: nat_text.induct)
  case (1 n)
  show ?case
  proof (cases "n < 10")
    case True
    then have "digit_val (digit_char n) = n" by (rule digit_val_digit_char)
    moreover have "digit_val CHR ''0'' = 0" by (simp add: digit_val_def)
    ultimately show ?thesis using True "1.prems" by (subst nat_text.simps) auto
  next
    case False
    then have "n div 10 \<noteq> 0" by (simp add: div_eq_0_iff)
    with "1.IH" False show ?thesis by (subst nat_text.simps) simp
  qed
qed

lemma digits_take: "list_all is_digit ds \<Longrightarrow> value_ends rest \<Longrightarrow> takeWhile is_digit (ds @ rest) = ds"
  using ends_no_digit [of rest] by (simp add: list_all_iff)

lemma number_nat:
  assumes "value_ends rest"
  shows "json_number (nat_text n @ rest) = Some (nat_text n, rest)"
proof -
  have hd: "is_digit (hd (nat_text n))" by (rule nat_text_hd)
  then have sign: "\<not> has_prefix (nat_text n @ rest) ''-''"
    by (cases "nat_text n") (auto simp: has_prefix_def is_digit_def less_eq_char_def)
  have t: "take_digits (nat_text n @ rest) = Some (nat_text n, rest)"
    using digits_take [OF nat_text_digits assms] by (simp add: take_digits_def Let_def)
  have i: "(if hd (nat_text n) = CHR ''0'' then ''0'' else nat_text n) = nat_text n"
  proof (cases "n = 0")
    case True
    then show ?thesis by (simp add: nat_text_small)
  qed (simp add: nat_text_leading)
  show ?thesis using sign t i ends_no_number [OF assms] by (simp add: json_number_def Let_def)
qed

lemma number_int:
  assumes "value_ends rest"
  shows "json_number (int_text i @ rest) = Some (int_text i, rest)"
proof (cases "i < 0")
  case False
  then show ?thesis using number_nat [OF assms] by (simp add: int_text_def)
next
  case True
  let ?n = "nat (- i)"
  have t: "take_digits (nat_text ?n @ rest) = Some (nat_text ?n, rest)"
    using digits_take [OF nat_text_digits assms] by (simp add: take_digits_def Let_def)
  have "?n \<noteq> 0" using True by simp
  then have "hd (nat_text ?n) \<noteq> CHR ''0''" by (rule nat_text_leading)
  then show ?thesis
    using True t ends_no_number [OF assms] by (simp add: int_text_def json_number_def Let_def has_prefix_def)
qed

lemma int_text_start:
  obtains c s where "int_text i = c # s" and "c = CHR ''-'' \<or> is_digit c"
proof -
  have "nat_text n \<noteq> [] \<and> is_digit (hd (nat_text n))" for n by (simp add: nat_text_hd)
  then have "\<exists>c s. int_text i = c # s \<and> (c = CHR ''-'' \<or> is_digit c)"
    by (cases "nat_text (nat i)") (auto simp: int_text_def, metis list.sel(1))
  then show ?thesis using that by blast
qed

lemma reads_int: "1 \<le> k \<Longrightarrow> reads_as k h (int_text i) (JNumber (int_text i))"
  unfolding reads_as_def
proof (intro allI impI)
  fix n d rest assume "1 \<le> k" "k \<le> (n :: nat)" and e: "value_ends rest"
  then obtain m where n: "n = Suc m" by (cases n) auto
  obtain c s where c: "int_text i = c # s" "c = CHR ''-'' \<or> is_digit c" by (rule int_text_start)
  have "\<not> json_ws c" "c \<notin> {CHR ''n'', CHR ''t'', CHR ''f'', CHR 0x22, CHR ''{'', CHR ''[''}"
    using c(2) by (auto simp: json_ws_def is_digit_def less_eq_char_def)
  then show "json_value n d (int_text i @ rest) = Some (JNumber (int_text i), rest)"
    using number_int [OF e, of i] unfolding n json_value.simps
    by (simp add: c Let_def skip_ws_one has_prefix_def)
qed

text \<open>An integer of 64 bits is in the range of a \<open>float64\<close>.\<close>

lemma bitlen_less: "n < 2 ^ bitlen n"
proof (induction n rule: bitlen.induct)
  case (1 n)
  show ?case
  proof (cases "n = 0")
    case False
    with 1 have "n div 2 < 2 ^ bitlen (n div 2)" by simp
    then have "n < 2 * 2 ^ bitlen (n div 2)" by linarith
    with False show ?thesis by (subst bitlen.simps) simp
  qed simp
qed

lemma bitlen_le: "n < 2 ^ k \<Longrightarrow> bitlen n \<le> k"
proof (induction n arbitrary: k rule: bitlen.induct)
  case (1 n)
  show ?case
  proof (cases "n = 0")
    case True
    then show ?thesis by (simp add: bitlen.simps)
  next
    case False
    with "1.prems" obtain j where k: "k = Suc j" by (cases k) auto
    then have "n div 2 < 2 ^ j" using "1.prems" by simp
    from "1.IH" [OF False this] False k show ?thesis by (subst bitlen.simps) simp
  qed
qed

lemma round_div_le: "0 < d \<Longrightarrow> n < d * m \<Longrightarrow> round_div n d \<le> m"
proof -
  assume d: "0 < d" and "n < d * m"
  then have "n div d < m" by (simp add: div_less_iff_less_mult mult.commute)
  then show ?thesis by (simp add: round_div_def Let_def)
qed

lemma scaled_bound:
  assumes "n < 2 ^ 64" and "int (bitlen n) - 53 \<le> e"
  shows "snd (scale2 n 1 e) * 2 ^ 53 > fst (scale2 n 1 e)" and "0 < snd (scale2 n 1 e)"
proof -
  have b: "n < 2 ^ bitlen n" by (rule bitlen_less)
  show "snd (scale2 n 1 e) * 2 ^ 53 > fst (scale2 n 1 e)"
  proof (cases "0 \<le> e")
    case True
    have "bitlen n \<le> nat e + 53" using assms(2) True by linarith
    then have "(2 :: nat) ^ bitlen n \<le> 2 ^ (nat e + 53)" by (rule power_increasing) simp
    with b True show ?thesis by (simp add: scale2_def power_add)
  next
    case False
    have "bitlen n + nat (- e) \<le> 53" using assms(2) False by linarith
    then have "(2 :: nat) ^ (bitlen n + nat (- e)) \<le> 2 ^ 53" by (rule power_increasing) simp
    then have "(2 :: nat) ^ bitlen n * 2 ^ nat (- e) \<le> 2 ^ 53" by (simp only: power_add)
    moreover have "n * 2 ^ nat (- e) < 2 ^ bitlen n * 2 ^ nat (- e)" using b by simp
    ultimately have "n * 2 ^ nat (- e) < 2 ^ 53" by (rule less_le_trans [rotated])
    then show ?thesis using False by (simp add: scale2_def)
  qed
  show "0 < snd (scale2 n 1 e)" by (simp add: scale2_def)
qed

lemma round_small:
  assumes "n < 2 ^ 64"
  shows "round_f64 n 1 \<noteq> None"
proof (cases "n = 0")
  case True
  then show ?thesis by (simp add: round_f64_def)
next
  case False
  have one: "bitlen 1 = 1" by (simp add: bitlen_numeral)
  define e0 where "e0 = int (bitlen n) - int 1 - 53"
  define e1 where "e1 = (case scale2 n 1 e0 of (a, b) \<Rightarrow> if a < b * 2 ^ 53 then e0 else e0 + 1)"
  define e where "e = max e1 (- 1074)"
  define q where "q = (case scale2 n 1 e of (a, b) \<Rightarrow> round_div a b)"
  have l: "bitlen n \<le> 64" using assms by (rule bitlen_le)
  have up: "fst (scale2 n 1 e) < snd (scale2 n 1 e) * 2 ^ 53 \<and> 0 < snd (scale2 n 1 e)"
  proof (cases "e = e0")
    case True
    show ?thesis
    proof (cases "fst (scale2 n 1 e0) < snd (scale2 n 1 e0) * 2 ^ 53")
      case True
      with \<open>e = e0\<close> scaled_bound(2) show ?thesis by (auto simp: scale2_def)
    next
      case False
      then have "e1 = e0 + 1" by (simp add: e1_def case_prod_beta')
      with \<open>e = e0\<close> show ?thesis by (simp add: e_def max_def split: if_splits)
    qed
  next
    case False
    then have "int (bitlen n) - 53 \<le> e"
      by (auto simp: e_def e1_def e0_def max_def split: if_splits prod.splits)
    with scaled_bound [OF assms] show ?thesis by blast
  qed
  then have q: "q \<le> 2 ^ 53" unfolding q_def by (auto simp: mult.commute intro: round_div_le split: prod.splits)
  have "e \<le> 11" using l by (auto simp: e_def e1_def e0_def max_def split: if_splits prod.splits)
  then have "nat (e + 1074) \<le> 1085" by linarith
  then have "nat (e + 1074) * 2 ^ 52 + q < 2047 * 2 ^ 52" using q by simp
  then show ?thesis
    unfolding round_f64_def Let_def one e0_def [symmetric] e1_def [symmetric] e_def [symmetric]
      q_def [symmetric]
    using False by simp
qed

section \<open>Integers read as floats\<close>

lemma scan_digits:
  "list_all is_digit ds \<Longrightarrow>
     scan_mantissa False m any None ds = (foldl (\<lambda>n c. 10 * n + digit_val c) m ds, any \<or> ds \<noteq> [], None, [])"
proof (induction ds arbitrary: m any)
  case (Cons c cs)
  then have "c \<noteq> CHR ''_''" "c \<noteq> CHR ''.''" by (auto simp: is_digit_def less_eq_char_def)
  with Cons show ?case by (simp add: hex_val_def)
qed simp

lemma lower_digit: "is_digit c \<Longrightarrow> lower_byte c = c"
  by (auto simp: is_digit_def lower_byte_def less_eq_char_def)

lemma lower_digits: "list_all is_digit ds \<Longrightarrow> map lower_byte ds = ds"
  by (induction ds) (auto simp: lower_digit)

lemma nat_text_no_x: "\<not> has_prefix (nat_text n) (c # CHR ''x'' # s)"
  using nat_text_digits [of n]
  by (auto simp: has_prefix_iff is_digit_def less_eq_char_def)

lemma parse_float_nat:
  assumes "n < 2 ^ 64" and "s = nat_text n \<or> s = CHR ''-'' # nat_text n"
  shows "parse_float s \<noteq> None"
proof -
  let ?d = "nat_text n"
  have ds: "list_all is_digit ?d" by (rule nat_text_digits)
  have low: "map lower_byte ?d = ?d" using lower_digits [OF ds] .
  obtain c t where ct: "?d = c # t" "is_digit c" using ds by (cases ?d) auto
  then have c: "c \<noteq> CHR ''-''" "c \<noteq> CHR ''+''" "c \<noteq> CHR ''n''" "c \<noteq> CHR ''i''"
    by (auto simp: is_digit_def less_eq_char_def)
  have sp: "parse_special s = None"
    using assms(2) c low by (auto simp: parse_special_def Let_def has_prefix_def ct lower_byte_def less_eq_char_def)
  have body: "strip_sign s = ?d"
    using assms(2) c by (auto simp: strip_sign_def has_prefix_def ct)
  have us: "CHR ''_'' \<notin> set s"
    using assms(2) ds by (fastforce simp: list_all_iff is_digit_def less_eq_char_def)
  have scan: "scan_mantissa False 0 False None ?d = (n, True, None, [])"
    using scan_digits [OF ds, of 0 False] digits_val_nat_text [of n] by (simp add: digits_val_def)
  have "finish_float False b n 0 \<noteq> None" for b
    using round_small [OF assms(1)] by (simp add: finish_float_def)
  then show ?thesis
    using sp us scan nat_text_no_x [of n] by (simp add: parse_float_def body low Let_def)
qed

definition in_int64 :: "int \<Rightarrow> bool" where
  "in_int64 i \<longleftrightarrow> - (2 ^ 63) \<le> i \<and> i < 2 ^ 63"

lemma parse_float_int: "in_int64 i \<Longrightarrow> parse_float (int_text i) \<noteq> None"
  by (rule parse_float_nat [of "nat \<bar>i\<bar>"]) (auto simp: in_int64_def int_text_def)

section \<open>The length of a report\<close>

lemma nat_text_length: "n < 10 ^ Suc k \<Longrightarrow> length (nat_text n) \<le> Suc k"
proof (induction k arbitrary: n)
  case 0
  then show ?case by (subst nat_text.simps) simp
next
  case (Suc k)
  show ?case
  proof (cases "n < 10")
    case True
    then show ?thesis by (subst nat_text.simps) simp
  next
    case False
    have "n div 10 < 10 ^ Suc k" using Suc.prems by (simp add: div_less_iff_less_mult mult.commute)
    from Suc.IH [OF this] False show ?thesis by (subst nat_text.simps) simp
  qed
qed

lemma int_text_length: "in_int64 i \<Longrightarrow> length (int_text i) \<le> 21"
proof -
  assume i: "in_int64 i"
  then have "nat \<bar>i\<bar> < 10 ^ Suc 19" by (auto simp: in_int64_def nat_less_iff abs_less_iff)
  then have "length (nat_text (nat \<bar>i\<bar>)) \<le> Suc 19" by (rule nat_text_length)
  then show ?thesis by (auto simp: int_text_def)
qed

lemma plain_json_length: "ascii s \<Longrightarrow> list_all (\<lambda>c. json_escape_byte c = [c]) s \<Longrightarrow> length (json_string s) = length s + 2"
  by (auto simp: json_string_def rune_chunks_ascii ascii_def list_all_iff json_escape_rune_def
      length_concat comp_def sum_list_triv cong: map_cong)

definition report_word :: "string \<Rightarrow> bool" where
  "report_word s \<longleftrightarrow> s \<in> range outcome_text \<or> s \<in> range limit_text"

lemma report_word_cases:
  "report_word s \<Longrightarrow> s \<in> {''succeeded'', ''limitReached'', ''failed'', [], ''maxTurns'', ''maxCost''}"
  by (auto simp: report_word_def) (metis outcome.exhaust outcome_text.simps, metis limit_kind.exhaust limit_text.simps)

lemma report_word_json: "report_word s \<Longrightarrow> length (json_string s) \<le> 14 \<and> well_formed s"
proof -
  assume w: "report_word s"
  have "ascii s" "list_all (\<lambda>c. json_escape_byte c = [c]) s" "length s \<le> 12"
    using report_word_cases [OF w] by (auto simp: ascii_def byte_def json_escape_byte_def)
  then show ?thesis using plain_json_length ascii_well_formed by simp
qed

lemma key_length: "length (json_string ''exitCode'') = 10" "length (json_string ''outcome'') = 9"
  "length (json_string ''limitReached'') = 14"
  by (subst plain_json_length; simp add: ascii_def byte_def json_escape_byte_def)+

lemma minimal_length:
  assumes "in_int64 (tb_exit_code t)" and "report_word (tb_outcome t)" and "report_word (tb_limit_reached t)"
  shows "length (minimal_json t) \<le> 4096"
  using int_text_length [OF assms(1)] report_word_json [OF assms(2)] report_word_json [OF assms(3)]
  by (auto simp: minimal_json_def termination_json_def minimal_blob_def usage_member_def text_member_def
      struct_json_def key_length)

section \<open>The report as JSON\<close>

text \<open>A cost that is written as a number the decoder takes.\<close>

definition cost_reads :: "f64 \<Rightarrow> bool" where
  "cost_reads c \<longleftrightarrow>
     f64_magnitude c = 0 \<or> (\<exists>t. json_float c = Some t \<and> reads_as 1 0 t (JNumber t) \<and> parse_float t \<noteq> None)"

definition usage_reads :: "usage \<Rightarrow> bool" where
  "usage_reads u \<longleftrightarrow>
     in_int64 (us_turns u) \<and> in_int64 (us_context_used u) \<and> in_int64 (us_context_size u) \<and> cost_reads (us_cost u)"

definition blob_reads :: "termination_blob \<Rightarrow> bool" where
  "blob_reads t \<longleftrightarrow>
     in_int64 (tb_exit_code t) \<and> report_word (tb_outcome t) \<and> report_word (tb_limit_reached t) \<and>
     (case tb_usage t of None \<Rightarrow> True | Some u \<Rightarrow> usage_reads u)"

text \<open>A member with its text and value: it reads, and its numbers are floats.\<close>

definition member_ok :: "nat \<Rightarrow> nat \<Rightarrow> string \<times> string \<times> json \<Rightarrow> bool" where
  "member_ok k h m \<longleftrightarrow>
     (case m of (key, t, v) \<Rightarrow> well_formed key \<and> reads_as k h t v \<and> json_floats_ok v)"

lemma empty_object_reads: "reads_as 1 1 ''{}'' (JObj [])"
  by (auto simp: reads_as_def json_value.simps Let_def skip_ws_one has_prefix_def gr0_conv_Suc Suc_le_eq)

lemma members_ok_read:
  assumes "list_all (member_ok k h) xs"
  shows "reads_as (Suc (k + length xs)) (Suc h) (compact xs) (members_value xs)"
    and "json_floats_ok (members_value xs)"
proof -
  show "reads_as (Suc (k + length xs)) (Suc h) (compact xs) (members_value xs)"
  proof (cases "xs = []")
    case True
    then show ?thesis
      using reads_mono [OF empty_object_reads, of "Suc k" "Suc h"]
      by (simp add: compact_def struct_json_def members_value_def)
  next
    case False
    then show ?thesis
      by (rule compact_reads) (use assms in \<open>auto simp: list_all_iff member_ok_def\<close>)
  qed
  show "json_floats_ok (members_value xs)"
    using assms by (auto simp: members_value_def list_all_iff member_ok_def)
qed

definition int_members :: "string \<Rightarrow> int \<Rightarrow> (string \<times> string \<times> json) list" where
  "int_members k i = (if i = 0 then [] else [(k, int_text i, JNumber (int_text i))])"

definition text_members :: "string \<Rightarrow> string \<Rightarrow> (string \<times> string \<times> json) list" where
  "text_members k s = (if s = [] then [] else [(k, json_string s, JStr (to_valid s))])"

lemma int_member_ok: "in_int64 i \<Longrightarrow> well_formed key \<Longrightarrow> 1 \<le> k \<Longrightarrow> member_ok k h (key, int_text i, JNumber (int_text i))"
  using parse_float_int by (auto simp: member_ok_def reads_int)

lemma text_member_ok: "well_formed key \<Longrightarrow> 1 \<le> k \<Longrightarrow> member_ok k h (key, json_string s, JStr (to_valid s))"
  by (simp add: member_ok_def reads_any_string)

lemma report_keys:
  "well_formed ''exitCode''" "well_formed ''outcome''" "well_formed ''limitReached''" "well_formed ''stopReason''"
  "well_formed ''usage''" "well_formed ''turnsUsed''" "well_formed ''contextUsed''" "well_formed ''contextSize''"
  "well_formed ''cost''"
  by (rule ascii_well_formed, simp add: ascii_def byte_def)+

lemma cost_members:
  assumes "cost_reads c"
  obtains xs where "cost_member c = Some (map (\<lambda>(key, t, v). (key, t)) xs)" and "list_all (member_ok 1 0) xs"
    and "length xs \<le> 1"
proof (cases "f64_magnitude c = 0")
  case True
  then show ?thesis using that [of "[]"] by (simp add: cost_member_def)
next
  case False
  with assms obtain t where "json_float c = Some t" "reads_as 1 0 t (JNumber t)" "parse_float t \<noteq> None"
    by (auto simp: cost_reads_def)
  then show ?thesis
    using that [of "[(''cost'', t, JNumber t)]"] False by (simp add: cost_member_def member_ok_def report_keys)
qed

lemma usage_members:
  assumes "usage_reads u"
  obtains t v where "usage_json u = Some t" and "reads_as 6 1 t v" and "json_floats_ok v"
proof -
  obtain cs where c: "cost_member (us_cost u) = Some (map (\<lambda>(key, t, v). (key, t)) cs)"
    "list_all (member_ok 1 0) cs" "length cs \<le> 1"
    using assms by (auto simp: usage_reads_def elim: cost_members)
  let ?xs = "int_members ''turnsUsed'' (us_turns u) @ int_members ''contextUsed'' (us_context_used u) @
    int_members ''contextSize'' (us_context_size u) @ cs"
  have ok: "list_all (member_ok 1 0) ?xs"
    using assms c(2) by (auto simp: usage_reads_def int_members_def int_member_ok report_keys)
  have "usage_json u = Some (compact ?xs)"
    by (simp add: usage_json_def c(1) compact_def int_members_def int_member_def)
  moreover have "length ?xs \<le> 4" using c(3) by (simp add: int_members_def)
  then have "reads_as 6 1 (compact ?xs) (members_value ?xs)"
    by (intro reads_mono [OF members_ok_read(1) [OF ok]]) simp_all
  ultimately show ?thesis using that members_ok_read(2) [OF ok] by blast
qed

lemma join_first: "n \<le> length x \<Longrightarrow> n \<le> length (join sep (x # xs))"
  by (cases xs) auto

text \<open>What the report says to its reader.\<close>

definition report_says :: "termination_blob \<Rightarrow> (string \<times> json) list \<Rightarrow> bool" where
  "report_says t kvs \<longleftrightarrow>
     map_of kvs ''exitCode'' = Some (JNumber (int_text (tb_exit_code t))) \<and>
     map_of kvs ''outcome'' = Some (JStr (tb_outcome t)) \<and>
     map_of kvs ''limitReached'' = (if tb_limit_reached t = [] then None else Some (JStr (tb_limit_reached t)))"

definition readable_report :: "termination_blob \<Rightarrow> string \<Rightarrow> bool" where
  "readable_report t data \<longleftrightarrow>
     (\<exists>kvs. json_unmarshal data = Some (JObj kvs) \<and> json_floats_ok (JObj kvs) \<and> report_says t kvs)"

lemma termination_json_reads:
  assumes "blob_reads t"
  obtains data where "termination_json t = Some data" and "readable_report t data"
proof -
  obtain us where us: "usage_member (tb_usage t) = Some (map (\<lambda>(key, t, v). (key, t)) us)"
    "list_all (member_ok 6 1) us" "length us \<le> 1" "set (map fst us) \<subseteq> {''usage''}"
  proof (cases "tb_usage t")
    case None
    then show ?thesis using that [of "[]"] by (simp add: usage_member_def)
  next
    case (Some u)
    then have "usage_reads u" using assms by (simp add: blob_reads_def)
    then obtain s v where "usage_json u = Some s" "reads_as 6 1 s v" "json_floats_ok v" by (rule usage_members)
    then show ?thesis
      using that [of "[(''usage'', s, v)]"] Some by (simp add: usage_member_def member_ok_def report_keys)
  qed
  let ?xs = "[(''exitCode'', int_text (tb_exit_code t), JNumber (int_text (tb_exit_code t))),
      (''outcome'', json_string (tb_outcome t), JStr (to_valid (tb_outcome t)))] @
    text_members ''limitReached'' (tb_limit_reached t) @ text_members ''stopReason'' (tb_stop_reason t) @ us"
  have w: "well_formed (tb_outcome t)" "well_formed (tb_limit_reached t)"
    using assms report_word_json by (auto simp: blob_reads_def)
  have ok: "list_all (member_ok 6 1) ?xs"
    using assms us(2) by (auto simp: blob_reads_def text_members_def int_member_ok text_member_ok report_keys)
  have len: "length ?xs \<le> 5" using us(3) by (simp add: text_members_def)
  have eq: "termination_json t = Some (compact ?xs)"
    by (simp add: termination_json_def us(1) compact_def text_members_def text_member_def)
  have size: "20 \<le> length (compact ?xs)"
    using join_first [of _ _ "'',''"] by (auto simp: compact_def struct_json_def key_length intro: trans_le_add2)
  have "json_unmarshal (compact ?xs @ []) = Some (members_value ?xs)"
    by (rule unmarshal_reads [OF members_ok_read(1) [OF ok]]) (use len size in \<open>simp_all add: max_nesting_def\<close>)
  moreover have "report_says t (map (\<lambda>(key, t, v). (key, v)) ?xs)"
    using us(4) w
    by (auto simp: report_says_def text_members_def to_valid_id map_of_map map_of_eq_None_iff case_prod_beta'
        split: if_splits)
  ultimately show ?thesis
    using that [OF eq] members_ok_read(2) [OF ok] by (simp add: readable_report_def members_value_def)
qed

lemma report_fits:
  assumes "blob_reads t"
  shows "\<exists>data. termination_data t = Some data \<and> length data \<le> 4096 \<and> readable_report t data"
proof -
  obtain d where d: "termination_json t = Some d" "readable_report t d"
    using assms by (rule termination_json_reads)
  have "blob_reads (trimmed_blob t)" using assms by (simp add: blob_reads_def trimmed_blob_def)
  then obtain d1 where d1: "termination_json (trimmed_blob t) = Some d1" "readable_report (trimmed_blob t) d1"
    by (rule termination_json_reads)
  have "blob_reads (minimal_blob t)" using assms by (simp add: blob_reads_def minimal_blob_def)
  then obtain d2 where d2: "termination_json (minimal_blob t) = Some d2" "readable_report (minimal_blob t) d2"
    by (rule termination_json_reads)
  have m: "minimal_json t = d2" using d2 by (simp add: minimal_json_def)
  have "length d2 \<le> 4096"
    using minimal_length assms unfolding m [symmetric] by (simp add: blob_reads_def)
  moreover have "readable_report t d1 = readable_report (trimmed_blob t) d1"
    and "readable_report t d2 = readable_report (minimal_blob t) d2"
    by (simp_all add: readable_report_def report_says_def trimmed_blob_def minimal_blob_def)
  ultimately show ?thesis
    using d d1 d2 m by (auto simp: termination_data_def maxTerminationLogBytes_def)
qed



end
