(* ===== verification/OutcomeHandover.thy ===== *)
theory OutcomeHandover
  imports OutcomeProperties RunProperties
begin

text \<open>
  From the outcome of a stage in the harness to the status of the run in the controller.
\<close>

lemma nothing_to_read: "json_value n d [] = None"
  by (cases n) (simp_all add: json_value.simps skip_ws_def has_prefix_def json_number_def take_digits_def)

lemma readable_decodes: "readable_report t data \<Longrightarrow> decodes_to_map data \<and> data \<noteq> []"
  using nothing_to_read by (auto simp: readable_report_def decodes_to_map_def json_unmarshal_def)

lemma outcome_decides:
  assumes "conditions_ok L"
    and "agentContainerTermination p = Some \<lparr>tm_exit = outcome_exit_code out, tm_message = data\<rparr>"
  shows "phase_of (setTerminalOutcome L r p reason failure) = (if out = OutSucceeded then Succeeded else Failed) \<and>
    (\<exists>c. find_condition L (st_conditions (ar_status (setTerminalOutcome L r p reason failure))) cond_succeeded = Some c \<and>
      cd_reason c = (case out of OutSucceeded \<Rightarrow> reason_run_succeeded | OutLimitReached \<Rightarrow> reason_limit_reached
                     | OutFailed \<Rightarrow> reason_run_failed))"
proof -
  have e: "agentExitCode p = Some (outcome_exit_code out)" using assms(2) by (simp add: agentExitCode_def)
  show ?thesis using assms(1)
    by (cases out; simp add: setTerminalOutcome_def e Let_def setRunSucceeded_def set_run_condition_def run_simps
        find_set_type harness_exit_limit_reached_def harness_exit_succeeded_def)
qed

text \<open>What the harness decided reaches the controller: when the agent container of a run ended with the
  exit code of a stage's outcome and the report of that stage as its termination message, the controller sets
  the phase and the reason of that very outcome and keeps the whole report as the run's termination data.\<close>

theorem outcome_reaches_controller:
  assumes "conditions_ok L" and "blob_reads t" and "termination_data t = Some data"
    and "agentContainerTermination p = Some \<lparr>tm_exit = outcome_exit_code out, tm_message = data\<rparr>"
  shows "phase_of (setTerminalOutcome L r p reason failure) = (if out = OutSucceeded then Succeeded else Failed) \<and>
    (\<exists>c. find_condition L (st_conditions (ar_status (setTerminalOutcome L r p reason failure))) cond_succeeded = Some c \<and>
      cd_reason c = (case out of OutSucceeded \<Rightarrow> reason_run_succeeded | OutLimitReached \<Rightarrow> reason_limit_reached
                     | OutFailed \<Rightarrow> reason_run_failed)) \<and>
    terminationDataFromPod p = Some data"
proof -
  have "readable_report t data" using report_fits [OF assms(2)] assms(3) by auto
  then have "terminationDataFromPod p = Some data"
    using readable_decodes assms(4) by (simp add: terminationDataFromPod_def)
  with outcome_decides [OF assms(1,4)] show ?thesis by blast
qed

definition limit_report :: termination_blob where
  "limit_report = \<lparr>tb_exit_code = 2, tb_outcome = ''limitReached'', tb_limit_reached = ''maxTurns'',
     tb_stop_reason = ''end_turn'', tb_usage = None\<rparr>"

definition ended_pod :: "string \<Rightarrow> pod" where
  "ended_pod data = (exited_pod 2)\<lparr>pod_statuses := [\<lparr>cs_name = ''agent'', cs_waiting = None, cs_running = None,
     cs_terminated = Some \<lparr>tm_exit = 2, tm_message = data\<rparr>\<rparr>]\<rparr>"

theorem outcome_reaches_controller_witness:
  "\<exists>data. termination_data limit_report = Some data \<and>
     terminationDataFromPod (Some (ended_pod data)) = Some data \<and>
     phase_of (setTerminalOutcome sample_lib sample_run (Some (ended_pod data)) ''PodFailed'' []) = Failed"
proof -
  have ok: "blob_reads limit_report"
    using range_eqI [of _ outcome_text OutLimitReached] range_eqI [of _ limit_text LimitMaxTurns]
    by (simp add: blob_reads_def limit_report_def in_int64_def report_word_def)
  obtain data where d: "termination_data limit_report = Some data" using report_fits [OF ok] by auto
  have t: "agentContainerTermination (Some (ended_pod data)) =
      Some \<lparr>tm_exit = outcome_exit_code OutLimitReached, tm_message = data\<rparr>"
    by (simp add: agentContainerTermination_def ended_pod_def agent_container_def)
  show ?thesis
    using d outcome_reaches_controller [OF sample_conditions_ok ok d t] by auto
qed

end
