(* ===== verification/StageHandover.thy ===== *)
theory StageHandover
  imports StageSamples OutcomeHandover
begin

text \<open>
  The end of a stage as the controller sees it: exit code and termination report of the harness, phase and reason
  of the run.
\<close>

text \<open>C28: Whatever happens in a stage, the exit code of the process, the report it leaves and the verdict of the stage
  agree, and the controller that reads that exit code from the pod gives the run the phase the harness meant:
  Succeeded exactly when the stage succeeded, with the reason of a limit exactly when one was reached.  The report
  always names its exit code and outcome.\<close>

theorem stage_reaches_controller:
  assumes "conditions_ok L" and "runStage IO w = (en, w')"
    and "agentContainerTermination p = Some \<lparr>tm_exit = main_exit_code en, tm_message = data\<rparr>"
  shows "tb_exit_code (final_report IO en) = main_exit_code en \<and>
    (\<exists>out. main_exit_code en = outcome_exit_code out \<and> tb_outcome (final_report IO en) = outcome_text out) \<and>
    phase_of (setTerminalOutcome L r p reason failure) = (if en_succeeded en then Succeeded else Failed) \<and>
    (\<exists>c. find_condition L (st_conditions (ar_status (setTerminalOutcome L r p reason failure))) cond_succeeded = Some c \<and>
       (cd_reason c = reason_run_succeeded \<longleftrightarrow> en_succeeded en) \<and>
       (cd_reason c = reason_limit_reached \<longleftrightarrow> main_exit_code en = 2))"
proof -
  obtain out where a: "agrees out en" using settled_stage [of IO w] assms(2) by (auto simp: settled_def)
  have code: "main_exit_code en = outcome_exit_code out"
    using a by (cases out) (auto simp: agrees_def main_exit_code_def)
  have report: "tb_exit_code (final_report IO en) = main_exit_code en"
    "tb_outcome (final_report IO en) = outcome_text out"
    using a code by (auto simp: agrees_def final_report_def split: option.split)
  have t: "agentContainerTermination p = Some \<lparr>tm_exit = outcome_exit_code out, tm_message = data\<rparr>"
    using assms(3) code by simp
  from outcome_decides [OF assms(1) t, of r reason failure] obtain c where
    phase: "phase_of (setTerminalOutcome L r p reason failure) = (if out = OutSucceeded then Succeeded else Failed)"
    and c: "find_condition L (st_conditions (ar_status (setTerminalOutcome L r p reason failure))) cond_succeeded = Some c"
    "cd_reason c = (case out of OutSucceeded \<Rightarrow> reason_run_succeeded | OutLimitReached \<Rightarrow> reason_limit_reached
                     | OutFailed \<Rightarrow> reason_run_failed)" by blast
  have s: "en_succeeded en \<longleftrightarrow> out = OutSucceeded" using a by (simp add: agrees_def)
  have two: "main_exit_code en = 2 \<longleftrightarrow> out = OutLimitReached" using code by (cases out) auto
  have "(cd_reason c = reason_run_succeeded \<longleftrightarrow> en_succeeded en) \<and> (cd_reason c = reason_limit_reached \<longleftrightarrow> main_exit_code en = 2)"
    using c(2) s two
    by (cases out) (simp_all add: reason_run_succeeded_def reason_limit_reached_def reason_run_failed_def)
  with report phase c(1) s code show ?thesis by auto
qed

definition finished_pod :: pod where
  "finished_pod = (exited_pod 2)\<lparr>pod_statuses := [\<lparr>cs_name = ''agent'', cs_waiting = None, cs_running = None,
     cs_terminated = Some \<lparr>tm_exit = 0, tm_message = []\<rparr>\<rparr>]\<rparr>"

theorem stage_reaches_controller_witness:
  "\<exists>en. runStage (log_io False) [] = (en, sample_log) \<and> main_exit_code en = 0 \<and>
     (phase_of (setTerminalOutcome sample_lib sample_run (Some finished_pod) ''PodSucceeded'' []) = Succeeded \<longleftrightarrow>
       en_succeeded en)"
proof -
  obtain en where r: "runStage (log_io False) [] = (en, sample_log)" and c: "main_exit_code en = 0"
    using sample_run by blast
  have t: "agentContainerTermination (Some finished_pod) = Some \<lparr>tm_exit = main_exit_code en, tm_message = []\<rparr>"
    by (simp add: agentContainerTermination_def finished_pod_def agent_container_def c)
  from stage_reaches_controller [OF sample_conditions_ok r t]
  have "phase_of (setTerminalOutcome sample_lib sample_run (Some finished_pod) ''PodSucceeded'' []) =
      (if en_succeeded en then Succeeded else Failed)" by blast
  with r c show ?thesis by auto
qed

end
