(* ===== verification/TeeProperties.thy ===== *)
theory TeeProperties
  imports Tee "HOL-Library.Multiset"
begin

text \<open>
  The viewer relay under every interleaving of its goroutines: each ask lives the life of a small automaton,
  buffers stay bounded, viewers cannot get at the run's session but by the relays meant for it.
\<close>

section \<open>Steps and traces\<close>

datatype tee_event = Asked "string option" | Frame nat json relay | Gave string json | GaveUp string | Quiet

inductive tee_step :: "tee_config \<Rightarrow> tee_state \<Rightarrow> tee_event \<Rightarrow> tee_state \<Rightarrow> bool" for c where
  Permission: "ask_permission c params s = (i, s') \<Longrightarrow> tee_step c s (Asked i) s'"
| Elicitation: "ask_elicitation c params s = (i, s') \<Longrightarrow> tee_step c s (Asked i) s'"
| Answered: "ask_answered i s = Some (r, s') \<Longrightarrow> tee_step c s (Gave i r) s'"
| Stopped: "ask_stopped c i s = Some s' \<Longrightarrow> tee_step c s (GaveUp i) s'"
| TimedOut: "ask_timed_out c i s = Some s' \<Longrightarrow> tee_step c s (GaveUp i) s'"
| FromViewer: "v < te_viewers s \<Longrightarrow> client_frame c v data s = (r, s') \<Longrightarrow> tee_step c s (Frame v data r) s'"
| SteerReply: "v < te_viewers s \<Longrightarrow> tee_step c s Quiet (relaySteer c v i reply s)"
| RunUpdate: "tee_step c s Quiet (EmitRunUpdate c update s)"
| RunNotice: "tee_step c s Quiet (EmitRunNotice c message s)"
| Notification: "tee_step c s Quiet (tee_notification c m frame s)"
| Upstream: "v < te_viewers s \<Longrightarrow> tee_step c s Quiet (upstream_frame c v frame s)"
| Accept: "tee_step c s Quiet (snd (accept_viewer c s))"
| Attach: "v < te_viewers s \<Longrightarrow> tee_step c s Quiet (snd (addViewer v s))"
| Detach: "v < te_viewers s \<Longrightarrow> tee_step c s Quiet (removeViewer v s)"
| Shutdown: "v < te_viewers s \<Longrightarrow> tee_step c s Quiet (shutdown_viewer v s)"
| Write: "tee_step c s Quiet (write_next v s)"
| Stop: "tee_step c s Quiet (stop_tee s)"
| Run: "tee_step c s Quiet (AttachRun sid s)"
| Active: "tee_step c s Quiet (SetRunActive b s)"

text \<open>The events from the start, oldest first, and the state they lead to.\<close>

inductive tee_trace :: "tee_config \<Rightarrow> tee_event list \<Rightarrow> tee_state \<Rightarrow> bool" for c where
  Begin: "tee_trace c [] new_tee"
| Then: "tee_trace c es s \<Longrightarrow> tee_step c s e s' \<Longrightarrow> tee_trace c (es @ [e]) s'"

section \<open>What queueing leaves alone\<close>

definition asks_of :: "tee_state \<Rightarrow> string list \<times> (string \<times> json) list \<times> (string \<times> string \<times> json option) list \<times> nat"
  where "asks_of s = (te_perms s, te_pending s, te_parked s, te_perm_seq s)"

definition others_of :: "tee_state \<Rightarrow> nat list \<times> bool \<times> bool \<times> string option \<times> bool \<times> json list \<times> string list" where
  "others_of s = (te_attached s, te_stopped s, te_responsive s, te_run_session s, te_run_active s,
     te_replay s, te_replay_keys s)"

lemma enqueue_keeps [simp]: "asks_of (enqueue c f v s) = asks_of s" "others_of (enqueue c f v s) = others_of s"
  by (simp_all add: enqueue_def asks_of_def others_of_def)

lemma fold_enqueue_keeps [simp]:
  "asks_of (fold (enqueue c f) vs s) = asks_of s" "others_of (fold (enqueue c f) vs s) = others_of s"
  by (induction vs arbitrary: s) simp_all

lemma backlog_keeps [simp]:
  "asks_of (fold (\<lambda>f. enqueue c f v) fs s) = asks_of s" "others_of (fold (\<lambda>f. enqueue c f v) fs s) = others_of s"
  by (induction fs arbitrary: s) simp_all

lemma broadcast_keeps [simp]: "asks_of (broadcast c f s) = asks_of s" "others_of (broadcast c f s) = others_of s"
  by (simp_all add: broadcast_def)

lemma respond_keeps [simp]: "asks_of (respond c v i a s) = asks_of s" "others_of (respond c v i a s) = others_of s"
  by (simp_all add: respond_def)

lemma resolution_keeps [simp]:
  "asks_of (emitAskResolution c i r s) = asks_of s" "others_of (emitAskResolution c i r s) = others_of s"
  by (simp_all add: emitAskResolution_def)

lemma asks_of_fields:
  "asks_of s = asks_of t \<longleftrightarrow> te_perms s = te_perms t \<and> te_pending s = te_pending t \<and> te_parked s = te_parked t \<and>
     te_perm_seq s = te_perm_seq t"
  by (auto simp: asks_of_def)

lemma asks_of_updates [simp]:
  "asks_of (s\<lparr>te_responsive := b\<rparr>) = asks_of s" "asks_of (s\<lparr>te_viewers := n\<rparr>) = asks_of s"
  "asks_of (s\<lparr>te_queue := q\<rparr>) = asks_of s" "asks_of (s\<lparr>te_closed := d\<rparr>) = asks_of s"
  "asks_of (s\<lparr>te_attached := vs\<rparr>) = asks_of s" "asks_of (s\<lparr>te_stopped := b\<rparr>) = asks_of s"
  "asks_of (s\<lparr>te_run_session := r\<rparr>) = asks_of s" "asks_of (s\<lparr>te_run_active := b\<rparr>) = asks_of s"
  "asks_of (s\<lparr>te_replay := fs\<rparr>) = asks_of s" "asks_of (s\<lparr>te_replay_keys := ks\<rparr>) = asks_of s"
  by (simp_all add: asks_of_def)

lemma record_replay_asks [simp]: "asks_of (record_replay k f s) = asks_of s"
  by (simp add: record_replay_def split: prod.splits)

lemma emit_asks [simp]: "asks_of (emitRunFrame c m u k s) = asks_of s"
  by (simp add: emitRunFrame_def Let_def split: option.splits)

text \<open>The steps that open, answer or end no ask leave the asks as they are.\<close>

lemma intercept_asks: "interceptRunFrame c v data s = (r, s') \<Longrightarrow> asks_of s' = asks_of s"
  by (auto simp: interceptRunFrame_def split: option.splits if_splits)

lemma quiet_asks: "tee_step c s Quiet s' \<Longrightarrow> asks_of s' = asks_of s"
  by (cases rule: tee_step.cases, assumption)
    (auto simp: relaySteer_def EmitRunUpdate_def EmitRunNotice_def tee_notification_def upstream_frame_def
      accept_viewer_def addViewer_def removeViewer_def shutdown_viewer_def write_next_def stop_tee_def AttachRun_def
      SetRunActive_def Let_def)

section \<open>The life of an ask\<close>

text \<open>
  An ask is offered once, waits, holds the first result a viewer gives, and is over when the waiting call took
  that result or gave up.  \<^const>\<open>None\<close> marks an event that does not belong in a life.
\<close>

datatype ask_life = Unasked | Waiting | Holding json | Over

definition viewer_answer_to :: "string \<Rightarrow> json \<Rightarrow> json option" where
  "viewer_answer_to i data =
     (case harnessAskAnswer data of Some (j, Some r) \<Rightarrow> if j = i then Some r else None | _ \<Rightarrow> None)"

fun ask_step :: "string \<Rightarrow> ask_life \<Rightarrow> tee_event \<Rightarrow> ask_life option" where
  "ask_step i st (Asked j) =
     (if j \<noteq> Some i then Some st else if st = Unasked then Some Waiting else None)"
| "ask_step i st (Frame v data r) =
     (case viewer_answer_to i data of
        Some res \<Rightarrow> Some (if st = Waiting then Holding res else st)
      | None \<Rightarrow> Some st)"
| "ask_step i st (Gave j r) = (if j \<noteq> i then Some st else if st = Holding r then Some Over else None)"
| "ask_step i st (GaveUp j) =
     (if j \<noteq> i then Some st else case st of Waiting \<Rightarrow> Some Over | Holding r \<Rightarrow> Some Over | _ \<Rightarrow> None)"
| "ask_step i st Quiet = Some st"

fun ask_run :: "string \<Rightarrow> ask_life \<Rightarrow> tee_event list \<Rightarrow> ask_life option" where
  "ask_run i st [] = Some st"
| "ask_run i st (e # es) = (case ask_step i st e of None \<Rightarrow> None | Some st' \<Rightarrow> ask_run i st' es)"

lemma ask_run_append:
  "ask_run i st (es @ es') = (case ask_run i st es of None \<Rightarrow> None | Some st' \<Rightarrow> ask_run i st' es')"
  by (induction es arbitrary: st) (auto split: option.splits)

text \<open>Ids are allocated in sequence, never twice.\<close>

definition allocated :: "nat \<Rightarrow> string \<Rightarrow> bool" where
  "allocated n i \<longleftrightarrow> (\<exists>k \<in> {''kperm'', ''kask''}. \<exists>m \<le> n. i = ask_id k m)"

lemma ask_id_inject:
  assumes "k \<in> {''kperm'', ''kask''}" and "l \<in> {''kperm'', ''kask''}" and "ask_id k n = ask_id l m"
  shows "k = l \<and> n = m"
  using assms by (elim insertE; simp add: ask_id_def nat_text_inject)

lemma fresh_id:
  assumes k: "k \<in> {''kperm'', ''kask''}"
  shows "\<not> allocated n (ask_id k (Suc n))"
proof
  assume "allocated n (ask_id k (Suc n))"
  then obtain l m where "l \<in> {''kperm'', ''kask''}" and "m \<le> n" and "ask_id k (Suc n) = ask_id l m"
    unfolding allocated_def by blast
  then have "Suc n = m" using ask_id_inject [OF k] by blast
  with \<open>m \<le> n\<close> show False by simp
qed

lemma allocated_Suc: "allocated n i \<Longrightarrow> allocated (Suc n) i"
  by (auto simp: allocated_def intro: le_SucI)

definition parked_as :: "tee_state \<Rightarrow> string \<Rightarrow> json option option" where
  "parked_as s i = map_option snd (map_of (te_parked s) i)"

definition asks_ok :: "tee_state \<Rightarrow> bool" where
  "asks_ok s \<longleftrightarrow>
     map fst (te_pending s) = te_perms s \<and>
     (\<forall>i. i \<in> set (te_perms s) \<longleftrightarrow> parked_as s i = Some None) \<and>
     (\<forall>i. parked_as s i \<noteq> None \<longrightarrow> allocated (te_perm_seq s) i)"

definition lives :: "tee_state \<Rightarrow> string \<Rightarrow> ask_life \<Rightarrow> bool" where
  "lives s i st \<longleftrightarrow>
     (case st of
        Unasked \<Rightarrow> parked_as s i = None
      | Waiting \<Rightarrow> parked_as s i = Some None
      | Holding r \<Rightarrow> parked_as s i = Some (Some r)
      | Over \<Rightarrow> parked_as s i = None \<and> allocated (te_perm_seq s) i)"

lemma same_asks:
  assumes "asks_of s = asks_of t"
  shows "asks_ok s = asks_ok t" and "lives s i st = lives t i st"
  using assms by (auto simp: asks_of_fields asks_ok_def lives_def parked_as_def split: ask_life.splits)

lemma map_without_key: "map_of (filter (\<lambda>p. fst p \<noteq> i) ps) j = (if j = i then None else map_of ps j)"
  by (induction ps) auto

lemma map_of_fill:
  "map_of (fill_channel i r ps) j = (if j = i then map_option (\<lambda>(k, q). (k, Some r)) (map_of ps j) else map_of ps j)"
  by (induction ps) (auto simp: fill_channel_def)

lemma parked_as_cong: "asks_of s = asks_of t \<Longrightarrow> parked_as s = parked_as t"
  by (auto simp: parked_as_def asks_of_fields)

lemma parked_close: "parked_as (close_ask i s) j = (if j = i then None else parked_as s j)"
  by (simp add: parked_as_def close_ask_def map_without_key)

lemma keys_other: "map fst (filter (\<lambda>p. fst p \<noteq> i) ps) = removeAll i (map fst ps)"
  by (induction ps) auto

lemma close_fields:
  "te_perms (close_ask i s) = removeAll i (te_perms s)" "te_perm_seq (close_ask i s) = te_perm_seq s"
  "map fst (te_pending (close_ask i s)) = removeAll i (map fst (te_pending s))"
  by (simp_all add: close_ask_def keys_other)

text \<open>An ask ends: only its own life moves on.\<close>

lemma close_life:
  assumes "asks_ok s" and "lives s i st" and "parked_as s j = Some p"
  shows "asks_ok (close_ask j s)"
    and "lives (close_ask j s) i (if i = j then Over else st)"
  using assms by (auto simp: asks_ok_def lives_def parked_close close_fields split: ask_life.splits)

lemma begin_cases:
  assumes "begin_ask c k m params s = (i, s')"
  shows "asks_of s' = asks_of (s\<lparr>te_perm_seq := Suc (te_perm_seq s)\<rparr>) \<and> i = None \<or>
    i = Some (ask_id k (Suc (te_perm_seq s))) \<and>
    (\<exists>f. asks_of s' = (the i # te_perms s, (the i, f) # te_pending s, (the i, k, None) # te_parked s,
      Suc (te_perm_seq s)))"
  using assms by (auto simp: begin_ask_def Let_def asks_of_def [of "_\<lparr>te_perms := _, te_pending := _, te_parked := _\<rparr>"]
      split: if_splits)

lemma begin_life:
  assumes b: "begin_ask c k m params s = (a, s')" and k: "k \<in> {''kperm'', ''kask''}"
    and ok: "asks_ok s" and l: "lives s i st"
  shows "asks_ok s' \<and> (\<exists>st'. ask_step i st (Asked a) = Some st' \<and> lives s' i st')"
proof -
  let ?n = "te_perm_seq s"
  have fresh: "parked_as s (ask_id k (Suc ?n)) = None" using fresh_id [OF k] ok by (auto simp: asks_ok_def)
  from begin_cases [OF b] show ?thesis
  proof (elim disjE conjE exE)
    assume s': "asks_of s' = asks_of (s\<lparr>te_perm_seq := Suc ?n\<rparr>)" and a: "a = None"
    have "asks_ok s'" and "lives s' i st"
      using ok l s' allocated_Suc
      by (auto simp: asks_ok_def lives_def parked_as_def asks_of_fields split: ask_life.splits)
    with a show ?thesis by simp
  next
    fix f
    let ?a = "ask_id k (Suc ?n)"
    assume a: "a = Some ?a"
      and "asks_of s' = (the a # te_perms s, (the a, f) # te_pending s, (the a, k, None) # te_parked s, Suc ?n)"
    then have s': "te_perms s' = ?a # te_perms s" "te_pending s' = (?a, f) # te_pending s"
      "te_parked s' = (?a, k, None) # te_parked s" "te_perm_seq s' = Suc ?n"
      by (simp_all add: asks_of_def)
    have p: "parked_as s' j = (if j = ?a then Some None else parked_as s j)" for j by (simp add: parked_as_def s')
    have new: "allocated (Suc ?n) ?a" using k unfolding allocated_def by blast
    have "asks_ok s'" using ok fresh new allocated_Suc by (auto simp: asks_ok_def p s')
    moreover have "\<exists>st'. ask_step i st (Asked a) = Some st' \<and> lives s' i st'"
    proof (cases "i = ?a")
      case True
      then have "st = Unasked" using l ok fresh fresh_id [OF k, of ?n] by (auto simp: lives_def split: ask_life.splits)
      with True a show ?thesis by (simp add: lives_def p)
    next
      case False
      with l a allocated_Suc show ?thesis by (auto simp: lives_def p s' split: ask_life.splits)
    qed
    ultimately show ?thesis ..
  qed
qed

lemma resolve_life:
  assumes ok: "asks_ok s" and l: "lives s i st"
  shows "asks_ok (resolveAsk c j (Some r) s)"
    and "lives (resolveAsk c j (Some r) s) i (if i = j \<and> st = Waiting then Holding r else st)"
proof -
  let ?t = "resolveAsk c j (Some r) s"
  have "asks_ok ?t \<and> lives ?t i (if i = j \<and> st = Waiting then Holding r else st)"
  proof (cases "j \<in> set (te_perms s)")
    case False
    then have t: "asks_of ?t = asks_of s" by (simp add: resolveAsk_def)
    have "asks_ok ?t" and "lives ?t i st" using ok l by (simp_all add: same_asks [OF t])
    moreover from False have "\<not> (i = j \<and> st = Waiting)" using ok l by (auto simp: asks_ok_def lives_def)
    ultimately show ?thesis by auto
  next
    case True
    let ?u = "s\<lparr>te_responsive := True, te_perms := removeAll j (te_perms s),
      te_pending := filter (\<lambda>p. fst p \<noteq> j) (te_pending s), te_parked := fill_channel j r (te_parked s)\<rparr>"
    have t: "asks_of ?t = asks_of ?u" using True by (simp add: resolveAsk_def)
    have pj: "parked_as s j = Some None" using True ok by (simp add: asks_ok_def)
    then have p: "parked_as ?u m = (if m = j then Some (Some r) else parked_as s m)" for m
      by (auto simp: parked_as_def map_of_fill)
    have "asks_ok ?u" using ok pj by (auto simp: asks_ok_def p keys_other)
    moreover have "lives ?u i (if i = j \<and> st = Waiting then Holding r else st)"
      using l pj by (auto simp: lives_def p split: ask_life.splits)
    ultimately show ?thesis using same_asks [OF t] by blast
  qed
  then show "asks_ok ?t" and "lives ?t i (if i = j \<and> st = Waiting then Holding r else st)" by blast+
qed

lemma frame_life:
  assumes f: "client_frame c v data s = (r, s')" and ok: "asks_ok s" and l: "lives s i st"
  shows "asks_ok s' \<and> (\<exists>st'. ask_step i st (Frame v data r) = Some st' \<and> lives s' i st')"
proof (cases "harnessAskAnswer data")
  case None
  then have t: "asks_of s' = asks_of s" using f intercept_asks by (simp add: client_frame_def)
  show ?thesis using None ok l by (simp add: viewer_answer_to_def same_asks [OF t])
next
  case (Some a)
  obtain j res where a: "a = (j, res)" by fastforce
  have s': "s' = resolveAsk c j res s" using f Some a by (simp add: client_frame_def)
  show ?thesis
  proof (cases res)
    case None
    then have t: "asks_of s' = asks_of s" by (simp add: s' resolveAsk_def)
    show ?thesis using Some a None ok l by (simp add: viewer_answer_to_def same_asks [OF t])
  next
    case (Some q)
    then show ?thesis using resolve_life [OF ok l, of c j q] \<open>harnessAskAnswer data = Some a\<close> a s'
      by (auto simp: viewer_answer_to_def split: if_splits)
  qed
qed

lemma quiet_life:
  assumes "tee_step c s Quiet s'" and "asks_ok s" and "lives s i st"
  shows "asks_ok s' \<and> lives s' i st"
  using assms(2,3) by (simp add: same_asks [OF quiet_asks [OF assms(1)]])

lemma step_life:
  assumes "tee_step c s e s'" and ok: "asks_ok s" and l: "lives s i st"
  shows "asks_ok s' \<and> (\<exists>st'. ask_step i st e = Some st' \<and> lives s' i st')"
  using assms(1)
proof (cases rule: tee_step.cases)
  case (Permission params a)
  then show ?thesis using begin_life [OF _ _ ok l] by (simp add: ask_permission_def)
next
  case (Elicitation params a)
  then show ?thesis using begin_life [OF _ _ ok l] by (simp add: ask_elicitation_def)
next
  case (Answered j r)
  then have p: "parked_as s j = Some (Some r)" and s': "s' = close_ask j s"
    by (auto simp: ask_answered_def parked_as_def split: option.splits)
  have "i = j \<Longrightarrow> st = Holding r" using l p by (auto simp: lives_def split: ask_life.splits)
  then show ?thesis using close_life [OF ok l p] Answered(1) s' by auto
next
  case (Stopped j)
  then obtain t k q where s': "s' = close_ask j t" and t: "asks_of t = asks_of s" and "map_of (te_parked s) j = Some (k, q)"
    by (auto simp: ask_stopped_def split: option.splits if_splits)
  then have p: "parked_as t j = Some q" using parked_as_cong [OF t] by (simp add: parked_as_def)
  then have "i = j \<Longrightarrow> st = Waiting \<or> (\<exists>r. st = Holding r)"
    using l parked_as_cong [OF t] by (auto simp: lives_def split: ask_life.splits)
  then show ?thesis using close_life [of t i st j q] ok l p same_asks [OF t] Stopped(1) s' by auto
next
  case (TimedOut j)
  then obtain t k q where s': "s' = close_ask j t" and t: "asks_of t = asks_of s" and "map_of (te_parked s) j = Some (k, q)"
    by (auto simp: ask_timed_out_def split: option.splits if_splits)
  then have p: "parked_as t j = Some q" using parked_as_cong [OF t] by (simp add: parked_as_def)
  then have "i = j \<Longrightarrow> st = Waiting \<or> (\<exists>r. st = Holding r)"
    using l parked_as_cong [OF t] by (auto simp: lives_def split: ask_life.splits)
  then show ?thesis using close_life [of t i st j q] ok l p same_asks [OF t] TimedOut(1) s' by auto
next
  case (FromViewer v data r)
  then show ?thesis using frame_life [OF _ ok l] by simp
qed (use assms(1) ok l quiet_life in auto)

lemma start_life: "asks_ok new_tee" "lives new_tee i Unasked"
  by (simp_all add: new_tee_def asks_ok_def lives_def parked_as_def)

lemma trace_life:
  "tee_trace c es s \<Longrightarrow> asks_ok s \<and> (\<exists>st. ask_run i Unasked es = Some st \<and> lives s i st)"
proof (induction rule: tee_trace.induct)
  case Begin
  then show ?case by (simp add: start_life)
next
  case (Then es s e s')
  then obtain st where r: "ask_run i Unasked es = Some st" and l: "lives s i st" and ok: "asks_ok s" by blast
  from step_life [OF Then(2) ok l] r show ?case by (auto simp: ask_run_append)
qed

text \<open>C34: However viewers, asks, their time limits and the shutdown interleave, every ask refines a small
  automaton: it is offered under an id never used before, the first result a viewer gives for it while it waits is
  the one its caller gets, later and unknown answers change nothing, and it ends once.  In every state it still
  takes an answer, and is shown to viewers that attach, exactly while it waits without one.\<close>

theorem asks_refine_life:
  assumes "tee_trace c es s"
  shows "\<exists>st. ask_run i Unasked es = Some st \<and>
    (st = Waiting \<longleftrightarrow> i \<in> set (te_perms s)) \<and>
    (st = Waiting \<longleftrightarrow> i \<in> fst ` set (te_pending s)) \<and>
    (\<forall>r. st = Holding r \<longleftrightarrow> ask_answered i s = Some (r, close_ask i s))"
proof -
  from trace_life [OF assms] obtain st where ok: "asks_ok s" and r: "ask_run i Unasked es = Some st"
    and l: "lives s i st" by blast
  have w: "st = Waiting \<longleftrightarrow> i \<in> set (te_perms s)"
    using ok l by (auto simp: asks_ok_def lives_def split: ask_life.splits)
  have "fst ` set (te_pending s) = set (te_perms s)" using ok by (metis asks_ok_def set_map)
  moreover have "st = Holding q \<longleftrightarrow> ask_answered i s = Some (q, close_ask i s)" for q
    using l by (cases "map_of (te_parked s) i")
      (auto simp: lives_def parked_as_def ask_answered_def split: ask_life.splits option.splits)
  ultimately show ?thesis using r w by auto
qed

section \<open>Bounded buffers\<close>

definition queues_ok :: "tee_config \<Rightarrow> tee_state \<Rightarrow> bool" where
  "queues_ok c s \<longleftrightarrow> (\<forall>v. int (length (te_queue s v)) \<le> max 0 (tc_queue_cap c))"

text \<open>Frames and keys run in parallel, at most the capacity of them, and at most one plan.\<close>

definition replay_ok :: "tee_state \<Rightarrow> bool" where
  "replay_ok s \<longleftrightarrow>
     length (te_replay s) = length (te_replay_keys s) \<and> length (te_replay s) \<le> replayCap \<and>
     (\<forall>k. k \<noteq> [] \<longrightarrow> count_list (te_replay_keys s) k \<le> 1)"

lemma enqueue_queues: "queues_ok c s \<Longrightarrow> queues_ok c (enqueue c f v s)"
  by (auto simp: queues_ok_def enqueue_def)

lemma fold_enqueue_queues: "queues_ok c s \<Longrightarrow> queues_ok c (fold (enqueue c f) vs s)"
  by (induction vs arbitrary: s) (simp_all add: enqueue_queues)

lemma backlog_queues: "queues_ok c s \<Longrightarrow> queues_ok c (fold (\<lambda>f. enqueue c f v) fs s)"
  by (induction fs arbitrary: s) (simp_all add: enqueue_queues)

lemma broadcast_queues: "queues_ok c s \<Longrightarrow> queues_ok c (broadcast c f s)"
  by (simp add: broadcast_def fold_enqueue_queues)

lemma respond_queues: "queues_ok c s \<Longrightarrow> queues_ok c (respond c v i a s)"
  by (simp add: respond_def enqueue_queues)

lemma resolution_queues: "queues_ok c s \<Longrightarrow> queues_ok c (emitAskResolution c i r s)"
  by (simp add: emitAskResolution_def broadcast_queues)

lemmas queue_rules = enqueue_queues backlog_queues broadcast_queues respond_queues resolution_queues

lemma queues_cong: "te_queue s = te_queue t \<Longrightarrow> queues_ok c s = queues_ok c t"
  by (simp add: queues_ok_def)

lemma drop_key_length: "length ks = length fs \<Longrightarrow> drop_key k ks fs = (ks', fs') \<Longrightarrow>
    length ks' = length fs' \<and> length ks' \<le> length ks"
  by (induction k ks fs arbitrary: ks' fs' rule: drop_key.induct) (auto split: prod.splits if_splits)

lemma drop_key_count: "length ks = length fs \<Longrightarrow> drop_key k ks fs = (ks', fs') \<Longrightarrow>
    count_list ks' j = count_list ks j - (if j = k then 1 else 0)"
proof (induction k ks fs arbitrary: ks' fs' rule: drop_key.induct)
  case (1 k x ks f fs)
  obtain ks1 fs1 where d: "drop_key k ks fs = (ks1, fs1)" by fastforce
  show ?case
  proof (cases "x = k")
    case True
    with 1 show ?thesis by auto
  next
    case False
    then show ?thesis using 1(1) [OF False _ d] 1(2,3) d by auto
  qed
qed auto

lemma length_keep_last: "length (keep_last n xs) = min n (length xs)"
  by (simp add: keep_last_def)

lemma count_keep_last: "count_list (keep_last n xs) k \<le> count_list xs k"
proof -
  have "count_list xs k = count_list (take m xs) k + count_list (drop m xs) k" for m
    by (metis append_take_drop_id count_list_append)
  then show ?thesis unfolding keep_last_def by (metis le_add2)
qed

lemma length_after_drop:
  assumes "length ks0 = length fs0" and "(if k \<noteq> [] then drop_key k ks0 fs0 else (ks0, fs0)) = (ks, fs)"
  shows "length ks = length fs"
  using assms drop_key_length [OF assms(1), of k ks fs] by (cases "k = []") simp_all

lemma count_after_drop:
  assumes "length ks0 = length fs0" and "count_list ks0 j \<le> 1" and "j \<noteq> []"
    and "(if k \<noteq> [] then drop_key k ks0 fs0 else (ks0, fs0)) = (ks, fs)"
  shows "count_list (ks @ [k]) j \<le> 1"
proof (cases "k = []")
  case True
  with assms show ?thesis by simp
next
  case False
  with assms have "count_list ks j = count_list ks0 j - (if j = k then 1 else 0)" using drop_key_count by simp
  with assms(2) show ?thesis by auto
qed

lemma record_replay_ok:
  assumes "replay_ok s"
  shows "replay_ok (record_replay k f s)"
proof -
  let ?ks = "te_replay_keys s" and ?fs = "te_replay s"
  obtain ks fs where d: "(if k \<noteq> [] then drop_key k ?ks ?fs else (?ks, ?fs)) = (ks, fs)" by fastforce
  have len: "length ks = length fs" using length_after_drop [OF _ d] assms by (simp add: replay_ok_def)
  have "count_list (ks @ [k]) j \<le> 1" if "j \<noteq> []" for j
    using count_after_drop [OF _ _ that d] assms that by (simp add: replay_ok_def)
  then have "count_list (keep_last replayCap (ks @ [k])) j \<le> 1" if "j \<noteq> []" for j
    using that by (meson count_keep_last order.trans)
  moreover have "te_replay (record_replay k f s) = keep_last replayCap (fs @ [f])"
    and "te_replay_keys (record_replay k f s) = keep_last replayCap (ks @ [k])"
    using d by (simp_all add: record_replay_def)
  ultimately show ?thesis using len by (simp add: replay_ok_def length_keep_last)
qed

lemma replay_cong: "others_of s = others_of t \<Longrightarrow> replay_ok s = replay_ok t"
  by (auto simp: others_of_def replay_ok_def)

definition bounded :: "tee_config \<Rightarrow> tee_state \<Rightarrow> bool" where
  "bounded c s \<longleftrightarrow> queues_ok c s \<and> replay_ok s \<and> distinct (te_attached s)"

lemma bounded_same:
  assumes "bounded c s" and "queues_ok c t" and "others_of t = others_of s"
  shows "bounded c t"
  using assms replay_cong [OF assms(3)] by (auto simp: bounded_def others_of_def)

lemma bounded_update [simp]:
  "bounded c (s\<lparr>te_responsive := b\<rparr>) = bounded c s" "bounded c (s\<lparr>te_run_active := b\<rparr>) = bounded c s"
  "bounded c (s\<lparr>te_perm_seq := n\<rparr>) = bounded c s" "bounded c (s\<lparr>te_stopped := b\<rparr>) = bounded c s"
  "bounded c (s\<lparr>te_run_session := r\<rparr>) = bounded c s" "bounded c (s\<lparr>te_perms := ps\<rparr>) = bounded c s"
  "bounded c (s\<lparr>te_pending := fs\<rparr>) = bounded c s" "bounded c (s\<lparr>te_parked := qs\<rparr>) = bounded c s"
  "bounded c (s\<lparr>te_viewers := n\<rparr>) = bounded c s" "bounded c (s\<lparr>te_closed := d\<rparr>) = bounded c s"
  by (simp_all add: bounded_def queues_ok_def replay_ok_def)

lemma bounded_rules:
  assumes "bounded c s"
  shows "bounded c (enqueue c f v s)" "bounded c (broadcast c f s)" "bounded c (respond c v i a s)"
    "bounded c (emitAskResolution c j r s)" "bounded c (fold (\<lambda>f. enqueue c f v) fs s)" "bounded c (close_ask j s)"
proof -
  have q: "queues_ok c s" using assms by (simp add: bounded_def)
  show "bounded c (enqueue c f v s)" "bounded c (broadcast c f s)" "bounded c (respond c v i a s)"
    "bounded c (emitAskResolution c j r s)" "bounded c (fold (\<lambda>f. enqueue c f v) fs s)"
    by (rule bounded_same [OF assms]; simp add: q queue_rules)+
  show "bounded c (close_ask j s)" using assms by (simp add: close_ask_def)
qed

lemma bounded_emit: "bounded c s \<Longrightarrow> bounded c (emitRunFrame c m u k s)"
proof -
  assume b: "bounded c s"
  have "te_queue (record_replay k f s) = te_queue s" "te_attached (record_replay k f s) = te_attached s" for f
    by (simp_all add: record_replay_def split: prod.splits)
  then have "bounded c (record_replay k f s)" for f
    using b record_replay_ok [of s k f] by (simp add: bounded_def queues_ok_def)
  then show ?thesis using b bounded_rules by (simp add: emitRunFrame_def Let_def split: option.splits)
qed

lemma bounded_frame: "client_frame c v data s = (r, s') \<Longrightarrow> bounded c s \<Longrightarrow> bounded c s'"
  using bounded_rules
  by (auto simp: client_frame_def interceptRunFrame_def resolveAsk_def Let_def split: option.splits if_splits)

lemma step_bounded:
  assumes "tee_step c s e s'" and b: "bounded c s"
  shows "bounded c s'"
  using assms(1)
proof (cases rule: tee_step.cases)
  case (FromViewer v data r)
  then show ?thesis using bounded_frame b by blast
next
  case (Write v)
  have "int (length (te_queue s v)) \<le> max 0 (tc_queue_cap c)" using b by (simp add: bounded_def queues_ok_def)
  then have "int (length (te_queue s v) - Suc 0) \<le> max 0 (tc_queue_cap c)" by linarith
  then show ?thesis using b Write by (auto simp: bounded_def queues_ok_def replay_ok_def write_next_def)
next
  case (RunUpdate u)
  then show ?thesis using b bounded_emit by (simp add: EmitRunUpdate_def)
next
  case (RunNotice m)
  then show ?thesis using b bounded_emit by (simp add: EmitRunNotice_def)
next
  case (Attach v)
  then show ?thesis
    using b by (auto simp: addViewer_def bounded_def queues_ok_def replay_ok_def distinct_removeAll split: if_splits)
next
  case (Detach v)
  then show ?thesis
    using b by (auto simp: removeViewer_def bounded_def queues_ok_def replay_ok_def distinct_removeAll)
qed (use b bounded_rules in \<open>auto simp: ask_permission_def ask_elicitation_def begin_ask_def ask_answered_def ask_stopped_def
      ask_timed_out_def relaySteer_def tee_notification_def upstream_frame_def accept_viewer_def shutdown_viewer_def
      stop_tee_def AttachRun_def SetRunActive_def Let_def split: if_splits option.splits\<close>)

section \<open>A viewer that attaches later\<close>

text \<open>Numbers of viewers not accepted yet are unused.\<close>

definition fresh_ok :: "tee_state \<Rightarrow> bool" where
  "fresh_ok s \<longleftrightarrow>
     (\<forall>v \<ge> te_viewers s. te_queue s v = [] \<and> \<not> te_closed s v) \<and> (\<forall>v \<in> set (te_attached s). v < te_viewers s)"

lemma enqueue_viewers [simp]: "te_viewers (enqueue c f v s) = te_viewers s"
  "te_attached (enqueue c f v s) = te_attached s"
  by (simp_all add: enqueue_def)

lemma fresh_enqueue: "fresh_ok s \<Longrightarrow> v < te_viewers s \<Longrightarrow> fresh_ok (enqueue c f v s)"
  by (auto simp: fresh_ok_def enqueue_def)

lemma fresh_fold:
  "fresh_ok s \<Longrightarrow> \<forall>v \<in> set vs. v < te_viewers s \<Longrightarrow> fresh_ok (fold (enqueue c f) vs s)"
  by (induction vs arbitrary: s) (simp_all add: fresh_enqueue)

lemma fresh_backlog: "fresh_ok s \<Longrightarrow> v < te_viewers s \<Longrightarrow> fresh_ok (fold (\<lambda>f. enqueue c f v) fs s)"
  by (induction fs arbitrary: s) (simp_all add: fresh_enqueue)

lemma fresh_broadcast: "fresh_ok s \<Longrightarrow> fresh_ok (broadcast c f s)"
  by (simp add: broadcast_def fresh_fold fresh_ok_def [of s])

lemma fresh_respond: "fresh_ok s \<Longrightarrow> v < te_viewers s \<Longrightarrow> fresh_ok (respond c v i a s)"
  by (simp add: respond_def fresh_enqueue)

lemma fresh_resolution: "fresh_ok s \<Longrightarrow> fresh_ok (emitAskResolution c i r s)"
  by (simp add: emitAskResolution_def fresh_broadcast)

lemma fresh_update [simp]:
  "fresh_ok (s\<lparr>te_responsive := b\<rparr>) = fresh_ok s" "fresh_ok (s\<lparr>te_run_active := b\<rparr>) = fresh_ok s"
  "fresh_ok (s\<lparr>te_perm_seq := n\<rparr>) = fresh_ok s" "fresh_ok (s\<lparr>te_stopped := b\<rparr>) = fresh_ok s"
  "fresh_ok (s\<lparr>te_run_session := r\<rparr>) = fresh_ok s" "fresh_ok (s\<lparr>te_perms := ps\<rparr>) = fresh_ok s"
  "fresh_ok (s\<lparr>te_pending := fs\<rparr>) = fresh_ok s" "fresh_ok (s\<lparr>te_parked := qs\<rparr>) = fresh_ok s"
  "fresh_ok (s\<lparr>te_replay := rs\<rparr>) = fresh_ok s" "fresh_ok (s\<lparr>te_replay_keys := ks\<rparr>) = fresh_ok s"
  by (simp_all add: fresh_ok_def)

lemma fresh_emit: "fresh_ok s \<Longrightarrow> fresh_ok (emitRunFrame c m u k s)"
  by (auto simp: emitRunFrame_def record_replay_def Let_def fresh_broadcast split: option.splits prod.splits)

lemma fresh_frame: "client_frame c v data s = (r, s') \<Longrightarrow> fresh_ok s \<Longrightarrow> v < te_viewers s \<Longrightarrow> fresh_ok s'"
  by (auto simp: client_frame_def interceptRunFrame_def resolveAsk_def Let_def fresh_respond fresh_resolution
      split: option.splits if_splits)

lemma backlog_viewers [simp]: "te_viewers (fold (\<lambda>f. enqueue c f v) fs s) = te_viewers s"
  by (induction fs arbitrary: s) simp_all

lemma accept_fresh: "fresh_ok s \<Longrightarrow> fresh_ok (snd (accept_viewer c s))"
  by (auto simp: accept_viewer_def Let_def intro!: fresh_backlog) (auto simp: fresh_ok_def)

lemma step_fresh:
  assumes "tee_step c s e s'" and b: "fresh_ok s"
  shows "fresh_ok s'"
  using assms(1)
proof (cases rule: tee_step.cases)
  case (FromViewer v data r)
  then show ?thesis using fresh_frame b by blast
next
  case (SteerReply v i reply)
  then show ?thesis using b by (simp add: relaySteer_def fresh_respond)
next
  case Accept
  then show ?thesis using b accept_fresh by simp
next
  case (Attach v)
  then show ?thesis using b by (auto simp: addViewer_def fresh_ok_def)
next
  case (Detach v)
  then show ?thesis using b by (auto simp: removeViewer_def fresh_ok_def)
next
  case (Shutdown v)
  then show ?thesis using b by (auto simp: shutdown_viewer_def fresh_ok_def)
next
  case (Write v)
  then show ?thesis using b by (auto simp: write_next_def fresh_ok_def)
qed (use b in \<open>auto simp: ask_permission_def ask_elicitation_def begin_ask_def ask_answered_def ask_stopped_def
      ask_timed_out_def tee_notification_def upstream_frame_def EmitRunUpdate_def EmitRunNotice_def close_ask_def
      stop_tee_def AttachRun_def SetRunActive_def Let_def fresh_broadcast fresh_resolution fresh_enqueue fresh_emit
      split: if_splits option.splits\<close>)

lemma trace_bounded: "tee_trace c es s \<Longrightarrow> bounded c s \<and> fresh_ok s"
proof (induction rule: tee_trace.induct)
  case Begin
  then show ?case by (simp add: new_tee_def bounded_def queues_ok_def replay_ok_def fresh_ok_def)
next
  case (Then es s e s')
  then show ?case using step_bounded step_fresh by blast
qed

lemma backlog_queued:
  "\<not> te_closed s v \<Longrightarrow> int (length (te_queue s v) + length fs) \<le> tc_queue_cap c \<Longrightarrow>
    te_queue (fold (\<lambda>f. enqueue c f v) fs s) v = te_queue s v @ fs \<and>
    \<not> te_closed (fold (\<lambda>f. enqueue c f v) fs s) v"
  by (induction fs arbitrary: s) (auto simp: enqueue_def)

lemma backlog_full:
  "te_closed s v \<or> tc_queue_cap c < int (length (te_queue s v) + length fs) \<Longrightarrow>
    int (length (te_queue s v)) \<le> tc_queue_cap c \<Longrightarrow> te_closed (fold (\<lambda>f. enqueue c f v) fs s) v"
proof (induction fs arbitrary: s)
  case (Cons f fs)
  show ?case unfolding fold_simps
    by (rule Cons.IH) (use Cons.prems in \<open>auto simp: enqueue_def\<close>)
qed auto

lemma enqueue_own: "te_closed (enqueue c f v s) v \<or> te_queue (enqueue c f v s) v = te_queue s v @ [f]"
  by (simp add: enqueue_def)

lemma enqueue_other: "v \<noteq> w \<Longrightarrow> te_closed (enqueue c f v s) w = te_closed s w \<and> te_queue (enqueue c f v s) w = te_queue s w"
  by (simp add: enqueue_def)

lemma fold_enqueue_other:
  "w \<notin> set vs \<Longrightarrow> te_closed (fold (enqueue c f) vs s) w = te_closed s w \<and>
     te_queue (fold (enqueue c f) vs s) w = te_queue s w"
  by (induction vs arbitrary: s) (auto simp: enqueue_other)

lemma fold_enqueue_reaches:
  "distinct vs \<Longrightarrow> w \<in> set vs \<Longrightarrow>
     te_closed (fold (enqueue c f) vs s) w \<or> te_queue (fold (enqueue c f) vs s) w = te_queue s w @ [f]"
proof (induction vs arbitrary: s)
  case (Cons v vs)
  show ?case
  proof (cases "v = w")
    case True
    with Cons.prems(1) enqueue_own [of c f w s] show ?thesis by (simp add: fold_enqueue_other)
  next
    case False
    with Cons.prems Cons.IH [of "enqueue c f v s"] enqueue_other [OF False, of c f s] show ?thesis by simp
  qed
qed simp

lemma ask_reaches_attached:
  assumes "bounded c s" and "begin_ask c kind m params s = (Some i, s')" and "w \<in> set (te_attached s)"
  shows "te_closed s' w \<or> te_queue s' w = te_queue s w @ [ask_frame i m params]"
proof -
  obtain t where "s' = fold (enqueue c (ask_frame i m params)) (te_attached s) t" "te_queue t = te_queue s"
    using assms(2) by (auto simp: begin_ask_def Let_def broadcast_def split: if_splits)
  then show ?thesis
    using assms(1,3) fold_enqueue_reaches [of "te_attached s" w c "ask_frame i m params" t] by (simp add: bounded_def)
qed


section \<open>The run's session\<close>

definition names_run :: "tee_state \<Rightarrow> rpc_frame \<Rightarrow> bool" where
  "names_run s f \<longleftrightarrow>
     (\<exists>sid. te_run_session s = Some sid \<and> sid \<noteq> [] \<and> unmarshal_raw decode_session_id (fr_params f) = Some sid)"

definition run_of :: "tee_state \<Rightarrow> string option \<times> bool \<times> json list" where
  "run_of s = (te_run_session s, te_run_active s, te_replay s)"

lemma run_others: "others_of s = others_of t \<Longrightarrow> run_of s = run_of t"
  by (simp add: others_of_def run_of_def)

lemma run_responsive [simp]: "run_of (s\<lparr>te_responsive := b\<rparr>) = run_of s"
  by (simp add: run_of_def)

lemma run_resolve: "run_of (resolveAsk c i a s) = run_of s"
  using run_others [OF resolution_keeps(2)]
  by (auto simp: resolveAsk_def Let_def run_of_def split: option.splits)

lemma intercept_run: "interceptRunFrame c v data s = (r, s') \<Longrightarrow> run_of s' = run_of s"
  using run_others [OF respond_keeps(2)]
  by (auto simp: interceptRunFrame_def split: option.splits if_splits)

text \<open>
  The frames of a viewer that matter: a reply to the ask \<open>i\<close> of the relay with the result \<open>x\<close>, and a frame that
  names the session of the run, by its method, id and parameters.
\<close>

definition replies_to :: "json \<Rightarrow> string \<Rightarrow> json option \<Rightarrow> bool" where
  "replies_to data i x \<longleftrightarrow>
     (\<exists>f t. viewer_frame data = Some f \<and> fr_method f = [] \<and> fr_result f = x \<and>
        unmarshal_raw (\<lambda>v. decode_string v []) (fr_id f) = Some i \<and> (i = ''kperm-'' @ t \<or> i = ''kask-'' @ t))"

definition for_run :: "tee_state \<Rightarrow> json \<Rightarrow> string \<Rightarrow> json option \<Rightarrow> json option \<Rightarrow> bool" where
  "for_run s data m i p \<longleftrightarrow>
     (\<exists>f. viewer_frame data = Some f \<and> fr_method f = m \<and> fr_id f = i \<and> fr_params f = p \<and> names_run s f)"

lemma answers_replies: "harnessAskAnswer data = Some (i, x) \<longleftrightarrow> replies_to data i x"
  by (auto simp: harnessAskAnswer_def replies_to_def has_prefix_iff split: option.splits if_splits)

lemma replies_not_for_run: "replies_to data i x \<Longrightarrow> for_run s data m j p \<Longrightarrow> m = []"
  by (auto simp: replies_to_def for_run_def)

lemma intercept_other:
  "viewer_frame data = None \<or> viewer_frame data = Some f \<and> \<not> names_run s f \<Longrightarrow>
     interceptRunFrame c v data s = (PassOn, s)"
  by (auto simp: interceptRunFrame_def names_run_def split: option.splits)

lemma intercept_own:
  assumes "viewer_frame data = Some f" and "names_run s f"
  shows "fst (interceptRunFrame c v data s) =
    (if fr_method f = steerMethod \<and> fr_id f \<noteq> None
     then if tc_steer_enabled c then Steer (the (fr_id f)) (raw_value (fr_params f)) else Consumed
     else if fr_method f = ''session/cancel''
     then if tc_steer_enabled c then CancelRun (raw_value (fr_params f)) else Consumed
     else if fr_method f = ''session/prompt'' \<and> fr_id f \<noteq> None \<and> te_run_active s then Consumed else PassOn)"
  using assms by (auto simp: interceptRunFrame_def names_run_def steerMethod_def split: option.splits)

lemma intercept_guard:
  assumes "interceptRunFrame c v data s = (r, s')"
  shows "(\<forall>i p. r = Steer i p \<longleftrightarrow>
       tc_steer_enabled c \<and> (\<exists>q. for_run s data steerMethod (Some i) q \<and> p = raw_value q)) \<and>
     (\<forall>p. r = CancelRun p \<longleftrightarrow>
       tc_steer_enabled c \<and> (\<exists>i q. for_run s data ''session/cancel'' i q \<and> p = raw_value q)) \<and>
     (r = PassOn \<longleftrightarrow>
       \<not> (\<exists>i q. for_run s data steerMethod (Some i) q) \<and> \<not> (\<exists>i q. for_run s data ''session/cancel'' i q) \<and>
       \<not> (te_run_active s \<and> (\<exists>i q. for_run s data ''session/prompt'' (Some i) q)))"
proof (cases "\<exists>f. viewer_frame data = Some f \<and> names_run s f")
  case False
  then have "r = PassOn"
    using assms intercept_other [of data _ s c v] by (cases "viewer_frame data") auto
  with False show ?thesis by (auto simp: for_run_def)
next
  case True
  then obtain f where f: "viewer_frame data = Some f" "names_run s f" by blast
  then have own: "for_run s data m i p \<longleftrightarrow> fr_method f = m \<and> fr_id f = i \<and> fr_params f = p" for m i p
    by (auto simp: for_run_def)
  show ?thesis
    using intercept_own [OF f, of c v, unfolded assms fst_conv]
    by (cases "fr_id f") (auto simp: own steerMethod_def split: if_splits)
qed

lemma intercept_parked: "interceptRunFrame c v data s = (r, s') \<Longrightarrow>
    parked_as s' = parked_as s \<and> te_perms s' = te_perms s"
  using intercept_asks parked_as_cong by (metis asks_of_def prod.inject)

lemma resolve_parked:
  "parked_as (resolveAsk c i x s) j =
     (if j = i \<and> i \<in> set (te_perms s) \<and> x \<noteq> None then map_option (\<lambda>_. x) (parked_as s j) else parked_as s j) \<and>
   set (te_perms (resolveAsk c i x s)) = set (te_perms s) - (if x = None then {} else {i})"
proof -
  have e: "parked_as (emitAskResolution c i r t) = parked_as t \<and> te_perms (emitAskResolution c i r t) = te_perms t"
    for r t using resolution_keeps(1) [of c i r t] parked_as_cong by (metis asks_of_def prod.inject)
  have p: "parked_as (s\<lparr>te_responsive := b, te_perms := ps, te_pending := qs, te_parked := fill_channel i a (te_parked s)\<rparr>) k =
      (if k = i then map_option (\<lambda>_. Some a) (parked_as s k) else parked_as s k)" "parked_as (s\<lparr>te_responsive := b\<rparr>) = parked_as s"
    for b ps qs a k by (auto simp: parked_as_def map_of_fill fun_eq_iff option.map_comp o_def split_beta)
  show ?thesis by (cases x) (auto simp: resolveAsk_def Let_def e p)
qed

lemma attached_others: "others_of s = others_of t \<Longrightarrow> te_attached s = te_attached t"
  by (simp add: others_of_def)

lemma resolve_attached: "te_attached (resolveAsk c i x s) = te_attached s"
  using attached_others [OF resolution_keeps(2)] by (auto simp: resolveAsk_def Let_def split: option.splits)

lemma intercept_attached: "interceptRunFrame c v data s = (r, s') \<Longrightarrow> te_attached s' = te_attached s"
  using attached_others [OF respond_keeps(2)]
  by (auto simp: interceptRunFrame_def split: option.splits if_splits)


section \<open>Samples\<close>

definition small_tee :: tee_config where
  "small_tee = \<lparr>tc_secret = ''k'', tc_hitl_timeout = 60000000000, tc_queue_cap = 4, tc_steer_enabled = True\<rparr>"

text \<open>A viewer attaches, the agent asks, the viewer answers.\<close>

definition sample_answer :: json where
  "sample_answer = JObj [(''id'', JStr ''kask-1''), (''result'', JBool True)]"

definition watched_tee :: tee_state where
  "watched_tee = snd (addViewer 0 (snd (accept_viewer small_tee new_tee)))"

definition asked_tee :: tee_state where
  "asked_tee = snd (ask_elicitation small_tee None watched_tee)"

definition answered_tee :: tee_state where
  "answered_tee = snd (client_frame small_tee 0 sample_answer asked_tee)"

lemma watched_simps [simp]:
  "te_viewers watched_tee = 1" "te_attached watched_tee = [0]" "te_responsive watched_tee" "\<not> te_stopped watched_tee"
  "te_perm_seq watched_tee = 0" "te_perms watched_tee = []" "te_parked watched_tee = []" "te_pending watched_tee = []"
  "te_queue watched_tee = (\<lambda>_. [])" "\<not> te_closed watched_tee v" "te_replay watched_tee = []"
  by (simp_all add: watched_tee_def addViewer_def accept_viewer_def new_tee_def Let_def)

lemma first_ask_id: "ask_id ''kask'' (Suc 0) = ''kask-1''"
  by (simp add: ask_id_def nat_text_small)

lemma asked_event: "ask_elicitation small_tee None watched_tee = (Some ''kask-1'', asked_tee)"
  unfolding asked_tee_def by (simp add: ask_elicitation_def begin_ask_def first_ask_id Let_def)

lemma asked_simps [simp]:
  "te_viewers asked_tee = 1" "te_perms asked_tee = [''kask-1'']" "te_replay asked_tee = []"
  "te_pending asked_tee = [(''kask-1'', ask_frame ''kask-1'' ''elicitation/create'' None)]"
  unfolding asked_tee_def
  by (simp_all add: ask_elicitation_def begin_ask_def first_ask_id Let_def broadcast_def enqueue_def)

lemma sample_answer_frame:
  "viewer_frame sample_answer = Some (zero_frame\<lparr>fr_id := Some (JStr ''kask-1''), fr_result := Some (JBool True)\<rparr>)"
  by (simp add: sample_answer_def viewer_frame_def decode_struct_def struct_field_def zero_frame_def decode_string_def)

lemma sample_answers: "harnessAskAnswer sample_answer = Some (''kask-1'', Some (JBool True))"
  by (simp add: harnessAskAnswer_def sample_answer_frame zero_frame_def decode_string_def has_prefix_def)

lemma answered_event: "client_frame small_tee 0 sample_answer asked_tee = (Consumed, answered_tee)"
  unfolding answered_tee_def by (simp add: client_frame_def sample_answers)

definition sample_events :: "tee_event list" where
  "sample_events = [Quiet, Quiet, Asked (Some ''kask-1''), Frame 0 sample_answer Consumed]"

lemma asked_trace: "tee_trace small_tee [Quiet, Quiet, Asked (Some ''kask-1'')] asked_tee"
proof -
  let ?s = "snd (accept_viewer small_tee new_tee)"
  have "tee_trace small_tee [Quiet] ?s" using Then [OF Begin Accept] by simp
  moreover have "tee_step small_tee ?s Quiet watched_tee"
    unfolding watched_tee_def by (rule Attach) (simp add: accept_viewer_def new_tee_def)
  ultimately have "tee_trace small_tee [Quiet, Quiet] watched_tee" using Then by fastforce
  from Then [OF this Elicitation [OF asked_event]] show ?thesis by simp
qed

lemma answered_trace: "tee_trace small_tee sample_events answered_tee"
  using Then [OF asked_trace FromViewer [OF _ answered_event]] by (simp add: sample_events_def)

theorem asks_refine_life_witness:
  "ask_run ''kask-1'' Unasked sample_events = Some (Holding (JBool True)) \<and>
     ask_answered ''kask-1'' answered_tee = Some (JBool True, close_ask ''kask-1'' answered_tee)"
proof -
  have "ask_run ''kask-1'' Unasked sample_events = Some (Holding (JBool True))"
    by (simp add: sample_events_def viewer_answer_to_def sample_answers)
  with asks_refine_life [OF answered_trace, of "''kask-1''"] show ?thesis by auto
qed

lemma small_is_default: "small_tee = tee_defaults small_tee"
  by (simp add: small_tee_def tee_defaults_def)


text \<open>
  Between the snapshot of what waits and the registration of a viewer an ask can slip through: it is offered to
  the viewers registered already, waits, and is in no queue of the viewer that is attached now.
\<close>

definition late_viewer :: tee_state where
  "late_viewer = snd (addViewer 1 (snd (ask_elicitation small_tee None (snd (accept_viewer small_tee watched_tee)))))"

lemma ask_missed_while_attaching:
  "te_attached late_viewer = [1, 0] \<and> te_perms late_viewer = [''kask-1''] \<and>
     te_queue late_viewer 0 \<noteq> [] \<and> te_queue late_viewer 1 = []"
  by (simp add: late_viewer_def addViewer_def ask_elicitation_def begin_ask_def accept_viewer_def first_ask_id
      broadcast_def enqueue_def small_tee_def Let_def)

definition steer_frame :: json where
  "steer_frame = JObj [(''id'', JStr ''q1''), (''method'', JStr steerMethod),
     (''params'', JObj [(''sessionId'', JStr ''run'')])]"


end
