(* ===== verification/Spec2Isabelle.thy ===== *)
theory Spec2Isabelle
  imports RunProperties WorkflowProperties GatewayProperties SkillCollectionProperties SkillCard
    SkillFormatProperties SkillHandover MaterializeProperties SessionProperties WsClient StageHandover TeeProperties
begin

text \<open>
  A verification library for the agentic controller: Kubernetes reconcilers that run coding agents in
  sandboxes, alone (\<open>AgentRun\<close>) or as the stages of a workflow (\<open>AgentWorkflowRun\<close>), and keep the readiness of
  what a run refers to: model gateways, skill cards and collections, agents and workflow templates.  The
  sources are the Go files under \<open>src/\<close>; names of definitions are those of the code wherever one function
  is one definition.

  \<^bold>\<open>How the program is modelled.\<close>  A reconciler reads objects, decides, and writes.  Everything it asks of
  its environment (the API client with its cached and uncached reads, the clock, the random source) is a
  field of a record (\<^typ>\<open>'w run_client\<close> and its kin, one per reconciler) over an abstract state of the
  world, so that every theorem holds for every sequence of answers, failures included.  A reconcile is a
  decision on the object that was read, an \<open>outcome\<close>, and its execution.  The pure functions it calls in third-party
  packages (the condition list of apimachinery, name validation, owner references) are fields of the
  record \<^typ>\<open>klib\<close>; what is relied on of them is named in \<open>conditions_ok\<close> and \<open>owners_ok\<close>.  What the code uses
  of the Go standard library is defined: UTF-8 decoding (\<open>Utf8\<close>), SHA-256 (\<open>Sha256\<close>), reading and printing
  of floating-point numbers (\<open>Float64\<close>), JSON (\<open>Json\<close>), path cleaning (\<open>Paths\<close>).  Errors are values: \<^typ>\<open>'a res\<close>
  is a sum of an error, which keeps the kind that the code tests, and a result.  A message is a term of
  format string and arguments (\<^typ>\<open>msg\<close>), since only its emptiness matters to the code.  Times are whole
  nanoseconds as integers; object generations, sizes and exit codes are integers, because the code does
  not compute with them beyond comparison.

  \<^bold>\<open>Theories\<close>, in the order of the code:

  \<^item> \<open>Prelude\<close>, \<open>Utf8\<close>, \<open>Sha256\<close>, \<open>Float64\<close>, \<open>Json\<close>: messages and errors, strings, numbers, encodings.
  \<^item> \<open>Kube\<close>: object metadata, conditions, pods, sandboxes, config maps, reconcile results, labels
    (\<open>internal/controller/doc.go\<close>).  \<open>ApiTypes\<close>: the custom resources (\<open>api/v1alpha1\<close>).
  \<^item> \<open>Execution\<close>, \<open>Params\<close>: \<open>execution.go\<close> and \<open>params.go\<close>, resolution of limits, coercion of parameters,
    substitution of references, the parameter file.
  \<^item> \<open>Names\<close>: \<open>sanitizeVolumeName\<close> and the names derived with it; the locale \<open>object_names\<close> is the contract
    of such a renaming, interpreted for it.
  \<^item> \<open>RunClient\<close>: the environment of the \<open>AgentRun\<close> reconciler.
  \<^item> \<open>Paths\<close>, \<open>FileMounts\<close>: cleaned paths, the checks of user file mounts; the locale \<open>mount_tree\<close> states what
    a check needs of the path order, and is interpreted for cleaned absolute paths.
  \<^item> \<open>RunValidation\<close>, \<open>Skills\<close>, \<open>Sandbox\<close>: the functions of \<open>agentrun_controller.go\<close> between a run and its
    sandbox: validation, skill staging, environment, volumes, containers.
  \<^item> \<open>RunStatus\<close>: phase and conditions from the sandbox and its pod.  \<open>RunCleanup\<close>: \<open>run_cleanup.go\<close>.
  \<^item> \<open>Ttl\<close>: outcomes and how they are carried out, the confirmation before a sweep, and the locale \<open>ttl_gc\<close>,
    the contract of garbage collection after a time to live, interpreted for both kinds of run.
  \<^item> \<open>AgentRun\<close>: \<open>Reconcile\<close>, as a decision on the run that was read and its execution.
  \<^item> \<open>RunInvariant\<close>, \<open>RunProperties\<close>: the invariant of a run's status, the step relation, reachable runs and
    the life cycle.
  \<^item> \<open>WorkflowClient\<close>, \<open>WorkflowRun\<close>: \<open>agentworkflowrun_controller.go\<close>: the snapshot of the workflow, the choice
    of the current stage, the agent run created for it, and its outcome.  \<open>WorkflowInvariant\<close>,
    \<open>WorkflowProperties\<close>: an abstract sequencer of stages, the simulation of every reachable workflow run by
    it, and what follows.
  \<^item> \<open>Jobs\<close>, \<open>GatewayProbe\<close>, \<open>Gateway\<close>, \<open>GatewayProperties\<close>: \<open>gateway_controller.go\<close>: the verification Job of a
    gateway, the digest of its credential, the reading of the probe's diagnostic and the settled state.
  \<^item> \<open>Readiness\<close>: the locale \<open>readiness\<close> of an object that is Ready when its references are, and the
    reconcilers of \<open>agent_controller.go\<close> and \<open>agentworkflow_controller.go\<close> as its interpretations.
  \<^item> \<open>SkillCollection\<close>, \<open>SkillCollectionProperties\<close>: \<open>skillcollection_controller.go\<close>, its enumeration Job and the
    identity of the Job (\<open>skillcollection_enumerate.go\<close>, \<open>skillcollection_rbac.go\<close>).
  \<^item> \<open>Text\<close>, \<open>SkillFormat\<close>, \<open>SkillFormatProperties\<close>, \<open>SkillCard\<close>: white space and lower case of UTF-8 text, the
    skill format of \<open>api/skill/frontmatter.go\<close>, and the SkillCard reconciler with its registry check.
  \<^item> \<open>Files\<close>: the calls to the file system, to git and to the environment that the skill loader makes, as records
    over a world.  \<open>SkillCopy\<close>, \<open>SkillLoader\<close>, \<open>SkillWire\<close>, \<open>SkillMaterialize\<close>: \<open>internal/skills\<close> and
    \<open>cmd/skill-loader\<close>: copying a tree and refusing links that leave it, checking and assembling the declared
    sources, the JSON between the controller and the loader, the cards of a collection.
  \<^item> \<open>JsonRoundtrip\<close>: what the JSON writer prints, the decoder reads back.
  \<^item> \<open>SkillCopyProperties\<close>, \<open>SampleFiles\<close>, \<open>SkillLoaderProperties\<close>, \<open>SkillWireProperties\<close>, \<open>SkillHandover\<close>,
    \<open>MaterializeProperties\<close>: a copy as a trace of file operations and the invariant it keeps, a concrete tree of
    files for the witnesses, the order of checks and of sources, the round trips, the loader run on what the
    controller rendered into the pod, and the cards that a collection owns.

  \<^bold>\<open>What the properties show.\<close>  The status of every reachable run is consistent and moves forward only;
  the exit code decides the outcome; a finished sandbox, a fatal start-up reason and an elapsed start-up
  deadline end a run; garbage collection deletes at the due time and never before.  The pod that is
  built is well formed, its commit identity cannot be forged, its mounts do not shadow each other.
  Substitution and coercion do what their comments promise, except where a property records the
  contrary (floating-point rendering, \<open>NaN\<close>, injectivity of names, ambiguous deliveries, a stale
  \<open>ACPReady\<close>, a recorded \<open>null\<close>).  The orphan sweep deletes nothing that another controller owns.  Workflow
  stages run in order, one at a time, from a frozen snapshot.  A gateway is Ready only when this credential
  and generation were verified or cannot be, and a settled one is left alone; agents, templates and
  collections are Ready exactly when what they refer to was; enumerations of one collection never
  overlap; a skill file is split into header and body exactly.  The skill loader reads back the sources the
  controller declared, in their order; it writes nothing before every source passed its check, and then only
  below its destination; a copy follows no link out of its source and refuses a cycle; a materialized
  collection owns exactly the cards of its manifest and adopts no foreign one.

  \<^bold>\<open>Bounds.\<close>  The only fuel is that of the JSON decoder: every call consumes a byte or stands before one,
  so twice the length of the text and two more is enough, and it is what \<open>json_unmarshal\<close> passes.  A copy of a
  directory recurses on \<open>maxCopyDepth\<close>, which is the code's own bound of 32 and an error when it is exceeded.

  \<^bold>\<open>Not modelled.\<close>  Logging, manager set-up and watches' wiring, the cache selector of pods, the rendering of
  messages, the order in which Go ranges over a map (a list stands for one order).  The YAML decoder, the
  registry client and the parser of image references are third-party packages and parameters.  The skill
  loader and the harness are listed in the manifest of the library with what is planned for them.
\<close>

end
